(* ===== verification/Prelude.thy ===== *)
theory Prelude
  imports Complex_Main "HOL-Library.Multiset"
begin

text \<open>
  What the components share: the hint collections of the development, the string and list
  operations of the JavaScript standard library that the sources call, decimal numerals, and the
  interfaces (locales) several components implement: a state machine with an invariant, a
  collection of records removed by key, a bounded newest-first feed, a form whose submit handler
  is guarded, and a score that is graded by thresholds.

  Strings are lists of characters. The sources only apply case folding and pattern tests to
  identifiers, addresses and English labels; \<open>toLowerCase\<close> is modelled on ASCII letters.
\<close>

named_theorems handler_defs \<open>definitions of the handlers of a component\<close>
named_theorems view_defs \<open>definitions of values derived for rendering\<close>
named_theorems string_defs \<open>definitions of string operations, to evaluate them\<close>

section \<open>Strings\<close>

definition starts_with :: "string \<Rightarrow> string \<Rightarrow> bool" where
  [string_defs]: "starts_with p s \<longleftrightarrow> take (length p) s = p"

definition ends_with :: "string \<Rightarrow> string \<Rightarrow> bool" where
  [string_defs]: "ends_with p s \<longleftrightarrow> length p \<le> length s \<and> drop (length s - length p) s = p"

fun str_includes :: "string \<Rightarrow> string \<Rightarrow> bool" where
  "str_includes [] p = (p = [])"
| "str_includes (c # s) p = (starts_with p (c # s) \<or> str_includes s p)"

definition lower_char :: "char \<Rightarrow> char" where
  "lower_char c =
     (case map_of (zip ''ABCDEFGHIJKLMNOPQRSTUVWXYZ'' ''abcdefghijklmnopqrstuvwxyz'') c of
        None \<Rightarrow> c | Some l \<Rightarrow> l)"

definition upper_char :: "char \<Rightarrow> char" where
  "upper_char c =
     (case map_of (zip ''abcdefghijklmnopqrstuvwxyz'' ''ABCDEFGHIJKLMNOPQRSTUVWXYZ'') c of
        None \<Rightarrow> c | Some l \<Rightarrow> l)"

definition to_lower :: "string \<Rightarrow> string" where
  [string_defs]: "to_lower s = map lower_char s"

definition to_upper :: "string \<Rightarrow> string" where
  [string_defs]: "to_upper s = map upper_char s"

definition slice_first :: "nat \<Rightarrow> string \<Rightarrow> string" where
  [string_defs]: "slice_first n s = take n s"

definition slice_last :: "nat \<Rightarrow> string \<Rightarrow> string" where
  [string_defs]: "slice_last n s = drop (length s - n) s"

fun split_on :: "char \<Rightarrow> string \<Rightarrow> string list" where
  "split_on c [] = [[]]"
| "split_on c (x # xs) =
     (if x = c then [] # split_on c xs
      else (case split_on c xs of [] \<Rightarrow> [[x]] | w # ws \<Rightarrow> (x # w) # ws))"

fun join_with :: "string \<Rightarrow> string list \<Rightarrow> string" where
  "join_with sep [] = []"
| "join_with sep [w] = w"
| "join_with sep (w # v # ws) = w @ sep @ join_with sep (v # ws)"

definition is_ws :: "char \<Rightarrow> bool" where
  [string_defs]: "is_ws c \<longleftrightarrow> c \<in> {CHR '' '', CHR 0x09, CHR 0x0A, CHR 0x0B, CHR 0x0C, CHR 0x0D}"

definition str_trim :: "string \<Rightarrow> string" where
  [string_defs]: "str_trim s = rev (dropWhile is_ws (rev (dropWhile is_ws s)))"

lemma split_on_ne [simp]: "split_on c s \<noteq> []"
  by (induction s) (auto split: list.splits)

lemma join_split [simp]: "join_with [c] (split_on c s) = s"
proof (induction s)
  case (Cons x s)
  then show ?case
    by (cases "split_on c s" rule: list.exhaust; cases "tl (split_on c s)") auto
qed simp

lemma split_on_no_sep: "w \<in> set (split_on c s) \<Longrightarrow> c \<notin> set w"
  by (induction s arbitrary: w) (auto split: if_splits list.splits)

lemma split_on_single: "c \<notin> set s \<Longrightarrow> split_on c s = [s]"
  by (induction s) auto

lemma starts_with_refl [simp]: "starts_with p p"
  by (simp add: starts_with_def)

lemma starts_with_append [simp]: "starts_with p (p @ s)"
  by (simp add: starts_with_def)

lemma starts_with_Nil [simp]: "starts_with [] s"
  by (simp add: starts_with_def)

lemma starts_with_iff: "starts_with p s \<longleftrightarrow> (\<exists>r. s = p @ r)"
  by (metis append_take_drop_id starts_with_append starts_with_def)

lemma str_includes_empty: "str_includes s ''''"
  by (cases s) simp_all

lemma str_includes_iff: "str_includes s p \<longleftrightarrow> (\<exists>a b. s = a @ p @ b)"
proof (induction s)
  case (Cons c s)
  show ?case
  proof
    assume "str_includes (c # s) p"
    then consider "starts_with p (c # s)" | "str_includes s p" by auto
    then show "\<exists>a b. c # s = a @ p @ b"
    proof cases
      case 1
      then show ?thesis by (metis append_Nil starts_with_iff)
    next
      case 2
      then show ?thesis by (metis Cons.IH append_Cons)
    qed
  next
    assume "\<exists>a b. c # s = a @ p @ b"
    then obtain a b where ab: "c # s = a @ p @ b" by blast
    show "str_includes (c # s) p"
    proof (cases a)
      case Nil
      with ab have "starts_with p (c # s)" by simp
      then show ?thesis by simp
    next
      case (Cons x xs)
      with ab Cons.IH show ?thesis by auto
    qed
  qed
qed simp

lemma length_to_lower [simp]: "length (to_lower s) = length s"
  by (simp add: to_lower_def)

lemma count_list_distinct: "distinct xs \<Longrightarrow> x \<in> set xs \<Longrightarrow> count_list xs x = 1"
  by (induction xs) (auto simp: count_list_0_iff)

section \<open>Decimal numerals\<close>

definition digit_char :: "nat \<Rightarrow> char" where
  "digit_char n = ''0123456789'' ! n"

definition is_digit :: "char \<Rightarrow> bool" where
  [string_defs]: "is_digit c \<longleftrightarrow> c \<in> set ''0123456789''"

definition digit_val :: "char \<Rightarrow> nat" where
  "digit_val c = (case map_of (zip ''0123456789'' [0..<10]) c of None \<Rightarrow> 0 | Some n \<Rightarrow> n)"

lemma less_10_cases: "(n::nat) < 10 \<Longrightarrow> n \<in> {0,1,2,3,4,5,6,7,8,9}"
  by auto

lemma digit_val_char [simp]: "n < 10 \<Longrightarrow> digit_val (digit_char n) = n"
  by (drule less_10_cases) (auto simp: digit_val_def digit_char_def upt_rec)

lemma is_digit_char [simp]: "n < 10 \<Longrightarrow> is_digit (digit_char n)"
  by (drule less_10_cases) (auto simp: is_digit_def digit_char_def)

fun show_nat :: "nat \<Rightarrow> string" where
  "show_nat n = (if n < 10 then [digit_char n] else show_nat (n div 10) @ [digit_char (n mod 10)])"

declare show_nat.simps [simp del]

definition show_int :: "int \<Rightarrow> string" where
  [string_defs]: "show_int i = (if i < 0 then ''-'' @ show_nat (nat (- i)) else show_nat (nat i))"

definition read_nat :: "string \<Rightarrow> nat" where
  [string_defs]: "read_nat s = foldl (\<lambda>a c. a * 10 + digit_val c) 0 s"

lemma show_nat_ne [simp]: "show_nat n \<noteq> []"
  by (subst show_nat.simps) simp

lemma show_nat_digits: "list_all is_digit (show_nat n)"
proof (induction n rule: show_nat.induct)
  case (1 n)
  then show ?case by (subst show_nat.simps) simp
qed

lemma read_nat_append: "read_nat (s @ [c]) = read_nat s * 10 + digit_val c"
  by (simp add: read_nat_def)

lemma read_nat_show [simp]: "read_nat (show_nat n) = n"
proof (induction n rule: show_nat.induct)
  case (1 n)
  show ?case
  proof (cases "n < 10")
    case True
    then show ?thesis by (subst show_nat.simps) (simp add: read_nat_def)
  next
    case False
    with 1 show ?thesis by (subst show_nat.simps) (simp add: read_nat_append)
  qed
qed

lemma show_nat_inject [simp]: "show_nat m = show_nat n \<longleftrightarrow> m = n"
  by (metis read_nat_show)

lemma read_nat_zeros [simp]: "read_nat (replicate k (CHR ''0'') @ s) = read_nat s"
proof -
  have "foldl (\<lambda>a c. a * 10 + digit_val c) 0 (replicate k (CHR ''0'')) = 0"
    by (induction k) (auto simp: digit_val_def upt_rec)
  then show ?thesis by (simp add: read_nat_def)
qed

section \<open>Interfaces\<close>

text \<open>
  A component with handlers. \<open>ok e s\<close> is what the environment guarantees when event \<open>e\<close> happens in
  state \<open>s\<close> (a fresh random identifier, a timer that was set); under it every handler keeps the
  invariant, so every sequence of handler calls does. A sequence of events is folded over the
  state, first event first.
\<close>

fun legal_run :: "('e \<Rightarrow> 's \<Rightarrow> 's) \<Rightarrow> ('e \<Rightarrow> 's \<Rightarrow> bool) \<Rightarrow> 'e list \<Rightarrow> 's \<Rightarrow> bool" where
  "legal_run step ok [] s = True"
| "legal_run step ok (e # es) s = (ok e s \<and> legal_run step ok es (step e s))"

locale guarded_machine =
  fixes step :: "'e \<Rightarrow> 's \<Rightarrow> 's" and ok :: "'e \<Rightarrow> 's \<Rightarrow> bool" and inv :: "'s \<Rightarrow> bool"
    and init :: 's
  assumes inv_init: "inv init"
    and inv_step_ok: "inv s \<Longrightarrow> ok e s \<Longrightarrow> inv (step e s)"
begin

lemma inv_legal: "inv s \<Longrightarrow> legal_run step ok es s \<Longrightarrow> inv (fold step es s)"
  by (induction es arbitrary: s) (auto intro: inv_step_ok)

lemma inv_legal_init: "legal_run step ok es init \<Longrightarrow> inv (fold step es init)"
  by (rule inv_legal, rule inv_init)

end

text \<open>A component whose handlers keep the invariant whatever the environment does.\<close>

locale state_machine =
  fixes step :: "'e \<Rightarrow> 's \<Rightarrow> 's" and inv :: "'s \<Rightarrow> bool" and init :: 's
  assumes init_ok: "inv init"
    and inv_step: "inv s \<Longrightarrow> inv (step e s)"

lemma legal_run_True: "legal_run step (\<lambda>_ _. True) es s"
  by (induction es arbitrary: s) auto

sublocale state_machine \<subseteq> free: guarded_machine step "\<lambda>_ _. True" inv init
  by unfold_locales (auto intro: init_ok inv_step)

context state_machine
begin

lemma inv_run: "inv s \<Longrightarrow> inv (fold step es s)"
  by (rule free.inv_legal[OF _ legal_run_True])

lemma inv_reachable: "inv (fold step es init)"
  by (rule inv_run, rule init_ok)

end

text \<open>
  A collection of records from which all records with a given key are removed; the rest keeps
  its order.
\<close>

locale keyed_collection =
  fixes key :: "'a \<Rightarrow> 'k" and items :: "'s \<Rightarrow> 'a list" and remove :: "'k \<Rightarrow> 's \<Rightarrow> 's"
  assumes items_remove: "items (remove k s) = filter (\<lambda>x. key x \<noteq> k) (items s)"
begin

lemma removed: "x \<in> set (items (remove k s)) \<Longrightarrow> key x \<noteq> k"
  by (simp add: items_remove)

lemma keys_remove: "key ` set (items (remove k s)) = key ` set (items s) - {k}"
  by (auto simp: items_remove)

lemma remove_absent: "k \<notin> key ` set (items s) \<Longrightarrow> items (remove k s) = items s"
  by (auto simp: items_remove filter_id_conv)

lemma remove_idem: "items (remove k (remove k s)) = items (remove k s)"
  by (simp add: items_remove)

lemma remove_commute: "items (remove k (remove l s)) = items (remove l (remove k s))"
  by (simp add: items_remove conj_commute)

lemma distinct_remove: "distinct (map key (items s)) \<Longrightarrow> distinct (map key (items (remove k s)))"
  by (simp add: items_remove distinct_map_filter)

lemma length_remove_le: "length (items (remove k s)) \<le> length (items s)"
  by (simp add: items_remove)

end

text \<open>A collection into which records with fresh keys are added as well.\<close>

locale keyed_store = keyed_collection key items remove
  for key :: "'a \<Rightarrow> 'k" and items :: "'s \<Rightarrow> 'a list" and remove :: "'k \<Rightarrow> 's \<Rightarrow> 's" +
  fixes add :: "'a \<Rightarrow> 's \<Rightarrow> 's"
  assumes set_items_add: "mset (items (add x s)) = add_mset x (mset (items s))"
begin

lemma added: "x \<in> set (items (add x s))"
  by (metis set_items_add set_mset_mset union_single_eq_member)

lemma keys_add: "key ` set (items (add x s)) = insert (key x) (key ` set (items s))"
  by (metis image_insert set_items_add set_mset_add_mset_insert set_mset_mset)

lemma distinct_add:
  assumes "distinct (map key (items s))" "key x \<notin> key ` set (items s)"
  shows "distinct (map key (items (add x s)))"
proof -
  have "mset (map key (items (add x s))) = mset (key x # map key (items s))"
    by (simp add: set_items_add)
  then have "distinct (map key (items (add x s))) = distinct (key x # map key (items s))"
    by (rule mset_eq_imp_distinct_iff)
  with assms show ?thesis by simp
qed

lemma add_then_remove:
  assumes "key x \<notin> key ` set (items s)"
  shows "mset (items (remove (key x) (add x s))) = mset (items s)"
proof -
  have "filter_mset (\<lambda>y. key y \<noteq> key x) (mset (items s)) = mset (items s)"
    using assms by (simp add: filter_mset_eq_conv image_iff) (metis)
  then show ?thesis by (simp add: items_remove set_items_add)
qed

end

text \<open>A feed that puts the newest record first and keeps at most \<open>cap\<close> records.\<close>

locale bounded_feed =
  fixes push :: "'a \<Rightarrow> 'a list \<Rightarrow> 'a list" and cap :: nat
    and keep :: "'a \<Rightarrow> 'a \<Rightarrow> bool"
  assumes push_eq: "push x xs = take cap (x # filter (keep x) xs)"
    and cap_pos: "0 < cap"
begin

lemma push_bound: "length (push x xs) \<le> cap"
  by (simp add: push_eq)

lemma push_newest: "\<exists>rest. push x xs = x # rest"
  using cap_pos by (cases cap) (auto simp: push_eq)

lemma push_subset: "set (push x xs) \<subseteq> insert x (set xs)"
  using set_take_subset[of cap "x # filter (keep x) xs"] by (auto simp: push_eq)

lemma run_bound: "length xs \<le> cap \<Longrightarrow> length (fold push es xs) \<le> cap"
  by (induction es arbitrary: xs) (auto simp: push_bound)

end

text \<open>
  A form: \<open>submit\<close> returns the request the handler sends, if it sends one; \<open>ok\<close> is the condition
  the handler promises of every form it sends.
\<close>

locale guarded_form =
  fixes submit :: "'s \<Rightarrow> 'r option" and ok :: "'s \<Rightarrow> bool"
  assumes submit_ok: "submit s = Some r \<Longrightarrow> ok s"
begin

lemma not_ok_no_request: "\<not> ok s \<Longrightarrow> submit s = None"
  using submit_ok by (cases "submit s") auto

lemma requests_ok: "r \<in> set (List.map_filter submit ss) \<Longrightarrow> \<exists>s \<in> set ss. submit s = Some r \<and> ok s"
  using submit_ok by (fastforce simp: List.map_filter_def)

end

text \<open>Grading a score by thresholds: a higher score never has a lower grade.\<close>

locale grading =
  fixes grade :: "'n::linorder \<Rightarrow> 'g::linorder"
  assumes grade_mono: "a \<le> b \<Longrightarrow> grade a \<le> grade b"
begin

lemma grade_strict: "grade a < grade b \<Longrightarrow> a < b"
  using grade_mono[of b a] by (meson leD leI)

lemma grade_between: "a \<le> b \<Longrightarrow> b \<le> c \<Longrightarrow> grade a = grade c \<Longrightarrow> grade b = grade a"
  using grade_mono[of a b] grade_mono[of b c] by simp

lemma grade_le_max: "x \<in> set xs \<Longrightarrow> grade x \<le> grade (Max (set xs))"
  by (rule grade_mono) simp

end

end
