(* ===== verification/JsValue.thy ===== *)
theory JsValue
  imports Prelude
begin

text \<open>
  JavaScript numbers and values. A number is NaN, an infinity or a rational: the rounding of
  binary64 arithmetic is not modelled, so arithmetic is exact here, while NaN and the infinities
  behave as in the language (a comparison with NaN is false, \<open>parseFloat("abc")\<close> is NaN, and
  \<open>NaN || 0\<close> is 0). There is no negative zero: no source line of the model divides by a zero or
  otherwise tells the two zeros apart. \<open>parseFloat\<close>, \<open>parseInt\<close>, \<open>Number\<close>, \<open>toFixed\<close>,
  \<open>Math.floor\<close> and \<open>Math.round\<close> follow ECMA-262; \<open>toFixed\<close> is used below \<open>10 ^ 21\<close> only.
\<close>

section \<open>Numbers\<close>

datatype jsnum = NaN | NegInf | PosInf | Fin rat

abbreviation js_int :: "int \<Rightarrow> jsnum" where
  "js_int i \<equiv> Fin (of_int i)"

fun js_lt :: "jsnum \<Rightarrow> jsnum \<Rightarrow> bool" where
  "js_lt (Fin a) (Fin b) = (a < b)"
| "js_lt NaN _ = False"
| "js_lt _ NaN = False"
| "js_lt NegInf b = (b \<noteq> NegInf)"
| "js_lt (Fin a) b = (b = PosInf)"
| "js_lt PosInf _ = False"

definition js_le :: "jsnum \<Rightarrow> jsnum \<Rightarrow> bool" where
  "js_le a b \<longleftrightarrow> a \<noteq> NaN \<and> b \<noteq> NaN \<and> \<not> js_lt b a"

definition js_eq :: "jsnum \<Rightarrow> jsnum \<Rightarrow> bool" where
  "js_eq a b \<longleftrightarrow> a \<noteq> NaN \<and> a = b"

fun js_neg :: "jsnum \<Rightarrow> jsnum" where
  "js_neg NaN = NaN"
| "js_neg NegInf = PosInf"
| "js_neg PosInf = NegInf"
| "js_neg (Fin a) = Fin (- a)"

fun js_add :: "jsnum \<Rightarrow> jsnum \<Rightarrow> jsnum" where
  "js_add (Fin a) (Fin b) = Fin (a + b)"
| "js_add NaN _ = NaN"
| "js_add _ NaN = NaN"
| "js_add PosInf NegInf = NaN"
| "js_add NegInf PosInf = NaN"
| "js_add PosInf _ = PosInf"
| "js_add NegInf _ = NegInf"
| "js_add (Fin a) b = b"

definition js_sub :: "jsnum \<Rightarrow> jsnum \<Rightarrow> jsnum" where
  "js_sub a b = js_add a (js_neg b)"

definition js_signed_inf :: "rat \<Rightarrow> jsnum" where
  "js_signed_inf a = (if a = 0 then NaN else if 0 < a then PosInf else NegInf)"

fun js_mul :: "jsnum \<Rightarrow> jsnum \<Rightarrow> jsnum" where
  "js_mul (Fin a) (Fin b) = Fin (a * b)"
| "js_mul NaN _ = NaN"
| "js_mul _ NaN = NaN"
| "js_mul (Fin a) PosInf = js_signed_inf a"
| "js_mul (Fin a) NegInf = js_signed_inf (- a)"
| "js_mul PosInf (Fin a) = js_signed_inf a"
| "js_mul NegInf (Fin a) = js_signed_inf (- a)"
| "js_mul PosInf PosInf = PosInf"
| "js_mul NegInf NegInf = PosInf"
| "js_mul _ _ = NegInf"

fun js_div :: "jsnum \<Rightarrow> jsnum \<Rightarrow> jsnum" where
  "js_div (Fin a) (Fin b) = (if b = 0 then js_signed_inf a else Fin (a / b))"
| "js_div NaN _ = NaN"
| "js_div _ NaN = NaN"
| "js_div (Fin a) _ = Fin 0"
| "js_div PosInf (Fin a) = (if a < 0 then NegInf else PosInf)"
| "js_div NegInf (Fin a) = (if a < 0 then PosInf else NegInf)"
| "js_div _ _ = NaN"

definition js_truthy :: "jsnum \<Rightarrow> bool" where
  "js_truthy a \<longleftrightarrow> a \<noteq> NaN \<and> a \<noteq> Fin 0"

text \<open>The expression \<open>a || b\<close> on numbers.\<close>

definition js_or :: "jsnum \<Rightarrow> jsnum \<Rightarrow> jsnum" where
  "js_or a b = (if js_truthy a then a else b)"

fun js_max :: "jsnum \<Rightarrow> jsnum \<Rightarrow> jsnum" where
  "js_max NaN _ = NaN"
| "js_max _ NaN = NaN"
| "js_max a b = (if js_lt a b then b else a)"

fun js_min :: "jsnum \<Rightarrow> jsnum \<Rightarrow> jsnum" where
  "js_min NaN _ = NaN"
| "js_min _ NaN = NaN"
| "js_min a b = (if js_lt b a then b else a)"

fun js_abs :: "jsnum \<Rightarrow> jsnum" where
  "js_abs NaN = NaN"
| "js_abs NegInf = PosInf"
| "js_abs PosInf = PosInf"
| "js_abs (Fin a) = Fin \<bar>a\<bar>"

fun js_floor :: "jsnum \<Rightarrow> jsnum" where
  "js_floor (Fin a) = js_int \<lfloor>a\<rfloor>"
| "js_floor a = a"

text \<open>\<open>Math.round\<close>: the nearest integer, ties towards plus infinity.\<close>

fun js_round :: "jsnum \<Rightarrow> jsnum" where
  "js_round (Fin a) = js_int \<lfloor>a + 1 / 2\<rfloor>"
| "js_round a = a"

lemma js_le_Fin [simp]: "js_le (Fin a) (Fin b) \<longleftrightarrow> a \<le> b"
  by (auto simp: js_le_def)

lemma js_cmp_NaN [simp]:
  "\<not> js_lt NaN b" "\<not> js_lt a NaN" "\<not> js_le NaN b" "\<not> js_le a NaN" "\<not> js_eq NaN b" "\<not> js_eq a NaN"
  by (cases a; auto simp: js_le_def js_eq_def; cases b; auto)+

lemma js_lt_le: "js_lt a b \<Longrightarrow> js_le a b"
  by (cases a; cases b) (auto simp: js_le_def)

lemma not_js_lt: "a \<noteq> NaN \<Longrightarrow> b \<noteq> NaN \<Longrightarrow> \<not> js_lt a b \<longleftrightarrow> js_le b a"
  by (auto simp: js_le_def)

lemma not_js_le: "a \<noteq> NaN \<Longrightarrow> b \<noteq> NaN \<Longrightarrow> \<not> js_le a b \<longleftrightarrow> js_lt b a"
  by (auto simp: js_le_def)

lemma js_sub_Fin [simp]: "js_sub (Fin a) (Fin b) = Fin (a - b)"
  by (simp add: js_sub_def)

lemma js_add_NaN [simp]: "js_add a NaN = NaN"
  by (cases a) auto

lemma js_or_not_NaN: "b \<noteq> NaN \<Longrightarrow> js_or a b \<noteq> NaN"
  by (simp add: js_or_def js_truthy_def)

lemma js_or_Fin [simp]: "js_or (Fin a) (Fin 0) = Fin a" "js_or NaN b = b"
  by (auto simp: js_or_def js_truthy_def)

text \<open>
  Exact addition makes the numbers a commutative monoid (\<open>NaN\<close> absorbs, opposite infinities give
  \<open>NaN\<close>), so the sums of the library apply to them.
\<close>

instantiation jsnum :: comm_monoid_add
begin

definition zero_jsnum :: jsnum where "zero_jsnum = Fin 0"

definition plus_jsnum :: "jsnum \<Rightarrow> jsnum \<Rightarrow> jsnum" where "plus_jsnum = js_add"

instance
proof
  fix a b c :: jsnum
  show "a + b + c = a + (b + c)"
    by (cases a; cases b; cases c) (auto simp: plus_jsnum_def)
  show "a + b = b + a"
    by (cases a; cases b) (auto simp: plus_jsnum_def)
  show "0 + a = a"
    by (cases a) (auto simp: plus_jsnum_def zero_jsnum_def)
qed

end

lemma sum_Fin: "sum_list (map (\<lambda>x. Fin (f x)) xs) = Fin (sum_list (map f xs))"
  by (induction xs) (auto simp: zero_jsnum_def plus_jsnum_def)

section \<open>Reading numbers\<close>

definition read_sign :: "string \<Rightarrow> rat \<times> string" where
  "read_sign s = (case s of
       c # r \<Rightarrow> if c = CHR ''-'' then (-1, r) else if c = CHR ''+'' then (1, r) else (1, s)
     | [] \<Rightarrow> (1, s))"

definition read_exponent :: "string \<Rightarrow> rat \<times> string" where
  "read_exponent s = (case s of
       c # r \<Rightarrow>
         if c = CHR ''e'' \<or> c = CHR ''E'' then
           (case read_sign r of (sg, t) \<Rightarrow>
              if takeWhile is_digit t = [] then (1, s)
              else let e = read_nat (takeWhile is_digit t)
                   in (if sg < 0 then 1 / 10 ^ e else 10 ^ e, dropWhile is_digit t))
         else (1, s)
     | [] \<Rightarrow> (1, s))"

text \<open>The longest unsigned decimal literal at the start of a string, with what follows it.\<close>

definition read_decimal :: "string \<Rightarrow> (rat \<times> string) option" where
  "read_decimal s =
     (let ip = takeWhile is_digit s; r = dropWhile is_digit s;
          (fp, r') = (case r of
              c # t \<Rightarrow> if c = CHR ''.'' then (takeWhile is_digit t, dropWhile is_digit t) else ([], r)
            | [] \<Rightarrow> ([], r))
      in if ip = [] \<and> fp = [] then None
         else case read_exponent r' of (e, r'') \<Rightarrow>
           Some (of_nat (read_nat (ip @ fp)) / 10 ^ length fp * e, r''))"

definition parseFloat :: "string \<Rightarrow> jsnum" where
  "parseFloat s =
     (case read_sign (dropWhile is_ws s) of (sg, t) \<Rightarrow>
        if starts_with ''Infinity'' t then (if sg < 0 then NegInf else PosInf)
        else case read_decimal t of None \<Rightarrow> NaN | Some (q, _) \<Rightarrow> Fin (sg * q))"

definition hex_val :: "char \<Rightarrow> nat option" where
  "hex_val c = map_of (zip ''0123456789abcdef'' [0..<16]) (lower_char c)"

definition read_hex :: "string \<Rightarrow> nat" where
  "read_hex s = foldl (\<lambda>a c. a * 16 + (case hex_val c of None \<Rightarrow> 0 | Some n \<Rightarrow> n)) 0 s"

definition parseInt :: "string \<Rightarrow> jsnum" where
  "parseInt s =
     (case read_sign (dropWhile is_ws s) of (sg, t) \<Rightarrow>
        if starts_with ''0x'' t \<or> starts_with ''0X'' t then
          (let d = takeWhile (\<lambda>c. hex_val c \<noteq> None) (drop 2 t)
           in if d = [] then NaN else Fin (sg * of_nat (read_hex d)))
        else
          (let d = takeWhile is_digit t
           in if d = [] then NaN else Fin (sg * of_nat (read_nat d))))"

text \<open>\<open>Number(s)\<close> on a decimal string: the whole trimmed string has to be the literal; the empty
  string is 0.\<close>

definition js_Number :: "string \<Rightarrow> jsnum" where
  "js_Number s =
     (let u = str_trim s in
      if u = [] then Fin 0
      else if starts_with ''0x'' u \<or> starts_with ''0X'' u then
        (if drop 2 u \<noteq> [] \<and> list_all (\<lambda>c. hex_val c \<noteq> None) (drop 2 u)
         then Fin (of_nat (read_hex (drop 2 u))) else NaN)
      else case read_sign u of (sg, t) \<Rightarrow>
        if t = ''Infinity'' then (if sg < 0 then NegInf else PosInf)
        else case read_decimal t of
            Some (q, []) \<Rightarrow> Fin (sg * q)
          | _ \<Rightarrow> NaN)"

section \<open>Printing numbers\<close>

definition fixed_digits :: "nat \<Rightarrow> nat \<Rightarrow> string" where
  "fixed_digits d n =
     (let s = show_nat n;
          p = (if length s \<le> d then replicate (d + 1 - length s) (CHR ''0'') @ s else s)
      in if d = 0 then s else take (length p - d) p @ ''.'' @ drop (length p - d) p)"

text \<open>The integer nearest to \<open>q * 10 ^ d\<close>, the larger one on a tie.\<close>

definition round_scaled :: "nat \<Rightarrow> rat \<Rightarrow> nat" where
  "round_scaled d q = nat \<lfloor>q * 10 ^ d + 1 / 2\<rfloor>"

fun toFixed :: "nat \<Rightarrow> jsnum \<Rightarrow> string" where
  "toFixed d NaN = ''NaN''"
| "toFixed d PosInf = ''Infinity''"
| "toFixed d NegInf = ''-Infinity''"
| "toFixed d (Fin q) =
     (if q < 0 then ''-'' @ fixed_digits d (round_scaled d (- q))
      else fixed_digits d (round_scaled d q))"

text \<open>The value that \<open>toFixed\<close> prints.\<close>

definition round_dec :: "nat \<Rightarrow> rat \<Rightarrow> rat" where
  "round_dec d q = of_nat (round_scaled d q) / 10 ^ d"

lemma list_all_takeWhile: "list_all P a \<Longrightarrow> takeWhile P (a @ b) = a @ takeWhile P b"
  by (induction a) auto

lemma list_all_dropWhile: "list_all P a \<Longrightarrow> dropWhile P (a @ b) = dropWhile P b"
  by (induction a) auto

lemma list_all_whole: "list_all P a \<Longrightarrow> takeWhile P a = a" "list_all P a \<Longrightarrow> dropWhile P a = []"
  by (induction a) auto

lemma is_digit_special [simp]:
  "\<not> is_digit (CHR ''.'')" "\<not> is_digit (CHR ''-'')" "\<not> is_digit (CHR ''+'')" "is_digit (CHR ''0'')"
  "\<not> is_digit (CHR ''I'')" "\<not> is_digit (CHR ''x'')"
  by (auto simp: is_digit_def)

lemma is_digit_not_ws: "is_digit c \<Longrightarrow> \<not> is_ws c"
  by (auto simp: is_digit_def is_ws_def)

lemma read_sign_digit: "is_digit c \<Longrightarrow> read_sign (c # s) = (1, c # s)"
  by (auto simp: read_sign_def)

lemma not_Infinity_digit: "is_digit c \<Longrightarrow> \<not> starts_with ''Infinity'' (c # s)"
  by (auto simp: starts_with_def)

lemma read_exponent_Nil [simp]: "read_exponent [] = (1, [])"
  by (simp add: read_exponent_def)

lemma read_decimal_int:
  assumes "list_all is_digit a" "a \<noteq> []"
  shows "read_decimal a = Some (of_nat (read_nat a), [])"
  using assms(2) by (simp add: read_decimal_def list_all_whole[OF assms(1)])

lemma read_decimal_frac:
  assumes a: "list_all is_digit a" "a \<noteq> []" and b: "list_all is_digit b"
  shows "read_decimal (a @ CHR ''.'' # b) = Some (of_nat (read_nat (a @ b)) / 10 ^ length b, [])"
  using a(2) by (simp add: read_decimal_def list_all_takeWhile[OF a(1)] list_all_dropWhile[OF a(1)]
      list_all_whole[OF b])

lemma parseFloat_decimal:
  assumes "is_digit c" "read_decimal (c # s) = Some (q, r)"
  shows "parseFloat (c # s) = Fin q"
proof -
  have "dropWhile is_ws (c # s) = c # s"
    using assms(1) by (simp add: is_digit_not_ws)
  then show ?thesis
    using assms by (simp add: parseFloat_def read_sign_digit not_Infinity_digit)
qed

lemma parseFloat_show_nat: "parseFloat (show_nat n) = Fin (of_nat n)"
proof -
  obtain c s where cs: "show_nat n = c # s"
    by (cases "show_nat n") auto
  have "is_digit c"
    using show_nat_digits[of n] cs by simp
  moreover have "read_decimal (c # s) = Some (of_nat n, [])"
    using read_decimal_int[OF show_nat_digits show_nat_ne, of n] by (simp add: cs[symmetric])
  ultimately show ?thesis
    using parseFloat_decimal cs by simp
qed

lemma parseFloat_fixed_digits: "parseFloat (fixed_digits d n) = Fin (of_nat n / 10 ^ d)"
proof (cases "d = 0")
  case True
  then show ?thesis by (simp add: fixed_digits_def Let_def parseFloat_show_nat)
next
  case False
  define s where "s = show_nat n"
  define p where
    "p = (if length s \<le> d then replicate (d + 1 - length s) (CHR ''0'') @ s else s)"
  define a where "a = take (length p - d) p"
  define b where "b = drop (length p - d) p"
  have len: "d < length p"
    by (auto simp: p_def)
  have dig: "list_all is_digit p"
    using show_nat_digits[of n] by (auto simp: p_def s_def list_all_iff)
  have ab: "a @ b = p" "a \<noteq> []" "length b = d"
    using len by (auto simp: a_def b_def)
  have "list_all is_digit a" "list_all is_digit b"
    using dig ab(1) by (metis list_all_append)+
  moreover have "read_nat p = n"
    by (simp add: p_def s_def)
  ultimately have rd: "read_decimal (a @ CHR ''.'' # b) = Some (of_nat n / 10 ^ d, [])"
    using read_decimal_frac[of a b] ab by simp
  obtain c t where "a = c # t"
    using ab(2) by (cases a) auto
  with rd \<open>list_all is_digit a\<close> have "parseFloat (a @ CHR ''.'' # b) = Fin (of_nat n / 10 ^ d)"
    by (simp add: parseFloat_decimal)
  moreover have "fixed_digits d n = a @ CHR ''.'' # b"
    using False by (simp add: fixed_digits_def Let_def a_def b_def p_def s_def)
  ultimately show ?thesis by simp
qed

text \<open>Printing with \<open>toFixed\<close> and reading back rounds to \<open>d\<close> decimals.\<close>

lemma parseFloat_toFixed: "0 \<le> q \<Longrightarrow> parseFloat (toFixed d (Fin q)) = Fin (round_dec d q)"
  by (simp add: parseFloat_fixed_digits round_dec_def)

lemma toFixed_nonempty: "toFixed d x \<noteq> []"
  by (cases x) (auto simp: fixed_digits_def Let_def)

lemma round_dec_nonneg [simp]: "0 \<le> round_dec d q"
  by (simp add: round_dec_def)

lemma round_dec_exact: "0 \<le> q \<Longrightarrow> q * 10 ^ d = of_int i \<Longrightarrow> round_dec d q = q"
proof -
  assume q: "0 \<le> q" and i: "q * 10 ^ d = of_int i"
  have "0 \<le> (of_int i :: rat)"
    using q by (metis i mult_nonneg_nonneg zero_le_numeral zero_le_power)
  moreover have "\<lfloor>of_int i + 1 / 2 :: rat\<rfloor> = i"
    by (rule floor_unique) auto
  ultimately have "of_nat (round_scaled d q) = (of_int i :: rat)"
    by (simp add: round_scaled_def i)
  then show ?thesis
    by (simp add: round_dec_def flip: i)
qed

lemma round_dec_close: "0 \<le> q \<Longrightarrow> \<bar>round_dec d q - q\<bar> \<le> 1 / (2 * 10 ^ d)"
proof -
  assume q: "0 \<le> q"
  define y where "y = q * 10 ^ d"
  have y: "0 \<le> y" using q by (simp add: y_def)
  have n: "of_nat (round_scaled d q) = (of_int \<lfloor>y + 1 / 2\<rfloor> :: rat)"
    using y by (simp add: round_scaled_def y_def)
  have b: "of_int \<lfloor>y + 1 / 2\<rfloor> \<le> y + 1 / 2" "y + 1 / 2 < of_int \<lfloor>y + 1 / 2\<rfloor> + 1"
    by linarith+
  have "\<bar>of_nat (round_scaled d q) - y\<bar> \<le> 1 / 2"
    unfolding n using b by linarith
  then have "\<bar>of_nat (round_scaled d q) - y\<bar> / 10 ^ d \<le> 1 / 2 / 10 ^ d"
    by (rule divide_right_mono) simp
  moreover have "round_dec d q - q = (of_nat (round_scaled d q) - y) / 10 ^ d"
    by (simp add: round_dec_def y_def diff_divide_distrib)
  ultimately show ?thesis
    by (simp add: abs_divide)
qed

section \<open>Values\<close>

text \<open>The values of rows, request bodies and decoded JSON.\<close>

datatype jsval = Undefined | Null | Bool bool | Num jsnum | Str string
  | Arr "jsval list" | Obj "(string \<times> jsval) list"

definition nullish :: "jsval \<Rightarrow> bool" where
  "nullish v \<longleftrightarrow> v = Null \<or> v = Undefined"

fun val_truthy :: "jsval \<Rightarrow> bool" where
  "val_truthy Undefined = False"
| "val_truthy Null = False"
| "val_truthy (Bool b) = b"
| "val_truthy (Num n) = js_truthy n"
| "val_truthy (Str s) = (s \<noteq> [])"
| "val_truthy (Arr xs) = True"
| "val_truthy (Obj fs) = True"

text \<open>Reading a property of an object; a missing property is undefined.\<close>

fun field :: "string \<Rightarrow> jsval \<Rightarrow> jsval" where
  "field k (Obj fs) = (case map_of fs k of None \<Rightarrow> Undefined | Some v \<Rightarrow> v)"
| "field k _ = Undefined"

text \<open>The operators \<open>??\<close> and \<open>&&\<close> on optional fields.\<close>

definition or_else :: "'a option \<Rightarrow> 'a \<Rightarrow> 'a" where
  "or_else a d = (case a of Some x \<Rightarrow> x | None \<Rightarrow> d)"

definition truthy_str :: "string option \<Rightarrow> bool" where
  "truthy_str a \<longleftrightarrow> (case a of Some s \<Rightarrow> s \<noteq> '''' | None \<Rightarrow> False)"

text \<open>\<open>String(v)\<close>, given the text of numbers.\<close>

fun js_text :: "(jsnum \<Rightarrow> string) \<Rightarrow> jsval \<Rightarrow> string" where
  "js_text num Undefined = ''undefined''"
| "js_text num Null = ''null''"
| "js_text num (Bool b) = (if b then ''true'' else ''false'')"
| "js_text num (Num n) = num n"
| "js_text num (Str s) = s"
| "js_text num (Arr xs) = join_with '','' (map (\<lambda>v. if nullish v then [] else js_text num v) xs)"
| "js_text num (Obj fs) = ''[object Object]''"

end
