(* ===== verification/Domain.thy ===== *)
theory Domain
  imports JsValue
begin

text \<open>
  The vocabulary of the applications: the status unions, the reputation tiers and the platform
  constants (\<open>apps/web/src/types/index.ts\<close>, \<open>apps/web/src/lib/constants.ts\<close>,
  \<open>packages/shared-types/src/index.ts\<close>), with the threshold function that assigns a tier to a
  score. Three copies of that function exist in the sources; they are modelled separately and
  proved equal.
\<close>

section \<open>Status unions\<close>

datatype job_status = JPending | JRunning | JCompleted | JFailed | JRequeued | JCancelled

datatype node_status = NOnline | NOffline | NStale | NSlashed | NMaintenance | NBusy

datatype user_role = Admin | Member | Viewer

datatype user_type = Client | Provider

fun job_status_str :: "job_status \<Rightarrow> string" where
  "job_status_str JPending = ''pending''"
| "job_status_str JRunning = ''running''"
| "job_status_str JCompleted = ''completed''"
| "job_status_str JFailed = ''failed''"
| "job_status_str JRequeued = ''requeued''"
| "job_status_str JCancelled = ''cancelled''"

fun node_status_str :: "node_status \<Rightarrow> string" where
  "node_status_str NOnline = ''online''"
| "node_status_str NOffline = ''offline''"
| "node_status_str NStale = ''stale''"
| "node_status_str NSlashed = ''slashed''"
| "node_status_str NMaintenance = ''maintenance''"
| "node_status_str NBusy = ''busy''"

fun role_str :: "user_role \<Rightarrow> string" where
  "role_str Admin = ''admin''"
| "role_str Member = ''member''"
| "role_str Viewer = ''viewer''"

lemma job_status_str_inject [simp]: "job_status_str a = job_status_str b \<longleftrightarrow> a = b"
  by (cases a; cases b) auto

lemma node_status_str_inject [simp]: "node_status_str a = node_status_str b \<longleftrightarrow> a = b"
  by (cases a; cases b) auto

section \<open>Reputation tiers\<close>

datatype reputation_tier = Unranked | Bronze | Silver | Gold

text \<open>Tiers are ordered from the lowest to the highest rank.\<close>

instantiation reputation_tier :: linorder
begin

fun tier_rank :: "reputation_tier \<Rightarrow> nat" where
  "tier_rank Unranked = 0"
| "tier_rank Bronze = 1"
| "tier_rank Silver = 2"
| "tier_rank Gold = 3"

definition less_eq_reputation_tier :: "reputation_tier \<Rightarrow> reputation_tier \<Rightarrow> bool" where
  "less_eq_reputation_tier a b \<longleftrightarrow> tier_rank a \<le> tier_rank b"

definition less_reputation_tier :: "reputation_tier \<Rightarrow> reputation_tier \<Rightarrow> bool" where
  "less_reputation_tier a b \<longleftrightarrow> tier_rank a < tier_rank b"

lemma tier_rank_inject: "tier_rank a = tier_rank b \<Longrightarrow> a = b"
  by (cases a; cases b) auto

instance
  by standard (auto simp: less_eq_reputation_tier_def less_reputation_tier_def tier_rank_inject)

end

text \<open>\<open>getReputationTier\<close> of \<open>hooks/use-nodes.ts\<close>.\<close>

definition getReputationTier :: "jsnum \<Rightarrow> reputation_tier" where
  "getReputationTier score =
     (if js_le (Fin 100) score then Gold
      else if js_le (Fin 50) score then Silver
      else if js_le (Fin 0) score then Bronze
      else Unranked)"

text \<open>\<open>getReputationTier\<close> of \<open>components/ui/ReputationBadge.tsx\<close>.\<close>

definition badge_getReputationTier :: "jsnum \<Rightarrow> reputation_tier" where
  "badge_getReputationTier score =
     (if js_le (Fin 100) score then Gold
      else if js_le (Fin 50) score then Silver
      else if js_le (Fin 0) score then Bronze
      else Unranked)"

text \<open>\<open>getReputationTier\<close> of \<open>packages/shared-types\<close>.\<close>

definition shared_getReputationTier :: "jsnum \<Rightarrow> reputation_tier" where
  "shared_getReputationTier score =
     (if js_le (Fin 100) score then Gold
      else if js_le (Fin 50) score then Silver
      else if js_le (Fin 0) score then Bronze
      else Unranked)"

lemmas tier_defs = getReputationTier_def badge_getReputationTier_def shared_getReputationTier_def

lemma tier_copies_agree:
  "badge_getReputationTier = getReputationTier" "shared_getReputationTier = getReputationTier"
  by (simp_all add: tier_defs fun_eq_iff)

lemma tier_Gold_iff: "getReputationTier (Fin q) = Gold \<longleftrightarrow> 100 \<le> q"
  by (simp add: getReputationTier_def)

lemma tier_Silver_iff: "getReputationTier (Fin q) = Silver \<longleftrightarrow> 50 \<le> q \<and> q < 100"
  by (auto simp: getReputationTier_def)

lemma tier_Bronze_iff: "getReputationTier (Fin q) = Bronze \<longleftrightarrow> 0 \<le> q \<and> q < 50"
  by (auto simp: getReputationTier_def)

lemma tier_Unranked_iff: "getReputationTier (Fin q) = Unranked \<longleftrightarrow> q < 0"
  by (auto simp: getReputationTier_def)

lemma tier_NaN [simp]: "getReputationTier NaN = Unranked"
  by (simp add: getReputationTier_def)

interpretation tier: grading "\<lambda>q. getReputationTier (Fin q)"
  by unfold_locales (auto simp: getReputationTier_def less_eq_reputation_tier_def)

text \<open>\<open>components/ui/ReputationBadge.tsx\<close>: the tier shown and the score label.\<close>

definition badge_resolved_tier :: "reputation_tier option \<Rightarrow> jsnum option \<Rightarrow> reputation_tier" where
  [view_defs]: "badge_resolved_tier t score =
     (case t of Some t' \<Rightarrow> t'
      | None \<Rightarrow> (case score of Some n \<Rightarrow> badge_getReputationTier n | None \<Rightarrow> Unranked))"

fun tier_label :: "reputation_tier \<Rightarrow> string" where
  "tier_label Gold = ''Gold''"
| "tier_label Silver = ''Silver''"
| "tier_label Bronze = ''Bronze''"
| "tier_label Unranked = ''Unranked''"

text \<open>The score is shown when asked for and known; a positive one carries a plus sign.\<close>

definition badge_score_text :: "bool \<Rightarrow> int option \<Rightarrow> string option" where
  [view_defs]: "badge_score_text showScore score =
     (case score of
        Some n \<Rightarrow> if showScore then Some (if 0 < n then ''+'' @ show_int n else show_int n) else None
      | None \<Rightarrow> None)"

section \<open>Platform constants\<close>

text \<open>\<open>lib/constants.ts\<close>; times are in milliseconds.\<close>

record platform_constants =
  API_TIMEOUT :: int
  WS_RECONNECT_DELAY :: int
  WS_MAX_RECONNECT_ATTEMPTS :: nat
  HEARTBEAT_INTERVAL :: int
  HEARTBEAT_STALE_THRESHOLD :: int
  SLA_MIN_UPTIME :: rat
  SLA_DEFAULT_UPTIME :: rat
  SLA_MAX_UPTIME :: rat
  SLA_MIN_THROUGHPUT :: rat
  SLA_DEFAULT_THROUGHPUT :: rat
  SLA_MAX_THROUGHPUT :: rat
  STAKE_MIN_AMOUNT :: rat
  STAKE_UNSTAKE_COOLDOWN :: int
  REPUTATION_GOLD_THRESHOLD :: rat
  REPUTATION_SILVER_THRESHOLD :: rat
  REPUTATION_BRONZE_THRESHOLD :: rat
  SLASH_PERCENT :: rat
  CREDIT_PERCENT :: rat
  JOB_CHECKPOINT_INTERVAL :: int
  JOB_MAX_RETRIES :: nat
  JOB_DEFAULT_DEADLINE :: int
  DEFAULT_PAGE_SIZE :: nat
  MAX_PAGE_SIZE :: nat
  CACHE_STALE_TIME :: int
  CACHE_REFETCH_INTERVAL :: int

definition constants :: platform_constants where
  "constants = \<lparr>
     API_TIMEOUT = 30000,
     WS_RECONNECT_DELAY = 5000,
     WS_MAX_RECONNECT_ATTEMPTS = 10,
     HEARTBEAT_INTERVAL = 30000,
     HEARTBEAT_STALE_THRESHOLD = 60000,
     SLA_MIN_UPTIME = 90,
     SLA_DEFAULT_UPTIME = 95,
     SLA_MAX_UPTIME = 100,
     SLA_MIN_THROUGHPUT = 10,
     SLA_DEFAULT_THROUGHPUT = 100,
     SLA_MAX_THROUGHPUT = 1000,
     STAKE_MIN_AMOUNT = 10,
     STAKE_UNSTAKE_COOLDOWN = 30 * 24 * 60 * 60 * 1000,
     REPUTATION_GOLD_THRESHOLD = 100,
     REPUTATION_SILVER_THRESHOLD = 50,
     REPUTATION_BRONZE_THRESHOLD = 0,
     SLASH_PERCENT = 10,
     CREDIT_PERCENT = 70,
     JOB_CHECKPOINT_INTERVAL = 300,
     JOB_MAX_RETRIES = 3,
     JOB_DEFAULT_DEADLINE = 24 * 60 * 60 * 1000,
     DEFAULT_PAGE_SIZE = 25,
     MAX_PAGE_SIZE = 100,
     CACHE_STALE_TIME = 10000,
     CACHE_REFETCH_INTERVAL = 30000\<rparr>"

definition REGIONS :: "string list" where
  "REGIONS = [''us-east-1'', ''us-west-2'', ''eu-west-1'', ''eu-central-1'', ''ap-southeast-1'',
     ''ap-northeast-1'']"

definition SUPPORTED_CHAINS :: "(nat \<times> string \<times> string) list" where
  "SUPPORTED_CHAINS = [(1, ''Ethereum Mainnet'', ''eth''), (11155111, ''Sepolia Testnet'', ''eth''),
     (31337, ''Hardhat Local'', ''hardhat'')]"

text \<open>The tier thresholds of the constants are the ones \<open>getReputationTier\<close> compares with.\<close>

theorem thresholds_are_tier_bounds:
  "getReputationTier (Fin q) =
     (if REPUTATION_GOLD_THRESHOLD constants \<le> q then Gold
      else if REPUTATION_SILVER_THRESHOLD constants \<le> q then Silver
      else if REPUTATION_BRONZE_THRESHOLD constants \<le> q then Bronze
      else Unranked)"
  by (simp add: getReputationTier_def constants_def)

section \<open>Durations\<close>

text \<open>
  \<open>formatRelativeTime\<close>, copied in several pages: the age of a timestamp in its largest unit.
  \<open>now\<close> and \<open>ts\<close> are milliseconds.
\<close>

definition formatRelativeTime :: "int \<Rightarrow> int \<Rightarrow> string" where
  "formatRelativeTime now ts =
     (let s = (now - ts) div 1000 in
      if s < 60 then show_int s @ ''s ago''
      else if s < 3600 then show_int (s div 60) @ ''m ago''
      else if s < 86400 then show_int (s div 3600) @ ''h ago''
      else show_int (s div 86400) @ ''d ago'')"

text \<open>\<open>getRelativeTime\<close> of the job page.\<close>

definition getRelativeTime :: "int \<Rightarrow> int \<Rightarrow> string" where
  "getRelativeTime now ts =
     (let diff = now - ts in
      if diff < 1000 then ''just now''
      else if diff < 60000 then show_int (diff div 1000) @ ''s ago''
      else if diff < 3600000 then show_int (diff div 60000) @ ''m ago''
      else show_int (diff div 3600000) @ ''h ago'')"

text \<open>\<open>formatTimeRemaining\<close> of the job page.\<close>

definition formatTimeRemaining :: "int \<Rightarrow> int \<Rightarrow> string" where
  "formatTimeRemaining now deadline =
     (let diff = deadline - now in
      if diff \<le> 0 then ''Expired''
      else let hours = diff div (1000 * 60 * 60);
               minutes = (diff mod (1000 * 60 * 60)) div (1000 * 60)
           in if 24 < hours then show_int (hours div 24) @ ''d '' @ show_int (hours mod 24) @ ''h''
              else show_int hours @ ''h '' @ show_int minutes @ ''m'')"

text \<open>\<open>formatDuration\<close> of the node page, in seconds.\<close>

definition formatDuration :: "int \<Rightarrow> string" where
  "formatDuration seconds =
     (if seconds < 60 then show_int seconds @ ''s''
      else if seconds < 3600 then show_int (seconds div 60) @ ''m '' @ show_int (seconds mod 60) @ ''s''
      else show_int (seconds div 3600) @ ''h '' @ show_int ((seconds mod 3600) div 60) @ ''m'')"

section \<open>Properties\<close>

text \<open>Also: the three copies of the tier function are one function, it cuts at the thresholds of the platform
  constants, a higher score never has a lower tier, and a score that is not a number is unranked.\<close>

theorem tier_function:
  assumes "a \<le> b"
  shows "badge_getReputationTier = getReputationTier \<and> shared_getReputationTier = getReputationTier \<and>
    getReputationTier (Fin a) \<le> getReputationTier (Fin b) \<and>
    (getReputationTier (Fin a) = Gold \<longleftrightarrow> REPUTATION_GOLD_THRESHOLD constants \<le> a) \<and>
    (Silver \<le> getReputationTier (Fin a) \<longleftrightarrow> REPUTATION_SILVER_THRESHOLD constants \<le> a) \<and>
    (Bronze \<le> getReputationTier (Fin a) \<longleftrightarrow> REPUTATION_BRONZE_THRESHOLD constants \<le> a) \<and>
    getReputationTier NaN = Unranked"
  using tier.grade_mono[OF assms] tier_copies_agree
  by (simp add: thresholds_are_tier_bounds[of a] constants_def less_eq_reputation_tier_def)

theorem tier_function_witness: "getReputationTier (Fin 49) \<le> getReputationTier (Fin 120)"
  using tier_function[of 49 120] by simp

end
