(* ===== verification/Contracts.thy ===== *)
theory Contracts
  imports Domain
begin

text \<open>
  \<open>apps/web/src/lib/contracts.ts\<close>: the ABI of the Escrow contract as the web application has it,
  the deployed addresses, and what a write to a contract is. The calls the wallet components make
  are checked against this ABI; the signatures of \<open>contracts/contracts/Escrow.sol\<close> are recorded
  beside it, to compare the two.
\<close>

datatype mutability = View | Payable | Nonpayable

record abi_entry =
  abi_name :: string
  abi_inputs :: "string list"
  abi_outputs :: "string list"
  abi_mutability :: mutability

definition abi_fn :: "string \<Rightarrow> string list \<Rightarrow> string list \<Rightarrow> mutability \<Rightarrow> abi_entry" where
  "abi_fn n is os m = \<lparr>abi_name = n, abi_inputs = is, abi_outputs = os, abi_mutability = m\<rparr>"

definition ESCROW_ABI :: "abi_entry list" where
  "ESCROW_ABI = [
     abi_fn ''MIN_STAKE'' [] [''uint256''] View,
     abi_fn ''getMinStake'' [] [''uint256''] View,
     abi_fn ''getSlasher'' [] [''address''] View,
     abi_fn ''getStake'' [''address''] [''uint256''] View,
     abi_fn ''getStakerCount'' [] [''uint256''] View,
     abi_fn ''getStakers'' [] [''address[]''] View,
     abi_fn ''getTotalStaked'' [] [''uint256''] View,
     abi_fn ''hasStaked'' [''address''] [''bool''] View,
     abi_fn ''owner'' [] [''address''] View,
     abi_fn ''slasher'' [] [''address''] View,
     abi_fn ''stake'' [] [] Payable,
     abi_fn ''withdraw'' [''uint256''] [] Nonpayable,
     abi_fn ''authorizeSlasher'' [''address''] [] Nonpayable,
     abi_fn ''slash'' [''address'', ''uint256''] [] Nonpayable,
     abi_fn ''emergencyWithdraw'' [''uint256''] [] Nonpayable]"

record contract_addresses =
  Escrow :: string
  SLAContract :: string
  SlashManager :: string
  ReputationLedger :: string
  NodeRegistry :: string

definition CONTRACT_ADDRESSES :: contract_addresses where
  "CONTRACT_ADDRESSES = \<lparr>
     Escrow = ''0x5FbDB2315678afecb367f032d93F642f64180aa3'',
     SLAContract = ''0xe7f1725E7734CE288F8367e1Bb143E90bb3F0512'',
     SlashManager = ''0x9fE46736679d2D9a65F0992F2272dE9f3c7fa6e0'',
     ReputationLedger = ''0xCf7Ed3AccA5a467e9e704C703E8d87F634fB0Fc9'',
     NodeRegistry = ''0xDc64a140Aa3E981100a9becA4E685f962f0cF6C9''\<rparr>"

text \<open>
  A call of \<open>writeContract\<close>. Arguments and the attached value are in wei; a value that the code
  does not give is \<open>None\<close>.
\<close>

record contract_call =
  to_address :: string
  function_name :: string
  call_args :: "int list"
  call_value :: "int option"

text \<open>
  A call fits an ABI when the function is declared there, changes state, takes as many arguments
  as the call gives, and a value is attached exactly to payable functions.
\<close>

definition call_fits :: "abi_entry list \<Rightarrow> contract_call \<Rightarrow> bool" where
  "call_fits abi c \<longleftrightarrow>
     (\<exists>e \<in> set abi. abi_name e = function_name c \<and> length (abi_inputs e) = length (call_args c) \<and>
        abi_mutability e \<noteq> View \<and> (call_value c \<noteq> None \<longleftrightarrow> abi_mutability e = Payable))"

text \<open>The external functions of the same names that \<open>Escrow.sol\<close> declares.\<close>

definition escrow_sol_inputs :: "string \<rightharpoonup> string list" where
  "escrow_sol_inputs = map_of [
     (''MIN_STAKE'', []),
     (''stake'', []),
     (''withdraw'', [''uint256'']),
     (''slash'', [''address'', ''uint256'', ''string'']),
     (''getStake'', [''address'']),
     (''hasStaked'', [''address'']),
     (''getSlasher'', []),
     (''getMinStake'', []),
     (''getTotalStaked'', []),
     (''authorizeSlasher'', [''address'']),
     (''getStakers'', []),
     (''getStakerCount'', []),
     (''emergencyWithdraw'', [''address''])]"

lemma abi_names_distinct: "distinct (map abi_name ESCROW_ABI)"
  by (simp add: ESCROW_ABI_def abi_fn_def)

end
