(* ===== verification/EscrowContract.thy ===== *)
theory EscrowContract
  imports Contracts "HOL-Library.Word"
begin

text \<open>
  \<open>contracts/contracts/Escrow.sol\<close>, the contract that holds the stakes. Its storage is a record, a function is
  what it does up to its external call, and a transaction is a call with the answer of the address that
  is paid on the way: whether it accepts, and which calls it makes before it answers, each of them a
  transaction again. So every reentrance is a run of the model. A call that reverts leaves the storage
  as it was. Amounts are natural numbers in wei, additions are checked against the width of \<open>uint256\<close>.

  \<open>ReentrancyGuard\<close> is a library: \<open>enter\<close> takes its state to the entered one or reverts, \<open>leave\<close> resets it.
  \<open>supportsInterface\<close> belongs to another library and is left out.
\<close>

section \<open>Storage\<close>

type_synonym addr = "160 word"

definition ether :: nat where
  "ether = 10 ^ 18"

definition MIN_STAKE :: nat where
  "MIN_STAKE = ether div 20"

record stake_entry =
  st_owner :: addr
  st_amount :: nat
  st_timestamp :: nat
  st_locked :: bool
  st_unlockTime :: nat

definition no_stake :: stake_entry where
  "no_stake = \<lparr>st_owner = 0, st_amount = 0, st_timestamp = 0, st_locked = False, st_unlockTime = 0\<rparr>"

datatype escrow_event =
    StakeDeposited addr nat
  | StakeWithdrawn addr nat
  | StakeSlashed addr nat string
  | SlasherUpdated addr addr
  | StakeChanged addr nat string
  | OwnershipRenounced addr
  | MaximumStakeUpdated nat

record 'g escrow =
  this :: addr
  ether_balance :: nat
  guard :: 'g
  maximumStakeAmount :: nat
  stakeOf :: "addr \<Rightarrow> nat"
  stakes :: "addr \<Rightarrow> stake_entry"
  hasStakedFlag :: "addr \<Rightarrow> bool"
  stakerList :: "addr list"
  totalStaked :: nat
  stakeLockDuration :: nat
  pendingWithdrawals :: "addr \<Rightarrow> nat"
  stakeIndex :: "addr \<Rightarrow> nat"
  stakeHistory :: "addr \<Rightarrow> stake_entry list"
  slasher :: addr
  owner :: addr
  paused :: bool
  ownershipRenounced :: bool
  events :: "escrow_event list"

definition deploy_escrow :: "addr \<Rightarrow> 'g \<Rightarrow> addr \<Rightarrow> 'g escrow" where
  "deploy_escrow self g0 sender =
     \<lparr>this = self, ether_balance = 0, guard = g0, maximumStakeAmount = 1000 * ether, stakeOf = (\<lambda>_. 0),
      stakes = (\<lambda>_. no_stake), hasStakedFlag = (\<lambda>_. False), stakerList = [], totalStaked = 0,
      stakeLockDuration = 7 * 86400, pendingWithdrawals = (\<lambda>_. 0), stakeIndex = (\<lambda>_. 0), stakeHistory = (\<lambda>_. []),
      slasher = sender, owner = sender, paused = False, ownershipRenounced = False, events = []\<rparr>"

section \<open>Functions\<close>

text \<open>What a function does: it reverts with a reason, it is done, or it pays an address and goes on with what is
  left to do when the payment succeeds, a failed payment being a reason to revert.\<close>

datatype 'g outcome =
    Done "'g escrow"
  | Pay addr nat string "'g escrow" "'g escrow \<Rightarrow> 'g escrow"

type_synonym 'g fn_result = "string + 'g outcome"

definition need :: "bool \<Rightarrow> string \<Rightarrow> 'g fn_result \<Rightarrow> 'g fn_result" where
  "need b reason r = (if b then r else Inl reason)"

definition emit :: "escrow_event \<Rightarrow> 'g escrow \<Rightarrow> 'g escrow" where
  "emit e s = s\<lparr>events := events s @ [e]\<rparr>"

text \<open>Checked arithmetic: a sum beyond the width reverts.\<close>

definition checked :: "nat \<Rightarrow> 'g fn_result \<Rightarrow> 'g fn_result" where
  "checked n r = need (n < 2 ^ 256) ''Panic'' r"

record 'g guard_lib =
  enter :: "'g \<Rightarrow> 'g option"
  leave :: "'g \<Rightarrow> 'g"

definition nonReentrant :: "'g guard_lib \<Rightarrow> 'g escrow \<Rightarrow> ('g escrow \<Rightarrow> 'g fn_result) \<Rightarrow> 'g fn_result" where
  "nonReentrant G s body = (case enter G (guard s) of None \<Rightarrow> Inl ''ReentrancyGuard'' | Some g \<Rightarrow> body (s\<lparr>guard := g\<rparr>))"

definition leaving :: "'g guard_lib \<Rightarrow> 'g escrow \<Rightarrow> 'g escrow" where
  "leaving G s = s\<lparr>guard := leave G (guard s)\<rparr>"

definition hasStaked :: "'g escrow \<Rightarrow> addr \<Rightarrow> bool" where
  "hasStaked s node \<longleftrightarrow> hasStakedFlag s node \<and> 0 < stakeOf s node"

definition onlyOwner :: "addr \<Rightarrow> 'g escrow \<Rightarrow> 'g fn_result \<Rightarrow> 'g fn_result" where
  "onlyOwner sender s r = need (sender = owner s) ''Caller not owner'' r"

definition onlySlasher :: "addr \<Rightarrow> 'g escrow \<Rightarrow> 'g fn_result \<Rightarrow> 'g fn_result" where
  "onlySlasher sender s r = need (sender = slasher s) ''Caller not slasher'' r"

definition onlyStaked :: "addr \<Rightarrow> 'g escrow \<Rightarrow> 'g fn_result \<Rightarrow> 'g fn_result" where
  "onlyStaked node s r = need (hasStaked s node) ''Node has not staked'' r"

definition whenNotPaused :: "'g escrow \<Rightarrow> 'g fn_result \<Rightarrow> 'g fn_result" where
  "whenNotPaused s r = need (\<not> paused s) ''Contract is paused'' r"

definition validate_stake_amount :: "nat \<Rightarrow> 'g escrow \<Rightarrow> 'g fn_result \<Rightarrow> 'g fn_result" where
  "validate_stake_amount amount s r =
     need (MIN_STAKE \<le> amount) ''Below minimum stake''
       (need (maximumStakeAmount s = 0 \<or> amount \<le> maximumStakeAmount s) ''Exceeds maximum stake'' r)"

definition register_staker :: "addr \<Rightarrow> 'g escrow \<Rightarrow> 'g escrow" where
  "register_staker a s = (if hasStakedFlag s a then s
     else s\<lparr>hasStakedFlag := (hasStakedFlag s)(a := True), stakerList := stakerList s @ [a],
       stakeIndex := (stakeIndex s)(a := length (stakerList s))\<rparr>)"

definition escrow_stake_body :: "addr \<Rightarrow> nat \<Rightarrow> nat \<Rightarrow> 'g escrow \<Rightarrow> 'g escrow" where
  "escrow_stake_body sender value now s =
     (let s = register_staker sender s; entry = \<lambda>n. \<lparr>st_owner = sender, st_amount = n, st_timestamp = now,
          st_locked = False, st_unlockTime = 0\<rparr>; new = stakeOf s sender + value
      in emit (StakeDeposited sender value)
        (s\<lparr>stakeOf := (stakeOf s)(sender := new), totalStaked := totalStaked s + value,
           stakes := (stakes s)(sender := entry new),
           stakeHistory := (stakeHistory s)(sender := stakeHistory s sender @ [entry value])\<rparr>))"

definition stake :: "'g guard_lib \<Rightarrow> addr \<Rightarrow> nat \<Rightarrow> nat \<Rightarrow> 'g escrow \<Rightarrow> 'g fn_result" where
  "stake G sender value now s = nonReentrant G s (\<lambda>s.
     whenNotPaused s (need (0 < value) ''Cannot stake 0'' (validate_stake_amount value s
       (checked (stakeOf s sender + value) (checked (totalStaked s + value)
         (Inr (Done (leaving G (escrow_stake_body sender value now s)))))))))"

text \<open>Both hooks are empty in this contract.\<close>

definition set_stake :: "addr \<Rightarrow> nat \<Rightarrow> 'g escrow \<Rightarrow> 'g escrow" where
  "set_stake a n s = s\<lparr>stakeOf := (stakeOf s)(a := n), stakes := (stakes s)(a := (stakes s a)\<lparr>st_amount := n\<rparr>)\<rparr>"

definition take_stake :: "addr \<Rightarrow> nat \<Rightarrow> 'g escrow \<Rightarrow> 'g escrow" where
  "take_stake a amount s = (set_stake a (stakeOf s a - amount) s)\<lparr>totalStaked := totalStaked s - amount\<rparr>"

definition may_leave :: "nat \<Rightarrow> nat \<Rightarrow> bool" where
  "may_leave staked amount \<longleftrightarrow> staked - amount = 0 \<or> MIN_STAKE \<le> staked - amount"

definition withdraw :: "'g guard_lib \<Rightarrow> addr \<Rightarrow> nat \<Rightarrow> 'g escrow \<Rightarrow> 'g fn_result" where
  "withdraw G sender amount s = nonReentrant G s (\<lambda>s. onlyStaked sender s (whenNotPaused s
     (need (0 < amount) ''Cannot withdraw 0'' (need (amount \<le> stakeOf s sender) ''Insufficient stake''
       (need (\<not> st_locked (stakes s sender)) ''Stake is locked''
         (need (may_leave (stakeOf s sender) amount) ''Cannot go below minimum stake''
           (need (amount \<le> totalStaked s) ''Panic''
             (Inr (Pay sender amount ''Transfer failed'' (take_stake sender amount s)
               (\<lambda>s. leaving G (emit (StakeWithdrawn sender amount) s)))))))))))"

definition slash :: "'g guard_lib \<Rightarrow> addr \<Rightarrow> addr \<Rightarrow> nat \<Rightarrow> string \<Rightarrow> 'g escrow \<Rightarrow> 'g fn_result" where
  "slash G sender node amount reason s = onlySlasher sender s (nonReentrant G s (\<lambda>s. onlyStaked node s
     (let actual = (if stakeOf s node < amount then stakeOf s node else amount);
          finish = (\<lambda>s. leaving G (emit (StakeChanged node (stakeOf s node) ''slashed'')
            (emit (StakeSlashed node actual reason) s)))
      in need (actual \<le> totalStaked s) ''Panic''
        (if 0 < actual then Inr (Pay (slasher s) actual ''Slash transfer failed'' (take_stake node actual s) finish)
         else Inr (Done (finish (take_stake node actual s)))))))"

definition authorizeSlasher :: "addr \<Rightarrow> addr \<Rightarrow> 'g escrow \<Rightarrow> 'g fn_result" where
  "authorizeSlasher sender new s = onlyOwner sender s (need (new \<noteq> 0) ''Invalid slasher address''
     (Inr (Done (emit (SlasherUpdated (slasher s) new) (s\<lparr>slasher := new\<rparr>)))))"

definition emergencyWithdraw :: "addr \<Rightarrow> addr \<Rightarrow> 'g escrow \<Rightarrow> 'g fn_result" where
  "emergencyWithdraw sender to s = onlyOwner sender s (need (0 < ether_balance s) ''No balance''
     (Inr (Pay to (ether_balance s) ''Emergency withdraw failed'' s (\<lambda>s. s))))"

definition setPaused :: "addr \<Rightarrow> bool \<Rightarrow> 'g escrow \<Rightarrow> 'g fn_result" where
  "setPaused sender b s = onlyOwner sender s (Inr (Done (s\<lparr>paused := b\<rparr>)))"

definition lockStake :: "addr \<Rightarrow> addr \<Rightarrow> nat \<Rightarrow> nat \<Rightarrow> 'g escrow \<Rightarrow> 'g fn_result" where
  "lockStake sender node duration now s = onlyOwner sender s (need (hasStakedFlag s node) ''Node has not staked''
     (checked (now + duration) (Inr (Done (emit (StakeChanged node (stakeOf s node) ''locked'')
       (s\<lparr>stakes := (stakes s)(node := (stakes s node)\<lparr>st_locked := True, st_unlockTime := now + duration\<rparr>)\<rparr>))))))"

definition unlockStake :: "addr \<Rightarrow> addr \<Rightarrow> 'g escrow \<Rightarrow> 'g fn_result" where
  "unlockStake sender node s = onlyOwner sender s (need (st_locked (stakes s node)) ''Stake not locked''
     (Inr (Done (emit (StakeChanged node (stakeOf s node) ''unlocked'')
       (s\<lparr>stakes := (stakes s)(node := (stakes s node)\<lparr>st_locked := False, st_unlockTime := 0\<rparr>)\<rparr>)))))"

definition requestWithdrawal :: "addr \<Rightarrow> nat \<Rightarrow> 'g escrow \<Rightarrow> 'g fn_result" where
  "requestWithdrawal sender amount s = onlyStaked sender s (whenNotPaused s
     (need (0 < amount) ''Cannot request 0'' (need (amount \<le> stakeOf s sender) ''Insufficient stake''
       (need (may_leave (stakeOf s sender) amount) ''Cannot go below minimum''
         (checked (pendingWithdrawals s sender + amount) (need (amount \<le> totalStaked s) ''Panic''
           (Inr (Done (emit (StakeChanged sender (stakeOf s sender - amount) ''withdrawal_requested'')
             (take_stake sender amount (s\<lparr>pendingWithdrawals :=
               (pendingWithdrawals s)(sender := pendingWithdrawals s sender + amount)\<rparr>)))))))))))"

definition clear_pending :: "addr \<Rightarrow> 'g escrow \<Rightarrow> 'g escrow" where
  "clear_pending a s = s\<lparr>pendingWithdrawals := (pendingWithdrawals s)(a := 0)\<rparr>"

definition claimWithdrawal :: "'g guard_lib \<Rightarrow> addr \<Rightarrow> 'g escrow \<Rightarrow> 'g fn_result" where
  "claimWithdrawal G sender s = nonReentrant G s (\<lambda>s. whenNotPaused s
     (let amount = pendingWithdrawals s sender in
      need (0 < amount) ''No pending withdrawal'' (need (\<not> st_locked (stakes s sender)) ''Stake is locked''
        (Inr (Pay sender amount ''Transfer failed'' (clear_pending sender s)
          (\<lambda>s. leaving G (emit (StakeWithdrawn sender amount) s)))))))"

definition setStakeLockDuration :: "addr \<Rightarrow> nat \<Rightarrow> 'g escrow \<Rightarrow> 'g fn_result" where
  "setStakeLockDuration sender duration s = onlyOwner sender s (Inr (Done (s\<lparr>stakeLockDuration := duration\<rparr>)))"

definition renounceOwnership :: "addr \<Rightarrow> 'g escrow \<Rightarrow> 'g fn_result" where
  "renounceOwnership sender s = onlyOwner sender s (need (\<not> ownershipRenounced s) ''Ownership already renounced''
     (need (totalStaked s = 0) ''Cannot renounce while nodes are staked''
       (Inr (Done ((emit (OwnershipRenounced sender) (s\<lparr>ownershipRenounced := True\<rparr>))\<lparr>owner := 0\<rparr>)))))"

definition setMaximumStakeAmount :: "addr \<Rightarrow> nat \<Rightarrow> 'g escrow \<Rightarrow> 'g fn_result" where
  "setMaximumStakeAmount sender amount s = onlyOwner sender s (need (MIN_STAKE \<le> amount) ''Max stake must be >= minimum''
     (Inr (Done (emit (MaximumStakeUpdated amount) (s\<lparr>maximumStakeAmount := amount\<rparr>)))))"

text \<open>The loop of \<open>bulkWithdraw\<close>: it reads the same entry in every round, whatever the identifiers are.\<close>

fun bulk_loop :: "addr \<Rightarrow> nat list \<Rightarrow> nat \<Rightarrow> 'g escrow \<Rightarrow> string + (nat \<times> 'g escrow)" where
  "bulk_loop sender [] acc s = Inr (acc, s)"
| "bulk_loop sender (i # ids) acc s =
     (let amount = pendingWithdrawals s sender in
      if amount = 0 then Inl ''No pending withdrawal''
      else if st_locked (stakes s sender) then Inl ''Stake is locked''
      else if 2 ^ 256 \<le> acc + amount then Inl ''Panic''
      else bulk_loop sender ids (acc + amount) (emit (StakeWithdrawn sender amount) (clear_pending sender s)))"

definition bulkWithdraw :: "'g guard_lib \<Rightarrow> addr \<Rightarrow> nat list \<Rightarrow> 'g escrow \<Rightarrow> 'g fn_result" where
  "bulkWithdraw G sender ids s = nonReentrant G s (\<lambda>s. whenNotPaused s
     (case bulk_loop sender ids 0 s of Inl r \<Rightarrow> Inl r
      | Inr (n, s) \<Rightarrow> need (0 < n) ''Nothing to withdraw'' (Inr (Pay sender n ''Transfer failed'' s (leaving G)))))"

section \<open>Transactions\<close>

datatype escrow_fn =
    Stake
  | Withdraw nat
  | Slash addr nat string
  | AuthorizeSlasher addr
  | EmergencyWithdraw addr
  | PauseStake
  | UnpauseStake
  | Receive
  | LockStake addr nat
  | UnlockStake addr
  | RequestWithdrawal nat
  | ClaimWithdrawal
  | SetStakeLockDuration nat
  | RenounceOwnership
  | SetMaximumStakeAmount nat
  | BulkWithdraw "nat list"
  | Fallback

definition payable :: "escrow_fn \<Rightarrow> bool" where
  "payable f \<longleftrightarrow> f \<in> {Stake, Receive, Fallback}"

fun escrow_call :: "'g guard_lib \<Rightarrow> addr \<Rightarrow> nat \<Rightarrow> nat \<Rightarrow> escrow_fn \<Rightarrow> 'g escrow \<Rightarrow> 'g fn_result" where
  "escrow_call G c v t Stake s = stake G c v t s"
| "escrow_call G c v t (Withdraw n) s = withdraw G c n s"
| "escrow_call G c v t (Slash a n r) s = slash G c a n r s"
| "escrow_call G c v t (AuthorizeSlasher a) s = authorizeSlasher c a s"
| "escrow_call G c v t (EmergencyWithdraw a) s = emergencyWithdraw c a s"
| "escrow_call G c v t PauseStake s = setPaused c True s"
| "escrow_call G c v t UnpauseStake s = setPaused c False s"
| "escrow_call G c v t Receive s = Inr (Done (emit (StakeDeposited c v) s))"
| "escrow_call G c v t (LockStake a d) s = lockStake c a d t s"
| "escrow_call G c v t (UnlockStake a) s = unlockStake c a s"
| "escrow_call G c v t (RequestWithdrawal n) s = requestWithdrawal c n s"
| "escrow_call G c v t ClaimWithdrawal s = claimWithdrawal G c s"
| "escrow_call G c v t (SetStakeLockDuration d) s = setStakeLockDuration c d s"
| "escrow_call G c v t RenounceOwnership s = renounceOwnership c s"
| "escrow_call G c v t (SetMaximumStakeAmount n) s = setMaximumStakeAmount c n s"
| "escrow_call G c v t (BulkWithdraw ids) s = bulkWithdraw G c ids s"
| "escrow_call G c v t Fallback s = Inl ''No fallback - use receive() for deposits''"

text \<open>A transaction: caller, attached value, time, function, and the answer of the address that is paid. A payment to
  the contract itself runs its own \<open>receive\<close>.\<close>

datatype tx = Tx addr nat nat escrow_fn bool "tx list"

fun run_tx :: "'g guard_lib \<Rightarrow> tx \<Rightarrow> 'g escrow \<Rightarrow> string + 'g escrow"
  and run_txs :: "'g guard_lib \<Rightarrow> tx list \<Rightarrow> 'g escrow \<Rightarrow> 'g escrow" where
  "run_tx G (Tx c v t f accepts inner) s =
     (if \<not> payable f \<and> 0 < v then Inl '''' else
      case escrow_call G c v t f (s\<lparr>ether_balance := ether_balance s + v\<rparr>) of
        Inl r \<Rightarrow> Inl r
      | Inr (Done s') \<Rightarrow> Inr s'
      | Inr (Pay to amount reason s' finish) \<Rightarrow>
          if ether_balance s' < amount then Inl reason
          else if to = this s' then Inr (finish (emit (StakeDeposited to amount) s'))
          else if accepts then Inr (finish (run_txs G inner (s'\<lparr>ether_balance := ether_balance s' - amount\<rparr>)))
          else Inl reason)"
| "run_txs G [] s = s"
| "run_txs G (x # xs) s = run_txs G xs (case run_tx G x s of Inl r \<Rightarrow> s | Inr s' \<Rightarrow> s')"

text \<open>Every call of a transaction, the inner ones included, satisfies \<open>ok\<close>.\<close>

fun every_call :: "(addr \<Rightarrow> nat \<Rightarrow> escrow_fn \<Rightarrow> bool) \<Rightarrow> tx \<Rightarrow> bool" where
  "every_call ok (Tx c v t f accepts inner) \<longleftrightarrow> ok c v f \<and> (\<forall>x \<in> set inner. every_call ok x)"

lemmas contract_defs = stake_def withdraw_def slash_def authorizeSlasher_def emergencyWithdraw_def setPaused_def
  lockStake_def unlockStake_def requestWithdrawal_def claimWithdrawal_def setStakeLockDuration_def renounceOwnership_def
  setMaximumStakeAmount_def bulkWithdraw_def nonReentrant_def onlyOwner_def onlySlasher_def onlyStaked_def
  whenNotPaused_def validate_stake_amount_def checked_def need_def Let_def

section \<open>Invariants of a contract that is called back\<close>

text \<open>After the payment a function only writes the guard and the log.\<close>

lemma dispatch_finish:
  assumes "escrow_call G c v t f s = Inr (Pay to n r s' finish)"
  shows "finish x = x\<lparr>guard := guard (finish x), events := events (finish x)\<rparr>"
  using assms
  by (cases f) (auto simp: contract_defs leaving_def emit_def split: if_splits option.splits sum.splits)

lemma exec_tx_induct [case_names Tx Nil Cons]:
  assumes "\<And>c v t f accepts inner. Q inner \<Longrightarrow> P (Tx c v t f accepts inner)"
    and "Q []" and "\<And>x xs. P x \<Longrightarrow> Q xs \<Longrightarrow> Q (x # xs)"
  shows "P x" and "Q xs"
proof -
  show P: "P x" for x
  proof (induction x)
    case (Tx c v t f accepts inner)
    then have "Q inner" by (induction inner) (auto intro: assms(2,3))
    then show ?case by (rule assms(1))
  qed
  show "Q xs" by (induction xs) (auto intro: assms(2,3) P)
qed

text \<open>A predicate that a function keeps up to its payment, that the payment keeps, and that does not look at the guard
  and the log, holds after every transaction: whatever the paid address calls, at every depth.\<close>

locale escrow_invariant =
  fixes G :: "'g guard_lib" and ok :: "addr \<Rightarrow> nat \<Rightarrow> escrow_fn \<Rightarrow> bool" and I :: "'g escrow \<Rightarrow> bool"
  assumes step: "\<And>c v t f s s'. ok c v f \<Longrightarrow> (payable f \<or> v = 0) \<Longrightarrow> I s \<Longrightarrow>
      escrow_call G c v t f (s\<lparr>ether_balance := ether_balance s + v\<rparr>) = Inr (Done s') \<Longrightarrow> I s'"
    and paid: "\<And>c v t f s to n r s' finish. ok c v f \<Longrightarrow> (payable f \<or> v = 0) \<Longrightarrow> I s \<Longrightarrow>
      escrow_call G c v t f (s\<lparr>ether_balance := ether_balance s + v\<rparr>) = Inr (Pay to n r s' finish) \<Longrightarrow>
      n \<le> ether_balance s' \<Longrightarrow> I s' \<and> I (s'\<lparr>ether_balance := ether_balance s' - n\<rparr>)"
    and frame: "\<And>s g es. I (s\<lparr>guard := g, events := es\<rparr>) = I s"
begin

lemma finished: "escrow_call G c v t f s = Inr (Pay to n r s' finish) \<Longrightarrow> I x \<Longrightarrow> I (finish x)"
  using dispatch_finish[of G c v t f s to n r s' finish x] frame by metis

lemma emitted: "I (emit e s) = I s"
  using frame[where s = s and g = "guard s" and es = "events s @ [e]"] by (simp add: emit_def)

lemma kept:
  "every_call ok x \<Longrightarrow> I s \<Longrightarrow> run_tx G x s = Inr s' \<Longrightarrow> I s'"
  "(\<forall>x \<in> set xs. every_call ok x) \<Longrightarrow> I s \<Longrightarrow> I (run_txs G xs s)"
proof (induction x and xs arbitrary: s s' and s rule: exec_tx_induct)
  case (Tx c v t f accepts inner)
  let ?d = "escrow_call G c v t f (s\<lparr>ether_balance := ether_balance s + v\<rparr>)"
  have ok: "ok c v f" and v: "payable f \<or> v = 0" using Tx.prems by (auto split: if_splits)
  show ?case
  proof (cases "\<exists>to n r s1 finish. ?d = Inr (Pay to n r s1 finish)")
    case True
    then obtain to n r s1 finish where d: "?d = Inr (Pay to n r s1 finish)" by blast
    have n: "n \<le> ether_balance s1" using Tx.prems(3) d v by (auto split: if_splits)
    note I = paid[OF ok v Tx.prems(2) d n]
    have "I (run_txs G inner (s1\<lparr>ether_balance := ether_balance s1 - n\<rparr>))"
      using Tx.IH Tx.prems(1) I by simp
    then show ?thesis using Tx.prems(3) d v n I finished[OF d] emitted by (auto split: if_splits)
  next
    case False
    then have "?d = Inr (Done s')" using Tx.prems(3) v by (auto split: if_splits sum.splits outcome.splits)
    then show ?thesis using step[OF ok v Tx.prems(2)] by blast
  qed
qed (auto split: sum.splits)

end

section \<open>The books\<close>

text \<open>The list of stakers is the set of flags, each at its index, the entries repeat the amounts, and the total is the
  sum over the list. What is owed are the stakes and the requested withdrawals.\<close>

definition stake_books :: "'g escrow \<Rightarrow> bool" where
  "stake_books s \<longleftrightarrow> distinct (stakerList s) \<and> (\<forall>a. hasStakedFlag s a \<longleftrightarrow> a \<in> set (stakerList s)) \<and>
     (\<forall>a. a \<notin> set (stakerList s) \<longrightarrow> stakeOf s a = 0 \<and> pendingWithdrawals s a = 0) \<and>
     (\<forall>a. st_amount (stakes s a) = stakeOf s a) \<and>
     (\<forall>i < length (stakerList s). stakeIndex s (stakerList s ! i) = i) \<and>
     totalStaked s = (\<Sum>a \<leftarrow> stakerList s. stakeOf s a)"

definition owed :: "'g escrow \<Rightarrow> nat" where
  "owed s = totalStaked s + (\<Sum>a \<leftarrow> stakerList s. pendingWithdrawals s a)"

lemma sum_list_upd:
  "distinct xs \<Longrightarrow> a \<in> set xs \<Longrightarrow> (\<Sum>x \<leftarrow> xs. (f(a := n :: nat)) x) + f a = (\<Sum>x \<leftarrow> xs. f x) + n"
  by (induction xs) (auto simp: map_fun_upd)

lemma sum_list_ge: "a \<in> set xs \<Longrightarrow> (f a :: nat) \<le> (\<Sum>x \<leftarrow> xs. f x)"
  by (induction xs) auto

lemma ledger_register:
  "stake_books s \<Longrightarrow> stake_books (register_staker a s) \<and> owed (register_staker a s) = owed s \<and> hasStakedFlag (register_staker a s) a \<and>
     stakeOf (register_staker a s) = stakeOf s \<and> totalStaked (register_staker a s) = totalStaked s \<and>
     ether_balance (register_staker a s) = ether_balance s"
  by (auto simp: stake_books_def owed_def register_staker_def nth_append nth_mem less_Suc_eq)

lemma ledger_stake_body:
  assumes "stake_books s"
  shows "stake_books (escrow_stake_body a v t s)" and "owed (escrow_stake_body a v t s) = owed s + v"
    and "ether_balance (escrow_stake_body a v t s) = ether_balance s"
proof -
  let ?s = "register_staker a s"
  note r = ledger_register[OF assms, of a]
  then have "distinct (stakerList ?s)" "a \<in> set (stakerList ?s)" "totalStaked ?s = (\<Sum>x \<leftarrow> stakerList ?s. stakeOf ?s x)"
    by (auto simp: stake_books_def)
  then have "(\<Sum>x \<leftarrow> stakerList ?s. ((stakeOf ?s)(a := stakeOf ?s a + v)) x) = totalStaked ?s + v"
    using sum_list_upd[of "stakerList ?s" a "stakeOf ?s" "stakeOf ?s a + v"] by simp
  then show "stake_books (escrow_stake_body a v t s)" "owed (escrow_stake_body a v t s) = owed s + v"
      "ether_balance (escrow_stake_body a v t s) = ether_balance s"
    using r by (auto simp: stake_books_def owed_def escrow_stake_body_def emit_def Let_def)
qed

lemma ledger_take_stake:
  assumes "stake_books s" and "n \<le> stakeOf s a" and "hasStaked s a"
  shows "stake_books (take_stake a n s)" and "owed (take_stake a n s) + n = owed s"
proof -
  have a: "distinct (stakerList s)" "a \<in> set (stakerList s)" "totalStaked s = (\<Sum>x \<leftarrow> stakerList s. stakeOf s x)"
    using assms by (auto simp: stake_books_def hasStaked_def)
  then have "(\<Sum>x \<leftarrow> stakerList s. ((stakeOf s)(a := stakeOf s a - n)) x) + n = totalStaked s"
    using sum_list_upd[of "stakerList s" a "stakeOf s" "stakeOf s a - n"] assms(2) by simp
  moreover have "n \<le> totalStaked s" using sum_list_ge[OF a(2), of "stakeOf s"] assms(2) a(3) by simp
  ultimately show "stake_books (take_stake a n s)" "owed (take_stake a n s) + n = owed s"
    using assms a by (auto simp: stake_books_def owed_def take_stake_def set_stake_def)
qed

lemma ledger_pending:
  assumes "stake_books s" and "hasStaked s a"
  shows "stake_books (s\<lparr>pendingWithdrawals := (pendingWithdrawals s)(a := pendingWithdrawals s a + n)\<rparr>)"
    and "owed (s\<lparr>pendingWithdrawals := (pendingWithdrawals s)(a := pendingWithdrawals s a + n)\<rparr>) = owed s + n"
  using assms sum_list_upd[of "stakerList s" a "pendingWithdrawals s" "pendingWithdrawals s a + n"]
  by (auto simp: stake_books_def owed_def hasStaked_def)

lemma ledger_clear_pending:
  assumes "stake_books s"
  shows "stake_books (clear_pending a s)" and "owed (clear_pending a s) + pendingWithdrawals s a = owed s"
  using assms sum_list_upd[of "stakerList s" a "pendingWithdrawals s" 0]
  by (cases "a \<in> set (stakerList s)"; auto simp: stake_books_def owed_def clear_pending_def intro!: arg_cong[where f = sum_list])+

lemma ledger_frame [simp]:
  "stake_books (s\<lparr>guard := g\<rparr>) = stake_books s" "owed (s\<lparr>guard := g\<rparr>) = owed s"
  "stake_books (s\<lparr>events := es\<rparr>) = stake_books s" "owed (s\<lparr>events := es\<rparr>) = owed s"
  "stake_books (s\<lparr>ether_balance := b\<rparr>) = stake_books s" "owed (s\<lparr>ether_balance := b\<rparr>) = owed s"
  by (simp_all add: stake_books_def owed_def)

lemma bulk_loop_ledger:
  "stake_books s \<Longrightarrow> bulk_loop a ids acc s = Inr (n, s') \<Longrightarrow>
     stake_books s' \<and> owed s' + n = owed s + acc \<and> ether_balance s' = ether_balance s"
proof (induction a ids acc s rule: bulk_loop.induct)
  case (2 a i ids acc s)
  let ?s = "emit (StakeWithdrawn a (pendingWithdrawals s a)) (clear_pending a s)"
  have "stake_books ?s" "owed ?s + pendingWithdrawals s a = owed s" "ether_balance ?s = ether_balance s"
    using ledger_clear_pending[OF 2(2), of a] by (simp_all add: emit_def clear_pending_def)
  then show ?case using 2 by (auto simp: Let_def split: if_splits)
qed simp

lemma ledger_lock:
  "stake_books s \<Longrightarrow> stake_books (s\<lparr>stakes := (stakes s)(a := (stakes s a)\<lparr>st_locked := b, st_unlockTime := t\<rparr>)\<rparr>)"
  by (auto simp: stake_books_def)

lemma ledger_other [simp]:
  "owed (s\<lparr>stakes := f\<rparr>) = owed s"
  "stake_books (s\<lparr>slasher := x\<rparr>) = stake_books s" "owed (s\<lparr>slasher := x\<rparr>) = owed s"
  "stake_books (s\<lparr>owner := x\<rparr>) = stake_books s" "owed (s\<lparr>owner := x\<rparr>) = owed s"
  "stake_books (s\<lparr>paused := b\<rparr>) = stake_books s" "owed (s\<lparr>paused := b\<rparr>) = owed s"
  "stake_books (s\<lparr>ownershipRenounced := b\<rparr>) = stake_books s" "owed (s\<lparr>ownershipRenounced := b\<rparr>) = owed s"
  "stake_books (s\<lparr>stakeLockDuration := n\<rparr>) = stake_books s" "owed (s\<lparr>stakeLockDuration := n\<rparr>) = owed s"
  "stake_books (s\<lparr>maximumStakeAmount := n\<rparr>) = stake_books s" "owed (s\<lparr>maximumStakeAmount := n\<rparr>) = owed s"
  by (simp_all add: stake_books_def owed_def)

lemma take_stake_simps [simp]:
  "ether_balance (take_stake a n s) = ether_balance s" "this (take_stake a n s) = this s"
  "take_stake a n (s\<lparr>guard := g\<rparr>) = (take_stake a n s)\<lparr>guard := g\<rparr>"
  by (simp_all add: take_stake_def set_stake_def)

lemma clear_pending_simps [simp]:
  "ether_balance (clear_pending a s) = ether_balance s"
  "clear_pending a (s\<lparr>guard := g\<rparr>) = (clear_pending a s)\<lparr>guard := g\<rparr>"
  by (simp_all add: clear_pending_def)

lemma hasStaked_frame [simp]:
  "hasStaked (s\<lparr>guard := g\<rparr>) a = hasStaked s a" "hasStaked (s\<lparr>ether_balance := b\<rparr>) a = hasStaked s a"
  "hasStaked (s\<lparr>pendingWithdrawals := p\<rparr>) a = hasStaked s a"
  by (simp_all add: hasStaked_def)

lemma requested_books:
  assumes "stake_books s" and "n \<le> stakeOf s a" and "hasStaked s a"
  shows "stake_books (take_stake a n (s\<lparr>pendingWithdrawals := (pendingWithdrawals s)(a := pendingWithdrawals s a + n)\<rparr>))"
    and "owed (take_stake a n (s\<lparr>pendingWithdrawals := (pendingWithdrawals s)(a := pendingWithdrawals s a + n)\<rparr>)) = owed s"
  using ledger_pending[OF assms(1,3), of n] assms(2,3)
    ledger_take_stake[of "s\<lparr>pendingWithdrawals := (pendingWithdrawals s)(a := pendingWithdrawals s a + n)\<rparr>" n a]
  by simp_all

text \<open>What a function that is done, or about to pay, has done to the books.\<close>

lemma books_done:
  assumes "stake_books s" and "escrow_call G c v t f s = Inr (Done s')"
  shows "stake_books s' \<and> owed s' \<le> owed s + (if f = Stake then v else 0) \<and> ether_balance s' = ether_balance s"
proof (cases f)
  case (Slash a n r)
  then show ?thesis using assms ledger_take_stake[OF assms(1), of 0 a]
    by (auto simp: contract_defs leaving_def emit_def split: if_splits option.splits)
qed (use assms in \<open>auto simp: contract_defs leaving_def emit_def ledger_stake_body ledger_lock requested_books
    split: if_splits option.splits sum.splits\<close>)

lemma books_pay:
  assumes "stake_books s" and "escrow_call G c v t f s = Inr (Pay to n r s' finish)"
  shows "stake_books s' \<and> ether_balance s' = ether_balance s \<and> ((\<nexists>a. f = EmergencyWithdraw a) \<longrightarrow> owed s' + n \<le> owed s)"
proof (cases f)
  case (BulkWithdraw ids)
  then show ?thesis using assms
    by (auto simp: contract_defs split: if_splits option.splits sum.splits dest!: bulk_loop_ledger[rotated])
next
  case ClaimWithdrawal
  then show ?thesis using assms ledger_clear_pending[OF assms(1), of c]
    by (auto simp: contract_defs split: if_splits option.splits)
next
  case (Slash a m x)
  then show ?thesis using assms ledger_take_stake[OF assms(1), of n a]
    by (auto simp: contract_defs split: if_splits option.splits)
next
  case (Withdraw m)
  then show ?thesis using assms ledger_take_stake[OF assms(1), of n c]
    by (auto simp: contract_defs split: if_splits option.splits)
qed (use assms in \<open>auto simp: contract_defs split: if_splits option.splits sum.splits\<close>)

definition solvent :: "'g escrow \<Rightarrow> bool" where
  "solvent s \<longleftrightarrow> stake_books s \<and> owed s \<le> ether_balance s"

definition no_emergency :: "addr \<Rightarrow> nat \<Rightarrow> escrow_fn \<Rightarrow> bool" where
  "no_emergency c v f \<longleftrightarrow> (\<forall>a. f \<noteq> EmergencyWithdraw a)"

interpretation books: escrow_invariant G "\<lambda>_ _ _. True" stake_books for G
proof
  show "stake_books s'" if "stake_books s" "escrow_call G c v t f (s\<lparr>ether_balance := ether_balance s + v\<rparr>) = Inr (Done s')" for c v t f s s'
    using books_done[OF _ that(2)] that(1) by simp
  show "stake_books s' \<and> stake_books (s'\<lparr>ether_balance := ether_balance s' - n\<rparr>)"
    if "stake_books s" "escrow_call G c v t f (s\<lparr>ether_balance := ether_balance s + v\<rparr>) = Inr (Pay to n r s' finish)"
    for c v t f s to n r s' finish
    using books_pay[OF _ that(2)] that(1) by simp
qed simp

interpretation funds: escrow_invariant G no_emergency solvent for G
proof
  show "solvent s'" if "payable f \<or> v = 0" "solvent s"
    "escrow_call G c v t f (s\<lparr>ether_balance := ether_balance s + v\<rparr>) = Inr (Done s')" for c v t f s s'
    using books_done[OF _ that(3)] that(2) by (auto simp: solvent_def split: if_splits)
  show "solvent s' \<and> solvent (s'\<lparr>ether_balance := ether_balance s' - n\<rparr>)"
    if "no_emergency c v f" "solvent s"
    "escrow_call G c v t f (s\<lparr>ether_balance := ether_balance s + v\<rparr>) = Inr (Pay to n r s' finish)"
    for c v t f s to n r s' finish
    using books_pay[OF _ that(3)] that(1,2) by (auto simp: solvent_def no_emergency_def)
qed (simp add: solvent_def)

lemma deploy_solvent: "solvent (deploy_escrow self g sender)"
  by (simp add: solvent_def stake_books_def owed_def deploy_escrow_def no_stake_def)

section \<open>Properties\<close>

text \<open>C27: in every run of the escrow contract without an emergency withdrawal, whatever the addresses it pays call
  before they answer and however the reentrancy guard behaves, the ether it holds covers every stake and
  every requested withdrawal, the total is the sum of the stakes of the distinct stakers, and the entry
  of each staker repeats the amount.\<close>

theorem escrow_stays_solvent:
  fixes G :: "'g guard_lib" and g :: 'g and self sender a :: addr
  assumes "\<forall>x \<in> set xs. every_call no_emergency x"
  defines "s \<equiv> run_txs G xs (deploy_escrow self g sender)"
  shows "totalStaked s + (\<Sum>a \<leftarrow> stakerList s. pendingWithdrawals s a) \<le> ether_balance s \<and>
    distinct (stakerList s) \<and> totalStaked s = (\<Sum>a \<leftarrow> stakerList s. stakeOf s a) \<and>
    stakeOf s a + pendingWithdrawals s a \<le> ether_balance s \<and> st_amount (stakes s a) = stakeOf s a"
proof -
  have s: "solvent s" using funds.kept(2)[OF assms(1) deploy_solvent] by (simp add: s_def)
  then have "stakeOf s a + pendingWithdrawals s a \<le> owed s"
    using sum_list_ge[of a "stakerList s" "stakeOf s"] sum_list_ge[of a "stakerList s" "pendingWithdrawals s"]
    by (cases "a \<in> set (stakerList s)") (auto simp: solvent_def stake_books_def owed_def)
  then show ?thesis using s by (auto simp: solvent_def stake_books_def owed_def)
qed

text \<open>A guard as the library describes it: entering twice fails, leaving makes it free again.\<close>

definition flag_guard :: "bool guard_lib" where
  "flag_guard = \<lparr>enter = (\<lambda>b. if b then None else Some True), leave = (\<lambda>_. False)\<rparr>"

lemma escrow_stays_solvent_witness:
  "totalStaked (run_txs flag_guard [Tx 7 ether 0 Stake True [], Tx 7 0 1 (Withdraw ether) True [Tx 7 0 1 (Withdraw ether) True []]]
     (deploy_escrow 1 False 2)) \<le>
   ether_balance (run_txs flag_guard [Tx 7 ether 0 Stake True [], Tx 7 0 1 (Withdraw ether) True [Tx 7 0 1 (Withdraw ether) True []]]
     (deploy_escrow 1 False 2))"
  using escrow_stays_solvent[of "[Tx 7 ether 0 Stake True [], Tx 7 0 1 (Withdraw ether) True [Tx 7 0 1 (Withdraw ether) True []]]"
      flag_guard 1 False 2 0]
  by (simp add: no_emergency_def)

text \<open>C28: in a solvent state a staker that is not locked gets the whole stake out while the contract is not paused and
  not entered, whatever it calls when it is paid: the transaction succeeds, and without inner calls it
  moves exactly the stake.\<close>

theorem unlocked_staker_withdraws:
  assumes "solvent s" and "hasStaked s a" and "\<not> st_locked (stakes s a)" and "\<not> paused s"
    and "enter G (guard s) = Some g" and "a \<noteq> this s"
  shows "(\<exists>s'. run_tx G (Tx a 0 t (Withdraw (stakeOf s a)) True inner) s = Inr s') \<and>
    (\<exists>s'. run_tx G (Tx a 0 t (Withdraw (stakeOf s a)) True []) s = Inr s' \<and> stakeOf s' a = 0 \<and>
       ether_balance s' + stakeOf s a = ether_balance s \<and> (\<forall>b. b \<noteq> a \<longrightarrow> stakeOf s' b = stakeOf s b) \<and> solvent s')"
proof -
  have total: "stakeOf s a \<le> totalStaked s" "stakeOf s a \<le> ether_balance s"
    using assms(1,2) sum_list_ge[of a "stakerList s" "stakeOf s"]
    by (auto simp: solvent_def stake_books_def owed_def hasStaked_def)
  have pos: "0 < stakeOf s a" using assms(2) by (simp add: hasStaked_def)

  have ex: "\<exists>s'. run_tx G (Tx a 0 t (Withdraw (stakeOf s a)) True xs) s = Inr s'" for xs
    using assms(2-6) pos total
    by (simp add: contract_defs payable_def may_leave_def take_stake_def set_stake_def)
  moreover obtain s' where s': "run_tx G (Tx a 0 t (Withdraw (stakeOf s a)) True []) s = Inr s'" using ex by blast
  moreover have "stakeOf s' a = 0 \<and> ether_balance s' + stakeOf s a = ether_balance s \<and> (\<forall>b. b \<noteq> a \<longrightarrow> stakeOf s' b = stakeOf s b)"
    using s' assms(2-6) pos total
    by (auto simp: contract_defs payable_def may_leave_def take_stake_def set_stake_def leaving_def emit_def)
  moreover have "solvent s'"
    by (rule funds.kept(1)[OF _ assms(1) s']) (simp add: no_emergency_def)
  ultimately show ?thesis by blast
qed

text \<open>A node \<open>7\<close> that staked twenty-five ether with the contract \<open>1\<close> of the owner \<open>2\<close>.\<close>

definition escrow_example :: "bool escrow" where
  "escrow_example = run_txs flag_guard [Tx 7 (25 * ether) 0 Stake True []] (deploy_escrow 1 False 2)"

lemma escrow_example_facts:
  "solvent escrow_example" "hasStaked escrow_example 7" "stakeOf escrow_example 7 = 25 * ether"
  "\<not> st_locked (stakes escrow_example 7)" "\<not> paused escrow_example" "guard escrow_example = False"
  "this escrow_example = 1" "owner escrow_example = 2" "slasher escrow_example = 2" "totalStaked escrow_example = 25 * ether"
  "pendingWithdrawals escrow_example 7 = 0" "maximumStakeAmount escrow_example = 1000 * ether" "hasStakedFlag escrow_example 7"
proof -
  show "solvent escrow_example"
    unfolding escrow_example_def by (rule funds.kept(2)[OF _ deploy_solvent]) (simp add: no_emergency_def)
qed (simp_all add: escrow_example_def deploy_escrow_def contract_defs payable_def flag_guard_def MIN_STAKE_def ether_def
    escrow_stake_body_def register_staker_def leaving_def emit_def hasStaked_def)

lemma unlocked_staker_withdraws_witness:
  "\<exists>s'. run_tx flag_guard (Tx 7 0 5 (Withdraw (25 * ether)) True [Tx 7 0 5 ClaimWithdrawal True []]) escrow_example = Inr s'"
  using unlocked_staker_withdraws[of escrow_example 7 flag_guard True 5 "[Tx 7 0 5 ClaimWithdrawal True []]"]
  by (simp add: escrow_example_facts flag_guard_def)

text \<open>C29: a lock does not hold a stake. A locked node, whatever its unlock time, asks for its whole stake,
  whereupon it can no longer be slashed, stakes the minimum, which clears the lock, and claims what it asked
  for; the minimum is then unlocked as well.\<close>

theorem locked_stake_escapes:
  assumes "solvent s" and "hasStaked s a" and "\<not> paused s" and "a \<noteq> this s"
    and "enter G (guard s) = Some g" and "leave G g = guard s"
    and "maximumStakeAmount s = 0 \<or> MIN_STAKE \<le> maximumStakeAmount s"
    and "pendingWithdrawals s a + stakeOf s a < 2 ^ 256" and "totalStaked s + MIN_STAKE < 2 ^ 256"
  shows "\<exists>s1 s2 s3. run_tx G (Tx a 0 t (RequestWithdrawal (stakeOf s a)) True []) s = Inr s1 \<and>
      run_tx G (Tx a MIN_STAKE t Stake True []) s1 = Inr s2 \<and> run_tx G (Tx a 0 t ClaimWithdrawal True []) s2 = Inr s3 \<and>
      (\<forall>n r xs. run_tx G (Tx (slasher s) 0 t (Slash a n r) True xs) s1 = Inl ''Node has not staked'') \<and>
      ether_balance s3 + stakeOf s a + pendingWithdrawals s a = ether_balance s + MIN_STAKE \<and>
      stakeOf s3 a = MIN_STAKE \<and> pendingWithdrawals s3 a = 0 \<and> \<not> st_locked (stakes s3 a)"
proof -
  have flag: "hasStakedFlag s a" and pos: "0 < stakeOf s a" using assms(2) by (simp_all add: hasStaked_def)
  have total: "stakeOf s a \<le> totalStaked s" "stakeOf s a + pendingWithdrawals s a \<le> ether_balance s"
    using assms(1) flag sum_list_ge[of a "stakerList s" "stakeOf s"] sum_list_ge[of a "stakerList s" "pendingWithdrawals s"]
    by (auto simp: solvent_def stake_books_def owed_def)
  have min: "0 < MIN_STAKE" by (simp add: MIN_STAKE_def ether_def)
  let ?s1 = "emit (StakeChanged a 0 ''withdrawal_requested'') (take_stake a (stakeOf s a)
      (s\<lparr>pendingWithdrawals := (pendingWithdrawals s)(a := pendingWithdrawals s a + stakeOf s a)\<rparr>))"
  have s1: "run_tx G (Tx a 0 t (RequestWithdrawal (stakeOf s a)) True []) s = Inr ?s1"
    using assms(2,3,8) pos total by (simp add: contract_defs payable_def may_leave_def)
  let ?s2 = "leaving G (escrow_stake_body a MIN_STAKE t (?s1\<lparr>ether_balance := ether_balance s + MIN_STAKE, guard := g\<rparr>))"
  have s2: "run_tx G (Tx a MIN_STAKE t Stake True []) ?s1 = Inr ?s2"
    using assms(3,5,7,9) min total
    by (simp add: contract_defs payable_def emit_def take_stake_def set_stake_def)
  have s3: "\<exists>s3. run_tx G (Tx a 0 t ClaimWithdrawal True []) ?s2 = Inr s3 \<and>
      ether_balance s3 + stakeOf s a + pendingWithdrawals s a = ether_balance s + MIN_STAKE \<and>
      stakeOf s3 a = MIN_STAKE \<and> pendingWithdrawals s3 a = 0 \<and> \<not> st_locked (stakes s3 a)"
    using assms(3-6) pos total flag
    by (simp add: contract_defs payable_def emit_def take_stake_def set_stake_def leaving_def escrow_stake_body_def
        register_staker_def clear_pending_def)
  have "run_tx G (Tx (slasher s) 0 t (Slash a n r) True xs) ?s1 = Inl ''Node has not staked''" for n r xs
    using assms(5) by (simp add: contract_defs payable_def emit_def take_stake_def set_stake_def hasStaked_def)
  then show ?thesis using s1 s2 s3 by blast
qed

definition locked_example :: "bool escrow" where
  "locked_example = run_txs flag_guard [Tx 2 0 0 (LockStake 7 (10 ^ 9)) True []] escrow_example"

lemma locked_example_facts:
  "solvent locked_example" "hasStaked locked_example 7" "stakeOf locked_example 7 = 25 * ether"
  "st_locked (stakes locked_example 7)" "\<not> paused locked_example" "guard locked_example = False"
  "this locked_example = 1" "slasher locked_example = 2" "totalStaked locked_example = 25 * ether"
  "pendingWithdrawals locked_example 7 = 0" "maximumStakeAmount locked_example = 1000 * ether"
proof -
  show "solvent locked_example"
    unfolding locked_example_def by (rule funds.kept(2)[OF _ escrow_example_facts(1)]) (simp add: no_emergency_def)
  show "hasStaked locked_example 7"
    using escrow_example_facts(2)
    by (simp add: locked_example_def contract_defs payable_def emit_def escrow_example_facts hasStaked_def)
qed (simp_all add: locked_example_def contract_defs payable_def emit_def escrow_example_facts)

lemma locked_stake_escapes_witness:
  "st_locked (stakes locked_example 7) \<and>
     (\<exists>s1. run_tx flag_guard (Tx 7 0 0 (RequestWithdrawal (25 * ether)) True []) locked_example = Inr s1)"
  using locked_stake_escapes[where s = locked_example and a = 7 and G = flag_guard and g = True and t = 0]
  by (fastforce simp del: run_tx.simps simp: locked_example_facts flag_guard_def MIN_STAKE_def ether_def)

lemma bulk_loop_again: "bulk_loop c (i # j # ids) acc s \<noteq> Inr x"
  by (auto simp: Let_def emit_def clear_pending_def)

text \<open>Also: the bulk withdrawal reads the same entry for every identifier, so it reverts unless there is exactly one;
  with one, whichever it is, it is the claim of the pending withdrawal.\<close>

theorem bulk_withdrawal_single:
  assumes "c \<noteq> this s" and "pendingWithdrawals s c < 2 ^ 256"
  shows "(length ids \<noteq> 1 \<longrightarrow> run_tx G (Tx c 0 t (BulkWithdraw ids) accepts inner) s \<in> range Inl) \<and>
    run_tx G (Tx c 0 t (BulkWithdraw [i]) accepts []) s = run_tx G (Tx c 0 t ClaimWithdrawal accepts []) s"
proof (intro conjI impI)
  assume ids: "length ids \<noteq> 1"
  have "escrow_call G c 0 t (BulkWithdraw ids) (s\<lparr>ether_balance := ether_balance s + 0\<rparr>) \<in> range Inl"
  proof (cases ids)
    case Nil
    then show ?thesis by (auto simp: contract_defs split: option.splits)
  next
    case (Cons i js)
    then obtain j ks where "ids = i # j # ks" using ids by (cases js) auto
    then show ?thesis
      using bulk_loop_again[of c i j ks 0]
      by (auto simp: contract_defs simp del: bulk_loop.simps split: option.splits sum.splits)
  qed
  then show "run_tx G (Tx c 0 t (BulkWithdraw ids) accepts inner) s \<in> range Inl" by auto
next
  show "run_tx G (Tx c 0 t (BulkWithdraw [i]) accepts []) s = run_tx G (Tx c 0 t ClaimWithdrawal accepts []) s"
    using assms
    by (simp add: contract_defs payable_def emit_def clear_pending_def leaving_def split: option.splits)
qed

lemma bulk_withdrawal_single_witness:
  "run_tx flag_guard (Tx 7 0 0 (BulkWithdraw [0, 1]) True []) escrow_example \<in> range Inl"
  using bulk_withdrawal_single[of 7 escrow_example "[0, 1]" flag_guard 0 True "[]"]
  by (simp add: escrow_example_facts)

section \<open>After the owner has gone\<close>

text \<open>The owner renounced while the contract was paused and nothing was staked; requested withdrawals remain.\<close>

definition abandoned :: "(addr \<Rightarrow> nat) \<Rightarrow> nat \<Rightarrow> 'g escrow \<Rightarrow> bool" where
  "abandoned pending b s \<longleftrightarrow> owner s = 0 \<and> paused s \<and> totalStaked s = 0 \<and> stake_books s \<and>
     pendingWithdrawals s = pending \<and> b \<le> ether_balance s"

definition real_caller :: "addr \<Rightarrow> nat \<Rightarrow> escrow_fn \<Rightarrow> bool" where
  "real_caller c v f \<longleftrightarrow> c \<noteq> 0"

lemma abandoned_not_staked: "abandoned p b s \<Longrightarrow> \<not> hasStaked s a"
  using sum_list_ge[of a "stakerList s" "stakeOf s"] by (auto simp: abandoned_def stake_books_def hasStaked_def)

lemma abandoned_dispatch:
  assumes "abandoned p b s" and "c \<noteq> 0" and "escrow_call G c v t f s = Inr r"
  shows "\<exists>es. r = Done (s\<lparr>events := es\<rparr>)"
  using assms(3) assms(1,2) abandoned_not_staked[OF assms(1)]
  by (cases f) (auto simp: contract_defs abandoned_def emit_def split: if_splits option.splits sum.splits)

interpretation frozen: escrow_invariant G real_caller "abandoned p b" for G p b
proof
  have ether: "abandoned p b (s\<lparr>ether_balance := ether_balance s + v\<rparr>)" if "abandoned p b s" for s :: "'b escrow" and v
    using that by (simp add: abandoned_def)
  show "abandoned p b s'" if "real_caller c v f" "abandoned p b s"
      "escrow_call G c v t f (s\<lparr>ether_balance := ether_balance s + v\<rparr>) = Inr (Done s')" for c v t f s s'
    using abandoned_dispatch[OF ether[OF that(2)] _ that(3)] that(1,2) by (auto simp: real_caller_def abandoned_def)
  show "abandoned p b s' \<and> abandoned p b (s'\<lparr>ether_balance := ether_balance s' - n\<rparr>)"
    if "real_caller c v f" "abandoned p b s"
      "escrow_call G c v t f (s\<lparr>ether_balance := ether_balance s + v\<rparr>) = Inr (Pay to n r s' finish)"
    for c v t f s to n r s' finish
    using abandoned_dispatch[OF ether[OF that(2)] _ that(3)] that(1) by (auto simp: real_caller_def)
qed (simp add: abandoned_def)

text \<open>C30: requested withdrawals are lost when the owner renounces a paused contract, which it allows as soon as nothing
  is staked: whoever calls what, from then on nothing is paid out and every pending withdrawal stays.\<close>

theorem renounced_while_paused_freezes:
  assumes "solvent s" and "run_tx G (Tx (owner s) 0 t RenounceOwnership b ys) s = Inr s0" and "paused s"
    and "\<forall>x \<in> set xs. every_call real_caller x"
  shows "pendingWithdrawals (run_txs G xs s0) = pendingWithdrawals s \<and>
    ether_balance s \<le> ether_balance (run_txs G xs s0) \<and> paused (run_txs G xs s0) \<and>
    (\<forall>c u ok zs. c \<noteq> 0 \<longrightarrow> run_tx G (Tx c 0 u ClaimWithdrawal ok zs) (run_txs G xs s0) \<in> range Inl)"
proof -
  have "abandoned (pendingWithdrawals s) (ether_balance s) s0"
    using assms(1-3) by (auto simp: contract_defs payable_def abandoned_def solvent_def emit_def split: if_splits)
  from frozen.kept(2)[OF assms(4) this]
  have final: "abandoned (pendingWithdrawals s) (ether_balance s) (run_txs G xs s0)" .
  then show ?thesis
    by (auto simp: abandoned_def contract_defs payable_def split: option.splits)
qed

text \<open>The example after the node asked for its stake and the owner paused.\<close>

definition paused_example :: "bool escrow" where
  "paused_example = run_txs flag_guard
     [Tx 7 0 1 (RequestWithdrawal (25 * ether)) True [], Tx 2 0 2 PauseStake True []] escrow_example"

lemma paused_example_facts:
  "solvent paused_example" "paused paused_example" "owner paused_example = 2" "totalStaked paused_example = 0"
  "pendingWithdrawals paused_example 7 = 25 * ether" "\<not> ownershipRenounced paused_example"
proof -
  show "solvent paused_example"
    unfolding paused_example_def by (rule funds.kept(2)[OF _ escrow_example_facts(1)]) (simp add: no_emergency_def)
  have staked: "hasStakedFlag escrow_example 7" "\<not> ownershipRenounced escrow_example"
    by (simp_all add: escrow_example_def deploy_escrow_def contract_defs payable_def flag_guard_def MIN_STAKE_def ether_def
      escrow_stake_body_def register_staker_def leaving_def emit_def hasStaked_def)
  show "paused paused_example" "owner paused_example = 2" "totalStaked paused_example = 0"
    "pendingWithdrawals paused_example 7 = 25 * ether" "\<not> ownershipRenounced paused_example"
    using staked escrow_example_facts(2)
    by (simp_all add: paused_example_def contract_defs payable_def emit_def take_stake_def set_stake_def may_leave_def
        escrow_example_facts ether_def)
qed

lemma renounced_while_paused_freezes_witness:
  "\<exists>s0. run_tx flag_guard (Tx 2 0 3 RenounceOwnership True []) paused_example = Inr s0 \<and>
     pendingWithdrawals (run_txs flag_guard [Tx 7 0 4 ClaimWithdrawal True []] s0) 7 = 25 * ether"
proof -
  obtain s0 where s0: "run_tx flag_guard (Tx (owner paused_example) 0 3 RenounceOwnership True []) paused_example = Inr s0"
    by (auto simp: contract_defs payable_def paused_example_facts)
  show ?thesis
    using s0 renounced_while_paused_freezes[OF paused_example_facts(1) s0 paused_example_facts(2),
        of "[Tx 7 0 4 ClaimWithdrawal True []]"]
    by (simp del: run_tx.simps run_txs.simps add: real_caller_def paused_example_facts)
qed

section \<open>Slashing and the minimum\<close>

definition no_slash :: "addr \<Rightarrow> nat \<Rightarrow> escrow_fn \<Rightarrow> bool" where
  "no_slash c v f \<longleftrightarrow> (\<forall>a n r. f \<noteq> Slash a n r)"

definition minimum_kept :: "'g escrow \<Rightarrow> bool" where
  "minimum_kept s \<longleftrightarrow> (\<forall>a. stakeOf s a = 0 \<or> MIN_STAKE \<le> stakeOf s a)"

lemma stakeOf_simps [simp]:
  "stakeOf (take_stake a n s) = (stakeOf s)(a := stakeOf s a - n)" "stakeOf (clear_pending a s) = stakeOf s"
  "stakeOf (escrow_stake_body a v t s) = (stakeOf s)(a := stakeOf s a + v)"
  by (auto simp: take_stake_def set_stake_def clear_pending_def escrow_stake_body_def register_staker_def emit_def Let_def)

lemma bulk_loop_stakes: "bulk_loop c ids acc s = Inr (n, s') \<Longrightarrow> stakeOf s' = stakeOf s"
  by (induction c ids acc s rule: bulk_loop.induct) (auto simp: Let_def emit_def split: if_splits)

lemma stakes_done:
  assumes "escrow_call G c v t f s = Inr (Done s')" and "no_slash c v f"
  shows "\<forall>a. stakeOf s' a = stakeOf s a \<or> stakeOf s' a = 0 \<or> MIN_STAKE \<le> stakeOf s' a"
  using assms
  by (cases f) (auto simp: contract_defs leaving_def emit_def no_slash_def may_leave_def split: if_splits option.splits sum.splits)

lemma stakes_pay:
  assumes "escrow_call G c v t f s = Inr (Pay to n r s' finish)" and "no_slash c v f"
  shows "\<forall>a. stakeOf s' a = stakeOf s a \<or> stakeOf s' a = 0 \<or> MIN_STAKE \<le> stakeOf s' a"
  using assms
  by (cases f) (auto simp: contract_defs no_slash_def may_leave_def split: if_splits option.splits sum.splits
      dest: bulk_loop_stakes)

interpretation minimum: escrow_invariant G no_slash minimum_kept for G
proof
  show "minimum_kept s'" if "no_slash c v f" "minimum_kept s"
    "escrow_call G c v t f (s\<lparr>ether_balance := ether_balance s + v\<rparr>) = Inr (Done s')" for c v t f s s'
    using stakes_done[OF that(3,1)] that(2) unfolding minimum_kept_def by simp metis
  show "minimum_kept s' \<and> minimum_kept (s'\<lparr>ether_balance := ether_balance s' - n\<rparr>)"
    if "no_slash c v f" "minimum_kept s"
    "escrow_call G c v t f (s\<lparr>ether_balance := ether_balance s + v\<rparr>) = Inr (Pay to n r s' finish)"
    for c v t f s to n r s' finish
    using stakes_pay[OF that(3,1)] that(2) unfolding minimum_kept_def by simp metis
qed (simp add: minimum_kept_def)

text \<open>Also: a stake is zero or at least the minimum until a slash; the maximum bounds one deposit, not a node: two
  deposits of a thousand ether are both accepted.\<close>

theorem stakes_reach_minimum:
  assumes "\<forall>x \<in> set xs. every_call no_slash x"
  shows "stakeOf (run_txs G xs (deploy_escrow self g sender)) a = 0 \<or>
    MIN_STAKE \<le> stakeOf (run_txs G xs (deploy_escrow self g sender)) a"
  using minimum.kept(2)[OF assms, of "deploy_escrow self g sender" G] by (simp add: minimum_kept_def deploy_escrow_def)

lemma maximum_is_per_deposit:
  "stakeOf (run_txs flag_guard [Tx 7 (1000 * ether) 0 Stake True [], Tx 7 (1000 * ether) 1 Stake True []]
     (deploy_escrow 1 False 2)) 7 = 2000 * ether"
  by (simp add: deploy_escrow_def contract_defs payable_def flag_guard_def MIN_STAKE_def ether_def leaving_def
      escrow_stake_body_def register_staker_def emit_def)

text \<open>Also: only the slasher slashes, also while the contract is paused; it takes the amount or the whole stake, gets
  exactly that, and reaches neither the other stakes nor what was asked for.\<close>

theorem slash_takes_at_most_the_stake:
  assumes "run_tx G (Tx c 0 t (Slash a n r) accepts []) s = Inr s'" and "c \<noteq> this s"
  shows "c = slasher s \<and> stakeOf s' = (stakeOf s)(a := stakeOf s a - n) \<and> pendingWithdrawals s' = pendingWithdrawals s \<and>
    ether_balance s' + min n (stakeOf s a) = ether_balance s \<and> totalStaked s' + min n (stakeOf s a) = totalStaked s"
  using assms
  by (auto simp: contract_defs payable_def leaving_def emit_def take_stake_def set_stake_def min_def fun_eq_iff
      split: if_splits option.splits)

end
