(* ===== verification/ReputationContract.thy ===== *)
theory ReputationContract
  imports EscrowContract Domain "HOL-Library.Signed_Division"
begin

text \<open>
  \<open>contracts/contracts/ReputationLedger.sol\<close>, the contract that keeps the scores of the nodes. Its storage is a record,
  a function gives the new storage or the reason for which it reverts, and a run is a list of transactions, one that
  reverts leaving the storage as it was. Scores are integers, checked against the width of \<open>int256\<close>; division
  truncates towards zero.
\<close>

section \<open>Storage\<close>

definition MAX_REPUTATION :: int where "MAX_REPUTATION = 10000"
definition MIN_REPUTATION :: int where "MIN_REPUTATION = - 1000"
definition INITIAL_REPUTATION :: int where "INITIAL_REPUTATION = 100"
definition DECAY_RATE :: nat where "DECAY_RATE = 100"
definition DECAY_PERIOD :: nat where "DECAY_PERIOD = 30 * 86400"

lemmas ledger_constants = MAX_REPUTATION_def MIN_REPUTATION_def INITIAL_REPUTATION_def DECAY_RATE_def DECAY_PERIOD_def

datatype ledger_event = ReputationUpdated addr int nat nat

record rep_ledger =
  reputationScore :: "addr \<Rightarrow> int"
  lastUpdate :: "addr \<Rightarrow> nat"
  registeredAt :: "addr \<Rightarrow> nat"
  ledger_callers :: "addr \<Rightarrow> bool"
  ledger_log :: "ledger_event list"

definition deploy_ledger :: "addr \<Rightarrow> rep_ledger" where
  "deploy_ledger sender = \<lparr>reputationScore = (\<lambda>_. 0), lastUpdate = (\<lambda>_. 0), registeredAt = (\<lambda>_. 0),
     ledger_callers = (\<lambda>a. a = sender), ledger_log = []\<rparr>"

section \<open>Functions\<close>

type_synonym 'a reverts = "string + 'a"

definition require :: "bool \<Rightarrow> string \<Rightarrow> 'a reverts \<Rightarrow> 'a reverts" where
  "require b reason r = (if b then r else Inl reason)"

text \<open>A value of \<open>int256\<close>, or the panic of checked arithmetic.\<close>

definition int256 :: "int \<Rightarrow> (int \<Rightarrow> 'a reverts) \<Rightarrow> 'a reverts" where
  "int256 i f = (if - (2 ^ 255) \<le> i \<and> i < 2 ^ 255 then f i else Inl ''Panic'')"

text \<open>The difference of two values of \<open>uint256\<close>.\<close>

definition uint_sub :: "nat \<Rightarrow> nat \<Rightarrow> (nat \<Rightarrow> 'a reverts) \<Rightarrow> 'a reverts" where
  "uint_sub m n f = (if n \<le> m then f (m - n) else Inl ''Panic'')"

definition to_uint256 :: "int \<Rightarrow> nat" where
  "to_uint256 i = nat (i mod 2 ^ 256)"

definition hasReputation :: "rep_ledger \<Rightarrow> addr \<Rightarrow> bool" where
  "hasReputation s node \<longleftrightarrow> 0 < lastUpdate s node"

definition onlyAuthorized :: "rep_ledger \<Rightarrow> addr \<Rightarrow> 'a reverts \<Rightarrow> 'a reverts" where
  "onlyAuthorized s sender r = require (ledger_callers s sender) ''Caller not authorized'' r"

definition init_score :: "addr \<Rightarrow> rep_ledger \<Rightarrow> rep_ledger" where
  "init_score node s = (if hasReputation s node then s
     else s\<lparr>reputationScore := (reputationScore s)(node := INITIAL_REPUTATION)\<rparr>)"

definition initializeNode :: "addr \<Rightarrow> nat \<Rightarrow> addr \<Rightarrow> rep_ledger \<Rightarrow> rep_ledger reverts" where
  "initializeNode sender now node s = onlyAuthorized s sender (require (node \<noteq> 0) ''Node address cannot be zero''
     (Inr ((init_score node s)\<lparr>registeredAt := (registeredAt s)(node := now), lastUpdate := (lastUpdate s)(node := now)\<rparr>)))"

definition set_score :: "addr \<Rightarrow> nat \<Rightarrow> int \<Rightarrow> int \<Rightarrow> rep_ledger \<Rightarrow> rep_ledger" where
  "set_score node now delta new s = s\<lparr>reputationScore := (reputationScore s)(node := new),
     lastUpdate := (lastUpdate s)(node := now),
     ledger_log := ledger_log s @ [ReputationUpdated node delta (to_uint256 new) now]\<rparr>"

definition clamp_score :: "int \<Rightarrow> int" where
  "clamp_score n = (if MAX_REPUTATION < n then MAX_REPUTATION else if n < MIN_REPUTATION then MIN_REPUTATION else n)"

definition updateReputation :: "nat \<Rightarrow> addr \<Rightarrow> int \<Rightarrow> rep_ledger \<Rightarrow> rep_ledger reverts" where
  "updateReputation now node delta s = require (node \<noteq> 0) ''Node address cannot be zero''
     (let s = init_score node s in
      int256 (reputationScore s node + delta) (\<lambda>n. Inr (set_score node now delta (clamp_score n) s)))"

definition incrementReputation :: "addr \<Rightarrow> nat \<Rightarrow> addr \<Rightarrow> int \<Rightarrow> rep_ledger \<Rightarrow> rep_ledger reverts" where
  "incrementReputation sender now node delta s = onlyAuthorized s sender (require (0 < delta) ''Delta must be positive''
     (updateReputation now node delta s))"

definition decrementReputation :: "addr \<Rightarrow> nat \<Rightarrow> addr \<Rightarrow> int \<Rightarrow> rep_ledger \<Rightarrow> rep_ledger reverts" where
  "decrementReputation sender now node delta s = onlyAuthorized s sender (require (0 < delta) ''Delta must be positive''
     (int256 (- delta) (\<lambda>d. updateReputation now node d s)))"

definition getReputation :: "rep_ledger \<Rightarrow> addr \<Rightarrow> int" where
  "getReputation s node = (if hasReputation s node then reputationScore s node else 0)"

definition applyDecay :: "nat \<Rightarrow> addr \<Rightarrow> rep_ledger \<Rightarrow> rep_ledger reverts" where
  "applyDecay now node s = require (node \<noteq> 0) ''Node address cannot be zero''
     (require (hasReputation s node) ''Node has no reputation''
       (uint_sub now (lastUpdate s node) (\<lambda>passed.
         if DECAY_PERIOD \<le> passed then
           uint_sub 10000 (DECAY_RATE * (passed div DECAY_PERIOD)) (\<lambda>f.
             (let factor = (if int f < 0 then 0 else int f); old = reputationScore s node in
              int256 (old * factor) (\<lambda>m.
                (let new = (if m sdiv 10000 < MIN_REPUTATION then MIN_REPUTATION else m sdiv 10000) in
                 int256 (new - old) (\<lambda>delta. Inr (set_score node now delta new s))))))
         else Inr s)))"

fun batchApplyDecay :: "nat \<Rightarrow> addr list \<Rightarrow> rep_ledger \<Rightarrow> rep_ledger reverts" where
  "batchApplyDecay now [] s = Inr s"
| "batchApplyDecay now (n # ns) s = (case applyDecay now n s of Inl r \<Rightarrow> Inl r | Inr s' \<Rightarrow> batchApplyDecay now ns s')"

text \<open>Neither function looks at its caller.\<close>

definition authorizeCaller :: "addr \<Rightarrow> rep_ledger \<Rightarrow> rep_ledger" where
  "authorizeCaller a s = s\<lparr>ledger_callers := (ledger_callers s)(a := True)\<rparr>"

definition revokeCaller :: "addr \<Rightarrow> rep_ledger \<Rightarrow> rep_ledger" where
  "revokeCaller a s = s\<lparr>ledger_callers := (ledger_callers s)(a := False)\<rparr>"

definition contract_getReputationTier :: "rep_ledger \<Rightarrow> addr \<Rightarrow> string" where
  "contract_getReputationTier s node = (let score = getReputation s node in
     if 5000 \<le> score then ''Excellent'' else if 2500 \<le> score then ''Good'' else if 1000 \<le> score then ''Fair''
     else if 0 \<le> score then ''Poor'' else ''Critical'')"

section \<open>Transactions\<close>

datatype ledger_fn =
    InitializeNode addr
  | IncrementReputation addr int
  | DecrementReputation addr int
  | ApplyDecay addr
  | BatchApplyDecay "addr list"
  | AuthorizeCaller addr
  | RevokeCaller addr

fun ledger_call :: "addr \<Rightarrow> nat \<Rightarrow> ledger_fn \<Rightarrow> rep_ledger \<Rightarrow> rep_ledger reverts" where
  "ledger_call c t (InitializeNode n) s = initializeNode c t n s"
| "ledger_call c t (IncrementReputation n d) s = incrementReputation c t n d s"
| "ledger_call c t (DecrementReputation n d) s = decrementReputation c t n d s"
| "ledger_call c t (ApplyDecay n) s = applyDecay t n s"
| "ledger_call c t (BatchApplyDecay ns) s = batchApplyDecay t ns s"
| "ledger_call c t (AuthorizeCaller a) s = Inr (authorizeCaller a s)"
| "ledger_call c t (RevokeCaller a) s = Inr (revokeCaller a s)"

fun ledger_step :: "addr \<times> nat \<times> ledger_fn \<Rightarrow> rep_ledger \<Rightarrow> rep_ledger" where
  "ledger_step (c, t, f) s = (case ledger_call c t f s of Inl r \<Rightarrow> s | Inr s' \<Rightarrow> s')"

lemmas ledger_defs = initializeNode_def incrementReputation_def decrementReputation_def updateReputation_def applyDecay_def
  onlyAuthorized_def require_def int256_def uint_sub_def set_score_def init_score_def Let_def

section \<open>The range of the scores\<close>

definition score_ok :: "int \<Rightarrow> bool" where
  "score_ok i \<longleftrightarrow> MIN_REPUTATION \<le> i \<and> i \<le> MAX_REPUTATION"

definition ledger_inv :: "rep_ledger \<Rightarrow> bool" where
  "ledger_inv s \<longleftrightarrow> (\<forall>a. score_ok (reputationScore s a)) \<and> \<not> hasReputation s 0"

lemma score_ok_clamp [simp]: "score_ok (clamp_score n)"
  by (simp add: score_ok_def clamp_score_def ledger_constants)

lemma clamp_id: "score_ok i \<Longrightarrow> clamp_score i = i"
  by (simp add: score_ok_def clamp_score_def)

text \<open>A factor of at most one takes a score towards zero.\<close>

lemma decay_bounds:
  fixes i f :: int
  assumes "0 \<le> f" "f \<le> 10000"
  shows "0 \<le> i \<Longrightarrow> 0 \<le> i * f sdiv 10000 \<and> i * f sdiv 10000 \<le> i"
    and "i \<le> 0 \<Longrightarrow> i \<le> i * f sdiv 10000 \<and> i * f sdiv 10000 \<le> 0"
proof -
  have mono: "j * f div 10000 \<le> j" if "0 \<le> j" for j
  proof -
    have "j * f \<le> j * 10000" using assms that by (intro mult_left_mono) auto
    then show ?thesis using zdiv_mono1[of "j * f" "j * 10000" 10000] by simp
  qed
  show "0 \<le> i * f sdiv 10000 \<and> i * f sdiv 10000 \<le> i" if "0 \<le> i"
    using that assms mono[OF that] by (simp add: signed_divide_int_def sgn_if pos_imp_zdiv_nonneg_iff)
  show "i \<le> i * f sdiv 10000 \<and> i * f sdiv 10000 \<le> 0" if "i \<le> 0"
  proof -
    have "\<bar>i * f\<bar> = - i * f" using that assms by (simp add: abs_mult)
    moreover have "i * f \<le> 0" using that assms by (simp add: mult_nonpos_nonneg)
    ultimately have "i * f sdiv 10000 = - (- i * f div 10000)"
      by (auto simp: signed_divide_int_def sgn_if)
    moreover have "0 \<le> - i * f div 10000" using that assms by (simp add: pos_imp_zdiv_nonneg_iff mult_nonpos_nonneg)
    ultimately show ?thesis using mono[of "- i"] that by simp
  qed
qed

lemma score_ok_decay:
  assumes "0 \<le> f" "f \<le> 10000" "score_ok i"
  shows "score_ok (i * f sdiv 10000)"
  using decay_bounds[OF assms(1,2), of i] assms(3) by (cases "0 \<le> i") (auto simp: score_ok_def ledger_constants)

lemma ledger_inv_init [simp]: "ledger_inv s \<Longrightarrow> ledger_inv (init_score a s)"
  by (simp add: ledger_inv_def init_score_def hasReputation_def score_ok_def ledger_constants)

lemma ledger_inv_set: "ledger_inv s \<Longrightarrow> score_ok i \<Longrightarrow> a \<noteq> 0 \<Longrightarrow> ledger_inv (set_score a t d i s)"
  by (simp add: ledger_inv_def set_score_def hasReputation_def)

lemma updateReputation_inv:
  "ledger_inv s \<Longrightarrow> updateReputation t a d s = Inr s' \<Longrightarrow> ledger_inv s'"
  by (auto simp: updateReputation_def require_def int256_def Let_def intro: ledger_inv_set split: if_splits)

text \<open>A successful decay: the score before a period has passed, and after.\<close>

definition decay_periods :: "nat \<Rightarrow> rep_ledger \<Rightarrow> addr \<Rightarrow> nat" where
  "decay_periods now s a = (now - lastUpdate s a) div DECAY_PERIOD"

definition decayed :: "int \<Rightarrow> nat \<Rightarrow> int" where
  "decayed i n = i * (10000 - 100 * int n) sdiv 10000"

lemma applyDecay_eq:
  assumes "score_ok (reputationScore s a)"
  shows "applyDecay now a s =
    (if a = 0 then Inl ''Node address cannot be zero''
     else if \<not> hasReputation s a then Inl ''Node has no reputation''
     else if now < lastUpdate s a then Inl ''Panic''
     else if decay_periods now s a = 0 then Inr s
     else if 100 < decay_periods now s a then Inl ''Panic''
     else Inr (set_score a now (decayed (reputationScore s a) (decay_periods now s a) - reputationScore s a)
       (decayed (reputationScore s a) (decay_periods now s a)) s))"
proof -
  define n i where "n = decay_periods now s a" and "i = reputationScore s a"
  have n0: "DECAY_PERIOD \<le> now - lastUpdate s a \<longleftrightarrow> n \<noteq> 0"
    by (auto simp: n_def decay_periods_def DECAY_PERIOD_def div_eq_0_iff)
  have start: "applyDecay now a s = (if a = 0 then Inl ''Node address cannot be zero''
     else if \<not> hasReputation s a then Inl ''Node has no reputation''
     else if now < lastUpdate s a then Inl ''Panic''
     else if n = 0 then Inr s
     else if 100 < n then Inl ''Panic''
     else int256 (i * int (10000 - 100 * n)) (\<lambda>m.
       (let new = (if m sdiv 10000 < MIN_REPUTATION then MIN_REPUTATION else m sdiv 10000) in
        int256 (new - i) (\<lambda>delta. Inr (set_score a now delta new s)))))"
    using n0 by (simp add: applyDecay_def require_def uint_sub_def DECAY_RATE_def n_def decay_periods_def i_def Let_def)
  have last: "int256 (i * int (10000 - 100 * n)) (\<lambda>m.
       (let new = (if m sdiv 10000 < MIN_REPUTATION then MIN_REPUTATION else m sdiv 10000) in
        int256 (new - i) (\<lambda>delta. Inr (set_score a now delta new s)))) =
      Inr (set_score a now (decayed i n - i) (decayed i n) s)" if n: "n \<le> 100"
  proof -
    have f: "int (10000 - 100 * n) = 10000 - 100 * int n" using n by simp
    have ok: "score_ok i" "score_ok (decayed i n)"
      using score_ok_decay[of "10000 - 100 * int n" i] assms n by (simp_all add: decayed_def i_def)
    have "\<bar>i * (10000 - 100 * int n)\<bar> \<le> 10000 * 10000"
      unfolding abs_mult using ok(1) n by (intro mult_mono) (auto simp: score_ok_def ledger_constants)
    then have "- (2 ^ 255) \<le> i * (10000 - 100 * int n)" "i * (10000 - 100 * int n) < 2 ^ 255" by simp_all
    moreover have "\<not> decayed i n < MIN_REPUTATION" "- (2 ^ 255) \<le> decayed i n - i" "decayed i n - i < 2 ^ 255"
      using ok by (simp_all add: score_ok_def ledger_constants)
    ultimately show ?thesis unfolding f int256_def Let_def decayed_def[symmetric] by simp
  qed
  show ?thesis unfolding start n_def[symmetric] i_def[symmetric] using last by simp
qed

lemma applyDecay_inv:
  assumes "ledger_inv s" "applyDecay t a s = Inr s'"
  shows "ledger_inv s'"
proof -
  have ok: "score_ok (reputationScore s a)" using assms(1) by (simp add: ledger_inv_def)
  then have "score_ok (decayed (reputationScore s a) n)" if "n \<le> 100" for n
    using score_ok_decay[of "10000 - 100 * int n"] that by (simp add: decayed_def)
  then show ?thesis
    using assms unfolding applyDecay_eq[OF ok] by (auto intro: ledger_inv_set split: if_splits)
qed

lemma batchApplyDecay_inv: "ledger_inv s \<Longrightarrow> batchApplyDecay t ns s = Inr s' \<Longrightarrow> ledger_inv s'"
  by (induction ns arbitrary: s) (auto dest: applyDecay_inv split: sum.splits)

lemma ledger_step_inv: "ledger_inv s \<Longrightarrow> ledger_inv (ledger_step x s)"
proof (induction x s rule: ledger_step.induct)
  case (1 c t f s)
  show ?case
  proof (cases "ledger_call c t f s")
    case (Inr s')
    have "ledger_inv s'"
    proof (cases f)
      case (InitializeNode a)
      then show ?thesis using Inr 1 ledger_inv_init[of s a]
        by (auto simp: initializeNode_def onlyAuthorized_def require_def ledger_inv_def hasReputation_def init_score_def
            split: if_splits)
    next
      case (IncrementReputation a d)
      then show ?thesis using Inr 1
        by (auto simp: incrementReputation_def onlyAuthorized_def require_def intro: updateReputation_inv split: if_splits)
    next
      case (DecrementReputation a d)
      then show ?thesis using Inr 1
        by (auto simp: decrementReputation_def onlyAuthorized_def require_def int256_def intro: updateReputation_inv
            split: if_splits)
    next
      case (ApplyDecay a)
      then show ?thesis using Inr 1 by (auto intro: applyDecay_inv)
    next
      case (BatchApplyDecay as)
      then show ?thesis using Inr 1 by (auto intro: batchApplyDecay_inv)
    qed (use Inr 1 in \<open>auto simp: authorizeCaller_def revokeCaller_def ledger_inv_def hasReputation_def\<close>)
    then show ?thesis using Inr by simp
  qed (use 1 in simp)
qed

interpretation ledger_run: state_machine ledger_step ledger_inv "deploy_ledger d"
  by unfold_locales
    (simp_all add: ledger_step_inv, simp add: ledger_inv_def deploy_ledger_def hasReputation_def score_ok_def ledger_constants)

section \<open>Properties\<close>

text \<open>C38: in every run of the reputation ledger, with any callers, times and amounts, every score lies between the
  minimum and the maximum, and the zero address has none.\<close>

theorem ledger_scores_bounded:
  "MIN_REPUTATION \<le> getReputation (fold ledger_step txs (deploy_ledger d)) a \<and>
   getReputation (fold ledger_step txs (deploy_ledger d)) a \<le> MAX_REPUTATION \<and>
   getReputation (fold ledger_step txs (deploy_ledger d)) 0 = 0"
  using ledger_run.inv_reachable[of txs d]
  by (auto simp: ledger_inv_def getReputation_def score_ok_def ledger_constants)

text \<open>C39: a decay that does not revert takes a score towards zero, in proportion to the whole periods since the last
  update: inactivity costs a node with a good score and raises a negative one. After more than a hundred periods the
  decay reverts, whoever asks for it, so the longest inactivity costs nothing.\<close>

theorem decay_towards_zero:
  fixes txs d a now
  defines "s \<equiv> fold ledger_step txs (deploy_ledger d)"
  assumes "hasReputation s a" "lastUpdate s a \<le> now" "a \<noteq> 0"
  defines "n \<equiv> (now - lastUpdate s a) div DECAY_PERIOD"
  shows "case ledger_call c now (ApplyDecay a) s of
      Inl e \<Rightarrow> 100 < n
    | Inr s' \<Rightarrow> n \<le> 100 \<and> \<bar>getReputation s' a\<bar> \<le> \<bar>getReputation s a\<bar> \<and>
        (0 < n \<and> 0 < now \<longrightarrow> getReputation s' a = getReputation s a * (10000 - 100 * int n) sdiv 10000 \<and>
          (getReputation s a < 0 \<longrightarrow> getReputation s a < getReputation s' a))"
proof -
  define i where "i = reputationScore s a"
  have ok: "score_ok i" using ledger_run.inv_reachable[of txs d] by (simp add: s_def i_def ledger_inv_def)
  have i: "getReputation s a = i" using assms(2) by (simp add: getReputation_def i_def)
  have n: "decay_periods now s a = n" by (simp add: n_def decay_periods_def)
  have "\<bar>decayed i n\<bar> \<le> \<bar>i\<bar>" if "n \<le> 100"
    using decay_bounds[of "10000 - 100 * int n" i] that by (cases "0 \<le> i") (auto simp: decayed_def)
  moreover have "i < decayed i n" if "n \<le> 100" "0 < n" "i < 0"
  proof -
    have "- i * (10000 - 100 * int n) < - i * 10000" using that by (intro mult_strict_left_mono) auto
    then have "- i * (10000 - 100 * int n) div 10000 < - i"
      by (simp add: div_less_iff_less_mult)
    moreover have "decayed i n = - (- i * (10000 - 100 * int n) div 10000)"
      using that by (auto simp: decayed_def signed_divide_int_def sgn_if abs_mult mult_less_0_iff zero_less_mult_iff)
    ultimately show ?thesis by simp
  qed
  ultimately show ?thesis
    using assms(2,3,4) ok
    by (auto simp: applyDecay_eq[folded i_def] n i i_def[symmetric] getReputation_def hasReputation_def set_score_def
        decayed_def[symmetric])
qed

definition slashed_run :: "(addr \<times> nat \<times> ledger_fn) list" where
  "slashed_run = [(1, 1, InitializeNode 5), (1, 1, DecrementReputation 5 600)]"

lemma slashed_run_state:
  "getReputation (fold ledger_step slashed_run (deploy_ledger 1)) 5 = - 500"
  "hasReputation (fold ledger_step slashed_run (deploy_ledger 1)) 5"
  "lastUpdate (fold ledger_step slashed_run (deploy_ledger 1)) 5 = 1"
  by (simp_all add: slashed_run_def deploy_ledger_def ledger_defs hasReputation_def getReputation_def clamp_score_def
      ledger_constants)

theorem decay_towards_zero_witness:
  "case ledger_call 7 (1 + 2 * DECAY_PERIOD) (ApplyDecay 5) (fold ledger_step slashed_run (deploy_ledger 1)) of
     Inl e \<Rightarrow> False | Inr s' \<Rightarrow> getReputation s' 5 = - 490"
  using decay_towards_zero[of slashed_run 1 5 "1 + 2 * DECAY_PERIOD" 7] slashed_run_state
  by (auto simp: DECAY_PERIOD_def signed_divide_int_def sgn_if split: sum.splits)

text \<open>Also: the guard of the ledger keeps nobody out. Whatever the state is, any address makes itself a caller and sets the
  score of any node to the maximum or to the minimum with two transactions.\<close>

theorem ledger_open_to_all:
  assumes "score_ok (reputationScore s node)" "node \<noteq> 0" "0 < t"
  shows "getReputation (fold ledger_step [(c, t, AuthorizeCaller c), (c, t, IncrementReputation node 11000)] s) node = MAX_REPUTATION \<and>
    getReputation (fold ledger_step [(c, t, AuthorizeCaller c), (c, t, DecrementReputation node 11000)] s) node = MIN_REPUTATION"
proof -
  let ?s = "init_score node (authorizeCaller c s)"
  have ok: "score_ok (reputationScore ?s node)"
    using assms(1) by (simp add: init_score_def authorizeCaller_def score_ok_def ledger_constants)
  then have "clamp_score (reputationScore ?s node + 11000) = MAX_REPUTATION"
    "clamp_score (reputationScore ?s node - 11000) = MIN_REPUTATION"
    by (auto simp: clamp_score_def score_ok_def ledger_constants)
  then show ?thesis
    using ok assms(2,3)
    by (auto simp: incrementReputation_def decrementReputation_def onlyAuthorized_def require_def updateReputation_def
        int256_def Let_def set_score_def getReputation_def hasReputation_def score_ok_def ledger_constants)
      (simp_all add: authorizeCaller_def)
qed

theorem ledger_open_to_all_witness:
  "getReputation (fold ledger_step [(9, 3, AuthorizeCaller 9), (9, 3, DecrementReputation 5 11000)] (deploy_ledger 1)) 5 = - 1000"
  using ledger_open_to_all[of "deploy_ledger 1" 5 3 9]
  by (simp add: score_ok_def deploy_ledger_def ledger_constants)

text \<open>Also: a node that has just been initialised is Poor for the contract and Gold for the web application, whose
  thresholds for a score are its own.\<close>

theorem tiers_of_new_node:
  assumes "initializeNode c t a s = Inr s'" "\<not> hasReputation s a" "0 < t"
  shows "contract_getReputationTier s' a = ''Poor'' \<and>
    getReputationTier (Fin (of_int (getReputation s' a))) = Gold"
  using assms
  by (auto simp: initializeNode_def onlyAuthorized_def require_def init_score_def contract_getReputationTier_def
      getReputation_def hasReputation_def ledger_constants tier_Gold_iff split: if_splits)

text \<open>Also: one node without a reputation makes a whole batch revert.\<close>

theorem batch_decay_all_or_nothing:
  "a \<in> set as \<Longrightarrow> \<not> hasReputation s a \<Longrightarrow> \<exists>e. batchApplyDecay t as s = Inl e"
proof (induction as arbitrary: s)
  case (Cons b as)
  show ?case
  proof (cases "applyDecay t b s")
    case (Inr s')
    then have "b \<noteq> a" using Cons.prems(2) by (auto simp: applyDecay_def require_def split: if_splits)
    moreover from this have "hasReputation s' a = hasReputation s a" using Inr
      by (auto simp: applyDecay_def require_def uint_sub_def int256_def Let_def set_score_def hasReputation_def split: if_splits)
    ultimately show ?thesis using Cons Inr by simp
  qed simp
qed simp

end
