(* ===== verification/RegistryContract.thy ===== *)
theory RegistryContract
  imports ReputationContract
begin

text \<open>
  \<open>contracts/contracts/NodeRegistry.sol\<close>, the contract where nodes register with a stake, in the form of theory
  \<open>EscrowContract\<close>: a function is what it does up to its payment, and a transaction comes with the answer of the address
  that is paid, which may call the contract again. The contract has no guard against that and no function that
  receives plain ether.
\<close>

section \<open>Storage\<close>

datatype registry_status = NOffline | NOnline | NStale | NSlashed

record reg_node =
  stakeAmount :: nat
  node_status :: registry_status
  node_registeredAt :: nat
  lastHeartbeat :: nat
  node_reputation :: int

definition no_node :: reg_node where
  "no_node = \<lparr>stakeAmount = 0, node_status = NOffline, node_registeredAt = 0, lastHeartbeat = 0, node_reputation = 0\<rparr>"

datatype registry_event =
    NodeRegistered addr nat
  | StakeUpdated addr nat
  | NodeStatusChanged addr registry_status registry_status
  | MinStakeUpdated nat nat

record node_registry =
  reg_balance :: nat
  nodes :: "addr \<Rightarrow> reg_node"
  registered :: "addr \<Rightarrow> bool"
  nodeList :: "addr list"
  minStake :: nat
  reg_callers :: "addr \<Rightarrow> bool"
  reg_log :: "registry_event list"

definition REGISTRY_MIN_STAKE :: nat where
  "REGISTRY_MIN_STAKE = ether div 10"

definition deploy_registry :: "addr \<Rightarrow> node_registry" where
  "deploy_registry sender = \<lparr>reg_balance = 0, nodes = (\<lambda>_. no_node), registered = (\<lambda>_. False), nodeList = [],
     minStake = REGISTRY_MIN_STAKE, reg_callers = (\<lambda>a. a = sender), reg_log = []\<rparr>"

section \<open>Functions\<close>

datatype reg_outcome = RDone node_registry | RPay addr nat node_registry "node_registry \<Rightarrow> node_registry"

type_synonym reg_result = "reg_outcome reverts"

definition reg_emit :: "registry_event \<Rightarrow> node_registry \<Rightarrow> node_registry" where
  "reg_emit e s = s\<lparr>reg_log := reg_log s @ [e]\<rparr>"

definition uint256 :: "nat \<Rightarrow> (nat \<Rightarrow> 'a reverts) \<Rightarrow> 'a reverts" where
  "uint256 n f = (if n < 2 ^ 256 then f n else Inl ''Panic'')"

definition put_node :: "addr \<Rightarrow> reg_node \<Rightarrow> node_registry \<Rightarrow> node_registry" where
  "put_node a n s = s\<lparr>nodes := (nodes s)(a := n)\<rparr>"

definition reg_authorized :: "node_registry \<Rightarrow> addr \<Rightarrow> 'a reverts \<Rightarrow> 'a reverts" where
  "reg_authorized s sender r = require (reg_callers s sender) ''Caller not authorized'' r"

definition onlyRegistered :: "node_registry \<Rightarrow> addr \<Rightarrow> 'a reverts \<Rightarrow> 'a reverts" where
  "onlyRegistered s node r = require (registered s node) ''Node not registered'' r"

definition registerNode :: "addr \<Rightarrow> nat \<Rightarrow> nat \<Rightarrow> nat \<Rightarrow> node_registry \<Rightarrow> reg_result" where
  "registerNode sender val now initialStake s = require (minStake s \<le> initialStake) ''Below minimum stake''
     (require (\<not> registered s sender) ''Already registered'' (require (initialStake \<le> val) ''Incorrect ETH value''
       (Inr (RDone (reg_emit (NodeRegistered sender val)
         ((put_node sender \<lparr>stakeAmount = val, node_status = NOnline, node_registeredAt = now, lastHeartbeat = now,
             node_reputation = 0\<rparr> s)
           \<lparr>registered := (registered s)(sender := True), nodeList := nodeList s @ [sender]\<rparr>))))))"

definition updateStake :: "addr \<Rightarrow> nat \<Rightarrow> nat \<Rightarrow> node_registry \<Rightarrow> reg_result" where
  "updateStake sender val additional s = onlyRegistered s sender (require (additional \<le> val) ''Incorrect ETH value''
     (uint256 (stakeAmount (nodes s sender) + val) (\<lambda>n.
       Inr (RDone (reg_emit (StakeUpdated sender n) (put_node sender ((nodes s sender)\<lparr>stakeAmount := n\<rparr>) s))))))"

definition withdrawStake :: "addr \<Rightarrow> nat \<Rightarrow> node_registry \<Rightarrow> reg_result" where
  "withdrawStake sender amount s = onlyRegistered s sender
     (require (amount \<le> stakeAmount (nodes s sender)) ''Insufficient stake''
       (require (minStake s \<le> stakeAmount (nodes s sender) - amount) ''Cannot go below minimum stake''
         (Inr (RPay sender amount
           (put_node sender ((nodes s sender)\<lparr>stakeAmount := stakeAmount (nodes s sender) - amount\<rparr>) s)
           (\<lambda>s. reg_emit (StakeUpdated sender (stakeAmount (nodes s sender))) s)))))"

definition updateNodeStatus :: "addr \<Rightarrow> addr \<Rightarrow> registry_status \<Rightarrow> node_registry \<Rightarrow> reg_result" where
  "updateNodeStatus sender node st s = reg_authorized s sender (onlyRegistered s node
     (Inr (RDone (reg_emit (NodeStatusChanged node (node_status (nodes s node)) st)
       (put_node node ((nodes s node)\<lparr>node_status := st\<rparr>) s)))))"

definition updateHeartbeat :: "nat \<Rightarrow> addr \<Rightarrow> node_registry \<Rightarrow> reg_result" where
  "updateHeartbeat now node s = onlyRegistered s node
     (Inr (RDone (put_node node ((nodes s node)\<lparr>lastHeartbeat := now,
       node_status := (if node_status (nodes s node) = NStale then NOnline else node_status (nodes s node))\<rparr>) s)))"

definition registry_updateReputation :: "addr \<Rightarrow> addr \<Rightarrow> int \<Rightarrow> node_registry \<Rightarrow> reg_result" where
  "registry_updateReputation sender node delta s = reg_authorized s sender (onlyRegistered s node
     (int256 (node_reputation (nodes s node) + delta) (\<lambda>i.
       Inr (RDone (reg_emit (StakeUpdated node (stakeAmount (nodes s node)))
         (put_node node ((nodes s node)\<lparr>node_reputation := i\<rparr>) s))))))"

definition slashStake :: "addr \<Rightarrow> addr \<Rightarrow> nat \<Rightarrow> node_registry \<Rightarrow> reg_result" where
  "slashStake sender node amount s = reg_authorized s sender (onlyRegistered s node
     (let n = nodes s node; slashed = (if stakeAmount n < amount then stakeAmount n else amount) in
      Inr (RDone (reg_emit (NodeStatusChanged node NOnline NSlashed)
        (put_node node (n\<lparr>stakeAmount := stakeAmount n - slashed, node_status := NSlashed\<rparr>) s)))))"

text \<open>The last three functions do not look at their caller.\<close>

definition registry_authorize :: "addr \<Rightarrow> bool \<Rightarrow> node_registry \<Rightarrow> reg_result" where
  "registry_authorize a b s = Inr (RDone (s\<lparr>reg_callers := (reg_callers s)(a := b)\<rparr>))"

definition updateMinStake :: "nat \<Rightarrow> node_registry \<Rightarrow> reg_result" where
  "updateMinStake n s = Inr (RDone (reg_emit (MinStakeUpdated (minStake s) n) (s\<lparr>minStake := n\<rparr>)))"

text \<open>What can be read.\<close>

definition registry_getStake :: "node_registry \<Rightarrow> addr \<Rightarrow> nat" where
  "registry_getStake s node = (if registered s node then stakeAmount (nodes s node) else 0)"

definition getNodeStatus :: "node_registry \<Rightarrow> addr \<Rightarrow> registry_status" where
  "getNodeStatus s node = (if registered s node then node_status (nodes s node) else NOffline)"

definition registry_getReputation :: "node_registry \<Rightarrow> addr \<Rightarrow> int" where
  "registry_getReputation s node = (if registered s node then node_reputation (nodes s node) else 0)"

definition meetsMinStake :: "node_registry \<Rightarrow> addr \<Rightarrow> bool" where
  "meetsMinStake s node \<longleftrightarrow> registered s node \<and> minStake s \<le> stakeAmount (nodes s node)"

section \<open>Transactions\<close>

datatype registry_fn =
    RegisterNode nat
  | UpdateStake nat
  | WithdrawStake nat
  | UpdateNodeStatus addr registry_status
  | UpdateHeartbeat addr
  | UpdateReputation addr int
  | SlashStake addr nat
  | AuthorizeOnRegistry addr
  | RevokeOnRegistry addr
  | UpdateMinStake nat

fun takes_ether :: "registry_fn \<Rightarrow> bool" where
  "takes_ether (RegisterNode n) = True"
| "takes_ether (UpdateStake n) = True"
| "takes_ether _ = False"

fun registry_call :: "addr \<Rightarrow> nat \<Rightarrow> nat \<Rightarrow> registry_fn \<Rightarrow> node_registry \<Rightarrow> reg_result" where
  "registry_call c v t (RegisterNode n) s = registerNode c v t n s"
| "registry_call c v t (UpdateStake n) s = updateStake c v n s"
| "registry_call c v t (WithdrawStake n) s = withdrawStake c n s"
| "registry_call c v t (UpdateNodeStatus a st) s = updateNodeStatus c a st s"
| "registry_call c v t (UpdateHeartbeat a) s = updateHeartbeat t a s"
| "registry_call c v t (UpdateReputation a d) s = registry_updateReputation c a d s"
| "registry_call c v t (SlashStake a n) s = slashStake c a n s"
| "registry_call c v t (AuthorizeOnRegistry a) s = registry_authorize a True s"
| "registry_call c v t (RevokeOnRegistry a) s = registry_authorize a False s"
| "registry_call c v t (UpdateMinStake n) s = updateMinStake n s"

datatype reg_tx = RTx addr nat nat registry_fn bool "reg_tx list"

fun run_reg :: "reg_tx \<Rightarrow> node_registry \<Rightarrow> node_registry reverts"
  and run_regs :: "reg_tx list \<Rightarrow> node_registry \<Rightarrow> node_registry" where
  "run_reg (RTx c v t f accepts inner) s =
     (if \<not> takes_ether f \<and> 0 < v then Inl '''' else
      case registry_call c v t f (s\<lparr>reg_balance := reg_balance s + v\<rparr>) of
        Inl r \<Rightarrow> Inl r
      | Inr (RDone s') \<Rightarrow> Inr s'
      | Inr (RPay to amount s' finish) \<Rightarrow>
          if reg_balance s' < amount \<or> \<not> accepts then Inl ''Transfer failed''
          else Inr (finish (run_regs inner (s'\<lparr>reg_balance := reg_balance s' - amount\<rparr>))))"
| "run_regs [] s = s"
| "run_regs (x # xs) s = run_regs xs (case run_reg x s of Inl r \<Rightarrow> s | Inr s' \<Rightarrow> s')"

lemmas registry_defs = registerNode_def updateStake_def withdrawStake_def updateNodeStatus_def updateHeartbeat_def
  registry_updateReputation_def slashStake_def registry_authorize_def updateMinStake_def reg_authorized_def
  onlyRegistered_def require_def uint256_def int256_def

section \<open>The ether of the registry\<close>

text \<open>The list holds the registered nodes, each once. The surplus is what the contract holds beyond the stakes.\<close>

definition reg_books :: "node_registry \<Rightarrow> bool" where
  "reg_books s \<longleftrightarrow> distinct (nodeList s) \<and> (\<forall>a. registered s a \<longleftrightarrow> a \<in> set (nodeList s))"

definition staked_sum :: "node_registry \<Rightarrow> nat" where
  "staked_sum s = (\<Sum>a \<leftarrow> nodeList s. stakeAmount (nodes s a))"

definition surplus :: "node_registry \<Rightarrow> int" where
  "surplus s = int (reg_balance s) - int (staked_sum s)"

definition holds_surplus :: "int \<Rightarrow> node_registry \<Rightarrow> bool" where
  "holds_surplus k s \<longleftrightarrow> reg_books s \<and> k \<le> surplus s"

lemma put_node_fields [simp]:
  "nodeList (put_node a n s) = nodeList s" "registered (put_node a n s) = registered s"
  "reg_balance (put_node a n s) = reg_balance s" "nodes (put_node a n s) = (nodes s)(a := n)"
  "minStake (put_node a n s) = minStake s"
  by (simp_all add: put_node_def)

lemma reg_emit_fields [simp]:
  "nodeList (reg_emit e s) = nodeList s" "registered (reg_emit e s) = registered s"
  "reg_balance (reg_emit e s) = reg_balance s" "nodes (reg_emit e s) = nodes s" "minStake (reg_emit e s) = minStake s"
  by (simp_all add: reg_emit_def)

lemma staked_put:
  assumes "reg_books s" "registered s a"
  shows "staked_sum (put_node a n s) + stakeAmount (nodes s a) = staked_sum s + stakeAmount n"
proof -
  have "staked_sum (put_node a n s) = (\<Sum>x \<leftarrow> nodeList s. ((\<lambda>x. stakeAmount (nodes s x))(a := stakeAmount n)) x)"
    unfolding staked_sum_def put_node_fields by (intro arg_cong[where f = sum_list] map_cong) auto
  moreover have "distinct (nodeList s)" "a \<in> set (nodeList s)" using assms by (simp_all add: reg_books_def)
  note sum_list_upd[OF this, of "\<lambda>x. stakeAmount (nodes s x)" "stakeAmount n"]
  ultimately show ?thesis unfolding staked_sum_def by linarith
qed

lemma holds_emit [simp]: "holds_surplus k (reg_emit e s) = holds_surplus k s"
  by (simp add: holds_surplus_def reg_books_def surplus_def staked_sum_def)

lemma holds_put:
  assumes "holds_surplus k s" "registered s a" "stakeAmount n \<le> stakeAmount (nodes s a) + v"
  shows "holds_surplus k (put_node a n (s\<lparr>reg_balance := reg_balance s + v\<rparr>))"
proof -
  let ?s = "s\<lparr>reg_balance := reg_balance s + v\<rparr>"
  have "reg_books ?s" using assms(1) by (simp add: holds_surplus_def reg_books_def)
  moreover have "staked_sum ?s = staked_sum s" by (simp add: staked_sum_def)
  ultimately show ?thesis
    using staked_put[of ?s a n] assms by (simp add: holds_surplus_def reg_books_def surplus_def)
qed

lemma holds_put0: "holds_surplus k s \<Longrightarrow> registered s a \<Longrightarrow> stakeAmount n \<le> stakeAmount (nodes s a) \<Longrightarrow>
    holds_surplus k (put_node a n s)"
  using holds_put[of k s a n 0] by simp

lemma holds_frame: "holds_surplus k (s\<lparr>reg_callers := c\<rparr>) = holds_surplus k s" "holds_surplus k (s\<lparr>minStake := m\<rparr>) = holds_surplus k s"
  by (simp_all add: holds_surplus_def reg_books_def surplus_def staked_sum_def)

lemma holds_register:
  assumes "holds_surplus k s" "\<not> registered s a" "stakeAmount n = v"
  shows "holds_surplus k ((put_node a n (s\<lparr>reg_balance := reg_balance s + v\<rparr>))
    \<lparr>registered := (registered s)(a := True), nodeList := nodeList s @ [a]\<rparr>)"
proof -
  have a: "a \<notin> set (nodeList s)" using assms by (simp add: holds_surplus_def reg_books_def)
  then have "(\<Sum>x \<leftarrow> nodeList s. stakeAmount (((nodes s)(a := n)) x)) = staked_sum s"
    unfolding staked_sum_def by (intro arg_cong[where f = sum_list] map_cong) auto
  then show ?thesis using assms a by (auto simp: holds_surplus_def reg_books_def surplus_def staked_sum_def)
qed

lemma reg_call_done:
  assumes "holds_surplus k s" "takes_ether f \<or> v = 0"
    and "registry_call c v t f (s\<lparr>reg_balance := reg_balance s + v\<rparr>) = Inr (RDone s')"
  shows "holds_surplus k s'"
proof (cases f)
  case (RegisterNode n)
  then show ?thesis using assms(2,3)
      holds_register[OF assms(1), of c "\<lparr>stakeAmount = v, node_status = NOnline, node_registeredAt = t, lastHeartbeat = t,
        node_reputation = 0\<rparr>" v]
    by (auto simp: registry_defs split: if_splits)
next
  case (UpdateStake n)
  then show ?thesis using assms holds_put[OF assms(1), of c] by (auto simp: registry_defs split: if_splits)
next
  case (SlashStake a n)
  then show ?thesis using assms holds_put0[OF assms(1), of a] by (auto simp: registry_defs Let_def split: if_splits)
qed (use assms in \<open>auto simp: registry_defs holds_frame intro!: holds_put0 split: if_splits\<close>)

lemma reg_call_pays:
  assumes "holds_surplus k s" "takes_ether f \<or> v = 0" "amount \<le> reg_balance s'"
    and "registry_call c v t f (s\<lparr>reg_balance := reg_balance s + v\<rparr>) = Inr (RPay to amount s' finish)"
  shows "holds_surplus k (s'\<lparr>reg_balance := reg_balance s' - amount\<rparr>)" and "\<exists>e. \<forall>x. finish x = reg_emit (e x) x"
proof -
  obtain n where f: "f = WithdrawStake n" using assms(4) by (cases f) (auto simp: registry_defs Let_def split: if_splits)
  then have v: "v = 0" using assms(2) by simp
  have c: "registered s c" "to = c" "amount \<le> stakeAmount (nodes s c)"
    and s': "s' = put_node c ((nodes s c)\<lparr>stakeAmount := stakeAmount (nodes s c) - amount\<rparr>) s"
    and fin: "finish = (\<lambda>x. reg_emit (StakeUpdated c (stakeAmount (nodes x c))) x)"
    using assms(4) f v by (auto simp: registry_defs split: if_splits)
  have "staked_sum s' + amount = staked_sum s"
    using staked_put[of s c "(nodes s c)\<lparr>stakeAmount := stakeAmount (nodes s c) - amount\<rparr>"] assms(1) c s'
    by (simp add: holds_surplus_def)
  then show "holds_surplus k (s'\<lparr>reg_balance := reg_balance s' - amount\<rparr>)"
    using assms(1,3) s' by (simp add: holds_surplus_def reg_books_def surplus_def staked_sum_def of_nat_diff)
  show "\<exists>e. \<forall>x. finish x = reg_emit (e x) x" using fin by auto
qed

lemma reg_tx_induct [case_names RTx Nil Cons]:
  assumes "\<And>c v t f accepts inner. Q inner \<Longrightarrow> P (RTx c v t f accepts inner)"
    and "Q []" and "\<And>x xs. P x \<Longrightarrow> Q xs \<Longrightarrow> Q (x # xs)"
  shows "P x" and "Q xs"
proof -
  show P: "P x" for x
  proof (induction x)
    case (RTx c v t f accepts inner)
    then have "Q inner" by (induction inner) (auto intro: assms(2,3))
    then show ?case by (rule assms(1))
  qed
  show "Q xs" by (induction xs) (auto intro: assms(2,3) P)
qed

lemma holds_run:
  "holds_surplus k s \<Longrightarrow> run_reg x s = Inr s' \<Longrightarrow> holds_surplus k s'"
  "holds_surplus k s \<Longrightarrow> holds_surplus k (run_regs xs s)"
proof (induction x and xs arbitrary: s s' and s rule: reg_tx_induct)
  case (RTx c v t f accepts inner)
  let ?d = "registry_call c v t f (s\<lparr>reg_balance := reg_balance s + v\<rparr>)"
  have v: "takes_ether f \<or> v = 0" using RTx.prems by (auto split: if_splits)
  show ?case
  proof (cases ?d)
    case (Inr r)
    show ?thesis
    proof (cases r)
      case (RDone s1)
      then show ?thesis using RTx.prems Inr v reg_call_done[of k s f v c t s1] by (auto split: if_splits)
    next
      case (RPay to n s1 finish)
      then have "n \<le> reg_balance s1" "s' = finish (run_regs inner (s1\<lparr>reg_balance := reg_balance s1 - n\<rparr>))"
        using RTx.prems(2) Inr v by (auto split: if_splits)
      then show ?thesis
        using reg_call_pays[OF RTx.prems(1) v, of n s1 c t to finish] Inr RPay RTx.IH by auto
    qed
  qed (use RTx.prems v in \<open>auto split: if_splits\<close>)
qed (auto split: sum.splits)

section \<open>Properties\<close>

text \<open>C37: whatever is called, with any reentrance of the paid addresses, what the registry holds beyond the stakes of
  its nodes never shrinks. So its ether always covers the stakes, and what is slashed stays in the contract for good.\<close>

theorem registry_surplus_kept:
  "0 \<le> surplus (run_regs xs (deploy_registry d)) \<and>
   surplus (run_regs xs (deploy_registry d)) \<le> surplus (run_regs (xs @ ys) (deploy_registry d))"
proof -
  have start: "holds_surplus 0 (deploy_registry d)"
    by (simp add: holds_surplus_def reg_books_def surplus_def staked_sum_def deploy_registry_def)
  have split: "run_regs (xs @ ys) s = run_regs ys (run_regs xs s)" for s
    by (induction xs arbitrary: s) simp_all
  have "holds_surplus 0 (run_regs xs (deploy_registry d))" by (rule holds_run(2)[OF start])
  moreover from this have "holds_surplus (surplus (run_regs xs (deploy_registry d))) (run_regs xs (deploy_registry d))"
    by (simp add: holds_surplus_def)
  then have "holds_surplus (surplus (run_regs xs (deploy_registry d))) (run_regs (xs @ ys) (deploy_registry d))"
    unfolding split by (rule holds_run(2))
  ultimately show ?thesis by (simp add: holds_surplus_def)
qed

text \<open>Also: anyone sets the minimum stake. With one transaction every withdrawal of the registry reverts from then on,
  and with another one a node takes out its whole stake, below the minimum it registered with.\<close>

theorem registry_minimum_open:
  assumes "registered s node" "\<forall>a. stakeAmount (nodes s a) < m" "stakeAmount (nodes s node) \<le> reg_balance s"
  shows "(\<forall>a n v t ok inner. \<exists>e. run_reg (RTx a v t (WithdrawStake n) ok inner)
      (run_regs [RTx c 0 t (UpdateMinStake m) b []] s) = Inl e) \<and>
    (\<exists>s'. run_reg (RTx node 0 t (WithdrawStake (stakeAmount (nodes s node))) True [])
      (run_regs [RTx c 0 t (UpdateMinStake 0) b []] s) = Inr s' \<and>
      stakeAmount (nodes s' node) = 0 \<and> reg_balance s' = reg_balance s - stakeAmount (nodes s node))"
proof (intro conjI allI)
  fix a n v t ok inner
  have "stakeAmount (nodes s a) - n < m" using assms(2) by (meson diff_le_self le_less_trans)
  then show "\<exists>e. run_reg (RTx a v t (WithdrawStake n) ok inner) (run_regs [RTx c 0 t (UpdateMinStake m) b []] s) = Inl e"
    by (auto simp: registry_defs)
qed (use assms(1,3) in \<open>simp add: registry_defs\<close>)

definition one_node :: node_registry where
  "one_node = run_regs [RTx 5 ether 1 (RegisterNode ether) False []] (deploy_registry 1)"

lemma one_node_state:
  "registered one_node 5" "stakeAmount (nodes one_node a) = (if a = 5 then ether else 0)" "reg_balance one_node = ether"
  by (simp_all add: one_node_def registry_defs deploy_registry_def REGISTRY_MIN_STAKE_def ether_def no_node_def)

theorem registry_minimum_open_witness:
  "\<exists>e. run_reg (RTx 5 0 2 (WithdrawStake 1) True []) (run_regs [RTx 9 0 2 (UpdateMinStake (2 * ether)) True []] one_node) = Inl e"
proof -
  have "stakeAmount (nodes one_node 5) \<le> reg_balance one_node" "\<forall>a. stakeAmount (nodes one_node a) < 2 * ether"
    by (simp_all add: one_node_state ether_def)
  from registry_minimum_open[OF one_node_state(1) this(2) this(1), where t = 2 and c = 9 and b = True] show ?thesis by blast
qed

end
