(* ===== verification/SlashContract.thy ===== *)
theory SlashContract
  imports RegistryContract
begin

text \<open>
  \<open>contracts/contracts/SlashManager.sol\<close>, the slasher of the escrow, together with the escrow of theory
  \<open>EscrowContract\<close>: a world holds both. The manager pays several addresses in one transaction, so a function is a chain
  of payments, each with what is left to do. A transaction comes with the answers of the addresses it pays, in order:
  whether each accepts, and which transactions, on either contract, it makes first. A missing answer is a refusal.
  Addresses paid by the escrow call back the escrow alone. \<open>H\<close> is the hash of an event's identifier. Scores that only
  are read are computed without the checks for overflow.
\<close>

section \<open>Storage\<close>

datatype SlashReason = SNodeOffline | SSlowResponse | SInvalidResult | SMissedHeartbeat

record slash_record =
  sr_node :: addr
  sr_amount :: nat
  sr_reason :: SlashReason
  sr_time :: nat
  sr_job :: nat

datatype manager_event =
    NodeSlashed addr nat nat
  | CreditIssued addr nat nat
  | RewardClaimed addr nat
  | NodeWentOffline addr
  | NodeWentOnline addr

record 'g manager =
  m_this :: addr
  m_balance :: nat
  m_guard :: 'g
  slashGracePeriod :: nat
  baseMinimumStake :: nat
  validatorRewardPercent :: nat
  totalSlashedAmount :: nat
  totalSlashEvents :: nat
  protocolRewardRecipient :: addr
  validatorRewardRecipient :: addr
  slash_events :: "nat \<rightharpoonup> slash_record"
  nodeSlashHistory :: "addr \<Rightarrow> nat list"
  lastSlashTime :: "addr \<Rightarrow> nat"
  totalSlashAmountByNode :: "addr \<Rightarrow> nat"
  slashCountByReason :: "SlashReason \<Rightarrow> nat"
  isNodeOnline :: "addr \<Rightarrow> bool"
  nodeCapacity :: "addr \<Rightarrow> nat"
  activeJobCount :: "addr \<Rightarrow> nat"
  nodeRegion :: "addr \<Rightarrow> string"
  nodeCreationTime :: "addr \<Rightarrow> nat"
  isNodeFrozen :: "addr \<Rightarrow> bool"
  nodeSlashProbability :: "addr \<Rightarrow> nat"
  reliabilityWeight :: "addr \<Rightarrow> nat"
  rewardsAccrued :: "addr \<Rightarrow> nat"
  lastRewardClaim :: "addr \<Rightarrow> nat"
  rewardHistoryCount :: "addr \<Rightarrow> nat"
  rewardPaused :: "addr \<Rightarrow> bool"
  autoActions :: "addr \<Rightarrow> bool"
  m_callers :: "addr \<Rightarrow> bool"
  m_log :: "manager_event list"

definition MANAGER_SLASH_PERCENT :: nat where "MANAGER_SLASH_PERCENT = 1000"
definition MANAGER_CREDIT_PERCENT :: nat where "MANAGER_CREDIT_PERCENT = 7000"
definition BASIS_POINTS :: nat where "BASIS_POINTS = 10000"
definition PROTOCOL_FEE_PERCENT :: nat where "PROTOCOL_FEE_PERCENT = 25"
definition VALIDATOR_REWARD_PERCENT :: nat where "VALIDATOR_REWARD_PERCENT = 5"
definition DEFAULT_NODE_CAPACITY :: nat where "DEFAULT_NODE_CAPACITY = 10"
definition DEFAULT_RELIABILITY_WEIGHT :: nat where "DEFAULT_RELIABILITY_WEIGHT = 20"

lemmas manager_constants = MANAGER_SLASH_PERCENT_def MANAGER_CREDIT_PERCENT_def BASIS_POINTS_def PROTOCOL_FEE_PERCENT_def
  VALIDATOR_REWARD_PERCENT_def DEFAULT_NODE_CAPACITY_def DEFAULT_RELIABILITY_WEIGHT_def

definition supportedRegions :: "string list" where
  "supportedRegions = [''US-EAST'', ''US-WEST'', ''EU-CENTRAL'', ''ASIA-PACIFIC'']"

definition deploy_manager :: "addr \<Rightarrow> 'g \<Rightarrow> addr \<Rightarrow> 'g manager" where
  "deploy_manager self g0 sender = \<lparr>m_this = self, m_balance = 0, m_guard = g0, slashGracePeriod = 3600,
     baseMinimumStake = ether div 20, validatorRewardPercent = VALIDATOR_REWARD_PERCENT, totalSlashedAmount = 0,
     totalSlashEvents = 0, protocolRewardRecipient = sender, validatorRewardRecipient = sender,
     slash_events = (\<lambda>_. None), nodeSlashHistory = (\<lambda>_. []), lastSlashTime = (\<lambda>_. 0),
     totalSlashAmountByNode = (\<lambda>_. 0), slashCountByReason = (\<lambda>_. 0), isNodeOnline = (\<lambda>_. False),
     nodeCapacity = (\<lambda>_. 0), activeJobCount = (\<lambda>_. 0), nodeRegion = (\<lambda>_. ''''), nodeCreationTime = (\<lambda>_. 0),
     isNodeFrozen = (\<lambda>_. False), nodeSlashProbability = (\<lambda>_. 0),
     reliabilityWeight = (\<lambda>a. if a = sender then DEFAULT_RELIABILITY_WEIGHT else 0), rewardsAccrued = (\<lambda>_. 0),
     lastRewardClaim = (\<lambda>_. 0), rewardHistoryCount = (\<lambda>_. 0), rewardPaused = (\<lambda>_. False), autoActions = (\<lambda>_. False),
     m_callers = (\<lambda>a. a = sender), m_log = []\<rparr>"

record 'g world =
  mgr :: "'g manager"
  esc :: "'g escrow"

section \<open>Scores\<close>

definition tierOf :: "'g manager \<Rightarrow> addr \<Rightarrow> nat" where
  "tierOf m node = (let sc = length (nodeSlashHistory m node) in
     if sc = 0 then 0 else if sc \<le> 2 then 1 else if sc \<le> 5 then 2 else if sc \<le> 10 then 3 else 4)"

definition inGracePeriod :: "nat \<Rightarrow> 'g manager \<Rightarrow> addr \<Rightarrow> bool" where
  "inGracePeriod now m node \<longleftrightarrow> nodeCreationTime m node \<noteq> 0 \<and> now - nodeCreationTime m node < 7 * 86400"

definition effectiveSlash :: "nat \<Rightarrow> 'g manager \<Rightarrow> addr \<Rightarrow> nat \<Rightarrow> nat" where
  "effectiveSlash now m node base = (let adjusted = base * (1000 - tierOf m node * 50) div 1000;
       adjusted = (if inGracePeriod now m node then adjusted div 2 else adjusted)
     in if base < adjusted then base else adjusted)"

text \<open>Both branches of the uptime are the same in the code.\<close>

definition nodeUptime :: "'g manager \<Rightarrow> addr \<Rightarrow> nat" where
  "nodeUptime m node = (if activeJobCount m node = 0 then 10000 else 10000)"

definition nodeUtilization :: "'g manager \<Rightarrow> addr \<Rightarrow> nat" where
  "nodeUtilization m node = (let cap = (if nodeCapacity m node = 0 then DEFAULT_NODE_CAPACITY else nodeCapacity m node) in
     activeJobCount m node * BASIS_POINTS div cap)"

definition perfScore :: "'g manager \<Rightarrow> addr \<Rightarrow> nat" where
  "perfScore m node = (nodeUptime m node * 6000 + nodeUtilization m node * 4000) div BASIS_POINTS"

definition reliabilityScore :: "'g manager \<Rightarrow> addr \<Rightarrow> nat" where
  "reliabilityScore m node = (let sc = length (nodeSlashHistory m node);
       w = (if reliabilityWeight m node = 0 then DEFAULT_RELIABILITY_WEIGHT else reliabilityWeight m node);
       penalty = sc * w * 100 div BASIS_POINTS
     in if activeJobCount m node = 0 then 10000 else if sc = 0 then 10000
        else if 10000 \<le> penalty then 0 else 10000 - penalty)"

definition trustScore :: "'g manager \<Rightarrow> addr \<Rightarrow> nat" where
  "trustScore m node = (reliabilityScore m node * 4000 + nodeUptime m node * 4000 + (1000 - tierOf m node * 100) * 2000)
     div BASIS_POINTS"

definition getTrustLevel :: "'g manager \<Rightarrow> addr \<Rightarrow> string" where
  "getTrustLevel m node = (let s = trustScore m node in
     if 9000 \<le> s then ''Platinum'' else if 7000 \<le> s then ''Gold'' else if 5000 \<le> s then ''Silver''
     else if 3000 \<le> s then ''Bronze'' else ''New'')"

definition node_healthScore :: "'g manager \<Rightarrow> addr \<Rightarrow> nat" where
  "node_healthScore m node = (reliabilityScore m node * 4000 + nodeUptime m node * 3000 + perfScore m node * 3000) div BASIS_POINTS"

definition manager_getHealthStatus :: "'g manager \<Rightarrow> addr \<Rightarrow> string" where
  "manager_getHealthStatus m node = (let h = node_healthScore m node in
     if 9500 \<le> h then ''Healthy'' else if 8500 \<le> h then ''Degraded'' else if 7000 \<le> h then ''At-Risk'' else ''Critical'')"

definition recommendedAction :: "'g manager \<Rightarrow> addr \<Rightarrow> string" where
  "recommendedAction m node = (let h = node_healthScore m node in
     if 8500 \<le> h then ''Continue normal operation'' else if 7000 \<le> h then ''Monitor closely''
     else if 5000 \<le> h then ''Consider node maintenance''
     else if isNodeOnline m node then ''Schedule maintenance window'' else ''Emergency: node offline'')"

definition reasonToString :: "SlashReason \<Rightarrow> string" where
  "reasonToString r = (case r of SNodeOffline \<Rightarrow> ''NodeOffline'' | SSlowResponse \<Rightarrow> ''SlowResponse''
   | SInvalidResult \<Rightarrow> ''InvalidResult'' | SMissedHeartbeat \<Rightarrow> ''MissedHeartbeat'')"

section \<open>Functions\<close>

text \<open>A chain of payments by the manager: address, amount, reason to revert, the world before, what is left to do.\<close>

datatype 'w chain = Reverts string | Finishes 'w | Pays addr nat string 'w "'w \<Rightarrow> 'w chain"

definition require_c :: "bool \<Rightarrow> string \<Rightarrow> 'w chain \<Rightarrow> 'w chain" where
  "require_c b reason r = (if b then r else Reverts reason)"

definition checked_c :: "nat \<Rightarrow> (nat \<Rightarrow> 'w chain) \<Rightarrow> 'w chain" where
  "checked_c n f = (if n < 2 ^ 256 then f n else Reverts ''Panic'')"

definition pay_if :: "bool \<Rightarrow> addr \<Rightarrow> nat \<Rightarrow> string \<Rightarrow> 'w \<Rightarrow> ('w \<Rightarrow> 'w chain) \<Rightarrow> 'w chain" where
  "pay_if b to n reason w k = (if b then Pays to n reason w k else k w)"

definition upd_mgr :: "('g manager \<Rightarrow> 'g manager) \<Rightarrow> 'g world \<Rightarrow> 'g world" where
  "upd_mgr f w = w\<lparr>mgr := f (mgr w)\<rparr>"

definition m_emit :: "manager_event \<Rightarrow> 'g manager \<Rightarrow> 'g manager" where
  "m_emit e m = m\<lparr>m_log := m_log m @ [e]\<rparr>"

definition m_authorized :: "addr \<Rightarrow> 'g world \<Rightarrow> 'g world chain \<Rightarrow> 'g world chain" where
  "m_authorized c w r = require_c (m_callers (mgr w) c) ''Caller not authorized'' r"

definition m_nonReentrant :: "'g guard_lib \<Rightarrow> 'g world \<Rightarrow> ('g world \<Rightarrow> 'g world chain) \<Rightarrow> 'g world chain" where
  "m_nonReentrant G w body = (case enter G (m_guard (mgr w)) of None \<Rightarrow> Reverts ''ReentrancyGuard''
     | Some g \<Rightarrow> body (upd_mgr (\<lambda>m. m\<lparr>m_guard := g\<rparr>) w))"

definition m_leaving :: "'g guard_lib \<Rightarrow> 'g world \<Rightarrow> 'g world" where
  "m_leaving G w = upd_mgr (\<lambda>m. m\<lparr>m_guard := leave G (m_guard m)\<rparr>) w"

text \<open>The call of the escrow. The escrow pays its slasher, and only its slasher passes its guard, so the payment comes back
  to the manager, whose \<open>receive\<close> is empty.\<close>

definition escrow_slash :: "'g guard_lib \<Rightarrow> addr \<Rightarrow> nat \<Rightarrow> string \<Rightarrow> 'g world \<Rightarrow> ('g world \<Rightarrow> 'g world chain) \<Rightarrow> 'g world chain" where
  "escrow_slash G node amount reason w k = (case slash G (m_this (mgr w)) node amount reason (esc w) of
     Inl r \<Rightarrow> Reverts r
   | Inr (Done e) \<Rightarrow> k (w\<lparr>esc := e\<rparr>)
   | Inr (Pay to n r e finish) \<Rightarrow> (if ether_balance e < n then Reverts r
       else k (upd_mgr (\<lambda>m. m\<lparr>m_balance := m_balance m + n\<rparr>) (w\<lparr>esc := finish (e\<lparr>ether_balance := ether_balance e - n\<rparr>)\<rparr>))))"

definition recordSlash ::
  "(addr \<Rightarrow> nat \<Rightarrow> nat \<Rightarrow> nat \<Rightarrow> nat) \<Rightarrow> nat \<Rightarrow> addr \<Rightarrow> nat \<Rightarrow> SlashReason \<Rightarrow> nat \<Rightarrow> 'g world \<Rightarrow> ('g world \<Rightarrow> 'g world chain) \<Rightarrow> 'g world chain" where
  "recordSlash H now node amount reason job w k = (let m = mgr w; i = H node amount now (totalSlashEvents m) in
     checked_c (slashCountByReason m reason + 1) (\<lambda>count. checked_c (totalSlashEvents m + 1) (\<lambda>n.
       checked_c (totalSlashedAmount m + amount) (\<lambda>total. checked_c (totalSlashAmountByNode m node + amount) (\<lambda>own.
         k (upd_mgr (\<lambda>m. m_emit (NodeSlashed node amount job)
           (m\<lparr>slash_events := (slash_events m)(i \<mapsto>
                \<lparr>sr_node = node, sr_amount = amount, sr_reason = reason, sr_time = now, sr_job = job\<rparr>),
              nodeSlashHistory := (nodeSlashHistory m)(node := nodeSlashHistory m node @ [i]),
              lastSlashTime := (lastSlashTime m)(node := now),
              slashCountByReason := (slashCountByReason m)(reason := count), totalSlashEvents := n,
              totalSlashedAmount := total,
              totalSlashAmountByNode := (totalSlashAmountByNode m)(node := own)\<rparr>)) w))))))"

text \<open>The shares of a slash: the client's credit, the validator's reward and the protocol's fee, each to whom the storage
  names at that time.\<close>

definition pay_credit :: "addr \<Rightarrow> nat \<Rightarrow> nat \<Rightarrow> 'g world \<Rightarrow> ('g world \<Rightarrow> 'g world chain) \<Rightarrow> 'g world chain" where
  "pay_credit client job credit w k = (if 0 < credit
     then Pays client credit ''Credit failed'' w (\<lambda>w. k (upd_mgr (m_emit (CreditIssued client credit job)) w)) else k w)"

definition pay_reward :: "nat \<Rightarrow> 'g world \<Rightarrow> ('g world \<Rightarrow> 'g world chain) \<Rightarrow> 'g world chain" where
  "pay_reward n w k = pay_if (0 < n \<and> validatorRewardRecipient (mgr w) \<noteq> 0) (validatorRewardRecipient (mgr w)) n
     ''Val reward failed'' w k"

definition pay_fee :: "nat \<Rightarrow> 'g world \<Rightarrow> ('g world \<Rightarrow> 'g world chain) \<Rightarrow> 'g world chain" where
  "pay_fee n w k = pay_if (0 < n \<and> protocolRewardRecipient (mgr w) \<noteq> 0) (protocolRewardRecipient (mgr w)) n
     ''Proto fee failed'' w k"

definition calculateSlash :: "nat \<Rightarrow> nat" where
  "calculateSlash jobValue = jobValue * MANAGER_SLASH_PERCENT div BASIS_POINTS"

definition share_of :: "nat \<Rightarrow> nat \<Rightarrow> nat" where
  "share_of bps amount = amount * bps div BASIS_POINTS"

definition slashAndCredit ::
  "'g guard_lib \<Rightarrow> (addr \<Rightarrow> nat \<Rightarrow> nat \<Rightarrow> nat \<Rightarrow> nat) \<Rightarrow> addr \<Rightarrow> nat \<Rightarrow> addr \<Rightarrow> addr \<Rightarrow> nat \<Rightarrow> nat \<Rightarrow> 'g world \<Rightarrow> 'g world chain" where
  "slashAndCredit G H sender now node client job jobValue w = m_authorized sender w (m_nonReentrant G w (\<lambda>w.
     require_c (\<not> isNodeFrozen (mgr w) node) ''Node is frozen'' (require_c (node \<noteq> 0) ''Node address cannot be zero''
       (require_c (client \<noteq> 0) ''Client address cannot be zero'' (require_c (0 < jobValue) ''Job value must be positive''
         (checked_c (jobValue * MANAGER_SLASH_PERCENT) (\<lambda>_. let amount = calculateSlash jobValue in
           escrow_slash G node amount (reasonToString SMissedHeartbeat) w (\<lambda>w.
             checked_c (amount * MANAGER_CREDIT_PERCENT) (\<lambda>_.
               pay_credit client job (share_of MANAGER_CREDIT_PERCENT amount) w (\<lambda>w.
                 pay_reward (share_of VALIDATOR_REWARD_PERCENT amount) w (\<lambda>w.
                   pay_fee (share_of PROTOCOL_FEE_PERCENT amount) w (\<lambda>w.
                     recordSlash H now node amount SMissedHeartbeat job w (\<lambda>w. Finishes (m_leaving G w))))))))))))))"

definition slashPartial ::
  "'g guard_lib \<Rightarrow> (addr \<Rightarrow> nat \<Rightarrow> nat \<Rightarrow> nat \<Rightarrow> nat) \<Rightarrow> addr \<Rightarrow> nat \<Rightarrow> addr \<Rightarrow> nat \<Rightarrow> 'g world \<Rightarrow> 'g world chain" where
  "slashPartial G H sender now node bps w = m_authorized sender w (m_nonReentrant G w (\<lambda>w.
     require_c (node \<noteq> 0 \<and> bps \<le> BASIS_POINTS) ''Invalid params'' (checked_c (stakeOf (esc w) node * bps) (\<lambda>p.
       let amount = p div BASIS_POINTS in escrow_slash G node amount ''Partial slash'' w (\<lambda>w.
         recordSlash H now node amount SSlowResponse 0 w (\<lambda>w. Finishes (m_leaving G w)))))))"

text \<open>Rewards: half a percent of the stake per twelve periods of thirty days since the last claim.\<close>

definition timeWeightedReward :: "nat \<Rightarrow> 'g world \<Rightarrow> addr \<Rightarrow> nat reverts" where
  "timeWeightedReward now w node = uint_sub now (lastRewardClaim (mgr w) node) (\<lambda>d.
     (let st = stakeOf (esc w) node; periods = d div (30 * 86400) in
      if st = 0 \<or> periods = 0 then Inr 0
      else uint256 (st * 50) (\<lambda>a. uint256 (a * periods) (\<lambda>b. Inr (b div (BASIS_POINTS * 12))))))"

definition getRewardsAccrued :: "nat \<Rightarrow> 'g world \<Rightarrow> addr \<Rightarrow> nat reverts" where
  "getRewardsAccrued now w node = (if rewardPaused (mgr w) node then Inr (rewardsAccrued (mgr w) node)
     else (case timeWeightedReward now w node of Inl r \<Rightarrow> Inl r
       | Inr n \<Rightarrow> uint256 (rewardsAccrued (mgr w) node + n) Inr))"

definition claimReward :: "'g guard_lib \<Rightarrow> addr \<Rightarrow> nat \<Rightarrow> addr \<Rightarrow> 'g world \<Rightarrow> 'g world chain" where
  "claimReward G sender now node w = m_nonReentrant G w (\<lambda>w. m_authorized sender w
     (require_c (\<not> rewardPaused (mgr w) node) ''Reward accrual paused''
       (case getRewardsAccrued now w node of Inl r \<Rightarrow> Reverts r
        | Inr amount \<Rightarrow> require_c (0 < amount) ''No rewards'' (checked_c (rewardHistoryCount (mgr w) node + 1) (\<lambda>n.
            Pays node amount ''Reward transfer failed''
              (upd_mgr (\<lambda>m. m\<lparr>rewardsAccrued := (rewardsAccrued m)(node := 0),
                 lastRewardClaim := (lastRewardClaim m)(node := now),
                 rewardHistoryCount := (rewardHistoryCount m)(node := n)\<rparr>) w)
              (\<lambda>w. Finishes (m_leaving G (upd_mgr (m_emit (RewardClaimed node amount)) w))))))))"

definition emergencyWithdrawRewards :: "addr \<Rightarrow> addr \<Rightarrow> nat \<Rightarrow> 'g world \<Rightarrow> 'g world chain" where
  "emergencyWithdrawRewards sender to amount w = m_authorized sender w (require_c (to \<noteq> 0) ''''
     (Pays to amount ''Transfer failed'' w Finishes))"

definition go_offline :: "addr \<Rightarrow> 'g manager \<Rightarrow> 'g manager" where
  "go_offline node m = m_emit (NodeWentOffline node)
     (m\<lparr>isNodeOnline := (isNodeOnline m)(node := False), activeJobCount := (activeJobCount m)(node := 0)\<rparr>)"

definition executeRecommendedAction :: "addr \<Rightarrow> addr \<Rightarrow> 'g world \<Rightarrow> 'g world chain" where
  "executeRecommendedAction sender node w = m_authorized sender w
     (Finishes (if recommendedAction (mgr w) node = ''Emergency: node offline'' then upd_mgr (go_offline node) w else w))"

text \<open>The settings: an authorised caller writes a field, if the value is admissible.\<close>

definition set_setting :: "addr \<Rightarrow> bool \<Rightarrow> string \<Rightarrow> ('g manager \<Rightarrow> 'g manager) \<Rightarrow> 'g world \<Rightarrow> 'g world chain" where
  "set_setting sender ok reason f w = m_authorized sender w (require_c ok reason (Finishes (upd_mgr f w)))"

section \<open>Transactions\<close>

datatype manager_fn =
    SlashAndCredit addr addr nat nat
  | SlashPartial addr nat
  | SetProtocolFeePercent nat
  | SetNodeSlashProbability addr nat
  | SetMinimumStakeForNode addr nat
  | SetNodeCapacity addr nat
  | SetNodeOffline addr
  | SetNodeOnline addr
  | SetNodeRegion addr string
  | SetSlashGracePeriod nat
  | ClaimReward addr
  | SetValidatorRewardPercent nat
  | SetProtocolRewardRecipient addr
  | EmergencyWithdrawRewards addr nat
  | PauseRewardAccrual addr
  | UnpauseRewardAccrual addr
  | SetReliabilityWeight addr nat
  | ExecuteRecommendedAction addr
  | SetAutoActionEnabled addr bool
  | AuthorizeOnManager addr
  | RevokeOnManager addr
  | ReceiveOnManager

fun manager_call ::
  "'g guard_lib \<Rightarrow> (addr \<Rightarrow> nat \<Rightarrow> nat \<Rightarrow> nat \<Rightarrow> nat) \<Rightarrow> addr \<Rightarrow> nat \<Rightarrow> manager_fn \<Rightarrow> 'g world \<Rightarrow> 'g world chain" where
  "manager_call G H c t (SlashAndCredit node client job v) w = slashAndCredit G H c t node client job v w"
| "manager_call G H c t (SlashPartial node bps) w = slashPartial G H c t node bps w"
| "manager_call G H c t (SetProtocolFeePercent n) w = set_setting c True '''' (\<lambda>m. m) w"
| "manager_call G H c t (SetNodeSlashProbability a n) w = set_setting c (n \<le> BASIS_POINTS) ''''
     (\<lambda>m. m\<lparr>nodeSlashProbability := (nodeSlashProbability m)(a := n)\<rparr>) w"
| "manager_call G H c t (SetMinimumStakeForNode a n) w = set_setting c True '''' (\<lambda>m. m\<lparr>baseMinimumStake := n\<rparr>) w"
| "manager_call G H c t (SetNodeCapacity a n) w = set_setting c True ''''
     (\<lambda>m. m\<lparr>nodeCapacity := (nodeCapacity m)(a := n)\<rparr>) w"
| "manager_call G H c t (SetNodeOffline a) w = set_setting c True '''' (go_offline a) w"
| "manager_call G H c t (SetNodeOnline a) w = set_setting c True ''''
     (\<lambda>m. m_emit (NodeWentOnline a) (m\<lparr>isNodeOnline := (isNodeOnline m)(a := True)\<rparr>)) w"
| "manager_call G H c t (SetNodeRegion a r) w = set_setting c (r \<in> set supportedRegions) ''Unsupported region''
     (\<lambda>m. m\<lparr>nodeRegion := (nodeRegion m)(a := r)\<rparr>) w"
| "manager_call G H c t (SetSlashGracePeriod n) w = set_setting c True '''' (\<lambda>m. m\<lparr>slashGracePeriod := n\<rparr>) w"
| "manager_call G H c t (ClaimReward a) w = claimReward G c t a w"
| "manager_call G H c t (SetValidatorRewardPercent n) w = set_setting c (n \<le> BASIS_POINTS) ''''
     (\<lambda>m. m\<lparr>validatorRewardPercent := n\<rparr>) w"
| "manager_call G H c t (SetProtocolRewardRecipient a) w = set_setting c (a \<noteq> 0) '''' (\<lambda>m. m\<lparr>protocolRewardRecipient := a\<rparr>) w"
| "manager_call G H c t (EmergencyWithdrawRewards a n) w = emergencyWithdrawRewards c a n w"
| "manager_call G H c t (PauseRewardAccrual a) w = set_setting c True '''' (\<lambda>m. m\<lparr>rewardPaused := (rewardPaused m)(a := True)\<rparr>) w"
| "manager_call G H c t (UnpauseRewardAccrual a) w = set_setting c True ''''
     (\<lambda>m. m\<lparr>rewardPaused := (rewardPaused m)(a := False)\<rparr>) w"
| "manager_call G H c t (SetReliabilityWeight a n) w = set_setting c (n \<le> BASIS_POINTS) ''''
     (\<lambda>m. m\<lparr>reliabilityWeight := (reliabilityWeight m)(a := n)\<rparr>) w"
| "manager_call G H c t (ExecuteRecommendedAction a) w = executeRecommendedAction c a w"
| "manager_call G H c t (SetAutoActionEnabled a b) w = set_setting c True '''' (\<lambda>m. m\<lparr>autoActions := (autoActions m)(a := b)\<rparr>) w"
| "manager_call G H c t (AuthorizeOnManager a) w = Finishes (upd_mgr (\<lambda>m. m\<lparr>m_callers := (m_callers m)(a := True)\<rparr>) w)"
| "manager_call G H c t (RevokeOnManager a) w = Finishes (upd_mgr (\<lambda>m. m\<lparr>m_callers := (m_callers m)(a := False)\<rparr>) w)"
| "manager_call G H c t ReceiveOnManager w = Finishes w"

text \<open>A payment by the manager to itself or to the escrow runs the \<open>receive\<close> of that contract.\<close>

definition pay_out :: "addr \<Rightarrow> nat \<Rightarrow> 'g world \<Rightarrow> 'g world" where
  "pay_out to n w = (if to = m_this (mgr w) then w
     else let w = upd_mgr (\<lambda>m. m\<lparr>m_balance := m_balance m - n\<rparr>) w in
       if to = this (esc w)
       then w\<lparr>esc := emit (StakeDeposited (m_this (mgr w)) n) ((esc w)\<lparr>ether_balance := ether_balance (esc w) + n\<rparr>)\<rparr>
       else w)"

datatype world_tx = OnManager addr nat nat manager_fn "(bool \<times> world_tx list) list" | OnEscrow tx

definition contract_addr :: "'g world \<Rightarrow> addr \<Rightarrow> bool" where
  "contract_addr w a \<longleftrightarrow> a = m_this (mgr w) \<or> a = this (esc w)"

fun run_chain :: "'g guard_lib \<Rightarrow> (addr \<Rightarrow> nat \<Rightarrow> nat \<Rightarrow> nat \<Rightarrow> nat) \<Rightarrow> (bool \<times> world_tx list) list \<Rightarrow> 'g world chain \<Rightarrow> string + 'g world"
  and run_world :: "'g guard_lib \<Rightarrow> (addr \<Rightarrow> nat \<Rightarrow> nat \<Rightarrow> nat \<Rightarrow> nat) \<Rightarrow> world_tx \<Rightarrow> 'g world \<Rightarrow> string + 'g world"
  and run_worlds :: "'g guard_lib \<Rightarrow> (addr \<Rightarrow> nat \<Rightarrow> nat \<Rightarrow> nat \<Rightarrow> nat) \<Rightarrow> world_tx list \<Rightarrow> 'g world \<Rightarrow> 'g world" where
  "run_chain G H ans (Reverts r) = Inl r"
| "run_chain G H ans (Finishes w) = Inr w"
| "run_chain G H [] (Pays to n r w k) = Inl r"
| "run_chain G H ((ok, inner) # ans) (Pays to n r w k) =
     (if m_balance (mgr w) < n \<or> (\<not> contract_addr w to \<and> \<not> ok) then Inl r
      else run_chain G H ans (k (if contract_addr w to then pay_out to n w else run_worlds G H inner (pay_out to n w))))"
| "run_world G H (OnManager c v t f ans) w =
     (if f \<noteq> ReceiveOnManager \<and> 0 < v then Inl ''''
      else run_chain G H ans (manager_call G H c t f (upd_mgr (\<lambda>m. m\<lparr>m_balance := m_balance m + v\<rparr>) w)))"
| "run_world G H (OnEscrow x) w = map_sum id (\<lambda>e. w\<lparr>esc := e\<rparr>) (run_tx G x (esc w))"
| "run_worlds G H [] w = w"
| "run_worlds G H (x # xs) w = run_worlds G H xs (case run_world G H x w of Inl r \<Rightarrow> w | Inr w' \<Rightarrow> w')"

lemmas chain_defs = require_c_def checked_c_def m_authorized_def m_nonReentrant_def

section \<open>One slash\<close>

text \<open>What a slash of the escrow by its slasher does, when its guard is free.\<close>

definition slashed_escrow :: "'g guard_lib \<Rightarrow> addr \<Rightarrow> nat \<Rightarrow> string \<Rightarrow> 'g \<Rightarrow> 'g escrow \<Rightarrow> 'g escrow" where
  "slashed_escrow G node n reason g e =
     leaving G (emit (StakeChanged node (stakeOf e node - n) ''slashed'') (emit (StakeSlashed node n reason)
       ((take_stake node n (e\<lparr>guard := g\<rparr>))\<lparr>ether_balance := ether_balance e - n\<rparr>)))"

lemma slashed_escrow_fields [simp]:
  "stakeOf (slashed_escrow G node n r g e) = (stakeOf e)(node := stakeOf e node - n)"
  "ether_balance (slashed_escrow G node n r g e) = ether_balance e - n"
  "this (slashed_escrow G node n r g e) = this e"
  "slasher (slashed_escrow G node n r g e) = slasher e"
  by (simp_all add: slashed_escrow_def leaving_def emit_def take_stake_def set_stake_def)

definition can_slash :: "'g guard_lib \<Rightarrow> 'g world \<Rightarrow> addr \<Rightarrow> bool" where
  "can_slash G w node \<longleftrightarrow> slasher (esc w) = m_this (mgr w) \<and> enter G (guard (esc w)) \<noteq> None \<and> hasStaked (esc w) node \<and>
     stakeOf (esc w) node \<le> totalStaked (esc w) \<and> stakeOf (esc w) node \<le> ether_balance (esc w)"

lemma escrow_slash_eq:
  assumes "can_slash G w node" "0 < amount"
  shows "escrow_slash G node amount reason w k =
    k (upd_mgr (\<lambda>m. m\<lparr>m_balance := m_balance m + min (stakeOf (esc w) node) amount\<rparr>)
      (w\<lparr>esc := slashed_escrow G node (min (stakeOf (esc w) node) amount) reason (the (enter G (guard (esc w)))) (esc w)\<rparr>))"
proof -
  obtain g where g: "enter G (guard (esc w)) = Some g" using assms(1) by (auto simp: can_slash_def)
  note defs = escrow_slash_def can_slash_def slash_def onlySlasher_def nonReentrant_def onlyStaked_def need_def Let_def
    hasStaked_def slashed_escrow_def take_stake_def set_stake_def emit_def
  show ?thesis
  proof (cases "stakeOf (esc w) node < amount")
    case True
    then have "min (stakeOf (esc w) node) amount = stakeOf (esc w) node" by simp
    then show ?thesis using assms g True by (simp add: defs)
  next
    case False
    then have "min (stakeOf (esc w) node) amount = amount" by simp
    then show ?thesis using assms g False by (simp add: defs)
  qed
qed

text \<open>The manager's counters have room for one more slash.\<close>

definition room_for :: "'g manager \<Rightarrow> addr \<Rightarrow> SlashReason \<Rightarrow> nat \<Rightarrow> bool" where
  "room_for m node reason n \<longleftrightarrow> totalSlashedAmount m + n < 2 ^ 256 \<and> totalSlashAmountByNode m node + n < 2 ^ 256 \<and>
     totalSlashEvents m + 1 < 2 ^ 256 \<and> slashCountByReason m reason + 1 < 2 ^ 256"

text \<open>C34: anyone takes the stake of any node. Because the manager lets everybody authorise himself, three transactions of
  one address move the whole stake of a node, locked or not, from the escrow through the manager to that address,
  without any job and also while the escrow is paused.\<close>

theorem anyone_takes_any_stake:
  fixes w :: "'g world" and node :: addr
  defines "n \<equiv> stakeOf (esc w) node"
  assumes "can_slash G w node" "enter G (m_guard (mgr w)) \<noteq> None" "room_for (mgr w) node SSlowResponse n" "n * 10000 < 2 ^ 256"
    and "node \<noteq> 0" "thief \<noteq> 0" "\<not> contract_addr w thief"
  shows "let w' = run_worlds G H [OnManager thief 0 t (AuthorizeOnManager thief) [], OnManager thief 0 t (SlashPartial node 10000) [],
      OnManager thief 0 t (EmergencyWithdrawRewards thief n) [(True, [])]] w in
    stakeOf (esc w') node = 0 \<and> ether_balance (esc w') = ether_balance (esc w) - n \<and> m_balance (mgr w') = m_balance (mgr w)"
proof -
  obtain g where g: "enter G (m_guard (mgr w)) = Some g" using assms(3) by blast
  have n: "0 < n" using assms(2) by (simp add: n_def can_slash_def hasStaked_def)
  define w1 where "w1 = upd_mgr (\<lambda>m. m\<lparr>m_callers := (m_callers m)(thief := True), m_guard := g\<rparr>) w"
  have slash: "can_slash G w1 node" "stakeOf (esc w1) node = n"
    using assms(2) by (simp_all add: w1_def can_slash_def upd_mgr_def n_def)
  show ?thesis
    using assms(4-8) n g
    by (simp add: Let_def set_setting_def slashPartial_def chain_defs upd_mgr_def BASIS_POINTS_def n_def[symmetric]
        escrow_slash_eq[OF slash(1), unfolded slash(2) w1_def upd_mgr_def, simplified] recordSlash_def room_for_def
        m_leaving_def m_emit_def emergencyWithdrawRewards_def contract_addr_def pay_out_def)
qed

text \<open>What a slash pays out, of the amount it was meant to take.\<close>

definition paid_shares :: "nat \<Rightarrow> nat" where
  "paid_shares amount = share_of MANAGER_CREDIT_PERCENT amount + share_of VALIDATOR_REWARD_PERCENT amount +
     share_of PROTOCOL_FEE_PERCENT amount"

lemma shares_positive: "2000 \<le> amount \<Longrightarrow> 0 < share_of MANAGER_CREDIT_PERCENT amount \<and>
    0 < share_of VALIDATOR_REWARD_PERCENT amount \<and> 0 < share_of PROTOCOL_FEE_PERCENT amount"
  by (simp add: share_of_def manager_constants div_greater_zero_iff)

definition wants_shares :: "'g world \<Rightarrow> addr \<Rightarrow> bool" where
  "wants_shares w client \<longleftrightarrow> client \<noteq> 0 \<and> \<not> contract_addr w client \<and>
     validatorRewardRecipient (mgr w) \<noteq> 0 \<and> \<not> contract_addr w (validatorRewardRecipient (mgr w)) \<and>
     protocolRewardRecipient (mgr w) \<noteq> 0 \<and> \<not> contract_addr w (protocolRewardRecipient (mgr w))"

text \<open>C35: a slash takes at most the node's stake, but the client's credit, the reward and the fee are shares of the tenth of
  the job's value, whatever was taken. So a node whose stake is below those shares is not slashed at all unless the
  manager pays the difference out of what it holds for others, and the books record the amount that was not taken.\<close>

theorem slash_pays_nominal_shares:
  fixes w :: "'g world" and node :: addr and v :: nat
  defines "amount \<equiv> calculateSlash v" and "taken \<equiv> min (stakeOf (esc w) node) (calculateSlash v)"
  assumes "can_slash G w node" "enter G (m_guard (mgr w)) \<noteq> None" "m_callers (mgr w) c" "\<not> isNodeFrozen (mgr w) node"
    and "node \<noteq> 0" "wants_shares w client" "2000 \<le> amount" "v * 7000 < 2 ^ 256" "room_for (mgr w) node SMissedHeartbeat amount"
  shows "case run_world G H (OnManager c 0 t (SlashAndCredit node client job v) [(True, []), (True, []), (True, [])]) w of
      Inl e \<Rightarrow> m_balance (mgr w) + taken < paid_shares amount
    | Inr w' \<Rightarrow> paid_shares amount \<le> m_balance (mgr w) + taken \<and>
        m_balance (mgr w') = m_balance (mgr w) + taken - paid_shares amount \<and>
        stakeOf (esc w') node = stakeOf (esc w) node - taken \<and> ether_balance (esc w') = ether_balance (esc w) - taken \<and>
        totalSlashedAmount (mgr w') = totalSlashedAmount (mgr w) + amount"
proof -
  obtain g where g: "enter G (m_guard (mgr w)) = Some g" using assms(4) by blast
  define w1 where "w1 = upd_mgr (\<lambda>m. m\<lparr>m_guard := g\<rparr>) w"
  have slash: "can_slash G w1 node" "stakeOf (esc w1) node = stakeOf (esc w) node"
    using assms(3) by (simp_all add: w1_def can_slash_def upd_mgr_def)
  have v: "0 < v" "v * MANAGER_SLASH_PERCENT < 2 ^ 256" "amount * MANAGER_CREDIT_PERCENT < 2 ^ 256" "0 < amount"
    using assms(9,10) by (auto simp: amount_def calculateSlash_def manager_constants intro: gr0I)
  note pos = shares_positive[OF assms(9)]
  have min: "min (stakeOf (esc w) node) amount = taken" by (simp add: taken_def amount_def)
  note step = escrow_slash_eq[OF slash(1) v(4), unfolded slash(2) min w1_def upd_mgr_def, simplified]
  show ?thesis
    using assms(5-8,11) v pos g
    by (auto simp: slashAndCredit_def chain_defs Let_def amount_def[symmetric] step min pay_credit_def pay_reward_def pay_fee_def pay_if_def
        recordSlash_def room_for_def m_leaving_def m_emit_def contract_addr_def pay_out_def wants_shares_def paid_shares_def
        upd_mgr_def)
qed

section \<open>Invariants of the manager\<close>

text \<open>A chain keeps a predicate when it holds before every payment and at the end, whatever happens during the payments
  as long as that keeps it too.\<close>

primrec chain_keeps :: "('w \<Rightarrow> bool) \<Rightarrow> 'w chain \<Rightarrow> bool" where
  "chain_keeps I (Reverts r) \<longleftrightarrow> True"
| "chain_keeps I (Finishes w) \<longleftrightarrow> I w"
| "chain_keeps I (Pays to n r w k) \<longleftrightarrow> I w \<and> (\<forall>x. I x \<longrightarrow> chain_keeps I (k x))"

definition calls_keep :: "'g guard_lib \<Rightarrow> (addr \<Rightarrow> nat \<Rightarrow> nat \<Rightarrow> nat \<Rightarrow> nat) \<Rightarrow> ('g manager \<Rightarrow> bool) \<Rightarrow> bool" where
  "calls_keep G H I \<longleftrightarrow> (\<forall>c t f w. I (mgr w) \<longrightarrow> chain_keeps (\<lambda>w. I (mgr w)) (manager_call G H c t f w))"

lemma runs_keep:
  assumes balance: "\<And>m n. I (m\<lparr>m_balance := n\<rparr>) = I m"
  shows "calls_keep G H I \<Longrightarrow> chain_keeps (\<lambda>w. I (mgr w)) ch \<Longrightarrow> run_chain G H ans ch = Inr w1 \<Longrightarrow> I (mgr w1)"
    and "calls_keep G H I \<Longrightarrow> I (mgr w) \<Longrightarrow> run_world G H x w = Inr w1 \<Longrightarrow> I (mgr w1)"
    and "calls_keep G H I \<Longrightarrow> I (mgr w) \<Longrightarrow> I (mgr (run_worlds G H xs w))"
proof (induction G H ans ch and G H x w and G H xs w arbitrary: w1 and w1 rule: run_chain_run_world_run_worlds.induct)
  case (4 G H ok inner ans to n r w k)
  have out: "I (mgr (pay_out to n w))" using 4(4) balance by (simp add: pay_out_def upd_mgr_def Let_def)
  show ?case
  proof (cases "m_balance (mgr w) < n \<or> (\<not> contract_addr w to \<and> \<not> ok)")
    case False
    let ?x = "if contract_addr w to then pay_out to n w else run_worlds G H inner (pay_out to n w)"
    have "I (mgr ?x)" using 4(1)[OF False _ 4(3) out] out by auto
    then have "chain_keeps (\<lambda>w. I (mgr w)) (k ?x)" using 4(4) by simp
    then show ?thesis using 4(2)[OF False 4(3)] 4(5) False by (simp split: if_splits)
  qed (use 4(5) in auto)
next
  case (5 G H c v t f ans w)
  let ?w = "upd_mgr (\<lambda>m. m\<lparr>m_balance := m_balance m + v\<rparr>) w"
  have "I (mgr ?w)" using 5(3) balance by (simp add: upd_mgr_def)
  then have "chain_keeps (\<lambda>w. I (mgr w)) (manager_call G H c t f ?w)" using 5(2) unfolding calls_keep_def by blast
  then show ?case using 5(1)[OF _ 5(2)] 5(4) by (simp split: if_splits)
next
  case (6 G H x w)
  then show ?case by (cases "run_tx G x (esc w)") auto
next
  case (8 G H x xs w)
  then show ?case by (cases "run_world G H x w") auto
qed auto

locale manager_invariant =
  fixes G :: "'g guard_lib" and H :: "addr \<Rightarrow> nat \<Rightarrow> nat \<Rightarrow> nat \<Rightarrow> nat" and I :: "'g manager \<Rightarrow> bool"
  assumes call: "calls_keep G H I" and balance: "\<And>m n. I (m\<lparr>m_balance := n\<rparr>) = I m"
begin

lemma kept_runs: "I (mgr w) \<Longrightarrow> I (mgr (run_worlds G H xs w))"
  using runs_keep(3)[OF balance call] .

end

text \<open>Nothing in the contract starts a job, freezes a node, accrues a reward or stores when a node was created.\<close>

definition never_active :: "'g manager \<Rightarrow> bool" where
  "never_active m \<longleftrightarrow> (\<forall>a. activeJobCount m a = 0 \<and> \<not> isNodeFrozen m a \<and> rewardsAccrued m a = 0 \<and> nodeCreationTime m a = 0)"

text \<open>Every slash is counted once in the total and once for its reason.\<close>

definition counts_agree :: "'g manager \<Rightarrow> bool" where
  "counts_agree m \<longleftrightarrow> totalSlashEvents m = slashCountByReason m SNodeOffline + slashCountByReason m SSlowResponse +
     slashCountByReason m SInvalidResult + slashCountByReason m SMissedHeartbeat"

lemma keeps_simps [simp]:
  "chain_keeps I (require_c b r ch) \<longleftrightarrow> (b \<longrightarrow> chain_keeps I ch)"
  "chain_keeps I (checked_c n f) \<longleftrightarrow> (n < 2 ^ 256 \<longrightarrow> chain_keeps I (f n))"
  "chain_keeps I (m_authorized c w ch) \<longleftrightarrow> (m_callers (mgr w) c \<longrightarrow> chain_keeps I ch)"
  by (simp_all add: chain_defs)

lemma keeps_pay_if:
  "I w \<Longrightarrow> (\<And>x. I x \<Longrightarrow> chain_keeps I (k x)) \<Longrightarrow> chain_keeps I (pay_if b to n r w k)"
  by (simp add: pay_if_def)

lemma calls_keepI:
  assumes guard: "\<And>m g. I (m\<lparr>m_guard := g\<rparr>) = I m" and bal: "\<And>m n. I (m\<lparr>m_balance := n\<rparr>) = I m"
    and log: "\<And>m l. I (m\<lparr>m_log := l\<rparr>) = I m"
    and recorded: "\<And>m a b c d e f' g. I m \<Longrightarrow> I (m\<lparr>slash_events := a, nodeSlashHistory := b, lastSlashTime := c,
        slashCountByReason := (slashCountByReason m)(d := slashCountByReason m d + 1),
        totalSlashEvents := totalSlashEvents m + 1, totalSlashedAmount := e, totalSlashAmountByNode := f'\<rparr>)"
    and claim: "\<And>m a b c. I m \<Longrightarrow> I (m\<lparr>rewardsAccrued := (rewardsAccrued m)(a := 0), lastRewardClaim := b, rewardHistoryCount := c\<rparr>)"
    and settings: "\<And>m a b c d e f' g h i j. I m \<Longrightarrow>
        I (m\<lparr>nodeSlashProbability := a\<rparr>) \<and> I (m\<lparr>baseMinimumStake := b\<rparr>) \<and> I (m\<lparr>nodeCapacity := c\<rparr>) \<and>
        I (m\<lparr>isNodeOnline := d\<rparr>) \<and> I (m\<lparr>nodeRegion := e\<rparr>) \<and> I (m\<lparr>slashGracePeriod := b\<rparr>) \<and>
        I (m\<lparr>validatorRewardPercent := b\<rparr>) \<and> I (m\<lparr>protocolRewardRecipient := f'\<rparr>) \<and> I (m\<lparr>rewardPaused := g\<rparr>) \<and>
        I (m\<lparr>reliabilityWeight := h\<rparr>) \<and> I (m\<lparr>autoActions := i\<rparr>) \<and> I (m\<lparr>m_callers := j\<rparr>)"
    and offline: "\<And>m a d. I m \<Longrightarrow> I (m\<lparr>isNodeOnline := d, activeJobCount := (activeJobCount m)(a := 0)\<rparr>)"
  shows "calls_keep G H I"
proof -
  let ?J = "\<lambda>w. I (mgr w)"
  have rec: "?J w \<Longrightarrow> (\<And>x. ?J x \<Longrightarrow> chain_keeps ?J (k x)) \<Longrightarrow> chain_keeps ?J (recordSlash H now node n reason job w k)"
    for w now node n reason job k
    using recorded log by (simp add: recordSlash_def Let_def upd_mgr_def m_emit_def)
  have esc: "?J w \<Longrightarrow> (\<And>x. ?J x \<Longrightarrow> chain_keeps ?J (k x)) \<Longrightarrow> chain_keeps ?J (escrow_slash G node n reason w k)"
    for w node n reason k
    using bal by (auto simp: escrow_slash_def upd_mgr_def split: sum.splits outcome.splits)
  have guarded: "?J w \<Longrightarrow> (\<And>x. ?J x \<Longrightarrow> chain_keeps ?J (body x)) \<Longrightarrow> chain_keeps ?J (m_nonReentrant G w body)" for w body
    using guard by (auto simp: m_nonReentrant_def upd_mgr_def split: option.splits)
  have leave: "?J w \<Longrightarrow> chain_keeps ?J (Finishes (m_leaving G w))" for w
    using guard by (simp add: m_leaving_def upd_mgr_def)
  have credit: "?J w \<Longrightarrow> (\<And>x. ?J x \<Longrightarrow> chain_keeps ?J (k x)) \<Longrightarrow> chain_keeps ?J (pay_credit a j n w k)" for w k a j n
    using log by (simp add: pay_credit_def upd_mgr_def m_emit_def)
  have "chain_keeps ?J (manager_call G H c t f w)" if "?J w" for c t f w
  proof (cases f)
    case (SlashAndCredit node client job v)
    then show ?thesis using that
      by (auto simp: slashAndCredit_def Let_def pay_reward_def pay_fee_def
          intro!: guarded esc credit keeps_pay_if rec leave simp del: chain_keeps.simps)
  next
    case (SlashPartial node bps)
    then show ?thesis using that
      by (auto simp: slashPartial_def Let_def intro!: guarded esc rec leave simp del: chain_keeps.simps)
  next
    case (ClaimReward a)
    then show ?thesis using that claim log guard
      by (auto simp: claimReward_def upd_mgr_def m_emit_def m_leaving_def intro!: guarded split: sum.splits)
  next
    case (ExecuteRecommendedAction a)
    then show ?thesis using that offline log
      by (auto simp: executeRecommendedAction_def upd_mgr_def go_offline_def m_emit_def)
  next
    case (SetNodeOffline a)
    then show ?thesis using that offline log by (auto simp: set_setting_def upd_mgr_def go_offline_def m_emit_def)
  next
    case (SetNodeOnline a)
    then show ?thesis using that settings log by (auto simp: set_setting_def upd_mgr_def m_emit_def)
  qed (use that settings in \<open>auto simp: set_setting_def upd_mgr_def emergencyWithdrawRewards_def\<close>)
  then show ?thesis by (simp add: calls_keep_def)
qed

interpretation idle_manager: manager_invariant G H never_active
proof
  show "calls_keep G H never_active" by (rule calls_keepI) (simp_all add: never_active_def)
qed (simp add: never_active_def)

interpretation counted_manager: manager_invariant G H counts_agree
proof
  show "calls_keep G H counts_agree"
  proof (rule calls_keepI)
    fix m :: "'a manager" and a b c d e f'
    assume "counts_agree m"
    then show "counts_agree (m\<lparr>slash_events := a, nodeSlashHistory := b, lastSlashTime := c,
        slashCountByReason := (slashCountByReason m)(d := slashCountByReason m d + 1),
        totalSlashEvents := totalSlashEvents m + 1, totalSlashedAmount := e, totalSlashAmountByNode := f'\<rparr>)"
      by (cases d) (simp_all add: counts_agree_def)
  qed (simp_all add: counts_agree_def)
qed (simp add: counts_agree_def)

section \<open>Scores\<close>

lemma tierOf_le: "tierOf m node \<le> 4"
  by (simp add: tierOf_def Let_def)

text \<open>C36: the scores of the slash manager do not look at what it does. In every run, with any slashes, claims and
  reentrance, every address, known or not, has full reliability, the performance of 6000, the health of 8800, which is
  called Degraded, the trust level Gold, and the advice to go on as before.\<close>

theorem scores_never_move:
  fixes G :: "'g guard_lib" and g0 :: 'g and H xs self d e
  defines "w \<equiv> run_worlds G H xs \<lparr>mgr = deploy_manager self g0 d, esc = e\<rparr>"
  shows "reliabilityScore (mgr w) node = 10000 \<and> perfScore (mgr w) node = 6000 \<and> node_healthScore (mgr w) node = 8800 \<and>
    manager_getHealthStatus (mgr w) node = ''Degraded'' \<and> getTrustLevel (mgr w) node = ''Gold'' \<and>
    recommendedAction (mgr w) node = ''Continue normal operation''"
proof -
  have "never_active (deploy_manager self g0 d)" by (simp add: never_active_def deploy_manager_def)
  then have "never_active (mgr w)"
    using idle_manager.kept_runs[of "\<lparr>mgr = deploy_manager self g0 d, esc = e\<rparr>" G H xs] by (simp add: w_def)
  then have zero: "activeJobCount (mgr w) node = 0" by (simp add: never_active_def)
  have "7000 \<le> trustScore (mgr w) node" "trustScore (mgr w) node < 9000"
    using zero tierOf_le[of "mgr w" node]
    by (simp_all add: trustScore_def reliabilityScore_def nodeUptime_def BASIS_POINTS_def Let_def)
  then show ?thesis
    using zero
    by (simp add: reliabilityScore_def perfScore_def node_healthScore_def manager_getHealthStatus_def getTrustLevel_def
        recommendedAction_def nodeUptime_def nodeUtilization_def BASIS_POINTS_def Let_def)
qed

text \<open>Also: the total of slashes is the sum over the reasons, in every run.\<close>

theorem slashes_counted:
  "counts_agree (mgr (run_worlds G H xs \<lparr>mgr = deploy_manager self g0 d, esc = e\<rparr>))"
  by (rule counted_manager.kept_runs) (simp add: counts_agree_def deploy_manager_def)

text \<open>Also: the first claim of a node counts the periods since the year 1970: at a time of two hundred periods it is a
  twelfth of the stake, for a stake made a second ago.\<close>

theorem first_claim_from_epoch:
  assumes "lastRewardClaim (mgr w) node = 0" "\<not> rewardPaused (mgr w) node" "rewardsAccrued (mgr w) node = 0"
    and "stakeOf (esc w) node = 120 * k" "120 * k * 10000 < 2 ^ 256"
  shows "getRewardsAccrued (200 * (30 * 86400)) w node = Inr (10 * k)"
  using assms by (simp add: getRewardsAccrued_def timeWeightedReward_def uint_sub_def uint256_def BASIS_POINTS_def Let_def)

section \<open>Witnesses\<close>

text \<open>The contracts as the deployment script connects them, with one node that has staked.\<close>

definition deployed_world :: "bool world" where
  "deployed_world = \<lparr>mgr = deploy_manager 200 False 1,
     esc = run_txs flag_guard [Tx 1 0 0 (AuthorizeSlasher 200) True [], Tx 5 ether 1 Stake True []] (deploy_escrow 100 False 1)\<rparr>"

lemma deployed_esc:
  "stakeOf (esc deployed_world) 5 = ether" "hasStaked (esc deployed_world) 5" "totalStaked (esc deployed_world) = ether"
  "ether_balance (esc deployed_world) = ether" "slasher (esc deployed_world) = 200" "guard (esc deployed_world) = False"
  "this (esc deployed_world) = 100"
  by (simp_all add: deployed_world_def payable_def authorizeSlasher_def onlyOwner_def need_def deploy_escrow_def emit_def stake_def
      nonReentrant_def flag_guard_def whenNotPaused_def validate_stake_amount_def checked_def escrow_stake_body_def Let_def
      register_staker_def leaving_def hasStaked_def ether_def MIN_STAKE_def)

lemma deployed_mgr: "mgr deployed_world = deploy_manager 200 False 1"
  by (simp add: deployed_world_def)

lemma deployed_can_slash: "can_slash flag_guard deployed_world 5"
  by (simp add: can_slash_def deployed_esc deployed_mgr flag_guard_def deploy_manager_def)

theorem anyone_takes_any_stake_witness:
  "stakeOf (esc (run_worlds flag_guard (\<lambda>_ _ _ _. 0) [OnManager 9 0 7 (AuthorizeOnManager 9) [],
     OnManager 9 0 7 (SlashPartial 5 10000) [], OnManager 9 0 7 (EmergencyWithdrawRewards 9 ether) [(True, [])]] deployed_world)) 5 = 0"
  using anyone_takes_any_stake[of flag_guard deployed_world 5 9 "\<lambda>_ _ _ _. 0" 7, unfolded Let_def, OF deployed_can_slash]
  by (simp add: deployed_esc deployed_mgr flag_guard_def deploy_manager_def room_for_def contract_addr_def ether_def
      del: run_worlds.simps run_world.simps)

theorem slash_pays_nominal_shares_witness:
  "case run_world flag_guard (\<lambda>_ _ _ _. 0) (OnManager 1 0 7 (SlashAndCredit 5 8 0 (100 * ether))
     [(True, []), (True, []), (True, [])]) deployed_world of Inl e \<Rightarrow> True | Inr w' \<Rightarrow> False"
proof -
  have w: "wants_shares deployed_world 8" and r: "room_for (mgr deployed_world) 5 SMissedHeartbeat (calculateSlash (100 * ether))"
    and less: "\<not> paid_shares (calculateSlash (100 * ether)) \<le>
      m_balance (mgr deployed_world) + min (stakeOf (esc deployed_world) 5) (calculateSlash (100 * ether))"
    and g: "enter flag_guard (m_guard (mgr deployed_world)) \<noteq> None" and c: "m_callers (mgr deployed_world) 1"
    and f: "\<not> isNodeFrozen (mgr deployed_world) 5" and v: "2000 \<le> calculateSlash (100 * ether)" "100 * ether * 7000 < 2 ^ 256"
    by (simp_all add: wants_shares_def contract_addr_def deployed_esc deployed_mgr deploy_manager_def room_for_def
        calculateSlash_def manager_constants ether_def paid_shares_def share_of_def flag_guard_def)
  have "(5 :: addr) \<noteq> 0" by simp
  from slash_pays_nominal_shares[OF deployed_can_slash g c f this w v r, of "\<lambda>_ _ _ _. 0" 7 0] less
  show ?thesis by (auto simp del: run_world.simps split: sum.splits)
qed

end
