(* ===== verification/SlaContract.thy ===== *)
theory SlaContract
  imports SlashContract
begin

text \<open>
  \<open>contracts/contracts/SLAContract.sol\<close>, the contract that records the terms of the jobs and the checks of their nodes. It
  pays nobody, so a run is a list of transactions as in theory \<open>ReputationContract\<close>. \<open>stake_at\<close> is the stake the escrow
  reports for an address.
\<close>

section \<open>Storage\<close>

type_synonym job_id = nat

record benchmark =
  b_uptime :: nat
  b_throughput :: nat
  b_deadline :: nat
  b_fulfilled :: bool

record sla_check =
  ck_time :: nat
  ck_uptime :: nat
  ck_throughput :: nat

datatype sla_event =
    SLARecorded job_id nat nat nat
  | SLAFulfilled job_id bool
  | SLABreached job_id nat
  | SLAExtended job_id nat
  | EmergencyTerminated job_id string
  | SLAMetricsEmitted job_id nat nat

text \<open>A benchmark that does not exist is none.\<close>

record sla_contract =
  benchmarks :: "job_id \<rightharpoonup> benchmark"
  slaClient :: "job_id \<Rightarrow> addr"
  slaProvider :: "job_id \<Rightarrow> addr"
  historicalMetrics :: "job_id \<Rightarrow> sla_check list"
  breachedSLAs :: "job_id \<Rightarrow> bool"
  pendingTerminations :: "job_id \<Rightarrow> bool"
  slaVersion :: "job_id \<Rightarrow> nat"
  sla_callers :: "addr \<Rightarrow> bool"
  sla_log :: "sla_event list"

definition SLA_METRICS_PERIOD :: nat where "SLA_METRICS_PERIOD = 300"
definition PENALTY_BASIS_POINTS :: nat where "PENALTY_BASIS_POINTS = 100"
definition MIN_DEADLINE_EXTENSION :: nat where "MIN_DEADLINE_EXTENSION = 3600"

definition deploy_sla :: "addr \<Rightarrow> sla_contract" where
  "deploy_sla sender = \<lparr>benchmarks = (\<lambda>_. None), slaClient = (\<lambda>_. 0), slaProvider = (\<lambda>_. 0),
     historicalMetrics = (\<lambda>_. []), breachedSLAs = (\<lambda>_. False), pendingTerminations = (\<lambda>_. False), slaVersion = (\<lambda>_. 0),
     sla_callers = (\<lambda>a. a = sender), sla_log = []\<rparr>"

section \<open>Functions\<close>

definition sla_emit :: "sla_event \<Rightarrow> sla_contract \<Rightarrow> sla_contract" where
  "sla_emit e s = s\<lparr>sla_log := sla_log s @ [e]\<rparr>"

definition sla_authorized :: "addr \<Rightarrow> sla_contract \<Rightarrow> 'a reverts \<Rightarrow> 'a reverts" where
  "sla_authorized c s r = require (sla_callers s c) ''Caller not authorized'' r"

definition onlyExistingJob :: "job_id \<Rightarrow> sla_contract \<Rightarrow> (benchmark \<Rightarrow> 'a reverts) \<Rightarrow> 'a reverts" where
  "onlyExistingJob j s f = (case benchmarks s j of None \<Rightarrow> Inl ''SLA does not exist'' | Some b \<Rightarrow> f b)"

definition onlyOnce :: "benchmark \<Rightarrow> 'a reverts \<Rightarrow> 'a reverts" where
  "onlyOnce b r = require (\<not> b_fulfilled b) ''SLA already fulfilled'' r"

definition valid_terms :: "nat \<Rightarrow> nat \<Rightarrow> 'a reverts \<Rightarrow> 'a reverts" where
  "valid_terms uptime throughput r = require (0 < uptime \<and> uptime \<le> 10000) ''Invalid uptime value''
     (require (0 < throughput) ''Throughput must be positive'' r)"

definition in_future :: "nat \<Rightarrow> nat \<Rightarrow> 'a reverts \<Rightarrow> 'a reverts" where
  "in_future now deadline r = require (now < deadline) ''Deadline must be in the future'' r"

definition put_benchmark :: "job_id \<Rightarrow> benchmark \<Rightarrow> sla_contract \<Rightarrow> sla_contract" where
  "put_benchmark j b s = s\<lparr>benchmarks := (benchmarks s)(j \<mapsto> b)\<rparr>"

definition set_version :: "job_id \<Rightarrow> nat \<Rightarrow> sla_contract \<Rightarrow> sla_contract" where
  "set_version j n s = s\<lparr>slaVersion := (slaVersion s)(j := n)\<rparr>"

definition recordSLA :: "addr \<Rightarrow> nat \<Rightarrow> job_id \<Rightarrow> nat \<Rightarrow> nat \<Rightarrow> nat \<Rightarrow> sla_contract \<Rightarrow> sla_contract reverts" where
  "recordSLA c now j uptime throughput deadline s = sla_authorized c s (require (j \<noteq> 0) ''Job ID cannot be zero''
     (require (benchmarks s j = None) ''SLA already recorded for this job'' (valid_terms uptime throughput (in_future now deadline
       (Inr (sla_emit (SLARecorded j uptime throughput deadline) (set_version j 1
         (put_benchmark j \<lparr>b_uptime = uptime, b_throughput = throughput, b_deadline = deadline, b_fulfilled = False\<rparr> s))))))))"

definition getPenaltyAmount :: "(addr \<Rightarrow> nat) \<Rightarrow> job_id \<Rightarrow> sla_contract \<Rightarrow> nat reverts" where
  "getPenaltyAmount stake_at j s = onlyExistingJob j s (\<lambda>_.
     uint256 (stake_at (slaProvider s j) * PENALTY_BASIS_POINTS) (\<lambda>p. Inr (p div 10000)))"

definition mark_breached :: "job_id \<Rightarrow> sla_contract \<Rightarrow> sla_contract" where
  "mark_breached j s = s\<lparr>breachedSLAs := (breachedSLAs s)(j := True)\<rparr>"

definition fulfillSLA :: "(addr \<Rightarrow> nat) \<Rightarrow> addr \<Rightarrow> job_id \<Rightarrow> bool \<Rightarrow> sla_contract \<Rightarrow> sla_contract reverts" where
  "fulfillSLA stake_at c j success s = sla_authorized c s (onlyExistingJob j s (\<lambda>b. onlyOnce b
     (let s1 = put_benchmark j (b\<lparr>b_fulfilled := success\<rparr>) s; s2 = mark_breached j s1; fin = sla_emit (SLAFulfilled j success) in
      if success then Inr (fin s1)
      else if slaProvider s2 j \<noteq> 0
        then (case getPenaltyAmount stake_at j s2 of Inl r \<Rightarrow> Inl r | Inr p \<Rightarrow> Inr (fin (sla_emit (SLABreached j p) s2)))
        else Inr (fin s2))))"

definition setSLAClient :: "addr \<Rightarrow> job_id \<Rightarrow> addr \<Rightarrow> sla_contract \<Rightarrow> sla_contract reverts" where
  "setSLAClient c j a s = sla_authorized c s (onlyExistingJob j s (\<lambda>_. Inr (s\<lparr>slaClient := (slaClient s)(j := a)\<rparr>)))"

definition setSLAProvider :: "addr \<Rightarrow> job_id \<Rightarrow> addr \<Rightarrow> sla_contract \<Rightarrow> sla_contract reverts" where
  "setSLAProvider c j a s = sla_authorized c s (onlyExistingJob j s (\<lambda>_. Inr (s\<lparr>slaProvider := (slaProvider s)(j := a)\<rparr>)))"

definition updateSLA :: "addr \<Rightarrow> nat \<Rightarrow> job_id \<Rightarrow> nat \<Rightarrow> nat \<Rightarrow> nat \<Rightarrow> sla_contract \<Rightarrow> sla_contract reverts" where
  "updateSLA c now j uptime throughput deadline s = sla_authorized c s (onlyExistingJob j s (\<lambda>b. onlyOnce b
     (in_future now deadline (valid_terms uptime throughput
       (uint256 (slaVersion s j + 1) (\<lambda>v. Inr (set_version j v
         (put_benchmark j (b\<lparr>b_uptime := uptime, b_throughput := throughput, b_deadline := deadline\<rparr>) s))))))))"

text \<open>The checks: a new one is appended; two of the functions then compare the times of the whole history.\<close>

definition push_check :: "job_id \<Rightarrow> nat \<Rightarrow> nat \<Rightarrow> nat \<Rightarrow> sla_contract \<Rightarrow> sla_contract" where
  "push_check j now uptime throughput s = s\<lparr>historicalMetrics := (historicalMetrics s)(j := historicalMetrics s j @
     [\<lparr>ck_time = now, ck_uptime = uptime, ck_throughput = throughput\<rparr>])\<rparr>"

fun times_increase :: "sla_check list \<Rightarrow> bool" where
  "times_increase (a # b # cs) \<longleftrightarrow> ck_time a < ck_time b \<and> times_increase (b # cs)"
| "times_increase _ \<longleftrightarrow> True"

definition validateCheckpointTimestamps :: "job_id \<Rightarrow> sla_contract \<Rightarrow> 'a reverts \<Rightarrow> 'a reverts" where
  "validateCheckpointTimestamps j s r = require (times_increase (historicalMetrics s j)) ''Timestamps must increase'' r"

definition not_too_soon :: "nat \<Rightarrow> job_id \<Rightarrow> sla_contract \<Rightarrow> 'a reverts \<Rightarrow> 'a reverts" where
  "not_too_soon now j s r = (if historicalMetrics s j = [] then r
     else uint256 (ck_time (last (historicalMetrics s j)) + SLA_METRICS_PERIOD) (\<lambda>t. require (t \<le> now) ''Too soon'' r))"

definition recordUptimeCheck :: "addr \<Rightarrow> nat \<Rightarrow> job_id \<Rightarrow> nat \<Rightarrow> sla_contract \<Rightarrow> sla_contract reverts" where
  "recordUptimeCheck c now j uptime s = sla_authorized c s (onlyExistingJob j s (\<lambda>_. require (uptime \<le> 10000) ''Invalid uptime''
     (not_too_soon now j s (validateCheckpointTimestamps j (push_check j now uptime 0 s)
       (Inr (sla_emit (SLAMetricsEmitted j uptime 0) (push_check j now uptime 0 s)))))))"

definition recordThroughputCheck :: "addr \<Rightarrow> nat \<Rightarrow> job_id \<Rightarrow> nat \<Rightarrow> sla_contract \<Rightarrow> sla_contract reverts" where
  "recordThroughputCheck c now j throughput s = sla_authorized c s (onlyExistingJob j s (\<lambda>_. not_too_soon now j s
     (Inr (sla_emit (SLAMetricsEmitted j 0 throughput) (push_check j now 0 throughput s)))))"

definition submitCheckpoint :: "addr \<Rightarrow> nat \<Rightarrow> job_id \<Rightarrow> nat \<Rightarrow> nat \<Rightarrow> sla_contract \<Rightarrow> sla_contract reverts" where
  "submitCheckpoint c now j uptime throughput s = sla_authorized c s (onlyExistingJob j s (\<lambda>_.
     require (uptime \<le> 10000) ''Invalid uptime'' (validateCheckpointTimestamps j (push_check j now uptime throughput s)
       (Inr (sla_emit (SLAMetricsEmitted j uptime throughput) (push_check j now uptime throughput s))))))"

definition submitFinalMetrics :: "addr \<Rightarrow> nat \<Rightarrow> job_id \<Rightarrow> nat \<Rightarrow> nat \<Rightarrow> sla_contract \<Rightarrow> sla_contract reverts" where
  "submitFinalMetrics c now j uptime throughput s = sla_authorized c s (onlyExistingJob j s (\<lambda>b. onlyOnce b
     (Inr (sla_emit (SLAMetricsEmitted j uptime throughput) (push_check j now uptime throughput s)))))"

definition emergencyTerminateSLA :: "addr \<Rightarrow> job_id \<Rightarrow> string \<Rightarrow> sla_contract \<Rightarrow> sla_contract reverts" where
  "emergencyTerminateSLA c j reason s = sla_authorized c s (onlyExistingJob j s (\<lambda>b. onlyOnce b
     (Inr (sla_emit (EmergencyTerminated j reason) ((mark_breached j (put_benchmark j (b\<lparr>b_fulfilled := False\<rparr>) s))
       \<lparr>pendingTerminations := (pendingTerminations s)(j := True)\<rparr>)))))"

definition extendDeadline :: "addr \<Rightarrow> job_id \<Rightarrow> nat \<Rightarrow> sla_contract \<Rightarrow> sla_contract reverts" where
  "extendDeadline c j deadline s = sla_authorized c s (onlyExistingJob j s (\<lambda>b. onlyOnce b
     (uint256 (b_deadline b + MIN_DEADLINE_EXTENSION) (\<lambda>m. require (m < deadline) ''Extension too small''
       (uint256 (slaVersion s j + 1) (\<lambda>v. Inr (sla_emit (SLAExtended j deadline) (set_version j v
         (put_benchmark j (b\<lparr>b_deadline := deadline\<rparr>) s)))))))))"

definition approveTermination :: "addr \<Rightarrow> job_id \<Rightarrow> sla_contract \<Rightarrow> sla_contract reverts" where
  "approveTermination c j s = require (slaClient s j = c) ''Not SLA client'' (onlyExistingJob j s (\<lambda>b.
     require (pendingTerminations s j) ''No pending termination''
       (Inr ((put_benchmark j (b\<lparr>b_fulfilled := True\<rparr>) s)\<lparr>pendingTerminations := (pendingTerminations s)(j := False)\<rparr>))))"

definition migrateSLA :: "addr \<Rightarrow> job_id \<Rightarrow> nat \<Rightarrow> sla_contract \<Rightarrow> sla_contract reverts" where
  "migrateSLA c j v s = sla_authorized c s (onlyExistingJob j s (\<lambda>_. Inr (set_version j v s)))"

definition sla_authorize :: "addr \<Rightarrow> bool \<Rightarrow> sla_contract \<Rightarrow> sla_contract" where
  "sla_authorize a b s = s\<lparr>sla_callers := (sla_callers s)(a := b)\<rparr>"

section \<open>What is read\<close>

text \<open>The loops over the checks: only the positive values are added and counted.\<close>

fun sum_positive :: "nat list \<Rightarrow> nat \<Rightarrow> nat \<Rightarrow> (nat \<times> nat) reverts" where
  "sum_positive [] t n = Inr (t, n)"
| "sum_positive (x # xs) t n = (if 0 < x then uint256 (t + x) (\<lambda>t'. sum_positive xs t' (n + 1)) else sum_positive xs t n)"

definition average_positive :: "nat list \<Rightarrow> nat reverts" where
  "average_positive xs = (case sum_positive xs 0 0 of Inl r \<Rightarrow> Inl r | Inr (t, n) \<Rightarrow> Inr (if n = 0 then 0 else t div n))"

definition calculateUptimeScore :: "sla_contract \<Rightarrow> job_id \<Rightarrow> nat reverts" where
  "calculateUptimeScore s j =
     (if historicalMetrics s j = [] then Inr 0 else average_positive (map ck_uptime (historicalMetrics s j)))"

definition getCurrentThroughputRate :: "sla_contract \<Rightarrow> job_id \<Rightarrow> nat reverts" where
  "getCurrentThroughputRate s j = onlyExistingJob j s (\<lambda>_.
     if historicalMetrics s j = [] then Inr 0 else average_positive (map ck_throughput (historicalMetrics s j)))"

definition with_scores :: "sla_contract \<Rightarrow> job_id \<Rightarrow> (nat \<Rightarrow> nat \<Rightarrow> 'a reverts) \<Rightarrow> 'a reverts" where
  "with_scores s j f = (case calculateUptimeScore s j of Inl r \<Rightarrow> Inl r
     | Inr u \<Rightarrow> (case getCurrentThroughputRate s j of Inl r \<Rightarrow> Inl r | Inr p \<Rightarrow> f u p))"

definition verifySLACompliance :: "nat \<Rightarrow> sla_contract \<Rightarrow> job_id \<Rightarrow> bool reverts" where
  "verifySLACompliance now s j = onlyExistingJob j s (\<lambda>b. if b_fulfilled b then Inr True else if b_deadline b < now then Inr False
     else with_scores s j (\<lambda>u p. Inr (b_uptime b \<le> u \<and> b_throughput b \<le> p)))"

definition getSLAMetrics :: "nat \<Rightarrow> sla_contract \<Rightarrow> job_id \<Rightarrow> (nat \<times> nat \<times> nat \<times> bool) reverts" where
  "getSLAMetrics now s j = onlyExistingJob j s (\<lambda>b. with_scores s j (\<lambda>u p. Inr (u, p, length (historicalMetrics s j),
     if b_fulfilled b then True else if b_deadline b < now then False else b_uptime b \<le> u \<and> b_throughput b \<le> p)))"

definition isBreached :: "nat \<Rightarrow> sla_contract \<Rightarrow> job_id \<Rightarrow> bool reverts" where
  "isBreached now s j = onlyExistingJob j s (\<lambda>b. Inr (b_deadline b < now \<and> \<not> b_fulfilled b))"

definition getRemainingTime :: "nat \<Rightarrow> sla_contract \<Rightarrow> job_id \<Rightarrow> nat reverts" where
  "getRemainingTime now s j = onlyExistingJob j s (\<lambda>b. Inr (if b_deadline b \<le> now then 0 else b_deadline b - now))"

definition getSLARating :: "sla_contract \<Rightarrow> job_id \<Rightarrow> nat reverts" where
  "getSLARating s j = onlyExistingJob j s (\<lambda>b.
     with_scores s j (\<lambda>u p. let combine = (\<lambda>ratio. uint256 (u * 6000) (\<lambda>a. uint256 (ratio * 4000) (\<lambda>c. uint256 (a + c) (\<lambda>d.
       Inr (if 10000 < d div 10000 then 10000 else d div 10000)))))
     in if 0 < b_throughput b then uint256 (p * 10000) (\<lambda>q. combine (q div b_throughput b)) else combine 10000))"

section \<open>Transactions\<close>

datatype sla_fn =
    RecordSLA job_id nat nat nat
  | FulfillSLA job_id bool
  | SetSLAClient job_id addr
  | SetSLAProvider job_id addr
  | UpdateSLA job_id nat nat nat
  | RecordUptimeCheck job_id nat
  | RecordThroughputCheck job_id nat
  | SubmitCheckpoint job_id nat nat
  | SubmitFinalMetrics job_id nat nat
  | EmergencyTerminateSLA job_id string
  | ExtendDeadline job_id nat
  | ApproveTermination job_id
  | MigrateSLA job_id nat
  | AuthorizeOnSla addr
  | RevokeOnSla addr

fun sla_call :: "(addr \<Rightarrow> nat) \<Rightarrow> addr \<Rightarrow> nat \<Rightarrow> sla_fn \<Rightarrow> sla_contract \<Rightarrow> sla_contract reverts" where
  "sla_call st c t (RecordSLA j u p d) s = recordSLA c t j u p d s"
| "sla_call st c t (FulfillSLA j b) s = fulfillSLA st c j b s"
| "sla_call st c t (SetSLAClient j a) s = setSLAClient c j a s"
| "sla_call st c t (SetSLAProvider j a) s = setSLAProvider c j a s"
| "sla_call st c t (UpdateSLA j u p d) s = updateSLA c t j u p d s"
| "sla_call st c t (RecordUptimeCheck j u) s = recordUptimeCheck c t j u s"
| "sla_call st c t (RecordThroughputCheck j p) s = recordThroughputCheck c t j p s"
| "sla_call st c t (SubmitCheckpoint j u p) s = submitCheckpoint c t j u p s"
| "sla_call st c t (SubmitFinalMetrics j u p) s = submitFinalMetrics c t j u p s"
| "sla_call st c t (EmergencyTerminateSLA j r) s = emergencyTerminateSLA c j r s"
| "sla_call st c t (ExtendDeadline j d) s = extendDeadline c j d s"
| "sla_call st c t (ApproveTermination j) s = approveTermination c j s"
| "sla_call st c t (MigrateSLA j v) s = migrateSLA c j v s"
| "sla_call st c t (AuthorizeOnSla a) s = Inr (sla_authorize a True s)"
| "sla_call st c t (RevokeOnSla a) s = Inr (sla_authorize a False s)"

text \<open>A transaction: what the escrow reports at that time, the caller, the time and the function.\<close>

fun sla_step :: "(addr \<Rightarrow> nat) \<times> addr \<times> nat \<times> sla_fn \<Rightarrow> sla_contract \<Rightarrow> sla_contract" where
  "sla_step (st, c, t, f) s = (case sla_call st c t f s of Inl r \<Rightarrow> s | Inr s' \<Rightarrow> s')"

lemmas sla_defs = recordSLA_def fulfillSLA_def setSLAClient_def setSLAProvider_def updateSLA_def recordUptimeCheck_def
  recordThroughputCheck_def submitCheckpoint_def submitFinalMetrics_def emergencyTerminateSLA_def extendDeadline_def
  approveTermination_def migrateSLA_def sla_authorize_def sla_authorized_def onlyExistingJob_def SlaContract.onlyOnce_def
  valid_terms_def in_future_def put_benchmark_def set_version_def mark_breached_def push_check_def sla_emit_def not_too_soon_def
  validateCheckpointTimestamps_def require_def uint256_def getPenaltyAmount_def Let_def

lemma sla_step_cases: "sla_step (st, c, t, f) s = s \<or> sla_call st c t f s = Inr (sla_step (st, c, t, f) s)"
  by (cases "sla_call st c t f s") auto

section \<open>Settled agreements\<close>

lemma settled_step:
  assumes "benchmarks s j = Some b" "b_fulfilled b"
  shows "benchmarks (sla_step x s) j = Some b"
proof -
  obtain st c t f where x: "x = (st, c, t, f)" by (cases x)
  have "benchmarks s' j = Some b" if "sla_call st c t f s = Inr s'" for s'
    using that assms
    by (cases f) (auto simp: sla_defs split: if_splits option.splits sum.splits)
  then show ?thesis using sla_step_cases[of st c t f s] assms(1) x by metis
qed

text \<open>Also: once an agreement is fulfilled its terms never change and it stays fulfilled, whatever is called by whom, and the
  contract calls the job compliant from then on, at any time and with any checks.\<close>

theorem fulfilled_for_good:
  assumes "benchmarks s j = Some b" "b_fulfilled b"
  shows "benchmarks (fold sla_step txs s) j = Some b \<and> verifySLACompliance now (fold sla_step txs s) j = Inr True"
proof -
  have "benchmarks (fold sla_step txs s) j = Some b"
    using assms(1)
    by (induction txs arbitrary: s) (simp_all add: settled_step[OF _ assms(2)])
  then show ?thesis using assms(2) by (simp add: verifySLACompliance_def onlyExistingJob_def)
qed

section \<open>Outages\<close>

lemma sum_positive_eq:
  "t < 2 ^ 256 \<Longrightarrow> sum_positive xs t n = (let ys = filter (\<lambda>x. 0 < x) xs in
     if t + sum_list ys < 2 ^ 256 then Inr (t + sum_list ys, n + length ys) else Inl ''Panic'')"
proof (induction xs arbitrary: t n)
  case (Cons x xs)
  then show ?case by (cases "0 < x"; cases "t + x < 2 ^ 256") (simp_all add: uint256_def Let_def add.assoc)
qed simp

lemma average_positive_eq:
  "average_positive xs = (let ys = filter (\<lambda>x. 0 < x) xs in
     if sum_list ys < 2 ^ 256 then Inr (if ys = [] then 0 else sum_list ys div length ys) else Inl ''Panic'')"
  by (simp add: average_positive_def sum_positive_eq Let_def)

lemma average_zero: "average_positive (xs @ [0]) = average_positive xs" "average_positive [0] = average_positive []"
  by (simp_all add: average_positive_eq)

definition reports_outage :: "job_id \<Rightarrow> sla_fn \<Rightarrow> bool" where
  "reports_outage j f \<longleftrightarrow> f = RecordUptimeCheck j 0 \<or> (\<exists>p. f \<in> {SubmitCheckpoint j 0 p, SubmitFinalMetrics j 0 p, RecordThroughputCheck j p})"

lemma score_eq: "calculateUptimeScore s j = average_positive (map ck_uptime (historicalMetrics s j))"
  by (simp add: calculateUptimeScore_def average_positive_def)

lemma outage_step:
  assumes "reports_outage j f"
  shows "calculateUptimeScore (sla_step (st, c, t, f) s) j = calculateUptimeScore s j"
proof -
  have "calculateUptimeScore s' j = calculateUptimeScore s j" if "sla_call st c t f s = Inr s'" for s'
    using that assms
    by (auto simp: reports_outage_def sla_defs score_eq average_zero split: if_splits option.splits)
  then show ?thesis using sla_step_cases[of st c t f s] by metis
qed

text \<open>Also: the uptime the contract computes is the average of the checks that found the node up: however many checks report
  an uptime of zero, from whomever and whenever, the score stays what it was.\<close>

theorem outages_not_counted:
  assumes "\<forall>(st, c, t, f) \<in> set txs. reports_outage j f"
  shows "calculateUptimeScore (fold sla_step txs s) j = calculateUptimeScore s j \<and>
    calculateUptimeScore s j = (let up = filter (\<lambda>x. 0 < x) (map ck_uptime (historicalMetrics s j)) in
      if sum_list up < 2 ^ 256 then Inr (if up = [] then 0 else sum_list up div length up) else Inl ''Panic'')"
proof
  show "calculateUptimeScore (fold sla_step txs s) j = calculateUptimeScore s j"
    using assms by (induction txs arbitrary: s) (auto simp: outage_step simp del: sla_step.simps)
qed (simp add: score_eq average_positive_eq)

definition checked_job :: sla_contract where
  "checked_job = fold sla_step [(\<lambda>_. 0, 1, 10, RecordSLA 7 9900 100 5000), (\<lambda>_. 0, 1, 20, SubmitCheckpoint 7 10000 120)] (deploy_sla 1)"

lemma checked_job_score: "calculateUptimeScore checked_job 7 = Inr 10000"
  by (simp add: checked_job_def sla_defs deploy_sla_def score_eq average_positive_eq)

theorem outages_not_counted_witness:
  "calculateUptimeScore (fold sla_step [(\<lambda>_. 0, 1, 400, RecordUptimeCheck 7 0), (\<lambda>_. 0, 1, 800, RecordUptimeCheck 7 0)] checked_job) 7 = Inr 10000"
  using outages_not_counted[of "[(\<lambda>_. 0, 1, 400, RecordUptimeCheck 7 0), (\<lambda>_. 0, 1, 800, RecordUptimeCheck 7 0)]" 7 checked_job]
  by (simp add: reports_outage_def checked_job_score del: sla_step.simps)

definition fulfilled_job :: sla_contract where
  "fulfilled_job = fold sla_step [(\<lambda>_. 0, 1, 30, FulfillSLA 7 True)] checked_job"

theorem fulfilled_for_good_witness:
  "verifySLACompliance 9000 (fold sla_step [(\<lambda>_. 0, 1, 40, EmergencyTerminateSLA 7 ''down'')] fulfilled_job) 7 = Inr True"
proof -
  have "benchmarks fulfilled_job 7 = Some \<lparr>b_uptime = 9900, b_throughput = 100, b_deadline = 5000, b_fulfilled = True\<rparr>"
    by (simp add: fulfilled_job_def checked_job_def sla_defs deploy_sla_def)
  then show ?thesis
    by (rule fulfilled_for_good[THEN conjunct2]) simp
qed

section \<open>Checks that block the checks\<close>

lemma times_increase_append: "times_increase (xs @ ys) \<Longrightarrow> times_increase xs"
  by (induction xs rule: times_increase.induct) auto

lemma history_grows: "\<exists>cs. historicalMetrics (sla_step x s) j = historicalMetrics s j @ cs"
proof -
  obtain st c t f where x: "x = (st, c, t, f)" by (cases x)
  have "\<exists>cs. historicalMetrics s' j = historicalMetrics s j @ cs" if "sla_call st c t f s = Inr s'" for s'
    using that by (cases f) (auto simp: sla_defs split: if_splits option.splits sum.splits)
  then show ?thesis using sla_step_cases[of st c t f s] x by (metis append_Nil2)
qed

lemma disorder_stays: "\<not> times_increase (historicalMetrics s j) \<Longrightarrow> \<not> times_increase (historicalMetrics (fold sla_step txs s) j)"
proof (induction txs arbitrary: s)
  case (Cons x txs)
  obtain cs where "historicalMetrics (sla_step x s) j = historicalMetrics s j @ cs" using history_grows by blast
  then have "\<not> times_increase (historicalMetrics (sla_step x s) j)" using Cons.prems times_increase_append by metis
  from Cons.IH[OF this] show ?case by simp
qed simp

text \<open>Also: two final reports of one job in the same block, which nothing prevents, and no check with an uptime is ever accepted
  again for that job, whatever is done about it.\<close>

theorem same_block_blocks_checks:
  assumes "sla_call st c t (SubmitFinalMetrics j u p) s = Inr s1" "sla_call st' c' t (SubmitFinalMetrics j u' p') s1 = Inr s2"
  shows "sla_call st2 d now (RecordUptimeCheck j v) (fold sla_step txs s2) \<in> range Inl \<and>
    sla_call st2 d now (SubmitCheckpoint j v q) (fold sla_step txs s2) \<in> range Inl"
proof -
  have two: "\<not> times_increase (cs @ [a, b])" if "ck_time a = ck_time b" for cs a b
    using that by (induction cs rule: times_increase.induct) auto
  have "\<not> times_increase (historicalMetrics s2 j)"
    using assms two[of "\<lparr>ck_time = t, ck_uptime = u, ck_throughput = p\<rparr>" "\<lparr>ck_time = t, ck_uptime = u', ck_throughput = p'\<rparr>"]
    by (auto simp: sla_defs split: if_splits option.splits)
  then have bad: "\<not> times_increase (historicalMetrics (fold sla_step txs s2) j)" by (rule disorder_stays)
  then have "\<not> times_increase (historicalMetrics (fold sla_step txs s2) j @ cs)" for cs using times_increase_append by blast
  then show ?thesis by (auto simp: sla_defs split: option.splits)
qed

text \<open>Also: a breach is not final. Who reported it may report success afterwards; the agreement is then fulfilled and
  breached at the same time. And a termination the client approves counts as success.\<close>

theorem breach_undone:
  assumes "sla_callers s c" "benchmarks s j = Some b" "\<not> b_fulfilled b" "slaProvider s j = 0"
  shows "let s' = fold sla_step [(st, c, t, FulfillSLA j False), (st, c, t', FulfillSLA j True)] s in
    breachedSLAs s' j \<and> isBreached now s' j = Inr False"
  using assms by (simp add: sla_defs isBreached_def)

theorem termination_counts_as_success:
  assumes "sla_callers s c" "benchmarks s j = Some b" "\<not> b_fulfilled b" "slaClient s j = a"
  shows "verifySLACompliance now (fold sla_step [(st, c, t, EmergencyTerminateSLA j r), (st, a, t', ApproveTermination j)] s) j = Inr True"
  using assms by (simp add: sla_defs verifySLACompliance_def)

end
