(* ===== verification/Validation.thy ===== *)
theory Validation
  imports Domain
begin

text \<open>
  \<open>apps/web/src/lib/validations.ts\<close>: the schemas, as the data the source builds with zod's
  combinators, and the validation helpers, as functions. What a schema accepts is decided by zod,
  which is outside the repository: it is a parameter \<open>accepts\<close>, and \<open>zod_laws\<close> states the
  documented meaning of the combinators the source uses.
\<close>

section \<open>Schemas\<close>

datatype num_check = NMin rat | NMax rat | NPositive | NInteger

datatype str_check = SMin nat | SMax nat | SEthAddress | SEmail

datatype schema =
    ZEnum "string list"
  | ZNumber "num_check list"
  | ZString "str_check list"
  | ZBool
  | ZTrue
  | ZAny
  | ZArray schema
  | ZRecord schema
  | ZOptional schema
  | ZDefault schema jsval
  | ZObject "(string \<times> schema) list"

fun num_check_ok :: "rat \<Rightarrow> num_check \<Rightarrow> bool" where
  "num_check_ok q (NMin m) = (m \<le> q)"
| "num_check_ok q (NMax m) = (q \<le> m)"
| "num_check_ok q NPositive = (0 < q)"
| "num_check_ok q NInteger = (of_int \<lfloor>q\<rfloor> = q)"

text \<open>The pattern \<open>^0x[a-fA-F0-9]{40}$\<close>.\<close>

definition is_hex_char :: "char \<Rightarrow> bool" where
  "is_hex_char c \<longleftrightarrow> c \<in> set ''0123456789abcdefABCDEF''"

definition validateEthereumAddress :: "string \<Rightarrow> bool" where
  "validateEthereumAddress a \<longleftrightarrow>
     starts_with ''0x'' a \<and> length (drop 2 a) = 40 \<and> list_all is_hex_char (drop 2 a)"

fun str_check_ok :: "(string \<Rightarrow> bool) \<Rightarrow> string \<Rightarrow> str_check \<Rightarrow> bool" where
  "str_check_ok email s (SMin n) = (n \<le> length s)"
| "str_check_ok email s (SMax n) = (length s \<le> n)"
| "str_check_ok email s SEthAddress = validateEthereumAddress s"
| "str_check_ok email s SEmail = email s"

text \<open>
  The documented behaviour of zod 4 for these combinators. \<open>z.number()\<close> takes finite numbers only.
  Nothing is said about \<open>z.any\<close> and \<open>z.record\<close>, or about which strings are e-mail addresses.
\<close>

definition zod_laws :: "(string \<Rightarrow> bool) \<Rightarrow> (schema \<Rightarrow> jsval \<Rightarrow> bool) \<Rightarrow> bool" where
  "zod_laws email accepts \<longleftrightarrow>
     (\<forall>opts v. accepts (ZEnum opts) v \<longleftrightarrow> (\<exists>s \<in> set opts. v = Str s)) \<and>
     (\<forall>cs v. accepts (ZNumber cs) v \<longleftrightarrow> (\<exists>q. v = Num (Fin q) \<and> list_all (num_check_ok q) cs)) \<and>
     (\<forall>cs v. accepts (ZString cs) v \<longleftrightarrow> (\<exists>s. v = Str s \<and> list_all (str_check_ok email s) cs)) \<and>
     (\<forall>v. accepts ZBool v \<longleftrightarrow> (\<exists>b. v = Bool b)) \<and>
     (\<forall>v. accepts ZTrue v \<longleftrightarrow> v = Bool True) \<and>
     (\<forall>z v. accepts (ZArray z) v \<longleftrightarrow> (\<exists>vs. v = Arr vs \<and> list_all (accepts z) vs)) \<and>
     (\<forall>z v. accepts (ZOptional z) v \<longleftrightarrow> v = Undefined \<or> accepts z v) \<and>
     (\<forall>z d v. accepts (ZDefault z d) v \<longleftrightarrow> v = Undefined \<or> accepts z v) \<and>
     (\<forall>fs v. accepts (ZObject fs) v \<longleftrightarrow>
        (\<exists>o'. v = Obj o') \<and> list_all (\<lambda>(k, z). accepts z (field k v)) fs)"

lemma zod_rules:
  assumes "zod_laws email accepts"
  shows "accepts (ZEnum opts) v \<longleftrightarrow> (\<exists>s \<in> set opts. v = Str s)"
    and "accepts (ZNumber cs) v \<longleftrightarrow> (\<exists>q. v = Num (Fin q) \<and> list_all (num_check_ok q) cs)"
    and "accepts (ZString ss) v \<longleftrightarrow> (\<exists>s. v = Str s \<and> list_all (str_check_ok email s) ss)"
    and "accepts ZBool v \<longleftrightarrow> (\<exists>b. v = Bool b)"
    and "accepts ZTrue v \<longleftrightarrow> v = Bool True"
    and "accepts (ZArray z) v \<longleftrightarrow> (\<exists>vs. v = Arr vs \<and> list_all (accepts z) vs)"
    and "accepts (ZOptional z) v \<longleftrightarrow> v = Undefined \<or> accepts z v"
    and "accepts (ZDefault z d) v \<longleftrightarrow> v = Undefined \<or> accepts z v"
    and "accepts (ZObject fs) v \<longleftrightarrow>
      (\<exists>o'. v = Obj o') \<and> list_all (\<lambda>(k, z). accepts z (field k v)) fs"
proof -
  note laws = assms[unfolded zod_laws_def]
  show "accepts (ZEnum opts) v \<longleftrightarrow> (\<exists>s \<in> set opts. v = Str s)"
    by (rule laws[THEN conjunct1, THEN spec, THEN spec])
  note laws = laws[THEN conjunct2]
  show "accepts (ZNumber cs) v \<longleftrightarrow> (\<exists>q. v = Num (Fin q) \<and> list_all (num_check_ok q) cs)"
    by (rule laws[THEN conjunct1, THEN spec, THEN spec])
  note laws = laws[THEN conjunct2]
  show "accepts (ZString ss) v \<longleftrightarrow> (\<exists>s. v = Str s \<and> list_all (str_check_ok email s) ss)"
    by (rule laws[THEN conjunct1, THEN spec, THEN spec])
  note laws = laws[THEN conjunct2]
  show "accepts ZBool v \<longleftrightarrow> (\<exists>b. v = Bool b)"
    by (rule laws[THEN conjunct1, THEN spec])
  note laws = laws[THEN conjunct2]
  show "accepts ZTrue v \<longleftrightarrow> v = Bool True"
    by (rule laws[THEN conjunct1, THEN spec])
  note laws = laws[THEN conjunct2]
  show "accepts (ZArray z) v \<longleftrightarrow> (\<exists>vs. v = Arr vs \<and> list_all (accepts z) vs)"
    by (rule laws[THEN conjunct1, THEN spec, THEN spec])
  note laws = laws[THEN conjunct2]
  show "accepts (ZOptional z) v \<longleftrightarrow> v = Undefined \<or> accepts z v"
    by (rule laws[THEN conjunct1, THEN spec, THEN spec])
  note laws = laws[THEN conjunct2]
  show "accepts (ZDefault z d) v \<longleftrightarrow> v = Undefined \<or> accepts z v"
    by (rule laws[THEN conjunct1, THEN spec, THEN spec, THEN spec])
  show "accepts (ZObject fs) v \<longleftrightarrow>
      (\<exists>o'. v = Obj o') \<and> list_all (\<lambda>(k, z). accepts z (field k v)) fs"
    by (rule laws[THEN conjunct2, THEN spec, THEN spec])
qed

text \<open>A function that satisfies the laws, so that they are consistent.\<close>

function zod_model :: "schema \<Rightarrow> jsval \<Rightarrow> bool" where
  "zod_model (ZEnum opts) v = (\<exists>s \<in> set opts. v = Str s)"
| "zod_model (ZNumber cs) v = (case v of Num (Fin q) \<Rightarrow> list_all (num_check_ok q) cs | _ \<Rightarrow> False)"
| "zod_model (ZString cs) v =
     (case v of Str s \<Rightarrow> list_all (str_check_ok (\<lambda>e. CHR ''@'' \<in> set e) s) cs | _ \<Rightarrow> False)"
| "zod_model ZBool v = (case v of Bool b \<Rightarrow> True | _ \<Rightarrow> False)"
| "zod_model ZTrue v = (v = Bool True)"
| "zod_model ZAny v = True"
| "zod_model (ZArray z) v = (case v of Arr vs \<Rightarrow> list_all (zod_model z) vs | _ \<Rightarrow> False)"
| "zod_model (ZRecord z) v = (case v of Obj fs \<Rightarrow> list_all (\<lambda>(k, x). zod_model z x) fs | _ \<Rightarrow> False)"
| "zod_model (ZOptional z) v = (v = Undefined \<or> zod_model z v)"
| "zod_model (ZDefault z d) v = (v = Undefined \<or> zod_model z v)"
| "zod_model (ZObject fs) v =
     (case v of Obj o' \<Rightarrow> list_all (\<lambda>f. zod_model (snd f) (field (fst f) v)) fs | _ \<Rightarrow> False)"
  by pat_completeness auto

lemma size_schema_field: "f \<in> set fs \<Longrightarrow> size (snd f) < Suc (size_list (size_prod (\<lambda>_. 0) size) fs)"
  by (induction fs) (auto simp: size_prod_def split: prod.splits)

termination zod_model
  by (relation "measure (\<lambda>(z, v). size z)") (auto dest: size_schema_field)

lemma zod_model_laws: "zod_laws (\<lambda>e. CHR ''@'' \<in> set e) zod_model"
  unfolding zod_laws_def
  by (auto split: jsval.splits jsnum.splits simp: list_all_iff)

section \<open>The schemas of the source\<close>

definition jobTypeSchema :: schema where
  "jobTypeSchema = ZEnum [''llm_finetuning'', ''batch_processing'', ''image_rendering'',
     ''data_processing'', ''custom'']"

definition submitJobSchema :: schema where
  "submitJobSchema = ZObject [
     (''type'', jobTypeSchema),
     (''sla'', ZObject [
        (''requiredUptime'', ZNumber [NMin 90, NMax 100]),
        (''requiredThroughput'', ZNumber [NMin 1, NMax 1000]),
        (''deadline'', ZNumber [NPositive])]),
     (''workload'', ZObject [
        (''inputData'', ZOptional (ZString [])),
        (''parameters'', ZOptional (ZRecord ZAny)),
        (''checkpointInterval'', ZDefault (ZNumber [NMin 60, NMax 3600]) (Num (Fin 300))),
        (''nodePreference'', ZDefault (ZEnum [''any'', ''high_reputation'', ''specific'']) (Str ''any''))])]"

definition registerNodeSchema :: schema where
  "registerNodeSchema = ZObject [
     (''nodeName'', ZString [SMin 3, SMax 50]),
     (''region'', ZString [SMin 1]),
     (''hardware'', ZObject [
        (''cpuModel'', ZString [SMin 1]),
        (''cpuCores'', ZNumber [NInteger, NPositive]),
        (''vramTotal'', ZNumber [NPositive])]),
     (''stakeAmount'', ZNumber [NMin 10]),
     (''walletAddress'', ZString [SEthAddress])]"

definition stakeSchema :: schema where
  "stakeSchema = ZObject [
     (''amount'', ZNumber [NPositive]),
     (''maxStake'', ZOptional (ZNumber []))]"

definition unstakeSchema :: schema where
  "unstakeSchema = ZObject [
     (''amount'', ZNumber [NPositive]),
     (''currentStake'', ZNumber [NPositive]),
     (''minStake'', ZDefault (ZNumber []) (Num (Fin 10))),
     (''hasActiveJobs'', ZDefault ZBool (Bool False))]"

definition createApiKeySchema :: schema where
  "createApiKeySchema = ZObject [
     (''name'', ZString [SMin 3, SMax 50]),
     (''permissions'', ZArray (ZEnum [''jobs:read'', ''jobs:write'', ''nodes:read'', ''nodes:write''])),
     (''expiresIn'', ZOptional (ZNumber [NMin 1, NMax 365]))]"

definition pref_defaults :: "(string \<times> bool) list" where
  "pref_defaults = [(''jobCompleted'', True), (''jobFailed'', True), (''slaBreached'', True),
     (''nodeOffline'', True), (''slashEvent'', True), (''weeklyReport'', False)]"

definition updateSettingsSchema :: schema where
  "updateSettingsSchema = ZObject [
     (''displayName'', ZOptional (ZString [SMin 1, SMax 100])),
     (''timezone'', ZOptional (ZString [])),
     (''defaultSla'', ZOptional (ZObject [
        (''requiredUptime'', ZOptional (ZNumber [NMin 90, NMax 100])),
        (''requiredThroughput'', ZOptional (ZNumber [NMin 1, NMax 1000]))])),
     (''notifications'', ZOptional (ZObject
        (map (\<lambda>(k, b). (k, ZDefault ZBool (Bool b))) pref_defaults)))]"

definition notificationSettingsSchema :: schema where
  "notificationSettingsSchema = ZObject
     (map (\<lambda>(k, b). (k, ZDefault ZBool (Bool b)))
       ([(''email'', True), (''browser'', True)] @ pref_defaults))"

definition inviteTeamMemberSchema :: schema where
  "inviteTeamMemberSchema = ZObject [
     (''email'', ZString [SEmail]),
     (''role'', ZEnum [''admin'', ''member'', ''billing''])]"

lemmas schema_defs = jobTypeSchema_def submitJobSchema_def registerNodeSchema_def stakeSchema_def
  unstakeSchema_def createApiKeySchema_def inviteTeamMemberSchema_def

section \<open>The helpers\<close>

datatype validation_message =
    AmountNotPositive
  | AmountExceeds jsnum
  | CannotUnstakeMoreThanStake
  | MustMaintainMinimum jsnum

definition validateStakeAmount :: "jsnum \<Rightarrow> jsnum \<Rightarrow> validation_message option" where
  "validateStakeAmount amount mx =
     (if js_le amount (Fin 0) then Some AmountNotPositive
      else if js_lt mx amount then Some (AmountExceeds mx)
      else None)"

definition validateUnstakeAmount :: "jsnum \<Rightarrow> jsnum \<Rightarrow> jsnum \<Rightarrow> validation_message option" where
  "validateUnstakeAmount amount currentStake minStake =
     (if js_le amount (Fin 0) then Some AmountNotPositive
      else if js_lt currentStake amount then Some CannotUnstakeMoreThanStake
      else if js_lt (js_sub currentStake amount) minStake then Some (MustMaintainMinimum minStake)
      else None)"

lemma validateUnstakeAmount_None:
  "validateUnstakeAmount (Fin a) (Fin c) (Fin m) = None \<longleftrightarrow> 0 < a \<and> a \<le> c \<and> m \<le> c - a"
  by (auto simp: validateUnstakeAmount_def)

lemma validateStakeAmount_None:
  "validateStakeAmount (Fin a) (Fin m) = None \<longleftrightarrow> 0 < a \<and> a \<le> m"
  by (auto simp: validateStakeAmount_def)

lemma validators_accept_NaN:
  "validateStakeAmount NaN m = None" "validateUnstakeAmount NaN c m = None"
  by (simp_all add: validateStakeAmount_def validateUnstakeAmount_def js_sub_def)

lemma hex_char_lower: "is_hex_char c \<Longrightarrow> is_hex_char (lower_char c)"
proof -
  have "\<forall>c \<in> set ''0123456789abcdefABCDEF''. lower_char c \<in> set ''0123456789abcdefABCDEF''"
    by code_simp
  then show "is_hex_char c \<Longrightarrow> is_hex_char (lower_char c)"
    unfolding is_hex_char_def by blast
qed

lemma validateEthereumAddress_length: "validateEthereumAddress a \<Longrightarrow> length a = 42"
  by (auto simp: validateEthereumAddress_def)

text \<open>Lower-casing, which the database layer applies to addresses, keeps an address valid.\<close>

lemma validateEthereumAddress_lower:
  assumes "validateEthereumAddress a"
  shows "validateEthereumAddress (to_lower a)"
proof -
  obtain r where r: "a = ''0x'' @ r" "length r = 40" "list_all is_hex_char r"
    using assms by (auto simp: validateEthereumAddress_def starts_with_iff)
  have "to_lower a = ''0x'' @ to_lower r"
    by (simp add: r(1) to_lower_def lower_char_def)
  moreover have "list_all is_hex_char (to_lower r)"
    using r(3) by (auto simp: to_lower_def list_all_iff hex_char_lower)
  ultimately show ?thesis
    using r(2) by (simp add: validateEthereumAddress_def starts_with_def)
qed

section \<open>What accepted inputs satisfy\<close>

lemma submitJob_accepts:
  assumes "zod_laws email accepts" "accepts submitJobSchema v"
  shows "\<exists>u t d. field ''requiredUptime'' (field ''sla'' v) = Num (Fin u) \<and> 90 \<le> u \<and> u \<le> 100 \<and>
    field ''requiredThroughput'' (field ''sla'' v) = Num (Fin t) \<and> 1 \<le> t \<and> t \<le> 1000 \<and>
    field ''deadline'' (field ''sla'' v) = Num (Fin d) \<and> 0 < d"
  using assms(2) by (auto simp: submitJobSchema_def zod_rules[OF assms(1)])

lemma registerNode_accepts:
  assumes "zod_laws email accepts" "accepts registerNodeSchema v"
  shows "\<exists>q a c. field ''stakeAmount'' v = Num (Fin q) \<and> 10 \<le> q \<and>
    field ''walletAddress'' v = Str a \<and> validateEthereumAddress a \<and>
    field ''cpuCores'' (field ''hardware'' v) = Num (Fin (of_int c)) \<and> 0 < c"
proof -
  from assms(2) obtain q a c where h:
    "field ''stakeAmount'' v = Num (Fin q)" "10 \<le> q"
    "field ''walletAddress'' v = Str a" "validateEthereumAddress a"
    "field ''cpuCores'' (field ''hardware'' v) = Num (Fin c)" "of_int \<lfloor>c\<rfloor> = c" "0 < c"
    by (auto simp: registerNodeSchema_def zod_rules[OF assms(1)])
  from h(6,7) have "0 < \<lfloor>c\<rfloor>"
    by (metis of_int_0_less_iff)
  with h show ?thesis by metis
qed

lemma unstakeSchema_below_minimum:
  assumes "zod_laws email accepts"
  shows "accepts unstakeSchema (Obj [(''amount'', Num (Fin 95)), (''currentStake'', Num (Fin 100))])"
  by (simp add: unstakeSchema_def zod_rules[OF assms])

section \<open>Properties\<close>


definition valid_job :: jsval where
  "valid_job = Obj [(''type'', Str ''custom''),
     (''sla'', Obj [(''requiredUptime'', Num (Fin 95)), (''requiredThroughput'', Num (Fin 50)), (''deadline'', Num (Fin 24))]),
     (''workload'', Obj [])]"

definition valid_node :: jsval where
  "valid_node = Obj [(''nodeName'', Str ''gpu-1''), (''region'', Str ''us-east-1''),
     (''hardware'', Obj [(''cpuModel'', Str ''x''), (''cpuCores'', Num (Fin 8)), (''vramTotal'', Num (Fin 24))]),
     (''stakeAmount'', Num (Fin 12)), (''walletAddress'', Str (''0x'' @ replicate 40 (CHR ''a'')))]"


text \<open>Also: \<open>validateUnstakeAmount\<close> accepts a finite amount exactly when it is positive, at most the stake,
  and leaves the minimum; but the schema for the same form accepts amounts that break the minimum,
  and the validator accepts \<open>NaN\<close>.\<close>

theorem unstake_validation:
  assumes "zod_laws email accepts"
  shows "(validateUnstakeAmount (Fin a) (Fin c) (Fin m) = None \<longleftrightarrow> 0 < a \<and> a \<le> c \<and> m \<le> c - a) \<and>
    validateUnstakeAmount NaN (Fin c) (Fin m) = None \<and>
    (\<exists>v. accepts unstakeSchema v \<and> field ''amount'' v = Num (Fin 95) \<and> field ''currentStake'' v = Num (Fin 100) \<and>
      validateUnstakeAmount (Fin 95) (Fin 100) (Fin 10) = Some (MustMaintainMinimum (Fin 10)))"
proof -
  have "validateUnstakeAmount (Fin 95) (Fin 100) (Fin 10) = Some (MustMaintainMinimum (Fin 10))"
    by (simp add: validateUnstakeAmount_def)
  then show ?thesis
    using unstakeSchema_below_minimum[OF assms] validators_accept_NaN(2)
    by (intro conjI exI[of _ "Obj [(''amount'', Num (Fin 95)), (''currentStake'', Num (Fin 100))]"])
      (simp_all add: validateUnstakeAmount_None)
qed

theorem unstake_validation_witness:
  "validateUnstakeAmount (Fin 90) (Fin 100) (Fin 10) = None"
  using unstake_validation[OF zod_model_laws, of 90 100 10] by simp

end
