(* ===== verification/Supabase.thy ===== *)
theory Supabase
  imports Validation
begin

text \<open>
  \<open>apps/web/src/lib/supabase.ts\<close> and \<open>lib/supabase-admin.ts\<close>. A query the code builds with the
  client's fluent interface is a value; the database, outside the repository, is the parameter
  \<open>exec\<close>, which answers a query with data and possibly an error and changes the state of the
  database. Every API function builds a query, runs it, and throws the error if there is one, so its
  result is an error or the data.
\<close>

named_theorems api_defs \<open>definitions of the API functions\<close>

section \<open>Queries\<close>

datatype client = UserClient | ServiceClient

type_synonym row = "(string \<times> jsval) list"

datatype query_op =
    QSelect string
  | QInsert row
  | QUpdate row
  | QDelete
  | QUpsert row string

record query =
  q_client :: client
  q_table :: string
  q_op :: query_op
  q_filters :: "(string \<times> string) list"
  q_gte :: "(string \<times> string) list"
  q_order :: "(string \<times> bool) option"
  q_limit :: "int option"
  q_single :: bool

definition from_table :: "client \<Rightarrow> string \<Rightarrow> query_op \<Rightarrow> query" where
  "from_table c t p = \<lparr>q_client = c, q_table = t, q_op = p, q_filters = [], q_gte = [], q_order = None,
     q_limit = None, q_single = False\<rparr>"

definition eq_filter :: "string \<Rightarrow> string \<Rightarrow> query \<Rightarrow> query" where
  "eq_filter col v q = q\<lparr>q_filters := q_filters q @ [(col, v)]\<rparr>"

definition gte_filter :: "string \<Rightarrow> string \<Rightarrow> query \<Rightarrow> query" where
  "gte_filter col v q = q\<lparr>q_gte := q_gte q @ [(col, v)]\<rparr>"

definition order_by :: "string \<Rightarrow> bool \<Rightarrow> query \<Rightarrow> query" where
  "order_by col asc q = q\<lparr>q_order := Some (col, asc)\<rparr>"

definition limit_to :: "int \<Rightarrow> query \<Rightarrow> query" where
  "limit_to n q = q\<lparr>q_limit := Some n\<rparr>"

definition single_row :: "query \<Rightarrow> query" where
  "single_row q = q\<lparr>q_single := True\<rparr>"

lemmas query_builders = from_table_def eq_filter_def gte_filter_def order_by_def limit_to_def single_row_def

record response =
  r_data :: jsval
  r_error :: "string option"

type_synonym 'db exec = "query \<Rightarrow> 'db \<Rightarrow> response \<times> 'db"

type_synonym 'db action = "'db \<Rightarrow> (string + jsval) \<times> 'db"

text \<open>\<open>if (error) throw error; return data\<close>, and the variant that returns nothing.\<close>

definition throwing :: "'db exec \<Rightarrow> query \<Rightarrow> 'db action" where
  "throwing exec q db =
     (case exec q db of (r, db') \<Rightarrow>
        (case r_error r of Some e \<Rightarrow> Inl e | None \<Rightarrow> Inr (r_data r), db'))"

definition throwing_void :: "'db exec \<Rightarrow> query \<Rightarrow> 'db action" where
  "throwing_void exec q db =
     (case exec q db of (r, db') \<Rightarrow>
        (case r_error r of Some e \<Rightarrow> Inl e | None \<Rightarrow> Inr Undefined, db'))"

section \<open>User-scoped API\<close>

definition profile_get :: "'db exec \<Rightarrow> 'db action" where
  [api_defs]: "profile_get exec = throwing exec
     (single_row (from_table UserClient ''profiles'' (QSelect ''*'')))"

definition profile_update :: "'db exec \<Rightarrow> row \<Rightarrow> 'db action" where
  [api_defs]: "profile_update exec updates = throwing exec
     (single_row (from_table UserClient ''profiles'' (QUpdate updates)))"

definition profile_updateWallet :: "'db exec \<Rightarrow> string \<Rightarrow> 'db action" where
  [api_defs]: "profile_updateWallet exec a = profile_update exec [(''wallet_address'', Str a)]"

definition apiKeys_list :: "'db exec \<Rightarrow> 'db action" where
  [api_defs]: "apiKeys_list exec = throwing exec
     (order_by ''created_at'' False (from_table UserClient ''api_keys'' (QSelect ''*'')))"

definition apiKeys_create :: "'db exec \<Rightarrow> string option \<Rightarrow> 'db action" where
  [api_defs]: "apiKeys_create exec name = throwing exec
     (single_row (from_table UserClient ''api_keys''
     (QInsert [(''name'', Str (case name of Some n \<Rightarrow> n | None \<Rightarrow> ''Default''))])))"

definition apiKeys_revoke :: "'db exec \<Rightarrow> string \<Rightarrow> 'db action" where
  [api_defs]: "apiKeys_revoke exec k = throwing_void exec
     (eq_filter ''id'' k (from_table UserClient ''api_keys'' QDelete))"

definition jobs_list :: "'db exec \<Rightarrow> int option \<Rightarrow> 'db action" where
  [api_defs]: "jobs_list exec n = throwing exec
     (limit_to (case n of Some l \<Rightarrow> l | None \<Rightarrow> 50)
     (order_by ''created_at'' False (from_table UserClient ''jobs'' (QSelect ''*''))))"

definition jobs_get :: "'db exec \<Rightarrow> string \<Rightarrow> 'db action" where
  [api_defs]: "jobs_get exec k = throwing exec
     (single_row (eq_filter ''id'' k (from_table UserClient ''jobs'' (QSelect ''*''))))"

definition jobs_create :: "'db exec \<Rightarrow> row \<Rightarrow> 'db action" where
  [api_defs]: "jobs_create exec job = throwing exec
     (single_row (from_table UserClient ''jobs'' (QInsert job)))"

text \<open>\<open>now\<close> is the current time as the ISO string \<open>new Date().toISOString()\<close>.\<close>

definition jobs_status_update :: "string \<Rightarrow> string \<Rightarrow> row" where
  "jobs_status_update now status =
     (''status'', Str status) #
     (if status = ''completed'' \<or> status = ''failed'' then [(''completed_at'', Str now)] else [])"

definition jobs_updateStatus :: "'db exec \<Rightarrow> string \<Rightarrow> string \<Rightarrow> string \<Rightarrow> 'db action" where
  [api_defs]: "jobs_updateStatus exec now k status = throwing exec
     (single_row (eq_filter ''id'' k (from_table UserClient ''jobs'' (QUpdate (jobs_status_update now status)))))"

definition nodes_list :: "'db exec \<Rightarrow> 'db action" where
  [api_defs]: "nodes_list exec = throwing exec
     (order_by ''reputation_score'' False (from_table UserClient ''nodes'' (QSelect ''*'')))"

definition nodes_get :: "'db exec \<Rightarrow> string \<Rightarrow> 'db action" where
  [api_defs]: "nodes_get exec k = throwing exec
     (single_row (eq_filter ''id'' k (from_table UserClient ''nodes'' (QSelect ''*''))))"

definition nodes_getByWallet :: "'db exec \<Rightarrow> string \<Rightarrow> 'db action" where
  [api_defs]: "nodes_getByWallet exec a = throwing exec
     (single_row (eq_filter ''wallet_address'' (to_lower a) (from_table UserClient ''nodes'' (QSelect ''*''))))"

definition nodes_register :: "'db exec \<Rightarrow> row \<Rightarrow> 'db action" where
  [api_defs]: "nodes_register exec node = throwing exec
     (single_row (from_table UserClient ''nodes'' (QInsert node)))"

definition nodes_updateHeartbeat :: "'db exec \<Rightarrow> string \<Rightarrow> jsnum \<Rightarrow> jsnum \<Rightarrow> jsnum \<Rightarrow> 'db action" where
  [api_defs]: "nodes_updateHeartbeat exec k used vram latency = throwing_void exec
     (from_table UserClient ''node_heartbeats''
     (QInsert [(''node_id'', Str k), (''vram_used_mb'', Num used), (''vram_total_mb'', Num vram),
        (''packet_latency_ms'', Num latency)]))"

section \<open>Preferences\<close>

type_synonym prefs = "(string \<times> bool) list"

definition notif_pref_defaults :: prefs where
  "notif_pref_defaults = [(''jobCompleted'', True), (''jobFailed'', True), (''slaBreached'', True),
     (''nodeOffline'', True), (''slashEvent'', True), (''weeklyReport'', False),
     (''priceAlerts'', True), (''newJobOffer'', False)]"

text \<open>
  \<open>row.key in prefs\<close> also holds for the names every object inherits, so a row with such a key is
  stored as well, except \<open>__proto__\<close>, to which assigning a boolean does nothing.
\<close>

definition object_prototype :: "string list" where
  "object_prototype = [''constructor'', ''hasOwnProperty'', ''isPrototypeOf'', ''propertyIsEnumerable'',
     ''toLocaleString'', ''toString'', ''valueOf'', ''__defineGetter__'', ''__defineSetter__'',
     ''__lookupGetter__'', ''__lookupSetter__'', ''__proto__'']"

definition set_pref :: "string \<Rightarrow> bool \<Rightarrow> prefs \<Rightarrow> prefs" where
  "set_pref k b p =
     (if k \<in> fst ` set p then map (\<lambda>(l, c). if l = k then (l, b) else (l, c)) p
      else if k \<in> set object_prototype \<and> k \<noteq> ''__proto__'' then p @ [(k, b)] else p)"

definition pref_row :: "jsval \<Rightarrow> prefs \<Rightarrow> prefs" where
  "pref_row r p =
     (case field ''key'' r of Str k \<Rightarrow> set_pref k (field ''value'' r = Str ''true'') p | _ \<Rightarrow> p)"

definition getNotificationPrefs :: "'db exec \<Rightarrow> 'db \<Rightarrow> prefs \<times> 'db" where
  "getNotificationPrefs exec db =
     (case exec (from_table UserClient ''user_notification_prefs'' (QSelect ''key, value'')) db of
        (r, db') \<Rightarrow>
          (if r_error r \<noteq> None then notif_pref_defaults
           else (case r_data r of Arr rows \<Rightarrow> fold pref_row rows notif_pref_defaults
                 | _ \<Rightarrow> notif_pref_defaults), db'))"

definition bool_str :: "bool \<Rightarrow> string" where
  "bool_str b = (if b then ''true'' else ''false'')"

text \<open>\<open>user\<close> is the signed-in user that \<open>auth.getUser\<close> answers.\<close>

definition setNotificationPref :: "'db exec \<Rightarrow> string option \<Rightarrow> string \<Rightarrow> bool \<Rightarrow> 'db action" where
  [api_defs]: "setNotificationPref exec user k b =
     (case user of None \<Rightarrow> (\<lambda>db. (Inr Undefined, db)) | Some u \<Rightarrow>
        throwing_void exec (from_table UserClient ''user_notification_prefs''
          (QUpsert [(''user_id'', Str u), (''key'', Str k), (''value'', Str (bool_str b))]
            ''user_id,key'')))"

record node_provider_prefs =
  uptimeSLA :: string
  minJobPrice :: string
  autoAccept :: jsval
  pref_region :: jsval

definition provider_pref_defaults :: node_provider_prefs where
  "provider_pref_defaults =
     \<lparr>uptimeSLA = ''99.5'', minJobPrice = ''0.001'', autoAccept = Bool False, pref_region = Str ''auto''\<rparr>"

text \<open>
  \<open>js_String\<close> is \<open>String\<close> of a value. No user, an error or no data give the defaults.
\<close>

definition getNodeProviderPrefs ::
  "(jsval \<Rightarrow> string) \<Rightarrow> 'db exec \<Rightarrow> string option \<Rightarrow> 'db \<Rightarrow> node_provider_prefs \<times> 'db"
where
  "getNodeProviderPrefs js_String exec user db =
     (let defaults = provider_pref_defaults in
      case user of None \<Rightarrow> (defaults, db) | Some u \<Rightarrow>
        (case exec (single_row (eq_filter ''user_id'' u
            (from_table UserClient ''user_node_provider_prefs'' (QSelect ''*'')))) db of
         (r, db') \<Rightarrow>
           (if r_error r \<noteq> None \<or> \<not> val_truthy (r_data r) then defaults
            else \<lparr>uptimeSLA = js_String (field ''uptime_sla'' (r_data r)),
                  minJobPrice = js_String (field ''min_job_price_eth'' (r_data r)),
                  autoAccept = field ''auto_accept_jobs'' (r_data r),
                  pref_region = field ''preferred_region'' (r_data r)\<rparr>, db')))"

definition provider_row :: "string \<Rightarrow> node_provider_prefs \<Rightarrow> row" where
  "provider_row u p = [(''user_id'', Str u), (''uptime_sla'', Num (parseFloat (uptimeSLA p))),
     (''min_job_price_eth'', Num (parseFloat (minJobPrice p))),
     (''preferred_region'', pref_region p), (''auto_accept_jobs'', autoAccept p)]"

definition saveNodeProviderPrefs :: "'db exec \<Rightarrow> string option \<Rightarrow> node_provider_prefs \<Rightarrow> 'db action" where
  [api_defs]: "saveNodeProviderPrefs exec user p =
     (case user of None \<Rightarrow> (\<lambda>db. (Inr Undefined, db)) | Some u \<Rightarrow>
        throwing_void exec (from_table UserClient ''user_node_provider_prefs''
          (QUpsert (provider_row u p) ''user_id'')))"

section \<open>Service-role API\<close>

definition adminListJobs :: "'db exec \<Rightarrow> int option \<Rightarrow> 'db action" where
  [api_defs]: "adminListJobs exec n = throwing exec
     (limit_to (case n of Some l \<Rightarrow> l | None \<Rightarrow> 50)
     (order_by ''created_at'' False (from_table ServiceClient ''jobs'' (QSelect ''*''))))"

definition adminGetJob :: "'db exec \<Rightarrow> string \<Rightarrow> 'db action" where
  [api_defs]: "adminGetJob exec k = throwing exec
     (single_row (eq_filter ''id'' k (from_table ServiceClient ''jobs'' (QSelect ''*''))))"

definition adminListNodes :: "'db exec \<Rightarrow> int option \<Rightarrow> 'db action" where
  [api_defs]: "adminListNodes exec n = throwing exec
     (limit_to (case n of Some l \<Rightarrow> l | None \<Rightarrow> 100)
     (order_by ''reputation_score'' False (from_table ServiceClient ''nodes'' (QSelect ''*''))))"

definition adminGetNode :: "'db exec \<Rightarrow> string \<Rightarrow> 'db action" where
  [api_defs]: "adminGetNode exec k = throwing exec
     (single_row (eq_filter ''id'' k (from_table ServiceClient ''nodes'' (QSelect ''*''))))"

definition adminListUsers :: "'db exec \<Rightarrow> int option \<Rightarrow> 'db action" where
  [api_defs]: "adminListUsers exec n = throwing exec
     (limit_to (case n of Some l \<Rightarrow> l | None \<Rightarrow> 50)
     (order_by ''created_at'' False (from_table ServiceClient ''profiles'' (QSelect ''*, id''))))"

definition adminGetUserByWallet :: "'db exec \<Rightarrow> string \<Rightarrow> 'db action" where
  [api_defs]: "adminGetUserByWallet exec walletAddress = throwing exec
     (single_row (eq_filter ''wallet_address'' (to_lower walletAddress) (from_table ServiceClient ''profiles'' (QSelect ''*''))))"

definition adminListSlashEvents :: "'db exec \<Rightarrow> int option \<Rightarrow> 'db action" where
  [api_defs]: "adminListSlashEvents exec n = throwing exec
     (limit_to (case n of Some l \<Rightarrow> l | None \<Rightarrow> 100)
     (order_by ''created_at'' False (from_table ServiceClient ''slashing_events'' (QSelect ''*''))))"

definition adminListAlerts :: "'db exec \<Rightarrow> int option \<Rightarrow> 'db action" where
  [api_defs]: "adminListAlerts exec n = throwing exec
     (limit_to (case n of Some l \<Rightarrow> l | None \<Rightarrow> 50)
     (order_by ''created_at'' False (from_table ServiceClient ''alerts'' (QSelect ''*''))))"

definition adminGetAlert :: "'db exec \<Rightarrow> string \<Rightarrow> 'db action" where
  [api_defs]: "adminGetAlert exec k = throwing exec
     (single_row (eq_filter ''id'' k (from_table ServiceClient ''alerts'' (QSelect ''*''))))"

definition adminListProposals :: "'db exec \<Rightarrow> int option \<Rightarrow> 'db action" where
  [api_defs]: "adminListProposals exec n = throwing exec
     (limit_to (case n of Some l \<Rightarrow> l | None \<Rightarrow> 50)
     (order_by ''created_at'' False (from_table ServiceClient ''proposals'' (QSelect ''*''))))"

definition adminGetProposal :: "'db exec \<Rightarrow> string \<Rightarrow> 'db action" where
  [api_defs]: "adminGetProposal exec k = throwing exec
     (single_row (eq_filter ''id'' k (from_table ServiceClient ''proposals'' (QSelect ''*''))))"

definition adminListDisputes :: "'db exec \<Rightarrow> int option \<Rightarrow> 'db action" where
  [api_defs]: "adminListDisputes exec n = throwing exec
     (limit_to (case n of Some l \<Rightarrow> l | None \<Rightarrow> 50)
     (order_by ''created_at'' False (from_table ServiceClient ''disputes'' (QSelect ''*''))))"

definition adminGetDispute :: "'db exec \<Rightarrow> string \<Rightarrow> 'db action" where
  [api_defs]: "adminGetDispute exec k = throwing exec
     (single_row (eq_filter ''id'' k (from_table ServiceClient ''disputes'' (QSelect ''*''))))"

definition adminListContracts :: "'db exec \<Rightarrow> 'db action" where
  [api_defs]: "adminListContracts exec = throwing exec
     (order_by ''name'' True (from_table ServiceClient ''contracts'' (QSelect ''*'')))"

definition adminGetContract :: "'db exec \<Rightarrow> string \<Rightarrow> 'db action" where
  [api_defs]: "adminGetContract exec name = throwing exec
     (single_row (eq_filter ''name'' name (from_table ServiceClient ''contracts'' (QSelect ''*''))))"

definition adminListTeamMembers :: "'db exec \<Rightarrow> string \<Rightarrow> 'db action" where
  [api_defs]: "adminListTeamMembers exec orgId = throwing exec
     (order_by ''invited_at'' False (eq_filter ''org_id'' orgId (from_table ServiceClient ''team_members'' (QSelect ''*''))))"

definition adminListWebhooks :: "'db exec \<Rightarrow> string \<Rightarrow> 'db action" where
  [api_defs]: "adminListWebhooks exec userId = throwing exec
     (order_by ''created_at'' False (eq_filter ''user_id'' userId (from_table ServiceClient ''webhooks'' (QSelect ''*''))))"

definition adminGetWebhook :: "'db exec \<Rightarrow> string \<Rightarrow> 'db action" where
  [api_defs]: "adminGetWebhook exec k = throwing exec
     (single_row (eq_filter ''id'' k (from_table ServiceClient ''webhooks'' (QSelect ''*''))))"

definition adminGetWebhookDeliveries :: "'db exec \<Rightarrow> string \<Rightarrow> int option \<Rightarrow> 'db action" where
  [api_defs]: "adminGetWebhookDeliveries exec webhookId n = throwing exec
     (limit_to (case n of Some l \<Rightarrow> l | None \<Rightarrow> 20)
     (order_by ''created_at'' False (eq_filter ''webhook_id'' webhookId (from_table ServiceClient ''webhook_deliveries'' (QSelect ''*'')))))"

datatype admin_call =
    AdminListJobs "int option"
  | AdminGetJob string
  | AdminListNodes "int option"
  | AdminGetNode string
  | AdminListUsers "int option"
  | AdminGetUserByWallet string
  | AdminListSlashEvents "int option"
  | AdminListAlerts "int option"
  | AdminGetAlert string
  | AdminListProposals "int option"
  | AdminGetProposal string
  | AdminListDisputes "int option"
  | AdminGetDispute string
  | AdminListContracts
  | AdminGetContract string
  | AdminListTeamMembers string
  | AdminListWebhooks string
  | AdminGetWebhook string
  | AdminGetWebhookDeliveries string "int option"

fun admin_api :: "'db exec \<Rightarrow> admin_call \<Rightarrow> 'db action" where
  "admin_api exec (AdminListJobs n) = adminListJobs exec n"
| "admin_api exec (AdminGetJob k) = adminGetJob exec k"
| "admin_api exec (AdminListNodes n) = adminListNodes exec n"
| "admin_api exec (AdminGetNode k) = adminGetNode exec k"
| "admin_api exec (AdminListUsers n) = adminListUsers exec n"
| "admin_api exec (AdminGetUserByWallet walletAddress) = adminGetUserByWallet exec walletAddress"
| "admin_api exec (AdminListSlashEvents n) = adminListSlashEvents exec n"
| "admin_api exec (AdminListAlerts n) = adminListAlerts exec n"
| "admin_api exec (AdminGetAlert k) = adminGetAlert exec k"
| "admin_api exec (AdminListProposals n) = adminListProposals exec n"
| "admin_api exec (AdminGetProposal k) = adminGetProposal exec k"
| "admin_api exec (AdminListDisputes n) = adminListDisputes exec n"
| "admin_api exec (AdminGetDispute k) = adminGetDispute exec k"
| "admin_api exec AdminListContracts = adminListContracts exec"
| "admin_api exec (AdminGetContract name) = adminGetContract exec name"
| "admin_api exec (AdminListTeamMembers orgId) = adminListTeamMembers exec orgId"
| "admin_api exec (AdminListWebhooks userId) = adminListWebhooks exec userId"
| "admin_api exec (AdminGetWebhook k) = adminGetWebhook exec k"
| "admin_api exec (AdminGetWebhookDeliveries webhookId n) = adminGetWebhookDeliveries exec webhookId n"

section \<open>What the API functions guarantee\<close>

definition is_select :: "query \<Rightarrow> bool" where
  "is_select q = (case q_op q of QSelect _ \<Rightarrow> True | _ \<Rightarrow> False)"

text \<open>The documented behaviour of a select: it does not change the database.\<close>

definition selects_read_only :: "'db exec \<Rightarrow> bool" where
  "selects_read_only exec \<longleftrightarrow> (\<forall>q db. is_select q \<longrightarrow> snd (exec q db) = db)"

lemma throwing_result:
  "fst (throwing exec q db) =
     (case r_error (fst (exec q db)) of Some e \<Rightarrow> Inl e | None \<Rightarrow> Inr (r_data (fst (exec q db))))"
  by (cases "exec q db") (simp add: throwing_def split: option.splits)

lemma throwing_state: "snd (throwing exec q db) = snd (exec q db)"
  by (simp add: throwing_def split: prod.splits)

lemma throwing_void_state: "snd (throwing_void exec q db) = snd (exec q db)"
  by (simp add: throwing_void_def split: prod.splits)

lemma select_keeps_db:
  "selects_read_only exec \<Longrightarrow> is_select q \<Longrightarrow> snd (throwing exec q db) = db"
  unfolding selects_read_only_def throwing_state by blast

lemma service_select:
  "is_select q \<Longrightarrow> q_client q = ServiceClient \<Longrightarrow>
   \<exists>q'. throwing exec q = throwing exec q' \<and> is_select q' \<and> q_client q' = ServiceClient"
  by blast

lemma admin_calls_are_selects:
  "\<exists>q. admin_api exec c = throwing exec q \<and> is_select q \<and> q_client q = ServiceClient"
  by (cases c; simp only: admin_api.simps api_defs;
      rule service_select; simp add: query_builders is_select_def)

lemma map_of_map_key: "map_of (map (\<lambda>(j, c). if j = k then (j, b) else (j, c)) p) l =
    (if l = k then map_option (\<lambda>_. b) (map_of p l) else map_of p l)"
  by (induction p) auto

text \<open>The fields of the preferences keep their places; a row sets the field of its key.\<close>

lemma map_of_set_pref:
  "l \<in> fst ` set p \<Longrightarrow> map_of (set_pref k b p) l = (if l = k then Some b else map_of p l)"
proof -
  assume l: "l \<in> fst ` set p"
  have upd: "map_of (map (\<lambda>(j, c). if j = k then (j, b) else (j, c)) p) l =
      (if l = k then Some b else map_of p l)"
    using l by (cases "map_of p l") (auto simp: map_of_map_key map_of_eq_None_iff)
  have app: "map_of (p @ [(k, b)]) l = map_of p l"
    using l by (auto simp: map_add_def map_of_eq_None_iff split: option.splits)
  show ?thesis
  proof (cases "k \<in> fst ` set p")
    case True
    then show ?thesis using upd by (simp only: set_pref_def if_True)
  next
    case False
    with l have "l \<noteq> k" by blast
    with False app show ?thesis by (simp add: set_pref_def)
  qed
qed

lemma keys_set_pref: "l \<in> fst ` set p \<Longrightarrow> l \<in> fst ` set (set_pref k b p)"
  by (force simp: set_pref_def split: if_splits)

definition pref_rows :: "(string \<times> string) list \<Rightarrow> jsval list" where
  "pref_rows rows = map (\<lambda>(k, v). Obj [(''key'', Str k), (''value'', Str v)]) rows"

lemma fold_pref_rows:
  "l \<in> fst ` set p \<Longrightarrow>
   map_of (fold pref_row (pref_rows rows) p) l =
     (case map_of (rev rows) l of Some v \<Rightarrow> Some (v = ''true'') | None \<Rightarrow> map_of p l)"
proof (induction rows arbitrary: p)
  case (Cons r rows)
  obtain k v where r: "r = (k, v)" by (cases r)
  from Cons.prems have "l \<in> fst ` set (set_pref k (v = ''true'') p)"
    by (rule keys_set_pref)
  from Cons.IH[OF this] show ?case
    using Cons.prems
    by (auto simp: pref_rows_def pref_row_def r map_of_set_pref map_add_def split: option.splits)
qed (simp add: pref_rows_def)

section \<open>Properties\<close>

text \<open>Also: no function of the service-role module changes the database: whatever the database does
  on writes, if its selects are read only then so is every admin call.\<close>

theorem admin_api_reads_only:
  assumes "selects_read_only exec"
  shows "snd (admin_api exec c db) = db"
proof -
  obtain q where "admin_api exec c = throwing exec q" "is_select q"
    using admin_calls_are_selects by metis
  with assms show ?thesis by (simp add: select_keeps_db)
qed

theorem admin_api_reads_only_witness:
  "snd (admin_api (\<lambda>q n. (\<lparr>r_data = Null, r_error = None\<rparr>, case q_op q of QSelect _ \<Rightarrow> n | _ \<Rightarrow> n + 1))
     (AdminListJobs None) (7::nat)) = 7"
  by (rule admin_api_reads_only) (auto simp: selects_read_only_def is_select_def split: query_op.splits)

text \<open>Also: \<open>prefsApi.getNotificationPrefs\<close> answers, for each of the eight preferences, whether the last
  stored row of that key says \<open>true\<close>, and the default when no row has the key; rows with other keys,
  inherited object names included, do not affect them.\<close>

theorem getNotificationPrefs_merges:
  assumes "exec (from_table UserClient ''user_notification_prefs'' (QSelect ''key, value'')) db =
      (\<lparr>r_data = Arr (pref_rows rows), r_error = None\<rparr>, db')"
    and "k \<in> fst ` set notif_pref_defaults"
  shows "map_of (fst (getNotificationPrefs exec db)) k =
    (case map_of (rev rows) k of Some v \<Rightarrow> Some (v = ''true'') | None \<Rightarrow> map_of notif_pref_defaults k)"
  using assms by (simp add: getNotificationPrefs_def fold_pref_rows)

theorem getNotificationPrefs_merges_witness:
  "map_of (fst (getNotificationPrefs
      (\<lambda>q db. (\<lparr>r_data = Arr (pref_rows [(''toString'', ''true''), (''jobFailed'', ''false'')]),
                r_error = None\<rparr>, db)) ())) ''jobFailed'' =
   (case map_of (rev [(''toString'', ''true''), (''jobFailed'', ''false'')]) ''jobFailed'' of
      Some v \<Rightarrow> Some (v = ''true'') | None \<Rightarrow> map_of notif_pref_defaults ''jobFailed'')"
  by (rule getNotificationPrefs_merges[where db' = "()"]) (simp_all add: notif_pref_defaults_def)

text \<open>Also: a status update stores a completion time exactly for the statuses \<open>completed\<close> and \<open>failed\<close>,
  in one query restricted to the job's identifier; a database error is thrown, and otherwise the
  updated row is returned.\<close>

theorem updateStatus_completion:
  "\<exists>q upd. jobs_updateStatus exec now k (job_status_str st) = throwing exec q \<and>
     q_op q = QUpdate upd \<and> q_filters q = [(''id'', k)] \<and> map_of upd ''status'' = Some (Str (job_status_str st)) \<and>
     (map_of upd ''completed_at'' = (if st \<in> {JCompleted, JFailed} then Some (Str now) else None)) \<and>
     fst (jobs_updateStatus exec now k (job_status_str st) db) =
       (case r_error (fst (exec q db)) of Some e \<Rightarrow> Inl e | None \<Rightarrow> Inr (r_data (fst (exec q db))))"
proof -
  let ?upd = "jobs_status_update now (job_status_str st)"
  let ?q = "single_row (eq_filter ''id'' k (from_table UserClient ''jobs'' (QUpdate ?upd)))"
  have "map_of ?upd ''status'' = Some (Str (job_status_str st))"
    by (simp add: jobs_status_update_def)
  moreover have "map_of ?upd ''completed_at'' = (if st \<in> {JCompleted, JFailed} then Some (Str now) else None)"
    by (cases st) (simp_all add: jobs_status_update_def)
  moreover have "q_op ?q = QUpdate ?upd" "q_filters ?q = [(''id'', k)]"
    by (simp_all add: query_builders)
  ultimately show ?thesis
    unfolding jobs_updateStatus_def by (intro exI[of _ ?q] exI[of _ ?upd]) (simp add: throwing_result)
qed

end
