(* ===== verification/NodesData.thy ===== *)
theory NodesData
  imports Supabase
begin

text \<open>
  \<open>hooks/use-nodes.ts\<close>, which maps database rows to the nodes the pages show and aggregates them, and
  the list of \<open>app/(dashboard)/nodes/page.tsx\<close>: search, status filter, sorting, and the values a row
  derives. \<open>parseDate\<close> stands for \<open>new Date(s).getTime()\<close>; the order of strings is
  \<open>localeCompare\<close>, a parameter \<open>lc\<close>.
\<close>

section \<open>Rows and nodes\<close>

record db_node =
  dn_id :: string
  wallet_address :: string
  dn_status :: string
  reputation_score :: jsnum
  stake_amount :: "string option"
  vram_used_mb :: "jsnum option"
  vram_total_mb :: jsnum
  cpu_cores :: "jsnum option"
  gpu_model :: "string option"
  location :: "string option"
  uptime_seconds :: "jsnum option"
  last_heartbeat_at :: "string option"
  total_jobs_completed :: jsnum
  total_jobs_failed :: "jsnum option"
  dn_created_at :: string

record node_provider =
  np_id :: string
  address :: string
  status :: string
  reputation :: jsnum
  tier :: reputation_tier
  stakeAmount :: jsnum
  stakeCurrency :: string
  vramUsed :: jsnum
  vramTotal :: jsnum
  cpuCores :: jsnum
  cpuModel :: string
  region :: string
  uptime :: jsnum
  lastHeartbeat :: jsnum
  totalJobsCompleted :: jsnum
  totalJobsFailed :: jsnum
  createdAt :: jsnum

definition mapNode :: "(string \<Rightarrow> jsnum) \<Rightarrow> db_node \<Rightarrow> node_provider" where
  "mapNode parseDate n =
     \<lparr>np_id = dn_id n,
      address = wallet_address n,
      status = (if dn_status n = ''busy'' \<or> dn_status n = ''maintenance'' then ''online'' else dn_status n),
      reputation = reputation_score n,
      tier = getReputationTier (reputation_score n),
      stakeAmount = (if truthy_str (stake_amount n)
                     then js_div (js_Number (the (stake_amount n))) (Fin (10 ^ 18)) else Fin 0),
      stakeCurrency = ''ETH'',
      vramUsed = or_else (vram_used_mb n) (Fin 0),
      vramTotal = vram_total_mb n,
      cpuCores = or_else (cpu_cores n) (Fin 0),
      cpuModel = or_else (gpu_model n) ''Unknown'',
      region = or_else (location n) ''Unknown'',
      uptime = or_else (uptime_seconds n) (Fin 0),
      lastHeartbeat = (if truthy_str (last_heartbeat_at n) then parseDate (the (last_heartbeat_at n)) else Fin 0),
      totalJobsCompleted = total_jobs_completed n,
      totalJobsFailed = or_else (total_jobs_failed n) (Fin 0),
      createdAt = parseDate (dn_created_at n)\<rparr>"

text \<open>The fetch functions, over the result of the API call they make (\<open>Inl\<close>: it threw).\<close>

definition fetchNodes :: "(string \<Rightarrow> jsnum) \<Rightarrow> string + db_node list \<Rightarrow> string + node_provider list" where
  "fetchNodes parseDate r = (case r of Inl e \<Rightarrow> Inl e | Inr ns \<Rightarrow> Inr (map (mapNode parseDate) ns))"

definition fetchNode :: "(string \<Rightarrow> jsnum) \<Rightarrow> string + db_node \<Rightarrow> node_provider option" where
  "fetchNode parseDate r = (case r of Inl e \<Rightarrow> None | Inr n \<Rightarrow> Some (mapNode parseDate n))"

section \<open>Network statistics\<close>

record network_stats =
  totalNodes :: nat
  onlineNodes :: nat
  staleNodes :: nat
  offlineNodes :: nat
  slashedNodes :: nat
  totalStaked :: jsnum
  averageReputation :: jsnum
  totalVRAM :: jsnum
  availableVRAM :: jsnum
  goldTierCount :: nat
  silverTierCount :: nat
  bronzeTierCount :: nat
  unrankedTierCount :: nat

definition count_by :: "('a \<Rightarrow> bool) \<Rightarrow> 'a list \<Rightarrow> nat" where
  "count_by P xs = length (filter P xs)"

definition sum_by :: "('a \<Rightarrow> jsnum) \<Rightarrow> 'a list \<Rightarrow> jsnum" where
  "sum_by f xs = fold (\<lambda>x s. js_add s (f x)) xs (Fin 0)"

definition network_stats :: "(string \<Rightarrow> jsnum) \<Rightarrow> db_node list \<Rightarrow> network_stats" where
  "network_stats parseDate rows =
     (let nodes = map (mapNode parseDate) rows in
      \<lparr>totalNodes = length nodes,
       onlineNodes = count_by (\<lambda>n. status n = ''online'') nodes,
       staleNodes = count_by (\<lambda>n. status n = ''stale'') nodes,
       offlineNodes = count_by (\<lambda>n. status n = ''offline'') nodes,
       slashedNodes = count_by (\<lambda>n. status n = ''slashed'') nodes,
       totalStaked = sum_by stakeAmount nodes,
       averageReputation =
         (if 0 < length nodes
          then js_floor (js_div (sum_by reputation nodes) (js_int (int (length nodes)))) else Fin 0),
       totalVRAM = sum_by vramTotal nodes,
       availableVRAM = sum_by (\<lambda>n. js_sub (vramTotal n) (vramUsed n)) nodes,
       goldTierCount = count_by (\<lambda>n. tier n = Gold) nodes,
       silverTierCount = count_by (\<lambda>n. tier n = Silver) nodes,
       bronzeTierCount = count_by (\<lambda>n. tier n = Bronze) nodes,
       unrankedTierCount = count_by (\<lambda>n. tier n = Unranked) nodes\<rparr>)"

section \<open>The list of nodes\<close>

datatype sort_dir = Asc | Desc

datatype sort_field =
    FId | FAddress | FStatus | FReputation | FTier | FStakeAmount | FStakeCurrency | FVramUsed
  | FVramTotal | FCpuCores | FCpuModel | FRegion | FUptime | FLastHeartbeat | FTotalJobsCompleted
  | FTotalJobsFailed | FCreatedAt

fun tier_str :: "reputation_tier \<Rightarrow> string" where
  "tier_str Gold = ''gold''"
| "tier_str Silver = ''silver''"
| "tier_str Bronze = ''bronze''"
| "tier_str Unranked = ''unranked''"

fun node_field :: "sort_field \<Rightarrow> node_provider \<Rightarrow> jsval" where
  "node_field FId n = Str (np_id n)"
| "node_field FAddress n = Str (address n)"
| "node_field FStatus n = Str (status n)"
| "node_field FReputation n = Num (reputation n)"
| "node_field FTier n = Str (tier_str (tier n))"
| "node_field FStakeAmount n = Num (stakeAmount n)"
| "node_field FStakeCurrency n = Str (stakeCurrency n)"
| "node_field FVramUsed n = Num (vramUsed n)"
| "node_field FVramTotal n = Num (vramTotal n)"
| "node_field FCpuCores n = Num (cpuCores n)"
| "node_field FCpuModel n = Str (cpuModel n)"
| "node_field FRegion n = Str (region n)"
| "node_field FUptime n = Num (uptime n)"
| "node_field FLastHeartbeat n = Num (lastHeartbeat n)"
| "node_field FTotalJobsCompleted n = Num (totalJobsCompleted n)"
| "node_field FTotalJobsFailed n = Num (totalJobsFailed n)"
| "node_field FCreatedAt n = Num (createdAt n)"

text \<open>The comparison function that is handed to \<open>Array.prototype.sort\<close>.\<close>

definition node_compare ::
  "(string \<Rightarrow> string \<Rightarrow> int) \<Rightarrow> sort_field \<Rightarrow> sort_dir \<Rightarrow> node_provider \<Rightarrow> node_provider \<Rightarrow> jsnum" where
  "node_compare lc f d a b =
     (case (node_field f a, node_field f b) of
        (Num x, Num y) \<Rightarrow> (if d = Asc then js_sub x y else js_sub y x)
      | (Str x, Str y) \<Rightarrow> js_int (if d = Asc then lc x y else lc y x)
      | _ \<Rightarrow> Fin 0)"

text \<open>
  \<open>sort\<close> is stable: equal elements keep their order. A comparison of \<open>NaN\<close> counts as equal. An
  element goes before the first one it is not greater than.
\<close>

fun insert_before :: "('a \<Rightarrow> 'a \<Rightarrow> jsnum) \<Rightarrow> 'a \<Rightarrow> 'a list \<Rightarrow> 'a list" where
  "insert_before cmp x [] = [x]"
| "insert_before cmp x (y # ys) =
     (if js_lt (Fin 0) (cmp x y) then y # insert_before cmp x ys else x # y # ys)"

definition array_sort :: "('a \<Rightarrow> 'a \<Rightarrow> jsnum) \<Rightarrow> 'a list \<Rightarrow> 'a list" where
  "array_sort cmp xs = foldr (insert_before cmp) xs []"

record node_list =
  searchQuery :: string
  statusFilter :: "string list"
  sortField :: sort_field
  sortDir :: sort_dir
  table_view :: bool

definition node_list_init :: node_list where
  "node_list_init = \<lparr>searchQuery = '''', statusFilter = [], sortField = FReputation, sortDir = Desc,
     table_view = True\<rparr>"

definition matches_search :: "string \<Rightarrow> node_provider \<Rightarrow> bool" where
  "matches_search query n \<longleftrightarrow>
     str_includes (to_lower (np_id n)) query \<or> str_includes (to_lower (address n)) query \<or>
     str_includes (to_lower (region n)) query \<or> str_includes (to_lower (cpuModel n)) query"

definition filteredNodes ::
  "(string \<Rightarrow> string \<Rightarrow> int) \<Rightarrow> node_list \<Rightarrow> node_provider list option \<Rightarrow> node_provider list" where
  "filteredNodes lc s data =
     (case data of None \<Rightarrow> []
      | Some nodes \<Rightarrow>
          (let r1 = (if searchQuery s \<noteq> '''' then filter (matches_search (to_lower (searchQuery s))) nodes
                     else nodes);
               r2 = (if statusFilter s \<noteq> [] then filter (\<lambda>n. status n \<in> set (statusFilter s)) r1 else r1)
           in array_sort (node_compare lc (sortField s) (sortDir s)) r2))"

definition handleSort :: "sort_field \<Rightarrow> node_list \<Rightarrow> node_list" where
  [handler_defs]: "handleSort f s =
     (if sortField s = f then s\<lparr>sortDir := (if sortDir s = Asc then Desc else Asc)\<rparr>
      else s\<lparr>sortField := f, sortDir := Desc\<rparr>)"

definition handleStatusToggle :: "string \<Rightarrow> node_list \<Rightarrow> node_list" where
  [handler_defs]: "handleStatusToggle v s =
     s\<lparr>statusFilter := (if v \<in> set (statusFilter s) then filter (\<lambda>x. x \<noteq> v) (statusFilter s)
                         else statusFilter s @ [v])\<rparr>"

definition clearFilters :: "node_list \<Rightarrow> node_list" where
  [handler_defs]: "clearFilters s = s\<lparr>searchQuery := '''', statusFilter := []\<rparr>"

definition toggleView :: "node_list \<Rightarrow> node_list" where
  [handler_defs]: "toggleView s = s\<lparr>table_view := \<not> table_view s\<rparr>"

text \<open>What a row shows: the share of memory in use and its colour, staleness, stake.\<close>

datatype bar_color = BarActive | BarStale | BarSlashed

definition vramPercentage :: "node_provider \<Rightarrow> jsnum" where
  "vramPercentage n = js_mul (js_div (vramUsed n) (vramTotal n)) (Fin 100)"

definition vram_color :: "jsnum \<Rightarrow> bar_color" where
  "vram_color p = (if js_lt (Fin 90) p then BarSlashed else if js_lt (Fin 75) p then BarStale else BarActive)"

definition row_isStale :: "int \<Rightarrow> node_provider \<Rightarrow> bool" where
  "row_isStale now n \<longleftrightarrow> js_lt (Fin 60000) (js_sub (js_int now) (lastHeartbeat n))"

definition formatStake :: "jsnum \<Rightarrow> string \<Rightarrow> string" where
  "formatStake amount currency = toFixed 2 amount @ '' '' @ currency"

definition ribbon_trend_up :: "network_stats \<Rightarrow> bool" where
  "ribbon_trend_up s \<longleftrightarrow> totalNodes s < 2 * onlineNodes s"

section \<open>Lemmas: counting\<close>

lemma count_by_Cons [simp]: "count_by P (x # xs) = (if P x then Suc (count_by P xs) else count_by P xs)"
  by (simp add: count_by_def)

lemma count_by_Nil [simp]: "count_by P [] = 0"
  by (simp add: count_by_def)

lemma count_by_none: "\<forall>x \<in> set xs. \<not> P x \<Longrightarrow> count_by P xs = 0"
  by (simp add: count_by_def)

lemma count_by_split:
  "\<forall>x \<in> set xs. P x \<noteq> Q x \<Longrightarrow> count_by P xs + count_by Q xs = length xs"
  by (induction xs) auto

lemma count_by_tiers:
  "count_by (\<lambda>n. t n = Gold) xs + count_by (\<lambda>n. t n = Silver) xs + count_by (\<lambda>n. t n = Bronze) xs +
   count_by (\<lambda>n. t n = Unranked) xs = length xs"
proof (induction xs)
  case (Cons x xs)
  then show ?case by (cases "t x") auto
qed simp

lemma sum_by_Fin:
  "\<forall>x \<in> set xs. f x = Fin (g x) \<Longrightarrow> sum_by f xs = Fin (sum_list (map g xs))"
proof -
  have "\<forall>x \<in> set xs. f x = Fin (g x) \<Longrightarrow> fold (\<lambda>x s. js_add s (f x)) xs (Fin a) = Fin (a + sum_list (map g xs))"
    for a by (induction xs arbitrary: a) (auto simp: algebra_simps)
  then show "\<forall>x \<in> set xs. f x = Fin (g x) \<Longrightarrow> ?thesis" by (simp add: sum_by_def)
qed

section \<open>Lemmas: sorting\<close>

lemma mset_insert_before: "mset (insert_before cmp x xs) = add_mset x (mset xs)"
  by (induction xs) auto

lemma mset_array_sort: "mset (array_sort cmp xs) = mset xs"
  unfolding array_sort_def by (induction xs) (auto simp: mset_insert_before)

lemma set_insert_before [simp]: "set (insert_before cmp x xs) = insert x (set xs)"
  by (metis mset_insert_before set_mset_add_mset_insert set_mset_mset)

text \<open>The comparison function puts the elements of a set in a total preorder.\<close>

definition orders :: "('a \<Rightarrow> 'a \<Rightarrow> jsnum) \<Rightarrow> 'a set \<Rightarrow> bool" where
  "orders cmp A \<longleftrightarrow>
     (\<forall>x \<in> A. \<forall>y \<in> A. js_lt (Fin 0) (cmp x y) \<longrightarrow> \<not> js_lt (Fin 0) (cmp y x)) \<and>
     (\<forall>x \<in> A. \<forall>y \<in> A. \<forall>z \<in> A. \<not> js_lt (Fin 0) (cmp x y) \<longrightarrow> \<not> js_lt (Fin 0) (cmp y z) \<longrightarrow>
        \<not> js_lt (Fin 0) (cmp x z))"

lemma orders_mono: "orders cmp B \<Longrightarrow> A \<subseteq> B \<Longrightarrow> orders cmp A"
  unfolding orders_def by (meson subset_iff)

lemma orders_asym: "orders cmp A \<Longrightarrow> x \<in> A \<Longrightarrow> y \<in> A \<Longrightarrow> js_lt (Fin 0) (cmp x y) \<Longrightarrow> \<not> js_lt (Fin 0) (cmp y x)"
  unfolding orders_def by blast

lemma orders_trans:
  "orders cmp A \<Longrightarrow> x \<in> A \<Longrightarrow> y \<in> A \<Longrightarrow> z \<in> A \<Longrightarrow> \<not> js_lt (Fin 0) (cmp x y) \<Longrightarrow>
   \<not> js_lt (Fin 0) (cmp y z) \<Longrightarrow> \<not> js_lt (Fin 0) (cmp x z)"
  unfolding orders_def by blast

lemma ordersI:
  assumes "\<And>x y. x \<in> A \<Longrightarrow> y \<in> A \<Longrightarrow> js_lt (Fin 0) (cmp x y) \<Longrightarrow> \<not> js_lt (Fin 0) (cmp y x)"
    and "\<And>x y z. x \<in> A \<Longrightarrow> y \<in> A \<Longrightarrow> z \<in> A \<Longrightarrow> \<not> js_lt (Fin 0) (cmp x y) \<Longrightarrow>
      \<not> js_lt (Fin 0) (cmp y z) \<Longrightarrow> \<not> js_lt (Fin 0) (cmp x z)"
  shows "orders cmp A"
  using assms unfolding orders_def by blast

abbreviation sorted_by :: "('a \<Rightarrow> 'a \<Rightarrow> jsnum) \<Rightarrow> 'a list \<Rightarrow> bool" where
  "sorted_by cmp \<equiv> sorted_wrt (\<lambda>a b. \<not> js_lt (Fin 0) (cmp a b))"

lemma sorted_insert_before:
  "orders cmp (insert x (set xs)) \<Longrightarrow> sorted_by cmp xs \<Longrightarrow> sorted_by cmp (insert_before cmp x xs)"
proof (induction xs)
  case (Cons y ys)
  have ord: "orders cmp (insert x (set ys))"
    by (rule orders_mono[OF Cons.prems(1)]) auto
  show ?case
  proof (cases "js_lt (Fin 0) (cmp x y)")
    case True
    then have "\<not> js_lt (Fin 0) (cmp y x)"
      by (intro orders_asym[OF Cons.prems(1)]) auto
    with True Cons.IH[OF ord] Cons.prems(2) show ?thesis by auto
  next
    case False
    have "\<not> js_lt (Fin 0) (cmp x z)" if "z \<in> set ys" for z
      by (rule orders_trans[OF Cons.prems(1), of x y z]) (use False Cons.prems(2) that in auto)
    with False Cons.prems(2) show ?thesis by auto
  qed
qed simp

lemma sorted_array_sort: "orders cmp (set xs) \<Longrightarrow> sorted_by cmp (array_sort cmp xs)"
proof (induction xs)
  case (Cons x xs)
  have set_sort: "set (array_sort cmp xs) = set xs"
    by (metis mset_array_sort set_mset_mset)
  have "orders cmp (set xs)"
    by (rule orders_mono[OF Cons.prems]) auto
  then have "sorted_by cmp (array_sort cmp xs)" by (rule Cons.IH)
  moreover have "array_sort cmp (x # xs) = insert_before cmp x (array_sort cmp xs)"
    by (simp add: array_sort_def)
  ultimately show ?case
    using sorted_insert_before[of cmp x "array_sort cmp xs"] Cons.prems by (simp add: set_sort)
qed (simp add: array_sort_def)

lemma js_sub_pos: "js_lt (Fin 0) (js_sub x y) \<longleftrightarrow> js_lt y x"
  by (cases x; cases y) (simp_all add: js_sub_def)

lemma js_lt_trans_neg:
  assumes "y \<noteq> NaN" "\<not> js_lt y x" "\<not> js_lt z y"
  shows "\<not> js_lt z x"
  using assms by (cases x; cases y; cases z) auto

lemma js_lt_asym: "js_lt x y \<Longrightarrow> \<not> js_lt y x"
  by (cases x; cases y) auto

text \<open>The documented behaviour of \<open>localeCompare\<close>: a total preorder of the strings.\<close>

definition collation :: "(string \<Rightarrow> string \<Rightarrow> int) \<Rightarrow> bool" where
  "collation lc \<longleftrightarrow>
     (\<forall>x y. 0 < lc x y \<longrightarrow> lc y x < 0) \<and> (\<forall>x y z. lc x y \<le> 0 \<longrightarrow> lc y z \<le> 0 \<longrightarrow> lc x z \<le> 0)"

lemma node_field_cases:
  "(\<exists>g. \<forall>n. node_field f n = Num (g n)) \<or> (\<exists>g. \<forall>n. node_field f n = Str (g n))"
  by (cases f) auto

lemma node_compare_orders:
  assumes lc: "collation lc" and num: "\<forall>n \<in> A. node_field f n \<noteq> Num NaN"
  shows "orders (node_compare lc f d) A"
  using node_field_cases[of f]
proof
  assume "\<exists>g. \<forall>n. node_field f n = Num (g n)"
  then obtain g where g: "\<And>n. node_field f n = Num (g n)" by blast
  then have nn: "g n \<noteq> NaN" if "n \<in> A" for n
    using num that by fastforce
  have cmp: "js_lt (Fin 0) (node_compare lc f d a b) \<longleftrightarrow> (if d = Asc then js_lt (g b) (g a) else js_lt (g a) (g b))"
    for a b by (simp add: node_compare_def g js_sub_pos)
  show ?thesis
    by (rule ordersI; unfold cmp) (use nn js_lt_asym js_lt_trans_neg in \<open>metis (full_types)\<close>)+
next
  assume "\<exists>g. \<forall>n. node_field f n = Str (g n)"
  then obtain g where g: "\<And>n. node_field f n = Str (g n)" by blast
  have asym: "0 < lc x y \<Longrightarrow> \<not> 0 < lc y x" for x y
    using lc unfolding collation_def by (meson less_asym)
  have trans: "\<not> 0 < lc x y \<Longrightarrow> \<not> 0 < lc y z \<Longrightarrow> \<not> 0 < lc x z" for x y z
    using lc unfolding collation_def by (meson not_less)
  have cmp: "js_lt (Fin 0) (node_compare lc f d a b) \<longleftrightarrow> (if d = Asc then 0 < lc (g a) (g b) else 0 < lc (g b) (g a))"
    for a b by (simp add: node_compare_def g)
  show ?thesis
    by (rule ordersI; unfold cmp) (use asym trans in \<open>metis (full_types)\<close>)+
qed

section \<open>Properties\<close>

text \<open>Also: the network statistics partition the nodes: the four tier counts add up to the total, and for
  rows that satisfy the database's check on the status column (online, offline, busy, maintenance)
  every node counts as online or offline, so the stale and slashed counters are always zero.\<close>

theorem network_stats_partition:
  assumes "\<forall>n \<in> set rows. dn_status n \<in> {''online'', ''offline'', ''busy'', ''maintenance''}"
  shows "let s = network_stats pd rows in
    goldTierCount s + silverTierCount s + bronzeTierCount s + unrankedTierCount s = totalNodes s \<and>
    onlineNodes s + offlineNodes s = totalNodes s \<and> staleNodes s = 0 \<and> slashedNodes s = 0"
proof -
  let ?ns = "map (mapNode pd) rows"
  have st: "\<forall>n \<in> set ?ns. status n = ''online'' \<or> status n = ''offline''"
    using assms by (auto simp: mapNode_def)
  have "count_by (\<lambda>n. status n = ''online'') ?ns + count_by (\<lambda>n. status n = ''offline'') ?ns = length ?ns"
    by (rule count_by_split) (use st in auto)
  moreover have "count_by (\<lambda>n. status n = ''stale'') ?ns = 0" "count_by (\<lambda>n. status n = ''slashed'') ?ns = 0"
    by (rule count_by_none; use st in auto)+
  ultimately show ?thesis
    using count_by_tiers[of tier ?ns] by (simp add: network_stats_def Let_def)
qed

definition sample_node :: "string \<Rightarrow> string \<Rightarrow> jsnum \<Rightarrow> db_node" where
  "sample_node k st rep = \<lparr>dn_id = k, wallet_address = ''0xab'', dn_status = st, reputation_score = rep,
     stake_amount = Some ''12000000000000000000'', vram_used_mb = None, vram_total_mb = Fin 24,
     cpu_cores = None, gpu_model = None, location = None, uptime_seconds = None, last_heartbeat_at = None,
     total_jobs_completed = Fin 3, total_jobs_failed = None, dn_created_at = ''now''\<rparr>"

theorem network_stats_partition_witness:
  "staleNodes (network_stats (\<lambda>_. Fin 0) [sample_node ''a'' ''busy'' (Fin 60), sample_node ''b'' ''offline'' (Fin 7)]) = 0"
  using network_stats_partition[of "[sample_node ''a'' ''busy'' (Fin 60), sample_node ''b'' ''offline'' (Fin 7)]" "\<lambda>_. Fin 0"]
  by (simp add: sample_node_def Let_def)



text \<open>Also: sorting by tier does not follow the rank of the tiers: with the usual alphabetical collation,
  the descending order (the first click) puts an unranked node before a gold one.\<close>

theorem tier_sort_alphabetical:
  assumes "0 < lc ''unranked'' ''gold''" "lc ''gold'' ''unranked'' \<le> 0"
    and "tier a = Unranked" "tier b = Gold" "sortField s \<noteq> FTier"
    and "searchQuery s = ''''" "statusFilter s = []"
  shows "filteredNodes lc (handleSort FTier s) (Some [b, a]) = [a, b] \<and> tier a < tier b"
  using assms
  by (simp add: filteredNodes_def handleSort_def array_sort_def node_compare_def less_reputation_tier_def)

theorem tier_sort_alphabetical_witness:
  "filteredNodes (\<lambda>x y. if x = ''unranked'' then 1 else -1) (handleSort FTier node_list_init)
     (Some [mapNode (\<lambda>_. Fin 0) (sample_node ''b'' ''busy'' (Fin 120)),
            mapNode (\<lambda>_. Fin 0) (sample_node ''a'' ''busy'' (Fin (-1)))]) =
   [mapNode (\<lambda>_. Fin 0) (sample_node ''a'' ''busy'' (Fin (-1))),
    mapNode (\<lambda>_. Fin 0) (sample_node ''b'' ''busy'' (Fin 120))]"
  using tier_sort_alphabetical[of "\<lambda>x y. if x = ''unranked'' then 1 else -1"
      "mapNode (\<lambda>_. Fin 0) (sample_node ''a'' ''busy'' (Fin (-1)))"
      "mapNode (\<lambda>_. Fin 0) (sample_node ''b'' ''busy'' (Fin 120))" node_list_init]
  by (simp add: node_list_init_def mapNode_def sample_node_def tier_Unranked_iff tier_Gold_iff)

end
