(* ===== verification/JobsData.thy ===== *)
theory JobsData
  imports NodesData
begin

text \<open>
  \<open>hooks/use-jobs.ts\<close> (the mapping of job rows, logs and assignments, and the streaming log hook),
  the jobs list \<open>app/(dashboard)/jobs/page.tsx\<close>, the job page \<open>jobs/[id]/page.tsx\<close> and the log viewer
  \<open>jobs/[id]/logs/page.tsx\<close>. \<open>parseDate\<close> is \<open>new Date(s).getTime()\<close> and \<open>now\<close> is \<open>Date.now()\<close>.
\<close>

section \<open>Rows and jobs\<close>

record db_job =
  dj_id :: string
  job_id_256 :: string
  dj_user_id :: string
  dj_node_id :: "string option"
  dj_status :: string
  checkpoint_url :: "string option"
  sla_uptime_required :: "jsnum option"
  sla_throughput_required :: "jsnum option"
  dj_deadline :: "string option"
  budget_usd :: "jsnum option"
  price_charged_usd :: "jsnum option"
  dj_created_at :: string

record sla_benchmark =
  requiredUptime :: jsnum
  requiredThroughput :: jsnum
  sla_deadline :: jsnum

record job =
  job_id :: string
  clientId :: string
  sla :: sla_benchmark
  job_status :: string
  assignedNodes :: "string list"
  checkpointRef :: string
  progress :: nat
  cost :: jsnum
  actualUptime :: "jsnum option"
  actualThroughput :: "jsnum option"
  job_createdAt :: jsnum
  deadline :: jsnum

definition job_deadline :: "(string \<Rightarrow> jsnum) \<Rightarrow> int \<Rightarrow> db_job \<Rightarrow> jsnum" where
  "job_deadline parseDate now j =
     (if truthy_str (dj_deadline j) then parseDate (the (dj_deadline j))
      else js_int (now + 24 * 60 * 60 * 1000))"

definition mapJob :: "(string \<Rightarrow> jsnum) \<Rightarrow> int \<Rightarrow> db_job \<Rightarrow> job" where
  "mapJob parseDate now j =
     \<lparr>job_id = dj_id j,
      clientId = dj_user_id j,
      sla = \<lparr>requiredUptime = or_else (sla_uptime_required j) (Fin 95),
             requiredThroughput = or_else (sla_throughput_required j) (Fin 100),
             sla_deadline = job_deadline parseDate now j\<rparr>,
      job_status = dj_status j,
      assignedNodes = (if truthy_str (dj_node_id j) then [the (dj_node_id j)] else []),
      checkpointRef = or_else (checkpoint_url j) '''',
      progress = (if dj_status j = ''completed'' then 100 else if dj_status j = ''failed'' then 0 else 50),
      cost = (case price_charged_usd j of Some p \<Rightarrow> p | None \<Rightarrow> or_else (budget_usd j) (Fin 0)),
      actualUptime = None,
      actualThroughput = None,
      job_createdAt = parseDate (dj_created_at j),
      deadline = job_deadline parseDate now j\<rparr>"

text \<open>\<open>fetchJobs\<close>: nobody signed in gives no jobs; an error of the API call is thrown on.\<close>

definition fetchJobs ::
  "(string \<Rightarrow> jsnum) \<Rightarrow> int \<Rightarrow> string option \<Rightarrow> string + db_job list \<Rightarrow> string + job list" where
  "fetchJobs parseDate now user r =
     (if user = None then Inr []
      else case r of Inl e \<Rightarrow> Inl e | Inr js \<Rightarrow> Inr (map (mapJob parseDate now) js))"

definition fetchJob :: "(string \<Rightarrow> jsnum) \<Rightarrow> int \<Rightarrow> string + db_job \<Rightarrow> job option" where
  "fetchJob parseDate now r = (case r of Inl e \<Rightarrow> None | Inr j \<Rightarrow> Some (mapJob parseDate now j))"

section \<open>Logs and assignments\<close>

datatype log_level = LInfo | LWarn | LError | LDebug

record job_log =
  log_id :: string
  log_timestamp :: jsnum
  level :: log_level
  log_message :: string
  log_nodeId :: "string option"

record db_log =
  dl_id :: string
  dl_created_at :: string
  dl_level :: log_level
  dl_message :: string
  dl_node_id :: "string option"

definition mapLog :: "(string \<Rightarrow> jsnum) \<Rightarrow> db_log \<Rightarrow> job_log" where
  "mapLog parseDate l = \<lparr>log_id = dl_id l, log_timestamp = parseDate (dl_created_at l),
     level = dl_level l, log_message = dl_message l, log_nodeId = dl_node_id l\<rparr>"

text \<open>The answer of the log query: an error, which is thrown, or rows, which may be missing.\<close>

definition fetchJobLogs :: "(string \<Rightarrow> jsnum) \<Rightarrow> string + db_log list option \<Rightarrow> string + job_log list" where
  "fetchJobLogs parseDate r = (case r of Inl e \<Rightarrow> Inl e | Inr ls \<Rightarrow> Inr (map (mapLog parseDate) (or_else ls [])))"

record db_assignment =
  da_node_id :: string
  da_wallet :: "string option"
  da_status :: string
  da_progress :: jsnum
  da_vram_used :: jsnum
  da_vram_total :: jsnum
  da_last_heartbeat_at :: "string option"

record node_assignment =
  na_nodeId :: string
  na_address :: string
  na_status :: string
  na_progress :: jsnum
  na_vramUsed :: jsnum
  na_vramTotal :: jsnum
  na_lastHeartbeat :: jsnum

definition mapAssignment :: "(string \<Rightarrow> jsnum) \<Rightarrow> int \<Rightarrow> db_assignment \<Rightarrow> node_assignment" where
  "mapAssignment parseDate now a =
     \<lparr>na_nodeId = da_node_id a, na_address = or_else (da_wallet a) '''', na_status = da_status a,
      na_progress = da_progress a, na_vramUsed = da_vram_used a, na_vramTotal = da_vram_total a,
      na_lastHeartbeat = (if truthy_str (da_last_heartbeat_at a)
                          then parseDate (the (da_last_heartbeat_at a)) else js_int now)\<rparr>"

definition fetchNodeAssignments ::
  "(string \<Rightarrow> jsnum) \<Rightarrow> int \<Rightarrow> string + db_assignment list option \<Rightarrow> string + node_assignment list" where
  "fetchNodeAssignments parseDate now r =
     (case r of Inl e \<Rightarrow> Inl e | Inr xs \<Rightarrow> Inr (map (mapAssignment parseDate now) (or_else xs [])))"

section \<open>Rows and the declared types\<close>

text \<open>The unions the hooks declare, and the values the database admits in the columns they read
  (\<open>supabase/migrations\<close> 001 and 003).\<close>

definition NodeStatus :: "string list" where
  "NodeStatus = [''online'', ''offline'', ''stale'', ''slashed'']"

definition AssignmentStatus :: "string list" where
  "AssignmentStatus = [''assigned'', ''processing'', ''completed'', ''failed'']"

definition stored_node_status :: "string list" where
  "stored_node_status = [''online'', ''offline'', ''busy'', ''maintenance'']"

definition stored_job_status :: "string list" where
  "stored_job_status = [''pending'', ''running'', ''completed'', ''failed'', ''cancelled'']"

definition stored_assignment_status :: "string list" where
  "stored_assignment_status = [''assigned'', ''running'', ''completed'', ''failed'', ''reassigned'']"

lemma stored_job_typed: "x \<in> set stored_job_status \<Longrightarrow> \<exists>s. x = job_status_str s"
  unfolding stored_job_status_def by (auto intro: job_status_str.simps[symmetric])

lemma stored_node_typed:
  "dn_status n \<in> set stored_node_status \<Longrightarrow> status (mapNode pd n) \<in> set NodeStatus"
  by (auto simp: stored_node_status_def NodeStatus_def mapNode_def)

lemma stored_assignment_typed:
  "da_status a \<in> set stored_assignment_status \<Longrightarrow>
     na_status (mapAssignment pd now a) \<in> set AssignmentStatus \<longleftrightarrow>
     da_status a \<noteq> ''running'' \<and> da_status a \<noteq> ''reassigned''"
  by (auto simp: stored_assignment_status_def AssignmentStatus_def mapAssignment_def)

section \<open>The streaming log hook\<close>

text \<open>
  \<open>useStreamingLogs\<close>: the effect fetches the logs of the job and subscribes to new ones. \<open>channel\<close> is
  the job whose inserts are subscribed to. A fetch that resolves replaces the logs, whichever job it
  was started for and whether or not its effect is still mounted.
\<close>

record stream =
  logs :: "job_log list"
  stream_connected :: bool
  channel :: "string option"

definition stream_init :: stream where
  "stream_init = \<lparr>logs = [], stream_connected = False, channel = None\<rparr>"

datatype stream_event =
    StreamEffect string bool
  | StreamCleanup
  | FetchDone string "job_log list"
  | LogInsert string job_log
  | AppendLog job_log

fun stream_step :: "stream_event \<Rightarrow> stream \<Rightarrow> stream" where
  "stream_step (StreamEffect j enabled) s =
     (if \<not> enabled \<or> j = '''' then s else s\<lparr>stream_connected := True, channel := Some j\<rparr>)"
| "stream_step StreamCleanup s = s\<lparr>stream_connected := False, channel := None\<rparr>"
| "stream_step (FetchDone j ls) s = s\<lparr>logs := ls\<rparr>"
| "stream_step (LogInsert j l) s = (if channel s = Some j then s\<lparr>logs := logs s @ [l]\<rparr> else s)"
| "stream_step (AppendLog l) s = s\<lparr>logs := logs s @ [l]\<rparr>"

definition filteredLogs :: "log_level set \<Rightarrow> job_log list \<Rightarrow> job_log list" where
  "filteredLogs selected ls = (if selected = {} then ls else filter (\<lambda>l. level l \<in> selected) ls)"

definition handleToggleLevel :: "log_level \<Rightarrow> log_level set \<Rightarrow> log_level set" where
  [handler_defs]: "handleToggleLevel l sel = (if l \<in> sel then sel - {l} else insert l sel)"

text \<open>The lines of the downloaded file; \<open>to_iso\<close> is \<open>new Date(t).toISOString()\<close>.\<close>

fun level_str :: "log_level \<Rightarrow> string" where
  "level_str LInfo = ''info''"
| "level_str LWarn = ''warn''"
| "level_str LError = ''error''"
| "level_str LDebug = ''debug''"

definition log_line :: "(jsnum \<Rightarrow> string) \<Rightarrow> job_log \<Rightarrow> string" where
  "log_line to_iso l = ''['' @ to_iso (log_timestamp l) @ ''] ['' @ to_upper (level_str (level l)) @ ''] '' @
     (if truthy_str (log_nodeId l) then ''['' @ the (log_nodeId l) @ ''] '' else '''') @ log_message l"

definition handleDownloadLogs :: "(jsnum \<Rightarrow> string) \<Rightarrow> log_level set \<Rightarrow> job_log list \<Rightarrow> string" where
  "handleDownloadLogs to_iso selected ls = join_with [CHR 0x0A] (map (log_line to_iso) (filteredLogs selected ls))"

definition logCounts :: "log_level set \<Rightarrow> job_log list \<Rightarrow> log_level \<Rightarrow> nat" where
  "logCounts selected ls l = count_by (\<lambda>x. level x = l) (filteredLogs selected ls)"

section \<open>The jobs list\<close>

definition filteredJobs :: "string list \<Rightarrow> job list option \<Rightarrow> job list" where
  "filteredJobs selected data =
     (case data of None \<Rightarrow> []
      | Some js \<Rightarrow> if selected = [] then js else filter (\<lambda>j. job_status j \<in> set selected) js)"

definition toggle_job_status :: "string \<Rightarrow> string list \<Rightarrow> string list" where
  [handler_defs]: "toggle_job_status st prev =
     (if st \<in> set prev then filter (\<lambda>s. s \<noteq> st) prev else prev @ [st])"

text \<open>The pill of the active filter shows the selected statuses; its button calls \<open>onRemove\<close>.\<close>

definition active_pill :: "string list \<Rightarrow> string option" where
  "active_pill selected = (if selected = [] then None else Some (join_with '', '' selected))"

definition onRemovePill :: "string \<Rightarrow> string list \<Rightarrow> string list" where
  [handler_defs]: "onRemovePill value selected =
     (if str_includes value '','' then [] else selected)"

definition formatCost :: "jsnum \<Rightarrow> string" where
  "formatCost c = ''$'' @ toFixed 4 c"

section \<open>The job page\<close>

definition num_or_zero :: "jsnum option \<Rightarrow> jsnum" where
  "num_or_zero a = (case a of Some n \<Rightarrow> js_or n (Fin 0) | None \<Rightarrow> Fin 0)"

record gauge =
  gauge_percentage :: jsnum
  isCompliant :: bool
  gauge_diff :: jsnum

definition SLAComplianceGauge :: "jsnum \<Rightarrow> jsnum \<Rightarrow> gauge" where
  "SLAComplianceGauge actual required =
     \<lparr>gauge_percentage = js_min (js_mul (js_div actual required) (Fin 100)) (Fin 100),
      isCompliant = js_le required actual,
      gauge_diff = js_sub actual required\<rparr>"

definition uptime_gauge :: "job \<Rightarrow> gauge" where
  "uptime_gauge j = SLAComplianceGauge (num_or_zero (actualUptime j)) (requiredUptime (sla j))"

definition throughput_gauge :: "job \<Rightarrow> gauge" where
  "throughput_gauge j = SLAComplianceGauge (num_or_zero (actualThroughput j)) (requiredThroughput (sla j))"

definition slaPenalty :: "job \<Rightarrow> jsnum" where
  "slaPenalty j =
     js_mul (js_mul (js_div (js_sub (requiredUptime (sla j)) (num_or_zero (actualUptime j))) (Fin 100))
       (cost j)) (Fin (1 / 10))"

definition netCost :: "job \<Rightarrow> jsnum" where
  "netCost j = js_sub (cost j) (slaPenalty j)"

definition isDeadlineNear :: "int \<Rightarrow> job \<Rightarrow> bool" where
  "isDeadlineNear now j \<longleftrightarrow> js_lt (js_sub (deadline j) (js_int now)) (Fin 3600000)"

definition worker_isStale :: "int \<Rightarrow> node_assignment \<Rightarrow> bool" where
  "worker_isStale now n \<longleftrightarrow> js_lt (Fin 60000) (js_sub (js_int now) (na_lastHeartbeat n))"

definition worker_vram_color :: "node_assignment \<Rightarrow> bar_color" where
  "worker_vram_color n = vram_color (js_mul (js_div (na_vramUsed n) (na_vramTotal n)) (Fin 100))"

section \<open>Lemmas\<close>

lemma stream_inserts:
  "list_all (\<lambda>e. case e of LogInsert k l \<Rightarrow> True | _ \<Rightarrow> False) es \<Longrightarrow>
   logs (fold stream_step es s) =
     logs s @ List.map_filter (\<lambda>e. case e of LogInsert k l \<Rightarrow> if channel s = Some k then Some l else None | _ \<Rightarrow> None) es \<and>
   channel (fold stream_step es s) = channel s"
proof (induction es arbitrary: s)
  case (Cons e es)
  then obtain k l where e: "e = LogInsert k l"
    by (cases e) auto
  have "channel (stream_step e s) = channel s" by (simp add: e)
  with Cons.IH[of "stream_step e s"] Cons.prems show ?case
    by (simp add: e map_filter_simps)
qed (simp add: map_filter_simps)

lemma join_with_comma: "2 \<le> length ws \<Longrightarrow> str_includes (join_with '', '' ws) '',''"
proof -
  assume "2 \<le> length ws"
  then obtain w v us where "ws = w # v # us"
    by (cases ws; cases "tl ws") auto
  then have "join_with '', '' ws = w @ '','' @ ('' '' @ join_with '', '' (v # us))" by simp
  then show ?thesis unfolding str_includes_iff by blast
qed

lemma includes_comma_set: "str_includes s '','' \<longleftrightarrow> CHR '','' \<in> set s"
  by (auto simp: str_includes_iff in_set_conv_decomp)

section \<open>Properties\<close>

text \<open>Also: after the initial fetch has delivered its snapshot, the log stream shows the snapshot followed
  by exactly the new rows of the job it is subscribed to, in the order they arrive.\<close>

theorem stream_appends_in_order:
  assumes "channel s = Some j"
    and "list_all (\<lambda>e. case e of LogInsert k l \<Rightarrow> True | _ \<Rightarrow> False) es"
  shows "logs (fold stream_step (FetchDone j snapshot # es) s) =
    snapshot @ List.map_filter (\<lambda>e. case e of LogInsert k l \<Rightarrow> if k = j then Some l else None | _ \<Rightarrow> None) es"
proof -
  have ch: "channel (stream_step (FetchDone j snapshot) s) = Some j"
    using assms(1) by simp
  have same: "(\<lambda>e. case e of LogInsert k l \<Rightarrow> if Some j = Some k then Some l else None | _ \<Rightarrow> None) =
      (\<lambda>e. case e of LogInsert k l \<Rightarrow> if k = j then Some l else None | _ \<Rightarrow> None)"
    by (rule ext) (auto split: stream_event.splits)
  show ?thesis
    using stream_inserts[OF assms(2), of "stream_step (FetchDone j snapshot) s", unfolded ch same] by simp
qed

definition sample_log :: "string \<Rightarrow> job_log" where
  "sample_log k = \<lparr>log_id = k, log_timestamp = Fin 0, level = LInfo, log_message = ''m'', log_nodeId = None\<rparr>"

theorem stream_appends_in_order_witness:
  "logs (fold stream_step [FetchDone ''j'' [sample_log ''1''], LogInsert ''k'' (sample_log ''2''), LogInsert ''j'' (sample_log ''3'')]
     (stream_step (StreamEffect ''j'' True) stream_init)) = [sample_log ''1'', sample_log ''3'']"
  using stream_appends_in_order[of "stream_step (StreamEffect ''j'' True) stream_init" "''j''"
      "[LogInsert ''k'' (sample_log ''2''), LogInsert ''j'' (sample_log ''3'')]" "[sample_log ''1'']"]
  by (simp add: map_filter_simps)

text \<open>Also: the log stream has two races. A row inserted before the fetch resolves is lost when the
  snapshot does not hold it, and after switching to another job a late fetch of the first one
  replaces the logs of the job that is shown.\<close>

theorem stream_races:
  assumes "j1 \<noteq> j2" "j1 \<noteq> ''''" "j2 \<noteq> ''''" "l \<notin> set snapshot"
  shows "l \<notin> set (logs (fold stream_step [StreamEffect j1 True, LogInsert j1 l, FetchDone j1 snapshot] stream_init)) \<and>
    (let s = fold stream_step [StreamEffect j1 True, StreamCleanup, StreamEffect j2 True,
        FetchDone j2 own, FetchDone j1 other] stream_init
     in channel s = Some j2 \<and> logs s = other)"
  using assms by (simp add: Let_def)

theorem stream_races_witness:
  "sample_log ''2'' \<notin> set (logs (fold stream_step
     [StreamEffect ''a'' True, LogInsert ''a'' (sample_log ''2''), FetchDone ''a'' [sample_log ''1'']] stream_init))"
  using stream_races[of "''a''" "''b''" "sample_log ''2''" "[sample_log ''1'']" "[]" "[]"]
  by (simp add: sample_log_def)

text \<open>Also: on the jobs list the button that removes the active status filter works exactly when two or
  more statuses are selected: with a single one, the filter stays.\<close>

theorem filter_pill_removal:
  assumes "selected \<noteq> []" "set selected \<subseteq> range job_status_str"
  shows "\<exists>pill. active_pill selected = Some pill \<and>
    onRemovePill pill selected = (if 2 \<le> length selected then [] else selected)"
proof -
  have no_comma: "CHR '','' \<notin> set (job_status_str st)" for st
    by (cases st) simp_all
  show ?thesis
  proof (cases "2 \<le> length selected")
    case True
    with assms(1) join_with_comma[OF True] show ?thesis
      by (simp add: active_pill_def onRemovePill_def)
  next
    case False
    with assms(1) obtain w where w: "selected = [w]"
      by (cases selected; cases "tl selected") auto
    with assms(2) no_comma have "CHR '','' \<notin> set w" by auto
    with w show ?thesis by (simp add: active_pill_def onRemovePill_def includes_comma_set)
  qed
qed

theorem filter_pill_removal_witness:
  "\<exists>pill. active_pill [''running''] = Some pill \<and> onRemovePill pill [''running''] = [''running'']"
proof -
  have "set [''running''] \<subseteq> range job_status_str"
    using rangeI[of job_status_str JRunning] by simp
  from filter_pill_removal[OF _ this] show ?thesis by simp
qed

definition sample_assignment :: db_assignment where
  "sample_assignment = \<lparr>da_node_id = ''n'', da_wallet = None, da_status = ''running'', da_progress = Fin 0,
     da_vram_used = Fin 0, da_vram_total = Fin 0, da_last_heartbeat_at = None\<rparr>"



end
