(* ===== verification/AdminTables.thy ===== *)
theory AdminTables
  imports JobsData "HOL-Library.Monad_Syntax"
begin

text \<open>
  The tables of the administration pages, \<open>app/(dashboard)/admin/*/page.tsx\<close>: jobs, nodes, users, slash
  events, disputes, alerts, proposals and contracts. A page shows the rows of a database table as they
  come, so a field it reads may be missing; using a missing field as text or number throws, and an
  exception while rendering takes the whole page down. A computation that may throw is an option,
  \<open>None\<close> being the exception.
\<close>

section \<open>Fields of a row\<close>

definition get :: "string \<Rightarrow> row \<Rightarrow> jsval" where
  "get k r = field k (Obj r)"

text \<open>\<open>v.toLowerCase()\<close>, \<open>v.toFixed(d)\<close> and \<open>v.slice(0, 8)...v.slice(-6)\<close> exist on text and numbers only.\<close>

definition lowered :: "jsval \<Rightarrow> string option" where
  "lowered v = (case v of Str s \<Rightarrow> Some (to_lower s) | _ \<Rightarrow> None)"

definition fixed :: "nat \<Rightarrow> jsval \<Rightarrow> string option" where
  "fixed d v = (case v of Num x \<Rightarrow> Some (toFixed d x) | _ \<Rightarrow> None)"

definition short_address :: "jsval \<Rightarrow> string option" where
  "short_address v = (case v of Str s \<Rightarrow> Some (slice_first 8 s @ ''...'' @ slice_last 6 s) | _ \<Rightarrow> None)"

definition or_val :: "jsval \<Rightarrow> jsval \<Rightarrow> jsval" where
  "or_val v d = (if val_truthy v then v else d)"

text \<open>A value as a number in an addition; the columns added hold numbers or nothing.\<close>

definition as_num :: "jsval \<Rightarrow> jsnum" where
  "as_num v = (case v of Num x \<Rightarrow> x | Null \<Rightarrow> Fin 0 | _ \<Rightarrow> NaN)"

definition int_text :: "jsnum \<Rightarrow> string" where
  "int_text x = (case x of Fin q \<Rightarrow> show_int \<lfloor>q\<rfloor> | NaN \<Rightarrow> ''NaN'' | PosInf \<Rightarrow> ''Infinity'' | NegInf \<Rightarrow> ''-Infinity'')"

definition ago_text :: "jsnum \<Rightarrow> string" where
  "ago_text diff =
     (if js_lt diff (Fin 60000) then ''Just now''
      else if js_lt diff (Fin 3600000) then int_text (js_div diff (Fin 60000)) @ ''m ago''
      else if js_lt diff (Fin 86400000) then int_text (js_div diff (Fin 3600000)) @ ''h ago''
      else int_text (js_div diff (Fin 86400000)) @ ''d ago'')"

definition admin_relative_time :: "jsnum \<Rightarrow> jsnum \<Rightarrow> string" where
  "admin_relative_time now ts = ago_text (js_sub now ts)"

definition deadline_text :: "jsnum \<Rightarrow> jsnum \<Rightarrow> string" where
  "deadline_text now ts =
     (let diff = js_sub ts now in
      if js_lt diff (Fin 0) then ''Ended''
      else if js_lt diff (Fin 60000) then ''Ending soon''
      else if js_lt diff (Fin 3600000) then int_text (js_div diff (Fin 60000)) @ ''m left''
      else if js_lt diff (Fin 86400000) then int_text (js_div diff (Fin 3600000)) @ ''h left''
      else int_text (js_div diff (Fin 86400000)) @ ''d left'')"

text \<open>\<open>new Date(v).getTime()\<close>, given the reading of date texts.\<close>

definition time_of :: "(string \<Rightarrow> jsnum) \<Rightarrow> jsval \<Rightarrow> jsnum" where
  "time_of pd v = (case v of Str s \<Rightarrow> pd s | Num x \<Rightarrow> x | Null \<Rightarrow> Fin 0 | _ \<Rightarrow> NaN)"

section \<open>Searching\<close>

text \<open>How a page reads a column it searches: \<open>r.k.toLowerCase()\<close>, \<open>r.k?.toLowerCase()\<close> or
  \<open>(r.k || '').toLowerCase()\<close>.\<close>

datatype search_key = Required string | Nullable string | OrEmpty string

fun includes_key :: "string \<Rightarrow> row \<Rightarrow> search_key \<Rightarrow> bool option" where
  "includes_key q r (Required k) = do { s \<leftarrow> lowered (get k r); Some (str_includes s q) }"
| "includes_key q r (Nullable k) =
     (if nullish (get k r) then Some False else do { s \<leftarrow> lowered (get k r); Some (str_includes s q) })"
| "includes_key q r (OrEmpty k) =
     do { s \<leftarrow> lowered (or_val (get k r) (Str '''')); Some (str_includes s q) }"

text \<open>The conjunction of negated tests: the columns after the first match are not read.\<close>

fun matches_row :: "string \<Rightarrow> row \<Rightarrow> search_key list \<Rightarrow> bool option" where
  "matches_row q r [] = Some False"
| "matches_row q r (k # ks) = do { b \<leftarrow> includes_key q r k; if b then Some True else matches_row q r ks }"

definition search_row :: "search_key list \<Rightarrow> string \<Rightarrow> row \<Rightarrow> bool option" where
  "search_row keys sq r =
     (if sq = '''' then Some True else matches_row (to_lower sq) r keys)"

text \<open>\<open>if (choice && row.k !== choice) return false\<close>.\<close>

definition choice_ok :: "string \<Rightarrow> string option \<Rightarrow> row \<Rightarrow> bool" where
  "choice_ok k choice r \<longleftrightarrow> truthy_str choice \<longrightarrow> get k r = Str (the choice)"

fun filter_throwing :: "('a \<Rightarrow> bool option) \<Rightarrow> 'a list \<Rightarrow> 'a list option" where
  "filter_throwing p [] = Some []"
| "filter_throwing p (x # xs) =
     do { b \<leftarrow> p x; ys \<leftarrow> filter_throwing p xs; Some (if b then x # ys else ys) }"

definition table_filter :: "search_key list \<Rightarrow> (row \<Rightarrow> bool) \<Rightarrow> string \<Rightarrow> row list \<Rightarrow> row list option" where
  "table_filter keys extra sq =
     filter_throwing (\<lambda>r. do { b \<leftarrow> search_row keys sq r; Some (b \<and> extra r) })"

section \<open>The jobs table\<close>

record job_cells =
  jc_id :: jsval
  jc_client :: string
  jc_badge :: string
  jc_nodes :: nat
  jc_value :: string
  jc_created :: string

text \<open>\<open>components/ui/StatusBadge.tsx\<close>: the label of a status; another status has no entry, and reading
  the entry's colour throws.\<close>

definition badge_labels :: "(string \<times> string) list" where
  "badge_labels =
     [(''online'', ''Online''), (''offline'', ''Offline''), (''stale'', ''Stale''), (''slashed'', ''Slashed''),
      (''pending'', ''Pending''), (''running'', ''Running''), (''completed'', ''Completed''),
      (''failed'', ''Failed''), (''requeued'', ''Requeued''), (''cancelled'', ''Cancelled'')]"

definition lookup :: "(string \<times> 'a) list \<Rightarrow> jsval \<Rightarrow> 'a option" where
  "lookup config v = (case v of Str s \<Rightarrow> map_of config s | _ \<Rightarrow> None)"

definition StatusBadge :: "jsval \<Rightarrow> string option" where
  "StatusBadge v = lookup badge_labels v"

definition job_keys :: "search_key list" where
  "job_keys = [Required ''id'', OrEmpty ''user_id'']"

definition admin_job_cells :: "(string \<Rightarrow> jsnum) \<Rightarrow> jsnum \<Rightarrow> row \<Rightarrow> job_cells option" where
  "admin_job_cells pd now r = do {
     client \<leftarrow> short_address (or_val (get ''user_id'' r) (Str ''''));
     badge \<leftarrow> StatusBadge (get ''status'' r);
     amount \<leftarrow> fixed 2 (or_val (get ''budget_usd'' r) (Num (Fin 0)));
     Some \<lparr>jc_id = get ''id'' r, jc_client = client, jc_badge = badge,
       jc_nodes = (if val_truthy (get ''node_id'' r) then 1 else 0),
       jc_value = amount @ '' USD'',
       jc_created = admin_relative_time now
         (if val_truthy (get ''created_at'' r) then time_of pd (get ''created_at'' r) else now)\<rparr> }"

record 'c admin_view =
  av_shown :: nat
  av_counts :: "nat list"
  av_total :: string
  av_rows :: "'c list"

definition count_status :: "string list \<Rightarrow> row list \<Rightarrow> nat" where
  "count_status sts = count_by (\<lambda>r. \<exists>s \<in> set sts. get ''status'' r = Str s)"

definition AdminJobs :: "(string \<Rightarrow> jsnum) \<Rightarrow> jsnum \<Rightarrow> string \<Rightarrow> row list \<Rightarrow> job_cells admin_view option" where
  "AdminJobs pd now sq jobs = do {
     shown \<leftarrow> table_filter job_keys (\<lambda>_. True) sq jobs;
     cells \<leftarrow> those (map (admin_job_cells pd now) shown);
     Some \<lparr>av_shown = length shown,
       av_counts = [length jobs, count_status [''running'', ''pending''] jobs, count_status [''failed''] jobs],
       av_total = toFixed 1 (sum_by (\<lambda>j. as_num (or_val (get ''budget_usd'' j) (Num (Fin 0)))) jobs) @ '' ETH'',
       av_rows = cells\<rparr> }"

section \<open>The nodes table\<close>

record node_cells =
  nc_address :: string
  nc_gpu :: jsval
  nc_badge :: string
  nc_tier :: reputation_tier
  nc_stake :: string
  nc_heartbeat :: string

definition node_keys :: "search_key list" where
  "node_keys = [Required ''id'', Required ''wallet_address'', Required ''gpu'']"

definition admin_node_cells :: "jsnum \<Rightarrow> row \<Rightarrow> node_cells option" where
  "admin_node_cells now r = do {
     a \<leftarrow> short_address (get ''wallet_address'' r);
     badge \<leftarrow> StatusBadge (get ''status'' r);
     stake \<leftarrow> fixed 1 (get ''total_stake'' r);
     Some \<lparr>nc_address = a, nc_gpu = get ''gpu'' r, nc_badge = badge,
       nc_tier = badge_resolved_tier None
         (case get ''reputation_score'' r of Undefined \<Rightarrow> None | v \<Rightarrow> Some (as_num v)),
       nc_stake = stake @ '' ETH'',
       nc_heartbeat = admin_relative_time now (as_num (get ''last_heartbeat'' r))\<rparr> }"

definition AdminNodes ::
  "jsnum \<Rightarrow> string \<Rightarrow> string option \<Rightarrow> row list \<Rightarrow> node_cells admin_view option" where
  "AdminNodes now sq choice nodes = do {
     shown \<leftarrow> table_filter node_keys (choice_ok ''status'' choice) sq nodes;
     cells \<leftarrow> those (map (admin_node_cells now) shown);
     Some \<lparr>av_shown = length shown,
       av_counts = [count_status [''online''] nodes, count_status [''stale''] nodes, count_status [''slashed''] nodes, 0],
       av_total = show_nat (length nodes) @ '' Total'', av_rows = cells\<rparr> }"

section \<open>The users table\<close>

record admin_user =
  au_address :: jsval
  au_type :: jsval
  jobsSubmitted :: nat
  nodesRegistered :: nat
  totalSpend :: jsnum
  totalEarned :: jsnum
  joinedAt :: jsnum
  au_status :: jsval

definition map_profile :: "(string \<Rightarrow> jsnum) \<Rightarrow> row \<Rightarrow> admin_user" where
  "map_profile pd p =
     \<lparr>au_address = get ''wallet_address'' p, au_type = get ''user_type'' p, jobsSubmitted = 0,
      nodesRegistered = 0, totalSpend = Fin 0, totalEarned = Fin 0, joinedAt = time_of pd (get ''created_at'' p),
      au_status = get ''status'' p\<rparr>"

record user_cells =
  uc_address :: string
  uc_type :: string
  uc_amount :: string
  uc_status :: string

definition user_cells_of :: "admin_user \<Rightarrow> user_cells option" where
  "user_cells_of u = do {
     a \<leftarrow> short_address (au_address u);
     Some \<lparr>uc_address = a,
       uc_type = (if au_type u = Str ''client'' then ''Client'' else ''Provider''),
       uc_amount = toFixed 1 (if js_lt (Fin 0) (totalSpend u) then totalSpend u else totalEarned u) @ '' ETH'',
       uc_status = (if au_status u = Str ''active'' then ''Active'' else ''Suspended'')\<rparr> }"

definition AdminUsers :: "(string \<Rightarrow> jsnum) \<Rightarrow> string \<Rightarrow> row list \<Rightarrow> user_cells admin_view option" where
  "AdminUsers pd sq profiles = (let users = map (map_profile pd) profiles in do {
     shown \<leftarrow> filter_throwing (\<lambda>u. if sq = '''' then Some True
        else do { s \<leftarrow> lowered (au_address u); Some (str_includes s (to_lower sq)) }) users;
     cells \<leftarrow> those (map user_cells_of shown);
     Some \<lparr>av_shown = length shown,
       av_counts = [length users, count_by (\<lambda>u. au_type u = Str ''client'') users,
                    count_by (\<lambda>u. au_type u = Str ''provider'') users],
       av_total = toFixed 1 (sum_by (\<lambda>u. js_add (totalSpend u) (totalEarned u)) users) @ '' ETH'',
       av_rows = cells\<rparr> })"

section \<open>Slash events, disputes and alerts\<close>

definition slash_labels :: "(string \<times> string) list" where
  "slash_labels = [(''pending'', ''Pending''), (''executed'', ''Executed''), (''disputed'', ''Disputed''),
     (''overridden'', ''Overridden'')]"

definition slash_keys :: "search_key list" where
  "slash_keys = [Required ''node_id'', Required ''job_id'', Required ''operator_address'']"

record event_cells =
  ec_label :: string
  ec_amount :: string
  ec_when :: string

definition slash_cells :: "(string \<Rightarrow> jsnum) \<Rightarrow> jsnum \<Rightarrow> row \<Rightarrow> event_cells option" where
  "slash_cells pd now r = do {
     label \<leftarrow> lookup slash_labels (get ''status'' r);
     amount \<leftarrow> fixed 3 (get ''amount'' r);
     Some \<lparr>ec_label = label, ec_amount = ''-'' @ amount @ '' ETH'',
       ec_when = admin_relative_time now (time_of pd (get ''created_at'' r))\<rparr> }"

definition slash_total :: "row list \<Rightarrow> jsnum" where
  "slash_total events =
     sum_by (\<lambda>e. as_num (get ''amount'' e)) (filter (\<lambda>e. get ''status'' e = Str ''executed'') events)"

definition AdminSlashing ::
  "(string \<Rightarrow> jsnum) \<Rightarrow> jsnum \<Rightarrow> string \<Rightarrow> string option \<Rightarrow> row list \<Rightarrow> event_cells admin_view option" where
  "AdminSlashing pd now sq choice events = do {
     shown \<leftarrow> table_filter slash_keys (choice_ok ''status'' choice) sq events;
     cells \<leftarrow> those (map (slash_cells pd now) shown);
     Some \<lparr>av_shown = length shown,
       av_counts = [length events, count_status [''pending''] events, count_status [''disputed''] events],
       av_total = toFixed 3 (slash_total events) @ '' ETH'', av_rows = cells\<rparr> }"

definition dispute_labels :: "(string \<times> string) list" where
  "dispute_labels = [(''pending'', ''Pending''), (''resolved'', ''Resolved''), (''rejected'', ''Rejected'')]"

definition dispute_keys :: "search_key list" where
  "dispute_keys = [Required ''id'', Required ''node_address'', Required ''job_id'']"

record dispute_cells =
  dc_node :: string
  dc_event :: event_cells

definition dispute_cells_of :: "(string \<Rightarrow> jsnum) \<Rightarrow> jsnum \<Rightarrow> row \<Rightarrow> dispute_cells option" where
  "dispute_cells_of pd now r = do {
     label \<leftarrow> lookup dispute_labels (get ''status'' r);
     node \<leftarrow> short_address (get ''node_address'' r);
     amount \<leftarrow> fixed 3 (get ''slash_amount'' r);
     Some \<lparr>dc_node = node, dc_event = \<lparr>ec_label = label, ec_amount = ''-'' @ amount @ '' ETH'',
       ec_when = admin_relative_time now (time_of pd (get ''created_at'' r))\<rparr>\<rparr> }"

definition AdminDisputes ::
  "(string \<Rightarrow> jsnum) \<Rightarrow> jsnum \<Rightarrow> string \<Rightarrow> row list \<Rightarrow> dispute_cells admin_view option" where
  "AdminDisputes pd now sq disputes = do {
     shown \<leftarrow> table_filter dispute_keys (\<lambda>_. True) sq disputes;
     cells \<leftarrow> those (map (dispute_cells_of pd now) shown);
     Some \<lparr>av_shown = length shown,
       av_counts = [length disputes, count_status [''pending''] disputes, count_status [''resolved''] disputes],
       av_total = toFixed 3 (sum_by (\<lambda>d. as_num (get ''slash_amount'' d)) disputes) @ '' ETH'', av_rows = cells\<rparr> }"

text \<open>An entry of a configuration that is missing has no icon: reading one throws, and rendering an icon
  that is undefined does too.\<close>

definition severities :: "string list" where
  "severities = [''Critical'', ''Warning'', ''Info'']"

definition alert_types :: "string list" where
  "alert_types = [''Heartbeat Anomaly'', ''SLA Breach'', ''Unusual Activity'', ''Slash Event'']"

definition alert_labels :: "(string \<times> string) list" where
  "alert_labels = [(''open'', ''Open''), (''acknowledged'', ''Acknowledged''), (''resolved'', ''Resolved'')]"

definition icon_of :: "string list \<Rightarrow> jsval \<Rightarrow> string option" where
  "icon_of config v = (case v of Str s \<Rightarrow> if s \<in> set config then Some s else None | _ \<Rightarrow> None)"

definition alert_keys :: "search_key list" where
  "alert_keys = [Required ''id'', Nullable ''node_id'', Nullable ''job_id'', Required ''message'']"

record alert_cells =
  al_type :: string
  al_severity :: string
  al_label :: string
  al_links :: "jsval list"
  al_when :: string

definition alert_cells_of :: "(string \<Rightarrow> jsnum) \<Rightarrow> jsnum \<Rightarrow> row \<Rightarrow> alert_cells option" where
  "alert_cells_of pd now r = do {
     ty \<leftarrow> icon_of alert_types (get ''type'' r);
     sev \<leftarrow> icon_of severities (get ''severity'' r);
     label \<leftarrow> lookup alert_labels (get ''status'' r);
     Some \<lparr>al_type = ty, al_severity = sev, al_label = label,
       al_links = filter val_truthy [get ''node_id'' r, get ''job_id'' r],
       al_when = admin_relative_time now (time_of pd (get ''created_at'' r))\<rparr> }"

definition critical_open :: "row list \<Rightarrow> nat" where
  "critical_open = count_by (\<lambda>r. get ''severity'' r = Str ''Critical'' \<and> get ''status'' r = Str ''open'')"

definition AdminAlerts ::
  "(string \<Rightarrow> jsnum) \<Rightarrow> jsnum \<Rightarrow> string \<Rightarrow> string option \<Rightarrow> row list \<Rightarrow> alert_cells admin_view option" where
  "AdminAlerts pd now sq choice alerts = do {
     shown \<leftarrow> table_filter alert_keys (choice_ok ''severity'' choice) sq alerts;
     cells \<leftarrow> those (map (alert_cells_of pd now) shown);
     Some \<lparr>av_shown = length shown,
       av_counts = [length alerts, count_status [''open''] alerts, count_status [''acknowledged''] alerts,
                    count_status [''resolved''] alerts, critical_open alerts],
       av_total = '''', av_rows = cells\<rparr> }"

section \<open>Proposals\<close>

definition proposal_labels :: "(string \<times> string) list" where
  "proposal_labels = [(''pending'', ''Pending''), (''active'', ''Active''), (''passed'', ''Passed''),
     (''rejected'', ''Rejected'')]"

text \<open>\<open>v.toLocaleString()\<close>; \<open>fmt\<close> is the grouping of digits.\<close>

definition localized :: "(jsnum \<Rightarrow> string) \<Rightarrow> jsval \<Rightarrow> string option" where
  "localized fmt v = (case v of Num x \<Rightarrow> Some (fmt x) | Str s \<Rightarrow> Some s | _ \<Rightarrow> None)"

text \<open>\<open>formatDate\<close> throws on a missing time stamp, whose \<open>toISOString\<close> is out of range.\<close>

definition date_shown :: "jsval \<Rightarrow> jsval option" where
  "date_shown v = (case v of Undefined \<Rightarrow> None | _ \<Rightarrow> Some v)"

record proposal_cells =
  pc_label :: string
  pc_for :: string
  pc_against :: string
  pc_created :: jsval
  pc_deadline :: string

definition proposal_cells_of ::
  "(jsnum \<Rightarrow> string) \<Rightarrow> (string \<Rightarrow> jsnum) \<Rightarrow> jsnum \<Rightarrow> row \<Rightarrow> proposal_cells option" where
  "proposal_cells_of fmt pd now r = do {
     label \<leftarrow> lookup proposal_labels (get ''status'' r);
     yes \<leftarrow> localized fmt (get ''votes_for'' r);
     no \<leftarrow> localized fmt (get ''votes_against'' r);
     created \<leftarrow> date_shown (get ''created_at'' r);
     Some \<lparr>pc_label = label, pc_for = yes, pc_against = no, pc_created = created,
       pc_deadline = deadline_text now (time_of pd (get ''deadline'' r))\<rparr> }"

definition total_votes :: "row list \<Rightarrow> jsnum" where
  "total_votes = sum_by (\<lambda>p. js_add (as_num (get ''votes_for'' p)) (as_num (get ''votes_against'' p)))"

definition AdminGovernance ::
  "(jsnum \<Rightarrow> string) \<Rightarrow> (string \<Rightarrow> jsnum) \<Rightarrow> jsnum \<Rightarrow> row list \<Rightarrow> proposal_cells admin_view option" where
  "AdminGovernance fmt pd now proposals = do {
     cells \<leftarrow> those (map (proposal_cells_of fmt pd now) proposals);
     Some \<lparr>av_shown = length proposals,
       av_counts = [length proposals, count_status [''active''] proposals, count_status [''passed''] proposals],
       av_total = fmt (total_votes proposals), av_rows = cells\<rparr> }"

text \<open>The proposal page: percentages and the quorum. \<open>num\<close> is the text of a number.\<close>

record vote_panel =
  vp_for :: jsnum
  vp_against :: jsnum
  vp_quorum :: string
  vp_reached :: bool
  vp_bar :: jsnum

definition vote_panel :: "jsnum \<Rightarrow> jsnum \<Rightarrow> jsnum \<Rightarrow> vote_panel" where
  "vote_panel votes_for votes_against quorum =
     (let total = js_add votes_for votes_against;
          share = (\<lambda>v. if js_lt (Fin 0) total then js_mul (js_div v total) (Fin 100) else Fin 0);
          q = js_mul (js_div total quorum) (Fin 100)
      in \<lparr>vp_for = share votes_for, vp_against = share votes_against, vp_quorum = toFixed 1 q @ ''%'',
          vp_reached = js_le (Fin 100) q, vp_bar = js_min q (Fin 100)\<rparr>)"


section \<open>Contracts\<close>

record contract_cells =
  cc_name :: jsval
  cc_address :: jsval
  cc_when :: string
  cc_link :: string

definition contract_cells_of :: "jsnum \<Rightarrow> row \<Rightarrow> contract_cells option" where
  "contract_cells_of now r = do {
     n \<leftarrow> lowered (get ''name'' r);
     Some \<lparr>cc_name = get ''name'' r, cc_address = get ''address'' r,
       cc_when = admin_relative_time now (as_num (get ''lastUpdated'' r)), cc_link = ''/admin/contracts/'' @ n\<rparr> }"

definition AdminContracts :: "jsnum \<Rightarrow> row list \<Rightarrow> contract_cells list option" where
  "AdminContracts now rows = those (map (contract_cells_of now) rows)"

text \<open>The contract page asks for the contract of the name in its link.\<close>

definition contract_query :: "string \<Rightarrow> query" where
  "contract_query link = single_row (eq_filter ''name'' (drop (length ''/admin/contracts/'') link)
     (from_table ServiceClient ''contracts'' (QSelect ''*'')))"

definition displayName :: "string \<Rightarrow> string" where
  "displayName n = (case n of [] \<Rightarrow> [] | c # cs \<Rightarrow> upper_char c # cs)"

section \<open>Loading\<close>

text \<open>What a page shows while its query runs and after it failed: \<open>None\<close> is a query that has not
  answered. An empty error message is falsy, and the page keeps loading.\<close>

datatype 'v admin_screen = ShowError string | ShowLoading | ShowPage 'v | Crashed

definition admin_screen ::
  "string \<Rightarrow> (row list \<Rightarrow> 'v option) \<Rightarrow> (string + row list) option \<Rightarrow> 'v admin_screen" where
  "admin_screen fallback page answer =
     (case answer of
        None \<Rightarrow> ShowLoading
      | Some (Inl e) \<Rightarrow>
          (let message = (if e = '''' then fallback else e)
           in if message = '''' then ShowLoading else ShowError message)
      | Some (Inr rows) \<Rightarrow> (case page rows of None \<Rightarrow> Crashed | Some v \<Rightarrow> ShowPage v))"

section \<open>Lemmas\<close>

lemma get_absent: "k \<notin> fst ` set r \<Longrightarrow> get k r = Undefined"
  by (cases "map_of r k") (auto simp: get_def dest: map_of_SomeD intro: rev_image_eqI)

lemma those_None: "those xs = None \<longleftrightarrow> None \<in> set xs"
  by (induction xs) (auto split: option.splits)

lemma those_Some: "those (map f xs) = Some ys \<Longrightarrow> length ys = length xs \<and> (\<forall>i < length xs. f (xs ! i) = Some (ys ! i))"
  by (induction xs arbitrary: ys) (auto simp: nth_Cons split: option.splits nat.splits)

text \<open>A throwing filter is a filter, or throws when one of its tests does.\<close>

lemma filter_throwing_total:
  "filter_throwing p xs =
     (if \<exists>x \<in> set xs. p x = None then None else Some (filter (\<lambda>x. p x = Some True) xs))"
  by (induction xs) (auto split: option.splits bind_splits)

lemma filter_throwing_Some:
  "(\<And>x. x \<in> set xs \<Longrightarrow> p x = Some (b x)) \<Longrightarrow> filter_throwing p xs = Some (filter b xs)"
  by (induction xs) auto

text \<open>The text a search column of a row stands for.\<close>

definition key_text :: "row \<Rightarrow> search_key \<Rightarrow> string option" where
  "key_text r k = (case k of
       Required c \<Rightarrow> lowered (get c r)
     | Nullable c \<Rightarrow> lowered (get c r)
     | OrEmpty c \<Rightarrow> lowered (or_val (get c r) (Str '''')))"

definition readable :: "row \<Rightarrow> search_key \<Rightarrow> bool" where
  "readable r k \<longleftrightarrow> key_text r k \<noteq> None \<or> (\<exists>c. k = Nullable c \<and> nullish (get c r))"

definition found_in :: "string \<Rightarrow> row \<Rightarrow> search_key \<Rightarrow> bool" where
  "found_in q r k \<longleftrightarrow> (\<exists>s. key_text r k = Some s \<and> str_includes s q)"

lemma lowered_nullish: "nullish v \<Longrightarrow> lowered v = None"
  by (auto simp: nullish_def lowered_def)

lemma includes_key_readable: "readable r k \<Longrightarrow> includes_key q r k = Some (found_in q r k)"
  by (cases k) (auto simp: readable_def key_text_def found_in_def lowered_nullish)

lemma matches_row_readable:
  "\<forall>k \<in> set ks. readable r k \<Longrightarrow> matches_row q r ks = Some (\<exists>k \<in> set ks. found_in q r k)"
  by (induction ks) (auto simp: includes_key_readable)

lemma table_filter_readable:
  assumes "\<forall>r \<in> set rows. \<forall>k \<in> set keys. readable r k"
  shows "table_filter keys extra sq rows =
     Some (filter (\<lambda>r. (sq = '''' \<or> (\<exists>k \<in> set keys. found_in (to_lower sq) r k)) \<and> extra r) rows)"
  unfolding table_filter_def
  by (rule filter_throwing_Some) (use assms in \<open>auto simp: search_row_def matches_row_readable\<close>)

lemma table_filter_all: "table_filter keys extra '''' rows = Some (filter extra rows)"
  unfolding table_filter_def by (rule filter_throwing_Some) (simp add: search_row_def)

text \<open>A table with a row that cannot be shown cannot be shown.\<close>

lemma those_map_None: "those (map f xs) = None \<longleftrightarrow> (\<exists>x \<in> set xs. f x = None)"
  by (induction xs) (auto split: option.splits)

lemma all_rows: "(\<And>r. r \<in> set rows \<Longrightarrow> f r \<noteq> None) \<Longrightarrow> \<exists>cs. those (map f rows) = Some cs"
  using those_None[of "map f rows"] by fastforce

section \<open>The rows of the database\<close>

text \<open>The columns of the tables (\<open>supabase/migrations\<close> 001 to 004) and the values their checks admit.\<close>

definition columns_of :: "string \<Rightarrow> string list" where
  "columns_of t =
     (if t = ''slashing_events'' then [''id'', ''job_id'', ''node_id'', ''slash_amount_usd'', ''credit_amount_usd'',
        ''reason'', ''transaction_hash'', ''created_at'']
      else if t = ''disputes'' then [''id'', ''slashing_event_id'', ''status'', ''evidence'', ''resolution'',
        ''resolved_by'', ''created_at'', ''updated_at'']
      else if t = ''nodes'' then [''id'', ''wallet_address'', ''display_name'', ''gpu_model'', ''vram_total_mb'',
        ''status'', ''reputation_score'', ''total_jobs_completed'', ''last_heartbeat_at'', ''location'',
        ''price_per_minute_usd'', ''created_at'', ''updated_at'', ''stake_amount'', ''vram_used_mb'', ''cpu_cores'',
        ''uptime_seconds'', ''total_jobs_failed'']
      else if t = ''profiles'' then [''id'', ''email'', ''display_name'', ''avatar_url'', ''wallet_address'',
        ''created_at'', ''updated_at'', ''user_type'', ''onboarding_completed'']
      else [])"

definition row_of :: "string \<Rightarrow> row \<Rightarrow> bool" where
  "row_of t r \<longleftrightarrow> fst ` set r = set (columns_of t)"

definition stored_severities :: "string list" where
  "stored_severities = [''debug'', ''info'', ''warn'', ''error'', ''critical'']"

definition stored_proposal_status :: "string list" where
  "stored_proposal_status = [''draft'', ''active'', ''passed'', ''rejected'', ''expired'']"

definition stored_job :: "row \<Rightarrow> bool" where
  "stored_job r \<longleftrightarrow> (\<exists>i u s. get ''id'' r = Str i \<and> get ''user_id'' r = Str u \<and> get ''status'' r = Str s \<and>
     s \<in> set stored_job_status) \<and> (get ''budget_usd'' r = Null \<or> (\<exists>x. get ''budget_usd'' r = Num x))"

definition stored_alert :: "row \<Rightarrow> bool" where
  "stored_alert r \<longleftrightarrow> (\<exists>s \<in> set stored_severities. get ''severity'' r = Str s)"

definition stored_proposal :: "row \<Rightarrow> bool" where
  "stored_proposal r \<longleftrightarrow> (\<exists>s \<in> set stored_proposal_status. get ''status'' r = Str s) \<and>
     (\<exists>x y. get ''votes_for'' r = Num x \<and> get ''votes_against'' r = Num y) \<and> get ''created_at'' r \<noteq> Undefined"

definition stored_profile :: "row \<Rightarrow> bool" where
  "stored_profile r \<longleftrightarrow> row_of ''profiles'' r \<and>
     (get ''wallet_address'' r = Null \<or> (\<exists>a. get ''wallet_address'' r = Str a))"

lemma missing_column: "row_of t r \<Longrightarrow> k \<notin> set (columns_of t) \<Longrightarrow> get k r = Undefined"
  by (simp add: row_of_def get_absent)

lemma slash_cells_stored: "row_of ''slashing_events'' r \<Longrightarrow> slash_cells pd now r = None"
  by (simp add: slash_cells_def lookup_def missing_column columns_of_def)

lemma dispute_cells_stored: "row_of ''disputes'' r \<Longrightarrow> dispute_cells_of pd now r = None"
  using missing_column[of "''disputes''" r "''node_address''"]
  by (auto simp: dispute_cells_of_def short_address_def columns_of_def split: bind_splits)

lemma node_cells_stored: "row_of ''nodes'' r \<Longrightarrow> admin_node_cells now r = None"
  using missing_column[of "''nodes''" r "''total_stake''"]
  by (auto simp: admin_node_cells_def fixed_def columns_of_def split: bind_splits)

lemma alert_cells_stored: "stored_alert r \<Longrightarrow> alert_cells_of pd now r = None"
  by (auto simp: stored_alert_def alert_cells_of_def icon_of_def severities_def stored_severities_def
      split: bind_splits)

lemma job_cells_stored: "stored_job r \<Longrightarrow> admin_job_cells pd now r \<noteq> None"
  by (auto simp: stored_job_def admin_job_cells_def short_address_def fixed_def or_val_def StatusBadge_def
      lookup_def badge_labels_def stored_job_status_def)

lemma job_readable: "stored_job r \<Longrightarrow> k \<in> set job_keys \<Longrightarrow> readable r k"
  by (auto simp: stored_job_def job_keys_def readable_def key_text_def lowered_def or_val_def)

lemma proposal_cells_stored:
  "stored_proposal r \<Longrightarrow> proposal_cells_of fmt pd now r = None \<longleftrightarrow> get ''status'' r \<in> {Str ''draft'', Str ''expired''}"
proof -
  assume r: "stored_proposal r"
  then obtain s x y where s: "get ''status'' r = Str s" "s \<in> set stored_proposal_status"
    and v: "get ''votes_for'' r = Num x" "get ''votes_against'' r = Num y"
    by (auto simp: stored_proposal_def)
  have "date_shown (get ''created_at'' r) \<noteq> None"
    using r by (cases "get ''created_at'' r") (simp_all add: stored_proposal_def date_shown_def)
  then obtain d where d: "date_shown (get ''created_at'' r) = Some d" by blast
  have "proposal_cells_of fmt pd now r = None \<longleftrightarrow> map_of proposal_labels s = None"
    by (cases "map_of proposal_labels s") (simp_all add: proposal_cells_of_def s v d lookup_def localized_def)
  then show ?thesis
    using s(2) by (auto simp: s(1) stored_proposal_status_def proposal_labels_def)
qed

lemma user_cells_stored:
  "stored_profile r \<Longrightarrow> user_cells_of (map_profile pd r) = None \<longleftrightarrow> get ''wallet_address'' r = Null"
  by (auto simp: stored_profile_def user_cells_of_def map_profile_def short_address_def)

section \<open>Properties\<close>

text \<open>Also: the administration's table of jobs shows, for rows the database holds and any search, exactly the
  jobs whose identifier or client contains the searched text, ignoring case, in the order of the
  query, and its counters count the rows by status.\<close>

theorem admin_jobs_table:
  assumes "\<forall>r \<in> set rows. stored_job r"
  shows "\<exists>v. AdminJobs pd now sq rows = Some v \<and>
    map jc_id (av_rows v) = map (get ''id'') (filter (\<lambda>r. sq = '''' \<or>
      (\<exists>k \<in> {''id'', ''user_id''}. \<exists>s. get k r = Str s \<and> str_includes (to_lower s) (to_lower sq))) rows) \<and>
    av_shown v = length (av_rows v) \<and>
    av_counts v = [length rows, count_by (\<lambda>r. get ''status'' r \<in> {Str ''running'', Str ''pending''}) rows,
      count_by (\<lambda>r. get ''status'' r = Str ''failed'') rows]"
proof -
  let ?hit = "\<lambda>r. sq = '''' \<or> (\<exists>k \<in> {''id'', ''user_id''}. \<exists>s. get k r = Str s \<and> str_includes (to_lower s) (to_lower sq))"
  have keyt: "key_text r (Required ''id'') = lowered (get ''id'' r)"
    "key_text r (OrEmpty ''user_id'') = lowered (get ''user_id'' r)" if "r \<in> set rows" for r
    using assms that by (auto simp: key_text_def stored_job_def lowered_def or_val_def)
  have found: "(\<exists>k \<in> set job_keys. found_in q r k) \<longleftrightarrow>
      (\<exists>k \<in> {''id'', ''user_id''}. \<exists>s. get k r = Str s \<and> str_includes (to_lower s) q)" if "r \<in> set rows" for q r
    using keyt[OF that] by (auto simp: job_keys_def found_in_def lowered_def split: jsval.splits)
  have "\<forall>r \<in> set rows. \<forall>k \<in> set job_keys. readable r k"
    using assms job_readable by blast
  then have shown: "table_filter job_keys (\<lambda>_. True) sq rows = Some (filter ?hit rows)"
    by (subst table_filter_readable) (simp_all only: found simp_thms cong: filter_cong)
  obtain cs where cs: "those (map (admin_job_cells pd now) (filter ?hit rows)) = Some cs"
    using all_rows[of "filter ?hit rows" "admin_job_cells pd now"] assms job_cells_stored by auto
  have ids: "jc_id c = get ''id'' r" if "admin_job_cells pd now r = Some c" for r c
    using that by (auto simp: admin_job_cells_def split: bind_splits)
  have same: "length cs = length (filter ?hit rows)" "map jc_id cs = map (get ''id'') (filter ?hit rows)"
    using those_Some[OF cs] ids by (auto intro!: nth_equalityI)
  have counts: "count_status [''running'', ''pending''] rows =
      count_by (\<lambda>r. get ''status'' r \<in> {Str ''running'', Str ''pending''}) rows"
    "count_status [''failed''] rows = count_by (\<lambda>r. get ''status'' r = Str ''failed'') rows"
    by (simp_all add: count_status_def)
  show ?thesis
    by (simp only: AdminJobs_def shown cs Option.bind.simps counts admin_view.simps same option.inject ex_simps
        simp_thms)
qed

definition sample_job_row :: row where
  "sample_job_row = [(''id'', Str ''J1''), (''user_id'', Str ''u''), (''status'', Str ''running''), (''budget_usd'', Null)]"

lemma admin_jobs_table_witness:
  "\<exists>v. AdminJobs (\<lambda>_. Fin 0) (Fin 0) '''' [sample_job_row] = Some v \<and> map jc_id (av_rows v) = [Str ''J1'']"
  using admin_jobs_table[of "[sample_job_row]" "\<lambda>_. Fin 0" "Fin 0" "''''"]
  by (auto simp: stored_job_def sample_job_row_def get_def stored_job_status_def)

text \<open>C21: against the database as its migrations define it, four of the tables cannot show any row: the
  first slash event, dispute, alert or node makes the page throw, because the columns it formats do
  not exist or hold other values. The table of proposals throws exactly when one is a draft or has
  expired, and the table of users exactly when a profile has no wallet; every user it shows is
  labelled suspended.\<close>

theorem admin_tables_on_stored_rows:
  shows "(events \<noteq> [] \<and> (\<forall>r \<in> set events. row_of ''slashing_events'' r) \<longrightarrow>
      AdminSlashing pd now '''' None events = None) \<and>
    (disputes \<noteq> [] \<and> (\<forall>r \<in> set disputes. row_of ''disputes'' r) \<longrightarrow> AdminDisputes pd now '''' disputes = None) \<and>
    (alerts \<noteq> [] \<and> (\<forall>r \<in> set alerts. stored_alert r) \<longrightarrow> AdminAlerts pd now '''' None alerts = None) \<and>
    (nodes \<noteq> [] \<and> (\<forall>r \<in> set nodes. row_of ''nodes'' r) \<longrightarrow> AdminNodes now '''' None nodes = None) \<and>
    ((\<forall>r \<in> set props. stored_proposal r) \<longrightarrow>
      (AdminGovernance fmt pd now props = None \<longleftrightarrow>
         (\<exists>r \<in> set props. get ''status'' r \<in> {Str ''draft'', Str ''expired''}))) \<and>
    ((\<forall>r \<in> set profiles. stored_profile r) \<longrightarrow>
      (AdminUsers pd '''' profiles = None \<longleftrightarrow> (\<exists>r \<in> set profiles. get ''wallet_address'' r = Null)) \<and>
      (\<forall>v. AdminUsers pd '''' profiles = Some v \<longrightarrow> (\<forall>c \<in> set (av_rows v). uc_status c = ''Suspended'')))"
proof (intro conjI impI)
  assume "events \<noteq> [] \<and> (\<forall>r \<in> set events. row_of ''slashing_events'' r)"
  then show "AdminSlashing pd now '''' None events = None"
    by (auto simp: AdminSlashing_def table_filter_all choice_ok_def truthy_str_def bind_eq_None_conv those_None
        slash_cells_stored neq_Nil_conv)
next
  assume "disputes \<noteq> [] \<and> (\<forall>r \<in> set disputes. row_of ''disputes'' r)"
  then show "AdminDisputes pd now '''' disputes = None"
    by (auto simp: AdminDisputes_def table_filter_all bind_eq_None_conv those_None dispute_cells_stored neq_Nil_conv)
next
  assume "alerts \<noteq> [] \<and> (\<forall>r \<in> set alerts. stored_alert r)"
  then show "AdminAlerts pd now '''' None alerts = None"
    by (auto simp: AdminAlerts_def table_filter_all choice_ok_def truthy_str_def bind_eq_None_conv those_None
        alert_cells_stored neq_Nil_conv)
next
  assume "nodes \<noteq> [] \<and> (\<forall>r \<in> set nodes. row_of ''nodes'' r)"
  then show "AdminNodes now '''' None nodes = None"
    by (auto simp: AdminNodes_def table_filter_all choice_ok_def truthy_str_def bind_eq_None_conv those_None
        node_cells_stored neq_Nil_conv)
next
  assume "\<forall>r \<in> set props. stored_proposal r"
  then show "AdminGovernance fmt pd now props = None \<longleftrightarrow>
      (\<exists>r \<in> set props. get ''status'' r \<in> {Str ''draft'', Str ''expired''})"
    using proposal_cells_stored[of _ fmt pd now]
    by (simp add: AdminGovernance_def bind_eq_None_conv those_map_None cong: bex_cong)
next
  assume p: "\<forall>r \<in> set profiles. stored_profile r"
  have all: "filter_throwing (\<lambda>u. Some True) us = Some us" for us :: "admin_user list"
    by (induction us) auto
  show "AdminUsers pd '''' profiles = None \<longleftrightarrow> (\<exists>r \<in> set profiles. get ''wallet_address'' r = Null)"
    using p user_cells_stored[of _ pd]
    by (simp add: AdminUsers_def all Let_def bind_eq_None_conv those_map_None cong: bex_cong)
  show "\<forall>v. AdminUsers pd '''' profiles = Some v \<longrightarrow> (\<forall>c \<in> set (av_rows v). uc_status c = ''Suspended'')"
  proof (intro allI impI ballI)
    fix v c assume "AdminUsers pd '''' profiles = Some v" and c: "c \<in> set (av_rows v)"
    then have cs: "those (map user_cells_of (map (map_profile pd) profiles)) = Some (av_rows v)"
      by (auto simp: AdminUsers_def all Let_def split: bind_splits)
    then obtain i where i: "i < length profiles" "user_cells_of (map_profile pd (profiles ! i)) = Some c"
      using c those_Some[OF cs] by (auto simp: in_set_conv_nth)
    then have "get ''status'' (profiles ! i) = Undefined"
      using p missing_column[of "''profiles''"] by (simp add: stored_profile_def columns_of_def)
    with i(2) show "uc_status c = ''Suspended''"
      by (auto simp: user_cells_of_def map_profile_def split: bind_splits)
  qed
qed

definition sample_alert_row :: row where
  "sample_alert_row = [(''id'', Str ''a''), (''severity'', Str ''critical''), (''message'', Str ''m'')]"

lemma admin_tables_on_stored_rows_witness:
  "AdminAlerts (\<lambda>_. Fin 0) (Fin 0) '''' None [sample_alert_row] = None"
proof -
  have "stored_alert sample_alert_row"
    by (simp add: stored_alert_def sample_alert_row_def get_def stored_severities_def)
  then show ?thesis
    using admin_tables_on_stored_rows[where alerts = "[sample_alert_row]" and pd = "\<lambda>_. Fin 0" and now = "Fin 0"]
    by simp
qed

lemma contract_query_link: "q_filters (contract_query (''/admin/contracts/'' @ n)) = [(''name'', n)]"
  by (simp add: contract_query_def query_builders)

text \<open>Also: the link of a contract in the table leads to a query for its name in lower case, so the contract
  is asked for under its own name exactly when that has no capital letters; and a table of contracts
  with names is always shown.\<close>

theorem contract_link_query:
  assumes "\<forall>r \<in> set rows. \<exists>n. get ''name'' r = Str n"
  shows "\<exists>cs. AdminContracts now rows = Some cs \<and> length cs = length rows \<and>
    (\<forall>i < length rows. \<forall>n. get ''name'' (rows ! i) = Str n \<longrightarrow>
       q_filters (contract_query (cc_link (cs ! i))) = [(''name'', to_lower n)] \<and>
       (q_filters (contract_query (cc_link (cs ! i))) = [(''name'', n)] \<longleftrightarrow> to_lower n = n))"
proof -
  have "contract_cells_of now r \<noteq> None" if "r \<in> set rows" for r
    using assms that by (auto simp: contract_cells_of_def lowered_def split: jsval.splits)
  then obtain cs where cs: "those (map (contract_cells_of now) rows) = Some cs"
    using all_rows by meson
  have "cc_link c = ''/admin/contracts/'' @ to_lower n"
    if "contract_cells_of now r = Some c" "get ''name'' r = Str n" for r c n
    using that by (auto simp: contract_cells_of_def lowered_def)
  then have "q_filters (contract_query (cc_link (cs ! i))) = [(''name'', to_lower n)]"
    if "i < length rows" "get ''name'' (rows ! i) = Str n" for i n
    using those_Some[OF cs] that contract_query_link by metis
  then show ?thesis
    using those_Some[OF cs] cs by (auto simp: AdminContracts_def)
qed

lemma contract_link_query_witness:
  "\<exists>cs. AdminContracts (Fin 0) [[(''name'', Str ''escrow'')]] = Some cs \<and>
     q_filters (contract_query (cc_link (cs ! 0))) = [(''name'', ''escrow'')]"
proof -
  have name: "get ''name'' [(''name'', Str ''escrow'')] = Str ''escrow''" by (simp add: get_def)
  have "to_lower ''escrow'' = ''escrow''" by code_simp
  then show ?thesis
    using contract_link_query[of "[[(''name'', Str ''escrow'')]]" "Fin 0"] name by auto
qed

text \<open>Also: the shares of a proposal's votes add up to a hundred per cent once somebody voted, the quorum bar
  never exceeds a hundred, and the quorum is marked as reached exactly when there are enough votes.\<close>

theorem vote_shares:
  assumes "0 \<le> x" "0 \<le> y" "0 < quorum"
  defines "v \<equiv> vote_panel (Fin x) (Fin y) (Fin quorum)"
  shows "js_add (vp_for v) (vp_against v) = (if x + y = 0 then Fin 0 else Fin 100) \<and>
    (\<exists>b. vp_bar v = Fin b \<and> 0 \<le> b \<and> b \<le> 100) \<and> (vp_reached v \<longleftrightarrow> quorum \<le> x + y)"
proof -
  have sum: "x / (x + y) * 100 + y / (x + y) * 100 = 100" if "x + y \<noteq> 0"
  proof -
    have "x / (x + y) * 100 + y / (x + y) * 100 = (x + y) / (x + y) * 100"
      by (simp only: add_divide_distrib distrib_right)
    then show ?thesis using that by simp
  qed
  have scale: "100 \<le> t * 100 \<longleftrightarrow> 1 \<le> t" for t :: rat by linarith
  have "100 \<le> (x + y) / quorum * 100 \<longleftrightarrow> quorum \<le> x + y"
    unfolding scale using assms(3) by (rule le_divide_eq_1_pos)
  moreover have "0 \<le> (x + y) / quorum * 100"
    using assms by simp
  ultimately show ?thesis
    using sum assms(1-3) unfolding v_def
    by (auto simp: vote_panel_def Let_def js_signed_inf_def)
qed

lemma vote_shares_witness:
  "vp_reached (vote_panel (Fin 60) (Fin 40) (Fin 100))"
  using vote_shares[of 60 40 100] by simp


end
