(* ===== verification/AdminSlashing.thy ===== *)
theory AdminSlashing
  imports AdminTables "HOL-Library.AList"
begin

text \<open>
  The slashing review page, \<open>app/(dashboard)/admin/slashing/page.tsx\<close>, as a state machine: the loaded
  events, the selected one, the two dialogs and the two decisions, overriding and executing a slash.
  The decisions change the page's own list; nothing is sent to the backend.
\<close>

section \<open>State and handlers\<close>

record slashing_page =
  events :: "row list option"
  sp_loading :: bool
  sp_error :: "string option"
  sp_search :: string
  sp_choice :: "string option"
  selectedEvent :: "row option"
  showDetailModal :: bool
  showOverrideModal :: bool
  overrideReason :: string

definition slashing_init :: slashing_page where
  "slashing_init = \<lparr>events = None, sp_loading = True, sp_error = None, sp_search = '''', sp_choice = None,
     selectedEvent = None, showDetailModal = False, showOverrideModal = False, overrideReason = ''''\<rparr>"

definition loadData :: "string + row list \<Rightarrow> slashing_page \<Rightarrow> slashing_page" where
  [handler_defs]: "loadData answer s =
     (case answer of
        Inl e \<Rightarrow> s\<lparr>sp_error := Some e, events := Some [], sp_loading := False\<rparr>
      | Inr rows \<Rightarrow> s\<lparr>sp_error := None, events := Some rows, sp_loading := False\<rparr>)"

definition openDetailModal :: "row \<Rightarrow> slashing_page \<Rightarrow> slashing_page" where
  [handler_defs]: "openDetailModal e s = s\<lparr>selectedEvent := Some e, showDetailModal := True\<rparr>"

definition openOverrideModal :: "row \<Rightarrow> slashing_page \<Rightarrow> slashing_page" where
  [handler_defs]: "openOverrideModal e s = s\<lparr>selectedEvent := Some e, overrideReason := '''', showOverrideModal := True\<rparr>"

text \<open>The events with the given identifier, changed by \<open>f\<close>.\<close>

definition change_event :: "jsval \<Rightarrow> (row \<Rightarrow> row) \<Rightarrow> row list option \<Rightarrow> row list option" where
  "change_event k f prev = Some (map (\<lambda>e. if get ''id'' e = k then f e else e) (or_else prev []))"

definition overridden_row :: "int \<Rightarrow> row \<Rightarrow> row" where
  "overridden_row now e =
     AList.update ''resolvedAt'' (Num (js_int now)) (AList.update ''status'' (Str ''overridden'') e)"

definition executed_row :: "row \<Rightarrow> row" where
  "executed_row e = AList.update ''status'' (Str ''executed'') e"

definition overrideSlash :: "int \<Rightarrow> slashing_page \<Rightarrow> slashing_page" where
  [handler_defs]: "overrideSlash now s =
     (case selectedEvent s of
        None \<Rightarrow> s
      | Some e \<Rightarrow> s\<lparr>events := change_event (get ''id'' e) (overridden_row now) (events s),
                  showOverrideModal := False, showDetailModal := False, selectedEvent := None\<rparr>)"

definition executeSlash :: "jsval \<Rightarrow> slashing_page \<Rightarrow> slashing_page" where
  [handler_defs]: "executeSlash k s =
     s\<lparr>events := change_event k executed_row (events s), showDetailModal := False, selectedEvent := None\<rparr>"

section \<open>What the user can do\<close>

datatype slashing_event =
    Answered "string + row list"
  | SearchTyped string
  | StatusChosen "string option"
  | EventClicked row
  | EyeClicked
  | OverrideClicked
  | ConfirmClicked
  | DetailClosed
  | DetailOverride
  | OverrideCancelled
  | ReasonTyped string
  | OverrideConfirmed int

fun slashing_step :: "slashing_event \<Rightarrow> slashing_page \<Rightarrow> slashing_page" where
  "slashing_step (Answered a) s = loadData a s"
| "slashing_step (SearchTyped q) s = s\<lparr>sp_search := q\<rparr>"
| "slashing_step (StatusChosen c) s = s\<lparr>sp_choice := c\<rparr>"
| "slashing_step (EventClicked e) s = openDetailModal e s"
| "slashing_step EyeClicked s = (case selectedEvent s of None \<Rightarrow> s | Some e \<Rightarrow> openDetailModal e s)"
| "slashing_step OverrideClicked s = (case selectedEvent s of None \<Rightarrow> s | Some e \<Rightarrow> openOverrideModal e s)"
| "slashing_step ConfirmClicked s = (case selectedEvent s of None \<Rightarrow> s | Some e \<Rightarrow> executeSlash (get ''id'' e) s)"
| "slashing_step DetailClosed s = s\<lparr>showDetailModal := False\<rparr>"
| "slashing_step DetailOverride s =
     (case selectedEvent s of None \<Rightarrow> s | Some e \<Rightarrow> openOverrideModal e (s\<lparr>showDetailModal := False\<rparr>))"
| "slashing_step OverrideCancelled s = s\<lparr>showOverrideModal := False\<rparr>"
| "slashing_step (ReasonTyped r) s = s\<lparr>overrideReason := r\<rparr>"
| "slashing_step (OverrideConfirmed now) s = overrideSlash now s"

definition pending :: "row option \<Rightarrow> bool" where
  "pending e \<longleftrightarrow> (case e of None \<Rightarrow> False | Some r \<Rightarrow> get ''status'' r = Str ''pending'')"

text \<open>
  A control can be used when it is rendered and enabled: a click on an event needs the event in the
  list, the buttons of a decision need a pending selected event, confirming an override needs a
  reason. \<open>mouse\<close>: the user has only a mouse, which does not reach what is behind an open dialog.
\<close>

fun slashing_ok :: "bool \<Rightarrow> slashing_event \<Rightarrow> slashing_page \<Rightarrow> bool" where
  "slashing_ok mouse (Answered a) s \<longleftrightarrow> events s = None"
| "slashing_ok mouse (EventClicked e) s \<longleftrightarrow>
     e \<in> set (or_else (events s) []) \<and> (mouse \<longrightarrow> \<not> showDetailModal s \<and> \<not> showOverrideModal s)"
| "slashing_ok mouse EyeClicked s \<longleftrightarrow>
     selectedEvent s \<noteq> None \<and> (mouse \<longrightarrow> \<not> showDetailModal s \<and> \<not> showOverrideModal s)"
| "slashing_ok mouse OverrideClicked s \<longleftrightarrow>
     pending (selectedEvent s) \<and> (mouse \<longrightarrow> \<not> showDetailModal s \<and> \<not> showOverrideModal s)"
| "slashing_ok mouse ConfirmClicked s \<longleftrightarrow> pending (selectedEvent s) \<and> (mouse \<longrightarrow> \<not> showOverrideModal s)"
| "slashing_ok mouse DetailOverride s \<longleftrightarrow> pending (selectedEvent s) \<and> showDetailModal s"
| "slashing_ok mouse (OverrideConfirmed now) s \<longleftrightarrow> showOverrideModal s \<and> str_trim (overrideReason s) \<noteq> ''''"
| "slashing_ok mouse _ s \<longleftrightarrow> True"

section \<open>Lemmas\<close>

lemma get_update: "get k (AList.update j v r) = (if k = j then v else get k r)"
  by (simp add: get_def update_conv')

lemma decided_rows:
  "get ''id'' (executed_row e) = get ''id'' e" "get ''status'' (executed_row e) = Str ''executed''"
  "get ''id'' (overridden_row now e) = get ''id'' e" "get ''status'' (overridden_row now e) = Str ''overridden''"
  by (simp_all add: executed_row_def overridden_row_def get_update)

text \<open>What a row may have become: it is as it was loaded, or it was decided; from a pending one alone when
  \<open>strict\<close>. An executed slash was always pending before.\<close>

definition evolved :: "bool \<Rightarrow> row \<Rightarrow> row \<Rightarrow> bool" where
  "evolved strict old new \<longleftrightarrow> get ''id'' new = get ''id'' old \<and>
     (new = old \<or>
      get ''status'' new = Str ''executed'' \<and> get ''status'' old = Str ''pending'' \<or>
      get ''status'' new = Str ''overridden'' \<and> (strict \<longrightarrow> get ''status'' old = Str ''pending''))"

definition slashing_inv :: "bool \<Rightarrow> row list \<Rightarrow> slashing_page \<Rightarrow> bool" where
  "slashing_inv mouse loaded s \<longleftrightarrow>
     (events s = None \<longrightarrow> selectedEvent s = None) \<and>
     (\<forall>rows. events s = Some rows \<longrightarrow> list_all2 (evolved mouse) loaded rows) \<and>
     (\<forall>e. selectedEvent s = Some e \<longrightarrow> (\<exists>rows. events s = Some rows \<and> e \<in> set rows)) \<and>
     (mouse \<and> showOverrideModal s \<and> selectedEvent s \<noteq> None \<longrightarrow> pending (selectedEvent s))"

lemma evolved_ids: "list_all2 (evolved m) loaded rows \<Longrightarrow> map (get ''id'') rows = map (get ''id'') loaded"
  by (induction rule: list_all2_induct) (auto simp: evolved_def)

lemma evolved_pending:
  "evolved m old e \<Longrightarrow> pending (Some e) \<Longrightarrow> evolved m old (executed_row e) \<and> evolved m old (overridden_row now e)"
  by (auto simp: evolved_def pending_def decided_rows)

lemma evolved_override: "evolved False old e \<Longrightarrow> evolved False old (overridden_row now e)"
  by (auto simp: evolved_def decided_rows)

text \<open>Changing the rows with the identifier of a listed row changes that row alone.\<close>

lemma change_evolved:
  assumes "list_all2 (evolved m) loaded rows" "distinct (map (get ''id'') loaded)" "e \<in> set rows"
    and f: "\<And>old. evolved m old e \<Longrightarrow> evolved m old (f e)"
  shows "\<exists>new. change_event (get ''id'' e) f (Some rows) = Some new \<and> list_all2 (evolved m) loaded new"
proof -
  have dist: "distinct (map (get ''id'') rows)"
    using assms(1,2) by (simp add: evolved_ids)
  have same: "x = e" if "x \<in> set rows" "get ''id'' x = get ''id'' e" for x
    using dist assms(3) that by (auto simp: distinct_map inj_on_def)
  have "list_all2 (evolved m) loaded (map (\<lambda>x. if get ''id'' x = get ''id'' e then f x else x) rows)"
    unfolding list.rel_map
    using assms(1) by (rule list.rel_mono_strong) (use same f in fastforce)
  then show ?thesis by (simp add: change_event_def or_else_def)
qed

lemma slashing_inv_init: "slashing_inv m loaded (loadData (Inr loaded) slashing_init)"
  by (simp add: slashing_inv_def loadData_def slashing_init_def list.rel_refl evolved_def)

lemma slashing_inv_decide:
  assumes "slashing_inv m loaded s" "distinct (map (get ''id'') loaded)" "selectedEvent s = Some e"
    and "\<And>old. evolved m old e \<Longrightarrow> evolved m old (f e)"
  shows "slashing_inv m loaded (s\<lparr>events := change_event (get ''id'' e) f (events s), showOverrideModal := b,
    showDetailModal := c, selectedEvent := None\<rparr>)"
proof -
  from assms(1,3) obtain rows where rows: "events s = Some rows" "e \<in> set rows" "list_all2 (evolved m) loaded rows"
    by (auto simp: slashing_inv_def)
  from change_evolved[OF rows(3) assms(2) rows(2), of f] assms(4) rows(1) show ?thesis
    by (auto simp: slashing_inv_def change_event_def)
qed

lemma slashing_inv_step:
  assumes "slashing_inv m loaded s" "slashing_ok m ev s" "events s \<noteq> None" "distinct (map (get ''id'') loaded)"
  shows "slashing_inv m loaded (slashing_step ev s) \<and> events (slashing_step ev s) \<noteq> None"
proof (cases ev)
  case ConfirmClicked
  then obtain e where e: "selectedEvent s = Some e" "pending (Some e)"
    using assms(2) by (cases "selectedEvent s") (auto simp: pending_def)
  have "slashing_inv m loaded (s\<lparr>events := change_event (get ''id'' e) executed_row (events s),
      showOverrideModal := showOverrideModal s, showDetailModal := False, selectedEvent := None\<rparr>)"
    by (rule slashing_inv_decide[OF assms(1,4) e(1)]) (use evolved_pending e(2) in blast)
  then show ?thesis by (simp add: ConfirmClicked e executeSlash_def change_event_def)
next
  case (OverrideConfirmed now)
  show ?thesis
  proof (cases "selectedEvent s")
    case None
    then show ?thesis using assms OverrideConfirmed by (simp add: overrideSlash_def)
  next
    case (Some e)
    have p: "m \<Longrightarrow> pending (Some e)"
      using assms(1,2) OverrideConfirmed Some by (simp add: slashing_inv_def)
    have "evolved m old (overridden_row now e)" if "evolved m old e" for old
      using that p evolved_pending evolved_override by (cases m) auto
    with slashing_inv_decide[OF assms(1,4) Some, of "overridden_row now" False False] Some OverrideConfirmed
    show ?thesis by (simp add: overrideSlash_def change_event_def)
  qed
qed (use assms in \<open>auto simp: slashing_inv_def handler_defs or_else_def split: option.splits\<close>)

lemma slashing_inv_run:
  "slashing_inv m loaded s \<Longrightarrow> events s \<noteq> None \<Longrightarrow> distinct (map (get ''id'') loaded) \<Longrightarrow>
   legal_run slashing_step (slashing_ok m) es s \<Longrightarrow>
   slashing_inv m loaded (fold slashing_step es s) \<and> events (fold slashing_step es s) \<noteq> None"
proof (induction es arbitrary: s)
  case (Cons e es)
  then show ?case using slashing_inv_step[of m loaded s e] by simp
qed simp

section \<open>Properties\<close>

text \<open>C20: whatever the administrator does on the slashing page, the list keeps the loaded events in their
  order, and each is unchanged, executed or overridden; only pending slashes are executed, and with a
  mouse only pending ones are overridden.\<close>

theorem slashing_decisions:
  assumes "distinct (map (get ''id'') loaded)"
    and "legal_run slashing_step (slashing_ok mouse) es (loadData (Inr loaded) slashing_init)"
  shows "\<exists>rows. events (fold slashing_step es (loadData (Inr loaded) slashing_init)) = Some rows \<and>
    map (get ''id'') rows = map (get ''id'') loaded \<and>
    (\<forall>i < length loaded. rows ! i = loaded ! i \<or>
       get ''status'' (rows ! i) = Str ''executed'' \<and> get ''status'' (loaded ! i) = Str ''pending'' \<or>
       get ''status'' (rows ! i) = Str ''overridden'' \<and> (mouse \<longrightarrow> get ''status'' (loaded ! i) = Str ''pending''))"
proof -
  have "slashing_inv mouse loaded (fold slashing_step es (loadData (Inr loaded) slashing_init)) \<and>
      events (fold slashing_step es (loadData (Inr loaded) slashing_init)) \<noteq> None"
    by (rule slashing_inv_run[OF slashing_inv_init _ assms(1,2)]) (simp add: loadData_def)
  then obtain rows where "events (fold slashing_step es (loadData (Inr loaded) slashing_init)) = Some rows"
    "list_all2 (evolved mouse) loaded rows"
    by (auto simp: slashing_inv_def)
  then show ?thesis
    using evolved_ids by (fastforce simp: list_all2_conv_all_nth evolved_def)
qed

definition sample_slash :: "string \<Rightarrow> string \<Rightarrow> row" where
  "sample_slash i st = [(''id'', Str i), (''status'', Str st)]"

lemma slashing_decisions_witness:
  "\<exists>rows. events (fold slashing_step [EventClicked (sample_slash ''1'' ''pending''), ConfirmClicked]
      (loadData (Inr [sample_slash ''1'' ''pending'']) slashing_init)) = Some rows \<and>
    map (get ''id'') rows = [Str ''1'']"
proof -
  have run: "legal_run slashing_step (slashing_ok True) [EventClicked (sample_slash ''1'' ''pending''), ConfirmClicked]
      (loadData (Inr [sample_slash ''1'' ''pending'']) slashing_init)"
    by (simp add: handler_defs slashing_init_def or_else_def pending_def sample_slash_def get_def)
  from slashing_decisions[OF _ run] show ?thesis by (auto simp: sample_slash_def get_def)
qed

text \<open>Also: with the keyboard, which the dialogs do not hold, the confirmation of one override can be turned
  on another event: the reason typed for a pending slash then overrides one that was executed.\<close>

theorem executed_slash_overridden:
  "\<exists>es. legal_run slashing_step (slashing_ok False) es
      (loadData (Inr [sample_slash ''1'' ''pending'', sample_slash ''2'' ''executed'']) slashing_init) \<and>
    map (map_option (map (get ''status'')))
      [events (fold slashing_step es (loadData (Inr [sample_slash ''1'' ''pending'', sample_slash ''2'' ''executed''])
        slashing_init))] = [Some [Str ''pending'', Str ''overridden'']]"
  by (rule exI[of _ "[EventClicked (sample_slash ''1'' ''pending''), DetailOverride, ReasonTyped ''r'',
      EventClicked (sample_slash ''2'' ''executed''), OverrideConfirmed 0]"])
    (simp add: handler_defs slashing_init_def or_else_def pending_def sample_slash_def get_def change_event_def
      overridden_row_def str_trim_def is_ws_def)

end
