(* ===== verification/Auth.thy ===== *)
theory Auth
  imports Domain
begin

text \<open>
  Who may see which page: the route tables, the redirecting effect and the role tests of
  \<open>hooks/use-auth.ts\<close>, the session provider \<open>components/providers/supabase-auth-provider.tsx\<close>, the
  guard of \<open>components/providers/require-auth.tsx\<close>, the dashboard layout, the session timeout and
  the redirect of the login page. The session comes from the authentication service, outside the
  repository, as events of the provider. A role is a string here, as it is at run time: the user's
  metadata is cast, not checked.
\<close>

section \<open>Route tables\<close>

record protected_route =
  path :: string
  roles :: "user_role list option"
  exact :: bool

definition protect :: "string \<Rightarrow> user_role list option \<Rightarrow> bool \<Rightarrow> protected_route" where
  "protect p r e = \<lparr>path = p, roles = r, exact = e\<rparr>"

definition PROTECTED_ROUTES :: "protected_route list" where
  "PROTECTED_ROUTES = [
     protect ''/dashboard'' None True,
     protect ''/dashboard/jobs'' (Some [Admin, Member, Viewer]) False,
     protect ''/dashboard/nodes'' (Some [Admin, Member, Viewer]) False,
     protect ''/dashboard/analytics'' (Some [Admin, Member]) False,
     protect ''/dashboard/wallet'' (Some [Admin, Member, Viewer]) False,
     protect ''/dashboard/settings'' (Some [Admin, Member, Viewer]) False,
     protect ''/dashboard/admin'' (Some [Admin]) False]"

definition PUBLIC_ROUTES :: "string list" where
  "PUBLIC_ROUTES = [''/'', ''/login'', ''/signup'', ''/docs'', ''/features'', ''/pricing'',
     ''/explore'', ''/onboarding'']"

definition isRouteProtected :: "string \<Rightarrow> protected_route option" where
  "isRouteProtected pathname =
     find (\<lambda>r. if exact r then pathname = path r else starts_with (path r) pathname) PROTECTED_ROUTES"

definition isPublicRoute :: "string \<Rightarrow> bool" where
  "isPublicRoute pathname \<longleftrightarrow>
     list_ex (\<lambda>r. if r = ''/'' then pathname = ''/'' else starts_with r pathname) PUBLIC_ROUTES"

section \<open>Users\<close>

record sb_metadata =
  display_name :: "string option"
  full_name :: "string option"
  avatar_url :: "string option"
  meta_role :: "string option"
  meta_user_type :: "string option"

record sb_user =
  sb_id :: string
  sb_email :: "string option"
  user_metadata :: sb_metadata

record local_user =
  uid :: string
  email :: string
  name :: string
  avatar :: "string option"
  role :: string
  userType :: "string option"

text \<open>\<open>a || b\<close> on strings that may be missing.\<close>

definition str_or :: "string option \<Rightarrow> string option \<Rightarrow> string option" where
  "str_or a b = (case a of Some s \<Rightarrow> if s = '''' then b else a | None \<Rightarrow> b)"

definition mapSbUser :: "sb_user \<Rightarrow> local_user" where
  "mapSbUser u = (let m = user_metadata u in
     \<lparr>uid = sb_id u,
      email = (case sb_email u of Some e \<Rightarrow> e | None \<Rightarrow> ''''),
      name = the (str_or (display_name m) (str_or (full_name m)
               (str_or (map_option (\<lambda>e. hd (split_on (CHR ''@'') e)) (sb_email u)) (Some ''User'')))),
      avatar = avatar_url m,
      role = (case meta_role m of Some r \<Rightarrow> r | None \<Rightarrow> ''member''),
      userType = meta_user_type m\<rparr>)"

lemma str_or_Some: "b = Some s \<Longrightarrow> s \<noteq> '''' \<Longrightarrow> \<exists>t. str_or a b = Some t \<and> t \<noteq> ''''"
  by (auto simp: str_or_def split: option.splits)

lemma mapSbUser_name: "name (mapSbUser u) \<noteq> ''''"
proof -
  obtain t1 where t1: "str_or (map_option (\<lambda>e. hd (split_on (CHR ''@'') e)) (sb_email u)) (Some ''User'') = Some t1"
    "t1 \<noteq> ''''"
    using str_or_Some[OF refl, of "''User''"] by auto
  obtain t2 where t2: "str_or (full_name (user_metadata u)) (Some t1) = Some t2" "t2 \<noteq> ''''"
    using str_or_Some[OF refl t1(2)] by blast
  obtain t3 where "str_or (display_name (user_metadata u)) (Some t2) = Some t3" "t3 \<noteq> ''''"
    using str_or_Some[OF refl t2(2)] by blast
  with t1 t2 show ?thesis by (simp add: mapSbUser_def Let_def)
qed

text \<open>The user the hook exposes: the store's user type, when set, replaces the one of the session.\<close>

definition exposed_user :: "sb_user option \<Rightarrow> string option \<Rightarrow> local_user option" where
  "exposed_user u ut = (case map_option mapSbUser u of None \<Rightarrow> None
     | Some l \<Rightarrow> (case ut of Some t \<Rightarrow> Some (l\<lparr>userType := Some t\<rparr>) | None \<Rightarrow> Some l))"

definition hasRole :: "user_role list \<Rightarrow> local_user option \<Rightarrow> bool" where
  "hasRole rs u = (case u of None \<Rightarrow> False | Some l \<Rightarrow> role l \<in> role_str ` set rs)"

definition isAdmin :: "local_user option \<Rightarrow> bool" where
  "isAdmin u \<longleftrightarrow> (case u of None \<Rightarrow> False | Some l \<Rightarrow> role l = ''admin'')"

section \<open>The session provider\<close>

record auth_ctx =
  ctx_user :: "sb_user option"
  ctx_session :: "sb_user option"
  isLoading :: bool

text \<open>A session is represented by its user; \<open>session?.user ?? null\<close> is then the session itself.\<close>

definition ctx_init :: auth_ctx where
  "ctx_init = \<lparr>ctx_user = None, ctx_session = None, isLoading = True\<rparr>"

datatype ctx_event = InitialSession "sb_user option" | AuthStateChange "sb_user option" | SignOut

fun ctx_step :: "ctx_event \<Rightarrow> auth_ctx \<Rightarrow> auth_ctx" where
  "ctx_step (InitialSession s) c = c\<lparr>ctx_session := s, ctx_user := s, isLoading := False\<rparr>"
| "ctx_step (AuthStateChange s) c = c\<lparr>ctx_session := s, ctx_user := s, isLoading := False\<rparr>"
| "ctx_step SignOut c = c\<lparr>ctx_user := None, ctx_session := None\<rparr>"

definition ctx_inv :: "auth_ctx \<Rightarrow> bool" where
  "ctx_inv c \<longleftrightarrow> ctx_user c = ctx_session c \<and> (isLoading c \<longrightarrow> ctx_user c = None)"

interpretation auth_provider: state_machine ctx_step ctx_inv ctx_init
proof
  show "ctx_inv ctx_init" by (simp add: ctx_inv_def ctx_init_def)
  show "ctx_inv (ctx_step e c)" if "ctx_inv c" for e c
    using that by (cases e) (auto simp: ctx_inv_def)
qed

definition isAuthenticated :: "auth_ctx \<Rightarrow> bool" where
  "isAuthenticated c \<longleftrightarrow> ctx_user c \<noteq> None"

section \<open>Redirects\<close>

text \<open>
  \<open>encodeURIComponent\<close> and the query decoding of \<open>URLSearchParams\<close>, on ASCII: the path names of the
  router are percent-encoded already.
\<close>

definition unreserved :: "char \<Rightarrow> bool" where
  "unreserved c \<longleftrightarrow> c \<in> set ''ABCDEFGHIJKLMNOPQRSTUVWXYZabcdefghijklmnopqrstuvwxyz0123456789-_.!~*()'' \<or>
     c = CHR 0x27"

definition hex_digits :: string where "hex_digits = ''0123456789ABCDEF''"

definition pct :: "char \<Rightarrow> string" where
  "pct c = (let n = of_char c :: nat in
     ''%'' @ [hex_digits ! (n div 16), hex_digits ! (n mod 16)])"

definition encodeURIComponent :: "string \<Rightarrow> string" where
  "encodeURIComponent s = concat (map (\<lambda>c. if unreserved c then [c] else pct c) s)"

definition hex_digit_val :: "char \<Rightarrow> nat option" where
  "hex_digit_val c = map_of (zip ''0123456789ABCDEFabcdef'' ([0..<16] @ [10..<16])) c"

fun query_decode :: "string \<Rightarrow> string" where
  "query_decode [] = []"
| "query_decode (c # s) =
     (if c = CHR ''+'' then CHR '' '' # query_decode s
      else if c = CHR ''%'' then
        (case s of a # b # r \<Rightarrow>
           (case (hex_digit_val a, hex_digit_val b) of
              (Some x, Some y) \<Rightarrow> char_of (x * 16 + y) # query_decode r
            | _ \<Rightarrow> c # query_decode s)
         | _ \<Rightarrow> c # query_decode s)
      else c # query_decode s)"

text \<open>\<open>searchParams.get(name)\<close> for a URL: the first parameter with that name.\<close>

definition split_pair :: "string \<Rightarrow> string \<times> string" where
  "split_pair p = (query_decode (takeWhile (\<lambda>c. c \<noteq> CHR ''='') p),
     query_decode (drop 1 (dropWhile (\<lambda>c. c \<noteq> CHR ''='') p)))"

definition search_param :: "string \<Rightarrow> string \<Rightarrow> string option" where
  "search_param n url =
     map_of (map split_pair (split_on (CHR ''&'') (drop 1 (dropWhile (\<lambda>c. c \<noteq> CHR ''?'') url)))) n"

text \<open>The effect of \<open>useAuth\<close>: where it sends the browser, if anywhere.\<close>

definition auth_effect :: "string \<Rightarrow> auth_ctx \<Rightarrow> string option" where
  "auth_effect pathname c =
     (if isLoading c \<or> isPublicRoute pathname then None
      else (case (isRouteProtected pathname, ctx_user c) of
          (Some r, None) \<Rightarrow> Some (''/login?returnUrl='' @ encodeURIComponent pathname)
        | (Some r, Some u) \<Rightarrow>
            (case roles r of None \<Rightarrow> None
             | Some rs \<Rightarrow>
                 (let ur = (case meta_role (user_metadata u) of Some x \<Rightarrow> x | None \<Rightarrow> ''member'') in
                  if ur \<in> role_str ` set rs then None else Some ''/dashboard''))
        | (None, _) \<Rightarrow> None))"

text \<open>The login page: where an authenticated user is sent.\<close>

definition login_returnUrl :: "string \<Rightarrow> string" where
  "login_returnUrl url = the (str_or (search_param ''returnUrl'' url) (Some ''/dashboard''))"

definition login_effect :: "string \<Rightarrow> auth_ctx \<Rightarrow> string option" where
  "login_effect url c = (if isAuthenticated c then Some (login_returnUrl url) else None)"

text \<open>\<open>useAuthRedirect\<close>: the effect looks once, when the component mounts.\<close>

definition auth_redirect :: "bool \<Rightarrow> string \<Rightarrow> auth_ctx \<Rightarrow> bool \<times> string option" where
  "auth_redirect initialized pathname c =
     (if initialized then (True, None)
      else (True, if \<not> isLoading c \<and> isAuthenticated c \<and> (pathname = ''/login'' \<or> pathname = ''/signup'')
                  then Some ''/dashboard'' else None))"

section \<open>Guards\<close>

definition useProtectedRoute :: "user_role list option \<Rightarrow> string option \<Rightarrow> auth_ctx \<Rightarrow> bool" where
  "useProtectedRoute requiredRoles ut c \<longleftrightarrow>
     \<not> isLoading c \<and> isAuthenticated c \<and>
     (case requiredRoles of None \<Rightarrow> True | Some rs \<Rightarrow> hasRole rs (exposed_user (ctx_user c) ut))"

definition roleHierarchy :: "string \<Rightarrow> int" where
  "roleHierarchy r = (case map_of [(''viewer'', 0), (''member'', 1), (''admin'', 2)] r of
     Some n \<Rightarrow> n | None \<Rightarrow> -1)"

definition user_role_of :: "auth_ctx \<Rightarrow> string option" where
  "user_role_of c = map_option (role \<circ> mapSbUser) (ctx_user c)"

definition require_redirect :: "user_role option \<Rightarrow> string \<Rightarrow> auth_ctx \<Rightarrow> string option" where
  "require_redirect requiredRole redirectTo c =
     (if isLoading c then None
      else if \<not> isAuthenticated c then Some redirectTo
      else (case requiredRole of None \<Rightarrow> None
        | Some r \<Rightarrow>
            (if (case user_role_of c of Some ur \<Rightarrow> roleHierarchy ur | None \<Rightarrow> -1) < roleHierarchy (role_str r)
             then Some ''/dashboard'' else None)))"

definition hasAccess :: "user_role option \<Rightarrow> auth_ctx \<Rightarrow> bool" where
  "hasAccess requiredRole c \<longleftrightarrow>
     \<not> isLoading c \<and> isAuthenticated c \<and>
     (case requiredRole of None \<Rightarrow> True
      | Some r \<Rightarrow> user_role_of c = Some (role_str r) \<or> user_role_of c = Some ''admin'')"

datatype guard_screen = GuardLoading | GuardDenied | GuardChildren

definition RequireAuth :: "user_role option \<Rightarrow> auth_ctx \<Rightarrow> guard_screen" where
  "RequireAuth requiredRole c =
     (if isLoading c then GuardLoading
      else if \<not> hasAccess requiredRole c then GuardDenied else GuardChildren)"

section \<open>The dashboard layout\<close>

datatype layout_screen = LayoutSkeleton | LayoutNothing | LayoutPage

text \<open>What a render shows, and the hooks it calls itself, in order.\<close>

definition layout_render :: "auth_ctx \<Rightarrow> layout_screen \<times> string list" where
  "layout_render c =
     (let hooks = [''useRouter'', ''useAuth'', ''useUIStore'', ''useUIStore'', ''useUnreadCount''] in
      if isLoading c then (LayoutSkeleton, hooks)
      else if \<not> isAuthenticated c then (LayoutNothing, hooks @ [''useEffect''])
      else (LayoutPage, hooks))"

text \<open>React's rule: every render of a mounted component calls the same hooks in the same order.\<close>

definition same_hooks :: "auth_ctx \<Rightarrow> auth_ctx \<Rightarrow> bool" where
  "same_hooks a b \<longleftrightarrow> snd (layout_render a) = snd (layout_render b)"

section \<open>Session timeout\<close>

text \<open>
  \<open>useSessionTimeout\<close>: the pending timer is the time at which it fires. The clock reading is part of
  an event; the browser fires a timer no earlier than its time.
\<close>

record session_timer =
  st_auth :: bool
  st_deadline :: "int option"
  st_logouts :: nat

datatype session_event = AuthBecomes bool int | Activity int | TimeoutFires int

definition st_init :: session_timer where
  "st_init = \<lparr>st_auth = False, st_deadline = None, st_logouts = 0\<rparr>"

fun session_step :: "int \<Rightarrow> session_event \<Rightarrow> session_timer \<Rightarrow> session_timer" where
  "session_step timeoutMs (AuthBecomes b now) s =
     (if b = st_auth s then s
      else s\<lparr>st_auth := b, st_deadline := (if b then Some (now + timeoutMs) else None)\<rparr>)"
| "session_step timeoutMs (Activity now) s =
     (if st_auth s then s\<lparr>st_deadline := Some (now + timeoutMs)\<rparr> else s)"
| "session_step timeoutMs (TimeoutFires now) s =
     (case st_deadline s of
        Some d \<Rightarrow> if d \<le> now then s\<lparr>st_deadline := None, st_logouts := st_logouts s + 1\<rparr> else s
      | None \<Rightarrow> s)"

section \<open>Lemmas: encoding the return URL\<close>

lemma hex_digit_val_digits: "k < 16 \<Longrightarrow> hex_digit_val (hex_digits ! k) = Some k"
proof -
  have "\<forall>k \<in> {..<16}. hex_digit_val (hex_digits ! k) = Some k"
    by code_simp
  then show "k < 16 \<Longrightarrow> ?thesis" by simp
qed

lemma char_hex: "char_of ((of_char c :: nat) div 16 * 16 + of_char c mod 16) = c"
proof -
  have "(of_char c :: nat) div 16 * 16 + of_char c mod 16 = of_char c"
    by (rule div_mult_mod_eq)
  then show ?thesis by simp
qed

lemma of_char_div: "(of_char c :: nat) div 16 < 16"
  by (rule less_mult_imp_div_less) simp

lemma query_decode_pct: "query_decode (pct c @ s) = c # query_decode s"
  using of_char_div[of c]
  by (simp add: pct_def Let_def hex_digit_val_digits char_hex)

lemma query_decode_unreserved: "unreserved c \<Longrightarrow> query_decode (c # s) = c # query_decode s"
  by (auto simp: unreserved_def)

lemma query_decode_encode: "query_decode (encodeURIComponent s) = s"
proof (induction s)
  case (Cons c s)
  then show ?case
    by (cases "unreserved c")
      (simp_all add: encodeURIComponent_def query_decode_unreserved query_decode_pct
        del: query_decode.simps(2))
qed (simp add: encodeURIComponent_def)

lemma hex_digit_chars: "k < 16 \<Longrightarrow> hex_digits ! k \<in> set hex_digits"
  by (rule nth_mem) (simp add: hex_digits_def)

lemma encode_chars: "x \<in> set (encodeURIComponent s) \<Longrightarrow> unreserved x \<or> x = CHR ''%'' \<or> x \<in> set hex_digits"
  using of_char_div hex_digit_chars
  by (fastforce simp: encodeURIComponent_def pct_def Let_def split: if_splits)

lemma encode_no_separator: "CHR ''&'' \<notin> set (encodeURIComponent s)"
  using encode_chars[of "CHR ''&''" s] by (auto simp: unreserved_def hex_digits_def)

lemma search_param_returnUrl:
  "search_param ''returnUrl'' (''/login?returnUrl='' @ encodeURIComponent p) = Some p"
proof -
  have "CHR ''&'' \<notin> set (''returnUrl='' @ encodeURIComponent p)"
    using encode_no_separator by auto
  then have "split_on (CHR ''&'') (''returnUrl='' @ encodeURIComponent p) = [''returnUrl='' @ encodeURIComponent p]"
    by (rule split_on_single)
  then show ?thesis
    by (simp add: search_param_def split_pair_def query_decode_encode)
qed

section \<open>Lemmas: guards\<close>

lemma protected_under_dashboard: "isRouteProtected p = Some r \<Longrightarrow> starts_with ''/dashboard'' p"
proof -
  assume "isRouteProtected p = Some r"
  then have "r \<in> set PROTECTED_ROUTES" "if exact r then p = path r else starts_with (path r) p"
    by (auto simp: isRouteProtected_def find_Some_iff)
  moreover have "\<forall>r \<in> set PROTECTED_ROUTES. starts_with ''/dashboard'' (path r)"
    by (simp add: PROTECTED_ROUTES_def protect_def starts_with_def)
  ultimately show ?thesis
    by (auto simp: starts_with_iff split: if_splits)
qed

lemma hasAccess_not_redirected: "hasAccess r c \<Longrightarrow> require_redirect r to c = None"
proof -
  have top: "roleHierarchy (role_str r) \<le> roleHierarchy ''admin''" for r
    by (cases r) (simp_all add: roleHierarchy_def)
  have "\<not> roleHierarchy ''admin'' < roleHierarchy (role_str r)" for r
    using top[of r] by simp
  then show "hasAccess r c \<Longrightarrow> ?thesis"
    by (auto simp: hasAccess_def require_redirect_def split: option.splits)
qed

section \<open>Lemmas: session timeout\<close>

text \<open>The events with clock readings in the interval from \<open>t\<close> to just before \<open>u\<close>.\<close>

fun event_time :: "session_event \<Rightarrow> int" where
  "event_time (AuthBecomes b n) = n"
| "event_time (Activity n) = n"
| "event_time (TimeoutFires n) = n"

interpretation session: state_machine "session_step timeoutMs" "\<lambda>s. st_deadline s \<noteq> None \<longrightarrow> st_auth s" st_init
proof
  show "st_deadline st_init \<noteq> None \<longrightarrow> st_auth st_init" by (simp add: st_init_def)
  show "st_deadline (session_step t e s) \<noteq> None \<longrightarrow> st_auth (session_step t e s)"
    if "st_deadline s \<noteq> None \<longrightarrow> st_auth s" for t e s
    using that by (cases e) (auto split: option.splits)
qed

lemma no_logout_before:
  assumes "\<forall>d. st_deadline s = Some d \<longrightarrow> t + timeoutMs \<le> d"
    and "\<forall>e \<in> set es. t \<le> event_time e \<and> event_time e < t + timeoutMs"
  shows "st_logouts (fold (session_step timeoutMs) es s) = st_logouts s"
  using assms
proof (induction es arbitrary: s)
  case (Cons e es)
  have "\<forall>d. st_deadline (session_step timeoutMs e s) = Some d \<longrightarrow> t + timeoutMs \<le> d"
    using Cons.prems by (cases e) (auto split: option.splits if_splits)
  moreover have "st_logouts (session_step timeoutMs e s) = st_logouts s"
    using Cons.prems by (cases e) (auto split: option.splits)
  ultimately show ?case using Cons.IH[of "session_step timeoutMs e s"] Cons.prems(2) by simp
qed simp

section \<open>Properties\<close>



text \<open>Also: the page guard and its redirect agree but for one case. Whoever the guard lets in is not
  redirected; and among users with a known role, the guard denies a page without redirecting
  exactly when the page asks for \<open>viewer\<close> and the user is a \<open>member\<close>, whose role is the higher one.\<close>

theorem guard_redirect_mismatch:
  assumes "user_role_of c = Some (role_str ur)"
  shows "(RequireAuth r c = GuardChildren \<longrightarrow> require_redirect r to c = None) \<and>
    (RequireAuth r c = GuardDenied \<and> require_redirect r to c = None \<longleftrightarrow>
       \<not> isLoading c \<and> r = Some Viewer \<and> ur = Member)"
proof -
  have auth: "isAuthenticated c"
    using assms by (auto simp: user_role_of_def isAuthenticated_def)
  have "RequireAuth r c = GuardChildren \<longrightarrow> require_redirect r to c = None"
    using hasAccess_not_redirected by (auto simp: RequireAuth_def split: if_splits)
  moreover have "RequireAuth r c = GuardDenied \<and> require_redirect r to c = None \<longleftrightarrow>
      \<not> isLoading c \<and> r = Some Viewer \<and> ur = Member"
  proof (cases r)
    case None
    with auth show ?thesis by (simp add: RequireAuth_def hasAccess_def)
  next
    case (Some q)
    with auth assms show ?thesis
      by (cases q; cases ur) (simp_all add: RequireAuth_def hasAccess_def require_redirect_def roleHierarchy_def)
  qed
  ultimately show ?thesis by blast
qed

definition some_user :: "user_role \<Rightarrow> sb_user" where
  "some_user r = \<lparr>sb_id = ''u'', sb_email = Some ''a@b'', user_metadata = \<lparr>display_name = None,
     full_name = None, avatar_url = None, meta_role = Some (role_str r), meta_user_type = None\<rparr>\<rparr>"

theorem guard_redirect_mismatch_witness:
  "RequireAuth (Some Viewer) (ctx_step (InitialSession (Some (some_user Member))) ctx_init) = GuardDenied"
  using guard_redirect_mismatch[of "ctx_step (InitialSession (Some (some_user Member))) ctx_init" Member "Some Viewer"]
  by (simp add: user_role_of_def some_user_def mapSbUser_def Let_def ctx_init_def)

text \<open>Also: the dashboard layout breaks React's rule of hooks for visitors without a session: between the
  first render, which is loading, and the one after the initial session arrives, the hooks called
  are the same exactly when there is a session.\<close>

theorem layout_hooks_change:
  "same_hooks ctx_init (ctx_step (InitialSession s) ctx_init) \<longleftrightarrow> s \<noteq> None"
  by (auto simp: same_hooks_def layout_render_def ctx_init_def isAuthenticated_def Let_def)

text \<open>C8: in every state the session provider can reach, user and session agree, and nobody is signed in
  while it is still loading, so a guarded page is never shown before the session is known.\<close>

theorem provider_guards_until_loaded:
  "let c = fold ctx_step es ctx_init in
     ctx_user c = ctx_session c \<and> (isLoading c \<longrightarrow> \<not> isAuthenticated c \<and> RequireAuth r c = GuardLoading) \<and>
     (RequireAuth r c = GuardChildren \<longrightarrow> ctx_session c \<noteq> None)"
  using auth_provider.inv_reachable[of es]
  by (auto simp: ctx_inv_def isAuthenticated_def RequireAuth_def hasAccess_def Let_def split: if_splits)

theorem provider_guards_until_loaded_witness:
  "RequireAuth None (fold ctx_step [SignOut] ctx_init) \<noteq> GuardChildren"
  using provider_guards_until_loaded[of "[SignOut]" None] by (simp add: Let_def ctx_init_def)

text \<open>Also: the session timeout never logs a user out within the time limit after an activity, whatever
  other events happen in between.\<close>

theorem session_timeout_respects_activity:
  assumes "st_auth s" "\<forall>e \<in> set es. t \<le> event_time e \<and> event_time e < t + timeoutMs"
  shows "st_logouts (fold (session_step timeoutMs) (Activity t # es) s) = st_logouts s"
proof -
  have "st_logouts (fold (session_step timeoutMs) es (session_step timeoutMs (Activity t) s)) =
      st_logouts (session_step timeoutMs (Activity t) s)"
    by (rule no_logout_before[where t = t]) (use assms in auto)
  with assms(1) show ?thesis by simp
qed

theorem session_timeout_respects_activity_witness:
  "st_logouts (fold (session_step 1000) [Activity 5, TimeoutFires 900, Activity 950]
     (session_step 1000 (AuthBecomes True 0) st_init)) = 0"
  using session_timeout_respects_activity[of "session_step 1000 (AuthBecomes True 0) st_init"
      "[TimeoutFires 900, Activity 950]" 5 1000]
  by (simp add: st_init_def)

end
