(* ===== verification/WalletLink.thy ===== *)
theory WalletLink
  imports Auth "HOL-Library.AList"
begin

text \<open>
  Linking a wallet to an account: the client \<open>hooks/use-wallet-link.ts\<close> with the wallet login of
  \<open>hooks/use-auth.ts\<close>, and the server's handlers for the two requests,
  \<open>backend/internal/api/handlers/wallet_link.go\<close>. The server keeps the nonces it issued in memory and
  links a wallet in the profile database. Recovering the signer of a message is cryptography outside
  the repository: \<open>recover\<close> gives the forty lower-case hexadecimal digits of the signer's address for
  a message and the bytes of a signature, or fails.
\<close>

section \<open>Responses\<close>

text \<open>The result of a \<open>fetch\<close>: it rejects, or there is a status with a body, \<open>None\<close> when the body is
  not JSON (\<open>response.json()\<close> rejects then).\<close>

datatype fetch_result = NetworkFailure | Response (res_status: nat) (res_json: "jsval option")

definition res_ok :: "fetch_result \<Rightarrow> bool" where
  "res_ok r \<longleftrightarrow> (case r of NetworkFailure \<Rightarrow> False | Response st b \<Rightarrow> 200 \<le> st \<and> st < 300)"

text \<open>\<open>data.k\<close>: reading a property of null or undefined throws.\<close>

definition prop_of :: "string \<Rightarrow> jsval \<Rightarrow> jsval option" where
  "prop_of k v = (if nullish v then None else Some (field k v))"

definition or_str :: "jsval \<Rightarrow> string \<Rightarrow> jsval" where
  "or_str v d = (if val_truthy v then v else Str d)"

section \<open>The server\<close>

record nonce_entry =
  ne_userID :: string
  expiresAt :: int

record link_server =
  nonceStore :: "(string \<times> nonce_entry) list"
  linked :: "(string \<times> string) list"

definition link_server_init :: link_server where
  "link_server_init = \<lparr>nonceStore = [], linked = []\<rparr>"

text \<open>A field of the request body decoded into a Go string: absent is empty, another type an error.\<close>

definition go_string :: "string \<Rightarrow> jsval \<Rightarrow> string option" where
  "go_string k body = (case field k body of Str s \<Rightarrow> Some s | Undefined \<Rightarrow> Some '''' | Null \<Rightarrow> Some '''' | _ \<Rightarrow> None)"

text \<open>\<open>http.Error\<close> answers with plain text.\<close>

definition http_error :: "nat \<Rightarrow> fetch_result" where
  "http_error st = Response st None"

text \<open>\<open>nonce\<close> is the hexadecimal text of 32 random bytes, \<open>None\<close> when reading them fails. Times are in
  milliseconds.\<close>

definition GenerateChallenge ::
  "int \<Rightarrow> string option \<Rightarrow> jsval \<Rightarrow> link_server \<Rightarrow> fetch_result \<times> link_server" where
  "GenerateChallenge now nonce body s =
     (case go_string ''user_id'' body of
        None \<Rightarrow> (http_error 400, s)
      | Some user \<Rightarrow>
          if user = '''' then (http_error 400, s)
          else case nonce of
              None \<Rightarrow> (http_error 500, s)
            | Some n \<Rightarrow>
                (Response 200 (Some (Obj [(''nonce'', Str n),
                   (''message'', Str (''Sign this message to link your wallet. Nonce: '' @ n))])),
                 s\<lparr>nonceStore := AList.update n \<lparr>ne_userID = user, expiresAt = now + 5 * 60 * 1000\<rparr> (nonceStore s)\<rparr>))"

definition is_hex_digit :: "char \<Rightarrow> bool" where
  "is_hex_digit c \<longleftrightarrow> hex_val c \<noteq> None"

definition drop_0x :: "string \<Rightarrow> string" where
  "drop_0x a = (if starts_with ''0x'' a \<or> starts_with ''0X'' a then drop 2 a else a)"

definition IsHexAddress :: "string \<Rightarrow> bool" where
  "IsHexAddress a \<longleftrightarrow> length (drop_0x a) = 40 \<and> list_all is_hex_digit (drop_0x a)"

definition HexToAddress :: "string \<Rightarrow> string" where
  "HexToAddress a = to_lower (drop_0x a)"

text \<open>\<open>hex.DecodeString\<close>: pairs of hexadecimal digits, nothing else.\<close>

fun hex_decode :: "string \<Rightarrow> nat list option" where
  "hex_decode [] = Some []"
| "hex_decode [c] = None"
| "hex_decode (c # d # s) =
     (case (hex_val c, hex_val d, hex_decode s) of
        (Some a, Some b, Some bs) \<Rightarrow> Some ((16 * a + b) # bs)
      | _ \<Rightarrow> None)"

definition link_message :: "string \<Rightarrow> string" where
  "link_message nonce = ''Link wallet to Tentrist account. Nonce: '' @ nonce"

definition signer_matches :: "(string \<Rightarrow> nat list \<Rightarrow> string option) \<Rightarrow> string \<Rightarrow> string \<Rightarrow> string \<Rightarrow> bool" where
  "signer_matches recover nonce sig wallet \<longleftrightarrow>
     (case hex_decode sig of None \<Rightarrow> False
      | Some bs \<Rightarrow> recover (link_message nonce) bs = Some (HexToAddress wallet))"

text \<open>\<open>store_fails\<close>: the update of the profile returns an error.\<close>

definition VerifyAndLink ::
  "(string \<Rightarrow> nat list \<Rightarrow> string option) \<Rightarrow> bool \<Rightarrow> int \<Rightarrow> jsval \<Rightarrow> link_server \<Rightarrow> fetch_result \<times> link_server" where
  "VerifyAndLink recover store_fails now body s =
     (case (go_string ''user_id'' body, go_string ''nonce'' body, go_string ''signature'' body,
            go_string ''wallet_address'' body) of
        (Some user, Some nonce, Some sig, Some wallet) \<Rightarrow>
          if user = '''' \<or> nonce = '''' \<or> sig = '''' \<or> wallet = '''' then (http_error 400, s)
          else if \<not> IsHexAddress wallet then (http_error 400, s)
          else (case map_of (nonceStore s) nonce of
              None \<Rightarrow> (http_error 400, s)
            | Some entry \<Rightarrow>
                if ne_userID entry \<noteq> user then (http_error 400, s)
                else if expiresAt entry < now then
                  (http_error 400, s\<lparr>nonceStore := AList.delete nonce (nonceStore s)\<rparr>)
                else (case hex_decode sig of
                    None \<Rightarrow> (http_error 400, s)
                  | Some bs \<Rightarrow>
                      (case recover (link_message nonce) bs of
                         None \<Rightarrow> (http_error 401, s)
                       | Some signer \<Rightarrow>
                           if signer \<noteq> HexToAddress wallet then (http_error 401, s)
                           else
                             let s' = s\<lparr>nonceStore := AList.delete nonce (nonceStore s)\<rparr>
                             in if store_fails then (http_error 500, s')
                                else (Response 200 (Some (Obj [(''success'', Bool True),
                                        (''wallet_address'', Str wallet),
                                        (''message'', Str ''Wallet linked successfully'')])),
                                      s'\<lparr>linked := (user, wallet) # linked s'\<rparr>))))
      | _ \<Rightarrow> (http_error 400, s))"

text \<open>The requests the server handles, from anybody.\<close>

datatype link_request =
    Challenge int "string option" jsval
  | Verify bool int jsval

fun link_step :: "(string \<Rightarrow> nat list \<Rightarrow> string option) \<Rightarrow> link_request \<Rightarrow> link_server \<Rightarrow> link_server" where
  "link_step recover (Challenge now n body) s = snd (GenerateChallenge now n body s)"
| "link_step recover (Verify fails now body) s = snd (VerifyAndLink recover fails now body s)"

section \<open>The client\<close>

record wallet_link =
  isLinking :: bool
  isSigning :: bool
  linkError :: jsval
  linkSuccess :: bool

definition wallet_link_init :: wallet_link where
  "wallet_link_init = \<lparr>isLinking = False, isSigning = False, linkError = Null, linkSuccess = False\<rparr>"

text \<open>What the hook sees: the connected wallet, the user's identifier (empty: nobody signed in), and
  how the server is reached. A request changes the state of the server.\<close>

record 's link_env =
  wl_address :: "string option"
  wl_isConnected :: bool
  wl_user :: string
  post_challenge :: "jsval \<Rightarrow> 's \<Rightarrow> fetch_result \<times> 's"
  post_verify :: "jsval \<Rightarrow> 's \<Rightarrow> fetch_result \<times> 's"
  sign_message :: "string \<Rightarrow> string + string"
  number_text :: "jsnum \<Rightarrow> string"

definition network_error :: "wallet_link \<Rightarrow> wallet_link" where
  "network_error c = c\<lparr>linkError := Str ''Network error''\<rparr>"

text \<open>\<open>getChallenge\<close>: the nonce the server sends, or null.\<close>

definition getChallenge :: "'s link_env \<Rightarrow> wallet_link \<times> 's \<Rightarrow> jsval \<times> wallet_link \<times> 's" where
  "getChallenge env cs = (case cs of (c, s) \<Rightarrow>
     if wl_user env = '''' then (Null, c\<lparr>linkError := Str ''You must be logged in to link a wallet''\<rparr>, s)
     else case post_challenge env (Obj [(''user_id'', Str (wl_user env))]) s of (r, s') \<Rightarrow>
       (case r of
          NetworkFailure \<Rightarrow> (Null, network_error c, s')
        | Response st None \<Rightarrow> (Null, network_error c, s')
        | Response st (Some data) \<Rightarrow>
            if \<not> res_ok r then
              (case prop_of ''error'' data of
                 None \<Rightarrow> (Null, network_error c, s')
               | Some e \<Rightarrow> (Null, c\<lparr>linkError := or_str e ''Failed to get challenge''\<rparr>, s'))
            else (case prop_of ''nonce'' data of
                 None \<Rightarrow> (Null, network_error c, s')
               | Some n \<Rightarrow> (n, c, s'))))"

definition linkWallet :: "'s link_env \<Rightarrow> jsval \<Rightarrow> string \<Rightarrow> wallet_link \<times> 's \<Rightarrow> bool \<times> wallet_link \<times> 's" where
  "linkWallet env nonce sig cs = (case cs of (c, s) \<Rightarrow>
     if \<not> truthy_str (wl_address env) \<or> wl_user env = '''' then
       (False, c\<lparr>linkError := Str ''Wallet not connected or not logged in''\<rparr>, s)
     else
       let c = c\<lparr>isLinking := True, linkError := Null\<rparr>
       in case post_verify env (Obj [(''user_id'', Str (wl_user env)), (''nonce'', nonce),
              (''signature'', Str sig), (''wallet_address'', Str (the (wl_address env)))]) s of (r, s') \<Rightarrow>
         (case r of
            NetworkFailure \<Rightarrow> (False, (network_error c)\<lparr>isLinking := False\<rparr>, s')
          | Response st b \<Rightarrow>
              if res_ok r then (True, c\<lparr>linkSuccess := True, isLinking := False\<rparr>, s')
              else (case b of
                  None \<Rightarrow> (False, (network_error c)\<lparr>isLinking := False\<rparr>, s')
                | Some data \<Rightarrow>
                    (case prop_of ''error'' data of
                       None \<Rightarrow> (False, (network_error c)\<lparr>isLinking := False\<rparr>, s')
                     | Some e \<Rightarrow> (False, c\<lparr>linkError := or_str e ''Failed to link wallet'', isLinking := False\<rparr>, s')))))"

definition signAndLink :: "'s link_env \<Rightarrow> wallet_link \<times> 's \<Rightarrow> bool \<times> wallet_link \<times> 's" where
  "signAndLink env cs = (case cs of (c, s) \<Rightarrow>
     if \<not> wl_isConnected env then (False, c\<lparr>linkError := Str ''Connect wallet first''\<rparr>, s)
     else
       let c = c\<lparr>isSigning := True, linkError := Null, linkSuccess := False\<rparr>
       in case getChallenge env (c, s) of (nonce, c', s') \<Rightarrow>
         if \<not> val_truthy nonce then (False, c'\<lparr>isSigning := False\<rparr>, s')
         else (case sign_message env (link_message (js_text (number_text env) nonce)) of
             Inl err \<Rightarrow>
               (False, c'\<lparr>linkError := Str (if str_includes err ''User rejected'' then ''Signature rejected''
                                              else ''Signing failed''), isSigning := False\<rparr>, s')
           | Inr sig \<Rightarrow>
               (case linkWallet env nonce sig (c', s') of (ok, c'', s'') \<Rightarrow>
                  (ok, c''\<lparr>isSigning := False\<rparr>, s''))))"

section \<open>Lemmas: the server\<close>

text \<open>What a verification can do: nothing, drop a nonce, or link the wallet of a proven signer.\<close>

lemma VerifyAndLink_cases:
  assumes "VerifyAndLink recover fails now body s = (r, s')"
  obtains (same) "s' = s" "\<not> res_ok r"
  | (dropped) n e where "map_of (nonceStore s) n = Some e" "\<not> res_ok r"
      "s' = s\<lparr>nonceStore := AList.delete n (nonceStore s)\<rparr>"
  | (linked) user n sig wallet e where "go_string ''user_id'' body = Some user" "user \<noteq> ''''"
      "go_string ''nonce'' body = Some n" "go_string ''signature'' body = Some sig"
      "go_string ''wallet_address'' body = Some wallet" "IsHexAddress wallet"
      "map_of (nonceStore s) n = Some e" "ne_userID e = user" "now \<le> expiresAt e"
      "signer_matches recover n sig wallet" "res_ok r"
      "s' = s\<lparr>nonceStore := AList.delete n (nonceStore s), linked := (user, wallet) # linked s\<rparr>"
proof -
  have bad: "\<not> res_ok (http_error k)" if "400 \<le> k" for k
    using that by (simp add: res_ok_def http_error_def)
  show thesis
  proof (cases "s' = s \<and> \<not> res_ok r")
    case True
    then show thesis using same by blast
  next
    case False
    then obtain user n sig wallet e bs where fields: "go_string ''user_id'' body = Some user"
      "go_string ''nonce'' body = Some n" "go_string ''signature'' body = Some sig"
      "go_string ''wallet_address'' body = Some wallet" "user \<noteq> ''''" "n \<noteq> ''''" "sig \<noteq> ''''" "wallet \<noteq> ''''"
      "IsHexAddress wallet" "map_of (nonceStore s) n = Some e" "ne_userID e = user"
      using assms bad by (auto simp: VerifyAndLink_def split: option.splits if_splits)
    show thesis
    proof (cases "expiresAt e < now")
      case True
      with assms fields have "r = http_error 400" "s' = s\<lparr>nonceStore := AList.delete n (nonceStore s)\<rparr>"
        by (auto simp: VerifyAndLink_def)
      then show thesis using dropped[OF fields(10)] bad by simp
    next
      case fresh: False
      with assms fields False bad obtain bs where bs: "hex_decode sig = Some bs"
        "recover (link_message n) bs = Some (HexToAddress wallet)"
        by (auto simp: VerifyAndLink_def split: option.splits if_splits)
      show thesis
      proof (cases fails)
        case True
        with assms fields fresh bs have "r = http_error 500" "s' = s\<lparr>nonceStore := AList.delete n (nonceStore s)\<rparr>"
          by (auto simp: VerifyAndLink_def)
        then show thesis using dropped[OF fields(10)] bad by simp
      next
        case False
        with assms fields fresh bs show thesis
          by (intro linked[of user n sig wallet e])
            (auto simp: VerifyAndLink_def signer_matches_def res_ok_def)
      qed
    qed
  qed
qed

lemma GenerateChallenge_cases:
  assumes "GenerateChallenge now nonce body s = (r, s')"
  obtains (same) "s' = s" "\<not> res_ok r"
  | (issued) user n where "go_string ''user_id'' body = Some user" "user \<noteq> ''''" "nonce = Some n"
      "s' = s\<lparr>nonceStore := AList.update n \<lparr>ne_userID = user, expiresAt = now + 5 * 60 * 1000\<rparr> (nonceStore s)\<rparr>"
  using assms
  by (auto simp: GenerateChallenge_def res_ok_def http_error_def split: option.splits if_splits)

lemma length_update_le: "length (AList.update k v m) \<le> Suc (length m)"
  by (induction m) auto

lemma length_delete_less: "map_of m k = Some v \<Longrightarrow> Suc (length (AList.delete k m)) \<le> length m"
proof -
  assume "map_of m k = Some v"
  then have "(k, v) \<in> set m" by (rule map_of_SomeD)
  then have "length (filter (\<lambda>e. fst e \<noteq> k) m) < length m"
    by (intro length_filter_less[of "(k, v)"]) simp_all
  moreover have "AList.delete k m = filter (\<lambda>e. fst e \<noteq> k) m"
    by (simp add: AList.delete_eq case_prod_beta' eq_commute)
  ultimately show ?thesis by simp
qed

text \<open>The client's two requests and where the server's state comes from, as an invariant of a run.\<close>

definition issued :: "link_request list \<Rightarrow> string \<Rightarrow> string \<Rightarrow> int \<Rightarrow> bool" where
  "issued es n user expiry \<longleftrightarrow> (\<exists>t body. Challenge t (Some n) body \<in> set es \<and>
     go_string ''user_id'' body = Some user \<and> expiry = t + 5 * 60 * 1000)"

definition proven ::
  "(string \<Rightarrow> nat list \<Rightarrow> string option) \<Rightarrow> link_request list \<Rightarrow> string \<Rightarrow> string \<Rightarrow> bool" where
  "proven recover es user wallet \<longleftrightarrow> user \<noteq> '''' \<and> IsHexAddress wallet \<and>
     (\<exists>fails now body n sig expiry. Verify fails now body \<in> set es \<and>
        go_string ''user_id'' body = Some user \<and> go_string ''nonce'' body = Some n \<and>
        go_string ''signature'' body = Some sig \<and> go_string ''wallet_address'' body = Some wallet \<and>
        issued es n user expiry \<and> now \<le> expiry \<and> signer_matches recover n sig wallet)"

definition is_challenge :: "link_request \<Rightarrow> bool" where
  "is_challenge e \<longleftrightarrow> (case e of Challenge t n b \<Rightarrow> True | _ \<Rightarrow> False)"

definition link_inv :: "(string \<Rightarrow> nat list \<Rightarrow> string option) \<Rightarrow> link_request list \<Rightarrow> link_server \<Rightarrow> bool" where
  "link_inv recover es s \<longleftrightarrow>
     (\<forall>(n, e) \<in> set (nonceStore s). issued es n (ne_userID e) (expiresAt e)) \<and>
     (\<forall>(u, w) \<in> set (linked s). proven recover es u w) \<and>
     length (linked s) + length (nonceStore s) \<le> length (filter is_challenge es)"

lemma issued_mono: "issued es n u x \<Longrightarrow> issued (es @ [e]) n u x"
  unfolding issued_def by fastforce

lemma proven_mono: "proven recover es u w \<Longrightarrow> proven recover (es @ [e]) u w"
  unfolding proven_def using issued_mono by (metis Un_iff set_append)

lemma set_delete_subset: "set (AList.delete k m) \<subseteq> set m"
  by (auto simp: AList.delete_eq)

lemma set_update_subset: "set (AList.update k v m) \<subseteq> insert (k, v) (set m)"
  by (induction m) auto

lemma link_inv_step:
  assumes inv: "link_inv recover es s"
  shows "link_inv recover (es @ [e]) (link_step recover e s)"
proof (cases e)
  case (Challenge t nonce body)
  obtain r s' where res: "GenerateChallenge t nonce body s = (r, s')" by fastforce
  show ?thesis
    using res
  proof (cases rule: GenerateChallenge_cases)
    case same
    with inv res Challenge show ?thesis
      by (auto simp: link_inv_def is_challenge_def intro: issued_mono proven_mono)
  next
    case (issued user n)
    have "issued (es @ [e]) n user (t + 5 * 60 * 1000)"
      using issued Challenge by (auto simp: issued_def)
    then show ?thesis
      using inv res Challenge issued(4) length_update_le[of n "\<lparr>ne_userID = user, expiresAt = t + 5 * 60 * 1000\<rparr>" "nonceStore s"]
        set_update_subset[of n "\<lparr>ne_userID = user, expiresAt = t + 5 * 60 * 1000\<rparr>" "nonceStore s"]
      by (fastforce simp: link_inv_def is_challenge_def intro: issued_mono proven_mono)
  qed
next
  case (Verify fails now body)
  obtain r s' where res: "VerifyAndLink recover fails now body s = (r, s')" by fastforce
  show ?thesis
    using res
  proof (cases rule: VerifyAndLink_cases)
    case same
    with inv res Verify show ?thesis
      by (auto simp: link_inv_def is_challenge_def intro: issued_mono proven_mono)
  next
    case (dropped n e')
    with inv res Verify length_delete_less[OF dropped(1)] set_delete_subset[of n "nonceStore s"] show ?thesis
      by (fastforce simp: link_inv_def is_challenge_def intro: issued_mono proven_mono)
  next
    case (linked user n sig wallet e')
    have "issued es n user (expiresAt e')"
      using inv linked(7,8) map_of_SomeD[OF linked(7)] by (auto simp: link_inv_def)
    then have "proven recover (es @ [e]) user wallet"
      using linked Verify unfolding proven_def by (auto intro!: exI issued_mono)
    then show ?thesis
      using inv res Verify linked(12) length_delete_less[OF linked(7)] set_delete_subset[of n "nonceStore s"]
      by (fastforce simp: link_inv_def is_challenge_def intro: issued_mono proven_mono)
  qed
qed

lemma link_inv_run: "link_inv recover es (fold (link_step recover) es link_server_init)"
proof (induction es rule: rev_induct)
  case Nil
  then show ?case by (simp add: link_inv_def link_server_init_def)
next
  case (snoc e es)
  from link_inv_step[OF snoc, of e] show ?case by simp
qed

section \<open>Signing in with a wallet\<close>

text \<open>
  \<open>loginWithWallet\<close> of \<open>useAuth\<close>: the error message it stores, \<open>None\<close> when it stores none. The
  messages of exceptions raised by the runtime (a failed request, a body that is not JSON, a
  property of null) are parameters; the wallet's refusal is an \<open>Error\<close> with a message or not.
\<close>

record runtime_messages =
  msg_network :: string
  msg_syntax :: string
  msg_type :: string

text \<open>\<open>await res.json()\<close> and then reading properties: the value, or the message of the exception.\<close>

definition await_json :: "runtime_messages \<Rightarrow> fetch_result \<Rightarrow> string + jsval" where
  "await_json m r = (case r of NetworkFailure \<Rightarrow> Inl (msg_network m)
     | Response st None \<Rightarrow> Inl (msg_syntax m)
     | Response st (Some v) \<Rightarrow> Inr v)"

definition loginWithWallet ::
  "runtime_messages \<Rightarrow> (jsval \<Rightarrow> string) \<Rightarrow> bool \<Rightarrow> (jsval \<Rightarrow> 's \<Rightarrow> fetch_result \<times> 's) \<Rightarrow>
   (jsval \<Rightarrow> 's \<Rightarrow> fetch_result \<times> 's) \<Rightarrow> (string \<Rightarrow> string option + string) \<Rightarrow> string \<Rightarrow> 's \<Rightarrow>
   string option \<times> 's" where
  "loginWithWallet m text ethereum challenge verify sign address s =
     (if \<not> ethereum then (Some ''No wallet detected'', s)
      else case challenge (Obj [(''walletAddress'', Str address)]) s of (r, s') \<Rightarrow>
        (case await_json m r of
           Inl msg \<Rightarrow> (Some msg, s')
         | Inr d \<Rightarrow>
             if nullish d then (Some (msg_type m), s')
             else if val_truthy (field ''error'' d) \<or> \<not> val_truthy (field ''nonce'' d) then
               (Some (text (or_str (field ''error'' d) ''Failed to get challenge'')), s')
             else (case sign (text (field ''nonce'' d)) of
                 Inl err \<Rightarrow> (Some (or_else err ''Wallet verification failed''), s')
               | Inr sig \<Rightarrow>
                   (case verify (Obj [(''walletAddress'', Str address), (''signature'', Str sig),
                         (''nonce'', field ''nonce'' d)]) s' of (v, s'') \<Rightarrow>
                      (case await_json m v of
                         Inl msg \<Rightarrow> (Some msg, s'')
                       | Inr vd \<Rightarrow>
                           if res_ok v then (None, s'')
                           else if nullish vd then (Some (msg_type m), s'')
                           else (Some (text (or_str (field ''error'' vd) ''Wallet verification failed'')), s''))))))"

text \<open>\<open>loginWithWallet\<close> of \<open>stores/auth-store.ts\<close>.\<close>

definition store_loginWithWallet ::
  "(jsval \<Rightarrow> 's \<Rightarrow> fetch_result \<times> 's) \<Rightarrow> string \<Rightarrow> string \<Rightarrow> string \<Rightarrow> 's \<Rightarrow> jsval \<times> 's" where
  "store_loginWithWallet verify address sig nonce s =
     (case verify (Obj [(''walletAddress'', Str address), (''signature'', Str sig), (''nonce'', Str nonce)]) s of
        (r, s') \<Rightarrow>
          (case r of
             Response st (Some d) \<Rightarrow>
               if res_ok r then (Null, s')
               else if nullish d then (Str ''Network error during wallet verification'', s')
               else (or_str (field ''error'' d) ''Wallet verification failed'', s')
           | _ \<Rightarrow> (Str ''Network error during wallet verification'', s')))"

section \<open>Lemmas: client and server together\<close>

text \<open>The client connected to the server: the two requests arrive at \<open>t1\<close> and \<open>t2\<close>.\<close>

definition connected ::
  "(string \<Rightarrow> nat list \<Rightarrow> string option) \<Rightarrow> bool \<Rightarrow> int \<Rightarrow> int \<Rightarrow> string option \<Rightarrow> string \<Rightarrow> string \<Rightarrow>
   (string \<Rightarrow> string + string) \<Rightarrow> link_server link_env" where
  "connected recover fails t1 t2 nonce user wallet sign =
     \<lparr>wl_address = Some wallet, wl_isConnected = True, wl_user = user,
      post_challenge = GenerateChallenge t1 nonce, post_verify = VerifyAndLink recover fails t2,
      sign_message = sign, number_text = (\<lambda>_. ''NaN'')\<rparr>"

lemma connected_simps [simp]:
  "wl_address (connected recover fails t1 t2 nonce user wallet sign) = Some wallet"
  "wl_isConnected (connected recover fails t1 t2 nonce user wallet sign)"
  "wl_user (connected recover fails t1 t2 nonce user wallet sign) = user"
  "post_challenge (connected recover fails t1 t2 nonce user wallet sign) = GenerateChallenge t1 nonce"
  "post_verify (connected recover fails t1 t2 nonce user wallet sign) = VerifyAndLink recover fails t2"
  "sign_message (connected recover fails t1 t2 nonce user wallet sign) = sign"
  "number_text (connected recover fails t1 t2 nonce user wallet sign) = (\<lambda>_. ''NaN'')"
  by (simp_all add: connected_def)

lemma getChallenge_server:
  assumes "user \<noteq> ''''" "n \<noteq> ''''"
  shows "getChallenge (connected recover fails t1 t2 (Some n) user wallet sign) (c, s) =
    (Str n, c, s\<lparr>nonceStore := AList.update n \<lparr>ne_userID = user, expiresAt = t1 + 5 * 60 * 1000\<rparr> (nonceStore s)\<rparr>)"
  using assms by (simp add: getChallenge_def GenerateChallenge_def go_string_def res_ok_def prop_of_def nullish_def)

lemma hex_decode_0x: "starts_with ''0x'' s \<Longrightarrow> hex_decode s = None"
proof -
  assume "starts_with ''0x'' s"
  then obtain r where "s = CHR ''0'' # CHR ''x'' # r" by (auto simp: starts_with_iff)
  moreover have "hex_val (CHR ''x'') = None"
    by (simp add: hex_val_def lower_char_def upt_rec)
  ultimately show ?thesis by (simp split: option.splits)
qed

text \<open>A signature with the prefix wallets write is refused, whatever the server's state.\<close>

lemma prefixed_not_verified:
  assumes "VerifyAndLink recover fails now body s = (r, s')"
    and "field ''signature'' body = Str (''0x'' @ sig)"
  shows "\<not> res_ok r \<and> linked s' = linked s"
  using assms(1)
proof (cases rule: VerifyAndLink_cases)
  case (linked user n sig' wallet e)
  with assms(2) have "starts_with ''0x'' sig'" by (auto simp: go_string_def starts_with_def)
  with linked(10) show ?thesis by (simp add: signer_matches_def hex_decode_0x)
qed simp_all

lemma linkWallet_refused:
  assumes "wallet \<noteq> ''''" "user \<noteq> ''''"
    and "VerifyAndLink recover fails t2 (Obj [(''user_id'', Str user), (''nonce'', n), (''signature'', Str sig),
      (''wallet_address'', Str wallet)]) s = (http_error k, s')" "400 \<le> k"
  shows "linkWallet (connected recover fails t1 t2 nonce user wallet sign) n sig (c, s) =
    (False, c\<lparr>isLinking := False, linkError := Str ''Network error''\<rparr>, s')"
  using assms by (simp add: linkWallet_def truthy_str_def http_error_def res_ok_def network_error_def Let_def)

lemma linkWallet_result:
  "linkWallet env n sig (c, s) = (ok, c', s') \<Longrightarrow>
     (isLinking c' \<longrightarrow> isLinking c) \<and> isSigning c' = isSigning c \<and> (ok \<longrightarrow> linkSuccess c' \<and> linkError c' = Null) \<and>
     (\<not> ok \<longrightarrow> linkSuccess c' = linkSuccess c \<and> linkError c' \<noteq> Null)"
  by (auto simp: linkWallet_def network_error_def or_str_def Let_def split: prod.splits if_splits
      fetch_result.splits option.splits)

lemma getChallenge_client:
  "getChallenge env (c, s) = (n, c', s') \<Longrightarrow>
     isLinking c' = isLinking c \<and> isSigning c' = isSigning c \<and> linkSuccess c' = linkSuccess c \<and>
     (n \<noteq> Null \<longrightarrow> linkError c' = linkError c)"
  by (auto simp: getChallenge_def network_error_def split: prod.splits if_splits
      fetch_result.splits option.splits)

section \<open>The abstract protocol\<close>

text \<open>What the service promises, without requests or responses: open challenges by nonce and the set of
  links. \<open>Spend\<close> drops a challenge without linking (it expired or the profile could not be stored);
  only \<open>Link\<close> adds a link, for an open challenge of the same user, in time, signed by the wallet.\<close>

record link_spec =
  open_challenges :: "string \<rightharpoonup> string \<times> int"
  spec_links :: "(string \<times> string) set"

definition link_spec_init :: link_spec where
  "link_spec_init = \<lparr>open_challenges = Map.empty, spec_links = {}\<rparr>"

inductive link_spec_step ::
  "(string \<Rightarrow> nat list \<Rightarrow> string option) \<Rightarrow> link_spec \<Rightarrow> link_spec \<Rightarrow> bool" for recover where
  Refuse: "link_spec_step recover a a"
| Issue: "user \<noteq> '''' \<Longrightarrow>
    link_spec_step recover a (a\<lparr>open_challenges := (open_challenges a)(n \<mapsto> (user, now + 5 * 60 * 1000))\<rparr>)"
| Spend: "open_challenges a n = Some c \<Longrightarrow>
    link_spec_step recover a (a\<lparr>open_challenges := (open_challenges a)(n := None)\<rparr>)"
| Link: "open_challenges a n = Some (user, expiry) \<Longrightarrow> now \<le> expiry \<Longrightarrow> IsHexAddress wallet \<Longrightarrow>
    signer_matches recover n sig wallet \<Longrightarrow>
    link_spec_step recover a (a\<lparr>open_challenges := (open_challenges a)(n := None),
      spec_links := insert (user, wallet) (spec_links a)\<rparr>)"

definition link_abs :: "link_server \<Rightarrow> link_spec" where
  "link_abs s = \<lparr>open_challenges = map_option (\<lambda>e. (ne_userID e, expiresAt e)) \<circ> map_of (nonceStore s),
     spec_links = set (linked s)\<rparr>"

lemma link_abs_init: "link_abs link_server_init = link_spec_init"
  by (simp add: link_abs_def link_server_init_def link_spec_init_def fun_eq_iff)

lemma link_abs_update:
  "link_abs (s\<lparr>nonceStore := AList.update n \<lparr>ne_userID = u, expiresAt = x\<rparr> (nonceStore s)\<rparr>) =
     (link_abs s)\<lparr>open_challenges := (open_challenges (link_abs s))(n \<mapsto> (u, x))\<rparr>"
  by (simp add: link_abs_def update_conv' fun_eq_iff)

lemma link_abs_delete:
  "link_abs (s\<lparr>nonceStore := AList.delete n (nonceStore s)\<rparr>) =
     (link_abs s)\<lparr>open_challenges := (open_challenges (link_abs s))(n := None)\<rparr>"
  by (simp add: link_abs_def AList.delete_conv' fun_eq_iff)

lemma link_abs_link:
  "link_abs (s\<lparr>nonceStore := AList.delete n (nonceStore s), linked := (u, w) # linked s\<rparr>) =
     (link_abs s)\<lparr>open_challenges := (open_challenges (link_abs s))(n := None),
       spec_links := insert (u, w) (spec_links (link_abs s))\<rparr>"
  by (simp add: link_abs_def AList.delete_conv' fun_eq_iff)

lemma GenerateChallenge_refines:
  "link_spec_step recover (link_abs s) (link_abs (snd (GenerateChallenge now n body s)))"
proof (cases "GenerateChallenge now n body s" rule: prod.exhaust)
  case (Pair r s')
  then have "link_spec_step recover (link_abs s) (link_abs s')"
    by (cases rule: GenerateChallenge_cases)
      (use link_spec_step.Issue[where now = now] in \<open>auto simp: link_abs_update intro: link_spec_step.Refuse\<close>)
  then show ?thesis by (simp add: Pair)
qed

lemma open_challenge_abs:
  "map_of (nonceStore s) n = Some e \<Longrightarrow>
     open_challenges (link_abs s) n = Some (ne_userID e, expiresAt e)"
  by (simp add: link_abs_def)

lemma VerifyAndLink_refines:
  "link_spec_step recover (link_abs s) (link_abs (snd (VerifyAndLink recover fails now body s)))"
proof (cases "VerifyAndLink recover fails now body s" rule: prod.exhaust)
  case (Pair r s')
  then show ?thesis
  proof (cases rule: VerifyAndLink_cases)
    case same
    then show ?thesis by (simp add: Pair link_spec_step.Refuse)
  next
    case (dropped n e)
    then show ?thesis
      using link_spec_step.Spend[OF open_challenge_abs] by (simp add: Pair link_abs_delete)
  next
    case (linked user n sig wallet e)
    then show ?thesis
      using link_spec_step.Link[OF open_challenge_abs[OF linked(7)] linked(9,6,10)]
      by (simp add: Pair link_abs_link)
  qed
qed

section \<open>Properties\<close>




text \<open>Also: but a wallet returns its signatures with the prefix \<open>0x\<close>, which the server's decoder rejects:
  then linking never succeeds, whatever the wallet signs, nothing is linked, and for a signed
  challenge the user is told there was a network error.\<close>

theorem prefixed_signatures_rejected:
  assumes "\<And>m sig. sign m = Inr sig \<Longrightarrow> starts_with ''0x'' sig"
    and "user \<noteq> ''''" "n \<noteq> ''''" "wallet \<noteq> ''''" "sign (link_message n) = Inr sig"
  shows "\<exists>c' s'. signAndLink (connected recover fails t1 t2 (Some n) user wallet sign) (c, s) = (False, c', s') \<and>
    \<not> linkSuccess c' \<and> linkError c' = Str ''Network error'' \<and> linked s' = linked s"
proof -
  let ?s = "s\<lparr>nonceStore := AList.update n \<lparr>ne_userID = user, expiresAt = t1 + 5 * 60 * 1000\<rparr> (nonceStore s)\<rparr>"
  let ?body = "Obj [(''user_id'', Str user), (''nonce'', Str n), (''signature'', Str sig), (''wallet_address'', Str wallet)]"
  obtain r s' where res: "VerifyAndLink recover fails t2 ?body ?s = (r, s')" by fastforce
  have none: "hex_decode sig = None"
    using assms(1,5) by (intro hex_decode_0x)
  have "\<exists>k \<ge> 400. r = http_error k \<and> linked s' = linked s"
    using res none by (auto simp: VerifyAndLink_def go_string_def split: option.splits if_splits)
  then obtain k where k: "400 \<le> k" "r = http_error k" "linked s' = linked s" by blast
  show ?thesis
    using assms k(3) linkWallet_refused[OF assms(4,2) res[unfolded k(2)] k(1)]
    by (simp add: signAndLink_def getChallenge_server Let_def)
qed

text \<open>Also: signing in with a wallet cannot work with this server: the challenge request carries an address
  instead of a user, so it is refused; the hook always stores an error, the wallet is never asked
  to sign and the server's state does not change.\<close>

theorem wallet_login_always_fails:
  "\<exists>msg. loginWithWallet m text ethereum (GenerateChallenge t1 n) verify sign address s = (Some msg, s)"
  by (auto simp: loginWithWallet_def GenerateChallenge_def go_string_def http_error_def await_json_def)

text \<open>Also: whatever the server answers and the wallet does, the linking hook ends in no loading state and
  tells success from failure: it returns true exactly when it shows success, and then no error.\<close>

theorem link_result_shown:
  assumes "signAndLink env (c, s) = (ok, c', s')" "wl_isConnected env" "\<not> isLinking c"
  shows "\<not> isSigning c' \<and> \<not> isLinking c' \<and> ok = linkSuccess c' \<and> (ok \<longrightarrow> linkError c' = Null)"
proof -
  obtain n c1 s1 where g: "getChallenge env (c\<lparr>isSigning := True, linkError := Null, linkSuccess := False\<rparr>, s) = (n, c1, s1)"
    using prod_cases3 by blast
  note c1 = getChallenge_client[OF g]
  show ?thesis
  proof (cases "val_truthy n \<and> (\<exists>sig. sign_message env (link_message (js_text (number_text env) n)) = Inr sig)")
    case True
    then obtain sig where sig: "sign_message env (link_message (js_text (number_text env) n)) = Inr sig" by blast
    obtain ok2 c2 s2 where l: "linkWallet env n sig (c1, s1) = (ok2, c2, s2)"
      by (cases "linkWallet env n sig (c1, s1)")
    have "signAndLink env (c, s) = (ok2, c2\<lparr>isSigning := False\<rparr>, s2)"
      using True g l sig assms(2) by (simp add: signAndLink_def)
    then have "ok = ok2" "c' = c2\<lparr>isSigning := False\<rparr>"
      using assms(1) by simp_all
    with linkWallet_result[OF l] c1 assms(3) show ?thesis by auto
  next
    case False
    with assms g c1 show ?thesis
      by (auto simp: signAndLink_def Let_def split: sum.splits if_splits)
  qed
qed

section \<open>Witnesses\<close>

definition sample_wallet :: string where
  "sample_wallet = ''0xaaaaaaaaaaaaaaaaaaaaaaaaaaaaaaaaaaaaaaaa''"

definition sample_recover :: "string \<Rightarrow> nat list \<Rightarrow> string option" where
  "sample_recover m bs =
     (if m = link_message ''ab'' \<and> bs = [0] then Some ''aaaaaaaaaaaaaaaaaaaaaaaaaaaaaaaaaaaaaaaa'' else None)"

definition sample_run :: "link_request list" where
  "sample_run =
     [Challenge 0 (Some ''ab'') (Obj [(''user_id'', Str ''u'')]),
      Verify False 1 (Obj [(''user_id'', Str ''u''), (''nonce'', Str ''ab''), (''signature'', Str ''00''),
        (''wallet_address'', Str sample_wallet)])]"

lemma sample_wallet_valid: "IsHexAddress sample_wallet" "sample_wallet \<noteq> ''''"
  "HexToAddress sample_wallet = ''aaaaaaaaaaaaaaaaaaaaaaaaaaaaaaaaaaaaaaaa''"
  by (simp_all add: sample_wallet_def IsHexAddress_def drop_0x_def starts_with_def is_hex_digit_def hex_val_def
      lower_char_def HexToAddress_def to_lower_def upt_rec)

lemma sample_signature: "signer_matches sample_recover ''ab'' ''00'' sample_wallet" "hex_decode ''00'' = Some [0]"
proof -
  show dec: "hex_decode ''00'' = Some [0]"
    by (simp add: hex_val_def lower_char_def upt_rec)
  show "signer_matches sample_recover ''ab'' ''00'' sample_wallet"
    by (simp only: signer_matches_def dec option.case sample_recover_def sample_wallet_valid(3)) simp
qed



lemma prefixed_signatures_rejected_witness:
  "\<exists>c' s'. signAndLink (connected sample_recover False 0 1 (Some ''ab'') ''u'' sample_wallet (\<lambda>_. Inr ''0x00''))
     (wallet_link_init, link_server_init) = (False, c', s') \<and> linked s' = []"
proof -
  have "\<exists>c' s'. signAndLink (connected sample_recover False 0 1 (Some ''ab'') ''u'' sample_wallet (\<lambda>_. Inr ''0x00''))
      (wallet_link_init, link_server_init) = (False, c', s') \<and> \<not> linkSuccess c' \<and>
      linkError c' = Str ''Network error'' \<and> linked s' = linked link_server_init"
    by (rule prefixed_signatures_rejected) (auto simp: starts_with_def sample_wallet_valid)
  then show ?thesis by (auto simp: link_server_init_def)
qed

lemma link_result_shown_witness:
  "\<exists>ok c' s'. signAndLink (connected sample_recover False 0 1 (Some ''ab'') ''u'' sample_wallet (\<lambda>_. Inr ''00''))
     (wallet_link_init, link_server_init) = (ok, c', s') \<and> \<not> isSigning c' \<and> ok = linkSuccess c'"
proof -
  obtain ok c' s' where
    r: "signAndLink (connected sample_recover False 0 1 (Some ''ab'') ''u'' sample_wallet (\<lambda>_. Inr ''00''))
      (wallet_link_init, link_server_init) = (ok, c', s')"
    by (cases "signAndLink (connected sample_recover False 0 1 (Some ''ab'') ''u'' sample_wallet (\<lambda>_. Inr ''00''))
      (wallet_link_init, link_server_init)")
  with link_result_shown[OF r] show ?thesis by (simp add: wallet_link_init_def)
qed

end
