(* ===== verification/AdminDetails.thy ===== *)
theory AdminDetails
  imports AdminTables WalletLink
begin

text \<open>
  The administration's pages of a single record, \<open>app/(dashboard)/admin\<close>: a job, a node, a user, an alert,
  a dispute and a proposal, with the form of a new proposal and the overview page. As in the tables, a
  page is a function of the row the query answered; it throws (\<open>None\<close>) when it uses a missing field as
  text, number or list. \<open>fmt\<close> is the text of a date, \<open>grp\<close> the text of a number with grouped digits. The
  columns a page shows as they are, on which nothing depends (titles, messages, reasons), are left out.
\<close>

section \<open>Lists in a row\<close>

text \<open>\<open>v || []\<close>, to be mapped over.\<close>

definition list_or_empty :: "jsval \<Rightarrow> jsval list option" where
  "list_or_empty v = (if val_truthy v then (case v of Arr xs \<Rightarrow> Some xs | _ \<Rightarrow> None) else Some [])"

text \<open>\<open>v.length > 0\<close> decides between the mapped list and a placeholder; a missing list throws.\<close>

definition list_length :: "jsval \<Rightarrow> nat option" where
  "list_length v = (case v of Arr xs \<Rightarrow> Some (length xs) | Str s \<Rightarrow> Some (length s)
     | Undefined \<Rightarrow> None | Null \<Rightarrow> None | _ \<Rightarrow> Some 0)"

text \<open>The fields of an entry; an entry that is null or undefined has none.\<close>

definition entry :: "string \<Rightarrow> jsval \<Rightarrow> jsval option" where
  "entry k v = prop_of k v"

section \<open>A job\<close>

record job_detail =
  jd_id :: jsval
  jd_badge :: string
  jd_client :: jsval
  jd_value :: string
  jd_nodes :: nat
  jd_created :: string
  jd_deadline :: string
  jd_uptime :: jsval
  jd_throughput :: jsval
  jd_assigned :: "(jsval \<times> string \<times> string \<times> string) list"
  jd_checkpoints :: "(jsval \<times> jsval \<times> jsval \<times> string \<times> string) list option"
  jd_events :: "(string \<times> jsval \<times> string) list"

definition assigned_status :: "jsval \<Rightarrow> jsval" where
  "assigned_status v = (if v = Str ''processing'' then Str ''online'' else if v = Str ''failed'' then Str ''failed''
     else if v = Str ''completed'' then Str ''completed'' else Str ''pending'')"

definition assigned_row :: "jsnum \<Rightarrow> jsval \<Rightarrow> (jsval \<times> string \<times> string \<times> string) option" where
  "assigned_row now n = do {
     i \<leftarrow> entry ''nodeId'' n;
     a \<leftarrow> entry ''address'' n;
     addr \<leftarrow> short_address (or_val a (Str ''''));
     st \<leftarrow> entry ''status'' n;
     badge \<leftarrow> StatusBadge (assigned_status st);
     j \<leftarrow> entry ''joinedAt'' n;
     Some (i, addr, badge, if val_truthy j then admin_relative_time now (as_num j) else ''-'') }"

definition checkpoint_badge :: "jsval \<Rightarrow> string" where
  "checkpoint_badge v = (if v = Str ''saved'' then ''success'' else if v = Str ''restored'' then ''warning'' else ''danger'')"

definition checkpoint_row :: "(jsval \<Rightarrow> string) \<Rightarrow> jsval \<Rightarrow> (jsval \<times> jsval \<times> jsval \<times> string \<times> string) option" where
  "checkpoint_row fmt c = do {
     i \<leftarrow> entry ''id'' c; n \<leftarrow> entry ''nodeId'' c; h \<leftarrow> entry ''dataHash'' c; t \<leftarrow> entry ''timestamp'' c;
     st \<leftarrow> entry ''status'' c;
     Some (i, n, h, fmt t, checkpoint_badge st) }"

definition event_colors :: "(string \<times> string) list" where
  "event_colors = [(''created'', ''blue''), (''assigned'', ''muted''), (''checkpoint'', ''active''), (''slash'', ''slashed''),
     (''complete'', ''active''), (''fail'', ''slashed'')]"

definition event_row :: "(jsval \<Rightarrow> string) \<Rightarrow> jsval \<Rightarrow> (string \<times> jsval \<times> string) option" where
  "event_row fmt e = do {
     ty \<leftarrow> entry ''type'' e; msg \<leftarrow> entry ''message'' e; t \<leftarrow> entry ''timestamp'' e;
     Some (or_else (lookup event_colors ty) ''muted'', msg, fmt t) }"

definition AdminJobDetail :: "(jsval \<Rightarrow> string) \<Rightarrow> (string \<Rightarrow> jsnum) \<Rightarrow> jsnum \<Rightarrow> row \<Rightarrow> job_detail option" where
  "AdminJobDetail fmt pd now r = do {
     badge \<leftarrow> StatusBadge (get ''status'' r);
     amount \<leftarrow> fixed 2 (or_val (get ''budget_usd'' r) (Num (Fin 0)));
     nodes \<leftarrow> list_or_empty (get ''assignedNodes'' r);
     assigned \<leftarrow> those (map (assigned_row now) nodes);
     n \<leftarrow> list_length (get ''checkpoints'' r);
     cps \<leftarrow> (if 0 < n then do {
                xs \<leftarrow> list_or_empty (get ''checkpoints'' r); ys \<leftarrow> those (map (checkpoint_row fmt) xs); Some (Some ys) }
              else Some None);
     log \<leftarrow> list_or_empty (get ''eventLog'' r);
     events \<leftarrow> those (map (event_row fmt) log);
     Some \<lparr>jd_id = get ''id'' r, jd_badge = badge, jd_client = get ''user_id'' r, jd_value = amount @ '' USD'',
       jd_nodes = (if val_truthy (get ''node_id'' r) then 1 else 0),
       jd_created = admin_relative_time now
         (if val_truthy (get ''created_at'' r) then time_of pd (get ''created_at'' r) else now),
       jd_deadline = admin_relative_time now
         (if val_truthy (get ''deadline'' r) then time_of pd (get ''deadline'' r) else js_add now (Fin 86400000)),
       jd_uptime = or_val (get ''sla_uptime_required'' r) (Num (Fin 95)),
       jd_throughput = or_val (get ''sla_throughput_required'' r) (Num (Fin 100)),
       jd_assigned = assigned, jd_checkpoints = cps, jd_events = events\<rparr> }"

section \<open>A node\<close>

record node_detail =
  nd_id :: jsval
  nd_address :: jsval
  nd_badge :: string
  nd_gpu :: jsval
  nd_stake :: string
  nd_region :: jsval
  nd_tier :: reputation_tier
  nd_lifetime :: "bool \<times> jsval"

definition AdminNodeDetail :: "row \<Rightarrow> node_detail option" where
  "AdminNodeDetail r = do {
     badge \<leftarrow> StatusBadge (get ''status'' r);
     stake \<leftarrow> fixed 2 (get ''total_stake'' r);
     Some \<lparr>nd_id = get ''id'' r, nd_address = get ''wallet_address'' r, nd_badge = badge, nd_gpu = get ''gpu'' r,
       nd_stake = stake @ '' ETH'', nd_region = get ''region'' r,
       nd_tier = badge_resolved_tier None
         (case get ''reputation_score'' r of Undefined \<Rightarrow> None | v \<Rightarrow> Some (as_num v)),
       nd_lifetime = (js_lt (Fin 0) (as_num (get ''reputation_score'' r)), get ''reputation_score'' r)\<rparr> }"

section \<open>A dispute\<close>

record dispute_detail =
  dd_id :: jsval
  dd_badge :: string
  dd_amount :: string
  dd_operator :: string
  dd_uptime :: "string \<times> jsval"
  dd_throughput :: "jsval \<times> jsval"
  dd_missed :: jsval
  dd_actions :: bool
  dd_tx :: jsval

definition dispute_badge :: "jsval \<Rightarrow> string" where
  "dispute_badge v = (if v = Str ''pending'' then ''warning'' else if v = Str ''resolved'' then ''success'' else ''danger'')"

definition AdminDisputeDetail :: "row \<Rightarrow> dispute_detail option" where
  "AdminDisputeDetail r = do {
     amount \<leftarrow> fixed 3 (get ''slash_amount'' r);
     operator \<leftarrow> short_address (get ''node_address'' r);
     au \<leftarrow> entry ''actual_uptime'' (get ''sla_details'' r);
     actual \<leftarrow> fixed 1 au;
     ru \<leftarrow> entry ''required_uptime'' (get ''sla_details'' r);
     thr \<leftarrow> entry ''actual_throughput'' (get ''sla_details'' r);
     rthr \<leftarrow> entry ''required_throughput'' (get ''sla_details'' r);
     mh \<leftarrow> entry ''missed_heartbeats'' (get ''sla_details'' r);
     Some \<lparr>dd_id = get ''id'' r, dd_badge = dispute_badge (get ''status'' r), dd_amount = ''-'' @ amount @ '' ETH'',
       dd_operator = operator, dd_uptime = (actual @ ''%'', ru), dd_throughput = (thr, rthr), dd_missed = mh,
       dd_actions = (get ''status'' r = Str ''pending''), dd_tx = or_val (get ''tx_hash'' r) (Str ''Pending'')\<rparr> }"

section \<open>An alert\<close>

record alert_detail =
  ad_id :: jsval
  ad_color :: string
  ad_severity_icon :: string
  ad_type_icon :: string
  ad_when :: string
  ad_node :: "jsval option"
  ad_job :: "jsval option"
  ad_no_context :: bool
  ad_timeline :: "(jsval \<times> string \<times> bool) list"
  ad_acknowledge :: bool
  ad_resolve :: bool

definition severity_colors :: "(string \<times> string) list" where
  "severity_colors = [(''Critical'', ''slashed''), (''Warning'', ''stale''), (''Info'', ''blue'')]"

definition severity_icons :: "(string \<times> string) list" where
  "severity_icons = [(''Critical'', ''AlertTriangle''), (''Warning'', ''Bell''), (''Info'', ''Activity'')]"

definition type_icons :: "(string \<times> string) list" where
  "type_icons = [(''Heartbeat Anomaly'', ''Server''), (''SLA Breach'', ''Scale''), (''Unusual Activity'', ''Activity''),
     (''Slash Event'', ''AlertTriangle'')]"

definition timeline_labels :: "(string \<times> string) list" where
  "timeline_labels = [(''open'', ''Open''), (''triggered'', ''Triggered''), (''acknowledged'', ''Acknowledged''),
     (''resolved'', ''Resolved'')]"

definition timeline_row :: "nat \<Rightarrow> (jsval \<Rightarrow> string) \<Rightarrow> nat \<times> jsval \<Rightarrow> (jsval \<times> string \<times> bool) option" where
  "timeline_row n fmt e = do {
     st \<leftarrow> entry ''status'' (snd e); t \<leftarrow> entry ''timestamp'' (snd e);
     Some (case lookup timeline_labels st of Some l \<Rightarrow> Str l | None \<Rightarrow> st, fmt t, fst e + 1 < n) }"

definition AdminAlertDetail :: "(jsval \<Rightarrow> string) \<Rightarrow> (string \<Rightarrow> jsnum) \<Rightarrow> jsnum \<Rightarrow> row \<Rightarrow> alert_detail option" where
  "AdminAlertDetail fmt pd now r = do {
     entries \<leftarrow> list_or_empty (get ''timeline'' r);
     timeline \<leftarrow> those (map (timeline_row (length entries) fmt) (enumerate 0 entries));
     Some \<lparr>ad_id = get ''id'' r,
       ad_color = or_else (lookup severity_colors (get ''severity'' r)) ''slashed'',
       ad_severity_icon = or_else (lookup severity_icons (get ''severity'' r)) ''AlertTriangle'',
       ad_type_icon = or_else (lookup type_icons (get ''type'' r)) ''Server'',
       ad_when = ''Triggered '' @ admin_relative_time now (time_of pd (get ''created_at'' r)),
       ad_node = (if val_truthy (get ''node_id'' r) then Some (get ''node_id'' r) else None),
       ad_job = (if val_truthy (get ''job_id'' r) then Some (get ''job_id'' r) else None),
       ad_no_context = (\<not> val_truthy (get ''node_id'' r) \<and> \<not> val_truthy (get ''job_id'' r)),
       ad_timeline = timeline,
       ad_acknowledge = (get ''status'' r = Str ''open''),
       ad_resolve = (get ''status'' r \<noteq> Str ''resolved'')\<rparr> }"

section \<open>A proposal\<close>

record proposal_detail =
  pd_label :: string
  pd_vote_buttons :: bool
  pd_panel :: vote_panel
  pd_for :: string
  pd_against :: string
  pd_required :: string
  pd_created :: jsval
  pd_deadline :: string
  pd_proposer :: string
  pd_execute :: bool

definition AdminProposalDetail :: "(jsnum \<Rightarrow> string) \<Rightarrow> (string \<Rightarrow> jsnum) \<Rightarrow> jsnum \<Rightarrow> row \<Rightarrow> proposal_detail option" where
  "AdminProposalDetail grp pd now r = do {
     label \<leftarrow> lookup proposal_labels (get ''status'' r);
     yes \<leftarrow> localized grp (get ''votes_for'' r);
     no \<leftarrow> localized grp (get ''votes_against'' r);
     required \<leftarrow> localized grp (get ''quorum'' r);
     created \<leftarrow> date_shown (get ''created_at'' r);
     proposer \<leftarrow> short_address (get ''proposer'' r);
     Some \<lparr>pd_label = label, pd_vote_buttons = (get ''status'' r = Str ''active''),
       pd_panel = vote_panel (as_num (get ''votes_for'' r)) (as_num (get ''votes_against'' r)) (as_num (get ''quorum'' r)),
       pd_for = yes @ '' ETH'', pd_against = no @ '' ETH'', pd_required = ''Required: '' @ required @ '' ETH'',
       pd_created = created, pd_deadline = deadline_text now (time_of pd (get ''deadline'' r)),
       pd_proposer = proposer, pd_execute = (get ''status'' r = Str ''passed'')\<rparr> }"

section \<open>A user\<close>

record user_job =
  uj_id :: string
  uj_status :: jsval
  uj_value :: jsnum
  uj_nodes :: nat
  uj_createdAt :: jsnum

record user_node =
  un_id :: string
  un_gpu :: string
  un_region :: string
  un_status :: jsval
  un_reputation :: jsnum
  un_stake :: jsnum

record user_transaction =
  ut_type :: string
  ut_amount :: jsnum
  ut_timestamp :: jsnum
  ut_jobId :: "string option"
  ut_nodeId :: "string option"

record user_detail =
  ud_address :: jsval
  ud_type :: jsval
  ud_status :: jsval
  ud_joinedAt :: jsnum
  ud_jobs :: "user_job list"
  ud_nodes :: "user_node list"
  ud_transactions :: "user_transaction list"
  ud_totalSpend :: jsnum
  ud_totalEarned :: jsnum

text \<open>What the page makes of the profile: no jobs, nodes or transactions are fetched.\<close>

definition user_detail_of :: "(string \<Rightarrow> jsnum) \<Rightarrow> row \<Rightarrow> user_detail" where
  "user_detail_of pd p = \<lparr>ud_address = get ''wallet_address'' p, ud_type = get ''user_type'' p,
     ud_status = get ''status'' p, ud_joinedAt = time_of pd (get ''created_at'' p), ud_jobs = [], ud_nodes = [],
     ud_transactions = [], ud_totalSpend = Fin 0, ud_totalEarned = Fin 0\<rparr>"

definition user_job_row :: "jsnum \<Rightarrow> user_job \<Rightarrow> (string \<times> string \<times> nat \<times> string \<times> string) option" where
  "user_job_row now j = do {
     badge \<leftarrow> StatusBadge (uj_status j);
     Some (uj_id j, badge, uj_nodes j, toFixed 2 (uj_value j) @ '' ETH'', admin_relative_time now (uj_createdAt j)) }"

definition user_node_row :: "user_node \<Rightarrow> (string \<times> string \<times> string \<times> string \<times> reputation_tier \<times> string) option" where
  "user_node_row n = do {
     badge \<leftarrow> StatusBadge (un_status n);
     Some (un_id n, un_gpu n, un_region n, badge, badge_resolved_tier None (Some (un_reputation n)),
       toFixed 1 (un_stake n) @ '' ETH'') }"

definition tx_labels :: "(string \<times> string) list" where
  "tx_labels = [(''deposit'', ''Deposit''), (''withdrawal'', ''Withdrawal''), (''payment'', ''Payment''), (''slash'', ''Slash''),
     (''reward'', ''Reward'')]"

definition user_tx_row :: "user_transaction \<Rightarrow> (string \<times> string list \<times> string) option" where
  "user_tx_row t = do {
     label \<leftarrow> map_of tx_labels (ut_type t);
     Some (label, (if truthy_str (ut_jobId t) then [''/admin/jobs/'' @ the (ut_jobId t)] else []) @
         (if truthy_str (ut_nodeId t) then [''/admin/nodes/'' @ the (ut_nodeId t)] else []),
       (if js_le (Fin 0) (ut_amount t) then ''+'' else '''') @ toFixed 2 (ut_amount t) @ '' ETH'') }"

record user_view =
  uv_title :: string
  uv_badge :: string
  uv_button :: string
  uv_balance :: string
  uv_cards :: "(string \<times> string) list"
  uv_jobs :: "(string \<times> string \<times> nat \<times> string \<times> string) list"
  uv_nodes :: "(string \<times> string \<times> string \<times> string \<times> reputation_tier \<times> string) list"
  uv_transactions :: "(string \<times> string list \<times> string) list"

definition user_balance :: "user_detail \<Rightarrow> jsnum" where
  "user_balance u = fold (\<lambda>t s. js_add s (ut_amount t)) (ud_transactions u) (Fin 0)"

definition AdminUserDetail :: "jsnum \<Rightarrow> user_detail \<Rightarrow> user_view option" where
  "AdminUserDetail now u = (let client = (ud_type u = Str ''client''); active = (ud_status u = Str ''active'') in do {
     jobs \<leftarrow> (if client then those (map (user_job_row now) (ud_jobs u)) else Some []);
     nodes \<leftarrow> (if ud_type u = Str ''provider'' then those (map user_node_row (ud_nodes u)) else Some []);
     txs \<leftarrow> those (map user_tx_row (ud_transactions u));
     Some \<lparr>uv_title = (if client then ''Client'' else ''Provider'') @ '' Wallet'',
       uv_badge = (if active then ''success'' else ''danger''),
       uv_button = (if active then ''Suspend'' else ''Activate''),
       uv_balance = toFixed 2 (user_balance u) @ '' ETH'',
       uv_cards = (if client then [(''Jobs Submitted'', show_nat (length (ud_jobs u))),
            (''Total Spend'', toFixed 1 (ud_totalSpend u) @ '' ETH'')]
          else [(''Nodes Registered'', show_nat (length (ud_nodes u))),
            (''Total Earned'', toFixed 1 (ud_totalEarned u) @ '' ETH'')]),
       uv_jobs = jobs, uv_nodes = nodes, uv_transactions = txs\<rparr> })"

section \<open>Loading a single record\<close>

text \<open>\<open>fallback\<close> stands for an error without message. An error without message and without fallback is
  falsy, so the page goes on loading.\<close>

definition detail_screen ::
  "string \<Rightarrow> string \<Rightarrow> (row \<Rightarrow> 'v option) \<Rightarrow> (string + row) option \<Rightarrow> 'v admin_screen" where
  "detail_screen prefix fallback page answer =
     (case answer of
        None \<Rightarrow> ShowLoading
      | Some (Inl e) \<Rightarrow>
          (let message = (if e = '''' then fallback else e)
           in if message = '''' then ShowLoading else ShowError (prefix @ message))
      | Some (Inr r) \<Rightarrow> (case page r of None \<Rightarrow> Crashed | Some v \<Rightarrow> ShowPage v))"

definition AdminJobDetailContent where
  "AdminJobDetailContent fmt pd now = detail_screen ''Error loading job: '' '''' (AdminJobDetail fmt pd now)"

definition AdminNodeDetailContent where
  "AdminNodeDetailContent = detail_screen '''' ''Failed to load node'' AdminNodeDetail"

definition AdminAlertDetailContent where
  "AdminAlertDetailContent fmt pd now = detail_screen ''Failed to load alert: '' '''' (AdminAlertDetail fmt pd now)"

definition AdminProposalDetailContent where
  "AdminProposalDetailContent grp pd now =
     detail_screen ''Failed to load proposal: '' '''' (AdminProposalDetail grp pd now)"

definition AdminUserDetailContent where
  "AdminUserDetailContent pd now =
     detail_screen '''' ''Failed to load user'' (\<lambda>r. AdminUserDetail now (user_detail_of pd r))"

text \<open>The page of a dispute looks at the kind of the error: only an \<open>Error\<close> has its message shown; and a
  loaded page starts with the notes of the row.\<close>

definition AdminDisputeDetailContent ::
  "((bool \<times> string) + row) option \<Rightarrow> (dispute_detail \<times> jsval) admin_screen" where
  "AdminDisputeDetailContent answer =
     (case answer of
        None \<Rightarrow> ShowLoading
      | Some (Inl (is_error, e)) \<Rightarrow>
          (let message = (if is_error then e else ''Failed to load dispute'')
           in ShowError (if message = '''' then ''Dispute not found'' else message))
      | Some (Inr r) \<Rightarrow>
          (case AdminDisputeDetail r of None \<Rightarrow> Crashed
           | Some v \<Rightarrow> ShowPage (v, or_val (get ''admin_notes'' r) (Str ''''))))"

section \<open>A new proposal\<close>

record proposal_form =
  pf_title :: string
  pf_description :: string
  proposalType :: string
  parameterToChange :: string
  pf_newValue :: string
  votingDeadline :: string
  pf_submitting :: bool
  pf_timer :: bool
  pf_goes :: "string list"

definition proposal_form_init :: proposal_form where
  "proposal_form_init = \<lparr>pf_title = '''', pf_description = '''', proposalType = ''Parameter Change'',
     parameterToChange = '''', pf_newValue = '''', votingDeadline = '''', pf_submitting = False, pf_timer = False,
     pf_goes = []\<rparr>"

definition proposalTypes :: "string list" where
  "proposalTypes = [''Parameter Change'', ''Contract Upgrade'', ''Budget'']"

datatype proposal_event = TypeTitle string | TypeDescription string | ChooseType nat | TypeParameter string
  | TypeNewValue string | TypeDeadline string | SubmitProposal | ProposalTimer

text \<open>All fields are required: the browser does not submit a form with an empty one.\<close>

definition form_complete :: "proposal_form \<Rightarrow> bool" where
  "form_complete f \<longleftrightarrow> pf_title f \<noteq> '''' \<and> pf_description f \<noteq> '''' \<and> parameterToChange f \<noteq> '''' \<and> pf_newValue f \<noteq> '''' \<and>
     votingDeadline f \<noteq> ''''"

fun proposal_step :: "proposal_event \<Rightarrow> proposal_form \<Rightarrow> proposal_form" where
  "proposal_step (TypeTitle s) f = f\<lparr>pf_title := s\<rparr>"
| "proposal_step (TypeDescription s) f = f\<lparr>pf_description := s\<rparr>"
| "proposal_step (ChooseType i) f = (if i < length proposalTypes then f\<lparr>proposalType := proposalTypes ! i\<rparr> else f)"
| "proposal_step (TypeParameter s) f = f\<lparr>parameterToChange := s\<rparr>"
| "proposal_step (TypeNewValue s) f = f\<lparr>pf_newValue := s\<rparr>"
| "proposal_step (TypeDeadline s) f = f\<lparr>votingDeadline := s\<rparr>"
| "proposal_step SubmitProposal f =
     (if pf_submitting f \<or> \<not> form_complete f then f else f\<lparr>pf_submitting := True, pf_timer := True\<rparr>)"
| "proposal_step ProposalTimer f =
     (if pf_timer f then f\<lparr>pf_submitting := False, pf_timer := False, pf_goes := pf_goes f @ [''/admin/governance'']\<rparr>
      else f)"

section \<open>The overview\<close>

record admin_stats =
  as_totalUsers :: nat
  as_totalJobs :: nat
  as_totalNodes :: nat
  as_totalSlashed :: rat
  as_pendingSlashes :: nat
  as_activeJobs :: nat

definition admin_dashboard_stats :: admin_stats where
  "admin_dashboard_stats = \<lparr>as_totalUsers = 1247, as_totalJobs = 8934, as_totalNodes = 312, as_totalSlashed = 47.8,
     as_pendingSlashes = 5, as_activeJobs = 89\<rparr>"

text \<open>The card Active Nodes and the line Active Nodes of the network's health.\<close>

definition active_nodes_card :: "admin_stats \<Rightarrow> string \<times> string" where
  "active_nodes_card s = (show_nat (as_activeJobs s), ''of '' @ show_nat (as_totalNodes s))"

definition active_nodes_line :: "admin_stats \<Rightarrow> string" where
  "active_nodes_line s = show_int (int (as_totalNodes s) - 23) @ '' / '' @ show_nat (as_totalNodes s)"

section \<open>Lemmas\<close>

text \<open>Columns of the tables the detail pages read, and the stored values of the alerts' status and type.\<close>

definition job_columns :: "string list" where
  "job_columns = [''id'', ''job_id_256'', ''user_id'', ''node_id'', ''status'', ''job_type'', ''input_payload'',
     ''output_payload'', ''estimated_duration_minutes'', ''actual_duration_minutes'', ''checkpoint_url'',
     ''sla_uptime_required'', ''sla_throughput_required'', ''deadline'', ''budget_usd'', ''price_charged_usd'',
     ''paid_at'', ''created_at'', ''updated_at'', ''completed_at'']"

definition alert_columns :: "string list" where
  "alert_columns = [''id'', ''type'', ''severity'', ''node_id'', ''job_id'', ''message'', ''status'', ''acknowledged_by'',
     ''resolved_at'', ''created_at'']"

definition proposal_columns :: "string list" where
  "proposal_columns = [''id'', ''title'', ''description'', ''type'', ''status'', ''votes_for'', ''votes_against'',
     ''quorum'', ''deadline'', ''proposer_id'', ''created_at'', ''updated_at'']"

definition stored_alert_status :: "string list" where
  "stored_alert_status = [''triggered'', ''acknowledged'', ''resolved'']"

definition stored_alert_type :: "string list" where
  "stored_alert_type = [''node_offline'', ''node_stale'', ''slashing'', ''job_failed'', ''budget_exceeded'',
     ''sla_breach'', ''system'']"

definition has_columns :: "string list \<Rightarrow> row \<Rightarrow> bool" where
  "has_columns cs r \<longleftrightarrow> fst ` set r = set cs"

lemma column_absent: "has_columns cs r \<Longrightarrow> k \<notin> set cs \<Longrightarrow> get k r = Undefined"
  by (simp add: has_columns_def get_absent)

lemma bind_None_iff: "Option.bind m f = None \<longleftrightarrow> (\<forall>x. m = Some x \<longrightarrow> f x = None)"
  by (cases m) auto

lemma job_detail_stored: "has_columns job_columns r \<Longrightarrow> AdminJobDetail fmt pd now r = None"
  using column_absent[of job_columns r "''checkpoints''"]
  by (auto simp: AdminJobDetail_def list_length_def job_columns_def bind_None_iff)

lemma node_detail_stored: "row_of ''nodes'' r \<Longrightarrow> AdminNodeDetail r = None"
  using missing_column[of "''nodes''" r "''total_stake''"]
  by (auto simp: AdminNodeDetail_def fixed_def columns_of_def bind_None_iff)

lemma dispute_detail_stored: "row_of ''disputes'' r \<Longrightarrow> AdminDisputeDetail r = None"
  using missing_column[of "''disputes''" r "''slash_amount''"]
  by (auto simp: AdminDisputeDetail_def fixed_def columns_of_def bind_None_iff)

lemma proposal_detail_stored: "has_columns proposal_columns r \<Longrightarrow> AdminProposalDetail grp pd now r = None"
  using column_absent[of proposal_columns r "''proposer''"]
  by (auto simp: AdminProposalDetail_def short_address_def proposal_columns_def bind_None_iff)

definition stored_alert_row :: "row \<Rightarrow> bool" where
  "stored_alert_row r \<longleftrightarrow> has_columns alert_columns r \<and>
     (\<exists>s \<in> set stored_alert_status. get ''status'' r = Str s) \<and>
     (\<exists>s \<in> set stored_severities. get ''severity'' r = Str s) \<and> (\<exists>s \<in> set stored_alert_type. get ''type'' r = Str s)"

lemma alert_detail_stored:
  assumes "stored_alert_row r"
  shows "\<exists>v. AdminAlertDetail fmt pd now r = Some v \<and> \<not> ad_acknowledge v \<and> ad_timeline v = [] \<and>
    ad_color v = ''slashed'' \<and> ad_severity_icon v = ''AlertTriangle'' \<and> ad_type_icon v = ''Server'' \<and>
    (ad_resolve v \<longleftrightarrow> get ''status'' r \<noteq> Str ''resolved'')"
proof -
  have "get ''timeline'' r = Undefined"
    using assms by (intro column_absent[of alert_columns]) (simp_all add: stored_alert_row_def alert_columns_def)
  moreover have "lookup severity_colors (get ''severity'' r) = None" "lookup severity_icons (get ''severity'' r) = None"
    "lookup type_icons (get ''type'' r) = None" "get ''status'' r \<noteq> Str ''open''"
    using assms
    by (auto simp: stored_alert_row_def stored_severities_def severity_colors_def severity_icons_def lookup_def
        stored_alert_type_def type_icons_def stored_alert_status_def)
  ultimately show ?thesis
    by (simp add: AdminAlertDetail_def list_or_empty_def or_else_def)
qed

text \<open>The page of a user shows constants apart from the address, the type and the date.\<close>

lemma user_detail_stored:
  assumes "stored_profile r"
  shows "\<exists>v. AdminUserDetail now (user_detail_of pd r) = Some v \<and> uv_balance v = ''0.00 ETH'' \<and>
    uv_button v = ''Activate'' \<and> uv_badge v = ''danger'' \<and> uv_jobs v = [] \<and> uv_nodes v = [] \<and> uv_transactions v = [] \<and>
    map snd (uv_cards v) = [''0'', ''0.0 ETH'']"
proof -
  have "get ''status'' r = Undefined"
    using assms by (intro missing_column[of "''profiles''"]) (simp_all add: stored_profile_def columns_of_def)
  moreover have "toFixed 2 (Fin 0) = ''0.00''" "toFixed 1 (Fin 0) = ''0.0''" "show_nat 0 = ''0''"
    by code_simp+
  ultimately show ?thesis
    by (simp add: AdminUserDetail_def user_detail_of_def user_balance_def Let_def)
qed

definition proposal_inv :: "proposal_form \<Rightarrow> bool" where
  "proposal_inv f \<longleftrightarrow> set (pf_goes f) \<subseteq> {''/admin/governance''} \<and> proposalType f \<in> set proposalTypes"

interpretation proposal_page: state_machine proposal_step proposal_inv proposal_form_init
proof
  show "proposal_inv proposal_form_init"
    by (simp add: proposal_inv_def proposal_form_init_def proposalTypes_def)
  show "proposal_inv (proposal_step e f)" if "proposal_inv f" for e f
    using that by (cases e) (auto simp: proposal_inv_def)
qed

section \<open>Properties\<close>

text \<open>Also: on rows as the database stores them, the administration's pages of a job, a node, a dispute and a
  proposal crash for every row, because each uses a column its table does not have; the page of an alert
  is shown but never offers to acknowledge it, has no timeline and shows every severity and type with the
  fallback icons; the page of a user shows zero for everything and offers to activate the account.\<close>

theorem admin_details_on_stored_rows:
  "(has_columns job_columns j \<longrightarrow> AdminJobDetailContent fmt pd now (Some (Inr j)) = Crashed) \<and>
   (row_of ''nodes'' n \<longrightarrow> AdminNodeDetailContent (Some (Inr n)) = Crashed) \<and>
   (row_of ''disputes'' d \<longrightarrow> AdminDisputeDetailContent (Some (Inr d)) = Crashed) \<and>
   (has_columns proposal_columns p \<longrightarrow> AdminProposalDetailContent grp pd now (Some (Inr p)) = Crashed) \<and>
   (stored_alert_row a \<longrightarrow> (\<exists>v. AdminAlertDetailContent fmt pd now (Some (Inr a)) = ShowPage v \<and>
      \<not> ad_acknowledge v \<and> ad_timeline v = [] \<and> ad_color v = ''slashed'' \<and> ad_type_icon v = ''Server'')) \<and>
   (stored_profile u \<longrightarrow> (\<exists>v. AdminUserDetailContent pd now (Some (Inr u)) = ShowPage v \<and>
      uv_balance v = ''0.00 ETH'' \<and> map snd (uv_cards v) = [''0'', ''0.0 ETH''] \<and> uv_button v = ''Activate''))"
proof (intro conjI impI)
  assume "stored_alert_row a"
  from alert_detail_stored[OF this, of fmt pd now]
  show "\<exists>v. AdminAlertDetailContent fmt pd now (Some (Inr a)) = ShowPage v \<and>
      \<not> ad_acknowledge v \<and> ad_timeline v = [] \<and> ad_color v = ''slashed'' \<and> ad_type_icon v = ''Server''"
    by (auto simp: AdminAlertDetailContent_def detail_screen_def)
next
  assume "stored_profile u"
  from user_detail_stored[OF this, of now pd]
  show "\<exists>v. AdminUserDetailContent pd now (Some (Inr u)) = ShowPage v \<and>
      uv_balance v = ''0.00 ETH'' \<and> map snd (uv_cards v) = [''0'', ''0.0 ETH''] \<and> uv_button v = ''Activate''"
    by (auto simp: AdminUserDetailContent_def detail_screen_def)
qed (simp_all add: AdminJobDetailContent_def AdminNodeDetailContent_def AdminDisputeDetailContent_def
    AdminProposalDetailContent_def detail_screen_def job_detail_stored node_detail_stored dispute_detail_stored
    proposal_detail_stored)

definition null_row :: "string list \<Rightarrow> row" where
  "null_row cs = map (\<lambda>c. (c, Null)) cs"

lemma null_row_columns: "has_columns cs (null_row cs)" "row_of t (null_row (columns_of t))"
  by (auto simp: has_columns_def row_of_def null_row_def image_iff)

lemma admin_details_on_stored_rows_witness:
  "AdminJobDetailContent (\<lambda>_. ''x'') (\<lambda>_. Fin 0) (Fin 0)
     (Some (Inr ((''status'', Str ''running'') # null_row job_columns))) = Crashed \<and>
   AdminNodeDetailContent (Some (Inr ((''status'', Str ''online'') # null_row (columns_of ''nodes'')))) = Crashed"
proof -
  have "has_columns job_columns ((''status'', Str ''running'') # null_row job_columns)"
    using null_row_columns(1)[of job_columns] by (auto simp: has_columns_def job_columns_def)
  moreover have "row_of ''nodes'' ((''status'', Str ''online'') # null_row (columns_of ''nodes''))"
    using null_row_columns(2)[of "''nodes''"] by (auto simp: row_of_def columns_of_def)
  ultimately show ?thesis
    using admin_details_on_stored_rows[of "(''status'', Str ''running'') # null_row job_columns"
        "\<lambda>_. ''x''" "\<lambda>_. Fin 0" "Fin 0" "(''status'', Str ''online'') # null_row (columns_of ''nodes'')"]
    by blast
qed

text \<open>Also: an address with a capital letter, which wallets report, is linked as it is, but the page of a
  user asks for its lower-case form; whatever row the database answers, it is not the linked one.\<close>

theorem linked_wallet_not_found:
  assumes "VerifyAndLink recover fails now body s = (r, s')" and "res_ok r"
    and "go_string ''wallet_address'' body = Some w" and "to_lower w \<noteq> w"
    and "\<And>q d. q_single q \<Longrightarrow> r_error (fst (exec q d)) = None \<Longrightarrow>
      \<exists>row. r_data (fst (exec q d)) = Obj row \<and> (\<forall>(c, v) \<in> set (q_filters q). get c row = Str v)"
  shows "(\<exists>u. (u, w) \<in> set (linked s')) \<and>
    (fst (adminGetUserByWallet exec w db) = Inr v \<longrightarrow> field ''wallet_address'' v \<noteq> Str w)"
proof
  show "\<exists>u. (u, w) \<in> set (linked s')"
    using assms(1) by (cases rule: VerifyAndLink_cases) (use assms(2,3) in auto)
  show "fst (adminGetUserByWallet exec w db) = Inr v \<longrightarrow> field ''wallet_address'' v \<noteq> Str w"
  proof
    let ?q = "single_row (eq_filter ''wallet_address'' (to_lower w) (from_table ServiceClient ''profiles'' (QSelect ''*'')))"
    assume "fst (adminGetUserByWallet exec w db) = Inr v"
    then have "r_error (fst (exec ?q db)) = None" "v = r_data (fst (exec ?q db))"
      by (auto simp: adminGetUserByWallet_def throwing_result split: option.splits)
    moreover have "q_single ?q" "(''wallet_address'', to_lower w) \<in> set (q_filters ?q)"
      by (simp_all add: query_builders)
    ultimately obtain row where "v = Obj row" "get ''wallet_address'' row = Str (to_lower w)"
      using assms(5)[of ?q db] by auto
    then show "field ''wallet_address'' v \<noteq> Str w" using assms(4) by (simp add: get_def)
  qed
qed

text \<open>Also: submitting a proposal stores nothing and leaves the page; choosing another type keeps the texts of
  the previous one, which then stand for something else.\<close>

theorem proposal_form_runs:
  "set (pf_goes (fold proposal_step es proposal_form_init)) \<subseteq> {''/admin/governance''} \<and>
   proposalType (fold proposal_step es proposal_form_init) \<in> set proposalTypes \<and>
   parameterToChange (proposal_step (ChooseType i) f) = parameterToChange f \<and>
   pf_newValue (proposal_step (ChooseType i) f) = pf_newValue f"
  using proposal_page.inv_reachable[of es] by (simp add: proposal_inv_def)

lemma overview_contradicts_itself:
  "active_nodes_card admin_dashboard_stats = (''89'', ''of 312'')" "active_nodes_line admin_dashboard_stats = ''289 / 312''"
  by code_simp+

end
