(* ===== verification/SlashingViews.thy ===== *)
theory SlashingViews
  imports AdminSlashing AdminDetails
begin

text \<open>
  What the slashing review page shows: the counters, the list with its filters, the panel of the selected event and the
  two dialogs, over the states of theory \<open>AdminSlashing\<close>. \<open>date\<close> is the text of a date, \<open>text\<close> that of a value in
  a template string. A rendering is \<open>None\<close> when it throws.
\<close>

section \<open>Parts of an event\<close>

record sla_cells =
  sc_uptime :: "string \<times> jsval"
  sc_throughput :: "jsval \<times> jsval"
  sc_missed :: jsval

text \<open>The details of the breach, if the event has any.\<close>

definition sla_cells_of :: "jsval \<Rightarrow> sla_cells option option" where
  "sla_cells_of v = (if \<not> val_truthy v then Some None else do {
     actual \<leftarrow> entry ''actual_uptime'' v;
     uptime \<leftarrow> fixed 1 actual;
     required \<leftarrow> entry ''required_uptime'' v;
     throughput \<leftarrow> entry ''actual_throughput'' v;
     target \<leftarrow> entry ''required_throughput'' v;
     missed \<leftarrow> entry ''missed_heartbeats'' v;
     Some (Some \<lparr>sc_uptime = (uptime, required), sc_throughput = (throughput, target), sc_missed = missed\<rparr>) })"

definition event_dates :: "(jsval \<Rightarrow> string) \<Rightarrow> row \<Rightarrow> (string \<times> string) list" where
  "event_dates date e = (''Created'', date (get ''created_at'' e)) #
     (if val_truthy (get ''disputed_at'' e) then [(''Disputed'', date (get ''disputed_at'' e))] else []) @
     (if val_truthy (get ''resolved_at'' e) then [(''Resolved'', date (get ''resolved_at'' e))] else [])"

definition event_link :: "(jsval \<Rightarrow> string) \<Rightarrow> row \<Rightarrow> string option" where
  "event_link text e = (if val_truthy (get ''tx_hash'' e)
     then Some (''https://etherscan.io/tx/'' @ text (get ''tx_hash'' e)) else None)"

definition slash_amount_text :: "row \<Rightarrow> string option" where
  "slash_amount_text e = map_option (\<lambda>a. ''-'' @ a @ '' ETH'') (fixed 3 (get ''amount'' e))"

section \<open>The panel and the dialogs\<close>

record slash_panel =
  pn_heading :: "string \<times> string"
  pn_ids :: "jsval \<times> jsval"
  pn_operator :: string
  pn_amount :: string
  pn_reason :: jsval
  pn_sla :: "sla_cells option"
  pn_dates :: "(string \<times> string) list"
  pn_actions :: bool
  pn_link :: "string option"

definition slash_panel_of ::
  "(jsval \<Rightarrow> string) \<Rightarrow> (jsval \<Rightarrow> string) \<Rightarrow> (string \<Rightarrow> jsnum) \<Rightarrow> jsnum \<Rightarrow> row \<Rightarrow> slash_panel option" where
  "slash_panel_of date text pd now e = do {
     label \<leftarrow> lookup slash_labels (get ''status'' e);
     operator \<leftarrow> short_address (get ''operator_address'' e);
     amount \<leftarrow> slash_amount_text e;
     sla \<leftarrow> sla_cells_of (get ''sla_details'' e);
     Some \<lparr>pn_heading = (label, admin_relative_time now (time_of pd (get ''created_at'' e))),
       pn_ids = (get ''node_id'' e, get ''job_id'' e), pn_operator = operator, pn_amount = amount,
       pn_reason = get ''reason'' e, pn_sla = sla, pn_dates = event_dates date e,
       pn_actions = pending (Some e), pn_link = event_link text e\<rparr> }"

record slash_dialog =
  sd_id :: jsval
  sd_ids :: "jsval \<times> jsval"
  sd_operator :: jsval
  sd_amount :: string
  sd_status :: string
  sd_reason :: jsval
  sd_sla :: "sla_cells option"
  sd_time :: string

definition slash_dialog_of :: "(jsval \<Rightarrow> string) \<Rightarrow> row \<Rightarrow> slash_dialog option" where
  "slash_dialog_of date e = do {
     amount \<leftarrow> slash_amount_text e;
     label \<leftarrow> lookup slash_labels (get ''status'' e);
     sla \<leftarrow> sla_cells_of (get ''sla_details'' e);
     Some \<lparr>sd_id = get ''id'' e, sd_ids = (get ''node_id'' e, get ''job_id'' e), sd_operator = get ''operator_address'' e,
       sd_amount = amount, sd_status = label, sd_reason = get ''reason'' e, sd_sla = sla,
       sd_time = date (get ''created_at'' e)\<rparr> }"

text \<open>
  The dialog with the two buttons of a pending event. Its content is computed whether it is open or not, with every
  rendering of the page; a closed dialog only drops it.
\<close>

definition detail_dialog :: "(jsval \<Rightarrow> string) \<Rightarrow> slashing_page \<Rightarrow> (slash_dialog option \<times> string list) option option" where
  "detail_dialog date s = do {
     content \<leftarrow> (case selectedEvent s of None \<Rightarrow> Some None | Some e \<Rightarrow> map_option Some (slash_dialog_of date e));
     Some (if showDetailModal s
       then Some (content, ''Close'' # (if pending (selectedEvent s) then [''Override'', ''Confirm Slash''] else []))
       else None) }"

record override_dialog =
  ov_warning :: "(string \<times> string) option"
  ov_confirm_disabled :: bool

definition override_warning :: "(jsval \<Rightarrow> string) \<Rightarrow> row \<Rightarrow> (string \<times> string) option" where
  "override_warning text e = map_option (\<lambda>a.
     (''Overriding slash event '' @ text (get ''id'' e) @ '' for node '' @ text (get ''node_id'' e),
      ''This will credit '' @ a @ '' ETH back to the node operator.'')) (fixed 3 (get ''amount'' e))"

definition override_dialog_of :: "(jsval \<Rightarrow> string) \<Rightarrow> slashing_page \<Rightarrow> override_dialog option option" where
  "override_dialog_of text s = do {
     w \<leftarrow> (case selectedEvent s of None \<Rightarrow> Some None | Some e \<Rightarrow> map_option Some (override_warning text e));
     Some (if showOverrideModal s
       then Some \<lparr>ov_warning = w, ov_confirm_disabled = (str_trim (overrideReason s) = '''')\<rparr> else None) }"

section \<open>The page\<close>

datatype slash_list = ListLoading nat | ListError string | ListEmpty | ListOf "(event_cells \<times> jsval \<times> jsval \<times> bool) list"

definition slash_row :: "(string \<Rightarrow> jsnum) \<Rightarrow> jsnum \<Rightarrow> row option \<Rightarrow> row \<Rightarrow> (event_cells \<times> jsval \<times> jsval \<times> bool) option" where
  "slash_row pd now sel e = map_option (\<lambda>c. (c, get ''node_id'' e, get ''job_id'' e,
     (case sel of None \<Rightarrow> False | Some x \<Rightarrow> get ''id'' x = get ''id'' e))) (slash_cells pd now e)"

definition slash_list_of :: "(string \<Rightarrow> jsnum) \<Rightarrow> jsnum \<Rightarrow> slashing_page \<Rightarrow> row list \<Rightarrow> slash_list option" where
  "slash_list_of pd now s shown = (if sp_loading s then Some (ListLoading 3)
     else if truthy_str (sp_error s) then Some (ListError (the (sp_error s)))
     else if shown = [] then Some ListEmpty
     else map_option ListOf (those (map (slash_row pd now (selectedEvent s)) shown)))"

text \<open>The four counters, as skeletons while loading, and the badge of the header.\<close>

definition slash_counters :: "slashing_page \<Rightarrow> string list option" where
  "slash_counters s = (let es = or_else (events s) [] in
     if sp_loading s then None
     else Some [show_nat (length es), show_nat (count_status [''pending''] es), show_nat (count_status [''disputed''] es),
       toFixed 3 (slash_total es) @ '' ETH''])"

definition review_badge :: "slashing_page \<Rightarrow> string option" where
  "review_badge s = (let n = count_status [''pending''] (or_else (events s) []) in
     if 0 < n then Some (show_nat n @ '' pending review'') else None)"

record slashing_view =
  sv_badge :: "string option"
  sv_counters :: "string list option"
  sv_filters :: "string \<times> string"
  sv_list :: slash_list
  sv_panel :: "slash_panel option"
  sv_detail :: "(slash_dialog option \<times> string list) option"
  sv_override :: "override_dialog option"

definition AdminSlashingContent ::
  "(jsval \<Rightarrow> string) \<Rightarrow> (jsval \<Rightarrow> string) \<Rightarrow> (string \<Rightarrow> jsnum) \<Rightarrow> jsnum \<Rightarrow> slashing_page \<Rightarrow> slashing_view option" where
  "AdminSlashingContent date text pd now s = do {
     shown \<leftarrow> table_filter slash_keys (choice_ok ''status'' (sp_choice s)) (sp_search s) (or_else (events s) []);
     listed \<leftarrow> slash_list_of pd now s shown;
     panel \<leftarrow> (case selectedEvent s of None \<Rightarrow> Some None | Some e \<Rightarrow> map_option Some (slash_panel_of date text pd now e));
     detail \<leftarrow> detail_dialog date s;
     override \<leftarrow> override_dialog_of text s;
     Some \<lparr>sv_badge = review_badge s, sv_counters = slash_counters s,
       sv_filters = (sp_search s, or_else (sp_choice s) ''''), sv_list = listed, sv_panel = panel,
       sv_detail = detail, sv_override = override\<rparr> }"

section \<open>Lemmas\<close>

text \<open>An event whose details can be shown in the panel can be shown in the dialogs.\<close>

lemma panel_gives_dialogs:
  assumes "slash_panel_of date text pd now e \<noteq> None"
  shows "slash_dialog_of date' e \<noteq> None" "override_warning text' e \<noteq> None"
  using assms
  by (auto simp: slash_panel_of_def slash_dialog_of_def override_warning_def slash_amount_text_def split: bind_splits)

lemma page_renders:
  assumes "table_filter slash_keys (choice_ok ''status'' (sp_choice s)) (sp_search s) (or_else (events s) []) = Some shown"
    and "slash_list_of pd now s shown = Some listed"
  shows "AdminSlashingContent date text pd now s = None \<longleftrightarrow>
    (\<exists>e. selectedEvent s = Some e \<and> slash_panel_of date text pd now e = None)"
proof (cases "selectedEvent s")
  case None
  then show ?thesis using assms by (simp add: AdminSlashingContent_def detail_dialog_def override_dialog_of_def)
next
  case (Some e)
  show ?thesis
  proof (cases "slash_panel_of date text pd now e")
    case None
    then show ?thesis using assms Some by (simp add: AdminSlashingContent_def)
  next
    case p: (Some p)
    then obtain d w where "slash_dialog_of date e = Some d" "override_warning text e = Some w"
      using panel_gives_dialogs[of date "text" pd now e] by fastforce
    then show ?thesis using assms Some p
      by (simp add: AdminSlashingContent_def detail_dialog_def override_dialog_of_def)
  qed
qed

text \<open>
  Also: a click on an event without the address of its operator, or whose breach has no measured uptime, takes the page
  down, although the list shows such events.
\<close>

theorem click_takes_page_down:
  assumes "(\<forall>a. get ''operator_address'' e \<noteq> Str a) \<or>
      (\<exists>fs. get ''sla_details'' e = Obj fs \<and> (\<forall>x. get ''actual_uptime'' fs \<noteq> Num x))"
  shows "AdminSlashingContent date text pd now (slashing_step (EventClicked e) s) = None"
proof -
  have "slash_panel_of date text pd now e = None"
    using assms
    by (auto simp: slash_panel_of_def short_address_def sla_cells_of_def fixed_def entry_def get_def prop_of_def
        split: bind_splits jsval.splits)
  then show ?thesis
    by (auto simp: AdminSlashingContent_def handler_defs split: bind_splits)
qed

text \<open>The decisions a rendered page offers are those the state machine admits.\<close>

lemma offered_decisions:
  assumes "AdminSlashingContent date text pd now s = Some v"
  shows "(\<exists>p. sv_panel v = Some p \<and> pn_actions p) \<longleftrightarrow> slashing_ok False ConfirmClicked s"
    and "(\<exists>d. sv_detail v = Some (d, [''Close'', ''Override'', ''Confirm Slash''])) \<longleftrightarrow> slashing_ok False DetailOverride s"
    and "(\<exists>d. sv_override v = Some d \<and> \<not> ov_confirm_disabled d) \<longleftrightarrow> slashing_ok False (OverrideConfirmed t) s"
  using assms
  by (auto simp: AdminSlashingContent_def detail_dialog_def override_dialog_of_def slash_panel_of_def pending_def
      split: bind_splits option.splits if_splits)

end
