(* ===== verification/WalletModals.thy ===== *)
theory WalletModals
  imports Contracts
begin

text \<open>
  The stake and unstake modals: the ones of the wallet page (\<open>app/(dashboard)/wallet/page.tsx\<close>)
  and the ones of \<open>components/wallet/stake-modals.tsx\<close>. A modal is its React state, the values
  derived from it, the handlers, and what it renders. The wallet library is outside the
  repository: \<open>parseEther\<close> (an amount string to wei, \<open>None\<close> when it throws) and \<open>receipt\<close> (what
  \<open>useWaitForTransactionReceipt\<close> answers for a hash: loading, success) are parameters.
\<close>

section \<open>What the modals share\<close>

text \<open>\<open>p(v)\<close>, that is \<open>parseFloat(v) || 0\<close>.\<close>

definition amount_of :: "string \<Rightarrow> jsnum" where
  "amount_of v = js_or (parseFloat v) (Fin 0)"

lemma amount_of_not_NaN [simp]: "amount_of v \<noteq> NaN"
  by (simp add: amount_of_def js_or_not_NaN)

lemma amount_of_Fin: "parseFloat v = Fin q \<Longrightarrow> amount_of v = Fin q"
  by (simp add: amount_of_def)

datatype amount_error =
    NotPositive
  | InsufficientBalance
  | MinimumStakeRequired jsnum
  | ExceedsStake
  | MinimumToKeep jsnum

text \<open>What the wallet hooks report to a modal.\<close>

record wallet_hooks =
  account :: "string option"
  write_pending :: bool
  write_error :: "string option"
  receipt :: "string option \<Rightarrow> bool \<times> bool"

definition is_confirming :: "wallet_hooks \<Rightarrow> string option \<Rightarrow> bool" where
  "is_confirming h tx = fst (receipt h tx)"

definition is_confirmed :: "wallet_hooks \<Rightarrow> string option \<Rightarrow> bool" where
  "is_confirmed h tx = snd (receipt h tx)"

text \<open>
  The documented behaviour of the receipt hook that the code relies on: without a hash the query
  is disabled, so it is neither loading nor successful.
\<close>

definition receipt_needs_hash :: "wallet_hooks \<Rightarrow> bool" where
  "receipt_needs_hash h \<longleftrightarrow> receipt h None = (False, False)"

datatype button_label = Confirming | SignTransaction | Confirm

definition submit_label :: "bool \<Rightarrow> bool \<Rightarrow> button_label" where
  [view_defs]: "submit_label pending confirming =
     (if pending \<or> confirming then (if confirming then Confirming else SignTransaction) else Confirm)"

definition stake_call :: "int \<Rightarrow> contract_call" where
  "stake_call wei = \<lparr>to_address = Escrow CONTRACT_ADDRESSES, function_name = ''stake'',
     call_args = [], call_value = Some wei\<rparr>"

definition withdraw_call :: "int \<Rightarrow> contract_call" where
  "withdraw_call wei = \<lparr>to_address = Escrow CONTRACT_ADDRESSES, function_name = ''withdraw'',
     call_args = [wei], call_value = None\<rparr>"

lemma wallet_calls_fit: "call_fits ESCROW_ABI (stake_call w)" "call_fits ESCROW_ABI (withdraw_call w)"
  by (simp_all add: call_fits_def stake_call_def withdraw_call_def ESCROW_ABI_def abi_fn_def)

section \<open>Stake modal of the wallet page\<close>

record stake_modal =
  sm_amount :: string
  sm_txHash :: "string option"

record stake_props =
  sp_currentStake :: string
  sp_balance :: string

definition stake_init :: stake_modal where
  "stake_init = \<lparr>sm_amount = '''', sm_txHash = None\<rparr>"

definition stake_newStake :: "stake_props \<Rightarrow> stake_modal \<Rightarrow> jsnum" where
  [view_defs]: "stake_newStake p m = js_add (amount_of (sp_currentStake p)) (amount_of (sm_amount m))"

definition stake_errMsg :: "stake_props \<Rightarrow> stake_modal \<Rightarrow> amount_error option" where
  [view_defs]: "stake_errMsg p m =
     (let amt = amount_of (sm_amount m); new = stake_newStake p m in
      if sm_amount m = '''' then None
      else if js_le amt (Fin 0) then Some NotPositive
      else if js_lt (amount_of (sp_balance p)) amt then Some InsufficientBalance
      else if js_lt new (Fin 10) \<and> js_lt (amount_of (sp_currentStake p)) new
        then Some (MinimumStakeRequired (Fin 10))
      else None)"

text \<open>The submit handler: the contract call it makes, if any.\<close>

definition stake_submit ::
  "(string \<Rightarrow> int option) \<Rightarrow> stake_props \<Rightarrow> stake_modal \<Rightarrow> contract_call option" where
  [handler_defs]: "stake_submit parseEther p m =
     (if sm_amount m = '''' \<or> js_le (amount_of (sm_amount m)) (Fin 0) \<or> stake_errMsg p m \<noteq> None
      then None
      else map_option stake_call (parseEther (sm_amount m)))"

definition stake_disabled :: "wallet_hooks \<Rightarrow> stake_props \<Rightarrow> stake_modal \<Rightarrow> bool" where
  [view_defs]: "stake_disabled h p m \<longleftrightarrow>
     sm_amount m = '''' \<or> stake_errMsg p m \<noteq> None \<or> write_pending h \<or> is_confirming h (sm_txHash m)"

datatype stake_event =
    SetAmount string
  | Quick nat
  | Max
  | WriteSuccess string
  | CloseModal

fun stake_step :: "stake_props \<Rightarrow> stake_event \<Rightarrow> stake_modal \<Rightarrow> stake_modal" where
  "stake_step p (SetAmount v) m = m\<lparr>sm_amount := v\<rparr>"
| "stake_step p (Quick n) m = m\<lparr>sm_amount := show_nat n\<rparr>"
| "stake_step p Max m = m\<lparr>sm_amount := toFixed 4 (amount_of (sp_balance p))\<rparr>"
| "stake_step p (WriteSuccess h) m = m\<lparr>sm_txHash := Some h\<rparr>"
| "stake_step p CloseModal m = stake_init"

datatype stake_screen = Closed | Confirmed "string option" | StakeForm

definition stake_render :: "bool \<Rightarrow> wallet_hooks \<Rightarrow> stake_modal \<Rightarrow> stake_screen" where
  [view_defs]: "stake_render opened h m =
     (if \<not> opened then Closed
      else if is_confirmed h (sm_txHash m) then Confirmed (sm_txHash m)
      else StakeForm)"

section \<open>Unstake modal of the wallet page\<close>

record unstake_modal =
  um_amount :: string
  um_txHash :: "string option"
  um_ack :: bool

definition unstake_init :: unstake_modal where
  "unstake_init = \<lparr>um_amount = '''', um_txHash = None, um_ack = False\<rparr>"

definition unstake_remaining :: "string \<Rightarrow> unstake_modal \<Rightarrow> jsnum" where
  [view_defs]: "unstake_remaining currentStake m = js_sub (amount_of currentStake) (amount_of (um_amount m))"

definition unstake_errMsg :: "string \<Rightarrow> unstake_modal \<Rightarrow> amount_error option" where
  [view_defs]: "unstake_errMsg cur m =
     (let amt = amount_of (um_amount m); rem = unstake_remaining cur m in
      if um_amount m = '''' then None
      else if js_le amt (Fin 0) then Some NotPositive
      else if js_lt (amount_of cur) amt then Some ExceedsStake
      else if js_lt rem (Fin 10) \<and> js_le (Fin 0) rem then Some (MinimumToKeep (Fin 10))
      else None)"

definition unstake_canSubmit :: "wallet_hooks \<Rightarrow> string \<Rightarrow> unstake_modal \<Rightarrow> bool" where
  [view_defs]: "unstake_canSubmit h cur m \<longleftrightarrow>
     um_amount m \<noteq> '''' \<and> js_lt (Fin 0) (amount_of (um_amount m)) \<and>
     js_le (amount_of (um_amount m)) (amount_of cur) \<and>
     js_le (Fin 10) (unstake_remaining cur m) \<and>
     um_ack m \<and> \<not> write_pending h \<and> \<not> is_confirming h (um_txHash m)"

definition unstake_submit ::
  "(string \<Rightarrow> int option) \<Rightarrow> wallet_hooks \<Rightarrow> string \<Rightarrow> unstake_modal \<Rightarrow> contract_call option" where
  [handler_defs]: "unstake_submit parseEther h cur m =
     (if \<not> unstake_canSubmit h cur m then None
      else map_option withdraw_call (parseEther (um_amount m)))"

datatype unstake_event =
    USetAmount string
  | UFraction rat
  | UMinKeep
  | UAck bool
  | UWriteSuccess string
  | UClose

fun unstake_step :: "string \<Rightarrow> unstake_event \<Rightarrow> unstake_modal \<Rightarrow> unstake_modal" where
  "unstake_step cur (USetAmount v) m = m\<lparr>um_amount := v\<rparr>"
| "unstake_step cur (UFraction f) m = m\<lparr>um_amount := toFixed 4 (js_mul (amount_of cur) (Fin f))\<rparr>"
| "unstake_step cur UMinKeep m =
     m\<lparr>um_amount := toFixed 4 (js_max (Fin 0) (js_sub (amount_of cur) (Fin 10)))\<rparr>"
| "unstake_step cur (UAck b) m = m\<lparr>um_ack := b\<rparr>"
| "unstake_step cur (UWriteSuccess h) m = m\<lparr>um_txHash := Some h\<rparr>"
| "unstake_step cur UClose m = unstake_init"

section \<open>Modals of \<open>stake-modals.tsx\<close>\<close>

text \<open>
  The stand-alone component keeps the same state. Its three tests overwrite one another, so the
  last one that holds wins; its submit handlers do not consult the error; and nothing in it ever
  stores a transaction hash, because \<open>useWriteContract\<close> is used without an \<open>onSuccess\<close>.
\<close>

record lib_stake_props = stake_props +
  sp_minStake :: string

definition lib_stake_error :: "lib_stake_props \<Rightarrow> stake_modal \<Rightarrow> amount_error option" where
  [view_defs]: "lib_stake_error p m =
     (let amt = amount_of (sm_amount m); cur = amount_of (sp_currentStake p);
          mn = amount_of (sp_minStake p); new = js_add cur amt;
          e1 = (if sm_amount m \<noteq> '''' \<and> js_le amt (Fin 0) then Some NotPositive else None);
          e2 = (if js_lt (amount_of (sp_balance p)) amt then Some InsufficientBalance else e1);
          e3 = (if js_lt new mn \<and> js_lt cur new then Some (MinimumStakeRequired mn) else e2)
      in e3)"

definition lib_stake_submit ::
  "(string \<Rightarrow> int option) \<Rightarrow> wallet_hooks \<Rightarrow> stake_modal \<Rightarrow> contract_call option" where
  [handler_defs]: "lib_stake_submit parseEther h m =
     (if account h = None \<or> sm_amount m = '''' \<or> js_le (amount_of (sm_amount m)) (Fin 0) then None
      else map_option stake_call (parseEther (sm_amount m)))"

definition lib_stake_disabled :: "wallet_hooks \<Rightarrow> lib_stake_props \<Rightarrow> stake_modal \<Rightarrow> bool" where
  [view_defs]: "lib_stake_disabled h p m \<longleftrightarrow>
     write_pending h \<or> is_confirming h (sm_txHash m) \<or> sm_amount m = '''' \<or> lib_stake_error p m \<noteq> None"

datatype lib_stake_event = LSetAmount string | LQuick nat | LMax | LClose

fun lib_stake_step :: "lib_stake_props \<Rightarrow> lib_stake_event \<Rightarrow> stake_modal \<Rightarrow> stake_modal" where
  "lib_stake_step p (LSetAmount v) m = m\<lparr>sm_amount := v\<rparr>"
| "lib_stake_step p (LQuick n) m = m\<lparr>sm_amount := show_nat n\<rparr>"
| "lib_stake_step p LMax m = m\<lparr>sm_amount := toFixed 4 (amount_of (sp_balance p))\<rparr>"
| "lib_stake_step p LClose m = stake_init"

text \<open>The modal frame returns nothing while it is closed; success is decided before the form.\<close>

definition lib_stake_render :: "bool \<Rightarrow> wallet_hooks \<Rightarrow> stake_modal \<Rightarrow> stake_screen" where
  [view_defs]: "lib_stake_render opened h m =
     (if is_confirmed h (sm_txHash m) then (if opened then Confirmed (sm_txHash m) else Closed)
      else if opened then StakeForm else Closed)"

definition lib_write_error_text :: "string \<Rightarrow> string" where
  [view_defs]: "lib_write_error_text msg =
     (if str_includes msg ''0x'' then ''Transaction rejected''
      else if msg = '''' then ''Transaction failed'' else msg)"

definition lib_unstake_error :: "string \<Rightarrow> unstake_modal \<Rightarrow> amount_error option" where
  [view_defs]: "lib_unstake_error cur m =
     (let amt = amount_of (um_amount m); rem = js_sub (amount_of cur) amt;
          e1 = (if um_amount m \<noteq> '''' \<and> js_le amt (Fin 0) then Some NotPositive else None);
          e2 = (if js_lt (amount_of cur) amt then Some ExceedsStake else e1);
          e3 = (if js_lt rem (Fin 10) \<and> js_le (Fin 0) rem then Some (MinimumToKeep (Fin 10)) else e2)
      in e3)"

definition lib_unstake_canSubmit :: "wallet_hooks \<Rightarrow> string \<Rightarrow> unstake_modal \<Rightarrow> bool" where
  [view_defs]: "lib_unstake_canSubmit h cur m \<longleftrightarrow>
     um_amount m \<noteq> '''' \<and> js_lt (Fin 0) (amount_of (um_amount m)) \<and>
     js_le (amount_of (um_amount m)) (amount_of cur) \<and>
     js_le (Fin 10) (js_sub (amount_of cur) (amount_of (um_amount m))) \<and>
     um_ack m \<and> \<not> write_pending h \<and> \<not> is_confirming h (um_txHash m)"

definition lib_unstake_submit ::
  "(string \<Rightarrow> int option) \<Rightarrow> wallet_hooks \<Rightarrow> unstake_modal \<Rightarrow> contract_call option" where
  [handler_defs]: "lib_unstake_submit parseEther h m =
     (if account h = None \<or> um_amount m = '''' \<or> js_le (amount_of (um_amount m)) (Fin 0) then None
      else map_option withdraw_call (parseEther (um_amount m)))"

fun lib_unstake_step :: "string \<Rightarrow> unstake_event \<Rightarrow> unstake_modal \<Rightarrow> unstake_modal" where
  "lib_unstake_step cur (USetAmount v) m = m\<lparr>um_amount := v\<rparr>"
| "lib_unstake_step cur (UFraction f) m = m\<lparr>um_amount := toFixed 4 (js_mul (amount_of cur) (Fin f))\<rparr>"
| "lib_unstake_step cur UMinKeep m =
     m\<lparr>um_amount := toFixed 4 (js_max (Fin 0) (js_sub (amount_of cur) (Fin 10)))\<rparr>"
| "lib_unstake_step cur (UAck b) m = m\<lparr>um_ack := b\<rparr>"
| "lib_unstake_step cur (UWriteSuccess h) m = m"
| "lib_unstake_step cur UClose m = unstake_init"

section \<open>Guards of the submit handlers\<close>

definition stake_ok :: "stake_props \<Rightarrow> stake_modal \<Rightarrow> bool" where
  "stake_ok p m \<longleftrightarrow> js_lt (Fin 0) (amount_of (sm_amount m)) \<and>
     js_le (amount_of (sm_amount m)) (amount_of (sp_balance p)) \<and> stake_errMsg p m = None"

definition unstake_ok :: "string \<Rightarrow> unstake_modal \<Rightarrow> bool" where
  "unstake_ok cur m \<longleftrightarrow> js_lt (Fin 0) (amount_of (um_amount m)) \<and>
     js_le (amount_of (um_amount m)) (amount_of cur) \<and>
     js_le (Fin 10) (unstake_remaining cur m) \<and> um_ack m"

interpretation stake_form: guarded_form "stake_submit pe p" "stake_ok p"
  by unfold_locales
    (auto simp: handler_defs stake_ok_def stake_errMsg_def Let_def not_js_le not_js_lt split: if_splits)

interpretation unstake_form: guarded_form "unstake_submit pe h cur" "unstake_ok cur"
  by unfold_locales (auto simp: handler_defs view_defs unstake_ok_def split: if_splits)

lemma stake_submit_call:
  "stake_submit pe p m = Some c \<Longrightarrow> \<exists>w. pe (sm_amount m) = Some w \<and> c = stake_call w"
  by (auto simp: handler_defs split: if_splits)

lemma unstake_submit_call:
  "unstake_submit pe h cur m = Some c \<Longrightarrow> \<exists>w. pe (um_amount m) = Some w \<and> c = withdraw_call w"
  by (auto simp: handler_defs split: if_splits)

text \<open>The error message and the enabled button agree, unless the stake reads as infinity.\<close>

lemma unstake_error_submit:
  assumes "amount_of cur \<noteq> PosInf"
  shows "unstake_canSubmit h cur m \<longleftrightarrow>
    um_amount m \<noteq> '''' \<and> unstake_errMsg cur m = None \<and> um_ack m \<and>
    \<not> write_pending h \<and> \<not> is_confirming h (um_txHash m)"
proof -
  have "amount_of cur \<noteq> NaN" "amount_of (um_amount m) \<noteq> NaN" by simp_all
  then show ?thesis
    using assms
    by (cases "amount_of cur"; cases "amount_of (um_amount m)")
      (auto simp: view_defs Let_def js_sub_def js_le_def)
qed

section \<open>Buttons that fill in an amount\<close>

lemma amount_toFixed: "0 \<le> q \<Longrightarrow> amount_of (toFixed d (Fin q)) = Fin (round_dec d q)"
  by (rule amount_of_Fin) (rule parseFloat_toFixed)

lemma round_dec_pos_le: "0 \<le> q \<Longrightarrow> round_dec 4 q \<le> q + 1"
  using round_dec_close[of q 4] by (auto simp: abs_if split: if_splits)

lemma max_button_error:
  assumes "parseFloat (sp_balance p) = Fin q" "0 \<le> q"
  shows "stake_errMsg p (stake_step p Max m) = Some InsufficientBalance \<longleftrightarrow> q < round_dec 4 q"
  using assms toFixed_nonempty[of 4 "Fin q"]
  by (auto simp: stake_errMsg_def Let_def amount_of_Fin amount_toFixed simp del: toFixed.simps)

lemma min_keep_error:
  assumes "parseFloat cur = Fin q" "10 \<le> q"
  shows "unstake_errMsg cur (unstake_step cur UMinKeep m) = Some (MinimumToKeep (Fin 10)) \<longleftrightarrow>
    q - 10 < round_dec 4 (q - 10)"
proof -
  have "js_max (Fin 0) (js_sub (Fin q) (Fin 10)) = Fin (q - 10)"
    using assms(2) by simp
  moreover have "round_dec 4 (q - 10) \<le> q - 9"
    using round_dec_pos_le[of "q - 10"] assms(2) by simp
  ultimately show ?thesis
    using assms toFixed_nonempty[of 4 "Fin (q - 10)"]
    by (auto simp: unstake_errMsg_def unstake_remaining_def Let_def amount_of_Fin amount_toFixed
        simp del: toFixed.simps)
qed

lemma min_keep_exact:
  assumes "parseFloat cur = Fin q" "10 < q" "q * 10 ^ 4 = of_int i"
  shows "unstake_errMsg cur (unstake_step cur UMinKeep m) = None"
proof -
  have "(q - 10) * 10 ^ 4 = of_int (i - 100000)"
    using assms(3) by (simp add: algebra_simps)
  then have "round_dec 4 (q - 10) = q - 10"
    by (intro round_dec_exact[where i = "i - 100000"]) (use assms(2) in simp_all)
  moreover have "js_max (Fin 0) (js_sub (Fin q) (Fin 10)) = Fin (q - 10)"
    using assms(2) by simp
  ultimately show ?thesis
    using assms(1,2) toFixed_nonempty[of 4 "Fin (q - 10)"]
    by (auto simp: unstake_errMsg_def unstake_remaining_def Let_def amount_of_Fin amount_toFixed
        simp del: toFixed.simps)
qed

section \<open>The stand-alone modals\<close>

interpretation lib_stake: state_machine "lib_stake_step p" "\<lambda>m. sm_txHash m = None" stake_init
proof
  show "sm_txHash stake_init = None" by (simp add: stake_init_def)
  show "sm_txHash (lib_stake_step p e s) = None" if "sm_txHash s = None" for e s
    using that by (cases e) (auto simp: stake_init_def)
qed

interpretation lib_unstake: state_machine "lib_unstake_step c" "\<lambda>m. um_txHash m = None" unstake_init
proof
  show "um_txHash unstake_init = None" by (simp add: unstake_init_def)
  show "um_txHash (lib_unstake_step c e s) = None" if "um_txHash s = None" for e s
    using that by (cases e) (auto simp: unstake_init_def)
qed

lemma lib_stake_no_confirmation:
  assumes "receipt_needs_hash h"
  shows "lib_stake_render opened h (fold (lib_stake_step p) es stake_init) \<noteq> Confirmed t"
  using assms lib_stake.inv_reachable[of p es]
  by (auto simp: view_defs is_confirmed_def receipt_needs_hash_def)

lemma wallet_stake_confirms:
  assumes "is_confirmed h (Some tx)"
  shows "stake_render True h (stake_step p (WriteSuccess tx) m) = Confirmed (Some tx)"
  using assms by (simp add: view_defs)

lemma amount_of_empty [simp]: "amount_of '''' = Fin 0"
  by (simp add: amount_of_def parseFloat_def read_sign_def read_decimal_def starts_with_def)

lemma lib_stake_error_agrees:
  assumes "amount_of (sp_minStake p) = Fin 10" "js_le (Fin 0) (amount_of (sp_balance p))"
  shows "lib_stake_error p m = None \<longleftrightarrow> stake_errMsg (stake_props.truncate p) m = None"
proof -
  have "\<not> js_lt (amount_of (sp_balance p)) (Fin 0)"
    using assms(2) by (simp add: js_le_def)
  moreover have "\<not> (js_lt (js_add c (Fin 0)) (Fin 10) \<and> js_lt c (js_add c (Fin 0)))" for c
    by (cases c) auto
  ultimately show ?thesis
    using assms(1)
    by (auto simp: lib_stake_error_def stake_errMsg_def stake_newStake_def Let_def stake_props.defs)
qed

lemma lib_unstake_error_on_open:
  assumes "parseFloat cur = Fin q" "0 \<le> q" "q < 10"
  shows "lib_unstake_error cur unstake_init = Some (MinimumToKeep (Fin 10))"
    and "unstake_errMsg cur unstake_init = None"
  using assms
  by (simp_all add: lib_unstake_error_def unstake_errMsg_def unstake_init_def amount_of_Fin)

section \<open>Properties\<close>


definition idle_hooks :: wallet_hooks where
  "idle_hooks = \<lparr>account = Some ''0xab'', write_pending = False, write_error = None,
     receipt = (\<lambda>t. (False, t \<noteq> None))\<rparr>"

lemma amount_of_digits: "amount_of (show_nat n) = Fin (of_nat n)"
  by (rule amount_of_Fin) (rule parseFloat_show_nat)


text \<open>Also: the stake modal of the wallet page sends only payable \<open>stake\<close> calls that fit the ABI, for a
  positive amount within the balance, and never while it shows an error; and when the current stake
  is at most the resulting one, the resulting stake is at least the minimum of ten.\<close>

theorem stake_submit_sound:
  assumes "stake_submit pe p m = Some c"
    and "parseFloat (sp_currentStake p) = Fin q" "parseFloat (sm_amount m) = Fin a"
  shows "call_fits ESCROW_ABI c \<and> pe (sm_amount m) \<noteq> None \<and> c = stake_call (the (pe (sm_amount m))) \<and>
    0 < a \<and> js_le (Fin a) (amount_of (sp_balance p)) \<and> stake_errMsg p m = None \<and> 10 \<le> q + a"
proof -
  obtain w where w: "pe (sm_amount m) = Some w" "c = stake_call w"
    using stake_submit_call[OF assms(1)] by blast
  have ok: "stake_ok p m" by (rule stake_form.submit_ok[OF assms(1)])
  have amt: "amount_of (sm_amount m) = Fin a" "amount_of (sp_currentStake p) = Fin q"
    by (simp_all add: amount_of_Fin assms(2,3))
  have "sm_amount m \<noteq> ''''"
    using assms(1) by (simp add: stake_submit_def split: if_splits)
  with ok amt have "0 < a" "10 \<le> q + a"
    by (auto simp: stake_ok_def stake_errMsg_def stake_newStake_def Let_def split: if_splits)
  with ok amt w wallet_calls_fit(1) show ?thesis by (simp add: stake_ok_def)
qed

theorem stake_submit_sound_witness:
  "10 \<le> (0 :: rat) + of_nat 12"
proof -
  have "stake_submit (\<lambda>_. Some 12) \<lparr>sp_currentStake = show_nat 0, sp_balance = show_nat 30\<rparr>
      \<lparr>sm_amount = show_nat 12, sm_txHash = None\<rparr> = Some (stake_call 12)"
    by (simp add: stake_submit_def stake_errMsg_def stake_newStake_def amount_of_digits Let_def)
  from stake_submit_sound[OF this, of 0 "of_nat 12"] show ?thesis
    by (simp add: parseFloat_show_nat)
qed

text \<open>Also: the shortcut buttons can fill in an amount the form itself rejects. \<open>MAX\<close> fails with
  insufficient balance exactly when rounding the balance to four decimals rounds up, \<open>MIN KEEP\<close> fails
  with the minimum-to-keep error exactly when rounding the surplus rounds up.\<close>

theorem shortcut_buttons_rounding:
  assumes "parseFloat (sp_balance p) = Fin b" "0 \<le> b" "parseFloat cur = Fin q" "10 \<le> q"
  shows "(stake_errMsg p (stake_step p Max m) = Some InsufficientBalance \<longleftrightarrow> b < round_dec 4 b) \<and>
    (unstake_errMsg cur (unstake_step cur UMinKeep u) = Some (MinimumToKeep (Fin 10)) \<longleftrightarrow>
       q - 10 < round_dec 4 (q - 10))"
  using max_button_error[OF assms(1,2)] min_keep_error[OF assms(3,4)] by simp

theorem shortcut_buttons_rounding_witness:
  "stake_errMsg \<lparr>sp_currentStake = ''0'', sp_balance = toFixed 5 (Fin (100009 / 100000))\<rparr>
     (stake_step \<lparr>sp_currentStake = ''0'', sp_balance = toFixed 5 (Fin (100009 / 100000))\<rparr> Max stake_init) =
   Some InsufficientBalance"
proof -
  have r5: "round_dec 5 (100009 / 100000) = 100009 / 100000"
    by (rule round_dec_exact[where i = 100009]) simp_all
  have "\<lfloor>100014 / 10 :: rat\<rfloor> = 10001" by (rule floor_unique) simp_all
  then have r4: "round_dec 4 (100009 / 100000) = 10001 / 10000"
    by (simp add: round_dec_def round_scaled_def)
  have b: "parseFloat (toFixed 5 (Fin (100009 / 100000))) = Fin (100009 / 100000)"
    using parseFloat_toFixed[of "100009 / 100000" 5] r5 by simp
  have q: "parseFloat (show_nat 20) = Fin 20"
    using parseFloat_show_nat[of 20] by simp
  show ?thesis
    using shortcut_buttons_rounding[of "\<lparr>sp_currentStake = ''0'', sp_balance = toFixed 5 (Fin (100009 / 100000))\<rparr>"
        "100009 / 100000" "show_nat 20" 20 stake_init unstake_init] b q r4
    by (simp del: toFixed.simps)
qed

text \<open>Also: the stand-alone stake modal never shows its success screen: no sequence of its own events makes
  it do so, since none stores a transaction hash; the wallet page's modal does after a write.\<close>

theorem lib_stake_never_confirms:
  assumes "receipt_needs_hash h" "is_confirmed h (Some tx)"
  shows "lib_stake_render opened h (fold (lib_stake_step p) es stake_init) \<noteq> Confirmed t \<and>
    stake_render True h (stake_step (stake_props.truncate p) (WriteSuccess tx) m) = Confirmed (Some tx)"
  using lib_stake_no_confirmation[OF assms(1)] wallet_stake_confirms[OF assms(2)] by simp

theorem lib_stake_never_confirms_witness:
  "lib_stake_render True idle_hooks (fold (lib_stake_step
     \<lparr>sp_currentStake = ''0'', sp_balance = ''50'', sp_minStake = ''10''\<rparr>) [LSetAmount ''12''] stake_init) \<noteq>
   Confirmed (Some ''0x1'')"
  using lib_stake_never_confirms[of idle_hooks "''0x1''" True
      "\<lparr>sp_currentStake = ''0'', sp_balance = ''50'', sp_minStake = ''10''\<rparr>" "[LSetAmount ''12'']" "Some ''0x1''"]
  by (simp add: idle_hooks_def receipt_needs_hash_def is_confirmed_def)

text \<open>Also: the two stake forms accept the same amounts (for the minimum of ten and a balance that is not
  negative), but the stand-alone unstake form greets every stake below ten with an error before
  anything is typed, where the wallet page shows none.\<close>

theorem stake_forms_compared:
  assumes "amount_of (sp_minStake p) = Fin 10" "js_le (Fin 0) (amount_of (sp_balance p))"
    and "parseFloat cur = Fin q" "0 \<le> q" "q < 10"
  shows "(lib_stake_error p m = None \<longleftrightarrow> stake_errMsg (stake_props.truncate p) m = None) \<and>
    lib_unstake_error cur unstake_init = Some (MinimumToKeep (Fin 10)) \<and> unstake_errMsg cur unstake_init = None"
  using lib_stake_error_agrees[OF assms(1,2)] lib_unstake_error_on_open[OF assms(3-5)] by simp

theorem stake_forms_compared_witness:
  "lib_unstake_error (show_nat 7) unstake_init = Some (MinimumToKeep (Fin 10))"
  using stake_forms_compared[of "\<lparr>sp_currentStake = show_nat 0, sp_balance = show_nat 0, sp_minStake = show_nat 10\<rparr>"
      "show_nat 7" 7] parseFloat_show_nat[of 7]
  by (simp add: amount_of_digits)

text \<open>Also: on the wallet page the unstake button is enabled exactly when there is an amount, no error is
  shown, the cooldown is acknowledged and no transaction is in flight (for a stake that does not
  read as infinity).\<close>

theorem unstake_button_matches_error:
  assumes "amount_of cur \<noteq> PosInf"
  shows "unstake_canSubmit h cur m \<longleftrightarrow>
    um_amount m \<noteq> '''' \<and> unstake_errMsg cur m = None \<and> um_ack m \<and>
    \<not> write_pending h \<and> \<not> is_confirming h (um_txHash m)"
  by (rule unstake_error_submit[OF assms])

theorem unstake_button_matches_error_witness:
  "unstake_canSubmit idle_hooks (show_nat 25) \<lparr>um_amount = show_nat 5, um_txHash = None, um_ack = True\<rparr>"
  using unstake_button_matches_error[of "show_nat 25" idle_hooks
      "\<lparr>um_amount = show_nat 5, um_txHash = None, um_ack = True\<rparr>"]
  by (simp add: amount_of_digits idle_hooks_def is_confirming_def unstake_errMsg_def unstake_remaining_def Let_def)

end
