(* ===== verification/ModalViews.thy ===== *)
theory ModalViews
  imports WalletModals
begin

text \<open>
  What the stake and unstake modals show, both those of the wallet page and the stand-alone ones of
  \<open>stake-modals.tsx\<close>, over the states and handlers of theory \<open>WalletModals\<close>. \<open>num\<close> is the text of a number.
\<close>

section \<open>Parts\<close>

definition eth4 :: "jsnum \<Rightarrow> string" where
  "eth4 v = toFixed 4 v @ '' ETH''"

definition tx_link :: "string \<Rightarrow> string option \<Rightarrow> string option" where
  "tx_link site tx = (if truthy_str tx then Some (site @ ''/tx/'' @ the tx) else None)"

text \<open>The messages under the field.\<close>

definition stake_error_text :: "(jsnum \<Rightarrow> string) \<Rightarrow> amount_error option \<Rightarrow> string" where
  "stake_error_text num e = (case e of
     Some NotPositive \<Rightarrow> ''Enter a valid amount greater than 0''
   | Some InsufficientBalance \<Rightarrow> ''Insufficient wallet balance''
   | Some (MinimumStakeRequired q) \<Rightarrow> ''Minimum stake of '' @ num q @ '' ETH required''
   | _ \<Rightarrow> '''')"

definition unstake_error_text :: "(jsnum \<Rightarrow> string) \<Rightarrow> amount_error option \<Rightarrow> string" where
  "unstake_error_text num e = (case e of
     Some NotPositive \<Rightarrow> ''Enter a valid amount greater than 0''
   | Some ExceedsStake \<Rightarrow> ''Cannot exceed current stake''
   | Some (MinimumToKeep q) \<Rightarrow> ''Must keep at least '' @ num q @ '' ETH staked''
   | _ \<Rightarrow> '''')"

definition lib_unstake_error_text :: "(jsnum \<Rightarrow> string) \<Rightarrow> amount_error option \<Rightarrow> string" where
  "lib_unstake_error_text num e = (case e of
     Some NotPositive \<Rightarrow> ''Enter a valid amount greater than 0''
   | Some ExceedsStake \<Rightarrow> ''Cannot exceed current stake''
   | Some (MinimumToKeep q) \<Rightarrow> ''Minimum stake of '' @ num q @ '' ETH must be maintained''
   | _ \<Rightarrow> '''')"

text \<open>The message of a failed transaction.\<close>

definition write_error_text :: "string \<Rightarrow> string" where
  "write_error_text msg = (if msg = '''' then ''Transaction failed'' else msg)"

text \<open>The buttons that fill in an amount, with whether they are highlighted.\<close>

definition quick_buttons :: "jsnum \<Rightarrow> (string \<times> bool) list" where
  "quick_buttons amt = map (\<lambda>v. (''+'' @ show_nat v @ '' ETH'', amt = Fin (of_nat v))) [1, 5, 10] @ [(''MAX'', False)]"

definition fraction_buttons :: "(jsnum \<Rightarrow> string) \<Rightarrow> jsnum \<Rightarrow> jsnum \<Rightarrow> (string \<times> bool) list" where
  "fraction_buttons num cur amt = map (\<lambda>f. (num (Fin (f * 100)) @ ''%'',
     js_lt (js_abs (js_sub amt (js_mul cur (Fin f)))) (Fin (1 / 10000)))) [1 / 4, 1 / 2, 3 / 4] @ [(''MIN KEEP'', False)]"

text \<open>The preview under the buttons.\<close>

definition new_total :: "jsnum \<Rightarrow> jsnum \<Rightarrow> (string \<times> string) list" where
  "new_total amt new = (if js_lt (Fin 0) amt then [(''New Total Stake'', eth4 new)] else [])"

definition remaining_rows :: "jsnum \<Rightarrow> jsnum \<Rightarrow> (string \<times> string) list" where
  "remaining_rows amt rest = (if js_lt (Fin 0) amt \<and> js_le (Fin 0) rest
     then [(''Remaining Stake'', eth4 rest), (''Will Receive'', eth4 amt)] else [])"

record amount_form =
  af_rows :: "(string \<times> string) list"
  af_value :: string
  af_error :: string
  af_quick :: "(string \<times> bool) list"
  af_preview :: "(string \<times> string) list"
  af_ack :: "bool option"
  af_write_error :: "string option"
  af_submit :: "button_label \<times> bool"

record done_screen =
  ds_title :: string
  ds_message :: string
  ds_rows :: "(string \<times> string) list"
  ds_link :: "string option"

datatype modal_view = NoModal | DoneScreen done_screen | AmountForm amount_form

section \<open>The modals of the wallet page\<close>

definition stake_form_view :: "(jsnum \<Rightarrow> string) \<Rightarrow> wallet_hooks \<Rightarrow> stake_props \<Rightarrow> stake_modal \<Rightarrow> amount_form" where
  "stake_form_view num h p m =
     \<lparr>af_rows = [(''Current Stake'', eth4 (amount_of (sp_currentStake p))), (''Wallet Balance'', eth4 (amount_of (sp_balance p))),
        (''Min Required'', eth4 (Fin 10))],
      af_value = sm_amount m, af_error = stake_error_text num (stake_errMsg p m),
      af_quick = quick_buttons (amount_of (sm_amount m)),
      af_preview = new_total (amount_of (sm_amount m)) (stake_newStake p m), af_ack = None,
      af_write_error = map_option write_error_text (write_error h),
      af_submit = (submit_label (write_pending h) (is_confirming h (sm_txHash m)), stake_disabled h p m)\<rparr>"

definition stake_done :: "stake_modal \<Rightarrow> string option \<Rightarrow> done_screen" where
  "stake_done m tx = \<lparr>ds_title = ''Stake Submitted'', ds_message = eth4 (amount_of (sm_amount m)) @ '' staked successfully.'',
     ds_rows = [], ds_link = tx_link ''https://sepolia.etherscan.io'' tx\<rparr>"

definition StakeModal :: "(jsnum \<Rightarrow> string) \<Rightarrow> bool \<Rightarrow> wallet_hooks \<Rightarrow> stake_props \<Rightarrow> stake_modal \<Rightarrow> modal_view" where
  "StakeModal num opened h p m = (case stake_render opened h m of
     Closed \<Rightarrow> NoModal | Confirmed tx \<Rightarrow> DoneScreen (stake_done m tx) | StakeForm \<Rightarrow> AmountForm (stake_form_view num h p m))"

definition unstake_form_view :: "(jsnum \<Rightarrow> string) \<Rightarrow> wallet_hooks \<Rightarrow> string \<Rightarrow> unstake_modal \<Rightarrow> amount_form" where
  "unstake_form_view num h cur m =
     \<lparr>af_rows = [(''Current Stake'', eth4 (amount_of cur)), (''Minimum Required'', eth4 (Fin 10))],
      af_value = um_amount m, af_error = unstake_error_text num (unstake_errMsg cur m),
      af_quick = fraction_buttons num (amount_of cur) (amount_of (um_amount m)),
      af_preview = remaining_rows (amount_of (um_amount m)) (unstake_remaining cur m), af_ack = Some (um_ack m),
      af_write_error = map_option write_error_text (write_error h),
      af_submit = (submit_label (write_pending h) (is_confirming h (um_txHash m)), \<not> unstake_canSubmit h cur m)\<rparr>"

definition unstake_done :: "unstake_modal \<Rightarrow> done_screen" where
  "unstake_done m = \<lparr>ds_title = ''Unstaking Initiated'', ds_message = eth4 (amount_of (um_amount m)) @ '' unstaking started.'',
     ds_rows = [(''Cooldown'', ''30 Days'')], ds_link = tx_link ''https://sepolia.etherscan.io'' (um_txHash m)\<rparr>"

definition UnstakeModal :: "(jsnum \<Rightarrow> string) \<Rightarrow> bool \<Rightarrow> wallet_hooks \<Rightarrow> string \<Rightarrow> unstake_modal \<Rightarrow> modal_view" where
  "UnstakeModal num opened h cur m = (if \<not> opened then NoModal
     else if is_confirmed h (um_txHash m) then DoneScreen (unstake_done m)
     else AmountForm (unstake_form_view num h cur m))"

section \<open>The modals of \<open>stake-modals.tsx\<close>\<close>

definition lib_stake_form_view ::
  "(jsnum \<Rightarrow> string) \<Rightarrow> wallet_hooks \<Rightarrow> lib_stake_props \<Rightarrow> stake_modal \<Rightarrow> amount_form" where
  "lib_stake_form_view num h p m =
     \<lparr>af_rows = [(''Current Stake'', eth4 (amount_of (sp_currentStake p))), (''Wallet Balance'', eth4 (amount_of (sp_balance p))),
        (''Min Required'', eth4 (amount_of (sp_minStake p)))],
      af_value = sm_amount m, af_error = stake_error_text num (lib_stake_error p m),
      af_quick = quick_buttons (amount_of (sm_amount m)),
      af_preview = new_total (amount_of (sm_amount m)) (js_add (amount_of (sp_currentStake p)) (amount_of (sm_amount m))),
      af_ack = None, af_write_error = map_option lib_write_error_text (write_error h),
      af_submit = (submit_label (write_pending h) (is_confirming h (sm_txHash m)), lib_stake_disabled h p m)\<rparr>"

definition lib_stake_done :: "lib_stake_props \<Rightarrow> stake_modal \<Rightarrow> string option \<Rightarrow> done_screen" where
  "lib_stake_done p m tx = (let cur = amount_of (sp_currentStake p); amt = amount_of (sm_amount m) in
     \<lparr>ds_title = ''Stake Successful'', ds_message = ''You have successfully added '' @ eth4 amt @ '' to your stake.'',
      ds_rows = [(''Previous Stake'', eth4 cur), (''Added'', ''+'' @ eth4 amt), (''New Stake'', eth4 (js_add cur amt))],
      ds_link = tx_link ''https://etherscan.io'' tx\<rparr>)"

definition lib_StakeModal ::
  "(jsnum \<Rightarrow> string) \<Rightarrow> bool \<Rightarrow> wallet_hooks \<Rightarrow> lib_stake_props \<Rightarrow> stake_modal \<Rightarrow> modal_view" where
  "lib_StakeModal num opened h p m = (case lib_stake_render opened h m of
     Closed \<Rightarrow> NoModal | Confirmed tx \<Rightarrow> DoneScreen (lib_stake_done p m tx)
   | StakeForm \<Rightarrow> AmountForm (lib_stake_form_view num h p m))"

definition lib_unstake_form_view :: "(jsnum \<Rightarrow> string) \<Rightarrow> wallet_hooks \<Rightarrow> string \<Rightarrow> unstake_modal \<Rightarrow> amount_form" where
  "lib_unstake_form_view num h cur m =
     \<lparr>af_rows = [(''Current Stake'', eth4 (amount_of cur)), (''Minimum Required'', eth4 (Fin 10))],
      af_value = um_amount m, af_error = lib_unstake_error_text num (lib_unstake_error cur m),
      af_quick = fraction_buttons num (amount_of cur) (amount_of (um_amount m)),
      af_preview = remaining_rows (amount_of (um_amount m)) (js_sub (amount_of cur) (amount_of (um_amount m))),
      af_ack = Some (um_ack m), af_write_error = map_option write_error_text (write_error h),
      af_submit = (submit_label (write_pending h) (is_confirming h (um_txHash m)), \<not> lib_unstake_canSubmit h cur m)\<rparr>"

definition lib_unstake_done :: "unstake_modal \<Rightarrow> done_screen" where
  "lib_unstake_done m = \<lparr>ds_title = ''Unstaking Initiated'',
     ds_message = ''Your unstaking request for '' @ eth4 (amount_of (um_amount m)) @ '' has been submitted.'',
     ds_rows = [(''Cooldown Period'', ''30 Days'')], ds_link = tx_link ''https://etherscan.io'' (um_txHash m)\<rparr>"

definition lib_UnstakeModal :: "(jsnum \<Rightarrow> string) \<Rightarrow> bool \<Rightarrow> wallet_hooks \<Rightarrow> string \<Rightarrow> unstake_modal \<Rightarrow> modal_view" where
  "lib_UnstakeModal num opened h cur m = (if \<not> opened then NoModal
     else if is_confirmed h (um_txHash m) then DoneScreen (lib_unstake_done m)
     else AmountForm (lib_unstake_form_view num h cur m))"

section \<open>Lemmas\<close>

definition edits_amount :: "stake_event \<Rightarrow> bool" where
  "edits_amount e \<longleftrightarrow> (case e of SetAmount _ \<Rightarrow> True | Quick _ \<Rightarrow> True | Max \<Rightarrow> True | _ \<Rightarrow> False)"

lemma edits_keep_hash: "list_all edits_amount es \<Longrightarrow> sm_txHash (fold (stake_step p) es m) = sm_txHash m"
proof (induction es arbitrary: m)
  case (Cons e es)
  then have "sm_txHash (stake_step p e m) = sm_txHash m" by (cases e) (simp_all add: edits_amount_def)
  then show ?case using Cons by simp
qed simp

lemma edits_after_success:
  "list_all edits_amount es \<Longrightarrow> sm_amount (fold (stake_step p) es (m\<lparr>sm_txHash := t\<rparr>)) = sm_amount (fold (stake_step p) es m)"
proof (induction es arbitrary: m)
  case (Cons e es)
  then have "stake_step p e (m\<lparr>sm_txHash := t\<rparr>) = (stake_step p e m)\<lparr>sm_txHash := t\<rparr>"
    by (cases e) (simp_all add: edits_amount_def)
  then show ?case using Cons by simp
qed simp

text \<open>
  Also: the field and its buttons stay usable while the wallet signs and the transaction is confirmed. The success
  screen shows the amount typed last, and the contract call was made for the amount typed when the button was pressed.
\<close>

theorem success_shows_last_amount:
  assumes "stake_submit pe p m = Some c" "list_all edits_amount es" "is_confirmed h (Some tx)" "tx \<noteq> ''''"
  shows "call_value c = pe (sm_amount m) \<and>
    StakeModal num True h p (fold (stake_step p) es (stake_step p (WriteSuccess tx) m)) =
      DoneScreen \<lparr>ds_title = ''Stake Submitted'',
        ds_message = eth4 (amount_of (sm_amount (fold (stake_step p) es m))) @ '' staked successfully.'',
        ds_rows = [], ds_link = Some (''https://sepolia.etherscan.io/tx/'' @ tx)\<rparr>"
proof
  show "call_value c = pe (sm_amount m)"
    using stake_submit_call[OF assms(1)] by (auto simp: stake_call_def)
  let ?m = "fold (stake_step p) es (stake_step p (WriteSuccess tx) m)"
  have "sm_txHash ?m = Some tx" using edits_keep_hash[OF assms(2)] by simp
  moreover have "sm_amount ?m = sm_amount (fold (stake_step p) es m)" using edits_after_success[OF assms(2)] by simp
  ultimately show "StakeModal num True h p ?m =
      DoneScreen \<lparr>ds_title = ''Stake Submitted'',
        ds_message = eth4 (amount_of (sm_amount (fold (stake_step p) es m))) @ '' staked successfully.'',
        ds_rows = [], ds_link = Some (''https://sepolia.etherscan.io/tx/'' @ tx)\<rparr>"
    using assms(3,4) by (simp add: StakeModal_def stake_render_def stake_done_def tx_link_def truthy_str_def)
qed

text \<open>Both unstake forms offer the same figures; only the message for a remainder below ten differs.\<close>

lemma unstake_forms_agree:
  assumes "unstake_errMsg cur m = None" "lib_unstake_error cur m = None"
  shows "unstake_form_view num h cur m = lib_unstake_form_view num h cur m"
  using assms
  by (simp add: unstake_form_view_def lib_unstake_form_view_def unstake_error_text_def lib_unstake_error_text_def
      unstake_remaining_def unstake_canSubmit_def lib_unstake_canSubmit_def)

end
