(* ===== verification/JobSubmission.thy ===== *)
theory JobSubmission
  imports JobsData
begin

text \<open>
  Submitting and cancelling a job: the wizard \<open>app/(dashboard)/jobs/new/page.tsx\<close>, the preview and
  confirmation pages it leads to, and \<open>jobs/[id]/cancel/page.tsx\<close>. The backend, the session and
  \<open>JSON.parse\<close> are parameters; what a handler does to the outside is a list of effects, in order.
\<close>

section \<open>The form\<close>

record job_form =
  jobType :: "string option"
  f_requiredUptime :: jsnum
  f_requiredThroughput :: jsnum
  deadlineHours :: jsnum
  checkpointInterval :: jsnum
  parameters :: string
  depositAmount :: jsnum
  agreeTerms :: bool

definition job_form_defaults :: job_form where
  "job_form_defaults = \<lparr>jobType = None, f_requiredUptime = Fin 99, f_requiredThroughput = Fin 100,
     deadlineHours = Fin 24, checkpointInterval = Fin 60, parameters = '''', depositAmount = Fin (1 / 100),
     agreeTerms = False\<rparr>"

definition jobSchema :: schema where
  "jobSchema = ZObject [
     (''jobType'', ZEnum [''llm'', ''rendering'', ''batch'']),
     (''requiredUptime'', ZNumber [NMin 90, NMax 100]),
     (''requiredThroughput'', ZNumber [NMin 10, NMax 1000]),
     (''deadlineHours'', ZNumber [NMin 1, NMax 168]),
     (''checkpointInterval'', ZNumber [NMin 30, NMax 300]),
     (''parameters'', ZOptional (ZString [])),
     (''depositAmount'', ZNumber [NMin (1 / 1000)]),
     (''agreeTerms'', ZTrue)]"

definition form_value :: "job_form \<Rightarrow> jsval" where
  "form_value f = Obj [
     (''jobType'', case jobType f of None \<Rightarrow> Undefined | Some t \<Rightarrow> Str t),
     (''requiredUptime'', Num (f_requiredUptime f)),
     (''requiredThroughput'', Num (f_requiredThroughput f)),
     (''deadlineHours'', Num (deadlineHours f)),
     (''checkpointInterval'', Num (checkpointInterval f)),
     (''parameters'', Str (parameters f)),
     (''depositAmount'', Num (depositAmount f)),
     (''agreeTerms'', Bool (agreeTerms f))]"

record job_type_card =
  card_id :: string
  card_title :: string
  card_deposit :: rat

definition jobTypes :: "job_type_card list" where
  "jobTypes = [
     \<lparr>card_id = ''llm'', card_title = ''LLM Fine-tuning'', card_deposit = 5 / 100\<rparr>,
     \<lparr>card_id = ''rendering'', card_title = ''Batch Rendering'', card_deposit = 2 / 100\<rparr>,
     \<lparr>card_id = ''batch'', card_title = ''Batch Compute'', card_deposit = 1 / 100\<rparr>]"

definition slaPresets :: "(string \<times> rat \<times> rat) list" where
  "slaPresets = [(''Standard'', 95, 100), (''High'', 99, 250), (''Ultra'', 999 / 10, 500)]"

section \<open>The wizard\<close>

record wizard =
  currentStep :: nat
  form :: job_form

definition wizard_init :: wizard where
  "wizard_init = \<lparr>currentStep = 1, form = job_form_defaults\<rparr>"

definition canProceed :: "wizard \<Rightarrow> bool" where
  "canProceed w =
     (if currentStep w = 1 then truthy_str (jobType (form w))
      else if currentStep w = 2 then
        js_le (Fin 90) (f_requiredUptime (form w)) \<and> js_le (Fin 10) (f_requiredThroughput (form w))
      else if currentStep w = 3 then True
      else if currentStep w = 4 then agreeTerms (form w)
      else True)"

definition goToNext :: "wizard \<Rightarrow> wizard" where
  [handler_defs]: "goToNext w = (if currentStep w < 4 then w\<lparr>currentStep := currentStep w + 1\<rparr> else w)"

definition goToPrev :: "wizard \<Rightarrow> wizard" where
  [handler_defs]: "goToPrev w = (if 1 < currentStep w then w\<lparr>currentStep := currentStep w - 1\<rparr> else w)"

definition estimatedCost :: "job_form \<Rightarrow> jsnum" where
  "estimatedCost f =
     (let baseCost = js_or (depositAmount f) (Fin (1 / 100));
          slaMultiplier = js_div (js_or (f_requiredUptime f) (Fin 99)) (Fin 95);
          throughputMultiplier = js_div (js_or (f_requiredThroughput f) (Fin 100)) (Fin 50)
      in js_mul (js_mul baseCost slaMultiplier) throughputMultiplier)"

text \<open>The same figure on the preview and confirmation pages.\<close>

definition preview_estimatedCost :: "job_form \<Rightarrow> jsnum" where
  "preview_estimatedCost f =
     js_mul (depositAmount f)
       (js_mul (js_div (f_requiredUptime f) (Fin 95)) (js_div (f_requiredThroughput f) (Fin 50)))"

text \<open>
  The events of the page. The continue button is disabled unless \<open>canProceed\<close>; on the last step the
  button leads to the preview page with the form in the URL (\<open>encode\<close> stands for
  \<open>btoa(JSON.stringify(...))\<close>). A number field hands over its text; the events carry the
  number the text is read as.
\<close>

datatype wizard_event =
    PickType string
  | Preset rat rat
  | SetUptime jsnum
  | SetThroughput jsnum
  | SetDeadline jsnum
  | SetCheckpoint jsnum
  | SetParameters string
  | SetAgree bool
  | Continue
  | Back

fun wizard_step :: "wizard_event \<Rightarrow> wizard \<Rightarrow> wizard" where
  "wizard_step (PickType t) w = (if currentStep w = 1 then w\<lparr>form := (form w)\<lparr>jobType := Some t\<rparr>\<rparr> else w)"
| "wizard_step (Preset u t) w = (if currentStep w = 2
     then w\<lparr>form := (form w)\<lparr>f_requiredUptime := Fin u, f_requiredThroughput := Fin t\<rparr>\<rparr> else w)"
| "wizard_step (SetUptime v) w = (if currentStep w = 2 then w\<lparr>form := (form w)\<lparr>f_requiredUptime := v\<rparr>\<rparr> else w)"
| "wizard_step (SetThroughput v) w = (if currentStep w = 2 then w\<lparr>form := (form w)\<lparr>f_requiredThroughput := v\<rparr>\<rparr> else w)"
| "wizard_step (SetDeadline v) w = (if currentStep w = 2 then w\<lparr>form := (form w)\<lparr>deadlineHours := v\<rparr>\<rparr> else w)"
| "wizard_step (SetCheckpoint v) w = (if currentStep w = 2 then w\<lparr>form := (form w)\<lparr>checkpointInterval := v\<rparr>\<rparr> else w)"
| "wizard_step (SetParameters s) w = (if currentStep w = 3 then w\<lparr>form := (form w)\<lparr>parameters := s\<rparr>\<rparr> else w)"
| "wizard_step (SetAgree b) w = (if currentStep w = 4 then w\<lparr>form := (form w)\<lparr>agreeTerms := b\<rparr>\<rparr> else w)"
| "wizard_step Continue w = (if canProceed w then goToNext w else w)"
| "wizard_step Back w = (if currentStep w = 1 then w else goToPrev w)"

definition goToPreview :: "(job_form \<Rightarrow> string) \<Rightarrow> wizard \<Rightarrow> string option" where
  "goToPreview encode w =
     (if currentStep w = 4 \<and> canProceed w
      then Some (''/dashboard/jobs/new/preview?job='' @ encode (form w)) else None)"

section \<open>Submission\<close>

record api_payload =
  pl_clientId :: string
  pl_requiredUptime :: jsnum
  pl_requiredThroughput :: jsnum
  pl_deadlineTimestamp :: jsnum
  pl_workload :: string
  pl_isServerless :: bool

record api_result =
  ar_jobId :: string
  ar_assignedNode :: string
  ar_checkpointRef :: "string option"

datatype post_result = NetworkError string | HttpError string | Created api_result

datatype effect =
    PostJob api_payload
  | CreateRow row
  | PostCancel string string
  | UpdateStatus string string
  | Navigate string
  | NavigateLater string

definition deadlineTimestamp :: "int \<Rightarrow> job_form \<Rightarrow> jsnum" where
  "deadlineTimestamp now f = js_add (js_int (now div 1000)) (js_mul (deadlineHours f) (Fin 3600))"

definition basis_points :: "jsnum \<Rightarrow> jsnum" where
  "basis_points u = js_round (js_mul u (Fin 100))"

definition apiPayload :: "int \<Rightarrow> string \<Rightarrow> job_form \<Rightarrow> api_payload" where
  "apiPayload now user f =
     \<lparr>pl_clientId = user, pl_requiredUptime = basis_points (f_requiredUptime f),
      pl_requiredThroughput = f_requiredThroughput f, pl_deadlineTimestamp = deadlineTimestamp now f,
      pl_workload = (if parameters f \<noteq> '''' then parameters f else ''{}''), pl_isServerless = True\<rparr>"

definition null_or :: "string option \<Rightarrow> jsval" where
  "null_or s = (if truthy_str s then Str (the s) else Null)"

text \<open>The row that records the job; \<open>input\<close> is the parsed parameters, \<open>to_iso\<close> formats the deadline.\<close>

definition job_record :: "(jsnum \<Rightarrow> string) \<Rightarrow> int \<Rightarrow> string \<Rightarrow> job_form \<Rightarrow> jsval \<Rightarrow> api_result \<Rightarrow> row" where
  "job_record to_iso now user f input r =
     [(''job_id_256'', Str (ar_jobId r)),
      (''user_id'', Str user),
      (''node_id'', null_or (Some (ar_assignedNode r))),
      (''status'', Str ''pending''),
      (''job_type'', case jobType f of None \<Rightarrow> Undefined | Some t \<Rightarrow> Str t),
      (''input_payload'', input),
      (''output_payload'', Null),
      (''estimated_duration_minutes'', Num (js_mul (deadlineHours f) (Fin 60))),
      (''actual_duration_minutes'', Null),
      (''checkpoint_url'', null_or (ar_checkpointRef r)),
      (''sla_uptime_required'', Num (basis_points (f_requiredUptime f))),
      (''sla_throughput_required'', Num (f_requiredThroughput f)),
      (''deadline'', Str (to_iso (js_mul (deadlineTimestamp now f) (Fin 1000)))),
      (''budget_usd'', Num (depositAmount f)),
      (''price_charged_usd'', Null),
      (''paid_at'', Null),
      (''completed_at'', Null)]"

text \<open>
  What the backend and the database answer: \<open>post\<close> the submission, \<open>json\<close> the parser (\<open>None\<close>: it
  throws), \<open>create_error\<close> the insertion.
\<close>

record submit_env =
  post :: "api_payload \<Rightarrow> post_result"
  json :: "string \<Rightarrow> jsval option"
  create_error :: "row \<Rightarrow> string option"
  to_iso :: "jsnum \<Rightarrow> string"

definition parse_input :: "submit_env \<Rightarrow> job_form \<Rightarrow> jsval option" where
  "parse_input env f = (if parameters f \<noteq> '''' then json env (parameters f) else Some (Obj []))"

text \<open>The body both pages share, from the request to the redirect: effects, and the error thrown.\<close>

definition submit_body :: "submit_env \<Rightarrow> int \<Rightarrow> string \<Rightarrow> job_form \<Rightarrow> effect list \<times> string option" where
  "submit_body env now user f =
     (let p = apiPayload now user f in
      case post env p of
        NetworkError e \<Rightarrow> ([PostJob p], Some e)
      | HttpError t \<Rightarrow> ([PostJob p], Some (''Submission failed: '' @ t))
      | Created r \<Rightarrow>
          (case parse_input env f of
             None \<Rightarrow> ([PostJob p], Some ''Unexpected token'')
           | Some input \<Rightarrow>
               (let row = job_record (to_iso env) now user f input r in
                case create_error env row of
                  Some e \<Rightarrow> ([PostJob p, CreateRow row], Some e)
                | None \<Rightarrow> ([PostJob p, CreateRow row, Navigate (''/dashboard/jobs/'' @ ar_jobId r)], None))))"

text \<open>\<open>onSubmit\<close> of the wizard: an error is only logged.\<close>

definition onSubmit :: "submit_env \<Rightarrow> int \<Rightarrow> string option \<Rightarrow> job_form \<Rightarrow> effect list" where
  [handler_defs]: "onSubmit env now user f =
     (case user of None \<Rightarrow> [Navigate ''/login''] | Some u \<Rightarrow> fst (submit_body env now u f))"

section \<open>The confirmation page\<close>

datatype confirm_step = Review | Signing | Submitting | Done

record confirm_page =
  step :: confirm_step
  error :: "string option"
  walletAddress :: "string option"

definition confirm_init :: confirm_page where
  "confirm_init = \<lparr>step = Review, error = None, walletAddress = None\<rparr>"

text \<open>The wallet is mocked: \<open>mock\<close> is the random address.\<close>

definition handleConnectWallet :: "string \<Rightarrow> confirm_page \<Rightarrow> confirm_page" where
  [handler_defs]: "handleConnectWallet mock c = c\<lparr>step := Done, walletAddress := Some mock\<rparr>"

definition handleConfirm ::
  "submit_env \<Rightarrow> int \<Rightarrow> string option \<Rightarrow> job_form option \<Rightarrow> confirm_page \<Rightarrow> confirm_page \<times> effect list" where
  [handler_defs]: "handleConfirm env now user params c =
     (case (user, params) of
        (Some u, Some f) \<Rightarrow>
          (let c1 = c\<lparr>step := Submitting, error := None\<rparr>; (effs, err) = submit_body env now u f in
           case err of None \<Rightarrow> (c1, effs) | Some e \<Rightarrow> (c1\<lparr>error := Some e, step := Done\<rparr>, effs))
      | _ \<Rightarrow> (c, []))"

definition confirm_enabled :: "confirm_page \<Rightarrow> bool" where
  "confirm_enabled c \<longleftrightarrow> step c = Done"

text \<open>The buttons of the page: the wallet button in the review step, the submit button when done.\<close>

datatype confirm_event = ClickWallet string | ClickConfirm int

fun confirm_page_step ::
  "submit_env \<Rightarrow> string option \<Rightarrow> job_form option \<Rightarrow> confirm_event \<Rightarrow>
   confirm_page \<times> effect list \<Rightarrow> confirm_page \<times> effect list" where
  "confirm_page_step env user params (ClickWallet mock) (c, es) =
     (if step c = Review then (handleConnectWallet mock c, es) else (c, es))"
| "confirm_page_step env user params (ClickConfirm now) (c, es) =
     (if confirm_enabled c
      then (case handleConfirm env now user params c of (c', es') \<Rightarrow> (c', es @ es'))
      else (c, es))"

section \<open>Cancelling\<close>

record cancel_page =
  isCancelling :: bool
  cancel_done :: bool

definition cancel_init :: cancel_page where
  "cancel_init = \<lparr>isCancelling = False, cancel_done = False\<rparr>"

datatype cancel_result = CancelNetworkError | CancelResponse bool

text \<open>\<open>update_fails\<close>: the status update in the database throws.\<close>

definition handleCancel ::
  "string option \<Rightarrow> string \<Rightarrow> cancel_result \<Rightarrow> bool \<Rightarrow> cancel_page \<Rightarrow> cancel_page \<times> effect list" where
  [handler_defs]: "handleCancel user k result update_fails s =
     (case user of None \<Rightarrow> (s, [])
      | Some u \<Rightarrow>
          (let s1 = s\<lparr>isCancelling := True\<rparr> in
           case result of
             CancelNetworkError \<Rightarrow> (s1\<lparr>isCancelling := False\<rparr>, [PostCancel k u])
           | CancelResponse False \<Rightarrow> (s1, [PostCancel k u])
           | CancelResponse True \<Rightarrow>
               (let s2 = s1\<lparr>cancel_done := True\<rparr> in
                if update_fails
                then (s2\<lparr>isCancelling := False\<rparr>, [PostCancel k u, UpdateStatus k ''cancelled''])
                else (s2, [PostCancel k u, UpdateStatus k ''cancelled'', NavigateLater ''/dashboard/jobs'']))))"

definition isActive :: "job option \<Rightarrow> bool" where
  "isActive j \<longleftrightarrow> (case j of None \<Rightarrow> False | Some x \<Rightarrow> job_status x = ''running'' \<or> job_status x = ''pending'')"

datatype cancel_screen = CannotCancel | CancelDone | CancelForm

definition cancel_render :: "job option \<Rightarrow> cancel_page \<Rightarrow> cancel_screen" where
  [view_defs]: "cancel_render j s =
     (if \<not> isActive j \<and> \<not> cancel_done s then CannotCancel else if cancel_done s then CancelDone else CancelForm)"

section \<open>Lemmas\<close>

text \<open>
  What the wizard has checked by the time it is past a step: the job type after the first, the two
  SLA minima after the second.
\<close>

definition wizard_inv :: "wizard \<Rightarrow> bool" where
  "wizard_inv w \<longleftrightarrow>
     1 \<le> currentStep w \<and> currentStep w \<le> 4 \<and>
     (1 < currentStep w \<longrightarrow> truthy_str (jobType (form w))) \<and>
     (2 < currentStep w \<longrightarrow>
        js_le (Fin 90) (f_requiredUptime (form w)) \<and> js_le (Fin 10) (f_requiredThroughput (form w)))"

lemma wizard_inv_step: "wizard_inv w \<Longrightarrow> wizard_inv (wizard_step e w)"
proof (induction e)
  case Continue
  then show ?case
    by (auto simp: wizard_inv_def goToNext_def canProceed_def split: if_splits)
qed (auto simp: wizard_inv_def goToPrev_def split: if_splits)

interpretation wizard: state_machine wizard_step wizard_inv wizard_init
  by unfold_locales (simp_all add: wizard_inv_step, simp add: wizard_inv_def wizard_init_def)

lemma submit_body_posts:
  "\<exists>rest. fst (submit_body env now u f) = PostJob (apiPayload now u f) # rest"
  by (simp add: submit_body_def Let_def split: post_result.splits option.splits)

definition posts :: "effect list \<Rightarrow> nat" where
  "posts es = count_by (\<lambda>e. case e of PostJob _ \<Rightarrow> True | _ \<Rightarrow> False) es"

definition creates :: "effect list \<Rightarrow> row list" where
  "creates es = List.map_filter (\<lambda>e. case e of CreateRow r \<Rightarrow> Some r | _ \<Rightarrow> None) es"

lemma posts_append [simp]: "posts (es @ fs) = posts es + posts fs"
  by (simp add: posts_def count_by_def)

lemma creates_append [simp]: "creates (es @ fs) = creates es @ creates fs"
  by (induction es) (simp_all add: creates_def map_filter_simps split: option.splits)

lemma posts_simps [simp]: "posts [] = 0" "posts (PostJob p # es) = Suc (posts es)"
  "posts (CreateRow r # es) = posts es" "posts (Navigate u # es) = posts es"
  by (simp_all add: posts_def)

lemma creates_simps [simp]: "creates [] = []" "creates (PostJob p # es) = creates es"
  "creates (CreateRow r # es) = r # creates es" "creates (Navigate u # es) = creates es"
  by (simp_all add: creates_def map_filter_simps)

text \<open>The invalid parameters: the backend takes the job, the parser does not take the parameters.\<close>

lemma submit_body_orphan:
  assumes "post env (apiPayload now u f) = Created r" "parameters f \<noteq> ''''" "json env (parameters f) = None"
  shows "submit_body env now u f = ([PostJob (apiPayload now u f)], Some ''Unexpected token'')"
  using assms by (simp add: submit_body_def Let_def parse_input_def)

lemma basis_points_Fin: "basis_points (Fin q) = js_int \<lfloor>q * 100 + 1 / 2\<rfloor>"
  by (simp add: basis_points_def)

lemma basis_points_ge: "90 \<le> q \<Longrightarrow> \<exists>b. basis_points (Fin q) = js_int b \<and> 9000 \<le> b"
proof -
  assume "90 \<le> q"
  then have "9000 \<le> \<lfloor>q * 100 + 1 / 2\<rfloor>" by (simp add: le_floor_iff)
  then show ?thesis unfolding basis_points_Fin by blast
qed

section \<open>Properties\<close>

text \<open>Also: the wizard is gated: whatever is entered and clicked, in any order, the preview page is only
  reached with a job type chosen, an uptime of at least 90, a throughput of at least 10, and the
  terms accepted.\<close>

theorem wizard_gates_preview:
  assumes "goToPreview enc (fold wizard_step es wizard_init) = Some url"
  shows "let f = form (fold wizard_step es wizard_init) in
    truthy_str (jobType f) \<and> js_le (Fin 90) (f_requiredUptime f) \<and>
    js_le (Fin 10) (f_requiredThroughput f) \<and> agreeTerms f"
  using assms wizard.inv_reachable[of es]
  by (auto simp: goToPreview_def wizard_inv_def canProceed_def Let_def split: if_splits)

definition full_run :: "wizard_event list" where
  "full_run = [PickType ''llm'', Continue, Preset 99 250, Continue, SetParameters ''{}'', Continue, SetAgree True]"

theorem wizard_gates_preview_witness:
  "js_le (Fin 90) (f_requiredUptime (form (fold wizard_step full_run wizard_init)))"
  using wizard_gates_preview[of "\<lambda>_. ''x''" full_run "''/dashboard/jobs/new/preview?job=x''"]
  by (simp add: full_run_def goToPreview_def canProceed_def goToNext_def wizard_init_def
      job_form_defaults_def truthy_str_def Let_def)

text \<open>Also: the gate is weaker than the form's schema, and neither the preview nor the confirmation page
  validates: for every validator that obeys zod's laws there is a run of the wizard that reaches the
  preview page with a form the schema rejects.\<close>

theorem wizard_admits_invalid:
  assumes "zod_laws email accepts"
  shows "\<exists>es url. goToPreview enc (fold wizard_step es wizard_init) = Some url \<and>
    \<not> accepts jobSchema (form_value (form (fold wizard_step es wizard_init)))"
proof -
  let ?es = "[PickType ''llm'', Continue, SetDeadline (Fin 100000), Continue, Continue, SetAgree True]"
  have "goToPreview enc (fold wizard_step ?es wizard_init) \<noteq> None"
    by (simp add: goToPreview_def canProceed_def goToNext_def wizard_init_def job_form_defaults_def truthy_str_def)
  moreover have "\<not> accepts jobSchema (form_value (form (fold wizard_step ?es wizard_init)))"
    by (simp add: jobSchema_def zod_rules[OF assms] form_value_def canProceed_def goToNext_def
        wizard_init_def job_form_defaults_def truthy_str_def)
  ultimately show ?thesis by blast
qed

theorem wizard_admits_invalid_witness:
  "\<exists>es url. goToPreview (\<lambda>_. ''x'') (fold wizard_step es wizard_init) = Some url \<and>
    \<not> zod_model jobSchema (form_value (form (fold wizard_step es wizard_init)))"
  by (rule wizard_admits_invalid[OF zod_model_laws])

text \<open>C1: a submission sends the job to the backend exactly once and first; it writes at most one
  record, only after the backend accepted the job; and it leads to the job's page exactly when
  everything succeeded, that is when no error is reported.\<close>

theorem submission_order:
  "let (effs, err) = submit_body env now u f in
     posts effs = 1 \<and> (\<exists>rest. effs = PostJob (apiPayload now u f) # rest) \<and>
     length (creates effs) \<le> 1 \<and>
     (creates effs \<noteq> [] \<longrightarrow> (\<exists>r. post env (apiPayload now u f) = Created r)) \<and>
     (err = None \<longleftrightarrow> (\<exists>r. post env (apiPayload now u f) = Created r \<and>
        Navigate (''/dashboard/jobs/'' @ ar_jobId r) \<in> set effs))"
  by (auto simp: submit_body_def Let_def split: post_result.splits option.splits)

theorem submission_order_witness:
  "length (creates (fst (submit_body \<lparr>post = \<lambda>_. NetworkError ''down'', json = \<lambda>_. None,
     create_error = \<lambda>_. None, to_iso = \<lambda>_. ''''\<rparr> 0 ''u'' job_form_defaults))) \<le> 1"
  using submission_order[of "\<lparr>post = \<lambda>_. NetworkError ''down'', json = \<lambda>_. None,
     create_error = \<lambda>_. None, to_iso = \<lambda>_. ''''\<rparr>" 0 "''u''" job_form_defaults]
  unfolding split_beta Let_def by (elim conjE)



text \<open>C7: the uptime is stored in basis points but read back as a percentage: for every job the wizard's
  gate lets through, the job page asks for an uptime of at least 9000 percent, reports a breach
  whatever uptime up to 100 was measured, and, when the job costs anything, shows a penalty larger
  than the cost, so a negative net cost.\<close>

theorem stored_uptime_breaks_sla:
  assumes "map_of (job_record iso' now u f input r) ''sla_uptime_required'' = Some (Num b)"
    and "f_requiredUptime f = Fin q" "90 \<le> q"
    and "sla_uptime_required dj = Some b" "cost (mapJob pd now' dj) = Fin c" "0 < c"
  shows "\<not> isCompliant (uptime_gauge (mapJob pd now' dj)) \<and>
    (\<forall>m. m \<le> 100 \<longrightarrow> \<not> isCompliant (SLAComplianceGauge (Fin m) (requiredUptime (sla (mapJob pd now' dj))))) \<and>
    js_lt (netCost (mapJob pd now' dj)) (Fin 0)"
proof -
  obtain b' where b': "b = js_int b'" "9000 \<le> b'"
    using basis_points_ge[OF assms(3)] assms(1,2) by (auto simp: job_record_def)
  have req: "requiredUptime (sla (mapJob pd now' dj)) = js_int b'"
    using assms(4) b'(1) by (simp add: mapJob_def or_else_def)
  have act: "num_or_zero (actualUptime (mapJob pd now' dj)) = Fin 0"
    by (simp add: mapJob_def num_or_zero_def)
  have big: "(9000 :: rat) \<le> of_int b'" using b'(2) by simp
  have "9 * c \<le> of_int b' / 100 * c * (1 / 10)"
    using assms(6) big by (simp add: mult_right_mono)
  then have "c - of_int b' / 100 * c * (1 / 10) < 0"
    using assms(6) by linarith
  then have "js_lt (netCost (mapJob pd now' dj)) (Fin 0)"
    by (simp add: netCost_def slaPenalty_def req act assms(5))
  moreover have "\<not> isCompliant (SLAComplianceGauge (Fin m) (requiredUptime (sla (mapJob pd now' dj))))"
    if "m \<le> 100" for m using big that by (simp add: SLAComplianceGauge_def req)
  ultimately show ?thesis
    unfolding uptime_gauge_def act by simp
qed

definition sample_job :: "jsnum \<Rightarrow> db_job" where
  "sample_job b = \<lparr>dj_id = ''1'', job_id_256 = ''j'', dj_user_id = ''u'', dj_node_id = None, dj_status = ''running'',
     checkpoint_url = None, sla_uptime_required = Some b, sla_throughput_required = None, dj_deadline = None,
     budget_usd = Some (Fin (1 / 100)), price_charged_usd = None, dj_created_at = ''now''\<rparr>"

theorem stored_uptime_breaks_sla_witness:
  "js_lt (netCost (mapJob (\<lambda>_. Fin 0) 0 (sample_job (Fin 9900)))) (Fin 0)"
proof -
  have "\<lfloor>19801 / 2 :: rat\<rfloor> = 9900" by (rule floor_unique) simp_all
  then have "map_of (job_record (\<lambda>_. ''x'') 0 ''u'' job_form_defaults (Obj [])
      \<lparr>ar_jobId = ''j'', ar_assignedNode = ''n'', ar_checkpointRef = None\<rparr>) ''sla_uptime_required'' = Some (Num (Fin 9900))"
    by (simp add: job_record_def job_form_defaults_def basis_points_def)
  from stored_uptime_breaks_sla[OF this, of 99 "sample_job (Fin 9900)" "\<lambda>_. Fin 0" 0 "1 / 100"]
  show ?thesis by (simp add: job_form_defaults_def sample_job_def mapJob_def or_else_def)
qed

text \<open>Also: the cancel page updates the job's status exactly when the backend confirms, to \<open>cancelled\<close>; and
  when the backend refuses, the button stays in its loading state and nothing is reported.\<close>

theorem cancel_outcomes:
  "(UpdateStatus k ''cancelled'' \<in> set (snd (handleCancel user k res fails s)) \<longleftrightarrow>
      user \<noteq> None \<and> res = CancelResponse True) \<and>
   (user \<noteq> None \<longrightarrow> isCancelling (fst (handleCancel user k (CancelResponse False) fails s)) \<and>
      cancel_done (fst (handleCancel user k (CancelResponse False) fails s)) = cancel_done s)"
  by (cases res) (auto simp: handleCancel_def Let_def split: option.splits bool.splits)

theorem cancel_outcomes_witness:
  "isCancelling (fst (handleCancel (Some ''u'') ''j'' (CancelResponse False) False cancel_init))"
  using cancel_outcomes[of "''j''" "Some ''u''" "CancelResponse False" False cancel_init] by simp

end
