(* ===== verification/WizardViews.thy ===== *)
theory WizardViews
  imports JobSubmission Auth
begin

text \<open>
  What the wizard for a new job, its preview and its confirmation page show, and how the configuration travels from one
  to the next: as base 64 of its JSON text in the query of the URL, which is not encoded for it. \<open>num\<close> is
  the text of a number, \<open>stringify\<close> and \<open>parse\<close> the JSON functions on a configuration.
\<close>

section \<open>Base 64\<close>

text \<open>\<open>btoa\<close> and \<open>atob\<close>: the codes of six bits, and the forgiving decoding, which drops white space and padding.\<close>

definition b64_alphabet :: string where
  "b64_alphabet = ''ABCDEFGHIJKLMNOPQRSTUVWXYZabcdefghijklmnopqrstuvwxyz0123456789+/''"

fun b64_codes :: "nat list \<Rightarrow> nat list" where
  "b64_codes [] = []"
| "b64_codes [a] = [a div 4, a mod 4 * 16]"
| "b64_codes [a, b] = [a div 4, a mod 4 * 16 + b div 16, b mod 16 * 4]"
| "b64_codes (a # b # c # s) = a div 4 # (a mod 4 * 16 + b div 16) # (b mod 16 * 4 + c div 64) # c mod 64 # b64_codes s"

fun b64_bytes :: "nat list \<Rightarrow> nat list" where
  "b64_bytes (i # j # k # l # s) = (i * 4 + j div 16) # (j mod 16 * 16 + k div 4) # (k mod 4 * 64 + l) # b64_bytes s"
| "b64_bytes [i, j, k] = [i * 4 + j div 16, j mod 16 * 16 + k div 4]"
| "b64_bytes [i, j] = [i * 4 + j div 16]"
| "b64_bytes _ = []"

definition b64_char :: "nat \<Rightarrow> char" where
  "b64_char n = b64_alphabet ! n"

definition b64_index :: "char \<Rightarrow> nat" where
  "b64_index c = length (takeWhile (\<lambda>x. x \<noteq> c) b64_alphabet)"

definition btoa :: "string \<Rightarrow> string" where
  "btoa s = map b64_char (b64_codes (map of_char s)) @ replicate ((3 - length s mod 3) mod 3) (CHR ''='')"

definition strip_padding :: "string \<Rightarrow> string" where
  "strip_padding t = (if length t mod 4 \<noteq> 0 then t
     else if ends_with ''=='' t then take (length t - 2) t
     else if ends_with ''='' t then take (length t - 1) t else t)"

definition atob :: "string \<Rightarrow> string option" where
  "atob s = (let t = strip_padding (filter (\<lambda>c. c \<notin> {CHR '' '', CHR 0x09, CHR 0x0A, CHR 0x0C, CHR 0x0D}) s) in
     if length t mod 4 = 1 \<or> \<not> list_all (\<lambda>c. c \<in> set b64_alphabet) t then None
     else Some (map char_of (b64_bytes (map b64_index t))))"

section \<open>The configuration in the URL\<close>

definition preview_url :: "(job_form \<Rightarrow> string) \<Rightarrow> job_form \<Rightarrow> string" where
  "preview_url stringify f = ''/dashboard/jobs/new/preview?job='' @ btoa (stringify f)"

definition confirm_url :: "(job_form \<Rightarrow> string) \<Rightarrow> job_form \<Rightarrow> string" where
  "confirm_url stringify f = ''/dashboard/jobs/new/confirm?job='' @ btoa (stringify f)"

text \<open>The text that reaches the parser, and what the two pages start from.\<close>

definition job_text :: "string \<Rightarrow> string option" where
  "job_text url = (case search_param ''job'' url of None \<Rightarrow> None | Some e \<Rightarrow> if e = '''' then None else atob e)"

definition jobParams :: "(string \<Rightarrow> job_form option) \<Rightarrow> string \<Rightarrow> job_form option" where
  "jobParams parse url = Option.bind (job_text url) parse"

section \<open>The wizard\<close>

text \<open>
  The dialog under the form shows what is about to be sent. No button opens it: the form has none that submits, so it
  only opens when the browser submits the form by itself, on the enter key. The buttons for a preference of nodes and
  the upload area have no handlers.
\<close>

definition steps :: "(nat \<times> string \<times> string) list" where
  "steps = [(1, ''Job Type'', ''Select compute type''), (2, ''SLA Config'', ''Performance targets''),
     (3, ''Parameters'', ''Configure job''), (4, ''Review'', ''Confirm deposit'')]"

datatype step_mark = MarkCheck | MarkNumber nat

record step_view =
  stv_mark :: step_mark
  stv_current :: bool
  stv_title :: string
  stv_line :: "bool option"

text \<open>The line to the next step is lit when the step is completed; the last step has none.\<close>

definition StepIndicator :: "nat \<Rightarrow> step_view list" where
  "StepIndicator cur = map (\<lambda>(i, (n, title, descr)).
     \<lparr>stv_mark = (if n < cur then MarkCheck else MarkNumber n), stv_current = (n = cur), stv_title = title,
      stv_line = (if i = length steps - 1 then None else Some (n < cur))\<rparr>) (enumerate 0 steps)"

record slider_view =
  slv_min :: string
  slv_value :: string
  slv_max :: string
  slv_width :: jsnum

definition SliderWithLabels :: "(jsnum \<Rightarrow> string) \<Rightarrow> jsnum \<Rightarrow> rat \<Rightarrow> rat \<Rightarrow> string \<Rightarrow> slider_view" where
  "SliderWithLabels show_num v lo hi u =
     \<lparr>slv_min = ''Min: '' @ show_num (Fin lo) @ u, slv_value = show_num v @ u, slv_max = ''Max: '' @ show_num (Fin hi) @ u,
      slv_width = js_mul (js_div (js_sub v (Fin lo)) (Fin (hi - lo))) (Fin 100)\<rparr>"

definition type_cards :: "(jsnum \<Rightarrow> string) \<Rightarrow> job_form \<Rightarrow> (string \<times> string \<times> bool) list" where
  "type_cards num f = map (\<lambda>c. (card_title c, ''Min deposit: ~'' @ num (Fin (card_deposit c)) @ '' ETH'',
     jobType f = Some (card_id c))) jobTypes"

definition uptime_slider :: "(jsnum \<Rightarrow> string) \<Rightarrow> job_form \<Rightarrow> slider_view" where
  "uptime_slider num f = (let s = SliderWithLabels num (f_requiredUptime f) 90 100 ''%''
     in s\<lparr>slv_value := toFixed 1 (f_requiredUptime f) @ ''%''\<rparr>)"

definition throughput_slider :: "(jsnum \<Rightarrow> string) \<Rightarrow> job_form \<Rightarrow> slider_view" where
  "throughput_slider num f = SliderWithLabels num (f_requiredThroughput f) 10 1000 '' ops/s''"

definition job_title :: "job_form \<Rightarrow> string option" where
  "job_title f = map_option card_title (find (\<lambda>c. jobType f = Some (card_id c)) jobTypes)"

definition review_rows :: "(jsnum \<Rightarrow> string) \<Rightarrow> job_form \<Rightarrow> (string \<times> string) list" where
  "review_rows num f =
     [(''Job Type'', case job_title f of None \<Rightarrow> ''-'' | Some t \<Rightarrow> t),
      (''Required Uptime'', toFixed 1 (f_requiredUptime f) @ ''%''),
      (''Required Throughput'', num (f_requiredThroughput f) @ '' ops/s''),
      (''Deadline'', num (deadlineHours f) @ ''h''),
      (''Checkpoint Interval'', num (checkpointInterval f) @ ''s''),
      (''Est. Cost'', ''~$'' @ toFixed 4 (estimatedCost f)),
      (''Min. Deposit'', num (depositAmount f) @ '' ETH'')]"

definition dialog_rows :: "(jsnum \<Rightarrow> string) \<Rightarrow> job_form \<Rightarrow> (string \<times> string) list" where
  "dialog_rows num f =
     [(''Job Type'', case job_title f of None \<Rightarrow> '''' | Some t \<Rightarrow> t),
      (''SLA Uptime'', toFixed 1 (f_requiredUptime f) @ ''%''),
      (''Throughput'', num (f_requiredThroughput f) @ '' ops/s''),
      (''Deposit Required'', num (depositAmount f) @ '' ETH'')]"

datatype wizard_content =
    TypeStep "(string \<times> string \<times> bool) list"
  | SlaStep "string list" slider_view slider_view string string
  | ParameterStep string "string list"
  | ReviewStep "(string \<times> string) list" bool

definition wizard_content :: "(jsnum \<Rightarrow> string) \<Rightarrow> wizard \<Rightarrow> wizard_content option" where
  "wizard_content num w = (let f = form w in
     if currentStep w = 1 then Some (TypeStep (type_cards num f))
     else if currentStep w = 2 then Some (SlaStep (map fst slaPresets) (uptime_slider num f) (throughput_slider num f)
       (num (deadlineHours f)) (num (checkpointInterval f)))
     else if currentStep w = 3 then Some (ParameterStep (parameters f) [''Any'', ''High Reputation'', ''Specific GPU''])
     else if currentStep w = 4 then Some (ReviewStep (review_rows num f) (agreeTerms f))
     else None)"

text \<open>The buttons under a step: their labels with whether they are disabled.\<close>

definition wizard_buttons :: "bool \<Rightarrow> wizard \<Rightarrow> (string \<times> bool) list" where
  "wizard_buttons submitting w = [(''Back'', currentStep w = 1), (''Cancel'', False),
     if currentStep w < 4 then (''Continue'', \<not> canProceed w) else (''Review & Confirm'', \<not> canProceed w \<or> submitting)]"

definition NewJobPage :: "(jsnum \<Rightarrow> string) \<Rightarrow> bool \<Rightarrow> wizard \<Rightarrow> step_view list \<times> wizard_content option \<times> (string \<times> bool) list" where
  "NewJobPage num submitting w = (StepIndicator (currentStep w), wizard_content num w, wizard_buttons submitting w)"

section \<open>The preview page\<close>

record preview_page =
  eligibleNodes :: jsnum
  estimatedRate :: string

definition preview_init :: preview_page where
  "preview_init = \<lparr>eligibleNodes = Fin 0, estimatedRate = ''--''\<rparr>"

text \<open>The answer of the request: the count of the body, if it is an object with one, or a failure.\<close>

definition eligible_answer :: "(int \<Rightarrow> string) \<Rightarrow> jsnum option option \<Rightarrow> preview_page \<Rightarrow> preview_page" where
  "eligible_answer grouped r p = (case r of
     None \<Rightarrow> p\<lparr>eligibleNodes := Fin 0, estimatedRate := ''Rate varies by node''\<rparr>
   | Some n \<Rightarrow> p\<lparr>eligibleNodes := (case n of None \<Rightarrow> Fin 0 | Some k \<Rightarrow> k),
       estimatedRate := ''$'' @ grouped (100 * 60) @ '' per node-minute''\<rparr>)"

definition JOB_TYPE_LABELS :: "string \<rightharpoonup> string" where
  "JOB_TYPE_LABELS = map_of [(''llm'', ''LLM Fine-tuning''), (''rendering'', ''Batch Rendering''), (''batch'', ''Batch Compute'')]"

definition type_label :: "job_form \<Rightarrow> string" where
  "type_label f = (case Option.bind (jobType f) JOB_TYPE_LABELS of None \<Rightarrow> '''' | Some l \<Rightarrow> l)"

definition sla_terms :: "(jsnum \<Rightarrow> string) \<Rightarrow> (jsnum \<Rightarrow> string) \<Rightarrow> job_form \<Rightarrow> (string \<times> string \<times> string) list" where
  "sla_terms num deadline_text f =
     [(''Required Uptime'', toFixed 1 (f_requiredUptime f) @ ''%'', ''Enforced via heartbeat''),
      (''Required Throughput'', num (f_requiredThroughput f) @ ''ops/s'', ''Measured per interval''),
      (''Deadline'', num (deadlineHours f) @ ''h'', ''Expires '' @ deadline_text (deadlineHours f))]"

text \<open>Long parameters are cut after eighty characters.\<close>

definition shown_parameters :: "string \<Rightarrow> string" where
  "shown_parameters ps = (if ps = '''' then ''None'' else if 80 < length ps then take 80 ps @ ''...'' else ps)"

definition job_configuration :: "(jsnum \<Rightarrow> string) \<Rightarrow> job_form \<Rightarrow> (string \<times> string) list" where
  "job_configuration num f =
     [(''Workload Type'', type_label f), (''Checkpoint Interval'', num (checkpointInterval f) @ '' seconds''),
      (''Workload Parameters'', shown_parameters (parameters f))]"

definition matched_nodes :: "(jsnum \<Rightarrow> string) \<Rightarrow> preview_page \<Rightarrow> string \<times> string \<times> string" where
  "matched_nodes num p =
     (if js_lt (Fin 0) (eligibleNodes p)
      then (num (eligibleNodes p) @ '' eligible node'' @ (if eligibleNodes p \<noteq> Fin 1 then ''s'' else '''') @ '' match your requirements'',
        num (eligibleNodes p), estimatedRate p)
      else (''Fetching eligible nodes...'', ''--'', estimatedRate p))"

definition cost_rows :: "(jsnum \<Rightarrow> string) \<Rightarrow> job_form \<Rightarrow> (string \<times> string) list" where
  "cost_rows num f =
     [(''Job Type'', type_label f), (''Deadline'', num (deadlineHours f) @ ''h''),
      (''Checkpoint Interval'', num (checkpointInterval f) @ ''s''),
      (''SLA Multiplier'', ''x'' @ toFixed 2 (js_mul (js_div (f_requiredUptime f) (Fin 95)) (js_div (f_requiredThroughput f) (Fin 50)))),
      (''Escrow Deposit'', ''$'' @ toFixed 4 (preview_estimatedCost f) @ '' ETH'')]"

record preview_view =
  pvw_terms :: "(string \<times> string \<times> string) list"
  pvw_config :: "(string \<times> string) list"
  pvw_nodes :: "string \<times> string \<times> string"
  pvw_costs :: "(string \<times> string) list"

text \<open>Without a configuration the page only offers to start over.\<close>

definition JobPreviewPage ::
  "(jsnum \<Rightarrow> string) \<Rightarrow> (jsnum \<Rightarrow> string) \<Rightarrow> job_form option \<Rightarrow> preview_page \<Rightarrow> preview_view option" where
  "JobPreviewPage num deadline_text params p = map_option (\<lambda>f.
     \<lparr>pvw_terms = sla_terms num deadline_text f, pvw_config = job_configuration num f, pvw_nodes = matched_nodes num p,
      pvw_costs = cost_rows num f\<rparr>) params"

section \<open>The confirmation page\<close>

definition contract_rows :: "(string \<times> string) list" where
  "contract_rows = [(''Contract'', ''0x4A5...F82c (Escrow.sol)''), (''Network'', ''Ethereum Mainnet''), (''Method'', ''recordSLABenchmark(...)'')]"

definition job_terms :: "(jsnum \<Rightarrow> string) \<Rightarrow> job_form \<Rightarrow> (string \<times> string) list" where
  "job_terms num f =
     [(''Workload'', type_label f), (''Required Uptime'', toFixed 1 (f_requiredUptime f) @ ''%''),
      (''Required Throughput'', num (f_requiredThroughput f) @ '' ops/s''), (''Deadline'', num (deadlineHours f) @ '' hours''),
      (''Checkpoint Interval'', num (checkpointInterval f) @ ''s''),
      (''Escrow Deposit'', ''$'' @ toFixed 4 (preview_estimatedCost f) @ '' ETH'')]"

datatype wallet_step = ConnectButton | WaitingForSignature | SignedBy string | NoWalletStep

definition wallet_step_view :: "confirm_page \<Rightarrow> wallet_step" where
  "wallet_step_view c = (case step c of
     Review \<Rightarrow> ConnectButton | Signing \<Rightarrow> WaitingForSignature | Submitting \<Rightarrow> NoWalletStep
   | Done \<Rightarrow> (if truthy_str (walletAddress c)
       then SignedBy (take 6 (the (walletAddress c)) @ ''...'' @ drop (length (the (walletAddress c)) - 4) (the (walletAddress c)))
       else NoWalletStep))"

record confirm_view =
  cfv_terms :: "(string \<times> string) list"
  cfv_wallet :: wallet_step
  cfv_error :: "string option"
  cfv_submit :: "string \<times> bool"

definition JobConfirmPage :: "(jsnum \<Rightarrow> string) \<Rightarrow> job_form option \<Rightarrow> confirm_page \<Rightarrow> confirm_view option" where
  "JobConfirmPage num params c = map_option (\<lambda>f.
     \<lparr>cfv_terms = contract_rows @ job_terms num f, cfv_wallet = wallet_step_view c,
      cfv_error = (if truthy_str (error c) then error c else None),
      cfv_submit = (if step c = Submitting then ''Submitting to Network...'' else ''Confirm & Submit Job'', \<not> confirm_enabled c)\<rparr>) params"

section \<open>Base 64 and the URL\<close>

lemma b64_index_char: "n < 64 \<Longrightarrow> b64_index (b64_char n) = n"
proof -
  have "list_all (\<lambda>n. b64_index (b64_char n) = n) [0..<64]"
    by code_simp
  then show "n < 64 \<Longrightarrow> b64_index (b64_char n) = n" by (simp add: list_all_iff)
qed

lemma b64_char_in: "n < 64 \<Longrightarrow> b64_char n \<in> set b64_alphabet"
  unfolding b64_char_def by (rule nth_mem) (simp add: b64_alphabet_def)

lemma b64_codes_bound: "\<forall>b \<in> set s. b < 256 \<Longrightarrow> \<forall>n \<in> set (b64_codes s). n < 64"
  by (induction s rule: b64_codes.induct) auto

lemma six_bits:
  fixes a b c :: nat
  assumes "b < 256" "c < 256"
  shows "a div 4 * 4 + (a mod 4 * 16 + b div 16) div 16 = a"
    and "(a mod 4 * 16 + b div 16) mod 16 * 16 + (b mod 16 * 4 + c div 64) div 4 = b"
    and "(b mod 16 * 4 + c div 64) mod 4 * 64 + c mod 64 = c"
proof -
  have "b div 16 < 16" "c div 64 < 4" using assms by simp_all
  then have "(a mod 4 * 16 + b div 16) div 16 = a mod 4" "(a mod 4 * 16 + b div 16) mod 16 = b div 16"
    "(b mod 16 * 4 + c div 64) div 4 = b mod 16" "(b mod 16 * 4 + c div 64) mod 4 = c div 64"
    by simp_all
  then show "a div 4 * 4 + (a mod 4 * 16 + b div 16) div 16 = a"
    "(a mod 4 * 16 + b div 16) mod 16 * 16 + (b mod 16 * 4 + c div 64) div 4 = b"
    "(b mod 16 * 4 + c div 64) mod 4 * 64 + c mod 64 = c"
    by (simp_all only: div_mult_mod_eq)
qed

lemma b64_bytes_codes: "\<forall>b \<in> set s. b < 256 \<Longrightarrow> b64_bytes (b64_codes s) = s"
proof (induction s rule: b64_codes.induct)
  case (2 a)
  then show ?case using six_bits(1)[of 0 0 a] by simp
next
  case (3 a b)
  then show ?case using six_bits(1)[of b 0 a] six_bits(2)[of b 0 a] by simp
next
  case (4 a b c s)
  then show ?case using six_bits(1)[of b c a] six_bits(2)[of b c a] six_bits(3)[of b c] by simp
qed simp

lemma length_b64_codes: "length (b64_codes s) = (4 * length s + 2) div 3"
  by (induction s rule: b64_codes.induct) simp_all

lemma length_b64_bytes: "length (b64_bytes xs) = length xs * 6 div 8"
  by (induction xs rule: b64_bytes.induct) simp_all

definition b64_space :: "char set" where
  "b64_space = {CHR '' '', CHR 0x09, CHR 0x0A, CHR 0x0C, CHR 0x0D}"

lemma alphabet_facts: "set b64_alphabet \<inter> b64_space = {}" "CHR ''='' \<notin> set b64_alphabet" "CHR ''&'' \<notin> set b64_alphabet"
    "CHR ''%'' \<notin> set b64_alphabet" "CHR '' '' \<notin> set b64_alphabet" "CHR ''+'' \<in> set b64_alphabet" "CHR ''?'' \<notin> set b64_alphabet"
  by (simp_all add: b64_alphabet_def b64_space_def)

text \<open>The code of a text: the characters of its codes, and the padding.\<close>

definition b64_body :: "string \<Rightarrow> string" where
  "b64_body s = map b64_char (b64_codes (map of_char s))"

lemma bytes_bound: "\<forall>b \<in> set (map of_char (s :: string)). (b :: nat) < 256"
  by auto

lemma b64_body_alphabet: "set (b64_body s) \<subseteq> set b64_alphabet"
  using b64_codes_bound[OF bytes_bound[of s]] b64_char_in by (auto simp: b64_body_def)

lemma length_b64_body: "length (b64_body s) = (4 * length s + 2) div 3"
  by (simp add: b64_body_def length_b64_codes)

lemma b64_body_decodes: "map char_of (b64_bytes (map b64_index (b64_body s))) = s"
proof -
  have "map b64_index (b64_body s) = b64_codes (map of_char s)"
    using b64_codes_bound[OF bytes_bound[of s]] by (simp add: b64_body_def map_idI b64_index_char)
  then show ?thesis using b64_bytes_codes[OF bytes_bound[of s]] by (simp add: map_idI)
qed

lemma btoa_body: "btoa s = b64_body s @ replicate ((3 - length s mod 3) mod 3) (CHR ''='')"
  by (simp add: btoa_def b64_body_def)

text \<open>What \<open>atob\<close> keeps of a text, when it accepts it: its characters of the alphabet.\<close>

lemma ends_with_append: "ends_with p t \<Longrightarrow> t = take (length t - length p) t @ p"
  unfolding ends_with_def by (metis append_take_drop_id)

lemma strip_padding_filter: "filter (\<lambda>c. c \<in> set b64_alphabet) (strip_padding t) = filter (\<lambda>c. c \<in> set b64_alphabet) t"
proof -
  have cut: "filter (\<lambda>c. c \<in> set b64_alphabet) (take (length t - length p) t) = filter (\<lambda>c. c \<in> set b64_alphabet) t"
    if "ends_with p t" "set p \<subseteq> {CHR ''=''}" for p
  proof -
    have "filter (\<lambda>c. c \<in> set b64_alphabet) p = []"
      using that(2) alphabet_facts(2) by (auto simp: filter_empty_conv)
    then have "filter (\<lambda>c. c \<in> set b64_alphabet) (take (length t - length p) t @ p) =
        filter (\<lambda>c. c \<in> set b64_alphabet) (take (length t - length p) t)"
      by (simp only: filter_append append_Nil2)
    then show ?thesis using ends_with_append[OF that(1)] by metis
  qed
  from cut[of "''==''"] cut[of "''=''"] show ?thesis by (simp add: strip_padding_def numeral_2_eq_2)
qed

lemma atob_filter: "atob t = (let u = strip_padding (filter (\<lambda>c. c \<notin> b64_space) t) in
     if length u mod 4 = 1 \<or> \<not> set u \<subseteq> set b64_alphabet then None
     else Some (map char_of (b64_bytes (map b64_index u))))"
  unfolding atob_def b64_space_def Let_def list_all_iff subset_code(1) by (rule refl)

lemma atob_Some:
  assumes "atob t = Some s"
  shows "s = map char_of (b64_bytes (map b64_index (filter (\<lambda>c. c \<in> set b64_alphabet) t)))"
proof -
  define u where "u = strip_padding (filter (\<lambda>c. c \<notin> b64_space) t)"
  have sub: "set u \<subseteq> set b64_alphabet" and s: "s = map char_of (b64_bytes (map b64_index u))"
    using assms unfolding atob_filter Let_def u_def[symmetric] by (simp_all split: if_splits)
  have "u = filter (\<lambda>c. c \<in> set b64_alphabet) u" using sub by (intro filter_True[symmetric]) blast
  also have "\<dots> = filter (\<lambda>c. c \<in> set b64_alphabet) (filter (\<lambda>c. c \<notin> b64_space) t)"
    unfolding u_def by (rule strip_padding_filter)
  also have "\<dots> = filter (\<lambda>c. c \<in> set b64_alphabet) t"
    unfolding filter_filter by (rule filter_cong[OF refl]) (use alphabet_facts(1) in blast)
  finally show ?thesis using s by simp
qed

lemma length_btoa: "length (btoa s) mod 4 = 0"
proof -
  have l: "length (btoa s) = (4 * length s + 2) div 3 + (3 - length s mod 3) mod 3"
    by (simp add: btoa_body length_b64_body)
  define k where "k = length s div 3"
  have n: "length s = 3 * k + length s mod 3" by (simp add: k_def)
  consider "length s mod 3 = 0" | "length s mod 3 = 1" | "length s mod 3 = 2" by linarith
  then show ?thesis
  proof cases
    case 1
    then have "length (btoa s) = 4 * k" using l n by simp
    then show ?thesis by simp
  next
    case 2
    then have "length (btoa s) = 4 * k + 4" using l n by simp
    then show ?thesis by simp
  next
    case 3
    then have "length (btoa s) = 4 * k + 4" using l n by simp
    then show ?thesis by simp
  qed
qed

lemma ends_with_snoc [simp]: "ends_with (p @ [c]) (t @ [d]) \<longleftrightarrow> c = d \<and> ends_with p t"
  unfolding ends_with_def by auto

lemma strip_padding_btoa: "strip_padding (btoa s) = b64_body s"
proof -
  have body: "\<not> ends_with ''=='' (b64_body s)" "\<not> ends_with ''='' (b64_body s)"
    using ends_with_append[of "''==''" "b64_body s"] ends_with_append[of "''=''" "b64_body s"]
      b64_body_alphabet[of s] alphabet_facts(2) by (metis UnI2 list.set_intros(1) set_append subset_iff)+
  have one: "\<not> ends_with ''=='' (b64_body s @ ''='')"
    using ends_with_snoc[of "''=''" "CHR ''=''" "b64_body s" "CHR ''=''"] body(2) by simp
  have ends: "ends_with q (t @ q)" for q t :: string by (simp add: ends_with_def)
  consider "length s mod 3 = 0" | "length s mod 3 = 1" | "length s mod 3 = 2" by linarith
  then show ?thesis
  proof cases
    case 1
    then show ?thesis using body length_btoa[of s] by (simp add: btoa_body strip_padding_def)
  next
    case 2
    then have "btoa s = b64_body s @ ''==''" by (simp add: btoa_body numeral_2_eq_2)
    then show ?thesis using ends[of "''==''" "b64_body s"] length_btoa[of s] by (simp add: strip_padding_def)
  next
    case 3
    then have "btoa s = b64_body s @ ''=''" by (simp add: btoa_body)
    then show ?thesis using ends[of "''=''" "b64_body s"] one length_btoa[of s] by (simp add: strip_padding_def)
  qed
qed

lemma atob_btoa: "atob (btoa s) = Some s"
proof -
  have sub: "set (btoa s) \<inter> b64_space = {}"
    using b64_body_alphabet[of s] alphabet_facts(1) by (auto simp: btoa_body b64_space_def)
  have len: "length (b64_body s) mod 4 \<noteq> 1"
  proof -
    define k where "k = length s div 3"
    have n: "length s = 3 * k + length s mod 3" by (simp add: k_def)
    consider "length s mod 3 = 0" | "length s mod 3 = 1" | "length s mod 3 = 2" by linarith
    then show ?thesis
    proof cases
      case 1
      then have "length (b64_body s) = 4 * k" using n by (simp add: length_b64_body)
      then show ?thesis by simp
    next
      case 2
      then have "length (b64_body s) = 4 * k + 2" using n by (simp add: length_b64_body)
      then show ?thesis by presburger
    next
      case 3
      then have "length (b64_body s) = 4 * k + 3" using n by (simp add: length_b64_body)
      then show ?thesis by presburger
    qed
  qed
  have "filter (\<lambda>c. c \<notin> b64_space) (btoa s) = btoa s" using sub by (intro filter_True) blast
  then show ?thesis
    unfolding atob_filter Let_def using len b64_body_alphabet[of s]
    by (simp add: strip_padding_btoa b64_body_decodes)
qed

text \<open>In the query a plus sign is read as a space, and \<open>atob\<close> drops the space.\<close>

definition plus_to_space :: "string \<Rightarrow> string" where
  "plus_to_space = map (\<lambda>c. if c = CHR ''+'' then CHR '' '' else c)"

lemma query_decode_plus: "CHR ''%'' \<notin> set t \<Longrightarrow> query_decode t = plus_to_space t"
  by (induction t) (auto simp: plus_to_space_def)

lemma btoa_chars: "set (btoa s) \<subseteq> insert (CHR ''='') (set b64_alphabet)"
  using b64_body_alphabet[of s] by (auto simp: btoa_body)

lemma btoa_Nil: "btoa s = [] \<longleftrightarrow> s = []"
proof
  assume "btoa s = []"
  then have "(4 * length s + 2) div 3 = 0" using length_b64_body[of s] by (simp add: btoa_body)
  then show "s = []" by (cases s) simp_all
qed (simp add: btoa_def)

lemma search_param_job:
  assumes "page \<in> {''preview'', ''confirm''}"
  shows "search_param ''job'' (''/dashboard/jobs/new/'' @ page @ ''?job='' @ btoa s) = Some (plus_to_space (btoa s))"
proof -
  have "CHR ''&'' \<notin> set (''job='' @ btoa s)" "CHR ''%'' \<notin> set (btoa s)"
    using btoa_chars[of s] alphabet_facts by auto
  moreover from this have "split_on (CHR ''&'') (''job='' @ btoa s) = [''job='' @ btoa s]"
    by (intro split_on_single)
  ultimately show ?thesis using assms
    by (elim insertE emptyE) (simp_all add: search_param_def split_pair_def query_decode_plus)
qed

lemma job_text_eq:
  assumes "page \<in> {''preview'', ''confirm''}" "s \<noteq> []"
  shows "job_text (''/dashboard/jobs/new/'' @ page @ ''?job='' @ btoa s) = atob (plus_to_space (btoa s))"
  unfolding job_text_def search_param_job[OF assms(1)] using assms(2) by (simp add: btoa_Nil plus_to_space_def)

lemma atob_plus_shorter:
  assumes "CHR ''+'' \<in> set (btoa s)" "atob (plus_to_space (btoa s)) = Some t"
  shows "length t < length s"
proof -
  let ?f = "filter (\<lambda>c. c \<in> set b64_alphabet)"
  have t: "length t = length (?f (plus_to_space (btoa s))) * 6 div 8"
    using atob_Some[OF assms(2)] length_b64_bytes[of "map b64_index (?f (plus_to_space (btoa s)))"] by simp
  have "?f (plus_to_space (btoa s)) = ?f (plus_to_space (b64_body s))"
    using alphabet_facts(2) by (simp add: btoa_body plus_to_space_def)
  also have "length \<dots> < length (plus_to_space (b64_body s))"
  proof (rule length_filter_less[where x = "CHR '' ''"])
    have "CHR ''+'' \<in> set (b64_body s)" using assms(1) by (auto simp: btoa_body)
    then show "CHR '' '' \<in> set (plus_to_space (b64_body s))" by (force simp: plus_to_space_def)
  qed (rule alphabet_facts(5))
  finally have "length (?f (plus_to_space (btoa s))) < (4 * length s + 2) div 3"
    by (simp add: plus_to_space_def length_b64_body)
  then show ?thesis unfolding t by linarith
qed

lemma job_urls:
  assumes "url \<in> {preview_url stringify f, confirm_url stringify f}" "stringify f \<noteq> []"
  shows "job_text url = atob (plus_to_space (btoa (stringify f)))"
  using assms(1) job_text_eq[of "''preview''", OF _ assms(2)] job_text_eq[of "''confirm''", OF _ assms(2)]
  by (auto simp: preview_url_def confirm_url_def)

lemma goToPreview_url:
  "goToPreview (\<lambda>f. btoa (stringify f)) w = Some url \<Longrightarrow> url = preview_url stringify (form w)"
  by (auto simp: goToPreview_def preview_url_def split: if_splits)


text \<open>A parameter ending in \<open>1>\<close> is enough for a plus sign; the stand-in for the JSON text is short on purpose.\<close>

definition json_of :: "job_form \<Rightarrow> string" where
  "json_of f = ''{'' @ parameters f @ ''}''"

definition json_to :: "string \<Rightarrow> job_form option" where
  "json_to s = (if 2 \<le> length s then Some (job_form_defaults\<lparr>parameters := butlast (tl s)\<rparr>) else None)"


end
