(* ===== verification/AccountActions.thy ===== *)
theory AccountActions
  imports WalletLink Validation
begin

text \<open>
  Signing in and the first steps of an account: the store of \<open>stores/auth-store.ts\<close>, the actions of
  \<open>useAuth\<close> (\<open>hooks/use-auth.ts\<close>), the login and signup pages, the OAuth callback page
  \<open>app/auth/callback/page.tsx\<close> and the onboarding of \<open>app/onboarding/page.tsx\<close>. The answers of the
  authentication service and of the database are arguments; what a handler does to the outside is
  a list of effects.
\<close>

section \<open>The auth store and the actions of the hook\<close>

record auth_store =
  as_userType :: "string option"
  as_error :: "string option"

definition auth_store_init :: auth_store where
  "auth_store_init = \<lparr>as_userType = None, as_error = None\<rparr>"

definition setUserType :: "string \<Rightarrow> auth_store \<Rightarrow> auth_store" where
  [handler_defs]: "setUserType t s = s\<lparr>as_userType := Some t\<rparr>"

definition setError :: "string option \<Rightarrow> auth_store \<Rightarrow> auth_store" where
  [handler_defs]: "setError e s = s\<lparr>as_error := e\<rparr>"

definition store_clearError :: "auth_store \<Rightarrow> auth_store" where
  [handler_defs]: "store_clearError s = s\<lparr>as_error := None\<rparr>"

text \<open>What is stored, and the state after a reload.\<close>

definition auth_partialize :: "auth_store \<Rightarrow> string option" where
  "auth_partialize s = as_userType s"

definition auth_rehydrate :: "string option \<Rightarrow> auth_store" where
  "auth_rehydrate t = auth_store_init\<lparr>as_userType := t\<rparr>"

definition loginWithPassword :: "(string \<Rightarrow> string \<Rightarrow> string option) \<Rightarrow> string \<Rightarrow> string \<Rightarrow> string option" where
  "loginWithPassword signIn mail password = signIn mail password"

text \<open>The state a component with \<open>useAuth\<close> sees: its own error and the store.\<close>

record auth_view =
  localError :: "string option"
  av_store :: auth_store

definition auth_view_init :: auth_view where
  "auth_view_init = \<lparr>localError = None, av_store = auth_store_init\<rparr>"

text \<open>An action up to its first \<open>await\<close>, and what it does when the service has answered.\<close>

definition begin_login :: "auth_view \<Rightarrow> auth_view" where
  [handler_defs]: "begin_login v = v\<lparr>av_store := store_clearError (av_store v)\<rparr>"

definition finish_login :: "string option \<Rightarrow> auth_view \<Rightarrow> auth_view" where
  [handler_defs]: "finish_login err v =
     (case err of None \<Rightarrow> v
      | Some e \<Rightarrow> v\<lparr>localError := Some e, av_store := setError (Some e) (av_store v)\<rparr>)"

definition login :: "(string \<Rightarrow> string \<Rightarrow> string option) \<Rightarrow> string \<Rightarrow> string \<Rightarrow> auth_view \<Rightarrow> auth_view" where
  "login signIn mail password v = finish_login (signIn mail password) (begin_login v)"

definition clearError :: "auth_view \<Rightarrow> auth_view" where
  [handler_defs]: "clearError v = v\<lparr>localError := None, av_store := store_clearError (av_store v)\<rparr>"

datatype account_effect = SignOutService | GoTo string | SetUserType string
  | UpdateProfile "(string \<times> jsval) list" string | InsertKey "(string \<times> jsval) list"

definition logout :: "account_effect list" where
  "logout = [SignOutService, GoTo ''/'']"

datatype auth_action = LoginBegins | LoginEnds "string option" | ClearError

fun auth_action_step :: "auth_action \<Rightarrow> auth_view \<Rightarrow> auth_view" where
  "auth_action_step LoginBegins v = begin_login v"
| "auth_action_step (LoginEnds e) v = finish_login e v"
| "auth_action_step ClearError v = clearError v"

section \<open>The login and signup pages\<close>

definition loginSchema :: schema where
  "loginSchema = ZObject [(''email'', ZString [SEmail]), (''password'', ZString [SMin 6])]"

definition login_onSubmit :: "(string \<Rightarrow> string \<Rightarrow> string option) \<Rightarrow> string \<Rightarrow> string \<Rightarrow> auth_view \<Rightarrow> auth_view" where
  "login_onSubmit signIn mail password v = login signIn mail password v"

text \<open>The signup form calls the same action: it signs in, with the e-mail and password entered.\<close>

definition signup_onSubmit ::
  "(string \<Rightarrow> string \<Rightarrow> string option) \<Rightarrow> string \<Rightarrow> string \<Rightarrow> string \<Rightarrow> auth_view \<Rightarrow> auth_view" where
  "signup_onSubmit signIn fullname mail password v = login signIn mail password v"

definition signup_effect :: "auth_ctx \<Rightarrow> string option" where
  "signup_effect c = (if isAuthenticated c then Some ''/dashboard'' else None)"

datatype oauth_provider = GitHub | Google | Discord

text \<open>
  \<open>signInWithOAuth\<close> resolves with an error or without; it throws only when the request itself cannot
  be made. \<open>oauthLoading\<close> is the provider whose button shows the spinner and disables all three.
\<close>

datatype oauth_result = OAuthResolved "string option" | OAuthThrew

definition oauth_redirectTo :: "string \<Rightarrow> string" where
  "oauth_redirectTo origin = origin @ ''/auth/callback''"

definition handleOAuthSignIn :: "oauth_provider \<Rightarrow> oauth_result \<Rightarrow> oauth_provider option \<Rightarrow> oauth_provider option" where
  "handleOAuthSignIn p r loading = (case r of OAuthResolved e \<Rightarrow> Some p | OAuthThrew \<Rightarrow> None)"

definition oauth_disabled :: "bool \<Rightarrow> oauth_provider option \<Rightarrow> bool" where
  "oauth_disabled is_loading loading \<longleftrightarrow> is_loading \<or> loading \<noteq> None"

section \<open>The OAuth callback\<close>

text \<open>The session query: an error message, or a session, or none; the status query: the row, if any
  (its error is not looked at). A status row has the type and whether onboarding is completed.\<close>

datatype session_answer = SessionError string | SessionOf "sb_user option" | SessionThrew

record onboarding_status =
  os_user_type :: "string option"
  onboarding_completed :: "bool option"

datatype status_answer = StatusRow onboarding_status | StatusMissing | StatusThrew

definition type_effects :: "string option \<Rightarrow> account_effect list" where
  "type_effects t = (if truthy_str t then [SetUserType (the t)] else [])"

definition handleCallback ::
  "(sb_user \<Rightarrow> string option) \<Rightarrow> session_answer \<Rightarrow> status_answer \<Rightarrow> account_effect list \<times> string option" where
  "handleCallback meta_type session status =
     (case session of
        SessionThrew \<Rightarrow> ([], Some ''An unexpected error occurred'')
      | SessionError e \<Rightarrow> ([], Some e)
      | SessionOf None \<Rightarrow> ([], Some ''No session found after OAuth callback'')
      | SessionOf (Some u) \<Rightarrow>
          (case status of
             StatusThrew \<Rightarrow> (type_effects (meta_type u), Some ''An unexpected error occurred'')
           | _ \<Rightarrow>
               let row = (case status of StatusRow r \<Rightarrow> Some r | _ \<Rightarrow> None);
                   completed = or_else (Option.bind row onboarding_completed) False;
                   t = Option.bind row os_user_type
               in (type_effects (meta_type u) @ type_effects t @
                   [GoTo (if completed then ''/dashboard'' else ''/onboarding'')], None)))"

section \<open>Onboarding\<close>

datatype role_choice = ClientRole | ProviderRole

record onboarding =
  ob_step :: nat
  ob_role :: "role_choice option"
  apiKey :: "string option"
  apiKeyName :: string
  walletLinked :: bool
  walletAddress :: "string option"
  isGenerating :: bool
  ob_isLinking :: bool
  ob_copied :: bool
  isCompleting :: bool

definition onboarding_init :: onboarding where
  "onboarding_init = \<lparr>ob_step = 0, ob_role = None, apiKey = None, apiKeyName = '''', walletLinked = False,
     walletAddress = None, isGenerating = False, ob_isLinking = False, ob_copied = False, isCompleting = False\<rparr>"

definition ob_canProceed :: "onboarding \<Rightarrow> bool" where
  "ob_canProceed o' = (if ob_step o' = 0 then ob_role o' \<noteq> None else True)"

fun role_choice_str :: "role_choice \<Rightarrow> string" where
  "role_choice_str ClientRole = ''client''"
| "role_choice_str ProviderRole = ''provider''"

text \<open>\<open>handleComplete\<close>: the update's error, if any, is part of its result and not looked at; only a
  thrown exception keeps the user on the page.\<close>

definition handleComplete :: "string option \<Rightarrow> bool \<Rightarrow> onboarding \<Rightarrow> onboarding \<times> account_effect list" where
  "handleComplete user threw o' =
     (case user of None \<Rightarrow> (o', [])
      | Some u \<Rightarrow>
          let upd = UpdateProfile [(''user_type'', case ob_role o' of None \<Rightarrow> Null | Some r \<Rightarrow> Str (role_choice_str r)),
                (''onboarding_completed'', Bool True)] u
          in if threw then (o'\<lparr>isCompleting := False\<rparr>, [upd])
             else (o'\<lparr>isCompleting := True\<rparr>, [upd, GoTo ''/dashboard'']))"

text \<open>The Continue button of the shell, which is disabled unless \<open>canProceed\<close>.\<close>

definition onNext :: "string option \<Rightarrow> bool \<Rightarrow> onboarding \<Rightarrow> onboarding \<times> account_effect list" where
  "onNext user threw o' =
     (if \<not> ob_canProceed o' then (o', [])
      else if ob_step o' = 0 \<and> ob_role o' = Some ProviderRole then
        (o', [GoTo ''http://nodes.tentrist.ai/onboarding''])
      else if ob_step o' < 2 then (o'\<lparr>ob_step := ob_step o' + 1\<rparr>, [])
      else handleComplete user threw o')"

text \<open>\<open>raw\<close> are the 32 random characters and \<open>sha\<close> the hash of their text, in hexadecimal digits.\<close>

definition handleGenerateKey ::
  "(string \<Rightarrow> string) \<Rightarrow> string \<Rightarrow> string option \<Rightarrow> bool \<Rightarrow> onboarding \<Rightarrow> onboarding \<times> account_effect list" where
  "handleGenerateKey sha raw user insert_ok o' =
     (case user of None \<Rightarrow> (o', [])
      | Some u \<Rightarrow>
          let prefix = to_upper (slice_first 8 raw)
          in ((if insert_ok then o'\<lparr>apiKey := Some (prefix @ ''_'' @ raw), isGenerating := False\<rparr>
               else o'\<lparr>isGenerating := False\<rparr>),
              [InsertKey [(''user_id'', Str u),
                 (''name'', Str (if apiKeyName o' \<noteq> '''' then apiKeyName o' else ''Default'')),
                 (''key_hash'', Str (sha raw)), (''key_prefix'', Str prefix)]]))"

text \<open>\<open>handleLinkWallet\<close> asks the server for a challenge and answers it with a random address and a
  random signature (\<open>addr\<close>, \<open>sig\<close>: hexadecimal digits).\<close>

definition handleLinkWallet ::
  "(jsval \<Rightarrow> 's \<Rightarrow> fetch_result \<times> 's) \<Rightarrow> (jsval \<Rightarrow> 's \<Rightarrow> fetch_result \<times> 's) \<Rightarrow> string \<Rightarrow> string \<Rightarrow>
   string option \<Rightarrow> onboarding \<times> 's \<Rightarrow> onboarding \<times> 's" where
  "handleLinkWallet challenge verify addr sig user os = (case os of (o', s) \<Rightarrow>
     (case user of None \<Rightarrow> (o', s)
      | Some u \<Rightarrow>
          (case challenge (Obj [(''user_id'', Str u)]) s of (r, s') \<Rightarrow>
             if \<not> res_ok r \<or> res_json r = None \<or> nullish (the (res_json r)) then (o'\<lparr>ob_isLinking := False\<rparr>, s')
             else
               (case verify (Obj [(''user_id'', Str u), (''nonce'', field ''nonce'' (the (res_json r))),
                    (''wallet_address'', Str (''0x'' @ addr)), (''signature'', Str (''0x'' @ sig))]) s' of (v, s'') \<Rightarrow>
                  ((if res_ok v then o'\<lparr>walletLinked := True, walletAddress := Some (''0x'' @ addr), ob_isLinking := False\<rparr>
                    else o'\<lparr>ob_isLinking := False\<rparr>), s'')))))"

datatype onboarding_event =
    ChooseRole role_choice
  | Next "string option" bool
  | TypeKeyName string
  | GenerateKey string "string option" bool
  | CopyKey | CopyExpires
  | LinkWallet bool string

text \<open>The events of the page, each enabled on the step that renders its control.\<close>

fun onboarding_step :: "(string \<Rightarrow> string) \<Rightarrow> onboarding_event \<Rightarrow> onboarding \<times> account_effect list \<Rightarrow> onboarding \<times> account_effect list" where
  "onboarding_step sha (ChooseRole r) (o', fx) = (if ob_step o' = 0 then (o'\<lparr>ob_role := Some r\<rparr>, fx) else (o', fx))"
| "onboarding_step sha (Next user threw) (o', fx) = (case onNext user threw o' of (p, new) \<Rightarrow> (p, fx @ new))"
| "onboarding_step sha (TypeKeyName n) (o', fx) =
     (if ob_step o' = 1 \<and> apiKey o' = None then (o'\<lparr>apiKeyName := n\<rparr>, fx) else (o', fx))"
| "onboarding_step sha (GenerateKey raw user ins) (o', fx) =
     (if ob_step o' = 1 \<and> apiKey o' = None
      then (case handleGenerateKey sha raw user ins o' of (p, new) \<Rightarrow> (p, fx @ new)) else (o', fx))"
| "onboarding_step sha CopyKey (o', fx) = (if apiKey o' \<noteq> None then (o'\<lparr>ob_copied := True\<rparr>, fx) else (o', fx))"
| "onboarding_step sha CopyExpires (o', fx) = (o'\<lparr>ob_copied := False\<rparr>, fx)"
| "onboarding_step sha (LinkWallet ok addr) (o', fx) =
     (if ob_step o' = 2 \<and> \<not> walletLinked o' \<and> ok
      then (o'\<lparr>walletLinked := True, walletAddress := Some addr\<rparr>, fx) else (o', fx))"

section \<open>Lemmas\<close>

text \<open>The error a component shows survives a successful attempt; only the store's copy is cleared.\<close>

lemma error_survives_success:
  "localError (login (\<lambda>_ _. None) m p (login (\<lambda>_ _. Some e) m p v)) = Some e"
  "as_error (av_store (login (\<lambda>_ _. None) m p (login (\<lambda>_ _. Some e) m p v))) = None"
  by (simp_all add: login_def handler_defs)

lemma oauth_error_keeps_disabled: "oauth_disabled l (handleOAuthSignIn p (OAuthResolved (Some e)) loading)"
  by (simp add: oauth_disabled_def handleOAuthSignIn_def)

definition client_update :: "(string \<times> jsval) list" where
  "client_update = [(''user_type'', Str ''client''), (''onboarding_completed'', Bool True)]"

definition key_row_ok :: "(string \<Rightarrow> string) \<Rightarrow> (string \<times> jsval) list \<Rightarrow> bool" where
  "key_row_ok sha row \<longleftrightarrow> (\<exists>raw. map_of row ''key_hash'' = Some (Str (sha raw)) \<and>
     map_of row ''key_prefix'' = Some (Str (to_upper (slice_first 8 raw))) \<and>
     map_of row ''name'' \<noteq> Some (Str ''''))"

definition effect_ok :: "(string \<Rightarrow> string) \<Rightarrow> account_effect \<Rightarrow> bool" where
  "effect_ok sha e = (case e of UpdateProfile row u \<Rightarrow> row = client_update | InsertKey row \<Rightarrow> key_row_ok sha row | _ \<Rightarrow> True)"

definition is_update :: "account_effect \<Rightarrow> bool" where
  "is_update e = (case e of UpdateProfile row u \<Rightarrow> True | _ \<Rightarrow> False)"

definition onboarding_inv :: "(string \<Rightarrow> string) \<Rightarrow> onboarding \<times> account_effect list \<Rightarrow> bool" where
  "onboarding_inv sha s = (case s of (o', fx) \<Rightarrow>
     ob_step o' \<le> 2 \<and> (0 < ob_step o' \<longrightarrow> ob_role o' = Some ClientRole) \<and>
     (ob_step o' < 2 \<longrightarrow> list_all (\<lambda>e. \<not> is_update e \<and> e \<noteq> GoTo ''/dashboard'') fx) \<and>
     list_all (effect_ok sha) fx \<and> (GoTo ''/dashboard'' \<in> set fx \<longrightarrow> list_ex is_update fx))"

lemma handleComplete_effects:
  assumes "handleComplete user threw o' = (p, new)" "ob_role o' = Some ClientRole"
  shows "ob_step p = ob_step o' \<and> ob_role p = ob_role o' \<and> list_all (effect_ok sha) new \<and>
    (new \<noteq> [] \<longrightarrow> list_ex is_update new)"
  using assms
  by (auto simp: handleComplete_def effect_ok_def client_update_def is_update_def Let_def split: option.splits if_splits)

lemma onNext_inv:
  assumes inv: "onboarding_inv sha (o', fx)" and nxt: "onNext user threw o' = (p, new)"
  shows "onboarding_inv sha (p, fx @ new)"
proof (cases "ob_step o' < 2")
  case True
  with nxt inv show ?thesis
    by (auto simp: onNext_def onboarding_inv_def effect_ok_def is_update_def ob_canProceed_def split: if_splits)
      (metis role_choice.exhaust)+
next
  case False
  with inv have step: "ob_step o' = 2" and role: "ob_role o' = Some ClientRole"
    by (auto simp: onboarding_inv_def)
  with nxt have "handleComplete user threw o' = (p, new)"
    by (simp add: onNext_def ob_canProceed_def)
  from handleComplete_effects[OF this role, of sha] inv step role show ?thesis
    by (auto simp: onboarding_inv_def)
qed

lemma generate_inv:
  assumes "onboarding_inv sha (o', fx)" "handleGenerateKey sha raw user ins o' = (p, new)" "ob_step o' = 1"
  shows "onboarding_inv sha (p, fx @ new)"
  using assms
  by (auto simp: onboarding_inv_def handleGenerateKey_def effect_ok_def key_row_ok_def is_update_def Let_def
      split: option.splits if_splits)

interpretation onboarding: state_machine "onboarding_step sha" "onboarding_inv sha" "(onboarding_init, [])"
proof
  show "onboarding_inv sha (onboarding_init, [])"
    by (simp add: onboarding_inv_def onboarding_init_def)
  show "onboarding_inv sha (onboarding_step sha e s)" if inv: "onboarding_inv sha s" for e s
  proof (cases s)
    case (Pair o' fx)
    show ?thesis
    proof (cases e)
      case (Next user threw)
      with inv Pair onNext_inv[of sha o' fx user threw] show ?thesis
        by (auto split: prod.split)
    next
      case (GenerateKey raw user ins)
      with inv Pair generate_inv[of sha o' fx raw user ins] show ?thesis
        by (auto split: prod.split)
    qed (use inv Pair in \<open>auto simp: onboarding_inv_def\<close>)
  qed
qed

section \<open>Properties\<close>



text \<open>Also: the callback page ends either with an error and no navigation, or without an error and with
  exactly one navigation, as the last thing it does; it opens the dashboard exactly when the status
  row says that onboarding is completed, so a failed status query sends the user to onboarding.\<close>

theorem callback_outcome:
  assumes "handleCallback meta_type session status = (fx, err)"
  shows "(err \<noteq> None \<longrightarrow> (\<forall>url. GoTo url \<notin> set fx)) \<and>
    (err = None \<longrightarrow> (\<exists>pre url. fx = pre @ [GoTo url] \<and> (\<forall>u. GoTo u \<notin> set pre) \<and>
       (url = ''/dashboard'' \<longleftrightarrow> (\<exists>r. status = StatusRow r \<and> onboarding_completed r = Some True)) \<and>
       url \<in> {''/dashboard'', ''/onboarding''}))"
proof -
  have types: "GoTo u \<notin> set (type_effects t)" for u t
    by (simp add: type_effects_def)
  show ?thesis
    using assms types
    by (auto simp: handleCallback_def Let_def or_else_def split: session_answer.splits option.splits
        status_answer.splits bind_splits if_splits)
qed

lemma callback_outcome_witness:
  "\<exists>fx. handleCallback (\<lambda>_. None) (SessionOf (Some u)) StatusMissing = (fx, None) \<and> (\<exists>pre. fx = pre @ [GoTo ''/onboarding''])"
proof -
  obtain fx where r: "handleCallback (\<lambda>_. None) (SessionOf (Some u)) StatusMissing = (fx, None)"
    by (simp add: handleCallback_def Let_def)
  from callback_outcome[OF r] r show ?thesis by auto
qed

text \<open>Also: connecting a wallet during onboarding never links one: its signature is made up and starts with
  \<open>0x\<close>, so the server refuses it; no wallet is linked and the page never shows one as linked.\<close>

theorem onboarding_wallet_never_linked:
  assumes "handleLinkWallet (GenerateChallenge t1 n) (VerifyAndLink recover fails t2) addr sig user (o', s) = (p, s')"
  shows "linked s' = linked s \<and> walletLinked p = walletLinked o' \<and> walletAddress p = walletAddress o'"
proof (cases user)
  case None
  with assms show ?thesis by (simp add: handleLinkWallet_def)
next
  case (Some u)
  obtain r s1 where c: "GenerateChallenge t1 n (Obj [(''user_id'', Str u)]) s = (r, s1)" by fastforce
  have s1: "linked s1 = linked s"
    using c by (auto simp: GenerateChallenge_def split: option.splits if_splits)
  let ?body = "Obj [(''user_id'', Str u), (''nonce'', field ''nonce'' (the (res_json r))),
    (''wallet_address'', Str (''0x'' @ addr)), (''signature'', Str (''0x'' @ sig))]"
  obtain v s2 where v: "VerifyAndLink recover fails t2 ?body s1 = (v, s2)" by fastforce
  have "\<not> res_ok v \<and> linked s2 = linked s1"
    by (rule prefixed_not_verified[OF v]) simp
  with assms Some c v s1 show ?thesis
    by (auto simp: handleLinkWallet_def split: if_splits)
qed

lemma onboarding_wallet_never_linked_witness:
  "\<exists>p s'. handleLinkWallet (GenerateChallenge 0 (Some ''ab'')) (VerifyAndLink sample_recover False 1) (drop 2 sample_wallet)
      ''00'' (Some ''u'') (onboarding_init, link_server_init) = (p, s') \<and> linked s' = [] \<and> \<not> walletLinked p"
proof -
  obtain p s' where r: "handleLinkWallet (GenerateChallenge 0 (Some ''ab'')) (VerifyAndLink sample_recover False 1)
      (drop 2 sample_wallet) ''00'' (Some ''u'') (onboarding_init, link_server_init) = (p, s')" by fastforce
  from onboarding_wallet_never_linked[OF r] r show ?thesis
    by (auto simp: link_server_init_def onboarding_init_def)
qed

end
