(* ===== verification/AuthPages.thy ===== *)
theory AuthPages
  imports AccountActions
begin

text \<open>
  The login page, the signup page (\<open>app/(auth)/login/page.tsx\<close>, \<open>app/(auth)/signup/page.tsx\<close>) and the card that links
  a wallet (\<open>components/wallet/link-wallet.tsx\<close>): the state of the forms, what their handlers ask of the
  authentication service and of the wallet, and what they show. The validation of a form is the form
  library's; it is a parameter that returns the messages by field, and the pages submit when there is none.
\<close>

section \<open>State and handlers\<close>

datatype auth_field = FName | FEmail | FPassword | FConfirm | FTerms

record auth_form =
  af_text :: "auth_field \<Rightarrow> string"
  af_terms :: bool

definition auth_form_init :: auth_form where
  "auth_form_init = \<lparr>af_text = (\<lambda>_. ''''), af_terms = False\<rparr>"

type_synonym field_errors = "auth_field \<Rightarrow> string option"

record auth_page =
  ap_form :: auth_form
  ap_errors :: field_errors
  isSubmitting :: bool
  showPassword :: bool
  showConfirmPassword :: bool
  oauthLoading :: "oauth_provider option"
  walletConnecting :: bool
  ap_auth :: auth_view
  ap_authenticated :: bool
  ap_sessionLoading :: bool

definition auth_page_init :: auth_page where
  "auth_page_init = \<lparr>ap_form = auth_form_init, ap_errors = (\<lambda>_. None), isSubmitting = False, showPassword = False,
     showConfirmPassword = False, oauthLoading = None, walletConnecting = False, ap_auth = auth_view_init,
     ap_authenticated = False, ap_sessionLoading = False\<rparr>"

text \<open>What a page asks of its surroundings.\<close>

datatype auth_call = PasswordSignIn string string | OAuthSignIn oauth_provider | RequestAccounts | WalletSignIn string
  | NoWalletAlert

text \<open>What happens on a page: the visitor's input, and the answers of the services.\<close>

datatype auth_page_event =
    TypeField auth_field string
  | TickTerms bool
  | TogglePassword
  | ToggleConfirm
  | SubmitForm
  | SignInAnswered "string option"
  | OAuthClicked oauth_provider
  | OAuthAnswered oauth_provider oauth_result
  | WalletClicked bool
  | AccountsAnswered "string list option"
  | WalletSignInEnded "string option"

definition no_errors :: "field_errors \<Rightarrow> bool" where
  "no_errors e \<longleftrightarrow> (\<forall>f \<in> {FName, FEmail, FPassword, FConfirm, FTerms}. e f = None)"

definition submit_form ::
  "(auth_form \<Rightarrow> field_errors) \<Rightarrow> auth_page \<Rightarrow> auth_page \<times> auth_call list" where
  "submit_form validate p =
     (let e = validate (ap_form p) in
      if isSubmitting p \<or> ap_sessionLoading p then (p, [])
      else if no_errors e then
        (p\<lparr>ap_errors := e, isSubmitting := True, ap_auth := begin_login (ap_auth p)\<rparr>,
         [PasswordSignIn (af_text (ap_form p) FEmail) (af_text (ap_form p) FPassword)])
      else (p\<lparr>ap_errors := e\<rparr>, []))"

definition oauth_click :: "oauth_provider \<Rightarrow> auth_page \<Rightarrow> auth_page \<times> auth_call list" where
  "oauth_click q p = (if oauth_disabled (ap_sessionLoading p) (oauthLoading p) then (p, [])
     else (p\<lparr>oauthLoading := Some q\<rparr>, [OAuthSignIn q]))"

text \<open>The handler of the wallet button of the login page, up to the accounts and after them.\<close>

definition handleWalletLogin :: "bool \<Rightarrow> auth_page \<Rightarrow> auth_page \<times> auth_call list" where
  "handleWalletLogin installed p =
     (if ap_sessionLoading p \<or> walletConnecting p then (p, [])
      else if \<not> installed then (p, [NoWalletAlert])
      else (p\<lparr>walletConnecting := True\<rparr>, [RequestAccounts]))"

definition accounts_answered :: "string list option \<Rightarrow> auth_page \<Rightarrow> auth_page \<times> auth_call list" where
  "accounts_answered r p = (case r of
     None \<Rightarrow> (p\<lparr>walletConnecting := False\<rparr>, [])
   | Some [] \<Rightarrow> (p\<lparr>walletConnecting := False\<rparr>, [])
   | Some (a # _) \<Rightarrow> (p\<lparr>ap_auth := begin_login (ap_auth p)\<rparr>, [WalletSignIn a]))"

text \<open>The events both pages share. A successful sign-in opens a session, which the context reports.\<close>

fun auth_page_step :: "(auth_form \<Rightarrow> field_errors) \<Rightarrow> auth_page_event \<Rightarrow> auth_page \<Rightarrow> auth_page \<times> auth_call list" where
  "auth_page_step validate (TypeField f v) p =
     (p\<lparr>ap_form := (ap_form p)\<lparr>af_text := (af_text (ap_form p))(f := v)\<rparr>\<rparr>, [])"
| "auth_page_step validate (TickTerms b) p = (p\<lparr>ap_form := (ap_form p)\<lparr>af_terms := b\<rparr>\<rparr>, [])"
| "auth_page_step validate TogglePassword p = (p\<lparr>showPassword := \<not> showPassword p\<rparr>, [])"
| "auth_page_step validate ToggleConfirm p = (p\<lparr>showConfirmPassword := \<not> showConfirmPassword p\<rparr>, [])"
| "auth_page_step validate SubmitForm p = submit_form validate p"
| "auth_page_step validate (SignInAnswered e) p =
     (p\<lparr>isSubmitting := False, ap_auth := finish_login e (ap_auth p), ap_authenticated := ap_authenticated p \<or> e = None\<rparr>, [])"
| "auth_page_step validate (OAuthClicked q) p = oauth_click q p"
| "auth_page_step validate (OAuthAnswered q r) p = (p\<lparr>oauthLoading := handleOAuthSignIn q r (oauthLoading p)\<rparr>, [])"
| "auth_page_step validate (WalletClicked installed) p = handleWalletLogin installed p"
| "auth_page_step validate (AccountsAnswered r) p = accounts_answered r p"
| "auth_page_step validate (WalletSignInEnded e) p =
     (p\<lparr>walletConnecting := False, ap_auth := finish_login e (ap_auth p)\<rparr>, [])"

text \<open>On the signup page the wallet button has no handler.\<close>

definition signup_step :: "(auth_form \<Rightarrow> field_errors) \<Rightarrow> auth_page_event \<Rightarrow> auth_page \<Rightarrow> auth_page \<times> auth_call list" where
  "signup_step validate e p = (case e of WalletClicked b \<Rightarrow> (p, []) | _ \<Rightarrow> auth_page_step validate e p)"

fun auth_run :: "(auth_page_event \<Rightarrow> auth_page \<Rightarrow> auth_page \<times> auth_call list) \<Rightarrow> auth_page_event list \<Rightarrow> auth_page \<Rightarrow>
    auth_page \<times> auth_call list" where
  "auth_run step [] p = (p, [])"
| "auth_run step (e # es) p = (case step e p of (p', cs) \<Rightarrow> case auth_run step es p' of (p'', cs') \<Rightarrow> (p'', cs @ cs'))"

section \<open>The schema of the signup form\<close>

text \<open>The checks in the order of the source with their messages; \<open>mail_ok\<close> is the library's test of an address.\<close>

definition has_char :: "char \<Rightarrow> char \<Rightarrow> string \<Rightarrow> bool" where
  "has_char lo hi s = list_ex (\<lambda>c. of_char lo \<le> (of_char c :: nat) \<and> of_char c \<le> (of_char hi :: nat)) s"

definition signupSchema :: "(string \<Rightarrow> bool) \<Rightarrow> (auth_field \<times> (auth_form \<Rightarrow> bool) \<times> string) list" where
  "signupSchema mail_ok =
     [(FName, \<lambda>d. 2 \<le> length (af_text d FName), ''Name must be at least 2 characters''),
      (FEmail, \<lambda>d. mail_ok (af_text d FEmail), ''Please enter a valid email address''),
      (FPassword, \<lambda>d. 8 \<le> length (af_text d FPassword), ''Password must be at least 8 characters''),
      (FPassword, \<lambda>d. has_char CHR ''A'' CHR ''Z'' (af_text d FPassword),
         ''Password must contain at least one uppercase letter''),
      (FPassword, \<lambda>d. has_char CHR ''a'' CHR ''z'' (af_text d FPassword),
         ''Password must contain at least one lowercase letter''),
      (FPassword, \<lambda>d. has_char CHR ''0'' CHR ''9'' (af_text d FPassword),
         ''Password must contain at least one number''),
      (FTerms, af_terms, ''You must agree to the terms and conditions''),
      (FConfirm, \<lambda>d. af_text d FPassword = af_text d FConfirm, ''Passwords don't match'')]"

text \<open>The documented behaviour of the form library with such a schema: no message is reported exactly when every check
  passes, and a reported message is the one of a check of its field that fails.\<close>

definition validates_signup :: "(string \<Rightarrow> bool) \<Rightarrow> (auth_form \<Rightarrow> field_errors) \<Rightarrow> bool" where
  "validates_signup mail_ok validate \<longleftrightarrow>
     (\<forall>d. no_errors (validate d) \<longleftrightarrow> (\<forall>(f, ok, msg) \<in> set (signupSchema mail_ok). ok d)) \<and>
     (\<forall>d f msg. validate d f = Some msg \<longrightarrow> (\<exists>ok. (f, ok, msg) \<in> set (signupSchema mail_ok) \<and> \<not> ok d))"

section \<open>What the pages show\<close>

record button_view =
  bt_label :: string
  bt_busy :: bool
  bt_disabled :: bool

definition oauth_button :: "auth_page \<Rightarrow> oauth_provider \<Rightarrow> button_view" where
  "oauth_button p q = \<lparr>bt_label = '''', bt_busy = (oauthLoading p = Some q),
     bt_disabled = oauth_disabled (ap_sessionLoading p) (oauthLoading p)\<rparr>"

definition oauth_buttons :: "auth_page \<Rightarrow> button_view list" where
  "oauth_buttons p = map (oauth_button p) [GitHub, Google, Discord]"

definition error_banner :: "auth_page \<Rightarrow> string option" where
  "error_banner p = (if truthy_str (localError (ap_auth p)) then localError (ap_auth p) else None)"

text \<open>A field: its label, the type of its input, and the message under it.\<close>

record field_view =
  fl_label :: string
  fl_type :: string
  fl_error :: "string option"

definition password_type :: "bool \<Rightarrow> string" where
  "password_type shown = (if shown then ''text'' else ''password'')"

definition email_field :: "auth_page \<Rightarrow> field_view" where
  "email_field p = \<lparr>fl_label = ''Email'', fl_type = ''email'', fl_error = ap_errors p FEmail\<rparr>"

definition password_field :: "auth_page \<Rightarrow> field_view" where
  "password_field p = \<lparr>fl_label = ''Password'', fl_type = password_type (showPassword p), fl_error = ap_errors p FPassword\<rparr>"

definition submit_button :: "string \<Rightarrow> string \<Rightarrow> auth_page \<Rightarrow> button_view" where
  "submit_button idle busy p = (let b = (isSubmitting p \<or> ap_sessionLoading p)
     in \<lparr>bt_label = (if b then busy else idle), bt_busy = b, bt_disabled = b\<rparr>)"

record auth_page_view =
  apv_error :: "string option"
  apv_oauth :: "button_view list"
  apv_fields :: "field_view list"
  apv_submit :: button_view
  apv_wallet :: button_view
  apv_links :: "string list"

definition login_view :: "auth_page \<Rightarrow> auth_page_view" where
  "login_view p = \<lparr>apv_error = error_banner p, apv_oauth = oauth_buttons p, apv_fields = [email_field p, password_field p],
     apv_submit = submit_button ''Sign in'' ''Signing in...'' p,
     apv_wallet = \<lparr>bt_label = (if walletConnecting p then ''Connecting...'' else ''Connect Wallet''),
       bt_busy = walletConnecting p, bt_disabled = ap_sessionLoading p \<or> walletConnecting p\<rparr>,
     apv_links = [''/'', ''/forgot-password'', ''/signup'']\<rparr>"

definition signup_fields :: "auth_page \<Rightarrow> field_view list" where
  "signup_fields p =
     [\<lparr>fl_label = ''Full Name'', fl_type = ''text'', fl_error = ap_errors p FName\<rparr>, email_field p, password_field p,
      \<lparr>fl_label = ''Confirm Password'', fl_type = password_type (showConfirmPassword p), fl_error = ap_errors p FConfirm\<rparr>,
      \<lparr>fl_label = ''I agree to the Terms of Service and Privacy Policy'', fl_type = ''checkbox'', fl_error = ap_errors p FTerms\<rparr>]"

definition signup_view :: "auth_page \<Rightarrow> auth_page_view" where
  "signup_view p = \<lparr>apv_error = error_banner p, apv_oauth = oauth_buttons p, apv_fields = signup_fields p,
     apv_submit = submit_button ''Create account'' ''Creating account...'' p,
     apv_wallet = \<lparr>bt_label = ''Connect Wallet'', bt_busy = False, bt_disabled = ap_sessionLoading p\<rparr>,
     apv_links = [''/'', ''/terms'', ''/privacy'', ''/login'']\<rparr>"

section \<open>The card that links a wallet\<close>

datatype link_card_action = ActionDisconnect | ActionConnect

datatype link_area = LinkedMessage string | LinkButton string bool

record link_card =
  lc_status :: "string list"
  lc_action :: link_card_action
  lc_area :: "link_area option"
  lc_error :: "string option"

definition short_wallet :: "string \<Rightarrow> string" where
  "short_wallet a = take 6 a @ ''...'' @ drop (length a - 4) a"

text \<open>Without a user the card asks to sign in. The message of an error is text when it is a string.\<close>

definition LinkWalletCard :: "bool \<Rightarrow> string option \<Rightarrow> bool \<Rightarrow> wallet_link \<Rightarrow> (jsval \<Rightarrow> string) \<Rightarrow> link_card option" where
  "LinkWalletCard signedIn address isConnected w show_val =
     (if \<not> signedIn then None
      else Some \<lparr>
        lc_status = (if isConnected \<and> truthy_str address then [''Connected'', short_wallet (the address)] else [''Not connected'']),
        lc_action = (if isConnected then ActionDisconnect else ActionConnect),
        lc_area = (if isConnected \<and> truthy_str address then
            Some (if linkSuccess w then LinkedMessage (the address)
              else LinkButton (if isLinking w \<or> isSigning w
                  then (if isSigning w then ''Waiting for signature...'' else ''Linking wallet...'') else ''Sign & Link Wallet'')
                (isLinking w \<or> isSigning w))
          else None),
        lc_error = (if val_truthy (linkError w) then Some (show_val (linkError w)) else None)\<rparr>)"

text \<open>The connector that the button uses.\<close>

definition link_handleConnect :: "'c list \<Rightarrow> 'c option" where
  "link_handleConnect connectors = (if 0 < length connectors then Some (connectors ! 0) else None)"

section \<open>Lemmas\<close>

text \<open>The answers in a run are those of the service to the latest request.\<close>

fun answered_by :: "(string \<Rightarrow> string \<Rightarrow> string option) \<Rightarrow> (auth_page_event \<Rightarrow> auth_page \<Rightarrow> auth_page \<times> auth_call list) \<Rightarrow>
    auth_page_event list \<Rightarrow> auth_page \<Rightarrow> (string \<times> string) option \<Rightarrow> bool" where
  "answered_by service step [] p asked = True"
| "answered_by service step (e # es) p asked =
     ((case e of SignInAnswered r \<Rightarrow> map_option (\<lambda>(m, pw). service m pw) asked = Some r | _ \<Rightarrow> True) \<and>
      answered_by service step es (fst (step e p))
        (case snd (step e p) of [PasswordSignIn m pw] \<Rightarrow> Some (m, pw) | _ \<Rightarrow> asked))"

definition allowed_call :: "(string \<Rightarrow> bool) \<Rightarrow> auth_call \<Rightarrow> bool" where
  "allowed_call mail_ok c \<longleftrightarrow>
     (case c of PasswordSignIn m pw \<Rightarrow> mail_ok m \<and> 8 \<le> length pw | OAuthSignIn q \<Rightarrow> True | WalletSignIn a \<Rightarrow> True | _ \<Rightarrow> False)"

lemma signup_step_calls:
  assumes "validates_signup mail_ok validate"
  shows "\<forall>c \<in> set (snd (signup_step validate e p)). allowed_call mail_ok c"
proof (cases e)
  case SubmitForm
  have "mail_ok (af_text d FEmail) \<and> 8 \<le> length (af_text d FPassword)" if "no_errors (validate d)" for d
    using assms that by (auto simp: validates_signup_def signupSchema_def)
  then show ?thesis by (auto simp: SubmitForm signup_step_def submit_form_def allowed_call_def Let_def)
qed (auto simp: signup_step_def oauth_click_def accounts_answered_def allowed_call_def split: option.splits list.splits)

lemma signup_step_session:
  "ap_authenticated (fst (signup_step validate e p)) \<longleftrightarrow> ap_authenticated p \<or> e = SignInAnswered None"
  by (cases e) (auto simp: signup_step_def submit_form_def oauth_click_def accounts_answered_def Let_def
      split: option.splits list.splits)

lemma signup_run:
  assumes "validates_signup mail_ok validate" and "\<And>m pw. service m pw \<noteq> None"
  shows "answered_by service (signup_step validate) es p asked \<Longrightarrow> \<not> ap_authenticated p \<Longrightarrow>
    \<not> ap_authenticated (fst (auth_run (signup_step validate) es p)) \<and>
    (\<forall>c \<in> set (snd (auth_run (signup_step validate) es p)). allowed_call mail_ok c)"
proof (induction es arbitrary: p asked)
  case (Cons e es)
  have "e \<noteq> SignInAnswered None" using Cons.prems(1) assms(2) by (cases asked) (auto, metis option.distinct(1))
  then have "\<not> ap_authenticated (fst (signup_step validate e p))" using Cons.prems(2) by (simp add: signup_step_session)
  from Cons.IH[OF conjunct2[OF Cons.prems(1)[unfolded answered_by.simps]] this] signup_step_calls[OF assms(1), of e p]
  show ?case by (simp add: split_beta) blast
qed simp

section \<open>Properties\<close>


text \<open>The library's answer: the first failing check of the field.\<close>

definition first_messages :: "(string \<Rightarrow> bool) \<Rightarrow> auth_form \<Rightarrow> field_errors" where
  "first_messages mail_ok d f =
     map_option (snd \<circ> snd) (find (\<lambda>c. fst c = f \<and> \<not> fst (snd c) d) (signupSchema mail_ok))"

lemma first_messages_validates: "validates_signup mail_ok (first_messages mail_ok)"
proof -
  have "no_errors e \<longleftrightarrow> (\<forall>f. e f = None)" for e
  proof
    assume "no_errors e"
    then show "\<forall>f. e f = None" by (intro allI, case_tac f) (simp_all add: no_errors_def)
  qed (simp add: no_errors_def)
  then have "no_errors (first_messages mail_ok d) \<longleftrightarrow> (\<forall>(f, ok, msg) \<in> set (signupSchema mail_ok). ok d)" for d
    by (fastforce simp: first_messages_def find_None_iff split_beta)
  moreover have "\<exists>ok. (f, ok, msg) \<in> set (signupSchema mail_ok) \<and> \<not> ok d" if "first_messages mail_ok d f = Some msg" for d f msg
  proof (cases "find (\<lambda>c. fst c = f \<and> \<not> fst (snd c) d) (signupSchema mail_ok)")
    case (Some c)
    then have "c \<in> set (signupSchema mail_ok)" "fst c = f" "\<not> fst (snd c) d" by (auto simp: find_Some_iff)
    moreover have "msg = snd (snd c)" using that Some by (simp add: first_messages_def)
    ultimately show ?thesis by (intro exI[of _ "fst (snd c)"]) auto
  qed (use that in \<open>simp add: first_messages_def\<close>)
  ultimately show ?thesis by (simp add: validates_signup_def)
qed


text \<open>Also: an OAuth sign-in that resolves with an error leaves all three buttons disabled, on both pages, whatever
  happens next short of an answer that throws.\<close>

lemma oauth_stuck_step:
  "oauthLoading p \<noteq> None \<Longrightarrow> (\<forall>q. e \<noteq> OAuthAnswered q OAuthThrew) \<Longrightarrow>
     oauthLoading (fst (auth_page_step validate e p)) \<noteq> None"
  by (cases e) (auto simp: submit_form_def oauth_click_def handleWalletLogin_def accounts_answered_def handleOAuthSignIn_def
      Let_def split: option.splits list.splits oauth_result.splits)

theorem oauth_error_blocks:
  "oauthLoading p \<noteq> None \<Longrightarrow> (\<forall>e \<in> set es. \<forall>q. e \<noteq> OAuthAnswered q OAuthThrew) \<Longrightarrow>
     \<forall>b \<in> set (oauth_buttons (fst (auth_run (auth_page_step validate) es p))). bt_disabled b"
proof (induction es arbitrary: p)
  case (Cons e es)
  then have "oauthLoading (fst (auth_page_step validate e p)) \<noteq> None" by (intro oauth_stuck_step) auto
  with Cons show ?case by (auto split: prod.splits)
qed (simp add: oauth_buttons_def oauth_button_def oauth_disabled_def)

text \<open>Also: the success message of the link card stays when the wallet is exchanged for another one, and names it as
  linked although it is not.\<close>

lemma link_card_claims_other_wallet:
  "linkSuccess w \<Longrightarrow> b \<noteq> '''' \<Longrightarrow>
     map_option lc_area (LinkWalletCard True (Some b) True w sv) = Some (Some (LinkedMessage b))"
  by (simp add: LinkWalletCard_def truthy_str_def)

end
