(* ===== verification/StakeFlow.thy ===== *)
theory StakeFlow
  imports WalletModals EscrowContract
begin

text \<open>
  The wallet page and the contract together: the calls the modals send, as transactions of the account
  that signs them. \<open>parseEther\<close> is exact on the typed amount, which holds for up to eighteen decimals.
\<close>

text \<open>The transaction of a call of the modals, which attach the amount to \<open>stake\<close> and pass it to \<open>withdraw\<close>.\<close>

definition modal_tx :: "addr \<Rightarrow> nat \<Rightarrow> contract_call \<Rightarrow> tx" where
  "modal_tx a t c = (case call_value c of
     Some w \<Rightarrow> Tx a (nat w) t Stake True []
   | None \<Rightarrow> Tx a 0 t (Withdraw (nat (hd (call_args c)))) True [])"

definition in_ether :: "nat \<Rightarrow> jsnum" where
  "in_ether n = Fin (of_nat n / 10 ^ 18)"

definition exact_amount :: "(string \<Rightarrow> int option) \<Rightarrow> string \<Rightarrow> bool" where
  "exact_amount pe v \<longleftrightarrow> (\<forall>w. pe v = Some w \<longrightarrow> parseFloat v = Fin (of_int w / 10 ^ 18))"

lemma ether_rat: "of_nat ether = (10 ^ 18 :: rat)"
  by (simp add: ether_def)



text \<open>Also: the stake modal and the contract disagree on small additions: the contract accepts what the modal sends
  exactly when it lies between its minimum and its maximum, which the modal does not look at; it only
  makes sure that ten ether are staked afterwards.\<close>

theorem stake_modal_meets_contract:
  assumes "stake_submit pe p m = Some c" and "exact_amount pe (sm_amount m)"
    and "parseFloat (sp_currentStake p) = in_ether (stakeOf s a)" and "\<not> paused s" and "enter G (guard s) = Some g"
    and "stakeOf s a + ether_balance s < 2 ^ 255" and "totalStaked s < 2 ^ 255" and "pe (sm_amount m) = Some w" and "w < 2 ^ 255"
  shows "0 < w \<and> 10 * ether \<le> stakeOf s a + nat w \<and>
    ((\<exists>s'. run_tx G (modal_tx a t c) s = Inr s') \<longleftrightarrow>
       MIN_STAKE \<le> nat w \<and> (maximumStakeAmount s = 0 \<or> nat w \<le> maximumStakeAmount s))"
proof -
  have c: "c = stake_call w" using stake_submit_call[OF assms(1)] assms(8) by auto
  have amt: "amount_of (sm_amount m) = Fin (of_int w / 10 ^ 18)"
    using assms(2,8) by (intro amount_of_Fin) (simp add: exact_amount_def)
  have cur: "amount_of (sp_currentStake p) = Fin (of_nat (stakeOf s a) / 10 ^ 18)"
    using assms(3) by (intro amount_of_Fin) (simp add: in_ether_def)
  have ok: "stake_ok p m" by (rule stake_form.submit_ok[OF assms(1)])
  then have pos: "0 < w" by (simp add: stake_ok_def amt)
  have "sm_amount m \<noteq> ''''" using assms(1) by (auto simp: stake_submit_def)
  then have "\<not> (of_nat (stakeOf s a) / 10 ^ 18 + of_int w / 10 ^ 18 < (10 :: rat))"
    using ok pos by (auto simp: stake_ok_def stake_errMsg_def stake_newStake_def Let_def amt cur split: if_splits)
  then have "of_int (10 * 10 ^ 18) \<le> (of_int (int (stakeOf s a) + w) :: rat)" by (simp add: field_simps)
  then have "10 * 10 ^ 18 \<le> int (stakeOf s a) + w" by (simp only: of_int_le_iff)
  then have ten: "10 * ether \<le> stakeOf s a + nat w" using pos by (simp add: ether_def)
  have "(\<exists>s'. run_tx G (Tx a (nat w) t Stake True []) s = Inr s') \<longleftrightarrow>
       MIN_STAKE \<le> nat w \<and> (maximumStakeAmount s = 0 \<or> nat w \<le> maximumStakeAmount s)"
    using assms(4-7,9) pos by (auto simp: contract_defs payable_def)
  then show ?thesis using pos ten by (simp add: modal_tx_def c stake_call_def)
qed

lemma stake_modal_meets_contract_witness:
  "\<exists>s'. run_tx flag_guard (modal_tx 7 9 (stake_call (12 * 10 ^ 18))) (deploy_escrow 1 False 2) = Inr s'"
proof -
  have "stake_submit (\<lambda>_. Some (12 * 10 ^ 18)) \<lparr>sp_currentStake = show_nat 0, sp_balance = show_nat 30\<rparr>
      \<lparr>sm_amount = show_nat 12, sm_txHash = None\<rparr> = Some (stake_call (12 * 10 ^ 18))"
    by (simp add: stake_submit_def stake_errMsg_def stake_newStake_def amount_of_digits Let_def)
  from stake_modal_meets_contract[OF this, where s = "deploy_escrow 1 False 2" and a = 7 and G = flag_guard and g = True and t = 9
      and w = "12 * 10 ^ 18"]
  show ?thesis
    by (auto simp: exact_amount_def in_ether_def parseFloat_show_nat deploy_escrow_def flag_guard_def ether_def MIN_STAKE_def
        simp del: run_tx.simps)
qed

end
