(* ===== verification/Analytics.thy ===== *)
theory Analytics
  imports NodesData
begin

text \<open>
  \<open>hooks/use-analytics.ts\<close>: the statistics of a node provider and the daily series, computed from
  rows of the database, with the figures \<open>app/(dashboard)/analytics/page.tsx\<close> derives from them. The
  database answers a query with rows or an error, which the fetch functions throw on. \<open>iso8601\<close> is
  \<open>new Date(ms).toISOString()\<close> and \<open>day\<close> is the label \<open>toLocaleDateString\<close> gives a time stamp
  (month and day, without the year).
\<close>

section \<open>Rows and queries\<close>

record assignment =
  asg_status :: string
  asg_node_id :: "string option"
  asg_started_at :: "string option"
  asg_job_created_at :: string

record heartbeat =
  packet_latency_ms :: "jsnum option"

record transaction =
  tx_id :: string
  tx_type :: string
  amount_wei :: "string option"
  amount_usd :: "jsnum option"
  tx_hash :: "string option"
  tx_created_at :: string

record job_day =
  jd_status :: string
  jd_created_at :: string

text \<open>What the database answers, table by table; \<open>Inl\<close> is the error of the response.\<close>

record analytics_db =
  ask_assignments :: "query \<Rightarrow> string + assignment list"
  ask_heartbeats :: "query \<Rightarrow> string + heartbeat list"
  ask_transactions :: "query \<Rightarrow> string + transaction list"
  ask_jobs :: "query \<Rightarrow> string + job_day list"

definition days_ago :: "(int \<Rightarrow> string) \<Rightarrow> int \<Rightarrow> int \<Rightarrow> string" where
  "days_ago iso8601 now days = iso8601 (now - days * 24 * 3600 * 1000)"

definition fetchNodeAssignments_of :: "analytics_db \<Rightarrow> string \<Rightarrow> string + assignment list" where
  "fetchNodeAssignments_of db user = ask_assignments db
     (eq_filter ''jobs.user_id'' user (from_table UserClient ''node_assignments''
       (QSelect ''*, jobs!inner(user_id), nodes!inner(wallet_address)'')))"

definition fetchNodeHeartbeats ::
  "analytics_db \<Rightarrow> (int \<Rightarrow> string) \<Rightarrow> int \<Rightarrow> string \<Rightarrow> int \<Rightarrow> string + heartbeat list" where
  "fetchNodeHeartbeats db iso8601 now node days = ask_heartbeats db
     (order_by ''created_at'' True (gte_filter ''created_at'' (days_ago iso8601 now days)
       (eq_filter ''node_id'' node (from_table UserClient ''node_heartbeats'' (QSelect ''*'')))))"

definition fetchNodeTransactions :: "analytics_db \<Rightarrow> string \<Rightarrow> string + transaction list" where
  "fetchNodeTransactions db user = ask_transactions db
     (order_by ''created_at'' False (eq_filter ''user_id'' user
       (from_table UserClient ''transactions'' (QSelect ''*''))))"

text \<open>The comparison \<open>a <= b\<close> of strings, by code units.\<close>

fun str_le :: "string \<Rightarrow> string \<Rightarrow> bool" where
  "str_le [] b = True"
| "str_le (x # a) [] = False"
| "str_le (x # a) (y # b) = (if x = y then str_le a b else (of_char x :: nat) < of_char y)"

definition tx_eth :: "transaction \<Rightarrow> jsnum" where
  "tx_eth t = js_div (parseFloat (if truthy_str (amount_wei t) then the (amount_wei t) else ''0''))
     (Fin (10 ^ 18))"

section \<open>Statistics of a provider\<close>

record node_analytics =
  na_completed :: nat
  na_failed :: nat
  avgLatencyMs :: jsnum
  p95LatencyMs :: jsnum
  p99LatencyMs :: jsnum
  successRate :: jsnum
  totalRewardsEarned :: jsnum
  totalSlashed :: jsnum
  currentReputation :: jsnum
  uptimePercent :: jsnum

definition latencies :: "heartbeat list \<Rightarrow> jsnum list" where
  "latencies hbs = List.map_filter (\<lambda>hb. case packet_latency_ms hb of
       Some l \<Rightarrow> if js_truthy l then Some l else None | None \<Rightarrow> None) hbs"

text \<open>The loop over the assignments, which awaits the heartbeats of each assigned node in turn.\<close>

fun gather_latencies :: "(string \<Rightarrow> string + heartbeat list) \<Rightarrow> assignment list \<Rightarrow> string + jsnum list" where
  "gather_latencies hb [] = Inr []"
| "gather_latencies hb (a # as) =
     (if truthy_str (asg_node_id a) then
        (case hb (the (asg_node_id a)) of
           Inl e \<Rightarrow> Inl e
         | Inr hbs \<Rightarrow>
             (case gather_latencies hb as of Inl e \<Rightarrow> Inl e | Inr ls \<Rightarrow> Inr (latencies hbs @ ls)))
      else gather_latencies hb as)"

text \<open>The element of a sorted list at the share \<open>q\<close> of its length, \<open>None\<close> for \<open>undefined\<close>.\<close>

definition latency_at :: "rat \<Rightarrow> jsnum list \<Rightarrow> jsnum option" where
  "latency_at q xs =
     (if xs = [] then Some (Fin 0)
      else let i = nat \<lfloor>of_nat (length xs) * q\<rfloor> in if i < length xs then Some (xs ! i) else None)"

definition average :: "jsnum list \<Rightarrow> jsnum" where
  "average xs = (if xs = [] then Fin 0 else js_div (sum_by (\<lambda>x. x) xs) (js_int (int (length xs))))"

definition round_to :: "rat \<Rightarrow> jsnum \<Rightarrow> jsnum" where
  "round_to k x = js_div (js_round (js_mul x (Fin k))) (Fin k)"

definition node_summary ::
  "string \<Rightarrow> assignment list \<Rightarrow> transaction list \<Rightarrow> jsnum list \<Rightarrow> node_analytics" where
  "node_summary thirtyDaysAgo asgs txns unsorted =
     (let completed = count_by (\<lambda>a. asg_status a = ''completed'') asgs;
          failed = count_by (\<lambda>a. asg_status a = ''failed'') asgs;
          total = js_or (js_int (int (completed + failed))) (Fin 1);
          allLatencies = array_sort js_sub unsorted;
          recent = filter (\<lambda>t. str_le thirtyDaysAgo (tx_created_at t)) txns;
          rewards = sum_by tx_eth (filter (\<lambda>t. tx_type t = ''reward'') recent);
          slashed = sum_by tx_eth (filter (\<lambda>t. tx_type t = ''slashing'') recent);
          share = js_div (js_int (int completed)) total;
          up = (if allLatencies \<noteq> [] \<and> js_lt (Fin 0) total then js_mul share (Fin 100) else Fin (995 / 10))
      in \<lparr>na_completed = completed,
          na_failed = failed,
          avgLatencyMs = js_round (average allLatencies),
          p95LatencyMs = js_round (js_or (or_else (latency_at (95 / 100) allLatencies) NaN) (Fin 0)),
          p99LatencyMs = js_round (js_or (or_else (latency_at (99 / 100) allLatencies) NaN) (Fin 0)),
          successRate = js_div (js_round (js_mul share (Fin 1000))) (Fin 10),
          totalRewardsEarned = round_to 1000 rewards,
          totalSlashed = round_to 1000 slashed,
          currentReputation = Fin 0,
          uptimePercent = round_to 10 up\<rparr>)"

text \<open>\<open>Promise.all\<close> rejects with the first rejection; both requests are made.\<close>

definition fetchNodeAnalytics ::
  "analytics_db \<Rightarrow> (int \<Rightarrow> string) \<Rightarrow> int \<Rightarrow> string \<Rightarrow> string + node_analytics" where
  "fetchNodeAnalytics db iso8601 now user =
     (case fetchNodeAssignments_of db user of
        Inl e \<Rightarrow> Inl e
      | Inr asgs \<Rightarrow>
          (case fetchNodeTransactions db user of
             Inl e \<Rightarrow> Inl e
           | Inr txns \<Rightarrow>
               (case gather_latencies (\<lambda>n. fetchNodeHeartbeats db iso8601 now n 30) asgs of
                  Inl e \<Rightarrow> Inl e
                | Inr ls \<Rightarrow> Inr (node_summary (days_ago iso8601 now 30) asgs txns ls))))"

definition no_analytics :: node_analytics where
  "no_analytics = \<lparr>na_completed = 0, na_failed = 0, avgLatencyMs = Fin 0, p95LatencyMs = Fin 0,
     p99LatencyMs = Fin 0, successRate = Fin 0, totalRewardsEarned = Fin 0, totalSlashed = Fin 0,
     currentReputation = Fin 0, uptimePercent = Fin 0\<rparr>"

definition useNodeAnalytics ::
  "analytics_db \<Rightarrow> (int \<Rightarrow> string) \<Rightarrow> int \<Rightarrow> string option \<Rightarrow> string + node_analytics" where
  "useNodeAnalytics db iso8601 now user =
     (case user of None \<Rightarrow> Inr no_analytics | Some u \<Rightarrow> fetchNodeAnalytics db iso8601 now u)"

section \<open>Daily series\<close>

text \<open>
  A JavaScript \<open>Map\<close> from a label to an entry that is updated in place, in insertion order: the
  rows are folded into it one after the other.
\<close>

fun bucket :: "'v \<Rightarrow> ('v \<Rightarrow> 'v) \<Rightarrow> 'k \<Rightarrow> ('k \<times> 'v) list \<Rightarrow> ('k \<times> 'v) list" where
  "bucket z f k [] = [(k, f z)]"
| "bucket z f k (e # m) = (if fst e = k then (k, f (snd e)) # m else e # bucket z f k m)"

definition group_rows :: "('r \<Rightarrow> 'k) \<Rightarrow> 'v \<Rightarrow> ('r \<Rightarrow> 'v \<Rightarrow> 'v) \<Rightarrow> 'r list \<Rightarrow> ('k \<times> 'v) list" where
  "group_rows key z upd rows = fold (\<lambda>r. bucket z (upd r) (key r)) rows []"

record day_stats =
  day_completed :: nat
  day_total :: nat

record uptime_point =
  up_date :: string
  up_uptime :: jsnum
  slaTarget :: jsnum

definition uptime_row :: "job_day \<Rightarrow> day_stats \<Rightarrow> day_stats" where
  "uptime_row j e =
     (let e = e\<lparr>day_total := day_total e + 1\<rparr>
      in if jd_status j = ''completed'' then e\<lparr>day_completed := day_completed e + 1\<rparr> else e)"

definition uptime_days :: "(string \<Rightarrow> string) \<Rightarrow> job_day list \<Rightarrow> (string \<times> day_stats) list" where
  "uptime_days day rows =
     group_rows (\<lambda>j. day (jd_created_at j)) \<lparr>day_completed = 0, day_total = 0\<rparr> uptime_row rows"

definition uptime_point :: "string \<times> day_stats \<Rightarrow> uptime_point" where
  "uptime_point e = (case e of (d, s) \<Rightarrow>
     \<lparr>up_date = d,
      up_uptime = (if 0 < day_total s
                   then js_mul (js_div (js_int (int (day_completed s))) (js_int (int (day_total s)))) (Fin 100)
                   else Fin 100),
      slaTarget = Fin 95\<rparr>)"

definition fetchUptimeHistory ::
  "analytics_db \<Rightarrow> (int \<Rightarrow> string) \<Rightarrow> (string \<Rightarrow> string) \<Rightarrow> int \<Rightarrow> string \<Rightarrow> int \<Rightarrow> string + uptime_point list" where
  "fetchUptimeHistory db iso8601 day now user days =
     (case ask_jobs db (order_by ''created_at'' True (gte_filter ''created_at'' (days_ago iso8601 now days)
        (eq_filter ''user_id'' user (from_table UserClient ''jobs''
          (QSelect ''id, status, completed_at, created_at''))))) of
        Inl e \<Rightarrow> Inl e
      | Inr rows \<Rightarrow> Inr (map uptime_point (uptime_days day rows)))"

record volume_point =
  vol_completed :: nat
  vol_failed :: nat
  vol_pending :: nat

definition volume_row :: "assignment \<Rightarrow> volume_point \<Rightarrow> volume_point" where
  "volume_row a e =
     (if asg_status a = ''completed'' then e\<lparr>vol_completed := vol_completed e + 1\<rparr>
      else if asg_status a = ''failed'' then e\<lparr>vol_failed := vol_failed e + 1\<rparr>
      else e\<lparr>vol_pending := vol_pending e + 1\<rparr>)"

definition volume_day :: "(string \<Rightarrow> string) \<Rightarrow> assignment \<Rightarrow> string" where
  "volume_day day a =
     day (if truthy_str (asg_started_at a) then the (asg_started_at a) else asg_job_created_at a)"

definition job_volume :: "(string \<Rightarrow> string) \<Rightarrow> assignment list \<Rightarrow> (string \<times> volume_point) list" where
  "job_volume day rows =
     group_rows (volume_day day) \<lparr>vol_completed = 0, vol_failed = 0, vol_pending = 0\<rparr> volume_row rows"

definition fetchJobVolumeHistory ::
  "analytics_db \<Rightarrow> (int \<Rightarrow> string) \<Rightarrow> (string \<Rightarrow> string) \<Rightarrow> int \<Rightarrow> string \<Rightarrow> int \<Rightarrow>
   string + (string \<times> volume_point) list" where
  "fetchJobVolumeHistory db iso8601 day now user days =
     (case ask_assignments db (order_by ''started_at'' True
        (gte_filter ''jobs.created_at'' (days_ago iso8601 now days)
        (eq_filter ''jobs.user_id'' user (from_table UserClient ''node_assignments''
          (QSelect ''status, completed_at, started_at, jobs!inner(created_at, user_id)''))))) of
        Inl e \<Rightarrow> Inl e
      | Inr rows \<Rightarrow> Inr (job_volume day rows))"

record flow_point =
  revenue :: jsnum
  flow_cost :: jsnum
  margin :: jsnum

definition flow_row :: "transaction \<Rightarrow> flow_point \<Rightarrow> flow_point" where
  "flow_row t e =
     (let e = (if tx_type t = ''reward'' \<or> tx_type t = ''job_payment''
               then e\<lparr>revenue := js_add (revenue e) (tx_eth t)\<rparr>
               else if tx_type t = ''slashing'' then e\<lparr>flow_cost := js_add (flow_cost e) (js_abs (tx_eth t))\<rparr>
               else e)
      in e\<lparr>margin := js_sub (revenue e) (flow_cost e)\<rparr>)"

definition value_flow :: "(string \<Rightarrow> string) \<Rightarrow> transaction list \<Rightarrow> (string \<times> flow_point) list" where
  "value_flow day rows =
     group_rows (\<lambda>t. day (tx_created_at t)) \<lparr>revenue = Fin 0, flow_cost = Fin 0, margin = Fin 0\<rparr> flow_row rows"

definition fetchValueFlowHistory ::
  "analytics_db \<Rightarrow> (int \<Rightarrow> string) \<Rightarrow> (string \<Rightarrow> string) \<Rightarrow> int \<Rightarrow> string \<Rightarrow> int \<Rightarrow>
   string + (string \<times> flow_point) list" where
  "fetchValueFlowHistory db iso8601 day now user days =
     (case ask_transactions db (order_by ''created_at'' True
        (gte_filter ''created_at'' (days_ago iso8601 now days)
        (eq_filter ''user_id'' user (from_table UserClient ''transactions''
          (QSelect ''type, amount_wei, created_at''))))) of
        Inl e \<Rightarrow> Inl e
      | Inr rows \<Rightarrow> Inr (value_flow day rows))"

section \<open>The hooks and what the page derives\<close>

text \<open>Without a user the series are empty.\<close>

definition series_for :: "string option \<Rightarrow> (string \<Rightarrow> string + 'a list) \<Rightarrow> string + 'a list" where
  "series_for user fetch = (case user of None \<Rightarrow> Inr [] | Some u \<Rightarrow> fetch u)"

definition useUptimeData ::
  "analytics_db \<Rightarrow> (int \<Rightarrow> string) \<Rightarrow> (string \<Rightarrow> string) \<Rightarrow> int \<Rightarrow> string option \<Rightarrow> int \<Rightarrow> string + uptime_point list" where
  "useUptimeData db iso8601 day now user days =
     series_for user (\<lambda>u. fetchUptimeHistory db iso8601 day now u days)"

definition useJobVolumeData where
  "useJobVolumeData db iso8601 day now user days =
     series_for user (\<lambda>u. fetchJobVolumeHistory db iso8601 day now u days)"

definition useValueFlowData where
  "useValueFlowData db iso8601 day now user days =
     series_for user (\<lambda>u. fetchValueFlowHistory db iso8601 day now u days)"

definition useSLAComplianceData ::
  "analytics_db \<Rightarrow> (int \<Rightarrow> string) \<Rightarrow> (string \<Rightarrow> string) \<Rightarrow> int \<Rightarrow> string option \<Rightarrow> int \<Rightarrow>
   string + (string \<times> jsnum) list" where
  "useSLAComplianceData db iso8601 day now user days = series_for user (\<lambda>u.
     case fetchUptimeHistory db iso8601 day now u days of
       Inl e \<Rightarrow> Inl e | Inr ps \<Rightarrow> Inr (map (\<lambda>p. (up_date p, up_uptime p)) ps))"

record overview =
  ov_totalJobs :: nat
  ov_averageUptime :: jsnum
  ov_slaCompliance :: jsnum
  ov_totalRevenue :: jsnum
  ov_totalCost :: jsnum

text \<open>The changes over the previous period are the constant 0 in every case and left out.\<close>

definition useAnalyticsOverview ::
  "analytics_db \<Rightarrow> (int \<Rightarrow> string) \<Rightarrow> (string \<Rightarrow> string) \<Rightarrow> int \<Rightarrow> string option \<Rightarrow> string + overview" where
  "useAnalyticsOverview db iso8601 day now user =
     (case user of
        None \<Rightarrow> Inr \<lparr>ov_totalJobs = 0, ov_averageUptime = Fin 0, ov_slaCompliance = Fin 0,
                     ov_totalRevenue = Fin 0, ov_totalCost = Fin 0\<rparr>
      | Some u \<Rightarrow>
          (case (fetchNodeAnalytics db iso8601 now u, fetchValueFlowHistory db iso8601 day now u 30) of
             (Inr a, Inr fs) \<Rightarrow>
               Inr \<lparr>ov_totalJobs = na_completed a + na_failed a,
                    ov_averageUptime = uptimePercent a,
                    ov_slaCompliance = successRate a,
                    ov_totalRevenue = sum_by (\<lambda>(d, f). revenue f) fs,
                    ov_totalCost = sum_by (\<lambda>(d, f). flow_cost f) fs\<rparr>
           | (Inl e, _) \<Rightarrow> Inl e
           | (_, Inl e) \<Rightarrow> Inl e))"

record page_summary =
  avgUptime :: jsnum
  pg_totalJobs :: nat
  pg_totalRevenue :: jsnum
  pg_totalCost :: jsnum
  pg_totalMargin :: jsnum

definition analytics_summary :: "uptime_point list option \<Rightarrow> node_analytics option \<Rightarrow> page_summary" where
  "analytics_summary uptimeData a =
     (let rewards = (case a of None \<Rightarrow> Fin 0 | Some x \<Rightarrow> totalRewardsEarned x);
          slashed = (case a of None \<Rightarrow> Fin 0 | Some x \<Rightarrow> totalSlashed x)
      in \<lparr>avgUptime =
            (if or_else uptimeData [] \<noteq> []
             then js_div (sum_by up_uptime (the uptimeData)) (js_int (int (length (the uptimeData))))
             else (case a of None \<Rightarrow> Fin 0 | Some x \<Rightarrow> uptimePercent x)),
          pg_totalJobs = (case a of None \<Rightarrow> 0 | Some x \<Rightarrow> na_completed x + na_failed x),
          pg_totalRevenue = rewards,
          pg_totalCost = slashed,
          pg_totalMargin = js_sub rewards slashed\<rparr>)"

definition formatNumber :: "nat \<Rightarrow> string" where
  "formatNumber n =
     (if 1000000 \<le> n then toFixed 1 (Fin (of_nat n / 1000000)) @ ''M''
      else if 1000 \<le> n then toFixed 1 (Fin (of_nat n / 1000)) @ ''K''
      else show_nat n)"

section \<open>Lemmas: grouping by day\<close>

lemma keys_bucket: "fst ` set (bucket z f k m) = insert k (fst ` set m)"
  by (induction m) auto

lemma distinct_bucket: "distinct (map fst m) \<Longrightarrow> distinct (map fst (bucket z f k m))"
proof (induction m)
  case (Cons e m)
  then show ?case
    using keys_bucket[of z f k m] by (auto simp: image_iff)
qed simp

lemma lookup_bucket:
  "map_of (bucket z f k m) k' =
     (if k' = k then Some (f (or_else (map_of m k) z)) else map_of m k')"
  by (induction m) (auto simp: or_else_def)

lemma group_rows_snoc: "group_rows key z upd (rows @ [r]) = bucket z (upd r) (key r) (group_rows key z upd rows)"
  by (simp add: group_rows_def)

lemma distinct_group_rows: "distinct (map fst (group_rows key z upd rows))"
  by (induction rows rule: rev_induct) (auto simp: group_rows_snoc distinct_bucket group_rows_def[of _ _ _ "[]"])

lemma keys_group_rows: "fst ` set (group_rows key z upd rows) = key ` set rows"
  by (induction rows rule: rev_induct) (auto simp: group_rows_snoc keys_bucket group_rows_def[of _ _ _ "[]"])

text \<open>The entry of a label is the fold of the rows with that label, in their order.\<close>

lemma lookup_group_rows:
  "map_of (group_rows key z upd rows) k =
     (if k \<in> key ` set rows then Some (fold upd (filter (\<lambda>r. key r = k) rows) z) else None)"
proof (induction rows rule: rev_induct)
  case Nil
  then show ?case by (simp add: group_rows_def)
next
  case (snoc r rows)
  have empty: "k \<notin> key ` set rows \<Longrightarrow> filter (\<lambda>r. key r = k) rows = []"
    by (auto simp: filter_empty_conv)
  show ?case
    using snoc empty by (auto simp: group_rows_snoc lookup_bucket or_else_def)
qed

lemma group_rows_entry:
  assumes "(k, v) \<in> set (group_rows key z upd rows)"
  shows "v = fold upd (filter (\<lambda>r. key r = k) rows) z" "filter (\<lambda>r. key r = k) rows \<noteq> []"
proof -
  have "map_of (group_rows key z upd rows) k = Some v"
    using assms by (simp add: distinct_group_rows)
  then show "v = fold upd (filter (\<lambda>r. key r = k) rows) z" "filter (\<lambda>r. key r = k) rows \<noteq> []"
    by (auto simp: lookup_group_rows filter_empty_conv split: if_splits)
qed

text \<open>
  A measure of the entries to which every row adds its weight, whatever the entry: then grouping
  loses nothing, the entries add up to the weights of all rows, and the entry of one label to the
  weights of its rows.
\<close>

locale additive_series =
  fixes upd :: "'r \<Rightarrow> 'v \<Rightarrow> 'v" and z :: 'v and meas :: "'v \<Rightarrow> 'n::comm_monoid_add"
    and weight :: "'r \<Rightarrow> 'n"
  assumes meas_zero: "meas z = 0"
    and meas_upd: "meas (upd r v) = meas v + weight r"
begin

lemma meas_fold: "meas (fold upd rows v) = meas v + sum_list (map weight rows)"
  by (induction rows arbitrary: v) (auto simp: meas_upd add.assoc)

lemma meas_bucket:
  "sum_list (map (\<lambda>e. meas (snd e)) (bucket z (upd r) k m)) =
     sum_list (map (\<lambda>e. meas (snd e)) m) + weight r"
  by (induction m) (auto simp: meas_zero meas_upd ac_simps)

lemma total: "sum_list (map (\<lambda>e. meas (snd e)) (group_rows key z upd rows)) = sum_list (map weight rows)"
  by (induction rows rule: rev_induct) (simp_all add: group_rows_snoc meas_bucket, simp add: group_rows_def)

lemma of_day:
  "(k, v) \<in> set (group_rows key z upd rows) \<Longrightarrow>
     meas v = sum_list (map weight (filter (\<lambda>r. key r = k) rows))"
  by (drule group_rows_entry(1)) (simp add: meas_fold meas_zero)

end

lemma count_by_sum: "sum_list (map (\<lambda>x. if P x then 1 else 0) xs) = count_by P xs"
  by (induction xs) auto

lemma sum_by_sum_list: "sum_by f xs = sum_list (map f xs)"
proof -
  have "fold (\<lambda>x s. js_add s (f x)) xs s = s + sum_list (map f xs)" for s
    by (induction xs arbitrary: s) (simp_all add: plus_jsnum_def[symmetric] add.assoc)
  from this[of 0] show ?thesis
    by (simp add: sum_by_def zero_jsnum_def[symmetric])
qed

interpretation day_jobs: additive_series uptime_row "\<lparr>day_completed = 0, day_total = 0\<rparr>"
  day_total "\<lambda>_. 1"
  by unfold_locales (auto simp: uptime_row_def Let_def)

interpretation day_done: additive_series uptime_row "\<lparr>day_completed = 0, day_total = 0\<rparr>"
  day_completed "\<lambda>j. if jd_status j = ''completed'' then 1 else 0"
  by unfold_locales (auto simp: uptime_row_def Let_def)

interpretation vol_done: additive_series volume_row "\<lparr>vol_completed = 0, vol_failed = 0, vol_pending = 0\<rparr>"
  vol_completed "\<lambda>a. if asg_status a = ''completed'' then 1 else 0"
  by unfold_locales (auto simp: volume_row_def)

interpretation vol_fail: additive_series volume_row "\<lparr>vol_completed = 0, vol_failed = 0, vol_pending = 0\<rparr>"
  vol_failed "\<lambda>a. if asg_status a = ''failed'' then 1 else 0"
  by unfold_locales (auto simp: volume_row_def)

interpretation vol_all: additive_series volume_row "\<lparr>vol_completed = 0, vol_failed = 0, vol_pending = 0\<rparr>"
  "\<lambda>e. vol_completed e + vol_failed e + vol_pending e" "\<lambda>a. 1"
  by unfold_locales (auto simp: volume_row_def)

definition is_income :: "transaction \<Rightarrow> bool" where
  "is_income t \<longleftrightarrow> tx_type t = ''reward'' \<or> tx_type t = ''job_payment''"

interpretation flow_revenue: additive_series flow_row "\<lparr>revenue = Fin 0, flow_cost = Fin 0, margin = Fin 0\<rparr>"
  revenue "\<lambda>t. if is_income t then tx_eth t else 0"
  by unfold_locales (auto simp: flow_row_def Let_def zero_jsnum_def[symmetric] plus_jsnum_def[symmetric] is_income_def)

interpretation flow_costs: additive_series flow_row "\<lparr>revenue = Fin 0, flow_cost = Fin 0, margin = Fin 0\<rparr>"
  flow_cost "\<lambda>t. if tx_type t = ''slashing'' then js_abs (tx_eth t) else 0"
  by unfold_locales (auto simp: flow_row_def Let_def zero_jsnum_def[symmetric] plus_jsnum_def[symmetric])

section \<open>Lemmas: order statistics and ranges\<close>

lemma orders_js_sub: "\<forall>x \<in> A. x \<noteq> NaN \<Longrightarrow> orders js_sub A"
  by (rule ordersI; unfold js_sub_pos) (use js_lt_asym js_lt_trans_neg in \<open>metis (full_types)\<close>)+

lemma sorted_latencies:
  assumes "\<forall>x \<in> set xs. x \<noteq> NaN" "i \<le> j" "j < length xs"
  shows "js_le (array_sort js_sub xs ! i) (array_sort js_sub xs ! j)"
proof -
  have len: "length (array_sort js_sub xs) = length xs" and set: "set (array_sort js_sub xs) = set xs"
    by (metis mset_array_sort size_mset, metis mset_array_sort set_mset_mset)
  have nn: "array_sort js_sub xs ! k \<noteq> NaN" if "k < length xs" for k
    using assms(1) nth_mem[of k "array_sort js_sub xs"] that by (auto simp: len set)
  have "sorted_by js_sub (array_sort js_sub xs)"
    by (rule sorted_array_sort, rule orders_js_sub, rule assms(1))
  then have "i = j \<or> \<not> js_lt (array_sort js_sub xs ! j) (array_sort js_sub xs ! i)"
    using assms(2,3) by (auto simp: sorted_wrt_iff_nth_less len js_sub_pos)
  then show ?thesis
    using nn[of i] nn[of j] assms(2,3) by (cases "array_sort js_sub xs ! j") (auto simp: js_le_def)
qed

lemma count_by_nth: "count_by P xs = card {i. i < length xs \<and> P (xs ! i)}"
  by (simp add: count_by_def length_filter_conv_card)

lemma count_by_mset: "mset xs = mset ys \<Longrightarrow> count_by P xs = count_by P ys"
  by (metis count_by_def mset_filter size_mset)

text \<open>
  The element at the share \<open>q\<close> of the sorted list exists, is one of the elements, more than the
  share \<open>q\<close> of the elements are at most as large and at least the remaining share as large.
\<close>

lemma order_statistic:
  assumes "xs \<noteq> []" "\<forall>x \<in> set xs. x \<noteq> NaN" "0 \<le> q" "q < 1"
  obtains x where "latency_at q (array_sort js_sub xs) = Some x" "x \<in> set xs"
    and "of_nat (length xs) * q < of_nat (count_by (\<lambda>y. js_le y x) xs)"
    and "of_nat (length xs) * (1 - q) \<le> of_nat (count_by (js_le x) xs)"
proof -
  define ys where "ys = array_sort js_sub xs"
  define n i where "n = length xs" and "i = nat \<lfloor>of_nat n * q\<rfloor>"
  have perm: "mset ys = mset xs" and len: "length ys = n"
    by (simp_all add: ys_def mset_array_sort n_def) (metis mset_array_sort size_mset)
  have n: "0 < (of_nat n :: rat)" using assms(1) by (simp add: n_def)
  have nq: "0 \<le> of_nat n * q" "of_nat n * q < of_nat n"
    using n assms(3,4) by (simp_all add: mult_less_cancel_left2)
  then have i: "(of_nat i :: rat) \<le> of_nat n * q" "of_nat n * q < of_nat i + 1"
    unfolding i_def using floor_correct[of "of_nat n * q"] by (simp_all add: of_nat_nat)
  then have "(of_nat i :: rat) < of_nat n" using nq by linarith
  then have i_n: "i < n" by simp
  have le: "js_le (ys ! k) (ys ! l)" if "k \<le> l" "l < n" for k l
    using sorted_latencies[OF assms(2) that(1)] that(2) by (simp add: ys_def n_def)
  have "{..i} \<subseteq> {k. k < length ys \<and> js_le (ys ! k) (ys ! i)}"
    using le i_n len by auto
  then have "card {..i} \<le> count_by (\<lambda>y. js_le y (ys ! i)) ys"
    unfolding count_by_nth by (rule card_mono[rotated]) simp
  then have below: "Suc i \<le> count_by (\<lambda>y. js_le y (ys ! i)) xs"
    by (simp add: count_by_mset[OF perm])
  have "{i..<n} \<subseteq> {k. k < length ys \<and> js_le (ys ! i) (ys ! k)}"
    using le len by auto
  then have "card {i..<n} \<le> count_by (js_le (ys ! i)) ys"
    unfolding count_by_nth by (rule card_mono[rotated]) simp
  then have above: "n - i \<le> count_by (js_le (ys ! i)) xs"
    by (simp add: count_by_mset[OF perm])
  show thesis
  proof
    show "latency_at q (array_sort js_sub xs) = Some (ys ! i)"
      using assms(1) i_n len by (auto simp: latency_at_def ys_def[symmetric] i_def Let_def)
    show "ys ! i \<in> set xs"
      by (metis i_n len nth_mem perm set_mset_mset)
    have "(of_nat (Suc i) :: rat) \<le> of_nat (count_by (\<lambda>y. js_le y (ys ! i)) xs)"
      using below by (simp only: of_nat_le_iff)
    then show "of_nat (length xs) * q < of_nat (count_by (\<lambda>y. js_le y (ys ! i)) xs)"
      using i(2) by (simp add: n_def)
    have "of_nat n - of_nat i = (of_nat (n - i) :: rat)"
      using i_n by (simp add: of_nat_diff)
    also have "\<dots> \<le> of_nat (count_by (js_le (ys ! i)) xs)"
      using above by (simp only: of_nat_le_iff)
    finally show "of_nat (length xs) * (1 - q) \<le> of_nat (count_by (js_le (ys ! i)) xs)"
      using i(1) by (simp add: n_def right_diff_distrib)
  qed
qed

lemma percentile:
  assumes "xs \<noteq> []" "\<forall>x \<in> set xs. x \<noteq> NaN" "k < 100"
  obtains x where "latency_at (of_nat k / 100) (array_sort js_sub xs) = Some x" "x \<in> set xs"
    and "k * length xs < 100 * count_by (\<lambda>y. js_le y x) xs"
    and "(100 - k) * length xs \<le> 100 * count_by (js_le x) xs"
proof -
  have k: "0 \<le> of_nat k / (100 :: rat)" "of_nat k / (100 :: rat) < 1"
    using assms(3) by simp_all
  obtain x where x: "latency_at (of_nat k / 100) (array_sort js_sub xs) = Some x" "x \<in> set xs"
    and lo: "of_nat (length xs) * (of_nat k / 100) < (of_nat (count_by (\<lambda>y. js_le y x) xs) :: rat)"
    and hi: "of_nat (length xs) * (1 - of_nat k / 100) \<le> (of_nat (count_by (js_le x) xs) :: rat)"
    by (rule order_statistic[OF assms(1,2) k])
  have "(of_nat (k * length xs) :: rat) < of_nat (100 * count_by (\<lambda>y. js_le y x) xs)"
    using lo by (simp add: field_simps)
  moreover have "(of_nat ((100 - k) * length xs) :: rat) \<le> of_nat (100 * count_by (js_le x) xs)"
    using hi assms(3) by (simp add: field_simps of_nat_diff)
  ultimately show thesis
    by (intro that[of x] x) (simp_all only: of_nat_less_iff of_nat_le_iff)
qed

lemma completed_failed_le:
  "count_by (\<lambda>a. asg_status a = ''completed'') asgs + count_by (\<lambda>a. asg_status a = ''failed'') asgs
     \<le> length asgs"
  by (induction asgs) auto

text \<open>A share of a whole, in tenths of a percent, is between 0 and 100.\<close>

lemma floor_half_range: "0 \<le> x \<Longrightarrow> x \<le> (of_int n :: rat) \<Longrightarrow> 0 \<le> \<lfloor>x + 1 / 2\<rfloor> \<and> \<lfloor>x + 1 / 2\<rfloor> \<le> n"
  by (auto simp: floor_le_iff)

lemma share_range:
  assumes "completed \<le> n"
  shows "\<exists>r. js_div (js_round (js_mul (js_div (js_int (int completed)) (js_or (js_int (int n)) (Fin 1))) (Fin 1000)))
    (Fin 10) = Fin r \<and> 0 \<le> r \<and> r \<le> 100"
proof -
  define x :: rat where "x = (if n = 0 then 0 else of_nat completed / of_nat n) * 1000"
  have x: "0 \<le> x" "x \<le> of_int 1000"
    using assms by (auto simp: x_def divide_le_eq)
  have "js_mul (js_div (js_int (int completed)) (js_or (js_int (int n)) (Fin 1))) (Fin 1000) = Fin x"
    using assms by (auto simp: x_def js_or_def js_truthy_def)
  moreover have "of_int \<lfloor>x + 1 / 2\<rfloor> / 10 \<le> (100 :: rat)" "0 \<le> of_int \<lfloor>x + 1 / 2\<rfloor> / (10 :: rat)"
    using floor_half_range[OF x] by (simp_all add: divide_le_eq)
  ultimately show ?thesis
    by (intro exI[of _ "of_int \<lfloor>x + 1 / 2\<rfloor> / 10"]) simp
qed

section \<open>Properties\<close>

text \<open>Also: the reported latency percentiles are order statistics: for a non-empty list of measured
  latencies, the 95th (99th) percentile is, up to rounding to a millisecond, a measured value
  \<open>x\<close> such that more than 95 (99) percent of the measurements are at most \<open>x\<close> and at least 5 (1)
  percent are at least \<open>x\<close>; the index is never out of range.\<close>

theorem latency_percentiles:
  assumes "ls \<noteq> []" "\<forall>x \<in> set ls. x \<noteq> NaN"
  shows "(\<exists>x \<in> set ls. p95LatencyMs (node_summary since asgs txns ls) = js_round (js_or x (Fin 0)) \<and>
      95 * length ls < 100 * count_by (\<lambda>y. js_le y x) ls \<and> 5 * length ls \<le> 100 * count_by (js_le x) ls) \<and>
    (\<exists>x \<in> set ls. p99LatencyMs (node_summary since asgs txns ls) = js_round (js_or x (Fin 0)) \<and>
      99 * length ls < 100 * count_by (\<lambda>y. js_le y x) ls \<and> length ls \<le> 100 * count_by (js_le x) ls)"
proof -
  obtain x where x: "latency_at (95 / 100) (array_sort js_sub ls) = Some x" "x \<in> set ls"
    "95 * length ls < 100 * count_by (\<lambda>y. js_le y x) ls" "5 * length ls \<le> 100 * count_by (js_le x) ls"
    using percentile[OF assms, of 95] by auto
  obtain y where y: "latency_at (99 / 100) (array_sort js_sub ls) = Some y" "y \<in> set ls"
    "99 * length ls < 100 * count_by (\<lambda>z. js_le z y) ls" "length ls \<le> 100 * count_by (js_le y) ls"
    using percentile[OF assms, of 99] by auto
  show ?thesis
    using x y by (auto simp: node_summary_def Let_def or_else_def)
qed

lemma latency_percentiles_witness:
  "\<exists>x \<in> {Fin 20, Fin 10, Fin 30}. p95LatencyMs (node_summary '''' [] [] [Fin 20, Fin 10, Fin 30]) = js_round (js_or x (Fin 0))"
  using latency_percentiles[of "[Fin 20, Fin 10, Fin 30]" "''''" "[]" "[]"] by auto

lemma gather_latencies_counts:
  "gather_latencies hb asgs = Inr ls \<Longrightarrow>
     count_list ls x = sum_list (map (\<lambda>a. case hb (the (asg_node_id a)) of Inr hbs \<Rightarrow> count_list (latencies hbs) x | Inl e \<Rightarrow> 0)
       (filter (\<lambda>a. truthy_str (asg_node_id a)) asgs))"
  by (induction asgs arbitrary: ls) (auto split: sum.splits if_splits)

text \<open>Also: the statistics are consistent: the success rate is a percentage between 0 and 100, there are no
  more finished jobs than assignments, and the uptime that is reported is the same number as the
  success rate, or the constant 99.5 when no latency was measured.\<close>

theorem analytics_ranges:
  assumes "fetchNodeAnalytics db iso8601 now user = Inr s"
    and "fetchNodeAssignments_of db user = Inr asgs"
  shows "(\<exists>r. successRate s = Fin r \<and> 0 \<le> r \<and> r \<le> 100) \<and>
    na_completed s + na_failed s \<le> length asgs \<and>
    (uptimePercent s = successRate s \<or> uptimePercent s = Fin (995 / 10))"
proof -
  obtain txns ls where s: "s = node_summary (days_ago iso8601 now 30) asgs txns ls"
    using assms by (auto simp: fetchNodeAnalytics_def split: sum.splits)
  define c where "c = count_by (\<lambda>a. asg_status a = ''completed'') asgs"
  define n where "n = c + count_by (\<lambda>a. asg_status a = ''failed'') asgs"
  define t where "t = js_or (js_int (int n)) (Fin 1)"
  obtain r where r: "js_div (js_round (js_mul (js_div (js_int (int c)) t) (Fin 1000))) (Fin 10) = Fin r"
    "0 \<le> r" "r \<le> 100"
    using share_range[of c n] unfolding t_def n_def by auto
  have rate: "successRate s = Fin r"
    using r(1) by (simp add: s node_summary_def Let_def c_def n_def t_def)
  obtain q where q: "js_div (js_int (int c)) t = Fin q"
    by (cases "n = 0") (auto simp: t_def js_or_def js_truthy_def)
  have "round_to 10 (js_mul (Fin q) (Fin 100)) = Fin r"
    using r(1) unfolding q by (simp add: round_to_def mult.commute)
  moreover have "\<lfloor>1991 / 2 :: rat\<rfloor> = 995"
    by (rule floor_unique) auto
  then have "round_to 10 (Fin (995 / 10)) = Fin (995 / 10)"
    by (simp add: round_to_def)
  ultimately have "uptimePercent s = Fin r \<or> uptimePercent s = Fin (995 / 10)"
    using q by (auto simp: s node_summary_def Let_def c_def n_def t_def)
  moreover have "na_completed s + na_failed s \<le> length asgs"
    using completed_failed_le[of asgs] by (simp add: s node_summary_def Let_def)
  ultimately show ?thesis
    using rate r(2,3) by auto
qed

definition sample_db :: analytics_db where
  "sample_db = \<lparr>ask_assignments = (\<lambda>q. Inr [
       \<lparr>asg_status = ''completed'', asg_node_id = None, asg_started_at = None, asg_job_created_at = ''2025-01-01''\<rparr>]),
     ask_heartbeats = (\<lambda>q. Inl ''down''), ask_transactions = (\<lambda>q. Inr []), ask_jobs = (\<lambda>q. Inr [])\<rparr>"

lemma analytics_ranges_witness:
  "\<exists>s. fetchNodeAnalytics sample_db (\<lambda>_. '''') 0 ''u'' = Inr s \<and> na_completed s + na_failed s \<le> 1"
proof -
  let ?asgs = "[\<lparr>asg_status = ''completed'', asg_node_id = None, asg_started_at = None,
    asg_job_created_at = ''2025-01-01''\<rparr>]"
  have a: "fetchNodeAssignments_of sample_db ''u'' = Inr ?asgs"
    by (simp add: fetchNodeAssignments_of_def sample_db_def)
  then obtain s where "fetchNodeAnalytics sample_db (\<lambda>_. '''') 0 ''u'' = Inr s"
    by (auto simp: fetchNodeAnalytics_def fetchNodeTransactions_def sample_db_def truthy_str_def)
  with analytics_ranges[OF this a] show ?thesis by auto
qed


text \<open>Also: the overview loses no money: its revenue is the sum over the rewards and job payments of the
  period and its cost the sum over the absolute slashings; and on every day of the series the
  margin is revenue minus cost.\<close>

theorem overview_totals:
  assumes "useAnalyticsOverview db iso8601 day now (Some u) = Inr o'"
    and "fetchValueFlowHistory db iso8601 day now u 30 = Inr (value_flow day txns)"
  shows "ov_totalRevenue o' = sum_by tx_eth (filter is_income txns) \<and>
    ov_totalCost o' = sum_by (\<lambda>t. js_abs (tx_eth t)) (filter (\<lambda>t. tx_type t = ''slashing'') txns) \<and>
    (\<forall>(d, f) \<in> set (value_flow day txns). margin f = js_sub (revenue f) (flow_cost f))"
proof -
  have filter_sum: "sum_list (map (\<lambda>x. if P x then g x else 0) xs) = sum_list (map g (filter P xs))"
    for P and g :: "transaction \<Rightarrow> jsnum" and xs
    by (induction xs) auto
  have totals: "sum_by (\<lambda>(d, f). revenue f) (value_flow day txns) = sum_by tx_eth (filter is_income txns)"
    "sum_by (\<lambda>(d, f). flow_cost f) (value_flow day txns) =
       sum_by (\<lambda>t. js_abs (tx_eth t)) (filter (\<lambda>t. tx_type t = ''slashing'') txns)"
    unfolding sum_by_sum_list value_flow_def case_prod_beta' flow_revenue.total flow_costs.total filter_sum
    by simp_all
  have "margin (fold flow_row ts e) = js_sub (revenue (fold flow_row ts e)) (flow_cost (fold flow_row ts e))"
    if "ts \<noteq> [] \<or> margin e = js_sub (revenue e) (flow_cost e)" for ts e
    using that by (induction ts arbitrary: e) (auto simp: flow_row_def Let_def)
  then have "margin f = js_sub (revenue f) (flow_cost f)" if "(d, f) \<in> set (value_flow day txns)" for d f
    using group_rows_entry[OF that[unfolded value_flow_def]] by blast
  moreover have "ov_totalRevenue o' = sum_by (\<lambda>(d, f). revenue f) (value_flow day txns) \<and>
      ov_totalCost o' = sum_by (\<lambda>(d, f). flow_cost f) (value_flow day txns)"
    using assms by (auto simp: useAnalyticsOverview_def split: sum.splits)
  ultimately show ?thesis
    using totals by auto
qed

definition sample_rows :: "assignment list" where
  "sample_rows = [
     \<lparr>asg_status = ''completed'', asg_node_id = None, asg_started_at = None, asg_job_created_at = ''Jan 1''\<rparr>,
     \<lparr>asg_status = ''failed'', asg_node_id = None, asg_started_at = Some ''Jan 2'', asg_job_created_at = ''Jan 1''\<rparr>]"


definition sample_txns :: "transaction list" where
  "sample_txns = [
     \<lparr>tx_id = ''1'', tx_type = ''job_payment'', amount_wei = Some ''2000000000000000000'', amount_usd = None,
      tx_hash = None, tx_created_at = ''Jan 1''\<rparr>]"

lemma overview_totals_witness:
  "\<exists>o'. useAnalyticsOverview (sample_db\<lparr>ask_transactions := \<lambda>_. Inr sample_txns\<rparr>) (\<lambda>_. '''') (\<lambda>s. s) 0 (Some ''u'') = Inr o' \<and>
     ov_totalRevenue o' = sum_by tx_eth sample_txns \<and> ov_totalCost o' = Fin 0"
proof -
  let ?db = "sample_db\<lparr>ask_transactions := \<lambda>_. Inr sample_txns\<rparr>"
  have f: "fetchValueFlowHistory ?db (\<lambda>_. '''') (\<lambda>s. s) 0 ''u'' 30 = Inr (value_flow (\<lambda>s. s) sample_txns)"
    by (simp add: fetchValueFlowHistory_def)
  then obtain o' where "useAnalyticsOverview ?db (\<lambda>_. '''') (\<lambda>s. s) 0 (Some ''u'') = Inr o'"
    by (auto simp: useAnalyticsOverview_def fetchNodeAnalytics_def fetchNodeAssignments_of_def
        fetchNodeTransactions_def sample_db_def truthy_str_def)
  with overview_totals[OF this f] show ?thesis
    by (auto simp: sample_txns_def is_income_def sum_by_def)
qed

text \<open>
  The database's check on the type of a transaction allows neither \<open>reward\<close> nor \<open>slashing\<close>, the
  types the code looks for: for stored rows the rewards, the slashings and the costs are zero.
\<close>

definition stored_tx_types :: "string list" where
  "stored_tx_types = [''stake_added'', ''stake_removed'', ''job_payment'', ''slashing_credit'',
     ''reward_payment'', ''topup'']"

text \<open>Also: for transactions that satisfy the database's check on their type, the rewards and slashings of
  a provider are always zero, and the value flow never shows a cost.\<close>

theorem rewards_never_counted:
  assumes "\<forall>t \<in> set txns. tx_type t \<in> set stored_tx_types"
  shows "totalRewardsEarned (node_summary since asgs txns ls) = Fin 0 \<and>
    totalSlashed (node_summary since asgs txns ls) = Fin 0 \<and>
    (\<forall>(d, f) \<in> set (value_flow day txns). flow_cost f = Fin 0)"
proof -
  have no: "filter (\<lambda>t. tx_type t = ''reward'') (filter P txns) = []"
    "filter (\<lambda>t. tx_type t = ''slashing'') (filter P txns) = []" for P
    using assms by (force simp: stored_tx_types_def filter_empty_conv)+
  have "flow_cost f = Fin 0" if "(d, f) \<in> set (value_flow day txns)" for d f
  proof -
    have "flow_cost f = sum_list (map (\<lambda>t. if tx_type t = ''slashing'' then js_abs (tx_eth t) else 0)
        (filter (\<lambda>t. day (tx_created_at t) = d) txns))"
      by (rule flow_costs.of_day[OF that[unfolded value_flow_def]])
    also have "\<dots> = sum_list (map (\<lambda>t. 0) (filter (\<lambda>t. day (tx_created_at t) = d) txns))"
      by (rule arg_cong[where f = sum_list], rule map_cong)
        (use assms in \<open>auto simp: stored_tx_types_def\<close>)
    finally show ?thesis by (simp add: zero_jsnum_def[symmetric])
  qed
  moreover have "\<lfloor>1 / 2 :: rat\<rfloor> = 0"
    by (rule floor_unique) auto
  ultimately show ?thesis
    by (auto simp: node_summary_def Let_def no sum_by_def round_to_def simp del: filter_filter)
qed

lemma rewards_never_counted_witness:
  "totalRewardsEarned (node_summary '''' [] sample_txns []) = Fin 0"
  using rewards_never_counted[of sample_txns "''''" "[]" "[]" "\<lambda>s. s"]
  by (simp add: sample_txns_def stored_tx_types_def)

end
