(* ===== verification/ListPages.thy ===== *)
theory ListPages
  imports AdminTables
begin

text \<open>
  The pages that list jobs and nodes, \<open>app/(dashboard)/jobs/page.tsx\<close> and \<open>app/(dashboard)/nodes/page.tsx\<close>,
  from the data of the hooks to the cells shown. \<open>None\<close> is an exception while rendering. The table of the
  jobs page is managed by a library (\<open>useReactTable\<close>): which rows its current page has is a parameter.
  \<open>num\<close> is the text of a number.
\<close>

text \<open>\<open>formatRelativeTime\<close> of both pages.\<close>

definition list_relative_time :: "jsnum \<Rightarrow> jsnum \<Rightarrow> string" where
  "list_relative_time now date =
     (let seconds = js_floor (js_div (js_sub now date) (Fin 1000)) in
      if js_lt seconds (Fin 60) then int_text seconds @ ''s ago''
      else if js_lt seconds (Fin 3600) then int_text (js_div seconds (Fin 60)) @ ''m ago''
      else if js_lt seconds (Fin 86400) then int_text (js_div seconds (Fin 3600)) @ ''h ago''
      else int_text (js_div seconds (Fin 86400)) @ ''d ago'')"

section \<open>Jobs\<close>

text \<open>The object \<open>mapJob\<close> returns, with the names its fields have at run time.\<close>

definition job_object :: "job \<Rightarrow> row" where
  "job_object j =
    [(''id'', Str (job_id j)), (''clientId'', Str (clientId j)),
     (''sla'', Obj [(''requiredUptime'', Num (requiredUptime (sla j))),
        (''requiredThroughput'', Num (requiredThroughput (sla j))), (''deadline'', Num (sla_deadline (sla j)))]),
     (''status'', Str (job_status j)), (''assignedNodes'', Arr (map Str (assignedNodes j))),
     (''checkpointRef'', Str (checkpointRef j)), (''progress'', Num (js_int (int (progress j)))),
     (''cost'', Num (cost j)), (''actualUptime'', Undefined), (''actualThroughput'', Undefined),
     (''createdAt'', Num (job_createdAt j)), (''deadline'', Num (deadline j))]"

definition progress_color :: "job \<Rightarrow> bar_color" where
  "progress_color j = (if job_status j = ''completed'' then BarActive
     else if job_status j = ''failed'' then BarSlashed else BarStale)"

record jobs_line =
  jl_id :: string
  jl_client :: string
  jl_badge :: string
  jl_sla :: string
  jl_nodes :: "string list"
  jl_progress :: "nat \<times> bar_color"
  jl_cost :: string
  jl_updated :: string

text \<open>A row of the table: the column of the service level reads \<open>slaUptime\<close>.\<close>

definition table_line :: "jsnum \<Rightarrow> job \<Rightarrow> jobs_line option" where
  "table_line now j = do {
     badge \<leftarrow> StatusBadge (Str (job_status j));
     up \<leftarrow> fixed 1 (get ''slaUptime'' (job_object j));
     Some \<lparr>jl_id = job_id j, jl_client = clientId j, jl_badge = badge, jl_sla = up @ ''%'', jl_nodes = assignedNodes j,
       jl_progress = (progress j, progress_color j), jl_cost = formatCost (cost j),
       jl_updated = list_relative_time now (job_createdAt j)\<rparr> }"

text \<open>The columns: heading and the key the cell and the sorting read.\<close>

definition jobs_columns :: "(string \<times> string) list" where
  "jobs_columns = [(''Job ID'', ''id''), (''Client'', ''clientId''), (''Status'', ''status''), (''SLA'', ''slaUptime''),
     (''Nodes'', ''assignedNodes''), (''Progress'', ''progress''), (''Cost'', ''cost''), (''Updated'', ''createdAt'')]"

text \<open>A card reads \<open>sla.requiredUptime\<close>; the nodes are the list itself, which React shows as its texts.\<close>

definition JobCard :: "jsnum \<Rightarrow> job \<Rightarrow> jobs_line option" where
  "JobCard now j = do {
     badge \<leftarrow> StatusBadge (Str (job_status j));
     Some \<lparr>jl_id = job_id j, jl_client = clientId j, jl_badge = badge,
       jl_sla = (let t = toFixed 1 (requiredUptime (sla j)) in if t = '''' then ''95'' else t) @ ''%'',
       jl_nodes = assignedNodes j, jl_progress = (progress j, progress_color j), jl_cost = formatCost (cost j),
       jl_updated = list_relative_time now (job_createdAt j)\<rparr> }"

record jobs_page =
  jp_cards :: bool
  jp_globalFilter :: string
  jp_statusFilter :: "string list"

definition jobs_page_init :: jobs_page where
  "jobs_page_init = \<lparr>jp_cards = False, jp_globalFilter = '''', jp_statusFilter = []\<rparr>"

datatype jobs_page_event = ShowCards bool | SearchJobs string | ToggleJobStatus string | RemoveJobPill

fun jobs_page_step :: "jobs_page_event \<Rightarrow> jobs_page \<Rightarrow> jobs_page" where
  "jobs_page_step (ShowCards b) s = s\<lparr>jp_cards := b\<rparr>"
| "jobs_page_step (SearchJobs q) s = s\<lparr>jp_globalFilter := q\<rparr>"
| "jobs_page_step (ToggleJobStatus v) s = s\<lparr>jp_statusFilter := toggle_job_status v (jp_statusFilter s)\<rparr>"
| "jobs_page_step RemoveJobPill s =
     (case active_pill (jp_statusFilter s) of None \<Rightarrow> s
      | Some pill \<Rightarrow> s\<lparr>jp_statusFilter := onRemovePill pill (jp_statusFilter s)\<rparr>)"

text \<open>The buttons that select statuses, and whether each is pressed.\<close>

definition job_status_buttons :: "jobs_page \<Rightarrow> (string \<times> bool) list" where
  "job_status_buttons s = map (\<lambda>v. (v, v \<in> set (jp_statusFilter s)))
     [''pending'', ''running'', ''completed'', ''failed'', ''requeued'']"

text \<open>The table library: the rows on the current page, and how many match, for the search text and the data.\<close>

record jobs_table =
  table_rows :: "string \<Rightarrow> job list \<Rightarrow> job list"
  table_found :: "string \<Rightarrow> job list \<Rightarrow> nat"
  pageIndex :: nat

definition pageSize :: nat where
  "pageSize = 15"

definition page_footer :: "jobs_table \<Rightarrow> string \<Rightarrow> job list \<Rightarrow> string" where
  "page_footer t q js = ''Showing '' @ show_nat (pageIndex t * pageSize + 1) @ '' to '' @
     show_nat (min ((pageIndex t + 1) * pageSize) (table_found t q js)) @ '' of '' @ show_nat (table_found t q js) @
     '' jobs''"

datatype jobs_content = JobsEmpty bool | JobsTable "jobs_line list" string | JobsCards "jobs_line list"

definition jobs_hasFilters :: "jobs_page \<Rightarrow> bool" where
  "jobs_hasFilters s \<longleftrightarrow> active_pill (jp_statusFilter s) \<noteq> None \<or> 0 < length (jp_globalFilter s)"

definition JobsPage :: "jobs_table \<Rightarrow> jsnum \<Rightarrow> job list option \<Rightarrow> jobs_page \<Rightarrow> jobs_content option" where
  "JobsPage t now data s =
     (let js = filteredJobs (jp_statusFilter s) data in
      if js = [] then Some (JobsEmpty (jobs_hasFilters s))
      else if jp_cards s then map_option JobsCards (those (map (JobCard now) js))
      else map_option (\<lambda>ls. JobsTable ls (page_footer t (jp_globalFilter s) js))
             (those (map (table_line now) (table_rows t (jp_globalFilter s) js))))"

section \<open>Nodes\<close>

record node_line =
  nl_id :: string
  nl_address :: string
  nl_badge :: string
  nl_tier :: reputation_tier
  nl_stake :: string
  nl_vram :: string
  nl_bar :: "jsnum \<times> bar_color"
  nl_cpu :: "string \<times> string"
  nl_region :: string
  nl_uptime :: string
  nl_jobs :: "string \<times> string option"
  nl_heartbeat :: "bool \<times> string"

definition NodeRow :: "(jsnum \<Rightarrow> string) \<Rightarrow> int \<Rightarrow> node_provider \<Rightarrow> node_line option" where
  "NodeRow num now n = do {
     badge \<leftarrow> StatusBadge (Str (status n));
     Some \<lparr>nl_id = np_id n, nl_address = address n, nl_badge = badge,
       nl_tier = badge_resolved_tier (Some (tier n)) (Some (reputation n)),
       nl_stake = formatStake (stakeAmount n) (stakeCurrency n),
       nl_vram = num (vramUsed n) @ ''/'' @ num (vramTotal n) @ ''GB'',
       nl_bar = (vramPercentage n, vram_color (vramPercentage n)), nl_cpu = (cpuModel n, num (cpuCores n) @ '' cores''),
       nl_region = region n, nl_uptime = num (uptime n) @ ''%'',
       nl_jobs = (num (totalJobsCompleted n) @ '' done'',
         if js_lt (Fin 0) (totalJobsFailed n) then Some (num (totalJobsFailed n) @ '' failed'') else None),
       nl_heartbeat = (row_isStale now n, list_relative_time (js_int now) (lastHeartbeat n))\<rparr> }"

record listed_card =
  ncd_title :: string
  ncd_badge :: string
  ncd_items :: "(string \<times> string) list"
  ncd_tier :: reputation_tier
  ncd_link :: string

definition NodeCard :: "(jsnum \<Rightarrow> string) \<Rightarrow> int \<Rightarrow> node_provider \<Rightarrow> listed_card option" where
  "NodeCard num now n = do {
     badge \<leftarrow> StatusBadge (Str (status n));
     Some \<lparr>ncd_title = np_id n, ncd_badge = badge,
       ncd_items = [(''Stake'', toFixed 1 (stakeAmount n) @ '' ETH''), (''CPU'', num (cpuCores n) @ '' cores''),
         (''VRAM'', num (vramUsed n) @ ''/'' @ num (vramTotal n) @ '' GB''), (''Region'', region n),
         (''Heartbeat'', list_relative_time (js_int now) (lastHeartbeat n))],
       ncd_tier = badge_resolved_tier (Some (badge_getReputationTier (reputation n))) (Some (reputation n)),
       ncd_link = ''/nodes/'' @ np_id n\<rparr> }"

text \<open>The ribbon above the list: a label, a value, and whether an arrow points up, down or neither.\<close>

definition NetworkMetricsRibbon :: "(jsnum \<Rightarrow> string) \<Rightarrow> network_stats \<Rightarrow> (string \<times> string \<times> bool option) list" where
  "NetworkMetricsRibbon num st =
    [(''Total Nodes'', show_nat (totalNodes st), Some (ribbon_trend_up st)),
     (''Total Staked'', toFixed 0 (totalStaked st), Some True),
     (''Available VRAM'', num (availableVRAM st) @ ''GB'', None),
     (''Avg Reputation'', num (averageReputation st), Some (js_lt (Fin 50) (averageReputation st))),
     (''Gold Tier'', show_nat (goldTierCount st), None), (''Silver Tier'', show_nat (silverTierCount st), None),
     (''Bronze Tier'', show_nat (bronzeTierCount st), None), (''Unranked'', show_nat (unrankedTierCount st), None)]"

text \<open>The headings, the field a click sorts by, and the arrow of the field sorted by (\<open>Some True\<close>: upwards).\<close>

definition node_columns :: "(string \<times> sort_field option) list" where
  "node_columns = [(''Node'', Some FId), (''Status'', None), (''Tier'', Some FTier), (''Stake'', Some FStakeAmount),
     (''Hardware'', None), (''CPU'', None), (''Region'', Some FRegion), (''Uptime'', Some FUptime), (''Jobs'', None),
     (''Heartbeat'', Some FLastHeartbeat)]"

definition heading_arrows :: "node_list \<Rightarrow> (string \<times> bool option) list" where
  "heading_arrows s = map (\<lambda>(l, f). (l, if f = Some (sortField s) then Some (sortDir s = Asc) else None)) node_columns"

definition StatusFilterPills :: "node_list \<Rightarrow> (string \<times> bool) list" where
  "StatusFilterPills s = map (\<lambda>v. (v, v \<in> set (statusFilter s))) [''online'', ''stale'', ''offline'', ''slashed'']"

text \<open>The line above the list while something is filtered.\<close>

definition filter_note :: "node_list \<Rightarrow> nat \<Rightarrow> node_provider list option \<Rightarrow> string option" where
  "filter_note s shown data =
     (if searchQuery s \<noteq> '''' \<or> statusFilter s \<noteq> []
      then Some (''Showing '' @ show_nat shown @ '' of '' @
        show_nat (case data of None \<Rightarrow> 0 | Some ns \<Rightarrow> length ns) @ '' nodes'')
      else None)"

datatype nodes_content = NodesLoading | NodesEmpty | NodesTable "node_line list" string string | NodesCards "listed_card list"

definition NodesPage ::
  "(jsnum \<Rightarrow> string) \<Rightarrow> (string \<Rightarrow> string \<Rightarrow> int) \<Rightarrow> int \<Rightarrow> bool \<Rightarrow> bool \<Rightarrow> node_provider list option \<Rightarrow>
     network_stats option \<Rightarrow> node_list \<Rightarrow> nodes_content option" where
  "NodesPage num lc now isMobile isLoading data stats s =
     (let ns = filteredNodes lc s data in
      if table_view s \<or> \<not> isMobile then
        (if isLoading then Some NodesLoading
         else if ns = [] then Some NodesEmpty
         else map_option (\<lambda>ls. NodesTable ls (''Showing '' @ show_nat (length ns) @ '' nodes'')
             (case stats of None \<Rightarrow> '' ETH'' | Some st \<Rightarrow> toFixed 2 (totalStaked st) @ '' ETH''))
           (those (map (NodeRow num now) ns)))
      else map_option NodesCards (those (map (NodeCard num now) ns)))"

section \<open>Lemmas\<close>

lemma floor_scaled: "\<lfloor>of_int a / (of_int b :: rat)\<rfloor> = a div b"
  by (rule floor_divide_of_int_eq)

lemma list_relative_time_int: "list_relative_time (js_int now) (js_int ts) = formatRelativeTime now ts"
proof -
  have s: "js_floor (js_div (js_sub (js_int now) (js_int ts)) (Fin 1000)) = js_int ((now - ts) div 1000)"
    using floor_scaled[of "now - ts" 1000] by (simp add: js_sub_def)
  have whole: "int_text (js_int k) = show_int k" "int_text (js_div (js_int k) (Fin (numeral b))) = show_int (k div numeral b)"
    for k :: int and b :: num
    using floor_scaled[of k "numeral b"] by (simp_all add: int_text_def)
  have less: "js_lt (js_int k) (Fin (numeral b)) \<longleftrightarrow> k < numeral b" for k :: int and b :: num
    by simp
  show ?thesis
    by (simp only: list_relative_time_def formatRelativeTime_def s Let_def whole less)
qed

lemma no_slaUptime: "get ''slaUptime'' (job_object j) = Undefined"
  by (simp add: job_object_def get_def)

lemma table_line_throws: "table_line now j = None"
  by (simp add: table_line_def no_slaUptime fixed_def bind_eq_None_conv)

lemma all_throw: "xs \<noteq> [] \<Longrightarrow> (\<And>x. x \<in> set xs \<Longrightarrow> f x = None) \<Longrightarrow> those (map f xs) = None"
  by (cases xs) auto

lemma none_throws: "(\<And>x. x \<in> set xs \<Longrightarrow> f x = Some (g x)) \<Longrightarrow> those (map f xs) = Some (map g xs)"
  by (induction xs) auto

text \<open>What a card or a row shows when its badge exists.\<close>

definition job_badge_known :: "job \<Rightarrow> bool" where
  "job_badge_known j \<longleftrightarrow> StatusBadge (Str (job_status j)) \<noteq> None"

lemma JobCard_shown: "job_badge_known j \<Longrightarrow> JobCard now j = Some (the (JobCard now j)) \<and> jl_id (the (JobCard now j)) = job_id j"
  by (auto simp: JobCard_def job_badge_known_def)

lemma NodeRow_shown:
  assumes "status n \<in> set NodeStatus"
  shows "NodeRow num now n = Some (the (NodeRow num now n))" "nl_id (the (NodeRow num now n)) = np_id n"
    "NodeCard num now n = Some (the (NodeCard num now n))" "ncd_title (the (NodeCard num now n)) = np_id n"
  using assms by (auto simp: NodeStatus_def NodeRow_def NodeCard_def StatusBadge_def lookup_def badge_labels_def)

lemma set_array_sort: "set (array_sort cmp xs) = set xs"
  by (metis mset_array_sort set_mset_mset)

lemma filteredNodes_subset: "set (filteredNodes lc s (Some ns)) \<subseteq> set ns"
  by (auto simp: filteredNodes_def Let_def set_array_sort)

section \<open>Properties\<close>


definition sample_jobs_table :: jobs_table where
  "sample_jobs_table = \<lparr>table_rows = \<lambda>q js. take pageSize (filter (\<lambda>j. str_includes (to_lower (job_id j)) (to_lower q)) js),
     table_found = \<lambda>q js. length (filter (\<lambda>j. str_includes (to_lower (job_id j)) (to_lower q)) js), pageIndex = 0\<rparr>"

definition sample_listed_job :: job where
  "sample_listed_job = \<lparr>job_id = ''j1'', clientId = ''c1'',
     sla = \<lparr>requiredUptime = Fin 95, requiredThroughput = Fin 100, sla_deadline = Fin 0\<rparr>, job_status = ''running'',
     assignedNodes = [], checkpointRef = '''', progress = 50, cost = Fin 1, actualUptime = None,
     actualThroughput = None, job_createdAt = Fin 0, deadline = Fin 0\<rparr>"


text \<open>Also: the page of the nodes never throws for nodes the database admits: after loading it shows the
  matching nodes, in the chosen order, as rows, or on a small screen after a switch as cards, each linked
  to its page; when nothing matches it says that no nodes are registered, although there may be some.\<close>

theorem nodes_page_shown:
  fixes pd :: "string \<Rightarrow> jsnum" and lc :: "string \<Rightarrow> string \<Rightarrow> int" and s :: node_list
  assumes "list_all (\<lambda>n. dn_status n \<in> set stored_node_status) rows"
  defines "data \<equiv> Some (map (mapNode pd) rows)"
  defines "ns \<equiv> filteredNodes lc s data"
  shows "\<exists>v. NodesPage num lc now isMobile False data stats s = Some v \<and>
    (if table_view s \<or> \<not> isMobile
     then (if ns = [] then v = NodesEmpty else \<exists>ls a b. v = NodesTable ls a b \<and> map nl_id ls = map np_id ns)
     else \<exists>cs. v = NodesCards cs \<and> map ncd_title cs = map np_id ns)"
proof -
  have known: "status n \<in> set NodeStatus" if "n \<in> set ns" for n
    using that assms(1) filteredNodes_subset[of lc s "map (mapNode pd) rows"] stored_node_typed[of _ pd]
    by (auto simp: ns_def data_def list_all_iff)
  have "those (map (NodeRow num now) ns) = Some (map (\<lambda>n. the (NodeRow num now n)) ns)"
      "those (map (NodeCard num now) ns) = Some (map (\<lambda>n. the (NodeCard num now n)) ns)"
    using NodeRow_shown(1,3)[OF known] by (auto intro: none_throws)
  moreover have "map (\<lambda>n. nl_id (the (NodeRow num now n))) ns = map np_id ns"
      "map (\<lambda>n. ncd_title (the (NodeCard num now n))) ns = map np_id ns"
    using NodeRow_shown(2,4)[OF known] by auto
  ultimately show ?thesis
    by (auto simp: NodesPage_def Let_def ns_def comp_def)
qed

text \<open>Also: the heading of the field sorted by carries the only arrow, except at the beginning, when the list
  is sorted by reputation, which has no heading, so a list once sorted by a heading is never shown in its
  first order again; two of the four status filters of the nodes and one of the five of the jobs
  select nothing the database stores.\<close>

theorem list_controls:
  "length (filter (\<lambda>c. snd c \<noteq> None) (heading_arrows s)) = (if Some (sortField s) \<in> snd ` set node_columns then 1 else 0) \<and>
   (fs \<noteq> [] \<longrightarrow> set (map Some fs) \<subseteq> snd ` set node_columns \<longrightarrow>
      sortField (fold handleSort fs node_list_init) \<noteq> sortField node_list_init) \<and>
   filter (\<lambda>v. v \<notin> set stored_node_status) (map fst (StatusFilterPills s)) = [''stale'', ''slashed''] \<and>
   filter (\<lambda>v. v \<notin> set stored_job_status) (map fst (job_status_buttons p)) = [''requeued''] \<and>
   filter (\<lambda>c. get (snd c) (job_object j) = Undefined) jobs_columns = [(''SLA'', ''slaUptime'')]"
proof (intro conjI impI)
  show "length (filter (\<lambda>c. snd c \<noteq> None) (heading_arrows s)) =
      (if Some (sortField s) \<in> snd ` set node_columns then 1 else 0)"
    by (cases "sortField s") (simp_all add: heading_arrows_def node_columns_def)
  assume "fs \<noteq> []" and columns: "set (map Some fs) \<subseteq> snd ` set node_columns"
  have "sortField (fold handleSort (fs @ [f]) t) = f" for fs f t
    by (simp add: handleSort_def)
  then have "sortField (fold handleSort fs node_list_init) = last fs"
    using \<open>fs \<noteq> []\<close> by (metis append_butlast_last_id)
  moreover have "Some (last fs) \<in> snd ` set node_columns"
    using columns last_in_set[OF \<open>fs \<noteq> []\<close>] by auto
  ultimately show "sortField (fold handleSort fs node_list_init) \<noteq> sortField node_list_init"
    by (auto simp: node_columns_def node_list_init_def)
qed (simp_all add: StatusFilterPills_def job_status_buttons_def stored_node_status_def stored_job_status_def
    jobs_columns_def job_object_def get_def)

lemma list_controls_witness: "sortField (fold handleSort [FTier, FUptime] node_list_init) \<noteq> sortField node_list_init"
  using list_controls[of node_list_init "[FTier, FUptime]"] by (simp add: node_columns_def)

text \<open>A node that never reported is shown as if it had reported at the beginning of 1970.\<close>

lemma never_reported_heartbeat:
  "last_heartbeat_at n = None \<Longrightarrow> list_relative_time (js_int now) (lastHeartbeat (mapNode pd n)) = formatRelativeTime now 0"
  using list_relative_time_int[of now 0] by (simp add: mapNode_def truthy_str_def)

end
