(* ===== verification/ToastStore.thy ===== *)
theory ToastStore
  imports Domain
begin

text \<open>
  The two toast stores: \<open>hooks/use-toast.ts\<close>, which the realtime hooks call, and
  \<open>components/ui/toast.tsx\<close>, which the dashboard's \<open>ToastContainer\<close> renders. They have the same
  operations on module state of their own: the toasts, the listeners (the state setters of mounted
  components, identified by a number), and the timers that remove a toast. The random identifier
  is an argument of \<open>addToast\<close>; the scheduler decides which pending timer fires.
\<close>

datatype toast_variant = TSuccess | TError | TWarning | TInfo

record toast_input =
  variant :: toast_variant
  ttitle :: string
  tmessage :: "string option"
  duration :: "int option"

record toast = toast_input +
  tid :: string

text \<open>\<open>views l\<close> is what listener \<open>l\<close> was last given; \<open>timers\<close> are pending removals.\<close>

record toast_store =
  toasts :: "toast list"
  listeners :: "nat list"
  views :: "nat \<Rightarrow> toast list"
  timers :: "string list"

definition toast_init :: toast_store where
  "toast_init = \<lparr>toasts = [], listeners = [], views = (\<lambda>_. []), timers = []\<rparr>"

definition notifyListeners :: "toast_store \<Rightarrow> toast_store" where
  [handler_defs]: "notifyListeners s =
     s\<lparr>views := (\<lambda>l. if l \<in> set (listeners s) then toasts s else views s l)\<rparr>"

definition addToast :: "string \<Rightarrow> toast_input \<Rightarrow> toast_store \<Rightarrow> toast_store" where
  [handler_defs]: "addToast k t s =
     (let s1 = notifyListeners (s\<lparr>toasts := toasts s @ [toast_input.extend t \<lparr>tid = k\<rparr>]\<rparr>);
          d = (case duration t of Some n \<Rightarrow> n | None \<Rightarrow> 5000)
      in if 0 < d then s1\<lparr>timers := timers s1 @ [k]\<rparr> else s1)"

definition removeToast :: "string \<Rightarrow> toast_store \<Rightarrow> toast_store" where
  [handler_defs]: "removeToast k s = notifyListeners (s\<lparr>toasts := filter (\<lambda>t. tid t \<noteq> k) (toasts s)\<rparr>)"

definition clearToasts :: "toast_store \<Rightarrow> toast_store" where
  [handler_defs]: "clearToasts s = notifyListeners (s\<lparr>toasts := []\<rparr>)"

text \<open>Mounting and unmounting a component that uses the store.\<close>

definition toast_mount :: "nat \<Rightarrow> toast_store \<Rightarrow> toast_store" where
  [handler_defs]: "toast_mount l s =
     s\<lparr>listeners := (if l \<in> set (listeners s) then listeners s else listeners s @ [l]),
       views := (views s)(l := toasts s)\<rparr>"

definition toast_unmount :: "nat \<Rightarrow> toast_store \<Rightarrow> toast_store" where
  [handler_defs]: "toast_unmount l s = s\<lparr>listeners := filter (\<lambda>x. x \<noteq> l) (listeners s)\<rparr>"

definition toast_fire :: "string \<Rightarrow> toast_store \<Rightarrow> toast_store" where
  [handler_defs]: "toast_fire k s = removeToast k (s\<lparr>timers := remove1 k (timers s)\<rparr>)"

datatype toast_event =
    AddToast string toast_input
  | Dismiss string
  | ClearToasts
  | Mount nat
  | Unmount nat
  | Fire string

fun toast_step :: "toast_event \<Rightarrow> toast_store \<Rightarrow> toast_store" where
  "toast_step (AddToast k t) s = addToast k t s"
| "toast_step (Dismiss k) s = removeToast k s"
| "toast_step ClearToasts s = clearToasts s"
| "toast_step (Mount l) s = toast_mount l s"
| "toast_step (Unmount l) s = toast_unmount l s"
| "toast_step (Fire k) s = toast_fire k s"

text \<open>A new identifier is not in use, and only pending timers fire.\<close>

fun toast_ok :: "toast_event \<Rightarrow> toast_store \<Rightarrow> bool" where
  "toast_ok (AddToast k t) s = (k \<notin> tid ` set (toasts s) \<and> k \<notin> set (timers s))"
| "toast_ok (Fire k) s = (k \<in> set (timers s))"
| "toast_ok _ s = True"

text \<open>A toast that is shown for a limited time: its duration, or the default, is positive.\<close>

definition transient :: "toast \<Rightarrow> bool" where
  "transient t \<longleftrightarrow> (case duration t of Some n \<Rightarrow> 0 < n | None \<Rightarrow> True)"

definition toast_inv :: "toast_store \<Rightarrow> bool" where
  "toast_inv s \<longleftrightarrow>
     distinct (map tid (toasts s)) \<and>
     (\<forall>l \<in> set (listeners s). views s l = toasts s) \<and>
     (\<forall>t \<in> set (toasts s). transient t \<longrightarrow> tid t \<in> set (timers s))"

lemma toast_extend_simps [simp]:
  "tid (toast_input.extend t \<lparr>tid = k\<rparr>) = k"
  "duration (toast_input.extend t \<lparr>tid = k\<rparr>) = duration t"
  by (simp_all add: toast_input.defs)

lemma toast_inv_step: "toast_inv s \<Longrightarrow> toast_ok e s \<Longrightarrow> toast_inv (toast_step e s)"
proof (cases e)
  case (AddToast k t)
  assume "toast_inv s" "toast_ok e s"
  with AddToast show ?thesis
    by (cases "duration t") (auto simp: toast_inv_def handler_defs Let_def transient_def)
next
  case (Fire k)
  assume "toast_inv s" "toast_ok e s"
  with Fire show ?thesis
    by (auto simp: toast_inv_def handler_defs distinct_map_filter)
qed (auto simp: toast_inv_def handler_defs distinct_map_filter)

interpretation toast: guarded_machine toast_step toast_ok toast_inv toast_init
  by unfold_locales (auto simp: toast_inv_step, simp add: toast_inv_def toast_init_def)

interpretation toast_list: keyed_store tid toasts removeToast
  "\<lambda>t s. notifyListeners (s\<lparr>toasts := toasts s @ [t]\<rparr>)"
  by unfold_locales (simp_all add: handler_defs)

text \<open>When no timer is pending any more, only toasts without a time limit are left.\<close>

lemma toasts_expire: "toast_inv s \<Longrightarrow> timers s = [] \<Longrightarrow> t \<in> set (toasts s) \<Longrightarrow> \<not> transient t"
  by (auto simp: toast_inv_def)

section \<open>Two stores side by side\<close>

record toast_world =
  hook_store :: toast_store
  ui_toast_store :: toast_store

datatype world_event = HookEvent toast_event | UiEvent toast_event

fun world_step :: "world_event \<Rightarrow> toast_world \<Rightarrow> toast_world" where
  "world_step (HookEvent e) w = w\<lparr>hook_store := toast_step e (hook_store w)\<rparr>"
| "world_step (UiEvent e) w = w\<lparr>ui_toast_store := toast_step e (ui_toast_store w)\<rparr>"

definition world_init :: toast_world where
  "world_init = \<lparr>hook_store = toast_init, ui_toast_store = toast_init\<rparr>"

text \<open>\<open>ToastContainer\<close>, listener \<open>l\<close> of the store in \<open>components/ui/toast.tsx\<close>, renders its view.\<close>

definition container_toasts :: "nat \<Rightarrow> toast_world \<Rightarrow> toast list" where
  "container_toasts l w = views (ui_toast_store w) l"

fun is_ui_event :: "world_event \<Rightarrow> bool" where
  "is_ui_event (UiEvent e) = True"
| "is_ui_event (HookEvent e) = False"

lemma hook_events_invisible:
  "ui_toast_store (fold world_step es w) = ui_toast_store (fold world_step (filter is_ui_event es) w)"
proof (induction es arbitrary: w)
  case (Cons e es)
  have frame: "ui_toast_store (fold world_step fs v) = ui_toast_store (fold world_step fs w)"
    if "ui_toast_store v = ui_toast_store w" "list_all is_ui_event fs" for fs v w
    using that
  proof (induction fs arbitrary: v w)
    case (Cons f fs)
    show ?case
      by (cases f) (use Cons.prems in \<open>auto intro!: Cons.IH\<close>)
  qed simp
  show ?case
  proof (cases e)
    case (HookEvent h)
    have "ui_toast_store (fold world_step (filter is_ui_event es) (world_step e w)) =
        ui_toast_store (fold world_step (filter is_ui_event es) w)"
      by (rule frame) (auto simp: HookEvent list_all_iff)
    with HookEvent show ?thesis by (simp add: Cons.IH)
  qed (simp add: Cons.IH)
qed simp

section \<open>Properties\<close>

text \<open>C11: in every reachable state of the toast store every mounted component shows exactly the current
  toasts, identifiers are unique, and every toast with a time limit (five seconds unless given) has
  its removal pending; so once no timer is pending only toasts without a limit are shown.\<close>

theorem toasts_shown_and_expiring:
  assumes "legal_run toast_step toast_ok es toast_init"
  defines "s \<equiv> fold toast_step es toast_init"
  shows "(l \<in> set (listeners s) \<longrightarrow> views s l = toasts s) \<and> distinct (map tid (toasts s)) \<and>
    (t \<in> set (toasts s) \<and> transient t \<longrightarrow> tid t \<in> set (timers s)) \<and>
    (timers s = [] \<longrightarrow> \<not> list_ex transient (toasts s))"
proof -
  have inv: "toast_inv s" unfolding s_def by (rule toast.inv_legal_init[OF assms(1)])
  then have "timers s = [] \<longrightarrow> \<not> list_ex transient (toasts s)"
    using toasts_expire by (auto simp: list_ex_iff)
  with inv show ?thesis by (simp add: toast_inv_def)
qed

definition saved_toast :: toast_input where
  "saved_toast = \<lparr>variant = TSuccess, ttitle = ''Saved'', tmessage = None, duration = None\<rparr>"

theorem toasts_shown_and_expiring_witness:
  "\<not> list_ex transient (toasts (fold toast_step [Mount 0, AddToast ''a'' saved_toast, Fire ''a''] toast_init))"
proof -
  have "legal_run toast_step toast_ok [Mount 0, AddToast ''a'' saved_toast, Fire ''a''] toast_init"
    by (simp add: handler_defs toast_init_def saved_toast_def Let_def)
  from toasts_shown_and_expiring[OF this] show ?thesis
    by (simp add: handler_defs toast_init_def saved_toast_def Let_def)
qed

end
