(* ===== verification/Realtime.thy ===== *)
theory Realtime
  imports ToastStore
begin

text \<open>
  The realtime hooks \<open>hooks/use-sse-job.ts\<close>, \<open>hooks/use-sse-node.ts\<close> and
  \<open>hooks/use-sse-alert.ts\<close>. Each subscribes to row changes of one table; a handler turns the new
  row into an update, pushes it on a bounded feed, raises a toast for some of them and passes the
  update to the caller. The channel that delivers the rows is the database client's; a handler is
  a function of the row it is given. \<open>None\<close> is a row without data, which a deletion delivers
  (\<open>payload.new\<close> is then the empty object).
\<close>

section \<open>Job updates\<close>

record job_row =
  jr_id :: string
  jr_status :: string

record job_update =
  ju_jobId :: "string option"
  ju_status :: "string option"
  ju_progress :: "nat"

definition plain_toast :: "toast_variant \<Rightarrow> string \<Rightarrow> string \<Rightarrow> toast_input" where
  "plain_toast v t m = \<lparr>variant = v, ttitle = t, tmessage = Some m, duration = None\<rparr>"

definition job_update_of :: "job_row option \<Rightarrow> job_update" where
  "job_update_of r =
     \<lparr>ju_jobId = map_option jr_id r,
      ju_status = map_option jr_status r,
      ju_progress =
        (if map_option jr_status r = Some ''completed'' then 100
         else if map_option jr_status r = Some ''running'' then 50 else 0)\<rparr>"

definition job_push :: "job_update \<Rightarrow> job_update list \<Rightarrow> job_update list" where
  "job_push u prev = take 100 (u # prev)"

definition job_toast :: "job_row option \<Rightarrow> toast_input option" where
  "job_toast r = (case r of None \<Rightarrow> None | Some j \<Rightarrow>
     if jr_status j = ''completed''
       then Some (plain_toast TSuccess ''Job Completed''
         (''Job '' @ slice_first 8 (jr_id j) @ '' finished successfully''))
     else if jr_status j = ''failed''
       then Some (plain_toast TError ''Job Failed''
         (''Job '' @ slice_first 8 (jr_id j) @ '' encountered an error''))
     else None)"

section \<open>Node updates\<close>

record node_row =
  nr_id :: string
  nr_status :: string
  nr_vram_total_mb :: "jsnum option"
  nr_reputation_score :: "jsnum option"

record node_update =
  nu_nodeId :: "string option"
  nu_status :: "string option"
  nu_vramTotal :: "jsnum option"
  nu_reputation :: "jsnum option"

definition node_update_of :: "node_row option \<Rightarrow> node_update" where
  "node_update_of r =
     \<lparr>nu_nodeId = map_option nr_id r,
      nu_status = map_option nr_status r,
      nu_vramTotal = Option.bind r nr_vram_total_mb,
      nu_reputation = Option.bind r nr_reputation_score\<rparr>"

definition node_push :: "node_update \<Rightarrow> node_update list \<Rightarrow> node_update list" where
  "node_push u prev =
     (let filtered = filter (\<lambda>v. nu_nodeId v \<noteq> nu_nodeId u) prev in take 50 (u # filtered))"

definition node_toast :: "node_row option \<Rightarrow> toast_input option" where
  "node_toast r = (case r of None \<Rightarrow> None | Some n \<Rightarrow>
     if nr_status n = ''offline''
       then Some (plain_toast TError ''Node Offline''
         (''Node '' @ slice_first 8 (nr_id n) @ '' went offline''))
     else if nr_status n = ''stale''
       then Some (plain_toast TWarning ''Node Stale''
         (''Node '' @ slice_first 8 (nr_id n) @ '' has stale heartbeats''))
     else None)"

section \<open>Alerts\<close>

record alert_row =
  ar_id :: string
  ar_severity :: string
  ar_message :: string
  ar_node_id :: "string option"
  ar_job_id :: "string option"
  ar_created_at :: string

record alert_item =
  al_id :: string
  al_severity :: string
  al_title :: string
  al_message :: string
  al_timestamp :: jsnum
  al_metadata :: "(string \<times> string) list"
  al_dismissed :: bool

text \<open>\<open>parseDate\<close> is \<open>new Date(s).getTime()\<close>, which is \<open>NaN\<close> when the string is not a date.\<close>

definition alert_of :: "(string \<Rightarrow> jsnum) \<Rightarrow> alert_row \<Rightarrow> alert_item" where
  "alert_of parseDate a =
     \<lparr>al_id = ar_id a, al_severity = ar_severity a, al_title = ''Alert: '' @ ar_severity a,
      al_message = ar_message a, al_timestamp = parseDate (ar_created_at a),
      al_metadata = [(''node_id'', case ar_node_id a of Some s \<Rightarrow> s | None \<Rightarrow> ''''),
                     (''job_id'', case ar_job_id a of Some s \<Rightarrow> s | None \<Rightarrow> '''')],
      al_dismissed = False\<rparr>"

definition alert_push :: "alert_item \<Rightarrow> alert_item list \<Rightarrow> alert_item list" where
  "alert_push a prev = take 50 (a # prev)"

definition alert_toast :: "alert_item \<Rightarrow> toast_input" where
  "alert_toast a =
     plain_toast (if al_severity a = ''critical'' then TError
                  else if al_severity a = ''warning'' then TWarning else TInfo)
       (al_title a) (al_message a)"

definition dismissAlert :: "string \<Rightarrow> alert_item list \<Rightarrow> alert_item list" where
  "dismissAlert k prev = map (\<lambda>a. if al_id a = k then a\<lparr>al_dismissed := True\<rparr> else a) prev"

definition clearAlerts :: "alert_item list \<Rightarrow> alert_item list" where
  "clearAlerts prev = []"

definition activeAlerts :: "alert_item list \<Rightarrow> alert_item list" where
  "activeAlerts xs = filter (\<lambda>a. \<not> al_dismissed a) xs"

section \<open>The hooks together\<close>

text \<open>
  The feeds of the three hooks and the two toast stores. The random identifier of a toast is part
  of the event. \<open>rt_emit\<close> is \<open>toast.success(...)\<close> and its siblings of \<open>hooks/use-toast.ts\<close>.
\<close>

record realtime =
  job_updates :: "job_update list"
  node_updates :: "node_update list"
  alerts :: "alert_item list"
  world :: toast_world

datatype realtime_event =
    JobChange "job_row option" string
  | NodeChange "node_row option" string
  | AlertInsert alert_row string
  | DismissAlert string
  | ClearAlerts

definition rt_emit :: "string \<Rightarrow> toast_input option \<Rightarrow> realtime \<Rightarrow> realtime" where
  "rt_emit k t s = (case t of None \<Rightarrow> s
     | Some i \<Rightarrow> s\<lparr>world := world_step (HookEvent (AddToast k i)) (world s)\<rparr>)"

fun realtime_step :: "(string \<Rightarrow> jsnum) \<Rightarrow> realtime_event \<Rightarrow> realtime \<Rightarrow> realtime" where
  "realtime_step pd (JobChange r k) s =
     rt_emit k (job_toast r) (s\<lparr>job_updates := job_push (job_update_of r) (job_updates s)\<rparr>)"
| "realtime_step pd (NodeChange r k) s =
     rt_emit k (node_toast r) (s\<lparr>node_updates := node_push (node_update_of r) (node_updates s)\<rparr>)"
| "realtime_step pd (AlertInsert a k) s =
     rt_emit k (Some (alert_toast (alert_of pd a)))
       (s\<lparr>alerts := alert_push (alert_of pd a) (alerts s)\<rparr>)"
| "realtime_step pd (DismissAlert k) s = s\<lparr>alerts := dismissAlert k (alerts s)\<rparr>"
| "realtime_step pd ClearAlerts s = s\<lparr>alerts := clearAlerts (alerts s)\<rparr>"

definition realtime_init :: realtime where
  "realtime_init = \<lparr>job_updates = [], node_updates = [], alerts = [], world = world_init\<rparr>"

interpretation job_feed: bounded_feed job_push 100 "\<lambda>_ _. True"
  by unfold_locales (simp_all add: job_push_def)

interpretation node_feed: bounded_feed node_push 50 "\<lambda>u v. nu_nodeId v \<noteq> nu_nodeId u"
  by unfold_locales (simp_all add: node_push_def)

interpretation alert_feed: bounded_feed alert_push 50 "\<lambda>_ _. True"
  by unfold_locales (simp_all add: alert_push_def)

definition realtime_inv :: "realtime \<Rightarrow> bool" where
  "realtime_inv s \<longleftrightarrow> length (job_updates s) \<le> 100 \<and> length (node_updates s) \<le> 50 \<and>
     length (alerts s) \<le> 50 \<and> distinct (map nu_nodeId (node_updates s))"

lemma rt_emit_frame [simp]:
  "job_updates (rt_emit k t s) = job_updates s" "node_updates (rt_emit k t s) = node_updates s"
  "alerts (rt_emit k t s) = alerts s"
  "ui_toast_store (world (rt_emit k t s)) = ui_toast_store (world s)"
  by (simp_all add: rt_emit_def split: option.splits)

lemma node_push_distinct:
  "distinct (map nu_nodeId xs) \<Longrightarrow> distinct (map nu_nodeId (node_push u xs))"
  unfolding node_push_def Let_def take_map[symmetric]
  by (rule distinct_take) (auto simp: distinct_map_filter)

interpretation realtime: state_machine "realtime_step pd" realtime_inv realtime_init
proof
  show "realtime_inv realtime_init" by (simp add: realtime_inv_def realtime_init_def)
  show "realtime_inv (realtime_step pd e s)" if "realtime_inv s" for e s
    using that job_feed.push_bound node_feed.push_bound alert_feed.push_bound
    by (cases e)
      (auto simp: realtime_inv_def node_push_distinct dismissAlert_def clearAlerts_def)
qed

text \<open>A node's entry is its last update.\<close>

lemma node_feed_last:
  "u \<in> set (fold node_push us xs) \<Longrightarrow>
   (u \<in> set xs \<and> nu_nodeId u \<notin> nu_nodeId ` set us) \<or>
   (\<exists>pre post. us = pre @ u # post \<and> nu_nodeId u \<notin> nu_nodeId ` set post)"
proof (induction us arbitrary: xs)
  case (Cons v us)
  from Cons.IH[of "node_push v xs"] Cons.prems consider
    (old) "u \<in> set (node_push v xs)" "nu_nodeId u \<notin> nu_nodeId ` set us"
  | (new) pre post where "us = pre @ u # post" "nu_nodeId u \<notin> nu_nodeId ` set post"
    by auto
  then show ?case
  proof cases
    case old
    then have "u = v \<or> (u \<in> set xs \<and> nu_nodeId u \<noteq> nu_nodeId v)"
      using set_take_subset[of 50 "v # filter (\<lambda>w. nu_nodeId w \<noteq> nu_nodeId v) xs"]
      by (auto simp: node_push_def Let_def)
    with old(2) show ?thesis by (auto intro: exI[of _ "[]"])
  next
    case new
    then show ?thesis by (metis append_Cons)
  qed
qed simp

lemma active_dismiss: "activeAlerts (dismissAlert k xs) = filter (\<lambda>a. al_id a \<noteq> k) (activeAlerts xs)"
  by (induction xs) (auto simp: activeAlerts_def dismissAlert_def)

interpretation alert_list: keyed_collection al_id activeAlerts dismissAlert
  by unfold_locales (rule active_dismiss)

lemma realtime_toasts_unseen:
  "ui_toast_store (world (fold (realtime_step pd) es s)) = ui_toast_store (world s)"
proof (induction es arbitrary: s)
  case (Cons e es)
  have "ui_toast_store (world (realtime_step pd e s)) = ui_toast_store (world s)"
    by (cases e) simp_all
  with Cons.IH[of "realtime_step pd e s"] show ?case by simp
qed simp

section \<open>Properties\<close>

text \<open>Also: the realtime feeds stay bounded (100 job updates, 50 node updates, 50 alerts) through any sequence
  of events, and the node feed holds at most one entry per node.\<close>

theorem feeds_bounded:
  "let s = fold (realtime_step pd) es realtime_init in
     length (job_updates s) \<le> 100 \<and> length (node_updates s) \<le> 50 \<and> length (alerts s) \<le> 50 \<and>
     distinct (map nu_nodeId (node_updates s))"
  using realtime.inv_reachable[of pd es] by (simp add: realtime_inv_def Let_def)

text \<open>Also: an entry of the node feed is the last update received for its node: no later update of the same
  node precedes it in the stream.\<close>

theorem node_feed_shows_latest:
  assumes "u \<in> set (fold node_push us [])"
  shows "\<exists>pre post. us = pre @ u # post \<and> nu_nodeId u \<notin> nu_nodeId ` set post"
  using node_feed_last[OF assms] by simp

theorem node_feed_shows_latest_witness:
  "\<exists>pre post. [node_update_of None, node_update_of None] = pre @ node_update_of None # post \<and>
     nu_nodeId (node_update_of None) \<notin> nu_nodeId ` set post"
  by (rule node_feed_shows_latest) (simp add: node_push_def Let_def)

text \<open>Also: the toasts of the realtime hooks are never shown: the container that the dashboard renders reads
  the other toast store, whose content no realtime event changes, also when a job completes, a node
  goes offline or a critical alert arrives.\<close>

theorem realtime_toasts_never_shown:
  "container_toasts l (world (fold (realtime_step pd) es s)) = container_toasts l (world s) \<and>
   (jr_status r = ''completed'' \<longrightarrow> job_toast (Some r) \<noteq> None)"
  by (simp add: container_toasts_def realtime_toasts_unseen job_toast_def)

theorem realtime_toasts_never_shown_witness:
  "container_toasts 0 (world (fold (realtime_step (\<lambda>_. NaN)) [JobChange (Some \<lparr>jr_id = ''j'', jr_status = ''completed''\<rparr>) ''k'']
     realtime_init)) = [] \<and> job_toast (Some \<lparr>jr_id = ''j'', jr_status = ''completed''\<rparr>) \<noteq> None"
  using realtime_toasts_never_shown[of 0 "\<lambda>_. NaN" "[JobChange (Some \<lparr>jr_id = ''j'', jr_status = ''completed''\<rparr>) ''k'']"
      realtime_init "\<lparr>jr_id = ''j'', jr_status = ''completed''\<rparr>"]
  by (simp add: realtime_init_def world_init_def toast_init_def container_toasts_def)

end
