(* ===== verification/JobViews.thy ===== *)
theory JobViews
  imports ListPages Realtime
begin

text \<open>
  The page of a job, \<open>app/(dashboard)/jobs/[id]/page.tsx\<close>, and the page of its logs, \<open>jobs/[id]/logs/page.tsx\<close>.
  The assignments of nodes are taken as the database answers them, so a missing column is a missing field;
  \<open>None\<close> is an exception while rendering. \<open>num\<close> is the text of a number, \<open>loc\<close> that of a date.
\<close>

section \<open>A card with a figure\<close>

datatype card_trend = TrendUp | TrendDown | TrendNeutral

text \<open>\<open>components/ui/MetricCard.tsx\<close>: the note next to the figure carries the sign of the trend.\<close>

definition MetricCard :: "string \<Rightarrow> card_trend option \<Rightarrow> string option \<Rightarrow> string \<times> string option" where
  "MetricCard v tr note =
     (v, if truthy_str note
         then Some ((case tr of Some TrendUp \<Rightarrow> ''+'' | Some TrendDown \<Rightarrow> ''-'' | _ \<Rightarrow> '''') @ the note) else None)"

section \<open>Assignments\<close>

text \<open>What \<open>fetchNodeAssignments\<close> makes of a row: an object whose fields are missing when the columns are.\<close>

definition assignment_object :: "(string \<Rightarrow> jsnum) \<Rightarrow> int \<Rightarrow> row \<Rightarrow> row" where
  "assignment_object pd now a =
    [(''nodeId'', get ''node_id'' a),
     (''address'', (let w = field ''wallet_address'' (get ''nodes'' a) in if nullish w then Str '''' else w)),
     (''status'', get ''status'' a), (''progress'', get ''progress'' a), (''vramUsed'', get ''vram_used'' a),
     (''vramTotal'', get ''vram_total'' a),
     (''lastHeartbeat'', if val_truthy (get ''last_heartbeat_at'' a) then Num (time_of pd (get ''last_heartbeat_at'' a))
        else Num (js_int now))]"

text \<open>A value put into the markup: nothing for a missing one.\<close>

definition in_markup :: "(jsnum \<Rightarrow> string) \<Rightarrow> jsval \<Rightarrow> string" where
  "in_markup num v = (case v of Num x \<Rightarrow> num x | Str s \<Rightarrow> s | _ \<Rightarrow> '''')"

record worker_line =
  wl_icon :: string
  wl_node :: string
  wl_badge :: string
  wl_wallet :: string
  wl_vram :: string
  wl_vram_bar :: "jsnum \<times> bar_color"
  wl_progress :: "string \<times> bar_color"
  wl_stale :: bool

definition NodeWorkerRow :: "(jsnum \<Rightarrow> string) \<Rightarrow> int \<Rightarrow> row \<Rightarrow> worker_line option" where
  "NodeWorkerRow num now n = (let st = get ''status'' n;
       pct = js_mul (js_div (as_num (get ''vramUsed'' n)) (as_num (get ''vramTotal'' n))) (Fin 100) in do {
     badge \<leftarrow> StatusBadge st;
     used \<leftarrow> fixed 1 (get ''vramUsed'' n);
     Some \<lparr>wl_icon = (if st = Str ''completed'' then ''CheckCircle2'' else if st = Str ''failed'' then ''XCircle'' else ''Server''),
       wl_node = in_markup num (get ''nodeId'' n), wl_badge = badge, wl_wallet = in_markup num (get ''address'' n),
       wl_vram = used @ ''/'' @ in_markup num (get ''vramTotal'' n) @ ''GB'', wl_vram_bar = (pct, vram_color pct),
       wl_progress = (in_markup num (get ''progress'' n) @ ''%'',
         if st = Str ''completed'' then BarActive else if st = Str ''failed'' then BarSlashed else BarStale),
       wl_stale = js_lt (Fin 60000) (js_sub (js_int now) (as_num (get ''lastHeartbeat'' n)))\<rparr> })"

section \<open>The page of a job\<close>

text \<open>\<open>formatTimeRemaining\<close> for deadlines that may not be a date.\<close>

definition time_remaining :: "int \<Rightarrow> jsnum \<Rightarrow> string" where
  "time_remaining now d = (case d of Fin q \<Rightarrow> formatTimeRemaining now \<lfloor>q\<rfloor> | NaN \<Rightarrow> ''NaNh NaNm''
     | PosInf \<Rightarrow> ''Infinityd NaNh'' | NegInf \<Rightarrow> ''Expired'')"

definition gauge_text :: "string \<Rightarrow> gauge \<Rightarrow> jsnum \<Rightarrow> jsnum \<Rightarrow> string list" where
  "gauge_text unit g actual required =
     [if isCompliant g then ''Compliant'' else ''Breach'', toFixed 1 actual @ unit, ''Required: '' @ toFixed 1 required @ unit,
      (if js_le (Fin 0) (gauge_diff g) then ''+'' else '''') @ toFixed 1 (gauge_diff g) @ unit]"

definition up_if :: "bool \<Rightarrow> card_trend option" where
  "up_if b = Some (if b then TrendUp else TrendDown)"

definition job_metrics :: "(jsnum \<Rightarrow> string) \<Rightarrow> int \<Rightarrow> job \<Rightarrow> (string \<times> string option) list" where
  "job_metrics num now j =
     (let near = isDeadlineNear now j; up = num_or_zero (actualUptime j); thr = num_or_zero (actualThroughput j);
          compliant = js_le (requiredUptime (sla j)) up
      in [MetricCard (time_remaining now (deadline j)) (Some (if near then TrendDown else TrendNeutral))
            (if near then Some ''Critical'' else None),
          MetricCard (show_nat (progress j) @ ''%'')
            (Some (if progress j = 100 then TrendUp else if 50 < progress j then TrendNeutral else TrendDown)) None,
          MetricCard (toFixed 1 up @ ''%'') (up_if compliant) (Some (if compliant then ''Compliant'' else ''At Risk'')),
          MetricCard (num thr) (up_if (js_le (requiredThroughput (sla j)) thr)) (Some ''ops/s'')])"

datatype workers_content = WorkersLoading | WorkersNone | WorkersShown "worker_line list"

record job_detail_page =
  jpg_id :: string
  jpg_badge :: string
  jpg_live :: bool
  jpg_metrics :: "(string \<times> string option) list"
  jpg_uptime :: "string list"
  jpg_throughput :: "string list"
  jpg_remaining :: string
  jpg_count :: string
  jpg_workers :: workers_content
  jpg_costs :: "string list"

datatype job_screen = JobSkeleton | JobNotFound | JobShown job_detail_page

definition JobDetailPage ::
  "(jsnum \<Rightarrow> string) \<Rightarrow> int \<Rightarrow> bool \<Rightarrow> job option \<Rightarrow> bool \<Rightarrow> row list option \<Rightarrow> job_screen option" where
  "JobDetailPage num now jobLoading data nodesLoading assignments =
     (if jobLoading then Some JobSkeleton
      else case data of None \<Rightarrow> Some JobNotFound
      | Some j \<Rightarrow> do {
          badge \<leftarrow> StatusBadge (Str (job_status j));
          workers \<leftarrow> (if nodesLoading then Some WorkersLoading
             else if or_else assignments [] = [] then Some WorkersNone
             else map_option WorkersShown (those (map (NodeWorkerRow num now) (the assignments))));
          Some (JobShown \<lparr>jpg_id = job_id j, jpg_badge = badge, jpg_live = (job_status j = ''running''),
            jpg_metrics = job_metrics num now j,
            jpg_uptime = gauge_text ''%'' (uptime_gauge j) (num_or_zero (actualUptime j)) (requiredUptime (sla j)),
            jpg_throughput = gauge_text '' ops/s'' (throughput_gauge j) (num_or_zero (actualThroughput j))
              (requiredThroughput (sla j)),
            jpg_remaining = ''('' @ time_remaining now (deadline j) @ '' remaining)'',
            jpg_count = ''('' @ show_nat (length (or_else assignments [])) @ '' nodes)'', jpg_workers = workers,
            jpg_costs = [''$'' @ toFixed 4 (cost j), ''$'' @ toFixed 4 (slaPenalty j), ''$'' @ toFixed 4 (netCost j)]\<rparr>) })"

text \<open>The effect on the feed of job updates: whether the job is fetched again.\<close>

definition job_refetch :: "string \<Rightarrow> job_update list \<Rightarrow> bool" where
  "job_refetch jobId updates =
     (case find (\<lambda>u. ju_jobId u = Some jobId) updates of None \<Rightarrow> False | Some u \<Rightarrow> truthy_str (ju_status u))"

section \<open>The page of the logs\<close>

fun log_label :: "log_level \<Rightarrow> string" where
  "log_label LInfo = ''INFO''"
| "log_label LWarn = ''WARN''"
| "log_label LError = ''ERROR''"
| "log_label LDebug = ''DEBUG''"

definition LogLine :: "(jsnum \<Rightarrow> string) \<Rightarrow> job_log \<Rightarrow> string \<times> string \<times> string option \<times> string" where
  "LogLine clock l = (clock (log_timestamp l), log_label (level l),
     if truthy_str (log_nodeId l) then log_nodeId l else None, log_message l)"

definition all_levels :: "log_level list" where
  "all_levels = [LInfo, LWarn, LError, LDebug]"

text \<open>The number on the filter button, and the entries of the menu with their ticks.\<close>

definition FilterDropdown :: "log_level set \<Rightarrow> string \<times> (string \<times> bool) list" where
  "FilterDropdown sel =
     (let n = length (filter (\<lambda>l. l \<in> sel) all_levels)
      in (if n = 0 then ''All'' else show_nat n, map (\<lambda>l. (log_label l, l \<in> sel)) all_levels))"

text \<open>The levels in the order they first occur, as \<open>Object.entries\<close> lists the counters.\<close>

definition first_occurrences :: "log_level list \<Rightarrow> log_level list" where
  "first_occurrences ls = fold (\<lambda>l acc. if l \<in> set acc then acc else acc @ [l]) ls []"

record logs_page =
  lp_jobId :: string
  isPaused :: bool
  selectedLevels :: "log_level set"
  autoScroll :: bool
  lp_stream :: stream

definition logs_page_open :: "string \<Rightarrow> logs_page" where
  "logs_page_open j = \<lparr>lp_jobId = j, isPaused = False, selectedLevels = {}, autoScroll = True,
     lp_stream = stream_step (StreamEffect j True) stream_init\<rparr>"

datatype logs_event = ToggleLevel log_level | TogglePause | ToggleScroll | ClearLogs
  | LogsFetched "job_log list" | RowInserted string job_log

text \<open>Pausing disables the stream: its effect is cleaned up when it was active, and runs again afterwards.
  Clearing the logs does nothing.\<close>

fun logs_step :: "logs_event \<Rightarrow> logs_page \<Rightarrow> logs_page" where
  "logs_step (ToggleLevel l) p = p\<lparr>selectedLevels := handleToggleLevel l (selectedLevels p)\<rparr>"
| "logs_step TogglePause p =
     (let s = (if isPaused p then lp_stream p else stream_step StreamCleanup (lp_stream p))
      in p\<lparr>isPaused := \<not> isPaused p, lp_stream := stream_step (StreamEffect (lp_jobId p) (isPaused p)) s\<rparr>)"
| "logs_step ToggleScroll p = p\<lparr>autoScroll := \<not> autoScroll p\<rparr>"
| "logs_step ClearLogs p = p"
| "logs_step (LogsFetched ls) p = p\<lparr>lp_stream := stream_step (FetchDone (lp_jobId p) ls) (lp_stream p)\<rparr>"
| "logs_step (RowInserted j l) p = p\<lparr>lp_stream := stream_step (LogInsert j l) (lp_stream p)\<rparr>"

record logs_view =
  lv_connection :: string
  lv_filter :: "string \<times> (string \<times> bool) list"
  lv_scroll :: string
  lv_pause :: "string \<times> string"
  lv_entries :: string
  lv_counts :: "(string \<times> nat) list"
  lv_prompt :: string
  lv_lines :: "(string \<times> string \<times> string option \<times> string) list option"

definition JobLogsPage :: "(jsnum \<Rightarrow> string) \<Rightarrow> logs_page \<Rightarrow> logs_view" where
  "JobLogsPage clock p =
     (let shown = filteredLogs (selectedLevels p) (logs (lp_stream p)) in
      \<lparr>lv_connection = (if stream_connected (lp_stream p) then ''Streaming'' else ''Disconnected''),
       lv_filter = FilterDropdown (selectedLevels p),
       lv_scroll = (if autoScroll p then ''Auto-scroll ON'' else ''Auto-scroll OFF''),
       lv_pause = (if isPaused p then (''Resume streaming'', ''PAUSED'') else (''Pause streaming'', ''LIVE'')),
       lv_entries = show_nat (length shown) @ '' entries'',
       lv_counts = map (\<lambda>l. (log_label l, logCounts (selectedLevels p) (logs (lp_stream p)) l))
         (first_occurrences (map level shown)),
       lv_prompt = ''tentrist@node-'' @ slice_last 6 (lp_jobId p),
       lv_lines = (if shown = [] then None else Some (map (LogLine clock) shown))\<rparr>)"

section \<open>Lemmas\<close>

lemma assignment_fields:
  "get ''status'' (assignment_object pd now a) = get ''status'' a"
  "get ''vramUsed'' (assignment_object pd now a) = get ''vram_used'' a"
  by (simp_all add: assignment_object_def get_def)

lemma no_vram_column: "get ''vram_used'' a = Undefined \<Longrightarrow> NodeWorkerRow num now (assignment_object pd now a) = None"
  by (simp add: NodeWorkerRow_def assignment_fields fixed_def bind_eq_None_conv Let_def)

lemma badges_missing: "StatusBadge (Str ''assigned'') = None" "StatusBadge (Str ''reassigned'') = None"
  by (simp_all add: StatusBadge_def lookup_def badge_labels_def)

lemma no_badge: "get ''status'' a \<in> {Str ''assigned'', Str ''reassigned''} \<Longrightarrow>
    NodeWorkerRow num now (assignment_object pd now a) = None"
  by (elim insertE emptyE) (simp_all add: NodeWorkerRow_def assignment_fields badges_missing Let_def)

text \<open>The columns of \<open>node_assignments\<close>, with the wallet of the node the query asks for besides.\<close>

definition assignment_columns :: "string list" where
  "assignment_columns = [''id'', ''job_id'', ''node_id'', ''status'', ''vram_used_mb'', ''started_at'', ''completed_at'',
     ''error_message'', ''created_at'', ''nodes'']"

definition stored_assignment :: "row \<Rightarrow> bool" where
  "stored_assignment a \<longleftrightarrow> fst ` set a \<subseteq> set assignment_columns"

lemma stored_assignment_fields: "stored_assignment a \<Longrightarrow> get ''vram_used'' a = Undefined"
  by (rule get_absent) (auto simp: stored_assignment_def assignment_columns_def)

lemma first_occurrences_fold:
  assumes "distinct acc"
  shows "distinct (fold (\<lambda>l acc. if l \<in> set acc then acc else acc @ [l]) ls acc) \<and>
    set (fold (\<lambda>l acc. if l \<in> set acc then acc else acc @ [l]) ls acc) = set acc \<union> set ls"
  using assms by (induction ls arbitrary: acc) auto

lemma first_occurrences: "distinct (first_occurrences ls)" "set (first_occurrences ls) = set ls"
  using first_occurrences_fold[of "[]" ls] by (simp_all add: first_occurrences_def)

lemma count_by_levels:
  "distinct ks \<Longrightarrow> set (map level xs) \<subseteq> set ks \<Longrightarrow> sum_list (map (\<lambda>k. count_by (\<lambda>x. level x = k) xs) ks) = length xs"
proof (induction xs)
  case (Cons x xs)
  have "sum_list (map (\<lambda>k. count_by (\<lambda>y. level y = k) (x # xs)) ks) =
      sum_list (map (\<lambda>k. (if k = level x then 1 else 0) + count_by (\<lambda>y. level y = k) xs) ks)"
    by (rule arg_cong[of _ _ sum_list]) (auto simp: count_by_def)
  also have "\<dots> = sum_list (map (\<lambda>k. if k = level x then 1 else 0) ks) + length xs"
    using Cons by (simp add: sum_list_addf)
  also have "sum_list (map (\<lambda>k. if k = level x then 1 else 0) ks) = (1 :: nat)"
    using Cons.prems sum_list_map_eq_sum_count[of "\<lambda>k. if k = level x then 1 else 0 :: nat" ks]
    by (simp add: sum_list_distinct_conv_sum_set)
  finally show ?case by simp
qed (simp add: count_by_def)

definition logs_inv :: "logs_page \<Rightarrow> bool" where
  "logs_inv p \<longleftrightarrow> lp_jobId p \<noteq> '''' \<longrightarrow> (stream_connected (lp_stream p) \<longleftrightarrow> \<not> isPaused p) \<and>
     channel (lp_stream p) = (if isPaused p then None else Some (lp_jobId p))"

interpretation logs_page: state_machine logs_step logs_inv "logs_page_open j" for j
proof
  show "logs_inv (logs_page_open j)" by (simp add: logs_inv_def logs_page_open_def stream_init_def)
  show "logs_inv (logs_step e p)" if "logs_inv p" for e p
    using that by (cases e) (auto simp: logs_inv_def Let_def)
qed


lemma logs_jobId [simp]: "lp_jobId (fold logs_step es p) = lp_jobId p"
proof -
  have "lp_jobId (logs_step e q) = lp_jobId q" for e q by (cases e) (simp_all add: Let_def)
  then show ?thesis by (induction es arbitrary: p) simp_all
qed

section \<open>Properties\<close>

text \<open>Also: the page of a job throws exactly when a node was assigned to the job and its assignments are loaded,
  because the table of assignments has no column \<open>vram_used\<close>; even with one the page would throw for an
  assignment in the status in which all of them start, which has no badge. Until the assignments are
  loaded, and for a job without any, the page is shown.\<close>

theorem job_page_throws_with_nodes:
  assumes "dj_status dj \<in> set stored_job_status" and "list_all stored_assignment rows"
  shows "(JobDetailPage num now False (Some (mapJob pd now dj)) False (Some (map (assignment_object pd now) rows)) = None
       \<longleftrightarrow> rows \<noteq> []) \<and>
    (\<exists>v. JobDetailPage num now False (Some (mapJob pd now dj)) True (Some (map (assignment_object pd now) rows)) =
       Some (JobShown v)) \<and>
    (list_ex (\<lambda>a. get ''status'' a \<in> {Str ''assigned'', Str ''reassigned''}) others \<longrightarrow>
       JobDetailPage num now False (Some (mapJob pd now dj)) False (Some (map (assignment_object pd now) others)) = None)"
proof -
  have "StatusBadge (Str (dj_status dj)) \<noteq> None"
    using assms(1) by (auto simp: stored_job_status_def StatusBadge_def lookup_def badge_labels_def)
  then obtain badge where badge: "StatusBadge (Str (job_status (mapJob pd now dj))) = Some badge"
    by (auto simp: mapJob_def)
  have "those (map (NodeWorkerRow num now) (map (assignment_object pd now) rows)) = None" if "rows \<noteq> []"
    using that assms(2) by (intro all_throw) (auto simp: list_all_iff stored_assignment_fields no_vram_column)
  moreover have "those (map (NodeWorkerRow num now) (map (assignment_object pd now) others)) = None"
    if "list_ex (\<lambda>a. get ''status'' a \<in> {Str ''assigned'', Str ''reassigned''}) others"
    using that by (induction others) (auto simp: no_badge split: option.splits)
  ultimately show ?thesis
    using badge by (auto simp: JobDetailPage_def or_else_def)
qed

definition sample_stored_job :: db_job where
  "sample_stored_job = \<lparr>dj_id = ''j'', job_id_256 = '''', dj_user_id = ''u'', dj_node_id = None, dj_status = ''running'', checkpoint_url = None,
     sla_uptime_required = None, sla_throughput_required = None, dj_deadline = None, budget_usd = None,
     price_charged_usd = None, dj_created_at = ''now''\<rparr>"

lemma job_page_throws_with_nodes_witness:
  "JobDetailPage (\<lambda>_. '''') 0 False (Some (mapJob (\<lambda>_. Fin 0) 0 sample_stored_job)) False
     (Some (map (assignment_object (\<lambda>_. Fin 0) 0)
       [[(''node_id'', Str ''n''), (''status'', Str ''running''), (''vram_used_mb'', Num (Fin 4096))]])) = None"
proof -
  have "list_all stored_assignment
      [[(''node_id'', Str ''n''), (''status'', Str ''running''), (''vram_used_mb'', Num (Fin 4096))]]"
    by (simp add: stored_assignment_def assignment_columns_def)
  moreover have "dj_status sample_stored_job \<in> set stored_job_status"
    by (simp add: sample_stored_job_def stored_job_status_def)
  ultimately show ?thesis using job_page_throws_with_nodes by blast
qed

text \<open>Also: in every state of the page of the logs, the counters add up to the entries shown, which are the
  received ones with a selected level; it says that it is streaming exactly when it is not paused, a row
  inserted meanwhile is not shown, and after resuming the fetched logs are.\<close>

theorem logs_page_runs:
  fixes es :: "logs_event list"
  assumes "j \<noteq> ''''"
  defines "p \<equiv> fold logs_step es (logs_page_open j)"
  shows "sum_list (map snd (lv_counts (JobLogsPage clock p))) = length (filteredLogs (selectedLevels p) (logs (lp_stream p))) \<and>
    (lv_connection (JobLogsPage clock p) = ''Streaming'' \<longleftrightarrow> \<not> isPaused p) \<and>
    logs (lp_stream (logs_step (RowInserted j l) p)) = logs (lp_stream p) @ (if isPaused p then [] else [l]) \<and>
    (isPaused p \<longrightarrow> logs (lp_stream (fold logs_step [TogglePause, LogsFetched ls, RowInserted j l] p)) = ls @ [l])"
proof (intro conjI impI)
  have inv: "logs_inv p" unfolding p_def by (rule logs_page.inv_reachable)
  have job: "lp_jobId p = j" by (simp add: p_def logs_page_open_def)
  let ?xs = "filteredLogs (selectedLevels p) (logs (lp_stream p))"
  show "sum_list (map snd (lv_counts (JobLogsPage clock p))) = length ?xs"
    using count_by_levels[of "first_occurrences (map level ?xs)" ?xs]
    by (simp add: JobLogsPage_def Let_def logCounts_def first_occurrences comp_def)
  show "lv_connection (JobLogsPage clock p) = ''Streaming'' \<longleftrightarrow> \<not> isPaused p"
    using inv job assms(1) by (simp add: JobLogsPage_def Let_def logs_inv_def)
  show "logs (lp_stream (logs_step (RowInserted j l) p)) = logs (lp_stream p) @ (if isPaused p then [] else [l])"
    using inv job assms(1) by (simp add: logs_inv_def)
  show "logs (lp_stream (fold logs_step [TogglePause, LogsFetched ls, RowInserted j l] p)) = ls @ [l]" if "isPaused p"
    using that job assms(1) by (simp add: Let_def)
qed

lemma logs_page_runs_witness:
  "logs (lp_stream (fold logs_step [TogglePause, RowInserted ''j'' (sample_log ''1''), TogglePause,
     LogsFetched [sample_log ''1''], RowInserted ''j'' (sample_log ''2'')] (logs_page_open ''j''))) = [sample_log ''1'', sample_log ''2'']"
  using logs_page_runs[of "''j''" "\<lambda>_. ''''" "[TogglePause, RowInserted ''j'' (sample_log ''1'')]" "sample_log ''2''"
      "[sample_log ''1'']"]
  by (simp add: logs_page_open_def stream_init_def Let_def)

text \<open>Also: once the feed holds an update of a job with a status, the page of the job fetches it again at every
  later change of any job, unless an update of its own without a status comes first.\<close>

theorem job_refetches_again:
  assumes "job_refetch j feed" and "ju_jobId u \<noteq> Some j" and "length feed < 100"
  shows "job_refetch j (job_push u feed)"
  using assms by (simp add: job_refetch_def job_push_def)

lemma job_refetches_again_witness:
  "job_refetch ''j'' (job_push \<lparr>ju_jobId = Some ''k'', ju_status = None, ju_progress = 0\<rparr>
     [\<lparr>ju_jobId = Some ''j'', ju_status = Some ''running'', ju_progress = 50\<rparr>])"
  by (rule job_refetches_again) (simp_all add: job_refetch_def truthy_str_def)

end
