(* ===== verification/Dashboard.thy ===== *)
theory Dashboard
  imports JobsData NodesData
begin

text \<open>
  The overview of the application, \<open>app/(dashboard)/dashboard/page.tsx\<close>, from the jobs and nodes the
  hooks of JobsData and NodesData answer, and the figures of the job analytics page,
  \<open>app/(dashboard)/analytics/jobs/page.tsx\<close>, whose records are random in the code and arbitrary here.
\<close>

section \<open>The overview\<close>

definition dash_relative_time :: "int \<Rightarrow> int \<Rightarrow> string" where
  "dash_relative_time now t =
     (let seconds = (now - t) div 1000 in
      if seconds < 60 then show_int seconds @ ''s ago''
      else if seconds < 3600 then show_int (seconds div 60) @ ''m ago''
      else if seconds < 86400 then show_int (seconds div 3600) @ ''h ago''
      else show_int (seconds div 86400) @ ''d ago'')"

datatype log_type = JobSubmitted | JobCompleted | JobFailed | NodeSlashed | SlaBreach

record execution_log =
  el_id :: string
  el_timestamp :: jsnum
  el_type :: log_type
  el_message :: string

definition execution_log :: "job \<Rightarrow> execution_log" where
  "execution_log j =
     (let short = ''Job '' @ slice_first 8 (job_id j);
          (t, m) =
            (if job_status j = ''completed'' then (JobCompleted, short @ '' completed successfully'')
             else if job_status j = ''failed'' then (JobFailed, short @ '' failed'')
             else if job_status j = ''running'' then (JobSubmitted, short @ '' running ('' @ show_nat (progress j) @ ''%)'')
             else (JobSubmitted, short @ '' submitted''))
      in \<lparr>el_id = job_id j, el_timestamp = job_createdAt j, el_type = t, el_message = m\<rparr>)"

definition execution_logs :: "job list option \<Rightarrow> execution_log list" where
  "execution_logs jobs = (case jobs of None \<Rightarrow> [] | Some js \<Rightarrow> map execution_log (take 15 js))"

datatype node_tone = ToneActive | ToneStale | ToneMuted

definition node_border :: "node_provider \<Rightarrow> node_tone" where
  "node_border n = (if status n = ''online'' then ToneActive else if status n = ''stale'' then ToneStale else ToneMuted)"

datatype usage_level = UsageHigh | UsageMedium | UsageLow

definition usage_level :: "node_provider \<Rightarrow> usage_level" where
  "usage_level n =
     (if js_lt (Fin 0) (vramTotal n) \<and> js_lt (Fin (9 / 10)) (js_div (vramUsed n) (vramTotal n)) then UsageHigh
      else if js_lt (Fin 0) (vramTotal n) \<and> js_lt (Fin (7 / 10)) (js_div (vramUsed n) (vramTotal n)) then UsageMedium
      else UsageLow)"

record cluster_card =
  cc_id :: string
  cc_address :: string
  cc_border :: node_tone
  cc_usage :: usage_level
  cc_width :: jsnum
  cc_plus :: bool

definition cluster_card :: "node_provider \<Rightarrow> cluster_card" where
  "cluster_card n =
     \<lparr>cc_id = np_id n,
      cc_address = slice_first 6 (address n) @ ''...'' @ slice_last 4 (address n),
      cc_border = node_border n,
      cc_usage = usage_level n,
      cc_width = (if js_lt (Fin 0) (vramTotal n) then js_mul (js_div (vramUsed n) (vramTotal n)) (Fin 100) else Fin 0),
      cc_plus = js_lt (Fin 0) (reputation n)\<rparr>"

definition clusterNodes :: "node_provider list option \<Rightarrow> cluster_card list" where
  "clusterNodes nodes = (case nodes of None \<Rightarrow> [] | Some ns \<Rightarrow> map cluster_card (take 12 ns))"

record dashboard_stats =
  ds_totalJobs :: nat
  ds_activeJobs :: nat
  ds_completedJobs :: nat
  ds_failedJobs :: nat
  ds_serverlessBalance :: string
  ds_globalNodes :: nat
  ds_onlineNodes :: nat
  ds_slaCompliance :: "string option"
  ds_pendingSlashes :: nat

text \<open>\<open>myStakeRaw\<close> is the stake in wei that the contract answers, if it has; zero counts as none.\<close>

definition dashboard_stats :: "job list option \<Rightarrow> node_provider list option \<Rightarrow> nat option \<Rightarrow> dashboard_stats" where
  "dashboard_stats jobs nodes myStakeRaw =
     (let js = or_else jobs []; ns = or_else nodes [];
          done = count_by (\<lambda>j. job_status j = ''completed'') js in
      \<lparr>ds_totalJobs = length js,
       ds_activeJobs = count_by (\<lambda>j. job_status j = ''running'' \<or> job_status j = ''pending'') js,
       ds_completedJobs = done,
       ds_failedJobs = count_by (\<lambda>j. job_status j = ''failed'') js,
       ds_serverlessBalance =
         (case myStakeRaw of Some w \<Rightarrow> if w = 0 then ''0.0000'' else toFixed 4 (Fin (of_nat w / 10 ^ 18)) | None \<Rightarrow> ''0.0000''),
       ds_globalNodes = length ns,
       ds_onlineNodes = count_by (\<lambda>n. status n = ''online'') ns,
       ds_slaCompliance =
         (if 0 < length js
          then Some (toFixed 1 (js_mul (js_div (Fin (of_nat done)) (Fin (of_nat (length js)))) (Fin 100)) @ ''%'')
          else None),
       ds_pendingSlashes = count_by (\<lambda>n. status n = ''slashed'') ns\<rparr>)"

datatype trend = TrendUp | TrendDown | TrendNeutral

text \<open>The metric cards: label, value and trend. A missing value is a dash.\<close>

definition stats_cards :: "(nat \<Rightarrow> string) \<Rightarrow> dashboard_stats \<Rightarrow> (string \<times> string \<times> trend) list" where
  "stats_cards localized s =
     [(''Total Jobs'', localized (ds_totalJobs s), if 0 < ds_totalJobs s then TrendUp else TrendNeutral),
      (''Serverless Balance'', ds_serverlessBalance s @ '' ETH'', TrendNeutral),
      (''Global Nodes'', show_nat (ds_globalNodes s),
       if ds_globalNodes s < 2 * ds_onlineNodes s then TrendUp else TrendDown),
      (''SLA Compliance'', or_else (ds_slaCompliance s) ''-'',
       if ds_slaCompliance s = None then TrendNeutral else TrendUp)]"

record job_line =
  jl_id :: string
  jl_status :: string
  jl_uptime :: string
  jl_progress :: string
  jl_cost :: string

definition job_line :: "job \<Rightarrow> job_line" where
  "job_line j =
     \<lparr>jl_id = slice_first 12 (job_id j), jl_status = job_status j,
      jl_uptime = toFixed 0 (requiredUptime (sla j)) @ ''% uptime'',
      jl_progress = show_nat (progress j) @ ''%'', jl_cost = ''$'' @ toFixed 4 (cost j)\<rparr>"

definition recent_jobs :: "job list option \<Rightarrow> job_line list" where
  "recent_jobs jobs = map job_line (take 8 (or_else jobs []))"

section \<open>Job analytics\<close>

record job_record_row =
  jr_id :: string
  jr_clientId :: string
  jr_status :: string
  jr_slaUptime :: jsnum
  jr_cost :: jsnum

definition analytics_statuses :: "string list" where
  "analytics_statuses = [''pending'', ''running'', ''completed'', ''failed'', ''requeued'']"

definition jobs_formatDuration :: "nat \<Rightarrow> string" where
  "jobs_formatDuration seconds =
     (if seconds < 60 then show_nat seconds @ ''s''
      else if seconds < 3600 then show_nat (seconds div 60) @ ''m''
      else show_nat (seconds div 3600) @ ''h '' @ show_nat (seconds mod 3600 div 60) @ ''m'')"

record jobs_analytics =
  ja_total :: nat
  ja_completed :: nat
  ja_failed :: nat
  ja_running :: nat
  ja_avgSLA :: jsnum
  ja_totalCost :: jsnum
  ja_successRate :: jsnum
  ja_distribution :: "(string \<times> nat) list"

definition with_status :: "string \<Rightarrow> job_record_row list \<Rightarrow> nat" where
  "with_status st js = count_by (\<lambda>j. jr_status j = st) js"

definition JobsAnalyticsPage :: "job_record_row list \<Rightarrow> jobs_analytics" where
  "JobsAnalyticsPage js =
     (let completed = with_status ''completed'' js; failed = with_status ''failed'' js; running = with_status ''running'' js in
      \<lparr>ja_total = length js, ja_completed = completed, ja_failed = failed, ja_running = running,
       ja_avgSLA = js_div (sum_by jr_slaUptime js) (Fin (of_nat (length js))),
       ja_totalCost = sum_by jr_cost js,
       ja_successRate = js_mul (js_div (Fin (of_nat completed)) (Fin (of_nat (completed + failed)))) (Fin 100),
       ja_distribution = [(''completed'', completed), (''failed'', failed), (''running'', running),
         (''pending'', with_status ''pending'' js), (''requeued'', with_status ''requeued'' js)]\<rparr>)"

text \<open>The share of a status in the chart, and the success rate of a day of the small chart.\<close>

definition status_width :: "(string \<times> nat) list \<Rightarrow> string \<times> nat \<Rightarrow> jsnum" where
  "status_width shares d =
     js_mul (js_div (Fin (of_nat (snd d))) (Fin (of_nat (sum_list (map snd shares))))) (Fin 100)"

definition success_spark :: "nat \<times> nat \<Rightarrow> jsnum" where
  "success_spark d =
     (if 0 < fst d + snd d then js_mul (js_div (Fin (of_nat (fst d))) (Fin (of_nat (fst d + snd d)))) (Fin 100)
      else Fin 100)"

section \<open>Lemmas\<close>

lemma count_by_cong: "(\<And>x. x \<in> set xs \<Longrightarrow> P x = Q x) \<Longrightarrow> count_by P xs = count_by Q xs"
  by (induction xs) auto

lemma count_by_map: "count_by P (map f xs) = count_by (\<lambda>x. P (f x)) xs"
  by (induction xs) auto

lemma count_statuses:
  "\<forall>j \<in> set js. st j \<in> set analytics_statuses \<Longrightarrow>
     count_by (\<lambda>j. st j = ''completed'') js + count_by (\<lambda>j. st j = ''failed'') js + count_by (\<lambda>j. st j = ''running'') js +
     count_by (\<lambda>j. st j = ''pending'') js + count_by (\<lambda>j. st j = ''requeued'') js = length js"
  by (induction js) (auto simp: analytics_statuses_def)

lemma rate_Fin: "0 < a + b \<Longrightarrow>
    js_mul (js_div (Fin (of_nat a)) (Fin (of_nat (a + b)))) (Fin 100) = Fin (of_nat a / of_nat (a + b) * 100)"
  by (auto simp: add_pos_pos simp flip: of_nat_add)

lemma rate_range: "0 < a + b \<Longrightarrow> 0 \<le> (of_nat a / of_nat (a + b) * 100 :: rat) \<and> (of_nat a / of_nat (a + b) * 100 :: rat) \<le> 100"
  by (auto simp: divide_le_eq simp flip: of_nat_add)

section \<open>Properties\<close>

text \<open>Also: over rows as the database stores them, the counts of the overview partition the jobs and the nodes;
  nodes are never counted as waiting to be slashed, and the figure called compliance is the share of
  completed jobs, whatever they delivered; the log holds at most fifteen jobs in the order of the
  list, and no entry for a slash or a breach.\<close>

theorem dashboard_counts:
  fixes pd :: "string \<Rightarrow> jsnum" and now :: int and raw :: "nat option"
  assumes "\<forall>j \<in> set djs. dj_status j \<in> set stored_job_status"
    and "\<forall>n \<in> set dns. dn_status n \<in> set stored_node_status"
  defines "s \<equiv> dashboard_stats (Some (map (mapJob pd now) djs)) (Some (map (mapNode pd) dns)) raw"
    and "ls \<equiv> execution_logs (Some (map (mapJob pd now) djs))"
  shows "ds_activeJobs s + ds_completedJobs s + ds_failedJobs s + count_by (\<lambda>j. dj_status j = ''cancelled'') djs =
      ds_totalJobs s \<and>
    ds_onlineNodes s + count_by (\<lambda>n. dn_status n = ''offline'') dns = ds_globalNodes s \<and>
    ds_pendingSlashes s = 0 \<and>
    (djs \<noteq> [] \<longrightarrow> ds_slaCompliance s =
       Some (toFixed 1 (Fin (of_nat (count_by (\<lambda>j. dj_status j = ''completed'') djs) / of_nat (length djs) * 100)) @ ''%'')) \<and>
    length ls = min 15 (length djs) \<and>
    (\<forall>i < length ls. el_id (ls ! i) = dj_id (djs ! i) \<and> el_type (ls ! i) \<notin> {NodeSlashed, SlaBreach} \<and>
       (el_type (ls ! i) = JobCompleted \<longleftrightarrow> dj_status (djs ! i) = ''completed''))"
proof (intro conjI allI impI)
  have st: "job_status (mapJob pd now j) = dj_status j" for j by (simp add: mapJob_def)
  have parts: "count_by (\<lambda>j. dj_status j = ''running'' \<or> dj_status j = ''pending'') djs +
      count_by (\<lambda>j. dj_status j = ''completed'') djs + count_by (\<lambda>j. dj_status j = ''failed'') djs +
      count_by (\<lambda>j. dj_status j = ''cancelled'') djs = length djs"
    using assms(1) by (induction djs) (auto simp: stored_job_status_def)
  then show "ds_activeJobs s + ds_completedJobs s + ds_failedJobs s + count_by (\<lambda>j. dj_status j = ''cancelled'') djs =
      ds_totalJobs s"
    by (simp add: s_def dashboard_stats_def or_else_def count_by_map st Let_def)
  have "count_by (\<lambda>n. status (mapNode pd n) = ''online'') dns + count_by (\<lambda>n. dn_status n = ''offline'') dns = length dns"
    by (rule count_by_split) (use assms(2) in \<open>auto simp: stored_node_status_def mapNode_def\<close>)
  then show "ds_onlineNodes s + count_by (\<lambda>n. dn_status n = ''offline'') dns = ds_globalNodes s"
    by (simp add: s_def dashboard_stats_def or_else_def count_by_map Let_def)
  have "count_by (\<lambda>n. status (mapNode pd n) = ''slashed'') dns = 0"
    by (rule count_by_none) (use assms(2) in \<open>auto simp: stored_node_status_def mapNode_def\<close>)
  then show "ds_pendingSlashes s = 0" by (simp add: s_def dashboard_stats_def or_else_def count_by_map Let_def)
  show "ds_slaCompliance s =
       Some (toFixed 1 (Fin (of_nat (count_by (\<lambda>j. dj_status j = ''completed'') djs) / of_nat (length djs) * 100)) @ ''%'')"
    if "djs \<noteq> []"
    using that by (simp add: s_def dashboard_stats_def or_else_def count_by_map st Let_def)
  show len: "length ls = min 15 (length djs)" by (simp add: ls_def execution_logs_def)
  fix i
  assume "i < length ls"
  then have i: "i < length djs" "i < 15" by (simp_all add: len)
  then have nth: "ls ! i = execution_log (mapJob pd now (djs ! i))" by (simp add: ls_def execution_logs_def)
  show "el_id (ls ! i) = dj_id (djs ! i)" "el_type (ls ! i) \<notin> {NodeSlashed, SlaBreach}"
    "el_type (ls ! i) = JobCompleted \<longleftrightarrow> dj_status (djs ! i) = ''completed''"
    by (simp_all add: nth execution_log_def Let_def mapJob_def)
qed

lemma dashboard_counts_witness:
  "ds_pendingSlashes (dashboard_stats (Some (map (mapJob (\<lambda>_. Fin 0) 0) [])) (Some (map (mapNode (\<lambda>_. Fin 0))
     [sample_node ''1'' ''busy'' (Fin 3)])) None) = 0"
  using dashboard_counts[of "[]" "[sample_node ''1'' ''busy'' (Fin 3)]" "\<lambda>_. Fin 0" 0 None]
  by (simp add: sample_node_def stored_node_status_def)

text \<open>Also: the statuses of the analytics page partition its records, so the widths of the chart add up to a
  hundred; the success rate leaves out what has not ended, lies between zero and a hundred, and is
  not a number when nothing has ended, while the small chart shows a hundred then.\<close>

theorem job_analytics_partition:
  assumes "js \<noteq> []" and "\<forall>j \<in> set js. jr_status j \<in> set analytics_statuses"
  defines "p \<equiv> JobsAnalyticsPage js"
  shows "sum_list (map snd (ja_distribution p)) = ja_total p \<and>
    fold (\<lambda>d s. js_add s (status_width (ja_distribution p) d)) (ja_distribution p) (Fin 0) = Fin 100 \<and>
    (ja_completed p + ja_failed p = 0 \<longrightarrow>
       ja_successRate p = NaN \<and> success_spark (ja_completed p, ja_failed p) = Fin 100) \<and>
    (0 < ja_completed p + ja_failed p \<longrightarrow>
       (\<exists>q. ja_successRate p = Fin q \<and> 0 \<le> q \<and> q \<le> 100 \<and> success_spark (ja_completed p, ja_failed p) = Fin q))"
proof (intro conjI impI)
  have total: "with_status ''completed'' js + with_status ''failed'' js + with_status ''running'' js +
      with_status ''pending'' js + with_status ''requeued'' js = length js"
    using count_statuses[OF assms(2)] by (simp add: with_status_def)
  show sum: "sum_list (map snd (ja_distribution p)) = ja_total p"
    using total by (simp add: p_def JobsAnalyticsPage_def Let_def)
  have pos: "0 < length js" using assms(1) by simp
  have width: "status_width (ja_distribution p) d = Fin (of_nat (snd d) / of_nat (length js) * 100)" for d
    using sum pos by (simp add: status_width_def p_def JobsAnalyticsPage_def Let_def)
  have "(of_nat (with_status ''completed'' js) + of_nat (with_status ''failed'' js) + of_nat (with_status ''running'' js) +
      of_nat (with_status ''pending'' js) + of_nat (with_status ''requeued'' js) :: rat) = of_nat (length js)"
    unfolding total[symmetric] by simp
  then show "fold (\<lambda>d s. js_add s (status_width (ja_distribution p) d)) (ja_distribution p) (Fin 0) = Fin 100"
    using pos unfolding width by (simp add: p_def JobsAnalyticsPage_def Let_def field_simps flip: add_divide_distrib)
next
  assume "ja_completed p + ja_failed p = 0"
  then show "ja_successRate p = NaN" "success_spark (ja_completed p, ja_failed p) = Fin 100"
    by (simp_all add: p_def JobsAnalyticsPage_def Let_def success_spark_def js_signed_inf_def)
next
  assume "0 < ja_completed p + ja_failed p"
  then have pos: "0 < with_status ''completed'' js + with_status ''failed'' js"
    by (simp add: p_def JobsAnalyticsPage_def Let_def)
  then show "\<exists>q. ja_successRate p = Fin q \<and> 0 \<le> q \<and> q \<le> 100 \<and> success_spark (ja_completed p, ja_failed p) = Fin q"
    using rate_Fin[OF pos] rate_range[OF pos] by (simp add: p_def JobsAnalyticsPage_def Let_def success_spark_def)
qed

lemma job_analytics_partition_witness:
  "let r = \<lparr>jr_id = ''1'', jr_clientId = ''c'', jr_status = ''completed'', jr_slaUptime = Fin 99, jr_cost = Fin 1\<rparr> in
     sum_list (map snd (ja_distribution (JobsAnalyticsPage [r]))) = 1"
  using job_analytics_partition[of "[\<lparr>jr_id = ''1'', jr_clientId = ''c'', jr_status = ''completed'', jr_slaUptime = Fin 99, jr_cost = Fin 1\<rparr>]"]
  by (simp add: analytics_statuses_def Let_def JobsAnalyticsPage_def)

end
