(* ===== verification/AnalyticsViews.thy ===== *)
theory AnalyticsViews
  imports Analytics JobViews Dashboard
begin

text \<open>
  What the analytics pages show, \<open>app/(dashboard)/analytics/page.tsx\<close> and \<open>analytics/jobs/page.tsx\<close>, and the
  charts they use, \<open>components/charts\<close>. A chart is the data it hands to the drawing library: its series with
  names and its axis. \<open>num\<close> is the text of a number, \<open>grp\<close> the text with grouped digits.
\<close>

section \<open>Charts\<close>

datatype chart_color = CPrimary | CSecondary | CDanger | CBlue

record chart =
  ch_labels :: "string list"
  ch_series :: "(string \<times> chart_color \<times> jsnum list) list"
  ch_domain :: "(rat \<times> rat) option"
  ch_unit :: string
  ch_legend :: bool

definition UptimeLineChart :: "(string \<times> jsnum \<times> jsnum) list \<Rightarrow> chart" where
  "UptimeLineChart data = \<lparr>ch_labels = map fst data,
     ch_series = [(''SLA Target'', CSecondary, map (snd \<circ> snd) data), (''Uptime'', CPrimary, map (fst \<circ> snd) data)],
     ch_domain = Some (90, 100), ch_unit = ''%'', ch_legend = False\<rparr>"

definition JobVolumeBarChart :: "(string \<times> int \<times> int \<times> int) list \<Rightarrow> chart" where
  "JobVolumeBarChart data = \<lparr>ch_labels = map fst data,
     ch_series = [(''Completed'', CPrimary, map (\<lambda>(d, c, f, p). js_int c) data),
       (''Failed'', CDanger, map (\<lambda>(d, c, f, p). js_int f) data), (''Pending'', CSecondary, map (\<lambda>(d, c, f, p). js_int p) data)],
     ch_domain = None, ch_unit = '''', ch_legend = True\<rparr>"

definition ValueWorkflowAreaChart :: "(string \<times> flow_point) list \<Rightarrow> chart" where
  "ValueWorkflowAreaChart data = \<lparr>ch_labels = map fst data,
     ch_series = [(''Cost'', CBlue, map (flow_cost \<circ> snd) data), (''Revenue'', CPrimary, map (revenue \<circ> snd) data)],
     ch_domain = None, ch_unit = '' ETH'', ch_legend = True\<rparr>"

definition Sparkline :: "jsnum list \<Rightarrow> (nat \<times> jsnum) list" where
  "Sparkline data = enumerate 0 data"

text \<open>The tooltip over one label: nothing without entries, else the label and a line for every series.\<close>

definition CustomTooltip :: "(jsnum \<Rightarrow> string) \<Rightarrow> bool \<Rightarrow> chart \<Rightarrow> nat \<Rightarrow> (string \<times> (string \<times> string) list) option" where
  "CustomTooltip grp active c i =
     (if \<not> active \<or> ch_series c = [] then None
      else Some (ch_labels c ! i, map (\<lambda>(n, col, ys). (n @ '':'', grp (ys ! i) @ ch_unit c)) (ch_series c)))"

definition CustomLegend :: "chart \<Rightarrow> (string \<times> chart_color) list option" where
  "CustomLegend c = (if ch_series c = [] then None else Some (map (\<lambda>(n, col, ys). (n, col)) (ch_series c)))"

section \<open>The analytics page\<close>

record spark_card =
  sk_label :: string
  sk_value :: string
  sk_trend :: card_trend
  sk_note :: string
  sk_line :: "(nat \<times> jsnum) list"

definition sla_gauge_text :: "(jsnum \<Rightarrow> string) \<Rightarrow> jsnum \<Rightarrow> jsnum \<Rightarrow> string list \<times> jsnum" where
  "sla_gauge_text num value target =
     ([if js_le target value then ''Compliant'' else ''At Risk'', toFixed 1 value @ ''%'', ''Target: '' @ num target @ ''%'',
       (if js_le target value then ''+'' else '''') @ toFixed 1 (js_sub value target) @ ''%''],
      js_min (js_mul (js_div value target) (Fin 100)) (Fin 100))"

text \<open>A chart, or why there is none.\<close>

datatype chart_slot = ChartShown chart | ChartPulse | ChartMissing string

definition chart_slot_of :: "('a list \<Rightarrow> chart) \<Rightarrow> string \<Rightarrow> bool \<Rightarrow> 'a list option \<Rightarrow> chart_slot" where
  "chart_slot_of draw note isLoading data =
     (if or_else data [] \<noteq> [] then ChartShown (draw (the data)) else if isLoading then ChartPulse else ChartMissing note)"

record analytics_view =
  av_cards :: "spark_card list"
  av_uptime :: chart_slot
  av_gauge :: "string list \<times> jsnum"
  av_volume :: chart_slot
  av_flow :: chart_slot
  av_jobs :: "(string \<times> string) list"
  av_latency :: "(string \<times> string) list"
  av_money :: "(string \<times> string) list"

definition trend_if :: "bool \<Rightarrow> card_trend \<Rightarrow> card_trend" where
  "trend_if b t = (if b then t else card_trend.TrendNeutral)"

definition zero_if_none :: "('a \<Rightarrow> jsnum) \<Rightarrow> 'a option \<Rightarrow> jsnum" where
  "zero_if_none f a = (case a of None \<Rightarrow> Fin 0 | Some x \<Rightarrow> f x)"

definition margin_percent :: "page_summary \<Rightarrow> string" where
  "margin_percent s = (if js_lt (Fin 0) (pg_totalRevenue s)
     then toFixed 1 (js_mul (js_div (pg_totalMargin s) (pg_totalRevenue s)) (Fin 100)) else ''0'') @ ''%''"

definition analytics_cards ::
  "node_analytics option \<Rightarrow> uptime_point list option \<Rightarrow> (string \<times> volume_point) list option \<Rightarrow> (string \<times> flow_point) list option \<Rightarrow>
     spark_card list" where
  "analytics_cards a uptimeData volume flow =
     (let s = analytics_summary uptimeData a; completed = (case a of None \<Rightarrow> 0 | Some x \<Rightarrow> na_completed x)
      in [\<lparr>sk_label = ''Avg Uptime'', sk_value = toFixed 2 (avgUptime s) @ ''%'',
            sk_trend = (if js_le (Fin 95) (avgUptime s) then card_trend.TrendUp
              else if js_lt (Fin 0) (avgUptime s) then card_trend.TrendDown else card_trend.TrendNeutral),
            sk_note = (if js_le (Fin 95) (avgUptime s) then ''SLA met'' else ''Below target''),
            sk_line = Sparkline (map up_uptime (or_else uptimeData []))\<rparr>,
          \<lparr>sk_label = ''Total Jobs'', sk_value = formatNumber (pg_totalJobs s),
            sk_trend = trend_if (0 < pg_totalJobs s) card_trend.TrendUp, sk_note = show_nat completed @ '' completed'',
            sk_line = Sparkline (map (\<lambda>(d, v). js_int (int (vol_completed v + vol_failed v))) (or_else volume []))\<rparr>,
          \<lparr>sk_label = ''Total Rewards'', sk_value = toFixed 3 (pg_totalRevenue s) @ '' ETH'',
            sk_trend = trend_if (js_lt (Fin 0) (pg_totalRevenue s)) card_trend.TrendUp, sk_note = ''30d earnings'',
            sk_line = Sparkline (map (revenue \<circ> snd) (or_else flow []))\<rparr>,
          \<lparr>sk_label = ''Total Slashed'', sk_value = toFixed 3 (pg_totalCost s) @ '' ETH'',
            sk_trend = trend_if (js_lt (Fin 0) (pg_totalCost s)) card_trend.TrendDown, sk_note = ''30d penalties'',
            sk_line = Sparkline (map (flow_cost \<circ> snd) (or_else flow []))\<rparr>])"

definition rate_text :: "(jsnum \<Rightarrow> string) \<Rightarrow> node_analytics option \<Rightarrow> string" where
  "rate_text num a = num (zero_if_none successRate a) @ ''%''"

definition job_performance :: "(jsnum \<Rightarrow> string) \<Rightarrow> node_analytics option \<Rightarrow> page_summary \<Rightarrow> (string \<times> string) list" where
  "job_performance num a s =
     [(''Completed'', show_nat (case a of None \<Rightarrow> 0 | Some x \<Rightarrow> na_completed x)),
      (''Failed'', show_nat (case a of None \<Rightarrow> 0 | Some x \<Rightarrow> na_failed x)),
      (''Success Rate'', rate_text num a), (''Uptime'', toFixed 1 (avgUptime s) @ ''%'')]"

definition network_latency :: "(jsnum \<Rightarrow> string) \<Rightarrow> node_analytics option \<Rightarrow> (string \<times> string) list" where
  "network_latency num a =
     [(''Avg Latency'', num (zero_if_none avgLatencyMs a) @ ''ms''),
      (''P95 Latency'', num (zero_if_none p95LatencyMs a) @ ''ms''),
      (''P99 Latency'', num (zero_if_none p99LatencyMs a) @ ''ms''), (''Success Rate'', rate_text num a)]"

definition financial_summary :: "page_summary \<Rightarrow> (string \<times> string) list" where
  "financial_summary s =
     [(''Gross Rewards'', toFixed 3 (pg_totalRevenue s) @ '' ETH''),
      (''Slashings'', ''-'' @ toFixed 3 (pg_totalCost s) @ '' ETH''),
      (''Net Margin'', (if js_le (Fin 0) (pg_totalMargin s) then ''+'' else '''') @ toFixed 3 (pg_totalMargin s) @ '' ETH''),
      (''Margin %'', margin_percent s)]"

definition AnalyticsPage ::
  "(jsnum \<Rightarrow> string) \<Rightarrow> node_analytics option \<Rightarrow> bool \<Rightarrow> uptime_point list option \<Rightarrow> (string \<times> volume_point) list option \<Rightarrow>
     (string \<times> flow_point) list option \<Rightarrow> analytics_view" where
  "AnalyticsPage num a analyticsLoading uptimeData volume flow =
     (let s = analytics_summary uptimeData a; isLoading = (analyticsLoading \<and> a = None)
      in \<lparr>av_cards = analytics_cards a uptimeData volume flow,
         av_uptime = chart_slot_of (\<lambda>xs. UptimeLineChart (map (\<lambda>p. (up_date p, up_uptime p, slaTarget p)) xs))
           ''No uptime data yet'' isLoading uptimeData,
         av_gauge = sla_gauge_text num (avgUptime s) (Fin 95),
         av_volume = chart_slot_of (\<lambda>xs. JobVolumeBarChart
           (map (\<lambda>(d, v). (d, int (vol_completed v), int (vol_failed v), int (vol_pending v))) xs))
           ''No job assignments yet'' isLoading volume,
         av_flow = chart_slot_of ValueWorkflowAreaChart ''No financial data yet'' isLoading flow,
         av_jobs = job_performance num a s, av_latency = network_latency num a, av_money = financial_summary s\<rparr>)"

section \<open>The jobs page of the analytics\<close>

text \<open>The page draws its records at random when it is mounted; \<open>r k\<close> is the \<open>k\<close>-th call of \<open>Math.random\<close>, which
  lies in \<open>[0, 1)\<close>, \<open>code\<close> the text \<open>Math.random().toString(36).slice(2, 12)\<close> of a draw, and \<open>day\<close> the
  short date of so many days ago.\<close>

record analytics_job = job_record_row +
  jr_slaThroughput :: int
  jr_progress :: int
  jr_nodes :: int
  jr_duration :: int
  jr_completedAt :: "rat option"

definition analytics_clients :: "string list" where
  "analytics_clients =
     [''nexus-ai'', ''renderfarm'', ''synthwave'', ''neuralforge'', ''deepscale'', ''pixelflow'', ''aistudio'']"

definition pick :: "'a list \<Rightarrow> rat \<Rightarrow> 'a" where
  "pick xs u = xs ! nat \<lfloor>u * of_nat (length xs)\<rfloor>"

definition generateJobRecord :: "(rat \<Rightarrow> string) \<Rightarrow> int \<Rightarrow> (nat \<Rightarrow> rat) \<Rightarrow> analytics_job" where
  "generateJobRecord code now r =
     (let st = pick analytics_statuses (r 0); createdAt = of_int now - r 1 * 30 * 24 * 60 * 60 * 1000;
          k = (if st = ''completed'' then 6 else 7 :: nat)
      in \<lparr>jr_id = ''job_'' @ code (r 2), jr_clientId = pick analytics_clients (r 3), jr_status = st,
          jr_slaUptime = Fin (95 + r 4 * 5), jr_cost = Fin (r k * 5),
          jr_slaThroughput = 100 + \<lfloor>r 5 * 400\<rfloor>,
          jr_progress = (if st = ''completed'' then 100 else if st = ''failed'' then \<lfloor>r 6 * 80\<rfloor> else \<lfloor>r 6 * 100\<rfloor>),
          jr_nodes = \<lfloor>r (k + 1) * 4\<rfloor> + 1, jr_duration = \<lfloor>r (k + 2) * 3600\<rfloor> + 300,
          jr_completedAt = (if st = ''completed'' then Some (createdAt + r (k + 3) * 3600000) else None)\<rparr>)"

text \<open>Every record takes ten draws: a completed one has no progress to draw, and a time of completion instead.\<close>

definition generateJobRecords :: "(rat \<Rightarrow> string) \<Rightarrow> int \<Rightarrow> (nat \<Rightarrow> rat) \<Rightarrow> nat \<Rightarrow> analytics_job list" where
  "generateJobRecords code now r n = map (\<lambda>i. generateJobRecord code now (\<lambda>k. r (10 * i + k))) [0..<n]"

definition generateUptimeTrendData :: "(nat \<Rightarrow> string) \<Rightarrow> (nat \<Rightarrow> rat) \<Rightarrow> nat \<Rightarrow> (string \<times> jsnum \<times> jsnum) list" where
  "generateUptimeTrendData day r days = map (\<lambda>i. (day (days - i), Fin (94 + r i * 6), Fin 95)) [0..<days]"

record job_trend_point =
  jt_date :: string
  jt_submitted :: int
  jt_completed :: int
  jt_failed :: int

definition generateJobTrendData :: "(nat \<Rightarrow> string) \<Rightarrow> (nat \<Rightarrow> rat) \<Rightarrow> nat \<Rightarrow> job_trend_point list" where
  "generateJobTrendData day r days = map (\<lambda>i. \<lparr>jt_date = day (days - i), jt_submitted = \<lfloor>r (3 * i) * 30\<rfloor> + 10,
     jt_completed = \<lfloor>r (3 * i + 1) * 25\<rfloor> + 8, jt_failed = \<lfloor>r (3 * i + 2) * 5\<rfloor>\<rparr>) [0..<days]"

definition generateSLAComplianceData :: "(nat \<Rightarrow> string) \<Rightarrow> (nat \<Rightarrow> rat) \<Rightarrow> nat \<Rightarrow> (string \<times> jsnum) list" where
  "generateSLAComplianceData day r days = map (\<lambda>i. (day (days - i), Fin (92 + r i * 8))) [0..<days]"

definition generateCostDistributionData :: "(string \<times> nat) list" where
  "generateCostDistributionData =
     [(''LLM Fine-tuning'', 45), (''Batch Rendering'', 28), (''Image Processing'', 15), (''Data Processing'', 12)]"

definition generateClientBreakdown :: "(string \<times> nat \<times> rat \<times> rat) list" where
  "generateClientBreakdown = [(''nexus-ai'', 245, 12.4, 99.2), (''renderfarm'', 189, 9.8, 98.7), (''synthwave'', 156, 8.2, 99.5),
     (''neuralforge'', 134, 7.1, 97.8), (''deepscale'', 98, 5.4, 99.1)]"

text \<open>The figures of a client, the last one marked when it reaches ninety-nine.\<close>

definition ClientBreakdownTable :: "(string \<times> nat \<times> rat \<times> rat) list \<Rightarrow> (string \<times> string \<times> string \<times> string \<times> bool) list" where
  "ClientBreakdownTable data = map (\<lambda>(client, n, revenue, SLA).
     (client, show_nat n, toFixed 2 (Fin revenue) @ '' ETH'', toFixed 1 (Fin SLA) @ ''%'', 99 \<le> SLA)) data"

definition RecentJobsTable :: "analytics_job list \<Rightarrow> (string \<times> string \<times> string \<times> string \<times> string) list option" where
  "RecentJobsTable js = those (map (\<lambda>j. map_option (\<lambda>badge.
     (jr_id j, jr_clientId j, badge, toFixed 1 (jr_slaUptime j) @ ''%'', ''$'' @ toFixed 4 (jr_cost j)))
       (StatusBadge (Str (jr_status j)))) (take 10 js))"

definition StatusPieChart :: "(string \<times> nat) list \<Rightarrow> (string \<times> jsnum \<times> nat) list" where
  "StatusPieChart shares = map (\<lambda>d. (fst d, status_width shares d, snd d)) shares"

text \<open>\<open>formatDuration\<close> on the number it gets, which is an average.\<close>

fun duration_text :: "(jsnum \<Rightarrow> string) \<Rightarrow> jsnum \<Rightarrow> string" where
  "duration_text num (Fin s) =
     (if s < 60 then num (Fin s) @ ''s''
      else if s < 3600 then show_int \<lfloor>s / 60\<rfloor> @ ''m''
      else show_int \<lfloor>s / 3600\<rfloor> @ ''h '' @ show_int \<lfloor>(s - 3600 * of_int \<lfloor>s / 3600\<rfloor>) / 60\<rfloor> @ ''m'')"
| "duration_text num NaN = ''NaNh NaNm''"
| "duration_text num PosInf = ''Infinityh NaNm''"
| "duration_text num NegInf = ''-Infinitys''"

definition mean_of :: "('a \<Rightarrow> int) \<Rightarrow> 'a list \<Rightarrow> jsnum" where
  "mean_of f xs = js_div (js_int (sum_list (map f xs))) (Fin (of_nat (length xs)))"

text \<open>What is called the ninety-fifth percentile of the progress: the first of the running jobs, sorted downwards.\<close>

definition p95_progress :: "analytics_job list \<Rightarrow> int" where
  "p95_progress js = (case sort_key (\<lambda>j. - jr_progress j) (filter (\<lambda>j. jr_status j = ''running'') js) of
     [] \<Rightarrow> 0 | j # _ \<Rightarrow> jr_progress j)"

definition good_if :: "'a \<Rightarrow> 'a \<Rightarrow> jsnum \<Rightarrow> 'a" where
  "good_if g b x = (if js_le (Fin 95) x then g else b)"

record jobs_analytics_view =
  jav_cards :: "(string \<times> string \<times> string option) list"
  jav_volume :: chart
  jav_sla :: chart
  jav_pie :: "(string \<times> jsnum \<times> nat) list"
  jav_costs :: "(string \<times> string) list"
  jav_performance :: "(string \<times> string) list"
  jav_quick :: "(string \<times> int) list"
  jav_clients :: "(string \<times> string \<times> string \<times> string \<times> bool) list"
  jav_recent :: "(string \<times> string \<times> string \<times> string \<times> string) list"

definition jobs_analytics_cards :: "jobs_analytics \<Rightarrow> (string \<times> string \<times> string option) list" where
  "jobs_analytics_cards p =
     [(''Total Jobs'', MetricCard (show_nat (ja_total p)) (Some card_trend.TrendUp) (Some ''+12%'')),
      (''Success Rate'', MetricCard (toFixed 1 (ja_successRate p) @ ''%'')
        (Some (good_if card_trend.TrendUp card_trend.TrendDown (ja_successRate p)))
        (Some (good_if ''Good'' ''At Risk'' (ja_successRate p)))),
      (''Avg SLA'', MetricCard (toFixed 2 (ja_avgSLA p) @ ''%'')
        (Some (good_if card_trend.TrendUp card_trend.TrendDown (ja_avgSLA p))) (Some ''compliance'')),
      (''Total Revenue'', MetricCard (toFixed 2 (ja_totalCost p) @ '' ETH'') (Some card_trend.TrendUp) (Some ''all time''))]"

definition job_trend_chart :: "job_trend_point list \<Rightarrow> chart" where
  "job_trend_chart trend = JobVolumeBarChart (map (\<lambda>d. (jt_date d, jt_completed d, jt_failed d,
     jt_submitted d - jt_completed d - jt_failed d)) trend)"

definition compliance_chart :: "(string \<times> jsnum) list \<Rightarrow> chart" where
  "compliance_chart compliance = UptimeLineChart (map (\<lambda>(d, c). (d, c, Fin 95)) compliance)"

definition performance_metrics :: "(jsnum \<Rightarrow> string) \<Rightarrow> analytics_job list \<Rightarrow> (string \<times> string) list" where
  "performance_metrics num js =
     [(''Avg Duration'', duration_text num (mean_of jr_duration js)),
      (''Avg Nodes/Job'', toFixed 1 (mean_of jr_nodes js)),
      (''P95 Progress'', show_int (p95_progress js) @ ''%''),
      (''Requeue Rate'', toFixed 1 (js_mul (js_div (Fin (of_nat (count_by (\<lambda>j. jr_status j = ''requeued'') js)))
        (Fin (of_nat (length js)))) (Fin 100)) @ ''%'')]"

definition quick_stats :: "jobs_analytics \<Rightarrow> (string \<times> int) list" where
  "quick_stats p = [(''Completed'', int (ja_completed p)), (''Failed'', int (ja_failed p)), (''Running'', int (ja_running p)),
     (''Pending'', int (ja_total p) - int (ja_completed p) - int (ja_failed p) - int (ja_running p))]"

definition jobs_analytics_view ::
  "(jsnum \<Rightarrow> string) \<Rightarrow> analytics_job list \<Rightarrow> job_trend_point list \<Rightarrow> (string \<times> jsnum) list \<Rightarrow> jobs_analytics_view option" where
  "jobs_analytics_view num js trend compliance =
     (let p = JobsAnalyticsPage (map job_record_row.truncate js)
      in map_option (\<lambda>recent.
        \<lparr>jav_cards = jobs_analytics_cards p, jav_volume = job_trend_chart trend, jav_sla = compliance_chart compliance,
         jav_pie = StatusPieChart (ja_distribution p),
         jav_costs = map (\<lambda>(name, v). (name, show_nat v @ ''%'')) generateCostDistributionData,
         jav_performance = performance_metrics num js, jav_quick = quick_stats p,
         jav_clients = ClientBreakdownTable generateClientBreakdown, jav_recent = recent\<rparr>) (RecentJobsTable js))"

text \<open>The page as it is mounted: the draws follow each other, those for the unused uptime data included.\<close>

definition mount_jobs_analytics ::
  "(rat \<Rightarrow> string) \<Rightarrow> (nat \<Rightarrow> string) \<Rightarrow> (jsnum \<Rightarrow> string) \<Rightarrow> int \<Rightarrow> (nat \<Rightarrow> rat) \<Rightarrow> jobs_analytics_view option" where
  "mount_jobs_analytics code day num now r =
     jobs_analytics_view num (generateJobRecords code now r 100)
       (generateJobTrendData day (\<lambda>k. r (1030 + k)) 14) (generateSLAComplianceData day (\<lambda>k. r (1072 + k)) 30)"

section \<open>Lemmas\<close>

lemma floor_draw:
  fixes u :: rat
  assumes "0 \<le> u" "u < 1" "0 < n"
  shows "0 \<le> \<lfloor>u * of_int n\<rfloor>" and "\<lfloor>u * of_int n\<rfloor> < n"
proof -
  have "u * of_int n < 1 * of_int n" using assms by (intro mult_strict_right_mono) simp_all
  then show "\<lfloor>u * of_int n\<rfloor> < n" by (simp add: floor_less_iff)
qed (use assms in simp)

lemma pick_in: "0 \<le> u \<Longrightarrow> u < 1 \<Longrightarrow> xs \<noteq> [] \<Longrightarrow> pick xs u \<in> set xs"
  using floor_draw[of u "int (length xs)"] by (auto simp: pick_def nat_less_iff intro!: nth_mem)

lemma StatusBadge_drawn: "st \<in> set analytics_statuses \<Longrightarrow> StatusBadge (Str st) \<noteq> None"
  by (auto simp: analytics_statuses_def StatusBadge_def lookup_def badge_labels_def)

lemma status_drawn: "0 \<le> r 0 \<Longrightarrow> r 0 < 1 \<Longrightarrow> jr_status (generateJobRecord code now r) \<in> set analytics_statuses"
  using pick_in[of "r 0" analytics_statuses] by (simp add: generateJobRecord_def Let_def analytics_statuses_def)

lemma status_truncate [simp]: "jr_status (job_record_row.truncate j) = jr_status j"
  by (simp add: job_record_row.truncate_def)

lemma with_status_truncate:
  "with_status st (map job_record_row.truncate js) = count_by (\<lambda>j. jr_status j = st) js"
  by (simp add: with_status_def count_by_map)

lemma RecentJobsTable_drawn:
  assumes "\<And>j. j \<in> set js \<Longrightarrow> jr_status j \<in> set analytics_statuses"
  shows "\<exists>rows. RecentJobsTable js = Some rows \<and> length rows = min 10 (length js)"
proof -
  let ?badge = "\<lambda>j. StatusBadge (Str (jr_status j))"
  have "?badge j = Some (the (?badge j))" if "j \<in> set (take 10 js)" for j
    using StatusBadge_drawn[OF assms[OF in_set_takeD[OF that]]] by simp
  then have "RecentJobsTable js = Some (map (\<lambda>j. (jr_id j, jr_clientId j, the (?badge j),
      toFixed 1 (jr_slaUptime j) @ ''%'', ''$'' @ toFixed 4 (jr_cost j))) (take 10 js))"
    unfolding RecentJobsTable_def by (intro none_throws) (metis (no_types, lifting) option.map(2))
  then show ?thesis by (simp add: min.commute)
qed

section \<open>Properties\<close>

text \<open>Also: whatever is drawn, the jobs page renders: its table shows ten of its hundred records, the chart of the
  statuses counts every record once, and the figure called pending is the pending and the requeued
  records together. The pending bar of a day, what was submitted less what ended, is anything between
  minus twenty-six and thirty-one.\<close>

theorem jobs_analytics_mounts:
  assumes "\<forall>k. 0 \<le> r k \<and> r k < 1"
  shows "\<exists>v. mount_jobs_analytics code day num now r = Some v \<and> length (jav_recent v) = 10 \<and>
    (\<Sum>(s, w, n) \<leftarrow> jav_pie v. n) = 100 \<and> length (ch_labels (jav_volume v)) = 14 \<and>
    (\<exists>a b. jav_quick v ! 3 = (''Pending'', int a + int b) \<and> snd (snd (jav_pie v ! 3)) = a \<and> snd (snd (jav_pie v ! 4)) = b) \<and>
    (\<forall>y \<in> set (snd (snd (ch_series (jav_volume v) ! 2))). \<exists>i. y = js_int i \<and> -26 \<le> i \<and> i \<le> 31)"
proof -
  let ?js = "generateJobRecords code now r 100"
  have st: "jr_status j \<in> set analytics_statuses" if "j \<in> set ?js" for j
    using that assms by (auto simp: generateJobRecords_def intro!: status_drawn)
  have len: "length ?js = 100" by (simp add: generateJobRecords_def)
  obtain rows where rows: "RecentJobsTable ?js = Some rows" "length rows = 10"
    using RecentJobsTable_drawn[of ?js] st len by auto
  have parts: "count_by (\<lambda>j. jr_status j = ''completed'') ?js + count_by (\<lambda>j. jr_status j = ''failed'') ?js +
      count_by (\<lambda>j. jr_status j = ''running'') ?js + count_by (\<lambda>j. jr_status j = ''pending'') ?js +
      count_by (\<lambda>j. jr_status j = ''requeued'') ?js = 100"
    using count_statuses[of ?js jr_status] st len by simp
  have bars: "-26 \<le> jt_submitted d - jt_completed d - jt_failed d \<and> jt_submitted d - jt_completed d - jt_failed d \<le> 31"
    if d: "d \<in> set (generateJobTrendData day (\<lambda>k. r (1030 + k)) 14)" for d
  proof -
    obtain i where i: "d = \<lparr>jt_date = day (14 - i), jt_submitted = \<lfloor>r (1030 + 3 * i) * 30\<rfloor> + 10,
        jt_completed = \<lfloor>r (1031 + 3 * i) * 25\<rfloor> + 8, jt_failed = \<lfloor>r (1032 + 3 * i) * 5\<rfloor>\<rparr>"
      using d by (auto simp: generateJobTrendData_def add.assoc[symmetric])
    have draw: "0 \<le> \<lfloor>r k * of_int n\<rfloor> \<and> \<lfloor>r k * of_int n\<rfloor> < n" if "0 < n" for k n
      using floor_draw[of "r k" n] assms that by simp
    have "0 \<le> \<lfloor>r (1030 + 3 * i) * 30\<rfloor> \<and> \<lfloor>r (1030 + 3 * i) * 30\<rfloor> < 30"
      "0 \<le> \<lfloor>r (1031 + 3 * i) * 25\<rfloor> \<and> \<lfloor>r (1031 + 3 * i) * 25\<rfloor> < 25"
      "0 \<le> \<lfloor>r (1032 + 3 * i) * 5\<rfloor> \<and> \<lfloor>r (1032 + 3 * i) * 5\<rfloor> < 5"
      using draw[of 30] draw[of 25] draw[of 5] by simp_all
    then show ?thesis by (simp only: i job_trend_point.select_convs) linarith
  qed
  let ?v = "the (mount_jobs_analytics code day num now r)"
  have v: "mount_jobs_analytics code day num now r = Some ?v"
    by (simp add: mount_jobs_analytics_def jobs_analytics_view_def Let_def rows)
  note view = mount_jobs_analytics_def jobs_analytics_view_def Let_def rows
  note page = JobsAnalyticsPage_def with_status_truncate StatusPieChart_def quick_stats_def len
  have quick: "jav_quick ?v ! 3 = (''Pending'', int (count_by (\<lambda>j. jr_status j = ''pending'') ?js) +
      int (count_by (\<lambda>j. jr_status j = ''requeued'') ?js))"
    using parts by (simp add: view page)
  have pie: "(\<Sum>(s, w, n) \<leftarrow> jav_pie ?v. n) = 100" "snd (snd (jav_pie ?v ! 3)) = count_by (\<lambda>j. jr_status j = ''pending'') ?js"
    "snd (snd (jav_pie ?v ! 4)) = count_by (\<lambda>j. jr_status j = ''requeued'') ?js"
    using parts by (simp_all add: view page)
  have "length (jav_recent ?v) = 10" "length (ch_labels (jav_volume ?v)) = 14"
    by (simp_all add: view job_trend_chart_def JobVolumeBarChart_def generateJobTrendData_def)
  moreover have "\<exists>i. y = js_int i \<and> -26 \<le> i \<and> i \<le> 31"
    if y: "y \<in> set (snd (snd (ch_series (jav_volume ?v) ! 2)))" for y
  proof -
    obtain d where "d \<in> set (generateJobTrendData day (\<lambda>k. r (1030 + k)) 14)"
      and "y = js_int (jt_submitted d - jt_completed d - jt_failed d)"
      using y by (auto simp: view job_trend_chart_def JobVolumeBarChart_def)
    then show ?thesis using bars by blast
  qed
  ultimately show ?thesis using v quick pie by blast
qed

lemma jobs_analytics_mounts_witness:
  "mount_jobs_analytics (\<lambda>_. []) (\<lambda>_. []) (\<lambda>_. []) 0 (\<lambda>_. 0) \<noteq> None"
  using jobs_analytics_mounts[of "\<lambda>_. 0" "\<lambda>_. []" "\<lambda>_. []" "\<lambda>_. []" 0] by auto

text \<open>Also: on the analytics page the card of the uptime and the gauge agree on the target, the bar of the gauge
  stays in its track, and a chart is drawn exactly when there is data; once the figures are there, an
  empty chart never looks as if it were loading.\<close>

theorem analytics_page_agrees:
  fixes u :: rat and num and a and loading and uptimes and volume and flow
  defines "v \<equiv> AnalyticsPage num a loading uptimes volume flow"
  assumes "avgUptime (analytics_summary uptimes a) = Fin u" and "0 \<le> u"
  shows "sk_trend (av_cards v ! 0) = (if 95 \<le> u then card_trend.TrendUp else if 0 < u then card_trend.TrendDown else card_trend.TrendNeutral) \<and>
    (hd (fst (av_gauge v)) = ''Compliant'' \<longleftrightarrow> sk_note (av_cards v ! 0) = ''SLA met'') \<and>
    (\<exists>w. snd (av_gauge v) = Fin w \<and> 0 \<le> w \<and> w \<le> 100 \<and> (w = 100 \<longleftrightarrow> 95 \<le> u)) \<and>
    ((\<exists>c. av_volume v = ChartShown c) \<longleftrightarrow> or_else volume [] \<noteq> []) \<and>
    (a \<noteq> None \<longrightarrow> ChartPulse \<notin> {av_uptime v, av_volume v, av_flow v})"
proof -
  have "sk_trend (av_cards v ! 0) = (if 95 \<le> u then card_trend.TrendUp else if 0 < u then card_trend.TrendDown else card_trend.TrendNeutral)"
    "sk_note (av_cards v ! 0) = (if 95 \<le> u then ''SLA met'' else ''Below target'')"
    by (auto simp: v_def AnalyticsPage_def analytics_cards_def Let_def assms(2) js_le_def)
  moreover have "av_gauge v = sla_gauge_text num (Fin u) (Fin 95)"
    by (simp add: v_def AnalyticsPage_def Let_def assms(2))
  moreover have "hd (fst (sla_gauge_text num (Fin u) (Fin 95))) = (if 95 \<le> u then ''Compliant'' else ''At Risk'')"
    by (auto simp: sla_gauge_text_def js_le_def)
  moreover have "snd (sla_gauge_text num (Fin u) (Fin 95)) = Fin (min (u / 95 * 100) 100)"
    by (simp add: sla_gauge_text_def)
  moreover have "0 \<le> min (u / 95 * 100) 100" "min (u / 95 * 100) 100 \<le> 100" "min (u / 95 * 100) 100 = 100 \<longleftrightarrow> 95 \<le> u"
    using assms(3) by (auto simp: min_def field_simps)
  moreover have "(\<exists>c. av_volume v = ChartShown c) \<longleftrightarrow> or_else volume [] \<noteq> []"
    by (simp add: v_def AnalyticsPage_def Let_def chart_slot_of_def)
  moreover have "a \<noteq> None \<Longrightarrow> ChartPulse \<notin> {av_uptime v, av_volume v, av_flow v}"
    by (auto simp: v_def AnalyticsPage_def Let_def chart_slot_of_def split: if_splits)
  ultimately show ?thesis by auto
qed

end
