(* ===== verification/NodePages.thy ===== *)
theory NodePages
  imports Realtime NodesData
begin

text \<open>
  The page of a node, \<open>app/(dashboard)/nodes/[id]/page.tsx\<close>, with its heartbeat timeline fed by the
  realtime node feed, and the registration form \<open>app/(dashboard)/nodes/register/page.tsx\<close>. Clock
  readings and random numbers are arguments; \<open>hourOf\<close> is \<open>new Date(ts).getHours()\<close>.
\<close>

section \<open>Heartbeat slots\<close>

datatype slot_status = SlotOk | VramWarn | VramCritical | LatencyWarn | LatencyCritical | Missed

record heartbeat_slot =
  slot_time :: jsnum
  slot_status :: slot_status
  slot_vramUsed :: jsnum
  slot_vramTotal :: jsnum
  slot_latency :: jsnum

text \<open>One generated slot: \<open>missed\<close> is the draw below 0.02.\<close>

definition generated_slot :: "bool \<Rightarrow> jsnum \<Rightarrow> jsnum \<Rightarrow> jsnum \<Rightarrow> heartbeat_slot" where
  "generated_slot missed ts used lat =
     (let pct = js_mul (js_div used (Fin 80)) (Fin 100)
      in \<lparr>slot_time = ts,
          slot_status =
            (if missed then Missed
             else if js_lt (Fin 95) pct then VramCritical
             else if js_lt (Fin 85) pct then VramWarn
             else if js_lt (Fin 300) lat then LatencyCritical
             else if js_lt (Fin 150) lat then LatencyWarn
             else SlotOk),
          slot_vramUsed = used, slot_vramTotal = Fin 80, slot_latency = lat\<rparr>)"

text \<open>\<open>draws\<close> are the random draws of the slots; slot \<open>i\<close> lies \<open>(count - i) * 5\<close> minutes back.\<close>

definition generateHeartbeatSlots :: "int \<Rightarrow> (bool \<times> jsnum \<times> jsnum) list \<Rightarrow> heartbeat_slot list" where
  "generateHeartbeatSlots now draws =
     map (\<lambda>(i, m, u, l). generated_slot m (js_int (now - (int (length draws) - int i) * 5 * 60 * 1000)) u l)
       (zip [0..<length draws] draws)"

text \<open>The groups of consecutive slots of the same hour, as the loop builds them.\<close>

definition hour_step ::
  "(heartbeat_slot \<Rightarrow> int) \<Rightarrow> heartbeat_slot \<Rightarrow> heartbeat_slot list list \<times> int \<times> heartbeat_slot list \<Rightarrow>
   heartbeat_slot list list \<times> int \<times> heartbeat_slot list" where
  "hour_step hourOf slot st = (case st of (groups, currentHour, currentGroup) \<Rightarrow>
     if hourOf slot \<noteq> currentHour
     then (if currentGroup \<noteq> [] then groups @ [currentGroup] else groups, hourOf slot, [slot])
     else (groups, currentHour, currentGroup @ [slot]))"

definition hourlySlots :: "(heartbeat_slot \<Rightarrow> int) \<Rightarrow> heartbeat_slot list \<Rightarrow> heartbeat_slot list list" where
  "hourlySlots hourOf slots =
     (case fold (hour_step hourOf) slots ([], -1, []) of (groups, h, g) \<Rightarrow>
        if g \<noteq> [] then groups @ [g] else groups)"

definition healthScore :: "heartbeat_slot list \<Rightarrow> jsnum" where
  "healthScore slots =
     js_round (js_mul (js_div (js_int (int (count_by (\<lambda>s. slot_status s = SlotOk) slots)))
       (js_int (int (length slots)))) (Fin 100))"

definition statusCounts :: "heartbeat_slot list \<Rightarrow> slot_status \<Rightarrow> nat" where
  "statusCounts slots = fold (\<lambda>s acc. acc(slot_status s := acc (slot_status s) + 1)) slots (\<lambda>_. 0)"

definition shown_latency_count :: "heartbeat_slot list \<Rightarrow> nat" where
  "shown_latency_count slots = statusCounts slots LatencyWarn + statusCounts slots LatencyCritical"

text \<open>The slot the effect makes of an update; the realtime rows carry neither the memory in use nor a
  latency, so those are 0.\<close>

definition slot_of_update :: "jsnum \<Rightarrow> node_update \<Rightarrow> heartbeat_slot" where
  "slot_of_update now u =
     \<lparr>slot_time = now,
      slot_status = (if nu_status u = Some ''online'' then SlotOk
                     else if nu_status u = Some ''stale'' then VramWarn else Missed),
      slot_vramUsed = Fin 0,
      slot_vramTotal = (case nu_vramTotal u of Some t \<Rightarrow> js_or t (Fin 16) | None \<Rightarrow> Fin 16),
      slot_latency = Fin 0\<rparr>"

text \<open>The effect runs whenever the feed has changed.\<close>

definition timeline_effect ::
  "string \<Rightarrow> jsnum \<Rightarrow> node_update list \<Rightarrow> heartbeat_slot list \<Rightarrow> heartbeat_slot list" where
  "timeline_effect nodeId now updates slots =
     (if updates = [] then slots
      else (case find (\<lambda>u. nu_nodeId u = Some nodeId) updates of
          None \<Rightarrow> slots
        | Some u \<Rightarrow> drop 1 slots @ [slot_of_update now u]))"

text \<open>An update arrives: the feed takes it and the effect runs.\<close>

definition timeline_step ::
  "string \<Rightarrow> node_update \<times> jsnum \<Rightarrow> node_update list \<times> heartbeat_slot list \<Rightarrow>
   node_update list \<times> heartbeat_slot list" where
  "timeline_step nodeId e st = (case (e, st) of ((u, now), (feed, slots)) \<Rightarrow>
     let feed' = node_push u feed in (feed', timeline_effect nodeId now feed' slots))"

section \<open>The registration form\<close>

record register_form =
  nodeName :: string
  rf_region :: string
  rf_cpuModel :: string
  rf_cpuCores :: string
  rf_vramTotal :: string
  rf_walletAddress :: string
  rf_stakeAmount :: string

datatype register_field = FNodeName | FNodeRegion | FNodeCpuModel | FNodeCpuCores | FNodeVram | FWallet | FStake

record stake_tier =
  st_tier :: reputation_tier
  st_minStake :: rat

definition stakeTiers :: "stake_tier list" where
  "stakeTiers = [\<lparr>st_tier = Gold, st_minStake = 40\<rparr>, \<lparr>st_tier = Silver, st_minStake = 25\<rparr>,
     \<lparr>st_tier = Bronze, st_minStake = 10\<rparr>]"

definition tier_valid :: "string \<Rightarrow> stake_tier \<Rightarrow> bool" where
  "tier_valid stake t \<longleftrightarrow> js_le (Fin (st_minStake t)) (parseFloat stake)"

definition estimatedTier :: "string \<Rightarrow> reputation_tier" where
  "estimatedTier stake =
     (let amount = js_or (parseFloat stake) (Fin 0) in
      if js_le (Fin 40) amount then Gold
      else if js_le (Fin 25) amount then Silver
      else if js_le (Fin 10) amount then Bronze
      else Bronze)"

text \<open>The regular expression \<open>/^0x[a-fA-F0-9]{10,}$/\<close>.\<close>

definition address_shape :: "string \<Rightarrow> bool" where
  "address_shape a \<longleftrightarrow> starts_with ''0x'' a \<and> 10 \<le> length (drop 2 a) \<and> list_all is_hex_char (drop 2 a)"

definition register_errors :: "register_form \<Rightarrow> (register_field \<times> string) list" where
  "register_errors f =
     (if str_trim (nodeName f) = '''' then [(FNodeName, ''Node name is required'')] else []) @
     (if rf_region f = '''' then [(FNodeRegion, ''Region is required'')] else []) @
     (if str_trim (rf_cpuModel f) = '''' then [(FNodeCpuModel, ''CPU model is required'')] else []) @
     (if rf_cpuCores f = '''' \<or> js_lt (parseInt (rf_cpuCores f)) (Fin 1)
      then [(FNodeCpuCores, ''Valid core count is required'')] else []) @
     (if rf_vramTotal f = '''' \<or> js_lt (parseFloat (rf_vramTotal f)) (Fin 1)
      then [(FNodeVram, ''Valid VRAM amount is required'')] else []) @
     (if str_trim (rf_walletAddress f) = '''' then [(FWallet, ''Wallet address is required'')]
      else if \<not> address_shape (rf_walletAddress f) then [(FWallet, ''Invalid Ethereum address format'')] else []) @
     (if rf_stakeAmount f = '''' \<or> js_lt (parseFloat (rf_stakeAmount f)) (Fin 10)
      then [(FStake, ''Minimum stake of 10 ETH is required'')] else [])"

record register_page =
  rp_form :: register_form
  selectedTier :: reputation_tier
  isSubmitting :: bool
  isComplete :: bool
  rp_errors :: "(register_field \<times> string) list"

definition register_init :: register_page where
  "register_init = \<lparr>rp_form = \<lparr>nodeName = '''', rf_region = '''', rf_cpuModel = '''', rf_cpuCores = '''',
     rf_vramTotal = '''', rf_walletAddress = '''', rf_stakeAmount = ''''\<rparr>,
     selectedTier = Silver, isSubmitting = False, isComplete = False, rp_errors = []\<rparr>"

fun set_field :: "register_field \<Rightarrow> string \<Rightarrow> register_form \<Rightarrow> register_form" where
  "set_field FNodeName v f = f\<lparr>nodeName := v\<rparr>"
| "set_field FNodeRegion v f = f\<lparr>rf_region := v\<rparr>"
| "set_field FNodeCpuModel v f = f\<lparr>rf_cpuModel := v\<rparr>"
| "set_field FNodeCpuCores v f = f\<lparr>rf_cpuCores := v\<rparr>"
| "set_field FNodeVram v f = f\<lparr>rf_vramTotal := v\<rparr>"
| "set_field FWallet v f = f\<lparr>rf_walletAddress := v\<rparr>"
| "set_field FStake v f = f\<lparr>rf_stakeAmount := v\<rparr>"

datatype register_event = Change register_field string | SelectTier reputation_tier | SubmitForm | TimerDone

text \<open>
  Submitting validates and, without errors, shows the spinner; two seconds later the page says that
  the registration was submitted. No request is made in between.
\<close>

fun register_step :: "register_event \<Rightarrow> register_page \<Rightarrow> register_page" where
  "register_step (Change k v) p =
     p\<lparr>rp_form := set_field k v (rp_form p), rp_errors := filter (\<lambda>e. fst e \<noteq> k) (rp_errors p)\<rparr>"
| "register_step (SelectTier t) p = p\<lparr>selectedTier := t\<rparr>"
| "register_step SubmitForm p =
     (let es = register_errors (rp_form p)
      in if es \<noteq> [] then p\<lparr>rp_errors := es\<rparr> else p\<lparr>rp_errors := [], isSubmitting := True\<rparr>)"
| "register_step TimerDone p = (if isSubmitting p then p\<lparr>isSubmitting := False, isComplete := True\<rparr> else p)"

section \<open>Lemmas: the timeline\<close>

lemma statusCounts_count: "statusCounts slots st = count_by (\<lambda>s. slot_status s = st) slots"
proof -
  have "fold (\<lambda>s acc. acc(slot_status s := acc (slot_status s) + 1)) slots c st =
      c st + count_by (\<lambda>s. slot_status s = st) slots" for c :: "slot_status \<Rightarrow> nat"
    by (induction slots arbitrary: c) auto
  then show ?thesis by (simp add: statusCounts_def)
qed

text \<open>What the loop over the slots keeps: the groups are non-empty runs of one hour, neighbouring groups
  have different hours, and together they are the slots seen so far.\<close>

definition run_of :: "('a \<Rightarrow> int) \<Rightarrow> 'a list \<Rightarrow> bool" where
  "run_of hour g \<longleftrightarrow> g \<noteq> [] \<and> (\<forall>s \<in> set g. hour s = hour (hd g))"

definition runs_of :: "('a \<Rightarrow> int) \<Rightarrow> 'a list list \<Rightarrow> bool" where
  "runs_of hour gs \<longleftrightarrow> list_all (run_of hour) gs \<and> successively (\<lambda>g g'. hour (hd g) \<noteq> hour (hd g')) gs"

lemma run_of_single [simp]: "run_of hour [s]"
  by (simp add: run_of_def)

lemma run_of_extend:
  assumes "run_of hour g" "hour s = hour (hd g)"
  shows "run_of hour (g @ [s])"
proof -
  have "hd (g @ [s]) = hd g"
    using assms(1) unfolding run_of_def by (meson hd_append2)
  moreover have "set (g @ [s]) = insert s (set g)" by simp
  ultimately show ?thesis
    using assms unfolding run_of_def by (metis insertE snoc_eq_iff_butlast)
qed

definition hour_inv :: "(heartbeat_slot \<Rightarrow> int) \<Rightarrow> heartbeat_slot list \<Rightarrow> heartbeat_slot list list \<times> int \<times> heartbeat_slot list \<Rightarrow> bool" where
  "hour_inv hourOf seen st = (case st of (groups, h, g) \<Rightarrow>
     if g = [] then groups = [] \<and> seen = [] \<and> h = -1
     else concat groups @ g = seen \<and> h = hourOf (hd g) \<and> runs_of hourOf (groups @ [g]))"

lemma runs_of_snoc:
  "runs_of hour (gs @ [g, g']) \<longleftrightarrow> runs_of hour (gs @ [g]) \<and> run_of hour g' \<and> hour (hd g) \<noteq> hour (hd g')"
  by (auto simp: runs_of_def successively_append_iff)

lemma runs_of_extend:
  "g \<noteq> [] \<Longrightarrow> hour s = hour (hd g) \<Longrightarrow> runs_of hour (gs @ [g]) \<Longrightarrow> runs_of hour (gs @ [g @ [s]])"
  by (auto simp: runs_of_def successively_append_iff run_of_extend)

lemma hour_inv_step:
  assumes inv: "hour_inv hourOf seen st" and pos: "0 \<le> hourOf s"
  shows "hour_inv hourOf (seen @ [s]) (hour_step hourOf s st)"
proof -
  obtain groups h g where st: "st = (groups, h, g)" by (rule prod_cases3)
  show ?thesis
  proof (cases "g = []")
    case True
    with inv st pos show ?thesis
      by (auto simp: hour_inv_def hour_step_def runs_of_def)
  next
    case False
    with inv st have i: "concat groups @ g = seen" "h = hourOf (hd g)" "runs_of hourOf (groups @ [g])"
      by (auto simp: hour_inv_def)
    show ?thesis
    proof (cases "hourOf s = h")
      case True
      with False i st show ?thesis
        by (auto simp: hour_inv_def hour_step_def intro: runs_of_extend)
    next
      case other: False
      have "runs_of hourOf (groups @ [g, [s]])"
        using i(2,3) other by (simp add: runs_of_snoc)
      with False i(1) st other show ?thesis
        by (auto simp: hour_inv_def hour_step_def)
    qed
  qed
qed

lemma hour_inv_run:
  "\<forall>s \<in> set slots. 0 \<le> hourOf s \<Longrightarrow> hour_inv hourOf slots (fold (hour_step hourOf) slots ([], -1, []))"
proof (induction slots rule: rev_induct)
  case Nil
  then show ?case by (simp add: hour_inv_def)
next
  case (snoc s slots)
  then show ?case by (simp add: hour_inv_step)
qed

text \<open>Where the last update of a node is in the feed while other nodes report.\<close>

definition own_first :: "string \<Rightarrow> node_update \<Rightarrow> nat \<Rightarrow> node_update list \<Rightarrow> bool" where
  "own_first nodeId u k feed \<longleftrightarrow> nu_nodeId u = Some nodeId \<and>
     (\<exists>pre rest. feed = pre @ u # rest \<and> length pre \<le> k \<and> (\<forall>v \<in> set pre. nu_nodeId v \<noteq> Some nodeId))"

lemma own_first_push:
  assumes own: "own_first nodeId u k feed" and other: "nu_nodeId v \<noteq> Some nodeId" and k: "k < 49"
  shows "own_first nodeId u (Suc k) (node_push v feed)"
proof -
  obtain pre rest where feed: "feed = pre @ u # rest" "length pre \<le> k" "\<forall>v \<in> set pre. nu_nodeId v \<noteq> Some nodeId"
    and id: "nu_nodeId u = Some nodeId"
    using own by (auto simp: own_first_def)
  define f where "f = filter (\<lambda>w :: node_update. nu_nodeId w \<noteq> nu_nodeId v)"
  have len: "length (f pre) \<le> k"
    using feed(2) by (simp add: f_def) (meson length_filter_le order_trans)
  have "node_push v feed = take 50 ((v # f pre) @ u # f rest)"
    using id other by (simp add: node_push_def feed(1) f_def)
  also have "\<dots> = (v # f pre) @ u # take (48 - length (f pre)) (f rest)"
    using len k by (simp add: take_Cons' )
  finally show ?thesis
    using len feed(3) other id unfolding own_first_def
    by (intro conjI exI[of _ "v # f pre"] exI[of _ "take (48 - length (f pre)) (f rest)"]) (auto simp: f_def)
qed

lemma own_first_push_own: "nu_nodeId u = Some nodeId \<Longrightarrow> own_first nodeId u 0 (node_push u feed)"
  by (auto simp: own_first_def node_push_def intro: exI[of _ "[]"])

lemma own_first_effect:
  assumes "own_first nodeId u k feed"
  shows "timeline_effect nodeId now feed slots = drop 1 slots @ [slot_of_update now u]"
proof -
  obtain pre rest where feed: "feed = pre @ u # rest" "\<forall>v \<in> set pre. nu_nodeId v \<noteq> Some nodeId"
    and id: "nu_nodeId u = Some nodeId"
    using assms by (auto simp: own_first_def)
  have "find (\<lambda>u. nu_nodeId u = Some nodeId) feed = Some u"
    using feed(2) id unfolding feed(1) by (induction pre) auto
  then show ?thesis
    by (simp add: timeline_effect_def feed(1))
qed

lemma timeline_step_simp [simp]:
  "timeline_step nodeId (u, now) (feed, slots) =
     (node_push u feed, timeline_effect nodeId now (node_push u feed) slots)"
  by (simp add: timeline_step_def Let_def)

lemma timeline_repeats:
  assumes "own_first nodeId u k feed" "k + length vs < 50" "length vs \<le> length slots"
    and "\<forall>(v, t) \<in> set vs. nu_nodeId v \<noteq> Some nodeId"
  shows "snd (fold (timeline_step nodeId) vs (feed, slots)) =
    drop (length vs) slots @ map (\<lambda>(v, t). slot_of_update t u) vs"
  using assms
proof (induction vs arbitrary: k feed slots)
  case (Cons e vs)
  obtain v t where e: "e = (v, t)" by fastforce
  obtain s slots' where slots: "slots = s # slots'"
    using Cons.prems(3) by (cases slots) auto
  have own: "own_first nodeId u (Suc k) (node_push v feed)"
    using Cons.prems e by (intro own_first_push) auto
  have "snd (fold (timeline_step nodeId) vs (node_push v feed, slots' @ [slot_of_update t u])) =
      drop (length vs) (slots' @ [slot_of_update t u]) @ map (\<lambda>(v, t). slot_of_update t u) vs"
    using Cons.prems e slots by (intro Cons.IH[OF own]) auto
  moreover have "length vs \<le> length slots'"
    using Cons.prems(3) slots by simp
  ultimately show ?case
    by (simp add: e slots own_first_effect[OF own] Let_def)
qed simp

lemma timeline_length:
  "slots \<noteq> [] \<Longrightarrow> length (snd (fold (timeline_step nodeId) es (feed, slots))) = length slots"
proof (induction es arbitrary: feed slots)
  case (Cons e es)
  obtain v t where e: "e = (v, t)" by fastforce
  let ?slots = "timeline_effect nodeId t (node_push v feed) slots"
  have len: "length ?slots = length slots"
    using Cons.prems by (auto simp: timeline_effect_def split: option.split)
  with Cons.prems have "?slots \<noteq> []" by auto
  from Cons.IH[OF this] len show ?case
    by (simp add: e)
qed simp

section \<open>Properties\<close>

text \<open>Also: the hour groups of the timeline are exactly the maximal runs of slots of one hour: put together
  they are all the slots in their order, no group is empty or mixes hours, and neighbouring groups
  belong to different hours; and every slot is counted under exactly its status.\<close>

theorem hourly_groups:
  assumes "\<forall>s \<in> set slots. 0 \<le> hourOf s"
  shows "concat (hourlySlots hourOf slots) = slots \<and> runs_of hourOf (hourlySlots hourOf slots) \<and>
    (\<forall>st. statusCounts slots st = length (filter (\<lambda>s. slot_status s = st) slots))"
proof -
  obtain groups h g where run: "fold (hour_step hourOf) slots ([], -1, []) = (groups, h, g)"
    by (rule prod_cases3)
  then have "concat (hourlySlots hourOf slots) = slots \<and> runs_of hourOf (hourlySlots hourOf slots)"
    using hour_inv_run[OF assms] by (auto simp: hour_inv_def hourlySlots_def runs_of_def split: if_splits)
  then show ?thesis
    by (simp add: statusCounts_count count_by_def)
qed

definition sample_slot :: "slot_status \<Rightarrow> rat \<Rightarrow> heartbeat_slot" where
  "sample_slot st t = \<lparr>slot_time = Fin t, slot_status = st, slot_vramUsed = Fin 0, slot_vramTotal = Fin 80, slot_latency = Fin 0\<rparr>"

lemma hourly_groups_witness:
  "runs_of (\<lambda>s. if slot_time s = Fin 0 then 3 else 4)
     (hourlySlots (\<lambda>s. if slot_time s = Fin 0 then 3 else 4) [sample_slot SlotOk 0, sample_slot Missed 1])"
  using hourly_groups[of "[sample_slot SlotOk 0, sample_slot Missed 1]" "\<lambda>s. if slot_time s = Fin 0 then 3 else 4"]
  by simp

text \<open>Also: the heartbeat timeline keeps its length, but it invents heartbeats: after an update of the node
  shown, every update of another node makes the effect append the old update once more, with the
  time of the other node's update.\<close>

theorem heartbeats_invented:
  assumes "nu_nodeId u = Some nodeId" "length vs < 50" "length vs < length slots"
    and "\<forall>(v, t) \<in> set vs. nu_nodeId v \<noteq> Some nodeId"
  shows "let slots' = snd (fold (timeline_step nodeId) ((u, t0) # vs) (feed, slots)) in
    length slots' = length slots \<and>
    slots' = drop (Suc (length vs)) slots @ slot_of_update t0 u # map (\<lambda>(v, t). slot_of_update t u) vs"
proof -
  obtain s slots0 where slots: "slots = s # slots0"
    using assms(3) by (cases slots) auto
  have own: "own_first nodeId u 0 (node_push u feed)"
    by (rule own_first_push_own[OF assms(1)])
  have "snd (fold (timeline_step nodeId) ((u, t0) # vs) (feed, slots)) =
      drop (length vs) (slots0 @ [slot_of_update t0 u]) @ map (\<lambda>(v, t). slot_of_update t u) vs"
    using timeline_repeats[OF own, of vs "slots0 @ [slot_of_update t0 u]"] assms(2,3,4) slots
    by (simp add: own_first_effect[OF own] Let_def)
  moreover have "length vs \<le> length slots0"
    using assms(3) slots by simp
  ultimately show ?thesis
    using slots timeline_length[of slots nodeId "(u, t0) # vs" feed] by (simp add: Let_def)
qed

definition sample_update :: "string \<Rightarrow> node_update" where
  "sample_update k = \<lparr>nu_nodeId = Some k, nu_status = Some ''online'', nu_vramTotal = None, nu_reputation = None\<rparr>"

lemma heartbeats_invented_witness:
  "let slots' = snd (fold (timeline_step ''a'') [(sample_update ''a'', Fin 1), (sample_update ''b'', Fin 2)]
       ([], [sample_slot Missed 0, sample_slot Missed 0, sample_slot Missed 0]))
   in map slot_status slots' = [Missed, SlotOk, SlotOk]"
  using heartbeats_invented[of "sample_update ''a''" "''a''" "[(sample_update ''b'', Fin 2)]"
      "[sample_slot Missed 0, sample_slot Missed 0, sample_slot Missed 0]" "Fin 1" "[]"]
  by (simp add: sample_update_def sample_slot_def slot_of_update_def Let_def)

text \<open>The value the schema of \<open>lib/validations.ts\<close> would see for a form.\<close>

definition registration_value :: "register_form \<Rightarrow> jsval" where
  "registration_value f = Obj [
     (''nodeName'', Str (nodeName f)), (''region'', Str (rf_region f)),
     (''hardware'', Obj [(''cpuModel'', Str (rf_cpuModel f)), (''cpuCores'', Num (js_Number (rf_cpuCores f))),
        (''vramTotal'', Num (js_Number (rf_vramTotal f)))]),
     (''stakeAmount'', Num (js_Number (rf_stakeAmount f))), (''walletAddress'', Str (rf_walletAddress f))]"

definition short_address_form :: register_form where
  "short_address_form = \<lparr>nodeName = ''n'', rf_region = ''us-east-1'', rf_cpuModel = ''EPYC'', rf_cpuCores = ''8'',
     rf_vramTotal = ''80'', rf_walletAddress = ''0xaaaaaaaaaa'', rf_stakeAmount = ''10''\<rparr>"

lemma short_address_form_accepted: "register_errors short_address_form = []"
  by code_simp

lemma tier_brackets:
  assumes "parseFloat stake = Fin q" "10 \<le> q"
  shows "\<exists>t \<in> set stakeTiers. st_tier t = estimatedTier stake \<and> tier_valid stake t"
    and "t \<in> set stakeTiers \<Longrightarrow> tier_valid stake t \<Longrightarrow> st_tier t \<le> estimatedTier stake"
  using assms
  by (auto simp: stakeTiers_def tier_valid_def estimatedTier_def Let_def less_eq_reputation_tier_def)

text \<open>Also: the registration form is submitted exactly when every field is filled in, the address has the
  form's shape and none of the numbers reads as below its bound; a stake that reads as a number is
  then at least ten, and the tier shown is the highest one it suffices for. But the form is laxer
  than the schema for the same data: it admits a twelve-character address and a one-letter name,
  which every lawful validator rejects.\<close>

theorem registration_checks:
  assumes "zod_laws is_email accepts"
  shows "(register_errors f = [] \<longleftrightarrow>
      str_trim (nodeName f) \<noteq> '''' \<and> rf_region f \<noteq> '''' \<and> str_trim (rf_cpuModel f) \<noteq> '''' \<and>
      rf_cpuCores f \<noteq> '''' \<and> \<not> js_lt (parseInt (rf_cpuCores f)) (Fin 1) \<and>
      rf_vramTotal f \<noteq> '''' \<and> \<not> js_lt (parseFloat (rf_vramTotal f)) (Fin 1) \<and>
      str_trim (rf_walletAddress f) \<noteq> '''' \<and> address_shape (rf_walletAddress f) \<and>
      rf_stakeAmount f \<noteq> '''' \<and> \<not> js_lt (parseFloat (rf_stakeAmount f)) (Fin 10)) \<and>
    (register_errors f = [] \<and> parseFloat (rf_stakeAmount f) = Fin q \<longrightarrow> 10 \<le> q \<and>
      (\<exists>t \<in> set stakeTiers. st_tier t = estimatedTier (rf_stakeAmount f) \<and> tier_valid (rf_stakeAmount f) t) \<and>
      (\<forall>t \<in> set stakeTiers. tier_valid (rf_stakeAmount f) t \<longrightarrow> st_tier t \<le> estimatedTier (rf_stakeAmount f))) \<and>
    register_errors short_address_form = [] \<and> \<not> accepts registerNodeSchema (registration_value short_address_form)"
proof (intro conjI)
  show iff: "register_errors f = [] \<longleftrightarrow>
      str_trim (nodeName f) \<noteq> '''' \<and> rf_region f \<noteq> '''' \<and> str_trim (rf_cpuModel f) \<noteq> '''' \<and>
      rf_cpuCores f \<noteq> '''' \<and> \<not> js_lt (parseInt (rf_cpuCores f)) (Fin 1) \<and>
      rf_vramTotal f \<noteq> '''' \<and> \<not> js_lt (parseFloat (rf_vramTotal f)) (Fin 1) \<and>
      str_trim (rf_walletAddress f) \<noteq> '''' \<and> address_shape (rf_walletAddress f) \<and>
      rf_stakeAmount f \<noteq> '''' \<and> \<not> js_lt (parseFloat (rf_stakeAmount f)) (Fin 10)"
    by (auto simp: register_errors_def)
  show "register_errors f = [] \<and> parseFloat (rf_stakeAmount f) = Fin q \<longrightarrow> 10 \<le> q \<and>
      (\<exists>t \<in> set stakeTiers. st_tier t = estimatedTier (rf_stakeAmount f) \<and> tier_valid (rf_stakeAmount f) t) \<and>
      (\<forall>t \<in> set stakeTiers. tier_valid (rf_stakeAmount f) t \<longrightarrow> st_tier t \<le> estimatedTier (rf_stakeAmount f))"
    using tier_brackets[of "rf_stakeAmount f" q] unfolding iff by auto
  show "register_errors short_address_form = []"
    by (rule short_address_form_accepted)
  have "field ''walletAddress'' (registration_value short_address_form) = Str ''0xaaaaaaaaaa''"
    by (simp add: registration_value_def short_address_form_def)
  then show "\<not> accepts registerNodeSchema (registration_value short_address_form)"
    using registerNode_accepts[OF assms, of "registration_value short_address_form"]
      validateEthereumAddress_length by fastforce
qed

lemma registration_checks_witness:
  "register_errors short_address_form = [] \<and> \<not> zod_model registerNodeSchema (registration_value short_address_form)"
  using registration_checks[OF zod_model_laws, of short_address_form 10] by blast

end
