(* ===== verification/NodeViews.thy ===== *)
theory NodeViews
  imports NodePages ListPages
begin

text \<open>
  What the page of a node and the registration form show: the hardware, the heartbeat timeline with its
  legend and tooltip, the tables of tasks and slashing events, and the fields of the form. The tables show
  random data: the draws are arguments, as in the theory of the page's operations, which this one extends.
\<close>

section \<open>The invented history\<close>

definition pad_start :: "nat \<Rightarrow> string \<Rightarrow> string" where
  "pad_start n s = replicate (n - length s) (CHR ''0'') @ s"

record completed_task =
  ct_id :: string
  ct_jobId :: string
  ct_completedAt :: rat
  ct_duration :: int
  ct_vramUsed :: int
  ct_checkpointRef :: string

text \<open>The draws of a task: the random part of its job's name, three numbers from zero up to one, and the
  random part of its checkpoint's name.\<close>

definition generateCompletedTasks :: "int \<Rightarrow> (string \<times> rat \<times> rat \<times> rat \<times> string) list \<Rightarrow> completed_task list" where
  "generateCompletedTasks now draws =
     map (\<lambda>(i, j, t, d, u, c). \<lparr>ct_id = ''task_'' @ pad_start 4 (show_nat i), ct_jobId = ''job_'' @ j,
       ct_completedAt = of_int now - of_nat i * 3600000 * t * 12, ct_duration = \<lfloor>d * 3600\<rfloor> + 300,
       ct_vramUsed = \<lfloor>u * 80\<rfloor>, ct_checkpointRef = ''chk_'' @ c\<rparr>)
     (zip [0..<length draws] draws)"

record node_slash_event =
  se_id :: string
  se_timestamp :: rat
  se_reason :: string
  se_amount :: rat
  se_refunded :: bool

definition slash_reasons :: "string list" where
  "slash_reasons = [''SLA breach'', ''Missed heartbeats'', ''VRAM overflow'', ''Latency timeout'']"

definition generateSlashingEvents :: "int \<Rightarrow> (rat \<times> rat \<times> rat \<times> rat) list \<Rightarrow> node_slash_event list" where
  "generateSlashingEvents now draws =
     map (\<lambda>(i, t, r, a, f). \<lparr>se_id = ''slash_'' @ pad_start 3 (show_nat i),
       se_timestamp = of_int now - of_nat i * 86400000 * t * 7, se_reason = slash_reasons ! nat \<lfloor>r * 4\<rfloor>,
       se_amount = a * 2 + 0.1, se_refunded = (0.5 < f)\<rparr>)
     (zip [0..<length draws] draws)"

definition task_line :: "int \<Rightarrow> completed_task \<Rightarrow> string list" where
  "task_line now t = [ct_id t, ct_jobId t, list_relative_time (js_int now) (Fin (ct_completedAt t)),
     formatDuration (ct_duration t), show_int (ct_vramUsed t) @ ''GB'', ct_checkpointRef t]"

definition CompletedTasksTable :: "int \<Rightarrow> completed_task list \<Rightarrow> string list list" where
  "CompletedTasksTable now ts = map (task_line now) ts"

definition slash_line :: "int \<Rightarrow> node_slash_event \<Rightarrow> string list" where
  "slash_line now e = [se_id e, list_relative_time (js_int now) (Fin (se_timestamp e)), se_reason e,
     ''-'' @ toFixed 3 (Fin (se_amount e)) @ '' ETH'', if se_refunded e then ''Refunded'' else ''Pending'']"

text \<open>\<open>None\<close> stands for the note that there are no events.\<close>

definition SlashingEventsTable :: "int \<Rightarrow> node_slash_event list \<Rightarrow> string list list option" where
  "SlashingEventsTable now es = (if es = [] then None else Some (map (slash_line now) es))"

section \<open>The timeline\<close>

datatype slot_color = SActive | SStale | SSlashed | SBlue | SPurple | SGrey

fun slotColors :: "slot_status \<Rightarrow> slot_color" where
  "slotColors SlotOk = SActive"
| "slotColors VramWarn = SStale"
| "slotColors VramCritical = SSlashed"
| "slotColors LatencyWarn = SBlue"
| "slotColors LatencyCritical = SPurple"
| "slotColors Missed = SGrey"

fun slot_text :: "slot_status \<Rightarrow> string" where
  "slot_text SlotOk = ''ok''"
| "slot_text VramWarn = ''vramm_warn''"
| "slot_text VramCritical = ''vramm_critical''"
| "slot_text LatencyWarn = ''latency_warn''"
| "slot_text LatencyCritical = ''latency_critical''"
| "slot_text Missed = ''missed''"

text \<open>\<open>s.replace("_", " ")\<close> replaces the first underscore.\<close>

fun replace_underscore :: "string \<Rightarrow> string" where
  "replace_underscore [] = []"
| "replace_underscore (c # cs) = (if c = CHR ''_'' then CHR '' '' # cs else c # replace_underscore cs)"

record slot_tooltip =
  stt_status :: string
  stt_color :: "slot_color option"
  stt_vram :: string
  stt_latency :: "string \<times> bar_color"

definition slot_tooltip_of :: "(jsnum \<Rightarrow> string) \<Rightarrow> heartbeat_slot \<Rightarrow> slot_tooltip" where
  "slot_tooltip_of num s = (let st = slot_text (slot_status s) in
     \<lparr>stt_status = replace_underscore st,
      stt_color = (if st = ''missed'' then Some SGrey else if str_includes st ''latency'' then Some SBlue
        else if str_includes st ''vramm'' then Some SStale else if st = ''ok'' then Some SActive else None),
      stt_vram = num (slot_vramUsed s) @ ''GB / '' @ num (slot_vramTotal s) @ ''GB'',
      stt_latency = (num (slot_latency s) @ ''ms'',
        if js_lt (slot_latency s) (Fin 100) then BarActive
        else if js_lt (slot_latency s) (Fin 200) then BarStale else BarSlashed)\<rparr>)"

record timeline_state =
  hoveredSlot :: "heartbeat_slot option"
  tooltipPosition :: "int \<times> int"

datatype timeline_event = SlotEnter heartbeat_slot "int \<times> int" | SlotLeave

fun timeline_hover :: "timeline_event \<Rightarrow> timeline_state \<Rightarrow> timeline_state" where
  "timeline_hover (SlotEnter s p) t = t\<lparr>hoveredSlot := Some s, tooltipPosition := p\<rparr>"
| "timeline_hover SlotLeave t = t\<lparr>hoveredSlot := None\<rparr>"

record timeline_view =
  tv_legend :: "(string \<times> nat) list"
  tv_health :: "string \<times> bar_color"
  tv_slots :: "slot_color list"
  tv_markers :: "string option list"
  tv_tooltip :: "((int \<times> int) \<times> slot_tooltip) option"

definition HeartbeatHealthTimeline ::
  "(jsnum \<Rightarrow> string) \<Rightarrow> (jsnum \<Rightarrow> string) \<Rightarrow> (heartbeat_slot \<Rightarrow> int) \<Rightarrow> heartbeat_slot list \<Rightarrow> timeline_state \<Rightarrow> timeline_view" where
  "HeartbeatHealthTimeline num clock hourOf slots t =
     \<lparr>tv_legend = [(''OK'', statusCounts slots SlotOk), (''VRAM Warn'', statusCounts slots VramWarn),
        (''VRAM Crit'', statusCounts slots VramCritical), (''Latency'', shown_latency_count slots),
        (''Missed'', statusCounts slots Missed)],
      tv_health = (num (healthScore slots) @ ''%'',
        if js_le (Fin 95) (healthScore slots) then BarActive
        else if js_le (Fin 80) (healthScore slots) then BarStale else BarSlashed),
      tv_slots = map (\<lambda>s. slotColors (slot_status s)) slots,
      tv_markers = map (\<lambda>(i, g). if i mod 4 = 0 then Some (clock (slot_time (hd g))) else None)
        (enumerate 0 (hourlySlots hourOf slots)),
      tv_tooltip = map_option (\<lambda>s. ((fst (tooltipPosition t) + 10, snd (tooltipPosition t) + 10), slot_tooltip_of num s))
        (hoveredSlot t)\<rparr>"

section \<open>The page of a node\<close>

definition HardwareSpecsModule :: "(jsnum \<Rightarrow> string) \<Rightarrow> node_provider \<Rightarrow> string list \<times> (jsnum \<times> bar_color)" where
  "HardwareSpecsModule num n =
     ([cpuModel n, num (cpuCores n) @ '' cores'', num (vramUsed n) @ ''GB / '' @ num (vramTotal n) @ ''GB'', region n,
       num (uptime n) @ ''%''],
      (vramPercentage n, vram_color (vramPercentage n)))"

record node_page =
  npg_id :: string
  npg_badge :: string
  npg_tier :: reputation_tier
  npg_stats :: "(string \<times> string \<times> string) list"
  npg_hardware :: "string list \<times> (jsnum \<times> bar_color)"
  npg_timeline :: timeline_view
  npg_tasks :: "string list list"
  npg_slashes :: "string \<times> string list list option"
  npg_summary :: "(string \<times> string) list"

record page_random =
  pr_tasks :: "completed_task list"
  pr_slashes :: "node_slash_event list"

datatype 'v node_screen = NodeSkeleton | NodeNotFound | NodeShown 'v

definition NodeDetailPage ::
  "(jsnum \<Rightarrow> string) \<Rightarrow> (jsnum \<Rightarrow> string) \<Rightarrow> (heartbeat_slot \<Rightarrow> int) \<Rightarrow> int \<Rightarrow> page_random \<Rightarrow> bool \<Rightarrow> node_provider option \<Rightarrow>
     heartbeat_slot list \<Rightarrow> timeline_state \<Rightarrow> node_page node_screen option" where
  "NodeDetailPage num clock hourOf now r isLoading node slots t =
     (if isLoading then Some NodeSkeleton
      else case node of
        None \<Rightarrow> Some NodeNotFound
      | Some n \<Rightarrow> map_option (\<lambda>badge. NodeShown
          \<lparr>npg_id = np_id n, npg_badge = badge,
           npg_tier = badge_resolved_tier (Some (getReputationTier (reputation n))) (Some (reputation n)),
           npg_stats = [(''Jobs Done'', num (totalJobsCompleted n), ''all time''),
             (''Stake'', toFixed 1 (stakeAmount n), stakeCurrency n)],
           npg_hardware = HardwareSpecsModule num n,
           npg_timeline = HeartbeatHealthTimeline num clock hourOf slots t,
           npg_tasks = CompletedTasksTable now (pr_tasks r),
           npg_slashes = (show_nat (length (pr_slashes r)) @ '' events'', SlashingEventsTable now (pr_slashes r)),
           npg_summary = [(''Avg Latency'', ''47ms''), (''Peak VRAM'', ''72GB''), (''Total Runtime'', ''847h''),
             (''Success Rate'', ''99.2%'')]\<rparr>)
          (StatusBadge (Str (status n))))"

section \<open>The registration form\<close>

record form_input =
  fi_label :: string
  fi_value :: string
  fi_error :: bool
  fi_help :: "string option"

definition error_of :: "register_page \<Rightarrow> register_field \<Rightarrow> string option" where
  "error_of p k = map_of (rp_errors p) k"

definition form_input_of :: "register_page \<Rightarrow> register_field \<Rightarrow> string \<Rightarrow> string \<Rightarrow> string option \<Rightarrow> form_input" where
  "form_input_of p k label v help =
     \<lparr>fi_label = label, fi_value = v, fi_error = truthy_str (error_of p k),
      fi_help = (if truthy_str (error_of p k) then error_of p k else help)\<rparr>"

definition register_regions :: "string list" where
  "register_regions = [''us-east-1'', ''us-west-2'', ''eu-west-1'', ''eu-central-1'', ''ap-southeast-1'', ''ap-northeast-1'']"

record tier_card =
  tcd_tier :: reputation_tier
  tcd_selected :: bool
  tcd_dimmed :: bool
  tcd_min :: string

definition TierSelectionCard :: "register_page \<Rightarrow> stake_tier \<Rightarrow> tier_card" where
  "TierSelectionCard p t =
     \<lparr>tcd_tier = st_tier t, tcd_selected = (selectedTier p = st_tier t),
      tcd_dimmed = (\<not> tier_valid (rf_stakeAmount (rp_form p)) t \<and> selectedTier p \<noteq> st_tier t),
      tcd_min = ''Min. Stake: '' @ int_text (Fin (st_minStake t)) @ '' ETH''\<rparr>"

definition vram_estimate :: "string \<Rightarrow> string option" where
  "vram_estimate v =
     (if v \<noteq> '''' then Some (toFixed 0 (js_mul (js_or (parseFloat v) (Fin 0)) (Fin 0.8)) @ ''GB available'') else None)"

definition tier_preview :: "string \<Rightarrow> reputation_tier option" where
  "tier_preview v = (if v \<noteq> '''' \<and> js_le (Fin 10) (parseFloat v) then Some (estimatedTier v) else None)"

record register_view =
  rv_inputs :: "form_input list"
  rv_regions :: "string list"
  rv_vram :: "string option"
  rv_preview :: "reputation_tier option"
  rv_cards :: "tier_card list"
  rv_loading :: bool

text \<open>\<open>None\<close>: the confirmation, with links to the nodes and the dashboard.\<close>

definition StakingRegistrationForm :: "register_page \<Rightarrow> register_view option" where
  "StakingRegistrationForm p =
     (if isComplete p then None else let f = rp_form p in Some
       \<lparr>rv_inputs =
          [form_input_of p FNodeName ''Node Name'' (nodeName f) None,
           form_input_of p FNodeRegion ''Region'' (rf_region f) None,
           form_input_of p FNodeCpuModel ''CPU Model'' (rf_cpuModel f) None,
           form_input_of p FNodeCpuCores ''CPU Cores'' (rf_cpuCores f) None,
           form_input_of p FNodeVram ''Total VRAM (GB)'' (rf_vramTotal f)
             (Some ''Total GPU memory available for compute tasks''),
           form_input_of p FWallet ''Wallet Address'' (rf_walletAddress f)
             (Some ''Ethereum address that will receive job payments''),
           form_input_of p FStake ''Stake Amount'' (rf_stakeAmount f)
             (Some ''Minimum 10 ETH required. Higher stake = better tier benefits.'')],
        rv_regions = register_regions, rv_vram = vram_estimate (rf_vramTotal f), rv_preview = tier_preview (rf_stakeAmount f),
        rv_cards = map (TierSelectionCard p) stakeTiers, rv_loading = isSubmitting p\<rparr>)"

section \<open>Lemmas\<close>

lemma pad_start_inj: "pad_start k (show_nat i) = pad_start k (show_nat j) \<Longrightarrow> i = j"
  by (metis pad_start_def read_nat_show read_nat_zeros)

lemma task_ids: "map ct_id (generateCompletedTasks now draws) = map (\<lambda>i. ''task_'' @ pad_start 4 (show_nat i)) [0..<length draws]"
  by (rule nth_equalityI) (simp_all add: generateCompletedTasks_def split_beta)

lemma in_generated_tasks:
  assumes "x \<in> set (generateCompletedTasks now draws)"
  obtains i t d u c j where "(j, t, d, u, c) \<in> set draws" "ct_completedAt x = of_int now - of_nat i * 3600000 * t * 12"
    "ct_duration x = \<lfloor>d * 3600\<rfloor> + 300" "ct_vramUsed x = \<lfloor>u * 80\<rfloor>"
  using assms by (force simp: generateCompletedTasks_def dest: set_zip_rightD)

definition unit_draw :: "rat \<Rightarrow> bool" where
  "unit_draw r \<longleftrightarrow> 0 \<le> r \<and> r < 1"

lemma floor_unit_draw: "unit_draw r \<Longrightarrow> 0 < k \<Longrightarrow> 0 \<le> \<lfloor>r * of_int k\<rfloor> \<and> \<lfloor>r * of_int k\<rfloor> < k"
  by (auto simp: unit_draw_def floor_less_iff)

lemma legend_sum: "sum_list (map snd (tv_legend (HeartbeatHealthTimeline num clock hourOf slots t))) = length slots"
proof -
  have "length slots = count_by (\<lambda>s. slot_status s = SlotOk) slots + count_by (\<lambda>s. slot_status s = VramWarn) slots +
      count_by (\<lambda>s. slot_status s = VramCritical) slots + (count_by (\<lambda>s. slot_status s = LatencyWarn) slots +
      count_by (\<lambda>s. slot_status s = LatencyCritical) slots) + count_by (\<lambda>s. slot_status s = Missed) slots"
  proof (induction slots)
    case (Cons s slots)
    then show ?case by (cases "slot_status s") (simp_all add: count_by_def)
  qed (simp add: count_by_def)
  then show ?thesis by (simp add: HeartbeatHealthTimeline_def shown_latency_count_def statusCounts_count)
qed

section \<open>Properties\<close>

text \<open>Also: the history on the page of a node is invented: its tasks have distinct identifiers, lie in the
  past, and last between five and sixty-five minutes, and neither they nor the slashing events depend on
  the node, so a node without any job is shown with them, next to its own count.\<close>

theorem node_history_invented:
  assumes "list_all (\<lambda>(j, t, d, u, c). unit_draw t \<and> unit_draw d \<and> unit_draw u) draws"
    and "NodeDetailPage num clock hourOf now r False (Some n) slots t = Some (NodeShown v)"
    and "NodeDetailPage num clock hourOf now r False (Some n') slots' t' = Some (NodeShown v')"
  shows "distinct (map ct_id (generateCompletedTasks now draws)) \<and>
    list_all (\<lambda>x. ct_completedAt x \<le> of_int now \<and> 300 \<le> ct_duration x \<and> ct_duration x < 3900 \<and>
      0 \<le> ct_vramUsed x \<and> ct_vramUsed x < 80) (generateCompletedTasks now draws) \<and>
    npg_tasks v = npg_tasks v' \<and> npg_slashes v = npg_slashes v' \<and> npg_summary v = npg_summary v'"
proof (intro conjI)
  show "distinct (map ct_id (generateCompletedTasks now draws))"
    unfolding task_ids by (auto simp: distinct_map intro!: inj_onI dest: pad_start_inj)
  show "list_all (\<lambda>x. ct_completedAt x \<le> of_int now \<and> 300 \<le> ct_duration x \<and> ct_duration x < 3900 \<and>
      0 \<le> ct_vramUsed x \<and> ct_vramUsed x < 80) (generateCompletedTasks now draws)"
    unfolding list_all_iff
  proof
    fix x assume "x \<in> set (generateCompletedTasks now draws)"
    then obtain i t d u c j where x: "(j, t, d, u, c) \<in> set draws"
        "ct_completedAt x = of_int now - of_nat i * 3600000 * t * 12"
        "ct_duration x = \<lfloor>d * 3600\<rfloor> + 300" "ct_vramUsed x = \<lfloor>u * 80\<rfloor>" by (rule in_generated_tasks)
    then have "unit_draw t" "unit_draw d" "unit_draw u" using assms(1) by (auto simp: list_all_iff)
    then show "ct_completedAt x \<le> of_int now \<and> 300 \<le> ct_duration x \<and> ct_duration x < 3900 \<and>
        0 \<le> ct_vramUsed x \<and> ct_vramUsed x < 80"
      using x floor_unit_draw[of d 3600] floor_unit_draw[of u 80]
      by (simp add: unit_draw_def)
  qed
qed (use assms(2,3) in \<open>auto simp: NodeDetailPage_def\<close>)

definition sample_listed_node :: node_provider where
  "sample_listed_node = mapNode (\<lambda>_. Fin 0) (sample_node ''n1'' ''online'' (Fin 10))"

lemma node_history_invented_witness:
  "distinct (map ct_id (generateCompletedTasks 0 [(''a'', 0, 0.5, 0.5, ''b''), (''c'', 0.5, 0, 0, ''d'')]))"
proof -
  have "\<exists>v. NodeDetailPage (\<lambda>_. '''') (\<lambda>_. '''') (\<lambda>_. 0) 0 \<lparr>pr_tasks = [], pr_slashes = []\<rparr> False
      (Some sample_listed_node) [] \<lparr>hoveredSlot = None, tooltipPosition = (0, 0)\<rparr> = Some (NodeShown v)"
    by (simp add: NodeDetailPage_def sample_listed_node_def sample_node_def mapNode_def StatusBadge_def lookup_def
        badge_labels_def)
  then obtain v where "NodeDetailPage (\<lambda>_. '''') (\<lambda>_. '''') (\<lambda>_. 0) 0 \<lparr>pr_tasks = [], pr_slashes = []\<rparr> False
      (Some sample_listed_node) [] \<lparr>hoveredSlot = None, tooltipPosition = (0, 0)\<rparr> = Some (NodeShown v)" ..
  then show ?thesis
    by (intro conjunct1[OF node_history_invented[OF _ \<open>NodeDetailPage _ _ _ _ _ _ _ _ _ = _\<close> \<open>NodeDetailPage _ _ _ _ _ _ _ _ _ = _\<close>]])
      (simp add: unit_draw_def)
qed

text \<open>Also: the numbers of the legend always add up to the number of slots, the tooltip shows the slot the
  pointer entered last unless it left since, and an update of a node that is busy or in maintenance, which
  every list shows as online, is a missed heartbeat in the timeline.\<close>

theorem timeline_shown:
  "sum_list (map snd (tv_legend (HeartbeatHealthTimeline num clock hourOf slots t))) = length slots \<and>
   tv_tooltip (HeartbeatHealthTimeline num clock hourOf slots (fold timeline_hover (es @ [SlotEnter s (x, y)]) t)) =
     Some ((x + 10, y + 10), slot_tooltip_of num s) \<and>
   tv_tooltip (HeartbeatHealthTimeline num clock hourOf slots (fold timeline_hover (es @ [SlotLeave]) t)) = None \<and>
   (dn_status n \<in> {''busy'', ''maintenance''} \<and> nu_status u = Some (dn_status n) \<longrightarrow>
      slot_status (slot_of_update now u) = Missed \<and> status (mapNode pd n) = ''online'')"
  using legend_sum by (auto simp: HeartbeatHealthTimeline_def slot_of_update_def mapNode_def)

lemma timeline_shown_witness:
  "slot_status (slot_of_update (Fin 0) \<lparr>nu_nodeId = Some ''n'', nu_status = Some ''busy'', nu_vramTotal = None,
     nu_reputation = None\<rparr>) = Missed"
  using timeline_shown[of "\<lambda>_. ''''" "\<lambda>_. ''''" "\<lambda>_. 0" "[]" "\<lparr>hoveredSlot = None, tooltipPosition = (0, 0)\<rparr>" "[]"
      "undefined" 0 0 "sample_node ''n1'' ''busy'' (Fin 10)"
      "\<lparr>nu_nodeId = Some ''n'', nu_status = Some ''busy'', nu_vramTotal = None, nu_reputation = None\<rparr>" "Fin 0" "\<lambda>_. Fin 0"]
  by (simp add: sample_node_def)

definition form_fields :: "register_field list" where
  "form_fields = [FNodeName, FNodeRegion, FNodeCpuModel, FNodeCpuCores, FNodeVram, FWallet, FStake]"

lemma register_errors_text: "(k, e) \<in> set (register_errors f) \<Longrightarrow> e \<noteq> ''''"
  by (auto simp: register_errors_def split: if_splits)

lemma truthy_error: "(\<And>k e. (k, e) \<in> set es \<Longrightarrow> e \<noteq> '''') \<Longrightarrow> truthy_str (map_of es k) \<longleftrightarrow> k \<in> fst ` set es"
proof (cases "map_of es k")
  case None
  then show ?thesis using map_of_eq_None_iff[of es k] by (simp add: truthy_str_def)
next
  case (Some e)
  moreover assume "\<And>k e. (k, e) \<in> set es \<Longrightarrow> e \<noteq> ''''"
  ultimately show ?thesis using map_of_SomeD[OF Some] by (auto simp: truthy_str_def image_iff intro!: bexI[of _ "(k, e)"])
qed

lemma form_marks: "StakingRegistrationForm p = Some v \<Longrightarrow> map fi_error (rv_inputs v) = map (\<lambda>k. truthy_str (error_of p k)) form_fields"
  by (cases "isComplete p")
    (auto simp: StakingRegistrationForm_def form_input_of_def form_fields_def Let_def simp del: if_split)

text \<open>Also: submitting the registration form marks exactly the inputs that are wrong, and typing in one clears
  its mark and keeps the others; exactly one tier card is selected in every state, but the selection is
  independent of the stake and not checked, so the highest tier can be registered with the least stake.\<close>

theorem registration_form_shown:
  assumes "StakingRegistrationForm (register_step SubmitForm p) = Some v"
    and "StakingRegistrationForm (register_step (Change k x) q) = Some w" and "StakingRegistrationForm q = Some u"
    and "list_all (\<lambda>e. case e of SelectTier t \<Rightarrow> t \<in> st_tier ` set stakeTiers | _ \<Rightarrow> True) es"
  shows "map fi_error (rv_inputs v) = map (\<lambda>k. k \<in> fst ` set (register_errors (rp_form p))) form_fields \<and>
    map fi_error (rv_inputs w) = map (\<lambda>(j, b). b \<and> j \<noteq> k) (zip form_fields (map fi_error (rv_inputs u))) \<and>
    length (filter tcd_selected (map (TierSelectionCard (fold register_step es register_init)) stakeTiers)) = 1 \<and>
    register_errors (rp_form (register_step (SelectTier Gold) p)) = register_errors (rp_form p)"
proof (intro conjI)
  have "rp_errors (register_step SubmitForm p) = register_errors (rp_form p)" by (simp add: Let_def)
  then have "truthy_str (error_of (register_step SubmitForm p) k) \<longleftrightarrow> k \<in> fst ` set (register_errors (rp_form p))" for k
    using truthy_error[of "register_errors (rp_form p)"] register_errors_text by (simp add: error_of_def)
  then show "map fi_error (rv_inputs v) = map (\<lambda>k. k \<in> fst ` set (register_errors (rp_form p))) form_fields"
    using form_marks[OF assms(1)] by simp
  have "map_of (filter (\<lambda>e. fst e \<noteq> k) es) j = (if j = k then None else map_of es j)" for es :: "(register_field \<times> string) list" and j
    by (induction es) auto
  then have "error_of (register_step (Change k x) q) j = (if j = k then None else error_of q j)" for j
    by (simp add: error_of_def)
  then show "map fi_error (rv_inputs w) = map (\<lambda>(j, b). b \<and> j \<noteq> k) (zip form_fields (map fi_error (rv_inputs u)))"
    unfolding form_marks[OF assms(2)] form_marks[OF assms(3)] by (simp add: zip_map2 zip_same_conv_map truthy_str_def split_beta comp_def)
  have "selectedTier (fold register_step es r) \<in> st_tier ` set stakeTiers" if "selectedTier r \<in> st_tier ` set stakeTiers" for r
    using assms(4) that
  proof (induction es arbitrary: r)
    case (Cons e es)
    from Cons.prems have "selectedTier (register_step e r) \<in> st_tier ` set stakeTiers"
      by (cases e) (auto simp: Let_def)
    with Cons show ?case by simp
  qed simp
  from this[of register_init] show "length (filter tcd_selected
      (map (TierSelectionCard (fold register_step es register_init)) stakeTiers)) = 1"
    by (auto simp: register_init_def stakeTiers_def TierSelectionCard_def)
qed simp

lemma registration_form_shown_witness:
  "\<exists>v. StakingRegistrationForm (register_step SubmitForm register_init) = Some v \<and> map fi_error (rv_inputs v) = replicate 7 True"
proof -
  have "\<exists>v. StakingRegistrationForm (register_step SubmitForm register_init) = Some v"
    "\<exists>w. StakingRegistrationForm (register_step (Change FStake ''9'') register_init) = Some w"
    "\<exists>u. StakingRegistrationForm register_init = Some u"
    by (simp_all add: StakingRegistrationForm_def register_init_def Let_def)
  then obtain v w u where v: "StakingRegistrationForm (register_step SubmitForm register_init) = Some v"
    and "StakingRegistrationForm (register_step (Change FStake ''9'') register_init) = Some w"
    and "StakingRegistrationForm register_init = Some u" by blast
  from conjunct1[OF registration_form_shown[OF this, of "[]"]]
  have "map fi_error (rv_inputs v) = replicate 7 True"
    by (simp add: form_fields_def register_init_def register_errors_def str_trim_def numeral_eq_Suc)
  with v show ?thesis by blast
qed

end
