(* ===== verification/Billing.thy ===== *)
theory Billing
  imports JsValue
begin

text \<open>
  The billing pages (\<open>app/(dashboard)/billing\<close>). Apart from the form for adding funds they show constants
  of their files, which are kept here as the files have them, so that the pages can be compared.
\<close>

section \<open>Overview\<close>

record balance =
  available :: rat
  locked :: rat
  bal_sum :: rat

definition BALANCE :: balance where
  "BALANCE = \<lparr>available = 1.2345, locked = 0.0500, bal_sum = 1.2845\<rparr>"

definition MONTHLY_SPEND :: "(string \<times> rat) list" where
  "MONTHLY_SPEND = [(''Jan'', 0.12), (''Feb'', 0.18), (''Mar'', 0.09), (''Apr'', 0.22), (''May'', 0.15), (''Jun'', 0.19)]"

definition MAX_SPEND :: rat where
  "MAX_SPEND = Max (set (map snd MONTHLY_SPEND))"

definition formatETH :: "rat \<Rightarrow> string" where
  "formatETH v = toFixed 4 (Fin v) @ '' ETH''"

text \<open>The height of a bar in percent, with the label below it.\<close>

definition spend_bar :: "string \<times> rat \<Rightarrow> rat \<times> string \<times> string" where
  "spend_bar m = (snd m / MAX_SPEND * 100, fst m, toFixed 2 (Fin (snd m)))"

definition signed_amount :: "rat \<Rightarrow> string" where
  "signed_amount a = (if 0 < a then ''+'' else '''') @ toFixed 4 (Fin a) @ '' ETH''"

record billing_view =
  bv_available :: string
  bv_locked :: string
  bv_spent :: string
  bv_bars :: "(rat \<times> string \<times> string) list"
  bv_recent :: "(string \<times> string) list"

definition recent_transactions :: "(string \<times> rat) list" where
  "recent_transactions = [(''txn_001'', - 0.0234), (''txn_002'', 0.0018), (''txn_003'', - 0.0089), (''txn_004'', 0.5000)]"

definition BillingPage :: billing_view where
  "BillingPage = \<lparr>bv_available = formatETH (available BALANCE), bv_locked = formatETH (locked BALANCE),
     bv_spent = formatETH (snd (last MONTHLY_SPEND)), bv_bars = map spend_bar MONTHLY_SPEND,
     bv_recent = map (\<lambda>(i, a). (i, signed_amount a)) recent_transactions\<rparr>"

section \<open>Transactions\<close>

datatype txn_type = Debit | Credit | Topup | Withdraw

record billing_txn =
  bt_id :: string
  bt_type :: txn_type
  bt_amount :: rat
  bt_balance :: rat
  bt_date :: string

definition TRANSACTIONS :: "billing_txn list" where
  "TRANSACTIONS =
    [\<lparr>bt_id = ''txn_010'', bt_type = Topup, bt_amount = 0.5000, bt_balance = 1.2345, bt_date = ''Jun 10, 2024''\<rparr>,
     \<lparr>bt_id = ''txn_009'', bt_type = Debit, bt_amount = - 0.0234, bt_balance = 0.7345, bt_date = ''Jun 15, 2024''\<rparr>,
     \<lparr>bt_id = ''txn_008'', bt_type = Credit, bt_amount = 0.0018, bt_balance = 0.7579, bt_date = ''Jun 14, 2024''\<rparr>,
     \<lparr>bt_id = ''txn_007'', bt_type = Debit, bt_amount = - 0.0089, bt_balance = 0.7561, bt_date = ''Jun 12, 2024''\<rparr>,
     \<lparr>bt_id = ''txn_006'', bt_type = Debit, bt_amount = - 0.0120, bt_balance = 0.7650, bt_date = ''Jun 8, 2024''\<rparr>,
     \<lparr>bt_id = ''txn_005'', bt_type = Topup, bt_amount = 1.0000, bt_balance = 0.7770, bt_date = ''Jun 5, 2024''\<rparr>,
     \<lparr>bt_id = ''txn_004'', bt_type = Debit, bt_amount = - 0.0440, bt_balance = - 0.2230, bt_date = ''Jun 1, 2024''\<rparr>,
     \<lparr>bt_id = ''txn_003'', bt_type = Topup, bt_amount = 0.5000, bt_balance = - 0.1790, bt_date = ''May 28, 2024''\<rparr>,
     \<lparr>bt_id = ''txn_002'', bt_type = Credit, bt_amount = 0.0031, bt_balance = - 0.6790, bt_date = ''May 25, 2024''\<rparr>,
     \<lparr>bt_id = ''txn_001'', bt_type = Debit, bt_amount = - 0.0310, bt_balance = - 0.6821, bt_date = ''May 20, 2024''\<rparr>]"

fun txnIcons :: "txn_type \<Rightarrow> string" where
  "txnIcons Debit = ''ArrowUpRight''"
| "txnIcons Credit = ''ArrowDownLeft''"
| "txnIcons Topup = ''Wallet''"
| "txnIcons Withdraw = ''ArrowDownLeft''"

definition TransactionsPage :: "(string \<times> string \<times> string \<times> string) list" where
  "TransactionsPage = map (\<lambda>t. (txnIcons (bt_type t), bt_date t @ '' ID: '' @ bt_id t, signed_amount (bt_amount t),
     ''bal: '' @ toFixed 4 (Fin (bt_balance t)) @ '' ETH'')) TRANSACTIONS"

text \<open>A list of transactions, newest first, as a ledger: each balance is the older one plus the amount.\<close>

fun ledger :: "billing_txn list \<Rightarrow> bool" where
  "ledger (t # u # ts) \<longleftrightarrow> bt_balance t = bt_balance u + bt_amount t \<and> ledger (u # ts)"
| "ledger _ \<longleftrightarrow> True"

section \<open>Credits\<close>

record sla_credit =
  cr_id :: string
  cr_jobId :: string
  cr_breachType :: string
  cr_required :: rat
  cr_actual :: rat
  creditAmount :: rat

definition CREDITS :: "sla_credit list" where
  "CREDITS =
    [\<lparr>cr_id = ''cr_001'', cr_jobId = ''job_8a3f2e1c'', cr_breachType = ''Uptime'', cr_required = 99.0, cr_actual = 97.2,
      creditAmount = 0.00234\<rparr>,
     \<lparr>cr_id = ''cr_002'', cr_jobId = ''job_7b2e4d5f'', cr_breachType = ''Throughput'', cr_required = 250, cr_actual = 198,
      creditAmount = 0.00187\<rparr>,
     \<lparr>cr_id = ''cr_003'', cr_jobId = ''job_6c1a3e8b'', cr_breachType = ''Uptime'', cr_required = 99.5, cr_actual = 98.1,
      creditAmount = 0.00092\<rparr>,
     \<lparr>cr_id = ''cr_004'', cr_jobId = ''job_5d0b2c7a'', cr_breachType = ''Uptime'', cr_required = 95.0, cr_actual = 90.3,
      creditAmount = 0.00045\<rparr>]"

definition totalCredits :: "sla_credit list \<Rightarrow> rat" where
  "totalCredits cs = fold (\<lambda>c s. s + creditAmount c) cs 0"

text \<open>Both measures are followed by a percent sign, also a throughput.\<close>

definition credit_row :: "(jsnum \<Rightarrow> string) \<Rightarrow> sla_credit \<Rightarrow> string \<times> string \<times> string \<times> string" where
  "credit_row num c = (slice_first 12 (cr_jobId c), num (Fin (cr_required c)) @ ''%'', num (Fin (cr_actual c)) @ ''%'',
     ''+'' @ toFixed 4 (Fin (creditAmount c)) @ '' ETH'')"

definition CreditsPage :: "(jsnum \<Rightarrow> string) \<Rightarrow> string \<times> nat \<times> (string \<times> string \<times> string \<times> string) list" where
  "CreditsPage num = (toFixed 4 (Fin (totalCredits CREDITS)) @ '' ETH'', length CREDITS, map (credit_row num) CREDITS)"

section \<open>Invoices\<close>

record invoice =
  inv_id :: string
  inv_period :: string
  inv_amount :: rat
  inv_paid :: bool
  inv_jobs :: nat

definition INVOICES :: "invoice list" where
  "INVOICES =
    [\<lparr>inv_id = ''inv_001'', inv_period = ''June 2024'', inv_amount = 0.19, inv_paid = True, inv_jobs = 14\<rparr>,
     \<lparr>inv_id = ''inv_002'', inv_period = ''May 2024'', inv_amount = 0.15, inv_paid = True, inv_jobs = 11\<rparr>,
     \<lparr>inv_id = ''inv_003'', inv_period = ''April 2024'', inv_amount = 0.22, inv_paid = True, inv_jobs = 18\<rparr>,
     \<lparr>inv_id = ''inv_004'', inv_period = ''March 2024'', inv_amount = 0.09, inv_paid = True, inv_jobs = 7\<rparr>]"

definition InvoicesPage :: "(string \<times> string \<times> string \<times> string) list" where
  "InvoicesPage = map (\<lambda>i. (inv_period i, show_nat (inv_jobs i) @ '' jobs'', toFixed 4 (Fin (inv_amount i)) @ '' ETH'',
     ''/dashboard/billing/invoices/'' @ inv_id i)) INVOICES"

record invoice_data =
  id_period :: string
  id_amount :: rat
  id_jobs :: "(string \<times> string \<times> rat) list"

definition INVOICE_DATA :: "(string \<times> invoice_data) list" where
  "INVOICE_DATA = [(''inv_001'', \<lparr>id_period = ''June 2024'', id_amount = 0.19,
     id_jobs = [(''job_8a3f2e1c'', ''LLM Fine-tuning'', 0.0234), (''job_7b2e4d5f'', ''Batch Rendering'', 0.0089),
       (''job_6c1a3e8b'', ''Batch Compute'', 0.0150)]\<rparr>)]"

definition no_invoice :: invoice_data where
  "no_invoice = \<lparr>id_period = ''-'', id_amount = 0, id_jobs = []\<rparr>"

text \<open>Names every object inherits; indexing a literal with one of them finds the inherited member, which
  has no list of jobs.\<close>

definition inherited :: "string list" where
  "inherited = [''constructor'', ''hasOwnProperty'', ''isPrototypeOf'', ''propertyIsEnumerable'', ''toLocaleString'',
     ''toString'', ''valueOf'', ''__proto__'', ''__defineGetter__'', ''__defineSetter__'', ''__lookupGetter__'',
     ''__lookupSetter__'']"

record invoice_view =
  iv_title :: string
  iv_lines :: "(string \<times> string) list"
  iv_items :: "(string \<times> string) list"
  iv_total :: string

definition InvoiceDetailPage :: "string \<Rightarrow> invoice_view option" where
  "InvoiceDetailPage i =
     map_option (\<lambda>d. \<lparr>iv_title = ''Invoice '' @ i,
       iv_lines = [(''Invoice ID'', i), (''Billing Period'', id_period d), (''Status'', ''Paid'')],
       iv_items = map (\<lambda>(j, t, c). (j, toFixed 4 (Fin c) @ '' ETH'')) (id_jobs d),
       iv_total = toFixed 4 (Fin (id_amount d)) @ '' ETH''\<rparr>)
     (case map_of INVOICE_DATA i of
        None \<Rightarrow> if i \<in> set inherited then None else Some no_invoice
      | Some d \<Rightarrow> Some d)"

section \<open>Adding funds\<close>

definition AMOUNTS :: "rat list" where
  "AMOUNTS = [0.1, 0.25, 0.5, 1.0, 2.5, 5.0]"

datatype topup_stage = Selecting | Signing | TopupDone

record topup =
  tp_amount :: "rat option"
  tp_custom :: string
  tp_step :: topup_stage
  tp_walletAddr :: "string option"
  tp_timer :: bool

definition topup_init :: topup where
  "topup_init = \<lparr>tp_amount = None, tp_custom = '''', tp_step = Selecting, tp_walletAddr = None, tp_timer = False\<rparr>"

definition tp_selected :: "topup \<Rightarrow> jsnum" where
  "tp_selected s = (case tp_amount s of Some a \<Rightarrow> Fin a | None \<Rightarrow> js_or (parseFloat (tp_custom s)) (Fin 0))"

text \<open>The form is replaced by the confirmation once there is a wallet address; the events of the form are
  possible until then, also while the wallet is asked to sign. \<open>SignTimer\<close> is the end of the simulated
  wait, with the forty random digits.\<close>

datatype topup_event = PickAmount nat | TypeCustom string | PressTopup | SignTimer string

definition tp_confirmed :: "topup \<Rightarrow> bool" where
  "tp_confirmed s \<longleftrightarrow> tp_step s = TopupDone \<and> truthy_str (tp_walletAddr s)"

fun topup_step :: "topup_event \<Rightarrow> topup \<Rightarrow> topup" where
  "topup_step (PickAmount i) s =
     (if tp_confirmed s \<or> length AMOUNTS \<le> i then s else s\<lparr>tp_amount := Some (AMOUNTS ! i), tp_custom := ''''\<rparr>)"
| "topup_step (TypeCustom c) s = (if tp_confirmed s then s else s\<lparr>tp_custom := c, tp_amount := None\<rparr>)"
| "topup_step PressTopup s =
     (if tp_confirmed s \<or> js_le (tp_selected s) (Fin 0) \<or> tp_step s = Signing then s
      else s\<lparr>tp_step := Signing, tp_timer := True\<rparr>)"
| "topup_step (SignTimer h) s =
     (if tp_timer s then s\<lparr>tp_walletAddr := Some (''0x'' @ h), tp_step := TopupDone, tp_timer := False\<rparr> else s)"

text \<open>Which of the amounts is marked, and what the button and the confirmation say.\<close>

definition amount_marked :: "topup \<Rightarrow> rat \<Rightarrow> bool" where
  "amount_marked s a \<longleftrightarrow> tp_selected s = Fin a \<and>
     Fin a \<noteq> parseFloat (if tp_custom s = '''' then ''0'' else tp_custom s)"

definition topup_button :: "(jsnum \<Rightarrow> string) \<Rightarrow> topup \<Rightarrow> string \<times> bool" where
  "topup_button num s =
     (if tp_step s = Signing then ''Signing''
      else ''Top Up '' @ (if js_lt (Fin 0) (tp_selected s) then num (tp_selected s) @ '' ETH'' else ''''),
      js_le (tp_selected s) (Fin 0) \<or> tp_step s = Signing)"

definition topup_confirmation :: "(jsnum \<Rightarrow> string) \<Rightarrow> topup \<Rightarrow> (string \<times> string) option" where
  "topup_confirmation num s =
     (if tp_confirmed s
      then Some (''Sending '' @ num (tp_selected s) @ '' ETH from your wallet'',
        slice_first 6 (the (tp_walletAddr s)) @ ''...'' @ slice_last 4 (the (tp_walletAddr s)))
      else None)"

section \<open>Lemmas\<close>

definition topup_inv :: "topup \<Rightarrow> bool" where
  "topup_inv s \<longleftrightarrow> (tp_timer s \<longleftrightarrow> tp_step s = Signing) \<and> (tp_walletAddr s \<noteq> None \<longleftrightarrow> tp_step s = TopupDone) \<and>
     (\<forall>a. tp_amount s = Some a \<longrightarrow> a \<in> set AMOUNTS \<and> tp_custom s = '''') \<and> tp_walletAddr s \<noteq> Some ''''"

interpretation topup_page: state_machine topup_step topup_inv topup_init
proof
  show "topup_inv topup_init" by (simp add: topup_inv_def topup_init_def)
  show "topup_inv (topup_step e s)" if "topup_inv s" for e s
    using that by (cases e) (auto simp: topup_inv_def tp_confirmed_def truthy_str_def)
qed

lemma parse_zero [simp]: "parseFloat ''0'' = Fin 0"
  by code_simp

lemma parse_empty [simp]: "parseFloat '''' = NaN"
  by code_simp

lemma AMOUNTS_pos: "a \<in> set AMOUNTS \<Longrightarrow> 0 < a"
  by (auto simp: AMOUNTS_def)

lemma js_or_zero: "0 < a \<Longrightarrow> js_or x (Fin 0) = Fin a \<longleftrightarrow> x = Fin a"
  by (cases x) (auto simp: js_or_def js_truthy_def)

lemma marked_iff:
  assumes "topup_inv s" and "a \<in> set AMOUNTS"
  shows "amount_marked s a \<longleftrightarrow> tp_amount s = Some a"
proof (cases "tp_amount s")
  case None
  then show ?thesis
    using js_or_zero[OF AMOUNTS_pos[OF assms(2)]] by (simp add: amount_marked_def tp_selected_def)
next
  case (Some b)
  then have "tp_custom s = ''''" using assms(1) by (simp add: topup_inv_def)
  with Some AMOUNTS_pos[OF assms(2)] show ?thesis by (auto simp: amount_marked_def tp_selected_def)
qed

section \<open>Properties\<close>

text \<open>Also: on the page for adding funds exactly the chosen amount is marked, at most one wait is running,
  and the confirmation is shown exactly at the end; the form stays open during the wait, so the
  confirmed amount is whatever is typed meanwhile, not the one the button was pressed with.\<close>

theorem topup_runs:
  fixes es :: "topup_event list"
  defines "s \<equiv> fold topup_step es topup_init"
  shows "(a \<in> set AMOUNTS \<longrightarrow> (amount_marked s a \<longleftrightarrow> tp_amount s = Some a)) \<and>
    (tp_timer s \<longleftrightarrow> tp_step s = Signing) \<and> (topup_confirmation num s \<noteq> None \<longleftrightarrow> tp_step s = TopupDone) \<and>
    (tp_step s = Signing \<longrightarrow> topup_step PressTopup s = s \<and>
      (let s' = fold topup_step [TypeCustom c, SignTimer h] s
       in tp_step s' = TopupDone \<and> tp_selected s' = js_or (parseFloat c) (Fin 0)))"
proof -
  have inv: "topup_inv s" unfolding s_def by (rule topup_page.inv_reachable)
  then have "topup_confirmation num s \<noteq> None \<longleftrightarrow> tp_step s = TopupDone"
    by (auto simp: topup_confirmation_def tp_confirmed_def truthy_str_def topup_inv_def)
  with inv marked_iff[OF inv, of a] show ?thesis
    by (auto simp: topup_inv_def tp_confirmed_def tp_selected_def Let_def)
qed

lemma topup_runs_witness:
  "tp_selected (fold topup_step [PickAmount 5, PressTopup, TypeCustom '''', SignTimer ''00''] topup_init) = Fin 0"
proof -
  have "tp_step (fold topup_step [PickAmount 5, PressTopup] topup_init) = Signing" by code_simp
  then show ?thesis
    using topup_runs[of 5 "[PickAmount 5, PressTopup]" "\<lambda>_. ''''" "''''" "''00''"]
    by (simp add: js_or_def js_truthy_def Let_def del: topup_step.simps)
qed

text \<open>Also: the transactions form a ledger that ends with the available balance but was overdrawn by four
  of its transactions; the bars of the overview are between zero and one hundred percent, with the largest
  month full; the invoices are the months of the overview, but the line items of the only invoice with a
  page do not add up to it.\<close>

theorem billing_pages_compared:
  "ledger TRANSACTIONS \<and> bt_balance (hd TRANSACTIONS) = available BALANCE \<and>
   available BALANCE + locked BALANCE = bal_sum BALANCE \<and>
   length (filter (\<lambda>t. bt_balance t < 0) TRANSACTIONS) = 4 \<and>
   list_all (\<lambda>b. 0 < fst b \<and> fst b \<le> 100) (bv_bars BillingPage) \<and> (\<exists>b \<in> set (bv_bars BillingPage). fst b = 100) \<and>
   map inv_amount INVOICES = take 4 (rev (map snd MONTHLY_SPEND)) \<and>
   (\<exists>d. map_of INVOICE_DATA ''inv_001'' = Some d \<and> sum_list (map (snd \<circ> snd) (id_jobs d)) < id_amount d)"
proof -
  have highest: "MAX_SPEND = 11 / 50" by (simp add: MAX_SPEND_def MONTHLY_SPEND_def)
  show ?thesis
    by (simp add: highest TRANSACTIONS_def BALANCE_def BillingPage_def spend_bar_def MONTHLY_SPEND_def INVOICES_def
        INVOICE_DATA_def)
qed

text \<open>Also: the page of an invoice throws exactly for the names every object inherits; every other address
  is shown as a paid invoice, over nothing unless it is the first one, so three of the four listed invoices
  open as empty.\<close>

theorem invoice_pages:
  "(InvoiceDetailPage i = None \<longleftrightarrow> i \<in> set inherited) \<and>
   (InvoiceDetailPage i = Some v \<longrightarrow> map_of (iv_lines v) ''Status'' = Some ''Paid'' \<and>
      (i \<noteq> ''inv_001'' \<longrightarrow> iv_items v = [] \<and> iv_total v = ''0.0000 ETH'')) \<and>
   length (filter (\<lambda>n. 0 < inv_amount n \<and> map_of INVOICE_DATA (inv_id n) = None) INVOICES) = 3"
proof (intro conjI impI)
  have zero: "toFixed 4 (Fin 0) = ''0.0000''" by code_simp
  show "InvoiceDetailPage i = None \<longleftrightarrow> i \<in> set inherited"
    by (auto simp: InvoiceDetailPage_def INVOICE_DATA_def inherited_def)
  assume "InvoiceDetailPage i = Some v"
  then show "map_of (iv_lines v) ''Status'' = Some ''Paid''" by (auto simp: InvoiceDetailPage_def)
  assume "i \<noteq> ''inv_001''"
  with \<open>InvoiceDetailPage i = Some v\<close> show "iv_items v = []" "iv_total v = ''0.0000 ETH''"
    by (auto simp: InvoiceDetailPage_def INVOICE_DATA_def no_invoice_def zero simp del: toFixed.simps split: if_splits)
qed (simp add: INVOICES_def INVOICE_DATA_def)

lemma invoice_pages_witness: "InvoiceDetailPage ''toString'' = None"
  using invoice_pages[of "''toString''" undefined] by (simp add: inherited_def)

end
