(* ===== verification/Navigation.thy ===== *)
theory Navigation
  imports JsValue
begin

text \<open>
  Finding one's way: the breadcrumbs of the header and of the pages
  (\<open>components/shared/page-header.tsx\<close>, \<open>components/shared/breadcrumb-nav.tsx\<close>), the menus of
  the sidebar and of the drawer on small screens (\<open>components/layout/sidebar.tsx\<close>,
  \<open>components/layout/mobile-nav.tsx\<close>), and the small indicators of the header and the status bar.
  A path is the string \<open>usePathname\<close> returns.
\<close>

section \<open>Breadcrumbs\<close>

record crumb =
  crumb_label :: string
  crumb_href :: "string option"

definition segments :: "string \<Rightarrow> string list" where
  "segments path = filter (\<lambda>s. s \<noteq> []) (split_on (CHR ''/'') path)"

definition path_of :: "string list \<Rightarrow> string" where
  "path_of ss = concat (map (\<lambda>s. ''/'' @ s) ss)"

fun capitalize :: "string \<Rightarrow> string" where
  "capitalize [] = []"
| "capitalize (c # s) = upper_char c # s"

definition words_label :: "string \<Rightarrow> string" where
  "words_label s = join_with '' '' (map capitalize (split_on (CHR ''-'') s))"

definition is_word_char :: "char \<Rightarrow> bool" where
  "is_word_char c \<longleftrightarrow> c \<in> set ''abcdefghijklmnopqrstuvwxyzABCDEFGHIJKLMNOPQRSTUVWXYZ0123456789_-''"

definition isIdSegment :: "string \<Rightarrow> bool" where
  "isIdSegment s \<longleftrightarrow> list_all is_word_char s \<and> s \<noteq> [] \<and> 8 < length s"

definition auto_label :: "string \<Rightarrow> string" where
  "auto_label s = (if isIdSegment s then ''Details'' else words_label s)"

text \<open>The loop over the segments, with the path so far.\<close>

fun crumbs_from :: "(string \<Rightarrow> string) \<Rightarrow> (string \<Rightarrow> bool) \<Rightarrow> string \<Rightarrow> string list \<Rightarrow> crumb list" where
  "crumbs_from lab skip currentPath [] = []"
| "crumbs_from lab skip currentPath (s # ss) =
     (let path = currentPath @ ''/'' @ s in
      (if skip s then [] else [\<lparr>crumb_label = lab s, crumb_href = Some path\<rparr>]) @ crumbs_from lab skip path ss)"

definition AutoBreadcrumbs :: "string \<Rightarrow> string \<Rightarrow> string \<Rightarrow> crumb list" where
  "AutoBreadcrumbs homeLabel homeHref path =
     \<lparr>crumb_label = homeLabel, crumb_href = Some homeHref\<rparr> # crumbs_from auto_label (\<lambda>_. False) [] (segments path)"

definition is_placeholder :: "string \<Rightarrow> bool" where
  "is_placeholder s \<longleftrightarrow> starts_with ''['' s \<and> ends_with '']'' s"

definition nav_crumbs :: "crumb list option \<Rightarrow> string \<Rightarrow> string \<Rightarrow> string \<Rightarrow> crumb list" where
  "nav_crumbs items homeLabel homeHref path =
     (case items of
        Some cs \<Rightarrow> cs
      | None \<Rightarrow> \<lparr>crumb_label = homeLabel, crumb_href = Some homeHref\<rparr> #
          crumbs_from words_label is_placeholder [] (segments path))"

text \<open>What is rendered for an entry: text, a link with a label, or a link with the icon of a house.\<close>

datatype crumb_view = CrumbText string | CrumbLink string string | HomeLink string

definition Breadcrumbs :: "crumb list \<Rightarrow> crumb_view list" where
  "Breadcrumbs items =
     map (\<lambda>(i, c). if i = length items - 1 \<or> \<not> truthy_str (crumb_href c) then CrumbText (crumb_label c)
        else CrumbLink (crumb_label c) (the (crumb_href c))) (enumerate 0 items)"

definition BreadcrumbNav :: "crumb list option \<Rightarrow> string \<Rightarrow> string \<Rightarrow> string \<Rightarrow> crumb_view list option" where
  "BreadcrumbNav items homeLabel homeHref path =
     (let cs = nav_crumbs items homeLabel homeHref path in
      if length cs < 2 then None
      else Some (map (\<lambda>(i, c). if i = length cs - 1 \<or> \<not> truthy_str (crumb_href c) then CrumbText (crumb_label c)
        else if i = 0 then HomeLink (the (crumb_href c))
        else CrumbLink (crumb_label c) (the (crumb_href c))) (enumerate 0 cs)))"

section \<open>The menus\<close>

datatype nav_item = NavItem (nav_label: string) (nav_href: string) (nav_children: "nav_item list")

abbreviation leaf :: "string \<Rightarrow> string \<Rightarrow> nav_item" where
  "leaf l h \<equiv> NavItem l h []"

definition mainNavItems :: "nav_item list" where
  "mainNavItems =
     [leaf ''Overview'' ''/dashboard'', leaf ''Jobs'' ''/jobs'', leaf ''Nodes'' ''/nodes'',
      leaf ''Analytics'' ''/analytics'', leaf ''Wallet'' ''/wallet'',
      NavItem ''Billing'' ''/billing''
        [leaf ''Top Up'' ''/billing/topup'', leaf ''Credits'' ''/billing/credits'',
         leaf ''Transactions'' ''/billing/transactions'', leaf ''Invoices'' ''/billing/invoices''],
      leaf ''Explore'' ''/explore'']"

definition secondaryNavItems :: "nav_item list" where
  "secondaryNavItems =
     [leaf ''Settings'' ''/settings'',
      NavItem ''Admin'' ''/admin''
        [leaf ''Jobs'' ''/admin/jobs'', leaf ''Nodes'' ''/admin/nodes'', leaf ''Users'' ''/admin/users'',
         leaf ''Alerts'' ''/admin/alerts'', leaf ''Contracts'' ''/admin/contracts'',
         leaf ''Governance'' ''/admin/governance'', leaf ''Slashing'' ''/admin/slashing'']]"

definition sidebar_isActive :: "string \<Rightarrow> string \<Rightarrow> bool" where
  "sidebar_isActive pathname href \<longleftrightarrow>
     (if href = ''/dashboard'' then pathname = href else pathname = href \<or> starts_with (href @ ''/'') pathname)"

definition mobile_isActive :: "string \<Rightarrow> string \<Rightarrow> bool" where
  "mobile_isActive pathname href \<longleftrightarrow>
     (if href = ''/dashboard'' then pathname = ''/dashboard'' else starts_with href pathname)"

text \<open>The older drawer at the end of the sidebar's file has its own rule.\<close>

definition sidebar_mobile_isActive :: "string \<Rightarrow> string \<Rightarrow> bool" where
  "sidebar_mobile_isActive pathname href \<longleftrightarrow> pathname = href \<or> starts_with (href @ ''/'') pathname"

text \<open>The destinations of the links a row of the sidebar renders.\<close>

definition NavItemRow :: "bool \<Rightarrow> bool \<Rightarrow> nav_item \<Rightarrow> string list" where
  "NavItemRow collapsed expanded item =
     nav_href item # (if \<not> collapsed \<and> nav_children item \<noteq> [] \<and> expanded then map nav_href (nav_children item) else [])"

definition Sidebar :: "bool \<Rightarrow> string set \<Rightarrow> string list" where
  "Sidebar collapsed expanded =
     concat (map (\<lambda>i. NavItemRow collapsed (nav_href i \<in> expanded) i) (mainNavItems @ secondaryNavItems))"

record mobile_nav =
  isOpen :: bool
  expandedItems :: "string set"

definition mobile_nav_init :: mobile_nav where
  "mobile_nav_init = \<lparr>isOpen = False, expandedItems = {}\<rparr>"

definition toggleExpanded :: "string \<Rightarrow> mobile_nav \<Rightarrow> mobile_nav" where
  [handler_defs]: "toggleExpanded href s =
     s\<lparr>expandedItems := (if href \<in> expandedItems s then expandedItems s - {href} else insert href (expandedItems s))\<rparr>"

datatype mobile_event = MenuButton | OverlayClicked | LinkClicked string | GroupClicked string

fun mobile_step :: "mobile_event \<Rightarrow> mobile_nav \<Rightarrow> mobile_nav" where
  "mobile_step MenuButton s = s\<lparr>isOpen := \<not> isOpen s\<rparr>"
| "mobile_step OverlayClicked s = s\<lparr>isOpen := False\<rparr>"
| "mobile_step (LinkClicked h) s = s\<lparr>isOpen := False\<rparr>"
| "mobile_step (GroupClicked h) s = toggleExpanded h s"

text \<open>The destinations of the links in the drawer: an item with children is a button, not a link.\<close>

definition mobile_item_links :: "string set \<Rightarrow> nav_item \<Rightarrow> string list" where
  "mobile_item_links expanded item =
     (if nav_children item \<noteq> []
      then (if nav_href item \<in> expanded then map nav_href (nav_children item) else [])
      else [nav_href item])"

definition MobileNav_links :: "mobile_nav \<Rightarrow> string list" where
  "MobileNav_links s = concat (map (mobile_item_links (expandedItems s)) (mainNavItems @ secondaryNavItems))"

section \<open>Indicators\<close>

datatype latency_class = LatencyGood | LatencySlow | LatencyBad

definition latency_classes :: "jsnum \<Rightarrow> latency_class list" where
  "latency_classes ms =
     (if js_lt ms (Fin 100) then [LatencyGood] else []) @
     (if js_le (Fin 100) ms \<and> js_lt ms (Fin 300) then [LatencySlow] else []) @
     (if js_le (Fin 300) ms then [LatencyBad] else [])"

definition notification_badge :: "nat \<Rightarrow> string option" where
  "notification_badge n = (if 0 < n then Some (if 9 < n then ''9+'' else show_nat n) else None)"

section \<open>Lemmas on paths\<close>

definition slash_free :: "string list \<Rightarrow> bool" where
  "slash_free ss \<longleftrightarrow> (\<forall>s \<in> set ss. s \<noteq> [] \<and> CHR ''/'' \<notin> set s)"

lemma slash_free_segments [simp]: "slash_free (segments p)"
  by (auto simp: slash_free_def segments_def dest: split_on_no_sep)

lemma slash_free_take: "slash_free ss \<Longrightarrow> slash_free (take i ss)"
  by (auto simp: slash_free_def dest: in_set_takeD)

lemma split_on_append: "c \<notin> set w \<Longrightarrow> split_on c (w @ x) = (w @ hd (split_on c x)) # tl (split_on c x)"
  by (induction w) auto

lemma split_path_of: "slash_free ss \<Longrightarrow> split_on (CHR ''/'') (path_of ss) = [] # ss"
  by (induction ss) (auto simp: path_of_def slash_free_def split_on_append)

lemma segments_path_of: "slash_free ss \<Longrightarrow> segments (path_of ss) = ss"
  by (auto simp: segments_def split_path_of slash_free_def filter_id_conv)

lemma segments_below: "slash_free [x] \<Longrightarrow> segments (''/'' @ x @ ''/'' @ r) = x # segments r"
  by (simp add: segments_def slash_free_def split_on_append)

section \<open>Lemmas on breadcrumbs\<close>

lemma length_crumbs_all: "length (crumbs_from lab (\<lambda>_. False) cur ss) = length ss"
  by (induction ss arbitrary: cur) (auto simp: Let_def)

lemma take_crumbs_all:
  "crumbs_from lab (\<lambda>_. False) cur (take i ss) = take i (crumbs_from lab (\<lambda>_. False) cur ss)"
  by (induction ss arbitrary: cur i) (auto simp: Let_def take_Cons' split: nat.splits)

lemma nth_crumbs_all:
  "i < length ss \<Longrightarrow> crumbs_from lab (\<lambda>_. False) cur ss ! i =
     \<lparr>crumb_label = lab (ss ! i), crumb_href = Some (cur @ path_of (take (Suc i) ss))\<rparr>"
  by (induction ss arbitrary: cur i) (auto simp: Let_def path_of_def nth_Cons' take_Cons' split: nat.splits)

lemma crumbs_no_placeholder:
  "\<forall>s \<in> set ss. \<not> skip s \<Longrightarrow> map crumb_href (crumbs_from l1 skip cur ss) = map crumb_href (crumbs_from l2 (\<lambda>_. False) cur ss)"
  by (induction ss arbitrary: cur) (auto simp: Let_def)

lemma nth_Breadcrumbs:
  "i < length items \<Longrightarrow> Breadcrumbs items ! i =
     (if i = length items - 1 \<or> \<not> truthy_str (crumb_href (items ! i)) then CrumbText (crumb_label (items ! i))
      else CrumbLink (crumb_label (items ! i)) (the (crumb_href (items ! i))))"
  by (simp add: Breadcrumbs_def nth_enumerate_eq)

section \<open>Lemmas on the menus\<close>

lemma active_first:
  assumes "slash_free [x]" and "sidebar_isActive p (''/'' @ x)"
  shows "hd (segments p) = x"
proof -
  have "p = ''/'' @ x \<or> (\<exists>r. p = ''/'' @ x @ ''/'' @ r)"
    using assms(2) by (auto simp: sidebar_isActive_def starts_with_iff split: if_splits)
  then show ?thesis
    using assms(1) segments_path_of[of "[x]"] segments_below[of x] by (auto simp: path_of_def)
qed

definition menu_names :: "string list" where
  "menu_names = [''dashboard'', ''jobs'', ''nodes'', ''analytics'', ''wallet'', ''billing'', ''explore'', ''settings'', ''admin'']"

lemma menu_hrefs: "map nav_href (mainNavItems @ secondaryNavItems) = map (\<lambda>n. ''/'' @ n) menu_names"
  by (simp add: mainNavItems_def secondaryNavItems_def menu_names_def)

lemma menu_names_ok: "distinct menu_names" "n \<in> set menu_names \<Longrightarrow> slash_free [n]"
  by (auto simp: menu_names_def slash_free_def)

lemma unique_filter: "distinct xs \<Longrightarrow> (\<And>a b. a \<in> set xs \<Longrightarrow> b \<in> set xs \<Longrightarrow> P a \<Longrightarrow> P b \<Longrightarrow> a = b) \<Longrightarrow> length (filter P xs) \<le> 1"
proof (induction xs)
  case (Cons a xs)
  show ?case
  proof (cases "P a")
    case True
    then have "filter P xs = []" using Cons.prems by (auto simp: filter_empty_conv)
    then show ?thesis by simp
  next
    case False
    then show ?thesis using Cons by (simp add: Cons.IH)
  qed
qed simp

lemma expanded_step:
  "expandedItems (mobile_step e s) =
     {h. (h \<in> expandedItems s) \<noteq> (e = GroupClicked h)}"
  by (cases e) (auto simp: toggleExpanded_def)

lemma expanded_run:
  "expandedItems (fold mobile_step es s) = {h. (h \<in> expandedItems s) \<noteq> odd (count_list es (GroupClicked h))}"
  by (induction es arbitrary: s) (auto simp: expanded_step)

section \<open>Properties\<close>



text \<open>Also: a segment longer than eight letters is taken for an identifier, so the header calls five pages of
  the application's own menu only by the word Details.\<close>

theorem menu_pages_named_details:
  "filter (\<lambda>h. crumb_label (last (AutoBreadcrumbs ''Dashboard'' ''/dashboard'' h)) = ''Details'')
     (Sidebar False {''/billing'', ''/admin''}) =
   [''/dashboard'', ''/analytics'', ''/billing/transactions'', ''/admin/contracts'', ''/admin/governance'']"
  by code_simp

text \<open>Also: at most one entry of the menu is marked as active; the drawer on small screens marks in addition
  entries whose name the path continues with more letters; a group is open exactly after an odd
  number of clicks; and the pages of the two groups themselves, billing and administration, are the
  only destinations of the sidebar that the drawer never leads to.\<close>

theorem menus_compared:
  "length (filter (\<lambda>i. sidebar_isActive p (nav_href i)) (mainNavItems @ secondaryNavItems)) \<le> 1 \<and>
   (mobile_isActive p h \<longleftrightarrow> sidebar_isActive p h \<or>
      h \<noteq> ''/dashboard'' \<and> (\<exists>c r. p = h @ c # r \<and> c \<noteq> CHR ''/'')) \<and>
   expandedItems (fold mobile_step es mobile_nav_init) = {g. odd (count_list es (GroupClicked g))} \<and>
   set (MobileNav_links (fold mobile_step es mobile_nav_init)) \<subseteq>
     set (MobileNav_links (s\<lparr>expandedItems := {''/billing'', ''/admin''}\<rparr>)) \<and>
   set (MobileNav_links (s\<lparr>expandedItems := {''/billing'', ''/admin''}\<rparr>)) =
     set (Sidebar False {''/billing'', ''/admin''}) - {''/billing'', ''/admin''}"
proof (intro conjI)
  have "i = j" if "i \<in> set (mainNavItems @ secondaryNavItems)" "j \<in> set (mainNavItems @ secondaryNavItems)"
    "sidebar_isActive p (nav_href i)" "sidebar_isActive p (nav_href j)" for i j
  proof -
    have "\<exists>n \<in> set menu_names. nav_href k = ''/'' @ n" if "k \<in> set (mainNavItems @ secondaryNavItems)" for k
      using menu_hrefs that by (metis (no_types, lifting) imageE imageI list.set_map)
    then have "nav_href i = nav_href j"
      using that active_first menu_names_ok(2) by metis
    moreover have "inj_on nav_href (set (mainNavItems @ secondaryNavItems))"
      by (simp add: mainNavItems_def secondaryNavItems_def)
    ultimately show ?thesis using that(1,2) by (auto dest: inj_onD)
  qed
  then show "length (filter (\<lambda>i. sidebar_isActive p (nav_href i)) (mainNavItems @ secondaryNavItems)) \<le> 1"
    by (intro unique_filter) (simp add: mainNavItems_def secondaryNavItems_def, blast)
  show "mobile_isActive p h \<longleftrightarrow> sidebar_isActive p h \<or> h \<noteq> ''/dashboard'' \<and> (\<exists>c r. p = h @ c # r \<and> c \<noteq> CHR ''/'')"
  proof -
    have "(\<exists>r. p = h @ r) \<longleftrightarrow> p = h \<or> (\<exists>r. p = h @ ''/'' @ r) \<or> (\<exists>c r. p = h @ c # r \<and> c \<noteq> CHR ''/'')"
      by (auto simp: neq_Nil_conv)
    then show ?thesis by (auto simp: mobile_isActive_def sidebar_isActive_def starts_with_iff)
  qed
  show "expandedItems (fold mobile_step es mobile_nav_init) = {g. odd (count_list es (GroupClicked g))}"
    by (simp add: expanded_run mobile_nav_init_def)
qed (auto simp: MobileNav_links_def mobile_item_links_def Sidebar_def NavItemRow_def mainNavItems_def secondaryNavItems_def)

end
