(* ===== verification/NodeApp.thy ===== *)
theory NodeApp
  imports AccountActions Navigation Domain
begin

text \<open>
  The application for node operators, \<open>apps/nodes\<close>: signing in (\<open>lib/supabase.ts\<close>,
  \<open>app/auth/callback/page.tsx\<close>), the onboarding page with its shell, the pages that move stake,
  withdraw in bulk and unregister a node, and the node list, dashboard and reputation page. The
  linking service is the one of the theory \<open>WalletLink\<close>. Most pages show constants of their source,
  which are kept here as the source has them.
\<close>

section \<open>Signing in\<close>

text \<open>The client is null when one of the two settings is missing or empty; every function of the module
  then does nothing.\<close>

definition createSupabaseClient :: "string option \<Rightarrow> string option \<Rightarrow> (string \<times> string) option" where
  "createSupabaseClient url key = (if truthy_str url \<and> truthy_str key then Some (the url, the key) else None)"

definition signInWith :: "oauth_provider \<Rightarrow> string \<Rightarrow> (string \<times> string) option \<Rightarrow> (oauth_provider \<times> string) option" where
  "signInWith p origin client = (case client of None \<Rightarrow> None | Some c \<Rightarrow> Some (p, origin @ ''/auth/callback''))"

text \<open>\<open>session\<close> is the signed-in user and \<open>status\<close> the row of \<open>user_onboarding_status\<close>, if there is one;
  the result is where the page goes.\<close>

definition AuthCallback ::
  "(string \<times> string) option \<Rightarrow> string option \<Rightarrow> (string \<Rightarrow> onboarding_status option) \<Rightarrow> string" where
  "AuthCallback client session status =
     (case client of None \<Rightarrow> ''/''
      | Some c \<Rightarrow>
          (case session of None \<Rightarrow> ''/''
           | Some u \<Rightarrow>
               if or_else (Option.bind (status u) onboarding_completed) False then ''/dashboard'' else ''/onboarding''))"

section \<open>Onboarding\<close>

definition ob_steps :: "string list" where
  "ob_steps = [''Welcome, node provider'', ''Link your Ethereum wallet'', ''Register your GPU node'',
     ''How earning works'']"

definition ob_gpu_models :: "string list" where
  "ob_gpu_models = [''NVIDIA H100 80GB'', ''NVIDIA A100 80GB'', ''NVIDIA A6000 48GB'', ''AMD Instinct MI300X 128GB'',
     ''NVIDIA RTX 4090 24GB'', ''Other'']"

definition ob_regions :: "string list" where
  "ob_regions = [''us-east-1'', ''us-west-2'', ''eu-west-1'', ''eu-central-1'', ''ap-southeast-1'', ''ap-northeast-1'']"

record nodes_onboarding =
  no_step :: nat
  no_walletLinked :: bool
  no_walletAddress :: "string option"
  no_isLinking :: bool
  no_nodeName :: string
  no_gpuModel :: string
  no_vramGB :: string
  no_region :: string
  no_pricePerMin :: string
  no_isRegistering :: bool
  no_nodeRegistered :: bool
  no_nodeId :: "string option"
  no_isCompleting :: bool

definition nodes_onboarding_init :: nodes_onboarding where
  "nodes_onboarding_init = \<lparr>no_step = 0, no_walletLinked = False, no_walletAddress = None, no_isLinking = False,
     no_nodeName = '''', no_gpuModel = '''', no_vramGB = '''', no_region = '''', no_pricePerMin = ''0.001'',
     no_isRegistering = False, no_nodeRegistered = False, no_nodeId = None, no_isCompleting = False\<rparr>"

text \<open>\<open>handleLinkWallet\<close> up to the request for the verification: the user and the nonce to verify, unless
  nobody is signed in or the answer to the first request is no JSON object. The status of that answer
  is not looked at.\<close>

definition ask_challenge ::
  "(jsval \<Rightarrow> 's \<Rightarrow> fetch_result \<times> 's) \<Rightarrow> string option \<Rightarrow> nodes_onboarding \<times> 's \<Rightarrow>
   (string \<times> jsval) option \<times> nodes_onboarding \<times> 's" where
  "ask_challenge challenge user ps = (case ps of (p, s) \<Rightarrow>
     (case user of None \<Rightarrow> (None, p\<lparr>no_isLinking := False\<rparr>, s)
      | Some u \<Rightarrow>
          (case challenge (Obj [(''user_id'', Str u)]) s of (r, s') \<Rightarrow>
             (case r of
                Response st (Some data) \<Rightarrow>
                  (case prop_of ''nonce'' data of
                     None \<Rightarrow> (None, p\<lparr>no_isLinking := False\<rparr>, s')
                   | Some n \<Rightarrow> (Some (u, n), p\<lparr>no_isLinking := True\<rparr>, s'))
              | _ \<Rightarrow> (None, p\<lparr>no_isLinking := False\<rparr>, s')))))"

text \<open>The rest of it: \<open>addr\<close> and \<open>sig\<close> are random hexadecimal digits, sent as the wallet and its signature.\<close>

definition verify_body :: "string \<Rightarrow> jsval \<Rightarrow> string \<Rightarrow> string \<Rightarrow> jsval" where
  "verify_body u n addr sig = Obj [(''user_id'', Str u), (''nonce'', n), (''wallet_address'', Str (''0x'' @ addr)),
     (''signature'', Str (''0x'' @ sig))]"

definition answer_challenge ::
  "(jsval \<Rightarrow> 's \<Rightarrow> fetch_result \<times> 's) \<Rightarrow> string \<Rightarrow> jsval \<Rightarrow> string \<Rightarrow> string \<Rightarrow> nodes_onboarding \<times> 's \<Rightarrow>
   nodes_onboarding \<times> 's" where
  "answer_challenge verify u n addr sig ps = (case ps of (p, s) \<Rightarrow>
     (case verify (verify_body u n addr sig) s of (v, s') \<Rightarrow>
        ((if res_ok v then p\<lparr>no_walletLinked := True, no_walletAddress := Some (''0x'' @ addr), no_isLinking := False\<rparr>
          else p\<lparr>no_isLinking := False\<rparr>), s')))"

datatype node_effect = InsertNode "(string \<times> jsval) list" | CompleteProfile string | NodesGoTo string

definition opt_str :: "string option \<Rightarrow> jsval" where
  "opt_str a = (case a of None \<Rightarrow> Null | Some s \<Rightarrow> Str s)"

definition node_insert_row :: "nodes_onboarding \<Rightarrow> (string \<times> jsval) list" where
  "node_insert_row p = [(''wallet_address'', opt_str (no_walletAddress p)), (''display_name'', Str (no_nodeName p)),
     (''gpu_model'', Str (no_gpuModel p)), (''vram_total_mb'', Num (js_mul (parseInt (no_vramGB p)) (Fin 1024))),
     (''status'', Str ''offline''), (''location'', Str (no_region p)),
     (''price_per_minute_usd'', Num (parseFloat (no_pricePerMin p)))]"

text \<open>\<open>answer\<close>: the error of the insert, or the identifier of the new row.\<close>

definition handleRegisterNode ::
  "string option \<Rightarrow> string + string \<Rightarrow> nodes_onboarding \<Rightarrow> nodes_onboarding \<times> node_effect list" where
  "handleRegisterNode user answer p =
     (case user of None \<Rightarrow> (p\<lparr>no_isRegistering := False\<rparr>, [])
      | Some u \<Rightarrow>
          ((case answer of
              Inl e \<Rightarrow> p\<lparr>no_isRegistering := False\<rparr>
            | Inr i \<Rightarrow> p\<lparr>no_nodeId := Some i, no_nodeRegistered := True, no_isRegistering := False\<rparr>),
           [InsertNode (node_insert_row p)]))"

text \<open>The error of the profile update is part of its result and not looked at; \<open>threw\<close> is an exception.\<close>

definition nodes_handleComplete ::
  "string option \<Rightarrow> bool \<Rightarrow> nodes_onboarding \<Rightarrow> nodes_onboarding \<times> node_effect list" where
  "nodes_handleComplete user threw p =
     (case user of
        Some u \<Rightarrow>
          if \<not> truthy_str (no_walletAddress p) then (p\<lparr>no_isCompleting := False\<rparr>, [])
          else if threw then (p\<lparr>no_isCompleting := False\<rparr>, [CompleteProfile u])
          else (p\<lparr>no_isCompleting := True\<rparr>, [CompleteProfile u, NodesGoTo ''/dashboard''])
      | None \<Rightarrow> (p\<lparr>no_isCompleting := False\<rparr>, []))"

definition nodes_canProceed :: "nodes_onboarding \<Rightarrow> bool" where
  "nodes_canProceed p =
     (if no_step p = 1 then no_walletLinked p
      else if no_step p = 2 then
        no_nodeName p \<noteq> '''' \<and> no_gpuModel p \<noteq> '''' \<and> no_vramGB p \<noteq> '''' \<and> no_region p \<noteq> ''''
      else True)"

text \<open>The button of the shell: disabled unless \<open>canProceed\<close>. The shell has a Back button, but the page
  passes it no handler.\<close>

definition nodes_onNext :: "string option \<Rightarrow> bool \<Rightarrow> nodes_onboarding \<Rightarrow> nodes_onboarding \<times> node_effect list" where
  "nodes_onNext user threw p =
     (if \<not> nodes_canProceed p then (p, [])
      else if no_step p < length ob_steps - 1 then (p\<lparr>no_step := no_step p + 1\<rparr>, [])
      else nodes_handleComplete user threw p)"

datatype node_field = NodeName | GpuModel | VramGB | NodeRegion | PricePerMin

fun ob_set_field :: "node_field \<Rightarrow> string \<Rightarrow> nodes_onboarding \<Rightarrow> nodes_onboarding" where
  "ob_set_field NodeName v p = p\<lparr>no_nodeName := v\<rparr>"
| "ob_set_field GpuModel v p = p\<lparr>no_gpuModel := v\<rparr>"
| "ob_set_field VramGB v p = p\<lparr>no_vramGB := v\<rparr>"
| "ob_set_field NodeRegion v p = p\<lparr>no_region := v\<rparr>"
| "ob_set_field PricePerMin v p = p\<lparr>no_pricePerMin := v\<rparr>"

text \<open>
  A run of the page: the page, the verification it waits to send, the server and what the page has
  done outside. The server's answers to the requests of the page are \<open>challenge\<close> and \<open>verify\<close> at
  arguments of the event (the time, the random nonce); \<open>Elsewhere\<close> is any change of the server by
  others.
\<close>

record 's nodes_run =
  run_page :: nodes_onboarding
  run_pending :: "(string \<times> jsval) option"
  run_server :: 's
  run_effects :: "node_effect list"

definition nodes_run_init :: "'s \<Rightarrow> 's nodes_run" where
  "nodes_run_init s = \<lparr>run_page = nodes_onboarding_init, run_pending = None, run_server = s, run_effects = []\<rparr>"

datatype ('a, 'b, 'o) nodes_event =
    ConnectClicked "string option" 'a
  | VerifyAnswered 'b string string
  | NextClicked "string option" bool
  | FieldTyped node_field string
  | RegisterClicked "string option" "string + string"
  | Elsewhere 'o

fun nodes_step ::
  "('a \<Rightarrow> jsval \<Rightarrow> 's \<Rightarrow> fetch_result \<times> 's) \<Rightarrow> ('b \<Rightarrow> jsval \<Rightarrow> 's \<Rightarrow> fetch_result \<times> 's) \<Rightarrow> ('o \<Rightarrow> 's \<Rightarrow> 's) \<Rightarrow>
   ('a, 'b, 'o) nodes_event \<Rightarrow> 's nodes_run \<Rightarrow> 's nodes_run" where
  "nodes_step challenge verify other (ConnectClicked user a) r =
     (if no_step (run_page r) = 1 \<and> \<not> no_walletLinked (run_page r) \<and> \<not> no_isLinking (run_page r)
      then (case ask_challenge (challenge a) user (run_page r, run_server r) of (q, p, s) \<Rightarrow>
              r\<lparr>run_page := p, run_pending := q, run_server := s\<rparr>)
      else r)"
| "nodes_step challenge verify other (VerifyAnswered b addr sig) r =
     (case run_pending r of None \<Rightarrow> r
      | Some (u, n) \<Rightarrow>
          (case answer_challenge (verify b) u n addr sig (run_page r, run_server r) of (p, s) \<Rightarrow>
             r\<lparr>run_page := p, run_pending := None, run_server := s\<rparr>))"
| "nodes_step challenge verify other (NextClicked user threw) r =
     (case nodes_onNext user threw (run_page r) of (p, fx) \<Rightarrow>
        r\<lparr>run_page := p, run_effects := run_effects r @ fx\<rparr>)"
| "nodes_step challenge verify other (FieldTyped f v) r =
     (if no_step (run_page r) = 2 \<and> \<not> no_nodeRegistered (run_page r)
      then r\<lparr>run_page := ob_set_field f v (run_page r)\<rparr> else r)"
| "nodes_step challenge verify other (RegisterClicked user answer) r =
     (if no_step (run_page r) = 2 \<and> \<not> no_nodeRegistered (run_page r) \<and> nodes_canProceed (run_page r)
      then (case handleRegisterNode user answer (run_page r) of (p, fx) \<Rightarrow>
              r\<lparr>run_page := p, run_effects := run_effects r @ fx\<rparr>)
      else r)"
| "nodes_step challenge verify other (Elsewhere x) r = r\<lparr>run_server := other x (run_server r)\<rparr>"

text \<open>With the linking service: a challenge at a time with the nonce of the server, a verification at a
  time with the result of storing the wallet, and other requests.\<close>

abbreviation service_step ::
  "(string \<Rightarrow> nat list \<Rightarrow> string option) \<Rightarrow> (int \<times> string option, bool \<times> int, link_request) nodes_event \<Rightarrow>
   link_server nodes_run \<Rightarrow> link_server nodes_run" where
  "service_step recover \<equiv> nodes_step (\<lambda>(t, n). GenerateChallenge t n) (\<lambda>(fails, t). VerifyAndLink recover fails t)
     (link_step recover)"

text \<open>The status row of a user after the effects of a run.\<close>

definition status_after ::
  "node_effect list \<Rightarrow> (string \<Rightarrow> onboarding_status option) \<Rightarrow> string \<Rightarrow> onboarding_status option" where
  "status_after fx status u =
     (case status u of None \<Rightarrow> None
      | Some st \<Rightarrow> Some (if CompleteProfile u \<in> set fx
          then st\<lparr>os_user_type := Some ''provider'', onboarding_completed := Some True\<rparr> else st))"

section \<open>Lemmas: onboarding\<close>

definition node_row_ok :: "(string \<times> jsval) list \<Rightarrow> bool" where
  "node_row_ok row \<longleftrightarrow> (\<exists>w. map_of row ''wallet_address'' = Some (Str (''0x'' @ w))) \<and>
     map_of row ''status'' = Some (Str ''offline'') \<and>
     (\<forall>k \<in> {''display_name'', ''gpu_model'', ''location''}. \<exists>v. v \<noteq> '''' \<and> map_of row k = Some (Str v)) \<and>
     (\<exists>v. v \<noteq> '''' \<and> map_of row ''vram_total_mb'' = Some (Num (js_mul (parseInt v) (Fin 1024))))"

fun effect_fits :: "nat \<Rightarrow> node_effect list \<Rightarrow> node_effect \<Rightarrow> bool" where
  "effect_fits st fx (CompleteProfile u) = (st = 3)"
| "effect_fits st fx (NodesGoTo url) = (url = ''/dashboard'' \<and> (\<exists>u. CompleteProfile u \<in> set fx))"
| "effect_fits st fx (InsertNode row) = (2 \<le> st \<and> node_row_ok row)"

lemma effect_fits_mono: "effect_fits st fx e \<Longrightarrow> 2 \<le> st' \<and> (st = 3 \<longrightarrow> st' = 3) \<Longrightarrow> effect_fits st' (fx @ fx') e"
  by (cases e) auto

definition nodes_inv :: "'s nodes_run \<Rightarrow> bool" where
  "nodes_inv r \<longleftrightarrow> no_step (run_page r) \<le> 3 \<and>
     (2 \<le> no_step (run_page r) \<longrightarrow> no_walletLinked (run_page r)) \<and>
     (no_walletLinked (run_page r) \<longrightarrow> (\<exists>w. no_walletAddress (run_page r) = Some (''0x'' @ w))) \<and>
     (\<forall>e \<in> set (run_effects r). effect_fits (no_step (run_page r)) (run_effects r) e)"

lemma effect_fits_next: "nodes_inv r \<Longrightarrow> no_step (run_page r) < 3 \<Longrightarrow> e \<in> set (run_effects r) \<Longrightarrow>
    effect_fits (Suc (no_step (run_page r))) (run_effects r) e"
  by (cases e) (fastforce simp: nodes_inv_def)+

lemma nodes_inv_keeps:
  assumes "nodes_inv r" and "no_step p = no_step (run_page r)"
    and "no_walletLinked p = no_walletLinked (run_page r)" and "no_walletAddress p = no_walletAddress (run_page r)"
  shows "nodes_inv (r\<lparr>run_page := p, run_pending := q, run_server := s\<rparr>)" "nodes_inv (r\<lparr>run_page := p\<rparr>)"
  using assms by (simp_all add: nodes_inv_def)

lemma nodes_inv_other: "nodes_inv r \<Longrightarrow> nodes_inv (r\<lparr>run_server := s\<rparr>)"
  by (simp add: nodes_inv_def)

lemma ask_challenge_page:
  assumes "ask_challenge challenge user (p, s) = (q, p', s')"
  shows "no_step p' = no_step p \<and> no_walletLinked p' = no_walletLinked p \<and> no_walletAddress p' = no_walletAddress p"
  using assms by (auto simp: ask_challenge_def split: option.splits prod.splits fetch_result.splits)

lemma ob_set_field_page:
  "no_step (ob_set_field f v p) = no_step p" "no_walletLinked (ob_set_field f v p) = no_walletLinked p"
  "no_walletAddress (ob_set_field f v p) = no_walletAddress p"
  by (cases f; simp)+

lemma answer_challenge_inv:
  assumes inv: "nodes_inv r" and "answer_challenge verify u n addr sig (run_page r, run_server r) = (p, s)"
  shows "nodes_inv (r\<lparr>run_page := p, run_pending := None, run_server := s\<rparr>)"
proof -
  obtain v s' where v: "verify (verify_body u n addr sig) (run_server r) = (v, s')" by fastforce
  with assms(2) have p: "p = (if res_ok v then (run_page r)\<lparr>no_walletLinked := True,
      no_walletAddress := Some (''0x'' @ addr), no_isLinking := False\<rparr> else (run_page r)\<lparr>no_isLinking := False\<rparr>)"
    by (simp add: answer_challenge_def)
  show ?thesis
  proof (cases "res_ok v")
    case True
    then show ?thesis using inv by (simp add: p nodes_inv_def)
  next
    case False
    then show ?thesis using nodes_inv_keeps(1)[OF inv] by (simp add: p)
  qed
qed

lemma onNext_inv_nodes:
  assumes inv: "nodes_inv r" and "nodes_onNext user threw (run_page r) = (p, fx)"
  shows "nodes_inv (r\<lparr>run_page := p, run_effects := run_effects r @ fx\<rparr>)"
proof (cases "no_step (run_page r) < 3")
  case True
  with assms(2) have "fx = [] \<and> (p = run_page r \<or>
      nodes_canProceed (run_page r) \<and> p = (run_page r)\<lparr>no_step := no_step (run_page r) + 1\<rparr>)"
    by (auto simp: nodes_onNext_def ob_steps_def split: if_splits)
  then show ?thesis
  proof (elim conjE disjE)
    assume fx: "fx = []" "nodes_canProceed (run_page r)" "p = (run_page r)\<lparr>no_step := no_step (run_page r) + 1\<rparr>"
    have "\<forall>e \<in> set (run_effects r). effect_fits (no_step (run_page r) + 1) (run_effects r) e"
      using effect_fits_next[OF inv True] by simp
    moreover have "2 \<le> no_step (run_page r) + 1 \<Longrightarrow> no_walletLinked (run_page r)"
      using inv fx(2) by (cases "no_step (run_page r) = 1") (auto simp: nodes_inv_def nodes_canProceed_def)
    ultimately show ?thesis using inv True by (auto simp: nodes_inv_def fx(1,3))
  qed (use inv in \<open>simp add: nodes_inv_def\<close>)
next
  case False
  with inv have "no_step (run_page r) = 3" by (simp add: nodes_inv_def)
  with assms(2) have "nodes_handleComplete user threw (run_page r) = (p, fx)"
    by (simp add: nodes_onNext_def nodes_canProceed_def ob_steps_def)
  then have "no_step p = 3 \<and> no_walletLinked p = no_walletLinked (run_page r) \<and>
      no_walletAddress p = no_walletAddress (run_page r) \<and>
      (\<exists>u. fx = [] \<or> fx = [CompleteProfile u] \<or> fx = [CompleteProfile u, NodesGoTo ''/dashboard''])"
    using \<open>no_step (run_page r) = 3\<close> by (auto simp: nodes_handleComplete_def split: option.splits if_splits)
  then show ?thesis
    using inv \<open>no_step (run_page r) = 3\<close> by (auto simp: nodes_inv_def intro: effect_fits_mono)
      (simp_all add: ex_disj_distrib)
qed

lemma register_inv:
  assumes inv: "nodes_inv r" and "no_step (run_page r) = 2" and "nodes_canProceed (run_page r)"
    and "handleRegisterNode user answer (run_page r) = (p, fx)"
  shows "nodes_inv (r\<lparr>run_page := p, run_effects := run_effects r @ fx\<rparr>)"
proof -
  have "node_row_ok (node_insert_row (run_page r))"
    using assms(1-3) by (auto simp: node_row_ok_def node_insert_row_def nodes_inv_def nodes_canProceed_def opt_str_def)
  moreover have "no_step p = 2 \<and> no_walletLinked p = no_walletLinked (run_page r) \<and>
      no_walletAddress p = no_walletAddress (run_page r) \<and> (fx = [] \<or> fx = [InsertNode (node_insert_row (run_page r))])"
    using assms(2,4) by (auto simp: handleRegisterNode_def split: option.splits sum.splits)
  ultimately show ?thesis
    using inv assms(2) by (auto simp: nodes_inv_def intro: effect_fits_mono)
qed

interpretation nodes_page: state_machine "nodes_step challenge verify other" nodes_inv "nodes_run_init s"
proof
  show "nodes_inv (nodes_run_init s)"
    by (simp add: nodes_inv_def nodes_run_init_def nodes_onboarding_init_def)
  show "nodes_inv (nodes_step challenge verify other e r)" if inv: "nodes_inv r" for e r
  proof (cases e)
    case (ConnectClicked user a)
    obtain q p s' where ask: "ask_challenge (challenge a) user (run_page r, run_server r) = (q, p, s')"
      by (metis prod_cases3)
    show ?thesis
      using inv nodes_inv_keeps(1)[OF inv] ask_challenge_page[OF ask] by (simp add: ConnectClicked ask)
  next
    case (VerifyAnswered b addr sig)
    show ?thesis
    proof (cases "run_pending r")
      case (Some un)
      obtain p s' where "answer_challenge (verify b) (fst un) (snd un) addr sig (run_page r, run_server r) = (p, s')"
        by fastforce
      with answer_challenge_inv[OF inv this] show ?thesis
        by (simp add: VerifyAnswered Some case_prod_beta)
    qed (use inv VerifyAnswered in simp)
  next
    case (NextClicked user threw)
    then show ?thesis using onNext_inv_nodes[OF inv] by (auto split: prod.splits)
  next
    case (RegisterClicked user answer)
    then show ?thesis using inv register_inv[OF inv] by (auto split: prod.splits)
  qed (use inv nodes_inv_keeps(2)[OF inv] nodes_inv_other[OF inv] in \<open>auto simp: ob_set_field_page\<close>)
qed

text \<open>With the linking service nobody gets past the wallet.\<close>

definition stuck :: "'s nodes_run \<Rightarrow> bool" where
  "stuck r \<longleftrightarrow> no_step (run_page r) \<le> 1 \<and> \<not> no_walletLinked (run_page r) \<and> run_effects r = []"

definition by_page :: "('a, 'b, 'o) nodes_event \<Rightarrow> 's nodes_run \<Rightarrow> bool" where
  "by_page e r \<longleftrightarrow> (case e of Elsewhere x \<Rightarrow> False | _ \<Rightarrow> True)"

lemma service_answer_refused:
  assumes "answer_challenge (VerifyAndLink recover fails t) u n addr sig (p, s) = (p', s')"
  shows "no_step p' = no_step p \<and> no_walletLinked p' = no_walletLinked p \<and> linked s' = linked s"
proof -
  obtain v s2 where v: "VerifyAndLink recover fails t (verify_body u n addr sig) s = (v, s2)" by fastforce
  have "\<not> res_ok v \<and> linked s2 = linked s"
    by (rule prefixed_not_verified[OF v]) (simp add: verify_body_def)
  with assms v show ?thesis by (auto simp: answer_challenge_def)
qed

lemma service_ask:
  assumes "ask_challenge (GenerateChallenge t n) user (p, s) = (q, p', s')"
  shows "linked s' = linked s"
  using assms
  by (auto simp: ask_challenge_def GenerateChallenge_def split: option.splits prod.splits fetch_result.splits if_splits)

lemma service_step_stuck:
  assumes "stuck r"
  shows "stuck (service_step recover e r) \<and>
    (by_page e r \<longrightarrow> linked (run_server (service_step recover e r)) = linked (run_server r))"
proof (cases e)
  case (ConnectClicked user a)
  obtain t n where a: "a = (t, n)" by (cases a)
  obtain q p s' where ask: "ask_challenge (GenerateChallenge t n) user (run_page r, run_server r) = (q, p, s')"
    by (metis prod_cases3)
  show ?thesis
    using assms ask_challenge_page[OF ask] service_ask[OF ask] by (simp add: ConnectClicked a ask stuck_def)
next
  case (VerifyAnswered b addr sig)
  obtain fails t where b: "b = (fails, t)" by (cases b)
  show ?thesis
  proof (cases "run_pending r")
    case (Some un)
    obtain p s' where ans: "answer_challenge (VerifyAndLink recover fails t) (fst un) (snd un) addr sig
        (run_page r, run_server r) = (p, s')" by fastforce
    show ?thesis
      using assms service_answer_refused[OF ans] by (simp add: VerifyAnswered b Some ans case_prod_beta stuck_def)
  qed (use assms VerifyAnswered in simp)
next
  case (NextClicked user threw)
  have "nodes_onNext user threw (run_page r) = (run_page r, []) \<or>
      no_step (run_page r) = 0 \<and> nodes_onNext user threw (run_page r) = ((run_page r)\<lparr>no_step := 1\<rparr>, [])"
    using assms by (cases "no_step (run_page r)") (auto simp: stuck_def nodes_onNext_def nodes_canProceed_def ob_steps_def)
  with assms show ?thesis by (auto simp: NextClicked stuck_def)
qed (use assms in \<open>auto simp: stuck_def by_page_def\<close>)

lemma stuck_init: "stuck (nodes_run_init s)"
  by (simp add: stuck_def nodes_run_init_def nodes_onboarding_init_def)

lemma run_server_init [simp]: "run_server (nodes_run_init s) = s"
  by (simp add: nodes_run_init_def)

interpretation service_page: state_machine "service_step recover" stuck "nodes_run_init s"
  by unfold_locales (simp_all add: service_step_stuck stuck_init del: nodes_step.simps)

interpretation service_alone: guarded_machine "service_step recover" by_page
    "\<lambda>r. stuck r \<and> linked (run_server r) = linked s" "nodes_run_init s"
  by unfold_locales (simp_all add: service_step_stuck stuck_init del: nodes_step.simps)

section \<open>Properties: onboarding\<close>

text \<open>C40: no provider ever finishes the onboarding of the node application: with the linking service, in
  every run of the page, whatever others ask the service meanwhile, the page stays on the first two
  steps, no wallet is shown as linked, nothing is stored and the dashboard is not opened; so the next
  sign-in of a user whose onboarding is not completed leads to the onboarding page again. Without
  others, no wallet is linked at all.\<close>

theorem providers_never_onboarded:
  fixes recover es s
  assumes "\<forall>st. status u = Some st \<longrightarrow> onboarding_completed st \<noteq> Some True"
  defines "r \<equiv> fold (service_step recover) es (nodes_run_init s)"
  shows "no_step (run_page r) \<le> 1 \<and> \<not> no_walletLinked (run_page r) \<and> run_effects r = [] \<and>
    AuthCallback (Some c) (Some u) (status_after (run_effects r) status) = ''/onboarding'' \<and>
    (legal_run (service_step recover) by_page es (nodes_run_init s) \<longrightarrow> linked (run_server r) = linked s)"
proof -
  have "stuck r" unfolding r_def by (rule service_page.inv_reachable)
  moreover have "linked (run_server r) = linked s" if "legal_run (service_step recover) by_page es (nodes_run_init s)"
    using service_alone.inv_legal_init[OF that] by (simp add: r_def)
  moreover have "AuthCallback (Some c) (Some u) (status_after [] status) = ''/onboarding''"
    using assms(1) by (auto simp: AuthCallback_def status_after_def or_else_def split: option.splits bind_splits)
  ultimately show ?thesis by (auto simp: stuck_def)
qed

lemma providers_never_onboarded_witness:
  "AuthCallback (Some (''u'', ''k'')) (Some ''provider'')
     (status_after (run_effects (fold (service_step sample_recover)
        [NextClicked (Some ''provider'') False, ConnectClicked (Some ''provider'') (0, Some ''ab''),
         VerifyAnswered (False, 1) (drop 2 sample_wallet) ''00'', NextClicked (Some ''provider'') False]
        (nodes_run_init link_server_init)))
        (\<lambda>_. Some \<lparr>os_user_type = Some ''provider'', onboarding_completed = Some False\<rparr>)) = ''/onboarding''"
  by (rule providers_never_onboarded[THEN conjunct2, THEN conjunct2, THEN conjunct2, THEN conjunct1]) simp

text \<open>Also: whatever the server answers, the onboarding page only marks a profile completed on its last step
  and with a linked wallet, opens the dashboard only after that, and registers a node only from the
  third step on, offline, with the linked wallet and a name, GPU, memory and region; but a server that
  accepts the wallet lets a provider finish without ever registering a node.\<close>

theorem nodes_onboarding_order:
  fixes challenge :: "'a \<Rightarrow> jsval \<Rightarrow> 's \<Rightarrow> fetch_result \<times> 's" and verify :: "'b \<Rightarrow> jsval \<Rightarrow> 's \<Rightarrow> fetch_result \<times> 's"
  assumes "fold (nodes_step challenge verify other) es (nodes_run_init s) = r"
  shows "(\<forall>u. CompleteProfile u \<in> set (run_effects r) \<longrightarrow>
       no_step (run_page r) = 3 \<and> (\<exists>w. no_walletAddress (run_page r) = Some (''0x'' @ w))) \<and>
    (\<forall>url. NodesGoTo url \<in> set (run_effects r) \<longrightarrow> url = ''/dashboard'' \<and> (\<exists>u. CompleteProfile u \<in> set (run_effects r))) \<and>
    (\<forall>row. InsertNode row \<in> set (run_effects r) \<longrightarrow> 2 \<le> no_step (run_page r) \<and> node_row_ok row) \<and>
    (\<exists>es'. run_effects (fold (nodes_step (\<lambda>(_::unit) _ t. (Response 200 (Some (Obj [(''nonce'', Str ''n'')])), t))
         (\<lambda>(_::unit) _ t. (Response 200 None, t)) (\<lambda>(_::unit) t. t)) es' (nodes_run_init s)) =
       [CompleteProfile u, NodesGoTo ''/dashboard''])"
proof -
  have inv: "nodes_inv r" using nodes_page.inv_reachable[of challenge verify other es s] assms by simp
  then have fits: "e \<in> set (run_effects r) \<Longrightarrow> effect_fits (no_step (run_page r)) (run_effects r) e" for e
    by (simp add: nodes_inv_def)
  let ?es = "[NextClicked (Some u) False, ConnectClicked (Some u) (), VerifyAnswered () ''ab'' ''cd'',
    NextClicked (Some u) False, FieldTyped NodeName ''n'', FieldTyped GpuModel ''g'', FieldTyped VramGB ''80'',
    FieldTyped NodeRegion ''r'', NextClicked (Some u) False, NextClicked (Some u) False]"
  have run: "run_effects (fold (nodes_step (\<lambda>(_::unit) _ t. (Response 200 (Some (Obj [(''nonce'', Str ''n'')])), t))
         (\<lambda>(_::unit) _ t. (Response 200 None, t)) (\<lambda>(_::unit) t. t)) ?es (nodes_run_init s)) =
       [CompleteProfile u, NodesGoTo ''/dashboard'']"
    by (simp add: nodes_run_init_def nodes_onboarding_init_def nodes_onNext_def nodes_canProceed_def ob_steps_def
        ask_challenge_def answer_challenge_def prop_of_def nullish_def res_ok_def nodes_handleComplete_def
        truthy_str_def)
  show ?thesis
  proof (intro conjI allI impI)
    fix u assume "CompleteProfile u \<in> set (run_effects r)"
    from fits[OF this] show "no_step (run_page r) = 3" by simp
    with inv show "\<exists>w. no_walletAddress (run_page r) = Some (''0x'' @ w)" by (simp add: nodes_inv_def)
  next
    fix url assume "NodesGoTo url \<in> set (run_effects r)"
    from fits[OF this] show "url = ''/dashboard''" "\<exists>u. CompleteProfile u \<in> set (run_effects r)" by simp_all
  next
    fix row assume "InsertNode row \<in> set (run_effects r)"
    from fits[OF this] show "2 \<le> no_step (run_page r)" "node_row_ok row" by simp_all
  qed (rule exI, rule run)
qed

section \<open>Moving stake\<close>

text \<open>
  The pages \<open>stake/deposit\<close> and \<open>stake/withdraw\<close> of a node. Signing is simulated by a timer: nothing is
  sent. \<open>sp_requested\<close> are the amounts the button was pressed with, \<open>sp_timer\<close> the timer that runs:
  \<open>Some False\<close> while signing, \<open>Some True\<close> before the page is left.
\<close>

record stake_page =
  sp_amount :: string
  sp_isSigning :: bool
  sp_isSuccess :: bool
  sp_timer :: "bool option"
  sp_requested :: "string list"
  sp_goes :: "string list"

definition stake_page_init :: stake_page where
  "stake_page_init = \<lparr>sp_amount = '''', sp_isSigning = False, sp_isSuccess = False, sp_timer = None,
     sp_requested = [], sp_goes = []\<rparr>"

definition not_positive :: "string \<Rightarrow> bool" where
  "not_positive amount \<longleftrightarrow> amount = '''' \<or> js_le (parseFloat amount) (Fin 0)"

definition deposit_disabled :: "string \<Rightarrow> bool" where
  "deposit_disabled amount \<longleftrightarrow> amount = '''' \<or> js_le (parseFloat amount) (Fin 0)"

definition withdraw_disabled :: "string \<Rightarrow> bool" where
  "withdraw_disabled amount \<longleftrightarrow>
     amount = '''' \<or> js_le (parseFloat amount) (Fin 0) \<or> js_lt (Fin 11.5) (parseFloat amount)"

definition deposit_presets :: "string list" where
  "deposit_presets = [''1.0'', ''2.5'', ''5.0'', ''10.0'']"

definition MAX_WITHDRAWABLE :: string where
  "MAX_WITHDRAWABLE = ''11.5 ETH''"

text \<open>\<open>preset.replace(" ETH", "")\<close>: the first occurrence is removed.\<close>

fun remove_first :: "string \<Rightarrow> string \<Rightarrow> string" where
  "remove_first p [] = []"
| "remove_first p (c # s) = (if starts_with p (c # s) then drop (length p) (c # s) else c # remove_first p s)"

definition withdraw_presets :: "string list" where
  "withdraw_presets = map (remove_first '' ETH'') [''1.0'', ''2.5'', ''5.0'', MAX_WITHDRAWABLE]"

definition press_sign :: "stake_page \<Rightarrow> stake_page" where
  "press_sign s = (if not_positive (sp_amount s) then s
     else s\<lparr>sp_isSigning := True, sp_timer := Some False, sp_requested := sp_requested s @ [sp_amount s]\<rparr>)"

datatype stake_page_event = AmountTyped string | PresetClicked nat | SignClicked | TimerFires

text \<open>The form is shown until the success message replaces it; the button is disabled while signing, the
  field and the presets are not.\<close>

fun stake_page_step ::
  "(string \<Rightarrow> bool) \<Rightarrow> string list \<Rightarrow> string \<Rightarrow> stake_page_event \<Rightarrow> stake_page \<Rightarrow> stake_page" where
  "stake_page_step disabled presets nodeId (AmountTyped a) s = (if sp_isSuccess s then s else s\<lparr>sp_amount := a\<rparr>)"
| "stake_page_step disabled presets nodeId (PresetClicked i) s =
     (if sp_isSuccess s \<or> length presets \<le> i then s else s\<lparr>sp_amount := presets ! i\<rparr>)"
| "stake_page_step disabled presets nodeId SignClicked s =
     (if sp_isSuccess s \<or> sp_isSigning s \<or> disabled (sp_amount s) then s else press_sign s)"
| "stake_page_step disabled presets nodeId TimerFires s =
     (case sp_timer s of None \<Rightarrow> s
      | Some False \<Rightarrow> s\<lparr>sp_isSigning := False, sp_isSuccess := True, sp_timer := Some True\<rparr>
      | Some True \<Rightarrow> s\<lparr>sp_timer := None, sp_goes := sp_goes s @ [''/node/nodes/'' @ nodeId @ ''/stake'']\<rparr>)"

definition deposit_step :: "string \<Rightarrow> stake_page_event \<Rightarrow> stake_page \<Rightarrow> stake_page" where
  "deposit_step = stake_page_step deposit_disabled deposit_presets"

definition withdraw_step :: "string \<Rightarrow> stake_page_event \<Rightarrow> stake_page \<Rightarrow> stake_page" where
  "withdraw_step = stake_page_step withdraw_disabled withdraw_presets"

text \<open>The success message.\<close>

definition deposit_message :: "stake_page \<Rightarrow> string option" where
  "deposit_message s = (if sp_isSuccess s then Some (''Successfully deposited '' @ sp_amount s @ '' ETH to your node stake.'')
     else None)"

definition withdraw_message :: "stake_page \<Rightarrow> string option" where
  "withdraw_message s = (if sp_isSuccess s then Some (''Successfully withdrew '' @ sp_amount s @ '' ETH from your node stake.'')
     else None)"

section \<open>Actions that only wait\<close>

text \<open>Unregistering a node and withdrawing in bulk: two timers, then the page is left. Registering a node
  (\<open>node/nodes/new\<close>) goes to the page of an invented identifier after one timer and stays loading.\<close>

record timed_page =
  tp_busy :: bool
  tp_success :: bool
  tp_timer :: "bool option"
  tp_goes :: "string list"

definition timed_init :: timed_page where
  "timed_init = \<lparr>tp_busy = False, tp_success = False, tp_timer = None, tp_goes = []\<rparr>"

datatype timed_event = ActionClicked | ActionTimer

fun timed_step :: "string \<Rightarrow> timed_event \<Rightarrow> timed_page \<Rightarrow> timed_page" where
  "timed_step target ActionClicked s = (if tp_success s \<or> tp_busy s then s else s\<lparr>tp_busy := True, tp_timer := Some False\<rparr>)"
| "timed_step target ActionTimer s =
     (case tp_timer s of None \<Rightarrow> s
      | Some False \<Rightarrow> s\<lparr>tp_busy := False, tp_success := True, tp_timer := Some True\<rparr>
      | Some True \<Rightarrow> s\<lparr>tp_timer := None, tp_goes := tp_goes s @ [target]\<rparr>)"

definition unregister_step :: "timed_event \<Rightarrow> timed_page \<Rightarrow> timed_page" where
  "unregister_step = timed_step ''/node/nodes''"

definition bulk_withdraw_step :: "timed_event \<Rightarrow> timed_page \<Rightarrow> timed_page" where
  "bulk_withdraw_step = timed_step ''/node/earnings''"

text \<open>\<open>hexdigits\<close>: the digits of the random number after \<open>0.\<close>.\<close>

fun new_node_step :: "string \<Rightarrow> timed_event \<Rightarrow> timed_page \<Rightarrow> timed_page" where
  "new_node_step hexdigits ActionClicked s = (if tp_busy s then s else s\<lparr>tp_busy := True, tp_timer := Some False\<rparr>)"
| "new_node_step hexdigits ActionTimer s =
     (case tp_timer s of None \<Rightarrow> s
      | Some b \<Rightarrow> s\<lparr>tp_timer := None, tp_goes := tp_goes s @ [''/node/nodes/0x'' @ take 8 hexdigits]\<rparr>)"

section \<open>Lists and badges\<close>

datatype op_status = OpOnline | OpStale | OpOffline | OpSlashed

record op_node =
  op_id :: string
  op_name :: string
  op_gpuModel :: string
  op_vramUsed :: nat
  op_vramTotal :: nat
  op_status :: op_status
  op_reputation :: int
  op_stake :: string
  op_region :: string
  op_lastHeartbeat :: string
  op_earnings :: string

definition mockNodes :: "op_node list" where
  "mockNodes =
    [\<lparr>op_id = ''0x1a2b3c4d'', op_name = ''GPU-Rig-Alpha'', op_gpuModel = ''NVIDIA H100 80GB'', op_vramUsed = 65,
      op_vramTotal = 80, op_status = OpOnline, op_reputation = 127, op_stake = ''12.5 ETH'', op_region = ''US-West'',
      op_lastHeartbeat = ''2 min ago'', op_earnings = ''8.42 ETH''\<rparr>,
     \<lparr>op_id = ''0x5e6f7a8b'', op_name = ''GPU-Cluster-Beta'', op_gpuModel = ''NVIDIA A100 80GB'', op_vramUsed = 72,
      op_vramTotal = 80, op_status = OpOnline, op_reputation = 98, op_stake = ''10.0 ETH'', op_region = ''EU-Central'',
      op_lastHeartbeat = ''30 sec ago'', op_earnings = ''6.18 ETH''\<rparr>,
     \<lparr>op_id = ''0x9c0d1e2f'', op_name = ''Render-Node-01'', op_gpuModel = ''RTX 4090 24GB'', op_vramUsed = 18,
      op_vramTotal = 24, op_status = OpStale, op_reputation = 45, op_stake = ''3.2 ETH'', op_region = ''Asia-Pacific'',
      op_lastHeartbeat = ''5 min ago'', op_earnings = ''2.85 ETH''\<rparr>,
     \<lparr>op_id = ''0x3a4b5c6d'', op_name = ''Dev-GPU-Node'', op_gpuModel = ''NVIDIA H100 80GB'', op_vramUsed = 0,
      op_vramTotal = 80, op_status = OpOffline, op_reputation = 76, op_stake = ''8.0 ETH'', op_region = ''US-East'',
      op_lastHeartbeat = ''2 hours ago'', op_earnings = ''4.12 ETH''\<rparr>,
     \<lparr>op_id = ''0x7e8f9a0b'', op_name = ''Mining-Farm-03'', op_gpuModel = ''NVIDIA A100 80GB'', op_vramUsed = 78,
      op_vramTotal = 80, op_status = OpSlashed, op_reputation = 12, op_stake = ''2.1 ETH'', op_region = ''EU-West'',
      op_lastHeartbeat = ''1 day ago'', op_earnings = ''0.45 ETH''\<rparr>]"

definition op_matches :: "string \<Rightarrow> op_node \<Rightarrow> bool" where
  "op_matches query n \<longleftrightarrow> str_includes (to_lower (op_name n)) (to_lower query) \<or>
     str_includes (to_lower (op_gpuModel n)) (to_lower query) \<or> str_includes (to_lower (op_region n)) (to_lower query)"

definition op_filteredNodes :: "string \<Rightarrow> op_node list" where
  "op_filteredNodes query = filter (op_matches query) mockNodes"

text \<open>The cards above the list show constants: the number of nodes, all earnings, the average reputation.\<close>

definition op_cards :: "(string \<times> string) list" where
  "op_cards = [(''Total Nodes'', ''5''), (''Total Earnings'', ''21.92 ETH''), (''Avg Reputation'', ''71.6''),
     (''Active Jobs'', ''3'')]"

datatype op_connection = OpConnected | OpReconnecting | OpDisconnected

text \<open>The light next to a node: in the list and on the dashboard, in the dashboard's heartbeats, and on the
  page of the node.\<close>

definition list_light :: "op_status \<Rightarrow> op_connection" where
  "list_light s = (if s = OpOnline then OpConnected else if s = OpStale then OpReconnecting else OpDisconnected)"

definition heartbeat_light :: "op_status \<Rightarrow> op_connection" where
  "heartbeat_light s = (if s = OpOnline then OpConnected else OpDisconnected)"

definition overview_light :: "op_status \<Rightarrow> op_connection" where
  "overview_light s = (if s = OpOnline then OpConnected else OpReconnecting)"

datatype op_color = Red | Amber | Green | White | Gray

definition vram_bar :: "op_node \<Rightarrow> op_color" where
  "vram_bar n = (let r = js_div (js_int (int (op_vramUsed n))) (js_int (int (op_vramTotal n)))
     in if js_lt (Fin 0.9) r then Red else if js_lt (Fin 0.7) r then Amber else Green)"

definition dashboard_vram_bar :: "nat \<Rightarrow> nat \<Rightarrow> op_color" where
  "dashboard_vram_bar used all =
     (if 0 < all \<and> js_lt (Fin 0.9) (js_div (js_int (int used)) (js_int (int all))) then Red
      else if 0 < all \<and> js_lt (Fin 0.7) (js_div (js_int (int used)) (js_int (int all))) then Amber else Green)"

definition list_reputation_color :: "int \<Rightarrow> op_color" where
  "list_reputation_color r = (if 100 \<le> r then Green else if r < 50 then Red else White)"

definition dashboard_reputation_color :: "int \<Rightarrow> op_color" where
  "dashboard_reputation_color r = (if 100 < r then Green else if 0 < r then White else Red)"

definition op_formatRelativeTime :: "int \<Rightarrow> int \<Rightarrow> string" where
  "op_formatRelativeTime now date = (let seconds = (now - date) div 1000 in
     if seconds < 60 then show_int seconds @ ''s ago''
     else if seconds < 3600 then show_int (seconds div 60) @ ''m ago''
     else show_int (seconds div 3600) @ ''h ago'')"

text \<open>The reputation page: the tier of a score, and the height in pixels of a day's bar.\<close>

definition page_tier :: "jsnum \<Rightarrow> reputation_tier" where
  "page_tier score = (if js_le (Fin 100) score then Gold else if js_le (Fin 50) score then Silver else Bronze)"

definition bar_height :: "int \<Rightarrow> int" where
  "bar_height change = max (\<bar>change\<bar> * 4) (if change = 0 then 4 else 8)"

definition bar_color :: "int \<Rightarrow> op_color" where
  "bar_color change = (if 0 < change then Green else if change < 0 then Red else Gray)"

definition last30Days :: "int list" where
  "last30Days = [0, 5, -2, 0, 3, 5, 0, -1, 2, 0]"

text \<open>The layout: its menu, and which entry is marked on a path.\<close>

definition op_nav :: "string list" where
  "op_nav = [''/node'', ''/node/nodes'', ''/node/earnings'', ''/node/settings'']"

definition op_isActive :: "string \<Rightarrow> string \<Rightarrow> bool" where
  "op_isActive pathname href \<longleftrightarrow>
     (if href = ''/dashboard'' then pathname = href else pathname = href \<or> starts_with (href @ ''/'') pathname)"

definition op_home :: string where
  "op_home = ''/node/nodes''"

section \<open>Lemmas: stake and lists\<close>

definition stake_page_inv :: "(string \<Rightarrow> bool) \<Rightarrow> string \<Rightarrow> stake_page \<Rightarrow> bool" where
  "stake_page_inv disabled nodeId s \<longleftrightarrow> list_all (\<lambda>a. \<not> disabled a \<and> \<not> not_positive a) (sp_requested s) \<and>
     length (sp_requested s) \<le> 1 \<and> (sp_isSigning s \<longleftrightarrow> sp_timer s = Some False) \<and>
     (sp_isSuccess s \<or> sp_isSigning s \<longleftrightarrow> sp_requested s \<noteq> []) \<and> (sp_isSuccess s \<longrightarrow> sp_timer s \<noteq> Some False) \<and>
     (sp_timer s = Some True \<longrightarrow> sp_isSuccess s \<and> sp_goes s = []) \<and> (sp_goes s \<noteq> [] \<longrightarrow> sp_isSuccess s) \<and>
     set (sp_goes s) \<subseteq> {''/node/nodes/'' @ nodeId @ ''/stake''} \<and> length (sp_goes s) \<le> 1"

interpretation stake_page: state_machine "stake_page_step disabled presets nodeId" "stake_page_inv disabled nodeId"
    stake_page_init
proof
  show "stake_page_inv disabled nodeId stake_page_init"
    by (simp add: stake_page_inv_def stake_page_init_def)
  show "stake_page_inv disabled nodeId (stake_page_step disabled presets nodeId e s)"
    if "stake_page_inv disabled nodeId s" for e s
    using that by (cases e) (auto simp: stake_page_inv_def press_sign_def split: option.splits bool.splits)
qed

text \<open>The value of a number field is empty or the text of a finite number.\<close>

definition finite_text :: "string \<Rightarrow> bool" where
  "finite_text a \<longleftrightarrow> (case parseFloat a of Fin q \<Rightarrow> True | _ \<Rightarrow> False)"

definition number_field :: "stake_page_event \<Rightarrow> stake_page \<Rightarrow> bool" where
  "number_field e s \<longleftrightarrow> (case e of AmountTyped a \<Rightarrow> a = '''' \<or> finite_text a | _ \<Rightarrow> True)"

definition amounts_finite :: "stake_page \<Rightarrow> bool" where
  "amounts_finite s \<longleftrightarrow> (sp_amount s = '''' \<or> finite_text (sp_amount s)) \<and> list_all finite_text (sp_requested s)"

lemma amounts_finite_step:
  assumes "list_all finite_text presets" and "amounts_finite s" and "number_field e s"
  shows "amounts_finite (stake_page_step disabled presets n e s)"
  using assms
  by (cases e) (auto simp: amounts_finite_def number_field_def press_sign_def not_positive_def list_all_iff
      split: option.splits bool.splits)

lemma presets_finite: "list_all finite_text deposit_presets" "list_all finite_text withdraw_presets"
  by code_simp+

lemma amounts_finite_init: "amounts_finite stake_page_init"
  by (simp add: amounts_finite_def stake_page_init_def)

interpretation deposit_amounts: guarded_machine "deposit_step n" number_field amounts_finite stake_page_init
  by unfold_locales (simp_all add: amounts_finite_init amounts_finite_step presets_finite deposit_step_def)

interpretation withdraw_amounts: guarded_machine "withdraw_step n" number_field amounts_finite stake_page_init
  by unfold_locales (simp_all add: amounts_finite_init amounts_finite_step presets_finite withdraw_step_def)

text \<open>A page that only waits is left at most once, after the message of success.\<close>

definition timed_inv :: "string \<Rightarrow> timed_page \<Rightarrow> bool" where
  "timed_inv target s \<longleftrightarrow> (tp_busy s \<longleftrightarrow> tp_timer s = Some False) \<and> (tp_success s \<longrightarrow> tp_timer s \<noteq> Some False) \<and>
     (tp_timer s = Some True \<longrightarrow> tp_success s \<and> tp_goes s = []) \<and>
     (tp_goes s = [] \<or> tp_success s \<and> tp_goes s = [target])"

interpretation timed: state_machine "timed_step target" "timed_inv target" timed_init
proof
  show "timed_inv target timed_init" by (simp add: timed_inv_def timed_init_def)
  show "timed_inv target (timed_step target e s)" if "timed_inv target s" for e s
    using that by (cases e) (auto simp: timed_inv_def split: option.splits bool.splits)
qed

lemma unregister_leaves_once:
  "length (tp_goes (fold unregister_step es timed_init)) \<le> 1"
  using timed.inv_reachable[of "''/node/nodes''" es] by (auto simp: unregister_step_def timed_inv_def)

lemma bulk_withdraw_leaves_once:
  "length (tp_goes (fold bulk_withdraw_step es timed_init)) \<le> 1"
  using timed.inv_reachable[of "''/node/earnings''" es] by (auto simp: bulk_withdraw_step_def timed_inv_def)

text \<open>The lights of the three pages differ on every node that is not online.\<close>

lemma lights_compared:
  "list_light s = heartbeat_light s \<longleftrightarrow> s \<noteq> OpStale"
  "list_light s = overview_light s \<longleftrightarrow> s = OpOnline \<or> s = OpStale"
  by (cases s; simp add: list_light_def heartbeat_light_def overview_light_def)+

text \<open>The constants shown above the list: the average is right, the earnings are not the sum.\<close>

lemma op_cards_checked:
  "sum_list (map op_reputation mockNodes) = 358" "length mockNodes = 5"
  "fold (\<lambda>n s. js_add s (parseFloat (op_earnings n))) mockNodes (Fin 0) = Fin 22.02"
  by (code_simp+)

lemma bar_height_min: "4 \<le> bar_height c" "bar_height c = 8 \<longleftrightarrow> \<bar>c\<bar> = 1 \<or> \<bar>c\<bar> = 2"
  by (auto simp: bar_height_def)

section \<open>Properties: stake, lists and menu\<close>

text \<open>Also: on the withdrawal page the button is pressed at most once, with a positive amount of at most 11.5,
  and the page is left at most once, for the stake page of the node; but the field stays editable while
  the signature is awaited and the message of success shows the field, so it may name another amount
  than the one requested.\<close>

theorem withdrawals_bounded:
  fixes es :: "stake_page_event list" and n :: string
  assumes "legal_run (withdraw_step n) number_field es stake_page_init"
  defines "s \<equiv> fold (withdraw_step n) es stake_page_init"
  shows "length (sp_requested s) \<le> 1 \<and>
    (\<forall>a \<in> set (sp_requested s). \<exists>q. parseFloat a = Fin q \<and> 0 < q \<and> q \<le> 11.5) \<and>
    (withdraw_message s \<noteq> None \<longrightarrow> sp_requested s \<noteq> []) \<and>
    sp_goes s \<in> {[], [''/node/nodes/'' @ n @ ''/stake'']} \<and>
    (\<exists>es' t. legal_run (withdraw_step n) number_field es' stake_page_init \<and>
       t = fold (withdraw_step n) es' stake_page_init \<and> sp_requested t = [''1.0''] \<and>
       withdraw_message t = Some ''Successfully withdrew 900 ETH from your node stake.'')"
proof -
  have inv: "stake_page_inv withdraw_disabled n s"
    unfolding s_def withdraw_step_def by (rule stake_page.inv_reachable)
  have fin: "amounts_finite s" unfolding s_def by (rule withdraw_amounts.inv_legal_init) (rule assms(1))
  have "\<exists>q. parseFloat a = Fin q \<and> 0 < q \<and> q \<le> 11.5" if "a \<in> set (sp_requested s)" for a
  proof -
    have "finite_text a" using fin that by (simp add: amounts_finite_def list_all_iff)
    then obtain q where q: "parseFloat a = Fin q" by (auto simp: finite_text_def split: jsnum.splits)
    moreover have "\<not> withdraw_disabled a" using inv that by (auto simp: stake_page_inv_def list_all_iff)
    ultimately show ?thesis by (auto simp: withdraw_disabled_def)
  qed
  moreover have "sp_goes s \<in> {[], [''/node/nodes/'' @ n @ ''/stake'']}"
    using inv by (cases "sp_goes s") (auto simp: stake_page_inv_def)
  moreover have "sp_requested s \<noteq> []" if "withdraw_message s \<noteq> None"
    using that inv by (auto simp: withdraw_message_def stake_page_inv_def split: if_splits)
  moreover have "\<exists>es' t. legal_run (withdraw_step n) number_field es' stake_page_init \<and>
       t = fold (withdraw_step n) es' stake_page_init \<and> sp_requested t = [''1.0''] \<and>
       withdraw_message t = Some ''Successfully withdrew 900 ETH from your node stake.''"
  proof -
    have texts: "finite_text ''1.0''" "finite_text ''900''" "\<not> withdraw_disabled ''1.0''" "\<not> not_positive ''1.0''"
      by code_simp+
    then have "legal_run (withdraw_step n) number_field
        [AmountTyped ''1.0'', SignClicked, AmountTyped ''900'', TimerFires] stake_page_init"
      by (simp add: number_field_def)
    moreover have "fold (withdraw_step n) [AmountTyped ''1.0'', SignClicked, AmountTyped ''900'', TimerFires] stake_page_init =
        \<lparr>sp_amount = ''900'', sp_isSigning = False, sp_isSuccess = True, sp_timer = Some True,
         sp_requested = [''1.0''], sp_goes = []\<rparr>"
      using texts by (simp add: withdraw_step_def stake_page_init_def press_sign_def)
    ultimately show ?thesis by (metis stake_page.select_convs(1,3,5) withdraw_message_def append.simps)
  qed
  ultimately show ?thesis using inv by (auto simp: stake_page_inv_def)
qed

lemma withdrawals_bounded_witness:
  "length (sp_requested (fold (withdraw_step ''7'') [PresetClicked 3, SignClicked, SignClicked, TimerFires, TimerFires]
     stake_page_init)) \<le> 1"
  by (rule withdrawals_bounded[THEN conjunct1]) (simp add: number_field_def)

text \<open>Also: the search of the node list shows exactly the nodes whose name, GPU or region contains the text
  without regard to case, everything for the empty text and never more after a longer text.\<close>

theorem node_search:
  "(n \<in> set (op_filteredNodes query) \<longleftrightarrow> n \<in> set mockNodes \<and>
     (\<exists>f \<in> {op_name, op_gpuModel, op_region}. \<exists>a b. to_lower (f n) = a @ to_lower query @ b)) \<and>
   op_filteredNodes '''' = mockNodes \<and>
   set (op_filteredNodes (query @ rest)) \<subseteq> set (op_filteredNodes query)"
proof (intro conjI)
  have includes_prefix: "str_includes s (p @ q) \<Longrightarrow> str_includes s p" for s p q
    by (auto simp: str_includes_iff)
  show "n \<in> set (op_filteredNodes query) \<longleftrightarrow> n \<in> set mockNodes \<and>
     (\<exists>f \<in> {op_name, op_gpuModel, op_region}. \<exists>a b. to_lower (f n) = a @ to_lower query @ b)"
    by (auto simp: op_filteredNodes_def op_matches_def str_includes_iff)
  show "op_filteredNodes '''' = mockNodes"
    by (simp add: op_filteredNodes_def op_matches_def to_lower_def filter_id_conv str_includes_empty)
  show "set (op_filteredNodes (query @ rest)) \<subseteq> set (op_filteredNodes query)"
    using includes_prefix by (auto simp: op_filteredNodes_def op_matches_def to_lower_def)
qed

lemma op_nav_marks:
  "list_all (\<lambda>h. filter (op_isActive h) op_nav = (if h = ''/node'' then [h] else [''/node'', h])) op_nav"
  by (simp add: op_nav_def op_isActive_def starts_with_def)

text \<open>Also: the menu marks Overview on every page below it, so two entries are marked on the pages of the
  other entries, where the web application marks at most one; the tier of the reputation page is the
  tier of the web application except for negative scores, which it shows as bronze.\<close>

theorem node_menu_and_tiers:
  "(op_isActive p ''/node'' \<longleftrightarrow> p = ''/node'' \<or> (\<exists>r. p = ''/node/'' @ r)) \<and>
   (h \<in> set op_nav \<longrightarrow> filter (op_isActive h) op_nav = (if h = ''/node'' then [h] else [''/node'', h])) \<and>
   filter (op_isActive ''/dashboard'') op_nav = [] \<and>
   (page_tier (Fin q) = getReputationTier (Fin q) \<longleftrightarrow> 0 \<le> q) \<and>
   (q < 0 \<longrightarrow> page_tier (Fin q) = Bronze \<and> getReputationTier (Fin q) = Unranked)"
proof (intro conjI impI)
  show "op_isActive p ''/node'' \<longleftrightarrow> p = ''/node'' \<or> (\<exists>r. p = ''/node/'' @ r)"
    by (auto simp: op_isActive_def starts_with_iff)
  show "filter (op_isActive h) op_nav = (if h = ''/node'' then [h] else [''/node'', h])" if "h \<in> set op_nav"
    using that op_nav_marks by (simp add: list_all_iff)
  show "filter (op_isActive ''/dashboard'') op_nav = []"
    by (simp add: op_nav_def op_isActive_def starts_with_def)
qed (auto simp: page_tier_def getReputationTier_def)

lemma node_menu_and_tiers_witness:
  "filter (op_isActive ''/node/nodes'') op_nav = [''/node'', ''/node/nodes''] \<and> page_tier (Fin (- 5)) = Bronze"
  using node_menu_and_tiers[of "''''" "''/node/nodes''" 0] node_menu_and_tiers[of "''''" "''/node''" "- 5"]
  by (simp add: op_nav_def)

end
