(* ===== verification/WalletData.thy ===== *)
theory WalletData
  imports Analytics WalletLink WalletModals
begin

text \<open>
  \<open>hooks/use-wallet.ts\<close>: the transactions, escrow positions and statistics of a wallet and the two
  staking mutations, and what \<open>ConnectedWalletView\<close> of \<open>app/(dashboard)/wallet/page.tsx\<close> makes of them:
  the figures, the positions and the history. \<open>parseDate\<close> is \<open>new Date(s).getTime()\<close> for the time stamps
  of the database, \<open>formatEther\<close> belongs to the chain library.
\<close>

section \<open>Queries\<close>

text \<open>\<open>amount_eth\<close> is what the row has under that name, \<open>Undefined\<close> when there is no such column.\<close>

record escrow_position =
  ep_id :: string
  ep_node_id :: "string option"
  amount_eth :: jsval
  ep_created_at :: string

record wallet_stats =
  totalBalance :: jsnum
  ws_totalStaked :: jsnum
  pendingUnstake :: jsnum
  last30DaysRewards :: jsnum
  last30DaysSlashings :: jsnum

type_synonym 'a answer = "query \<Rightarrow> string + 'a list option"

definition rows_or_empty :: "string + 'a list option \<Rightarrow> string + 'a list" where
  "rows_or_empty r = (case r of Inl e \<Rightarrow> Inl e | Inr rows \<Rightarrow> Inr (or_else rows []))"

definition fetchWalletTransactions :: "transaction answer \<Rightarrow> string \<Rightarrow> string + transaction list" where
  "fetchWalletTransactions ask user = rows_or_empty (ask
     (order_by ''created_at'' False (eq_filter ''user_id'' user
       (from_table UserClient ''transactions'' (QSelect ''*'')))))"

definition fetchEscrowPositions :: "escrow_position answer \<Rightarrow> string \<Rightarrow> string + escrow_position list" where
  "fetchEscrowPositions ask user = rows_or_empty (ask
     (eq_filter ''user_id'' user (from_table UserClient ''escrow_positions'' (QSelect ''*''))))"

text \<open>\<open>sum + t.amount_usd\<close>: null counts as zero in an addition.\<close>

definition usd :: "transaction \<Rightarrow> jsnum" where
  "usd t = or_else (amount_usd t) (Fin 0)"

definition wallet_stats_of :: "string \<Rightarrow> transaction list \<Rightarrow> wallet_stats" where
  "wallet_stats_of thirtyDaysAgo txns =
     (let recentTxns = filter (\<lambda>t. str_le thirtyDaysAgo (tx_created_at t)) txns
      in \<lparr>totalBalance = sum_by usd (filter (\<lambda>t. tx_type t \<noteq> ''slashing'') txns),
          ws_totalStaked = sum_by usd (filter (\<lambda>t. tx_type t = ''stake_added'') txns),
          pendingUnstake = Fin 0,
          last30DaysRewards = sum_by usd (filter (\<lambda>t. tx_type t = ''reward'') recentTxns),
          last30DaysSlashings = sum_by usd (filter (\<lambda>t. tx_type t = ''slashing'') recentTxns)\<rparr>)"

definition fetchWalletStats ::
  "transaction answer \<Rightarrow> (int \<Rightarrow> string) \<Rightarrow> int \<Rightarrow> string \<Rightarrow> string + wallet_stats" where
  "fetchWalletStats ask iso8601 now user =
     (case fetchWalletTransactions ask user of
        Inl e \<Rightarrow> Inl e
      | Inr txns \<Rightarrow> Inr (wallet_stats_of (days_ago iso8601 now 30) txns))"

text \<open>The query hooks: without a user the lists are empty and the figures zero.\<close>

definition useWalletTransactions :: "transaction answer \<Rightarrow> string option \<Rightarrow> string + transaction list" where
  "useWalletTransactions ask user = (case user of None \<Rightarrow> Inr [] | Some u \<Rightarrow> fetchWalletTransactions ask u)"

definition useEscrowPositions :: "escrow_position answer \<Rightarrow> string option \<Rightarrow> string + escrow_position list" where
  "useEscrowPositions ask user = (case user of None \<Rightarrow> Inr [] | Some u \<Rightarrow> fetchEscrowPositions ask u)"

definition useWalletStats ::
  "transaction answer \<Rightarrow> (int \<Rightarrow> string) \<Rightarrow> int \<Rightarrow> string option \<Rightarrow> string + wallet_stats" where
  "useWalletStats ask iso8601 now user =
     (case user of
        None \<Rightarrow> Inr \<lparr>totalBalance = Fin 0, ws_totalStaked = Fin 0, pendingUnstake = Fin 0,
                     last30DaysRewards = Fin 0, last30DaysSlashings = Fin 0\<rparr>
      | Some u \<Rightarrow> fetchWalletStats ask iso8601 now u)"

section \<open>Staking through the backend\<close>

record stake_result =
  sr_success :: bool
  sr_error :: jsval

definition network_failed :: stake_result where
  "network_failed = \<lparr>sr_success = False, sr_error = Str ''Network error''\<rparr>"

text \<open>The body is read before the status is looked at, so an answer that is not JSON is a network error.\<close>

definition stake_answer :: "fetch_result \<Rightarrow> stake_result" where
  "stake_answer r =
     (case r of
        NetworkFailure \<Rightarrow> network_failed
      | Response st None \<Rightarrow> network_failed
      | Response st (Some data) \<Rightarrow>
          if \<not> res_ok r then
            (case prop_of ''error'' data of
               None \<Rightarrow> network_failed
             | Some e \<Rightarrow> \<lparr>sr_success = False, sr_error = e\<rparr>)
          else \<lparr>sr_success = True, sr_error = Undefined\<rparr>)"

definition stake_body :: "string \<Rightarrow> jsnum \<Rightarrow> jsval" where
  "stake_body user amountEth = Obj [(''userId'', Str user), (''amountEth'', Num amountEth)]"

definition stakeFunds :: "(string \<Rightarrow> jsval \<Rightarrow> fetch_result) \<Rightarrow> string \<Rightarrow> jsnum \<Rightarrow> stake_result" where
  "stakeFunds post user amountEth = stake_answer (post ''/api/v1/escrow/stake'' (stake_body user amountEth))"

definition unstakeFunds :: "(string \<Rightarrow> jsval \<Rightarrow> fetch_result) \<Rightarrow> string \<Rightarrow> jsnum \<Rightarrow> stake_result" where
  "unstakeFunds post user amountEth = stake_answer (post ''/api/v1/escrow/unstake'' (stake_body user amountEth))"

text \<open>The mutations resolve with the result, also when it is a failure, so \<open>onSuccess\<close> runs and the wallet
  queries are refetched: the second component names the invalidated queries.\<close>

definition not_authenticated :: stake_result where
  "not_authenticated = \<lparr>sr_success = False, sr_error = Str ''Not authenticated''\<rparr>"

definition useStake ::
  "(string \<Rightarrow> jsval \<Rightarrow> fetch_result) \<Rightarrow> string option \<Rightarrow> jsnum \<Rightarrow> stake_result \<times> string list" where
  "useStake post user amount =
     (case user of None \<Rightarrow> not_authenticated | Some u \<Rightarrow> stakeFunds post u amount, [''wallet''])"

definition useUnstake ::
  "(string \<Rightarrow> jsval \<Rightarrow> fetch_result) \<Rightarrow> string option \<Rightarrow> jsnum \<Rightarrow> stake_result \<times> string list" where
  "useUnstake post user amount =
     (case user of None \<Rightarrow> not_authenticated | Some u \<Rightarrow> unstakeFunds post u amount, [''wallet''])"

section \<open>The wallet page\<close>

definition TX_DESCRIPTIONS :: "(string \<times> string) list" where
  "TX_DESCRIPTIONS =
     [(''stake_added'', ''Stake added to escrow''),
      (''stake_removed'', ''Stake released after cooldown''),
      (''job_payment'', ''Payment for job execution''),
      (''slashing'', ''SLA breach penalty''),
      (''reward'', ''Job completion reward'')]"

record page_tx =
  pt_id :: string
  pt_type :: string
  pt_amount :: "jsnum option"
  timestamp :: int
  pt_status :: string
  hash :: string
  description :: string

definition format_tx :: "(string \<Rightarrow> int) \<Rightarrow> transaction \<Rightarrow> page_tx" where
  "format_tx parseDate t =
     \<lparr>pt_id = tx_id t, pt_type = tx_type t, pt_amount = amount_usd t, timestamp = parseDate (tx_created_at t),
      pt_status = ''confirmed'', hash = or_else (tx_hash t) '''',
      description = or_else (map_of TX_DESCRIPTIONS (tx_type t)) (tx_type t)\<rparr>"

definition formattedTxns :: "(string \<Rightarrow> int) \<Rightarrow> transaction list option \<Rightarrow> page_tx list" where
  "formattedTxns parseDate txns = map (format_tx parseDate) (or_else txns [])"

definition recentRewards :: "int \<Rightarrow> page_tx list \<Rightarrow> jsnum" where
  "recentRewards now txs =
     sum_by (\<lambda>t. or_else (pt_amount t) (Fin 0))
       (filter (\<lambda>t. now - 30 * 24 * 3600 * 1000 < timestamp t \<and> pt_type t = ''reward'') txs)"

definition truncatedAddress :: "string option \<Rightarrow> string" where
  "truncatedAddress a =
     (if truthy_str a then slice_first 6 (the a) @ ''...'' @ slice_last 4 (the a) else '''')"

text \<open>A chain read is absent until it resolves; a value of zero counts as absent as well.\<close>

definition ether_text :: "(nat \<Rightarrow> string) \<Rightarrow> nat option \<Rightarrow> string" where
  "ether_text formatEther raw = (case raw of None \<Rightarrow> ''0'' | Some w \<Rightarrow> if w = 0 then ''0'' else formatEther w)"

definition balance_text :: "(nat \<Rightarrow> string) \<Rightarrow> nat option \<Rightarrow> string" where
  "balance_text formatEther data = (case data of None \<Rightarrow> ''0'' | Some w \<Rightarrow> formatEther w)"

definition eth_figure :: "nat \<Rightarrow> jsnum \<Rightarrow> string" where
  "eth_figure d x = toFixed d x @ '' ETH''"

record metric_card =
  mc_label :: string
  mc_value :: string
  mc_trend :: string
  mc_glow :: string

definition wallet_cards :: "string \<Rightarrow> string \<Rightarrow> string \<Rightarrow> jsnum \<Rightarrow> metric_card list" where
  "wallet_cards balanceEth myStakeEth totalStakedEth rewards =
     [\<lparr>mc_label = ''ETH Balance'', mc_value = eth_figure 4 (amount_of balanceEth), mc_trend = ''neutral'',
       mc_glow = ''none''\<rparr>,
      \<lparr>mc_label = ''My Escrow Stake'', mc_value = eth_figure 4 (amount_of myStakeEth), mc_trend = ''neutral'',
       mc_glow = (if js_lt (Fin 0) (amount_of myStakeEth) then ''active'' else ''none'')\<rparr>,
      \<lparr>mc_label = ''Protocol Total Stake'', mc_value = eth_figure 1 (amount_of totalStakedEth),
       mc_trend = ''neutral'', mc_glow = ''none''\<rparr>,
      \<lparr>mc_label = ''Last 30d Rewards'', mc_value = eth_figure 3 rewards,
       mc_trend = (if js_lt (Fin 0) rewards then ''up'' else ''neutral''),
       mc_glow = (if js_lt (Fin 0) rewards then ''active'' else ''none'')\<rparr>]"

section \<open>Positions and history\<close>

text \<open>The dash shown for a position without a node is written \<open>--\<close>.\<close>

record position_row =
  pr_node :: string
  pr_status :: string
  pr_escrowed :: string

definition position_amount :: "escrow_position \<Rightarrow> jsnum" where
  "position_amount p =
     (case amount_eth p of Str s \<Rightarrow> parseFloat s | Num x \<Rightarrow> js_or x (Fin 0) | _ \<Rightarrow> Fin 0)"

definition position_row :: "jsnum \<Rightarrow> escrow_position \<Rightarrow> position_row" where
  "position_row pStake p =
     (let amtEth = position_amount p
      in \<lparr>pr_node = ''Node '' @ (if truthy_str (ep_node_id p) then slice_first 8 (the (ep_node_id p)) else ''--''),
          pr_status = (if js_lt (Fin 0) amtEth then ''active'' else ''closed''),
          pr_escrowed = eth_figure 3 (if js_lt (Fin 0) amtEth then amtEth else pStake)\<rparr>)"

record tx_row =
  tr_description :: string
  tr_hash :: "string option"
  tr_time :: string
  tr_badge :: string
  tr_slashed :: bool
  tr_amount :: string

text \<open>A row of the history; \<open>None\<close>: calling \<open>toFixed\<close> on a null amount throws.\<close>

definition tx_row :: "int \<Rightarrow> page_tx \<Rightarrow> tx_row option" where
  "tx_row now t =
     (case pt_amount t of
        None \<Rightarrow> None
      | Some x \<Rightarrow> Some
          \<lparr>tr_description = description t,
           tr_hash = (if hash t = '''' then None
                      else Some (slice_first 10 (hash t) @ ''...'' @ slice_last 4 (hash t))),
           tr_time = formatRelativeTime now (timestamp t),
           tr_badge = (if pt_status t = ''confirmed'' then ''success''
                       else if pt_status t = ''pending'' then ''warning'' else ''danger''),
           tr_slashed = (pt_type t = ''slashing''),
           tr_amount = (if pt_type t = ''slashing'' then '''' else ''+'') @ toFixed 4 x @ '' ETH''\<rparr>)"

datatype history_view = HistoryLoading | HistoryEmpty | HistoryRows "tx_row list"

text \<open>Rendering the history; an exception in a row aborts it (\<open>None\<close>).\<close>

definition wallet_history :: "int \<Rightarrow> bool \<Rightarrow> page_tx list \<Rightarrow> history_view option" where
  "wallet_history now txnsLoading txs =
     (if txnsLoading then Some HistoryLoading
      else if txs = [] then Some HistoryEmpty
      else if list_all (\<lambda>t. tx_row now t \<noteq> None) txs then Some (HistoryRows (map (the \<circ> tx_row now) txs))
      else None)"

text \<open>The two modals of the page and the choice between the connected and the disconnected view.\<close>

record wallet_view =
  stakeOpen :: bool
  unstakeOpen :: bool

definition wallet_view_init :: wallet_view where
  "wallet_view_init = \<lparr>stakeOpen = False, unstakeOpen = False\<rparr>"

datatype wallet_event = AddStake | InitiateUnstake | StakeClosed | UnstakeClosed

fun wallet_view_step :: "wallet_event \<Rightarrow> wallet_view \<Rightarrow> wallet_view" where
  "wallet_view_step AddStake v = v\<lparr>stakeOpen := True\<rparr>"
| "wallet_view_step InitiateUnstake v = v\<lparr>unstakeOpen := True\<rparr>"
| "wallet_view_step StakeClosed v = v\<lparr>stakeOpen := False\<rparr>"
| "wallet_view_step UnstakeClosed v = v\<lparr>unstakeOpen := False\<rparr>"

section \<open>Lemmas\<close>

lemma sum_by_Cons: "sum_by f (x # xs) = js_add (f x) (sum_by f xs)"
  by (simp add: sum_by_sum_list plus_jsnum_def)

lemma js_add_zero [simp]: "js_add x (Fin 0) = x"
  by (cases x) simp_all

lemma sum_by_append: "sum_by f (xs @ ys) = js_add (sum_by f xs) (sum_by f ys)"
  by (simp add: sum_by_sum_list plus_jsnum_def)

lemma sum_by_none [simp]: "sum_by f [] = Fin 0"
  by (simp add: sum_by_def)

text \<open>A sum over a list is the sum of the sums over its two parts.\<close>

lemma sum_by_split: "sum_by f xs = js_add (sum_by f (filter P xs)) (sum_by f (filter (\<lambda>x. \<not> P x) xs))"
proof (induction xs)
  case (Cons x xs)
  then show ?case
    by (simp add: sum_by_sum_list plus_jsnum_def[symmetric] add.assoc add.left_commute)
qed simp

lemma stored_not_shown:
  assumes "tx_type t \<in> set stored_tx_types"
  shows "tx_type t \<noteq> ''slashing''" "tx_type t \<noteq> ''reward''"
  using assms by (auto simp: stored_tx_types_def)

lemma tx_row_None [simp]: "tx_row now t = None \<longleftrightarrow> pt_amount t = None"
  by (simp add: tx_row_def split: option.splits)

lemma length_formatted [simp]: "length (formattedTxns pd (Some ts)) = length ts"
  by (simp add: formattedTxns_def or_else_def)

lemma stake_answer_cases:
  "sr_success (stake_answer r) \<longleftrightarrow> (\<exists>data. res_ok r \<and> r = Response (res_status r) (Some data))"
  by (auto simp: stake_answer_def network_failed_def res_ok_def split: fetch_result.splits option.splits)

section \<open>Properties\<close>

definition sample_withdrawal :: transaction where
  "sample_withdrawal = \<lparr>tx_id = ''t'', tx_type = ''stake_removed'', amount_wei = None, amount_usd = Some (Fin 5),
     tx_hash = None, tx_created_at = ''2025-01-01''\<rparr>"

definition sample_position :: escrow_position where
  "sample_position = \<lparr>ep_id = ''p'', ep_node_id = None, amount_eth = Undefined, ep_created_at = ''2025-01-01''\<rparr>"

text \<open>Also: the balance of the wallet is the sum of every stored transaction, whatever its direction, since the
  database stores no transaction of the only type left out; so taking stake out raises the balance by
  the amount that is taken out, and the figures for rewards and slashings of the last thirty days,
  on the wallet's page as in its hook, are always zero.\<close>

theorem wallet_balance_adds_everything:
  assumes "\<forall>t \<in> set (txns @ [w]). tx_type t \<in> set stored_tx_types"
    and "tx_type w = ''stake_removed''"
  shows "totalBalance (wallet_stats_of since txns) = sum_by usd txns \<and>
    totalBalance (wallet_stats_of since (txns @ [w])) = js_add (totalBalance (wallet_stats_of since txns)) (usd w) \<and>
    ws_totalStaked (wallet_stats_of since (txns @ [w])) = ws_totalStaked (wallet_stats_of since txns) \<and>
    last30DaysRewards (wallet_stats_of since txns) = Fin 0 \<and>
    last30DaysSlashings (wallet_stats_of since txns) = Fin 0 \<and>
    recentRewards now (formattedTxns pd (Some txns)) = Fin 0"
proof -
  have all: "filter (\<lambda>t. tx_type t \<noteq> ''slashing'') ts = ts" if "set ts \<subseteq> set (txns @ [w])" for ts
    using assms(1) that stored_not_shown(1) by (intro filter_True) blast
  have none: "filter (\<lambda>t. tx_type t = ty) (filter P txns) = []" if "ty \<in> {''slashing'', ''reward''}" for ty P
    using assms(1) that stored_not_shown by (fastforce simp: filter_empty_conv)
  have rewards: "filter (\<lambda>t. now - 30 * 24 * 3600 * 1000 < timestamp t \<and> pt_type t = ''reward'')
      (formattedTxns pd (Some txns)) = []"
    using assms(1) stored_not_shown(2)
    by (fastforce simp: filter_empty_conv formattedTxns_def format_tx_def or_else_def)
  have "totalBalance (wallet_stats_of since txns) = sum_by usd txns"
    using all[of txns] by (simp add: wallet_stats_of_def Let_def subset_iff)
  moreover have "totalBalance (wallet_stats_of since (txns @ [w])) = sum_by usd (txns @ [w])"
    using all[of "txns @ [w]"] by (simp add: wallet_stats_of_def Let_def)
  moreover have "recentRewards now (formattedTxns pd (Some txns)) = Fin 0"
    unfolding recentRewards_def rewards by simp
  ultimately show ?thesis
    using assms(2) none
    by (simp add: wallet_stats_of_def Let_def sum_by_append sum_by_Cons del: filter_filter)
qed

lemma wallet_balance_adds_everything_witness:
  "last30DaysRewards (wallet_stats_of '''' sample_txns) = Fin 0 \<and>
   totalBalance (wallet_stats_of '''' (sample_txns @ [sample_withdrawal])) =
     js_add (totalBalance (wallet_stats_of '''' sample_txns)) (Fin 5)"
  using wallet_balance_adds_everything[of sample_txns sample_withdrawal "''''" 0 "\<lambda>_. 0"]
  by (simp add: sample_txns_def sample_withdrawal_def stored_tx_types_def usd_def or_else_def)

text \<open>Also: an escrow position is shown by its own amount exactly when it has a positive one; the stored rows
  have no column of that name, so every position is shown as closed with the user's whole stake.\<close>

theorem positions_shown_closed:
  assumes "\<forall>p \<in> set ps. amount_eth p = Undefined"
  shows "(\<forall>r \<in> set (map (position_row (Fin q)) ps). pr_status r = ''closed'' \<and> pr_escrowed r = eth_figure 3 (Fin q)) \<and>
    (\<forall>p x. amount_eth p = Num (Fin x) \<longrightarrow>
       (pr_status (position_row (Fin q) p) = ''active'' \<longleftrightarrow> 0 < x) \<and>
       (0 < x \<longrightarrow> pr_escrowed (position_row (Fin q) p) = eth_figure 3 (Fin x)))"
  using assms by (auto simp: position_row_def position_amount_def Let_def)

lemma positions_shown_closed_witness:
  "map pr_status (map (position_row (Fin 12)) [sample_position]) = [''closed'']"
  using positions_shown_closed[of "[sample_position]" 12] by (simp add: sample_position_def)

text \<open>Also: the history is shown row by row in the order of the query exactly when every transaction has an
  amount; a single transaction without one, which the database allows, makes the page throw.\<close>

theorem history_needs_amounts:
  assumes "ts \<noteq> []"
  shows "(wallet_history now False (formattedTxns pd (Some ts)) = None \<longleftrightarrow> (\<exists>t \<in> set ts. amount_usd t = None)) \<and>
    (\<forall>rows. wallet_history now False (formattedTxns pd (Some ts)) = Some (HistoryRows rows) \<longrightarrow>
       length rows = length ts \<and>
       (\<forall>i < length ts. tr_slashed (rows ! i) = (tx_type (ts ! i) = ''slashing'') \<and>
          tr_badge (rows ! i) = ''success'' \<and>
          (\<exists>x. amount_usd (ts ! i) = Some x \<and> ends_with (toFixed 4 x @ '' ETH'') (tr_amount (rows ! i)))))"
proof -
  have ne: "formattedTxns pd (Some ts) \<noteq> []"
    using assms by (simp add: formattedTxns_def or_else_def)
  have amounts: "list_all (\<lambda>t. tx_row now t \<noteq> None) (formattedTxns pd (Some ts)) \<longleftrightarrow>
      (\<forall>t \<in> set ts. amount_usd t \<noteq> None)"
    by (auto simp: formattedTxns_def format_tx_def or_else_def list_all_iff)
  have nth: "formattedTxns pd (Some ts) ! i = format_tx pd (ts ! i)" if "i < length ts" for i
    using that by (simp add: formattedTxns_def or_else_def)
  have row: "tr_slashed (the (tx_row now (format_tx pd t))) = (tx_type t = ''slashing'') \<and>
      tr_badge (the (tx_row now (format_tx pd t))) = ''success'' \<and>
      (\<exists>x. amount_usd t = Some x \<and>
         ends_with (toFixed 4 x @ '' ETH'') (tr_amount (the (tx_row now (format_tx pd t)))))"
    if "amount_usd t \<noteq> None" for t
    using that by (auto simp: tx_row_def format_tx_def ends_with_def)
  show ?thesis
    using ne amounts by (auto simp: wallet_history_def nth row)
qed

lemma history_needs_amounts_witness:
  "wallet_history 0 False (formattedTxns (\<lambda>_. 0) (Some [sample_withdrawal, sample_withdrawal\<lparr>amount_usd := None\<rparr>])) = None"
  using history_needs_amounts[of "[sample_withdrawal, sample_withdrawal\<lparr>amount_usd := None\<rparr>]" 0 "\<lambda>_. 0"]
  by simp

text \<open>Also: the staking mutations report success exactly when the backend answers with a successful status
  and a JSON body; without a user nothing is sent, and the queries of the wallet are refetched in
  every case, after a failure too.\<close>

theorem staking_result:
  "sr_success (fst (useStake post (Some u) x)) =
     (\<exists>st data. post ''/api/v1/escrow/stake'' (stake_body u x) = Response st (Some data) \<and> 200 \<le> st \<and> st < 300) \<and>
   sr_success (fst (useUnstake post (Some u) x)) =
     (\<exists>st data. post ''/api/v1/escrow/unstake'' (stake_body u x) = Response st (Some data) \<and> 200 \<le> st \<and> st < 300) \<and>
   fst (useStake post None x) = not_authenticated \<and> fst (useUnstake post None x) = not_authenticated \<and>
   snd (useStake post user x) = [''wallet''] \<and> snd (useUnstake post user x) = [''wallet'']"
  by (auto simp: useStake_def useUnstake_def stakeFunds_def unstakeFunds_def stake_answer_cases res_ok_def
      split: fetch_result.splits)

end
