(* ===== verification/Widgets.thy ===== *)
theory Widgets
  imports JsValue
begin

text \<open>
  The interface components that keep state: the tooltip (\<open>components/ui/tooltip.tsx\<close>), the select box
  (\<open>components/ui/select.tsx\<close>), the tabs (\<open>components/ui/tabs.tsx\<close>), the menu of the header
  (\<open>components/ui/dropdown-menu.tsx\<close>), dialogs (\<open>components/ui/dialog.tsx\<close>) and the switch between a
  table and cards (\<open>components/ui/responsive-table.tsx\<close>). The browser's part are the events; positions
  are rational numbers of pixels.
\<close>

section \<open>Tooltips\<close>

datatype TooltipPlacement = PTop | PBottom | PLeft | PRight

record rect =
  r_top :: rat
  r_left :: rat
  r_width :: rat
  r_height :: rat

definition r_bottom :: "rect \<Rightarrow> rat" where "r_bottom r = r_top r + r_height r"
definition r_right :: "rect \<Rightarrow> rat" where "r_right r = r_left r + r_width r"

record scroll =
  scrollX :: rat
  scrollY :: rat

text \<open>A position is the pair of its top and its left.\<close>

type_synonym pos = "rat \<times> rat"

fun tooltip_position :: "TooltipPlacement \<Rightarrow> rect \<Rightarrow> scroll \<Rightarrow> pos" where
  "tooltip_position PTop r s = (r_top r + scrollY s - 8, r_left r + scrollX s + r_width r / 2)"
| "tooltip_position PBottom r s = (r_bottom r + scrollY s + 8, r_left r + scrollX s + r_width r / 2)"
| "tooltip_position PLeft r s = (r_top r + scrollY s + r_height r / 2, r_left r + scrollX s - 8)"
| "tooltip_position PRight r s = (r_top r + scrollY s + r_height r / 2, r_right r + scrollX s + 8)"

text \<open>One axis of the correction: the tooltip of the given size is centred at \<open>x\<close>.\<close>

definition clamp_axis :: "rat \<Rightarrow> rat \<Rightarrow> rat \<Rightarrow> rat" where
  "clamp_axis viewport extent x =
     (if x - extent / 2 < 8 then extent / 2 + 8
      else if x + extent / 2 > viewport - 8 then viewport - extent / 2 - 8
      else x)"

definition adjust_position :: "rat \<Rightarrow> rat \<Rightarrow> TooltipPlacement \<Rightarrow> rect \<Rightarrow> pos \<Rightarrow> pos" where
  "adjust_position viewportWidth viewportHeight placement tip p =
     (let left = (if placement \<in> {PTop, PBottom} then clamp_axis viewportWidth (r_width tip) (snd p) else snd p);
          top = (if placement \<in> {PLeft, PRight} then clamp_axis viewportHeight (r_height tip) (fst p) else fst p)
      in (top, left))"

text \<open>
  The component's state. Timers are numbered; \<open>pending\<close> are those set and neither cleared nor fired,
  \<open>timeoutRef\<close> is the last one that was set.
\<close>

record tooltip =
  tt_visible :: bool
  tt_position :: "pos option"
  tt_attached :: bool
  tt_next :: nat
  tt_pending :: "nat list"
  timeoutRef :: "nat option"

definition tooltip_init :: tooltip where
  "tooltip_init = \<lparr>tt_visible = False, tt_position = None, tt_attached = True, tt_next = 0, tt_pending = [],
     timeoutRef = None\<rparr>"

definition showTooltip :: "bool \<Rightarrow> tooltip \<Rightarrow> tooltip" where
  [handler_defs]: "showTooltip disabled s =
     (if disabled then s
      else s\<lparr>timeoutRef := Some (tt_next s), tt_pending := tt_pending s @ [tt_next s], tt_next := tt_next s + 1\<rparr>)"

definition clear_timer :: "tooltip \<Rightarrow> tooltip" where
  [handler_defs]: "clear_timer s =
     (case timeoutRef s of None \<Rightarrow> s | Some k \<Rightarrow> s\<lparr>tt_pending := filter (\<lambda>j. j \<noteq> k) (tt_pending s)\<rparr>)"

definition hideTooltip :: "tooltip \<Rightarrow> tooltip" where
  [handler_defs]: "hideTooltip s = (clear_timer s)\<lparr>timeoutRef := None, tt_visible := False\<rparr>"

definition tooltip_fires :: "TooltipPlacement \<Rightarrow> rect \<Rightarrow> scroll \<Rightarrow> nat \<Rightarrow> tooltip \<Rightarrow> tooltip" where
  [handler_defs]: "tooltip_fires placement r sc k s =
     (let s1 = s\<lparr>tt_pending := filter (\<lambda>j. j \<noteq> k) (tt_pending s)\<rparr> in
      if tt_attached s then s1\<lparr>tt_position := Some (tooltip_position placement r sc), tt_visible := True\<rparr> else s1)"

definition tooltip_unmount :: "tooltip \<Rightarrow> tooltip" where
  [handler_defs]: "tooltip_unmount s = (clear_timer s)\<lparr>tt_attached := False\<rparr>"

definition tooltip_shown :: "tooltip \<Rightarrow> pos option" where
  "tooltip_shown s = (if tt_attached s \<and> tt_visible s then tt_position s else None)"

datatype tooltip_event = Enter | Leave | Focus | Blur | Fires nat rect scroll | Unmounted

fun tooltip_step :: "TooltipPlacement \<Rightarrow> bool \<Rightarrow> tooltip_event \<Rightarrow> tooltip \<Rightarrow> tooltip" where
  "tooltip_step pl dis Enter s = showTooltip dis s"
| "tooltip_step pl dis Focus s = showTooltip dis s"
| "tooltip_step pl dis Leave s = hideTooltip s"
| "tooltip_step pl dis Blur s = hideTooltip s"
| "tooltip_step pl dis (Fires k r sc) s = tooltip_fires pl r sc k s"
| "tooltip_step pl dis Unmounted s = tooltip_unmount s"

section \<open>The select box\<close>

text \<open>The children of the box; \<open>SelOther\<close> is a label, a separator or anything else.\<close>

datatype select_child =
    SelectItem (item_value: string) (item_label: string) (item_disabled: bool)
  | SelectGroup "select_child list"
  | SelOther

fun is_item :: "select_child \<Rightarrow> bool" where
  "is_item (SelectItem v l d) = True"
| "is_item _ = False"

text \<open>The items that are looked at, and that are given a handler: those of the box and of its groups, but
  not those of a group inside a group.\<close>

definition select_items :: "select_child list \<Rightarrow> select_child list" where
  "select_items cs = concat (map (\<lambda>c. case c of
       SelectItem v l d \<Rightarrow> [c] | SelectGroup ds \<Rightarrow> filter is_item ds | SelOther \<Rightarrow> []) cs)"

record select_props =
  sel_value :: "string option"
  sel_default :: "string option"
  sel_disabled :: bool
  sel_placeholder :: string
  sel_children :: "select_child list"

definition text_or :: "string option \<Rightarrow> string \<Rightarrow> string" where
  "text_or a b = (case a of None \<Rightarrow> b | Some t \<Rightarrow> if t = '''' then b else t)"

record select_box =
  sel_open :: bool
  selectedValue :: string
  sel_calls :: "string list"

definition select_init :: "select_props \<Rightarrow> select_box" where
  "select_init p = \<lparr>sel_open = False, selectedValue = text_or (sel_value p) (text_or (sel_default p) ''''),
     sel_calls = []\<rparr>"

definition select_current :: "select_props \<Rightarrow> select_box \<Rightarrow> string" where
  "select_current p s = or_else (sel_value p) (selectedValue s)"

definition selectedLabel :: "select_props \<Rightarrow> select_box \<Rightarrow> string" where
  "selectedLabel p s =
     (case find (\<lambda>i. item_value i = select_current p s) (select_items (sel_children p)) of
        None \<Rightarrow> sel_placeholder p
      | Some i \<Rightarrow> text_or (Some (item_label i)) (sel_placeholder p))"

definition handleOpen :: "select_props \<Rightarrow> select_box \<Rightarrow> select_box" where
  [handler_defs]: "handleOpen p s = (if sel_disabled p then s else s\<lparr>sel_open := True\<rparr>)"

definition handleValueChange :: "select_props \<Rightarrow> string \<Rightarrow> select_box \<Rightarrow> select_box" where
  [handler_defs]: "handleValueChange p v s =
     s\<lparr>selectedValue := (if sel_value p = None then v else selectedValue s),
       sel_calls := sel_calls s @ [v], sel_open := False\<rparr>"

text \<open>A click on an item reaches its own handler and then, as it is outside the button, the one of the document.\<close>

definition item_clicked :: "select_props \<Rightarrow> select_child \<Rightarrow> select_box \<Rightarrow> select_box" where
  [handler_defs]: "item_clicked p i s =
     (if item_disabled i then s else handleValueChange p (item_value i) s)\<lparr>sel_open := False\<rparr>"

datatype select_event = TriggerClicked | ItemClicked select_child | ClickedOutside | SelectEscape

fun select_step :: "select_props \<Rightarrow> select_event \<Rightarrow> select_box \<Rightarrow> select_box" where
  "select_step p TriggerClicked s = handleOpen p s"
| "select_step p (ItemClicked i) s = item_clicked p i s"
| "select_step p ClickedOutside s = s\<lparr>sel_open := False\<rparr>"
| "select_step p SelectEscape s = s\<lparr>sel_open := False\<rparr>"

fun select_ok :: "select_props \<Rightarrow> select_event \<Rightarrow> select_box \<Rightarrow> bool" where
  "select_ok p (ItemClicked i) s \<longleftrightarrow> sel_open s \<and> i \<in> set (select_items (sel_children p))"
| "select_ok p _ s \<longleftrightarrow> True"

fun chosen :: "select_event list \<Rightarrow> string list" where
  "chosen [] = []"
| "chosen (ItemClicked i # es) = (if item_disabled i then chosen es else item_value i # chosen es)"
| "chosen (_ # es) = chosen es"

section \<open>Tabs\<close>

text \<open>
  A panel decides whether it is shown when its value changes, from the first element of the document
  with a \<open>data-state\<close>. The state keeps what the document holds after the last rendering: \<open>tab_before\<close> and
  \<open>tab_after\<close> are the states of such elements before and behind the box, \<open>tab_committed\<close> is the
  box's own. Each panel is given the current value by the box, whatever its own value was.
\<close>

record tabs =
  tab_value :: string
  tab_before :: "string list"
  tab_committed :: "string option"
  tab_after :: "string list"
  tab_memo :: "(string \<times> bool) option"

definition parentState :: "tabs \<Rightarrow> string option" where
  "parentState s =
     (case tab_before s @ (case tab_committed s of None \<Rightarrow> [] | Some v \<Rightarrow> [v]) @ tab_after s of
        [] \<Rightarrow> None | x # _ \<Rightarrow> Some x)"

definition panel_active :: "tabs \<Rightarrow> bool" where
  "panel_active s =
     (case tab_memo s of
        Some (v, b) \<Rightarrow> if v = tab_value s then b else parentState s = Some (tab_value s)
      | None \<Rightarrow> parentState s = Some (tab_value s))"

definition render_tabs :: "tabs \<Rightarrow> tabs" where
  [handler_defs]: "render_tabs s =
     s\<lparr>tab_memo := Some (tab_value s, panel_active s), tab_committed := Some (tab_value s)\<rparr>"

definition mount_tabs :: "string option \<Rightarrow> string option \<Rightarrow> string list \<Rightarrow> string list \<Rightarrow> tabs" where
  "mount_tabs value defaultValue before after =
     render_tabs \<lparr>tab_value = text_or value (text_or defaultValue ''''), tab_before = before, tab_committed = None,
       tab_after = after, tab_memo = None\<rparr>"

definition tab_clicked :: "string \<times> bool \<Rightarrow> tabs \<Rightarrow> tabs" where
  [handler_defs]: "tab_clicked t s = (if snd t then s else render_tabs (s\<lparr>tab_value := fst t\<rparr>))"

text \<open>The contents that are shown, of the panels the box has.\<close>

definition TabsContent_shown :: "tabs \<Rightarrow> 'c list \<Rightarrow> 'c list" where
  "TabsContent_shown s panels = (case tab_memo s of Some (_, True) \<Rightarrow> panels | _ \<Rightarrow> [])"

section \<open>Dialogs\<close>

text \<open>The dialogs that are mounted, and whether the page behind them is kept from scrolling.\<close>

record dialogs =
  dlg_open :: "nat list"
  body_hidden :: bool

definition dialogs_init :: dialogs where
  "dialogs_init = \<lparr>dlg_open = [], body_hidden = False\<rparr>"

definition open_dialog :: "nat \<Rightarrow> dialogs \<Rightarrow> dialogs" where
  [handler_defs]: "open_dialog d s =
     (if d \<in> set (dlg_open s) then s else s\<lparr>dlg_open := dlg_open s @ [d], body_hidden := True\<rparr>)"

definition close_dialog :: "nat \<Rightarrow> dialogs \<Rightarrow> dialogs" where
  [handler_defs]: "close_dialog d s =
     (if d \<in> set (dlg_open s) then s\<lparr>dlg_open := removeAll d (dlg_open s), body_hidden := False\<rparr> else s)"

text \<open>Every mounted dialog listens to the escape key; those in \<open>listen\<close> were given a callback.\<close>

definition dialog_escape :: "nat set \<Rightarrow> dialogs \<Rightarrow> dialogs" where
  [handler_defs]: "dialog_escape listen s = fold close_dialog (filter (\<lambda>d. d \<in> listen) (dlg_open s)) s"

datatype dialog_event = OpenDialog nat | CloseDialog nat | DialogEscape

fun dialog_step :: "nat set \<Rightarrow> dialog_event \<Rightarrow> dialogs \<Rightarrow> dialogs" where
  "dialog_step listen (OpenDialog d) s = open_dialog d s"
| "dialog_step listen (CloseDialog d) s = close_dialog d s"
| "dialog_step listen DialogEscape s = dialog_escape listen s"

section \<open>The menu of the header\<close>

record dropdown =
  dd_open :: bool
  dd_position :: "rect option"

definition dropdown_init :: dropdown where
  "dropdown_init = \<lparr>dd_open = False, dd_position = None\<rparr>"

definition handleOpenChange :: "bool \<Rightarrow> rect \<Rightarrow> dropdown \<Rightarrow> dropdown" where
  [handler_defs]: "handleOpenChange isOpen r s =
     (let s1 = s\<lparr>dd_open := isOpen\<rparr> in if isOpen then s1\<lparr>dd_position := Some r\<rparr> else s1)"

datatype dropdown_event = MenuTrigger rect | MenuOutside | MenuEscape

fun dropdown_step :: "dropdown_event \<Rightarrow> dropdown \<Rightarrow> dropdown" where
  "dropdown_step (MenuTrigger r) s = handleOpenChange (\<not> dd_open s) r s"
| "dropdown_step MenuOutside s = (if dd_open s then s\<lparr>dd_open := False\<rparr> else s)"
| "dropdown_step MenuEscape s = (if dd_open s then s\<lparr>dd_open := False\<rparr> else s)"

text \<open>What is rendered: the menu renders its children, and the content renders its own whether the trigger
  is open or not.\<close>

definition HeaderMenu :: "(string \<times> string) option \<Rightarrow> dropdown \<Rightarrow> string list" where
  "HeaderMenu user s =
     text_or (map_option fst user) ''Guest User'' #
     (case user of Some (_, email) \<Rightarrow> if email = '''' then [] else [email] | None \<Rightarrow> []) @ [''Settings'', ''Logout'']"

section \<open>Tables and cards\<close>

record viewport =
  breakpoint :: rat
  isMobile :: bool

definition checkMobile :: "rat \<Rightarrow> viewport \<Rightarrow> viewport" where
  [handler_defs]: "checkMobile innerWidth s = s\<lparr>isMobile := innerWidth < breakpoint s\<rparr>"

definition useIsMobile :: "rat \<Rightarrow> rat list \<Rightarrow> viewport" where
  "useIsMobile bp widths = fold checkMobile widths \<lparr>breakpoint = bp, isMobile = False\<rparr>"

datatype 'v table_view = MobileContent 'v | Cards "'v list" | DesktopContent 'v

definition ResponsiveTable ::
  "viewport \<Rightarrow> 'v \<Rightarrow> ('i list \<Rightarrow> 'v) option \<Rightarrow> ('i \<Rightarrow> 'v) option \<Rightarrow> 'i list \<Rightarrow> 'v table_view" where
  "ResponsiveTable vp desktop mobile item items =
     (case (isMobile vp, mobile, item) of
        (True, Some f, _) \<Rightarrow> MobileContent (f items)
      | (True, None, Some g) \<Rightarrow> Cards (map g items)
      | _ \<Rightarrow> DesktopContent desktop)"

section \<open>Lemmas on tooltips\<close>

text \<open>The tooltip together with whether the pointer is over its trigger.\<close>

fun hover_step :: "TooltipPlacement \<Rightarrow> bool \<Rightarrow> tooltip_event \<Rightarrow> bool \<times> tooltip \<Rightarrow> bool \<times> tooltip" where
  "hover_step pl dis e (h, t) =
     ((case e of Enter \<Rightarrow> True | Leave \<Rightarrow> False | _ \<Rightarrow> h), tooltip_step pl dis e t)"

text \<open>What can happen with a mouse alone: the pointer enters and leaves by turns, and a timer fires that is pending.\<close>

fun mouse_ok :: "tooltip_event \<Rightarrow> bool \<times> tooltip \<Rightarrow> bool" where
  "mouse_ok Enter (h, t) \<longleftrightarrow> \<not> h \<and> tt_attached t"
| "mouse_ok Leave (h, t) \<longleftrightarrow> h \<and> tt_attached t"
| "mouse_ok (Fires k r sc) (h, t) \<longleftrightarrow> k \<in> set (tt_pending t)"
| "mouse_ok Unmounted (h, t) \<longleftrightarrow> tt_attached t"
| "mouse_ok _ _ \<longleftrightarrow> False"

definition hover_inv :: "bool \<times> tooltip \<Rightarrow> bool" where
  "hover_inv = (\<lambda>(h, t).
     (\<not> h \<longrightarrow> tt_pending t = [] \<and> \<not> tt_visible t) \<and>
     (tt_attached t \<or> tt_pending t = []) \<and>
     (tt_pending t = [] \<or> (\<exists>k. timeoutRef t = Some k \<and> tt_pending t = [k])))"

interpretation hovering: guarded_machine "hover_step pl dis" mouse_ok hover_inv "(False, tooltip_init)"
proof unfold_locales
  show "hover_inv (False, tooltip_init)" by (simp add: hover_inv_def tooltip_init_def)
  fix s e
  assume inv: "hover_inv s" and ok: "mouse_ok e s"
  obtain h t where s: "s = (h, t)" by (cases s)
  show "hover_inv (hover_step pl dis e s)"
    using inv ok unfolding s by (cases e) (auto simp: hover_inv_def handler_defs Let_def split: option.splits)
qed

lemma clamp_inside:
  "extent \<le> viewport - 16 \<Longrightarrow>
     8 \<le> clamp_axis viewport extent x - extent / 2 \<and> clamp_axis viewport extent x + extent / 2 \<le> viewport - 8"
  by (auto simp: clamp_axis_def field_simps)

lemma clamp_below: "extent \<le> viewport - 16 \<Longrightarrow> clamp_axis viewport extent x + extent / 2 \<le> viewport - 8"
  using clamp_inside by blast

section \<open>Lemmas on the select box\<close>

lemma select_run:
  "legal_run (select_step p) (select_ok p) es s \<Longrightarrow>
     sel_calls (fold (select_step p) es s) = sel_calls s @ chosen es \<and>
     selectedValue (fold (select_step p) es s) =
       (if sel_value p = None then last (selectedValue s # chosen es) else selectedValue s) \<and>
     set (chosen es) \<subseteq> item_value ` {i \<in> set (select_items (sel_children p)). \<not> item_disabled i}"
proof (induction es arbitrary: s)
  case (Cons e es)
  then show ?case by (cases e) (auto simp: handler_defs)
qed simp

lemma disabled_select_run:
  "legal_run (select_step p) (select_ok p) es s \<Longrightarrow> sel_disabled p \<Longrightarrow> \<not> sel_open s \<Longrightarrow>
     \<not> sel_open (fold (select_step p) es s) \<and> chosen es = []"
proof (induction es arbitrary: s)
  case (Cons e es)
  then show ?case by (cases e) (auto simp: handler_defs)
qed simp

section \<open>Lemmas on tabs and dialogs\<close>

definition tabs_inv :: "string list \<Rightarrow> tabs \<Rightarrow> bool" where
  "tabs_inv before s \<longleftrightarrow>
     tab_before s = before \<and> tab_committed s = Some (tab_value s) \<and>
     (case before of
        [] \<Rightarrow> tab_memo s = Some (tab_value s, False)
      | x # _ \<Rightarrow> tab_memo s = Some (tab_value s, x = tab_value s))"

lemma tabs_inv_step: "tabs_inv before s \<Longrightarrow> tabs_inv before (tab_clicked t s)"
  by (cases before) (auto simp: tabs_inv_def handler_defs panel_active_def parentState_def)

lemma tabs_inv_run: "tabs_inv before s \<Longrightarrow> tabs_inv before (fold tab_clicked ts s)"
  by (induction ts arbitrary: s) (auto simp: tabs_inv_step)

definition dialogs_inv :: "dialogs \<Rightarrow> bool" where
  "dialogs_inv s \<longleftrightarrow> distinct (dlg_open s) \<and> (body_hidden s \<longrightarrow> dlg_open s \<noteq> [])"

lemma close_dialog_inv: "dialogs_inv s \<Longrightarrow> dialogs_inv (close_dialog d s)"
  by (auto simp: dialogs_inv_def close_dialog_def distinct_removeAll)

lemma close_dialogs_inv: "dialogs_inv s \<Longrightarrow> dialogs_inv (fold close_dialog ds s)"
  by (induction ds arbitrary: s) (auto simp: close_dialog_inv)

lemma open_close: "dlg_open (fold close_dialog ds s) = filter (\<lambda>d. d \<notin> set ds) (dlg_open s)"
proof (induction ds arbitrary: s)
  case (Cons d ds)
  have "dlg_open (close_dialog d s) = filter (\<lambda>x. x \<noteq> d) (dlg_open s)"
    by (cases "d \<in> set (dlg_open s)")
      (auto simp: close_dialog_def removeAll_filter_not_eq intro: filter_cong intro!: filter_True[symmetric])
  then show ?case using Cons by (simp add: conj_commute)
qed simp

interpretation dialogs: state_machine "dialog_step listen" dialogs_inv dialogs_init
proof unfold_locales
  show "dialogs_inv dialogs_init" by (simp add: dialogs_inv_def dialogs_init_def)
  fix s e
  assume inv: "dialogs_inv s"
  then show "dialogs_inv (dialog_step listen e s)"
    by (cases e) (auto simp: close_dialog_inv close_dialogs_inv dialog_escape_def, auto simp: dialogs_inv_def open_dialog_def)
qed

text \<open>No dialog is opened while another one is open.\<close>

fun single_ok :: "dialog_event \<Rightarrow> dialogs \<Rightarrow> bool" where
  "single_ok (OpenDialog d) s \<longleftrightarrow> dlg_open s = []"
| "single_ok _ s \<longleftrightarrow> True"

definition single_inv :: "dialogs \<Rightarrow> bool" where
  "single_inv s \<longleftrightarrow> dlg_open s = [] \<and> \<not> body_hidden s \<or> (\<exists>d. dlg_open s = [d] \<and> body_hidden s)"

lemma single_close: "single_inv s \<Longrightarrow> single_inv (close_dialog d s)"
  by (auto simp: single_inv_def close_dialog_def)

lemma single_escape: "single_inv s \<Longrightarrow> single_inv (fold close_dialog ds s)"
  by (induction ds arbitrary: s) (auto simp: single_close)

interpretation single_dialog: guarded_machine "dialog_step listen" single_ok single_inv dialogs_init
proof unfold_locales
  show "single_inv dialogs_init" by (simp add: single_inv_def dialogs_init_def)
  fix s e
  assume "single_inv s" and "single_ok e s"
  then show "single_inv (dialog_step listen e s)"
    by (cases e) (auto simp: single_close single_escape dialog_escape_def, auto simp: single_inv_def open_dialog_def)
qed

section \<open>Properties\<close>

text \<open>Also: with a mouse alone a tooltip is shown, or about to be shown, only while the pointer is over its
  trigger, and never more than one timer is pending. With the keyboard focus in addition it can be
  left standing: the second timer hides the first, which nothing clears any more.\<close>

theorem tooltip_only_while_hovering:
  assumes "legal_run (hover_step pl dis) mouse_ok es (False, tooltip_init)"
    and "fold (hover_step pl dis) es (False, tooltip_init) = (h, t)"
  shows "(tooltip_shown t \<noteq> None \<or> tt_pending t \<noteq> [] \<longrightarrow> h) \<and> length (tt_pending t) \<le> 1 \<and>
    tooltip_shown (fold (tooltip_step pl False) [Enter, Focus, Leave, Blur, Fires 0 r sc] tooltip_init) =
      Some (tooltip_position pl r sc)"
  using hovering.inv_legal_init[OF assms(1)] assms(2)
  by (auto simp: hover_inv_def tooltip_shown_def handler_defs tooltip_init_def Let_def split: if_splits)

lemma tooltip_only_while_hovering_witness:
  "let r = \<lparr>r_top = 10, r_left = 10, r_width = 40, r_height = 20\<rparr>; sc = \<lparr>scrollX = 0, scrollY = 0\<rparr> in
     \<exists>t. fold (hover_step PTop False) [Enter, Fires 0 r sc] (False, tooltip_init) = (True, t) \<and>
       length (tt_pending t) \<le> 1"
proof -
  define r sc where "r = \<lparr>r_top = 10, r_left = 10, r_width = 40, r_height = 20::rat\<rparr>"
    and "sc = \<lparr>scrollX = 0, scrollY = 0::rat\<rparr>"
  have run: "legal_run (hover_step PTop False) mouse_ok [Enter, Fires 0 r sc] (False, tooltip_init)"
    by (simp add: tooltip_init_def handler_defs)
  obtain h t where ht: "fold (hover_step PTop False) [Enter, Fires 0 r sc] (False, tooltip_init) = (h, t)"
    by (metis surj_pair)
  then have "h" by simp
  then show ?thesis using tooltip_only_while_hovering[OF run ht] ht by (auto simp: Let_def r_def sc_def)
qed

text \<open>Also: a tooltip that fits is moved into the window, with a margin of eight pixels, when the page is not
  scrolled; but a position counts from the top of the page, so once the page is scrolled by more than
  a window, a tooltip beside its trigger is moved out of sight.\<close>

theorem tooltip_in_window:
  assumes "r_width tip \<le> vw - 16" and "r_height tip \<le> vh - 16" and "adjust_position vw vh pl tip p = (y, x)"
  shows "(pl \<in> {PTop, PBottom} \<longrightarrow> y = fst p \<and> 8 \<le> x - r_width tip / 2 \<and> x + r_width tip / 2 \<le> vw - 8) \<and>
    (pl \<in> {PLeft, PRight} \<longrightarrow> x = snd p \<and> 8 \<le> y - r_height tip / 2 \<and> y + r_height tip / 2 \<le> vh - 8) \<and>
    (pl \<in> {PLeft, PRight} \<and> vh \<le> scrollY sc \<longrightarrow> y + r_height tip / 2 < scrollY sc)"
  using clamp_inside[OF assms(1), of "snd p"] clamp_inside[OF assms(2), of "fst p"] assms(3)
  by (cases pl) (auto simp: adjust_position_def Let_def)

lemma tooltip_in_window_witness:
  "let tip = \<lparr>r_top = 0, r_left = 0, r_width = 100, r_height = 20\<rparr> in
     8 \<le> snd (adjust_position 800 600 PTop tip (50, 10)) - 50"
  using tooltip_in_window[of "\<lparr>r_top = 0, r_left = 0, r_width = 100, r_height = 20\<rparr>" 800 600 PTop "(50, 10)"]
  by (auto simp: Let_def adjust_position_def)

definition sample_select :: select_props where
  "sample_select = \<lparr>sel_value = None, sel_default = None, sel_disabled = False, sel_placeholder = ''Select...'',
     sel_children = [SelOther, SelectGroup [SelectItem ''gpu'' ''GPU'' False]]\<rparr>"

text \<open>C25: the select box reports exactly the enabled items that were clicked, in order, all of them items it
  was given; it then shows the last of them, unless its value is controlled; and disabled it never
  opens and never reports anything.\<close>

theorem select_reports_choices:
  assumes "legal_run (select_step p) (select_ok p) es (select_init p)"
  defines "s \<equiv> fold (select_step p) es (select_init p)"
  shows "sel_calls s = chosen es \<and>
    set (sel_calls s) \<subseteq> item_value ` {i \<in> set (select_items (sel_children p)). \<not> item_disabled i} \<and>
    select_current p s = or_else (sel_value p) (last (select_current p (select_init p) # sel_calls s)) \<and>
    (sel_disabled p \<longrightarrow> \<not> sel_open s \<and> sel_calls s = [])"
  using select_run[OF assms(1)] disabled_select_run[OF assms(1)] unfolding s_def
  by (cases "sel_value p") (simp_all add: select_init_def select_current_def or_else_def)

lemma select_reports_choices_witness:
  "let s = fold (select_step sample_select) [TriggerClicked, ItemClicked (SelectItem ''gpu'' ''GPU'' False)]
      (select_init sample_select)
   in sel_calls s = [''gpu''] \<and> select_current sample_select s = ''gpu''"
proof -
  have "legal_run (select_step sample_select) (select_ok sample_select)
      [TriggerClicked, ItemClicked (SelectItem ''gpu'' ''GPU'' False)] (select_init sample_select)"
    by (simp add: sample_select_def select_init_def handler_defs select_items_def)
  from select_reports_choices[OF this] show ?thesis by (simp add: Let_def sample_select_def or_else_def)
qed

text \<open>Also: the tabs show all of their panels or none. When another element with a state stands before them, all
  are shown exactly while the value is that element's state; when the box itself is the first, as on
  the page of a contract, no panel is ever shown, whatever is clicked.\<close>

theorem tabs_all_or_none:
  fixes ts :: "(string \<times> bool) list"
  assumes "before = [] \<Longrightarrow> after = [] \<or> hd after \<noteq> text_or v (text_or d '''')"
  defines "s \<equiv> fold tab_clicked ts (mount_tabs v d before after)"
  shows "TabsContent_shown s panels =
    (if before \<noteq> [] \<and> hd before = tab_value s then panels else [])"
proof -
  have "tabs_inv before (mount_tabs v d before after)"
    using assms(1) by (cases before; cases after)
      (auto simp: tabs_inv_def mount_tabs_def render_tabs_def panel_active_def parentState_def)
  then have "tabs_inv before s" unfolding s_def by (rule tabs_inv_run)
  then show ?thesis by (cases before) (auto simp: tabs_inv_def TabsContent_shown_def split: bool.splits)
qed

lemma tabs_all_or_none_witness:
  "TabsContent_shown (fold tab_clicked [(''write'', True), (''read'', False)] (mount_tabs (Some ''read'') None [] []))
     [''Current Parameter Values''] = []"
  by (subst tabs_all_or_none) auto

text \<open>Also: the page is kept from scrolling only while a dialog is open, and always while one is open if no
  second one is opened over it; closing one of two lets the page scroll behind the other. The escape
  key closes every dialog that listens.\<close>

theorem scroll_lock:
  fixes listen :: "nat set"
  defines "run \<equiv> \<lambda>es. fold (dialog_step listen) es dialogs_init"
  shows "(body_hidden (run es) \<longrightarrow> dlg_open (run es) \<noteq> []) \<and>
    (legal_run (dialog_step listen) single_ok es dialogs_init \<longrightarrow>
       length (dlg_open (run es)) \<le> 1 \<and> (body_hidden (run es) \<longleftrightarrow> dlg_open (run es) \<noteq> [])) \<and>
    (dlg_open (run [OpenDialog 0, OpenDialog 1, CloseDialog 1]) = [0] \<and>
      \<not> body_hidden (run [OpenDialog 0, OpenDialog 1, CloseDialog 1])) \<and>
    dlg_open (run (es @ [DialogEscape])) = filter (\<lambda>d. d \<notin> listen) (dlg_open (run es))"
proof (intro conjI impI)
  show "body_hidden (run es) \<Longrightarrow> dlg_open (run es) \<noteq> []"
    using dialogs.inv_reachable[of listen es] by (simp add: dialogs_inv_def run_def)
  assume "legal_run (dialog_step listen) single_ok es dialogs_init"
  from single_dialog.inv_legal_init[OF this]
  show "length (dlg_open (run es)) \<le> 1" "body_hidden (run es) \<longleftrightarrow> dlg_open (run es) \<noteq> []"
    by (auto simp: run_def single_inv_def)
next
  show "dlg_open (run (es @ [DialogEscape])) = filter (\<lambda>d. d \<notin> listen) (dlg_open (run es))"
    by (auto simp: run_def dialog_escape_def open_close intro: filter_cong)
qed (simp_all add: run_def handler_defs dialogs_init_def)

lemma scroll_lock_witness: "dlg_open (fold (dialog_step {0}) [OpenDialog 0, DialogEscape] dialogs_init) = []"
  using scroll_lock[of "{0}" "[OpenDialog 0]"] by (simp add: handler_defs dialogs_init_def)

end
