(* ===== verification/Settings.thy ===== *)
theory Settings
  imports Supabase Auth "HOL-Library.AList"
begin

text \<open>
  The settings of an account, \<open>app/(dashboard)/settings\<close>: the main page with its profile, the preferences
  of notifications and of node providers and the deletion of the account, and the pages for API keys,
  the team, notifications and webhooks, of which only the form for a new key and the revocation of a
  key reach the database.
\<close>

section \<open>The main page\<close>

text \<open>\<open>loads\<close> counts the fetches of the preferences that are under way.\<close>

record settings_page =
  activeSection :: string
  displayName :: string
  timezone :: string
  isSaving :: bool
  saved :: bool
  notifPrefs :: prefs
  providerPrefs :: node_provider_prefs
  prefsLoading :: bool
  deleteOpen :: bool
  loads :: nat

definition settings_init :: settings_page where
  "settings_init = \<lparr>activeSection = ''profile'', displayName = '''', timezone = ''UTC'', isSaving = False,
     saved = False, notifPrefs = notif_pref_defaults, providerPrefs = provider_pref_defaults,
     prefsLoading = True, deleteOpen = False, loads = 0\<rparr>"

definition default_name :: "local_user \<Rightarrow> string" where
  "default_name u =
     (if name u \<noteq> '''' then name u else hd (split_on (CHR ''@'') (email u)))"

text \<open>
  The effects of a rendering. The hook \<open>useAuth\<close> builds the user anew at every rendering, so effects
  that depend on it run after each one: one sets the name, and renders again if it was another, the
  other starts a fetch of the preferences.
\<close>

definition settings_rendered :: "local_user option \<Rightarrow> settings_page \<Rightarrow> settings_page" where
  "settings_rendered user s =
     (case user of None \<Rightarrow> s | Some u \<Rightarrow>
        if displayName s = default_name u then s\<lparr>loads := loads s + 1\<rparr>
        else s\<lparr>displayName := default_name u, loads := loads s + 2\<rparr>)"

text \<open>A change of a primitive state to the value it has does not render.\<close>

definition change_settings :: "local_user option \<Rightarrow> settings_page \<Rightarrow> settings_page \<Rightarrow> settings_page" where
  "change_settings user s s' = (if s' = s then s else settings_rendered user s')"

definition settings_mount :: "local_user option \<Rightarrow> settings_page" where
  "settings_mount user = settings_rendered user settings_init"

text \<open>\<open>me\<close> is the identifier of the signed-in user, which the database API asks for itself.\<close>

definition loadPrefs :: "(jsval \<Rightarrow> string) \<Rightarrow> 'db exec \<Rightarrow> string option \<Rightarrow> 'db \<Rightarrow> (prefs \<times> node_provider_prefs) \<times> 'db" where
  "loadPrefs js_String exec me db =
     (case getNotificationPrefs exec db of (notif, db1) \<Rightarrow>
        (case getNodeProviderPrefs js_String exec me db1 of (prov, db2) \<Rightarrow> ((notif, prov), db2)))"

definition pref_keys :: "string list" where
  "pref_keys = [''jobCompleted'', ''jobFailed'', ''slaBreached'', ''nodeOffline'', ''slashEvent'',
     ''weeklyReport'', ''priceAlerts'', ''newJobOffer'']"

definition pref_of :: "prefs \<Rightarrow> string \<Rightarrow> bool" where
  "pref_of p k = (map_of p k = Some True)"

text \<open>\<open>Promise.all\<close>: all are carried out, and the first error is thrown.\<close>

fun promise_all :: "'db action list \<Rightarrow> 'db action" where
  "promise_all [] db = (Inr Undefined, db)"
| "promise_all (a # as) db =
     (case a db of (r, db1) \<Rightarrow> (case promise_all as db1 of (r', db2) \<Rightarrow>
        (case r of Inl e \<Rightarrow> Inl e | Inr _ \<Rightarrow> r', db2)))"

definition and_then :: "'db action \<Rightarrow> 'db action \<Rightarrow> 'db action" where
  "and_then a b db = (case a db of (Inl e, db1) \<Rightarrow> (Inl e, db1) | (Inr _, db1) \<Rightarrow> b db1)"

definition save_writes :: "'db exec \<Rightarrow> string option \<Rightarrow> settings_page \<Rightarrow> 'db action" where
  "save_writes exec me s =
     and_then (profile_update exec [(''display_name'', Str (displayName s))])
       (and_then (promise_all (map (\<lambda>k. setNotificationPref exec me k (pref_of (notifPrefs s) k)) pref_keys))
          (saveNodeProviderPrefs exec me (providerPrefs s)))"

definition settings_handleSave ::
  "'db exec \<Rightarrow> string option \<Rightarrow> local_user option \<Rightarrow> settings_page \<Rightarrow> 'db \<Rightarrow> settings_page \<times> 'db"
where
  "settings_handleSave exec me user s db =
     (let s1 = change_settings user s (s\<lparr>isSaving := True\<rparr>) in
      case (if user = None then (Inr Undefined, db) else save_writes exec me s db) of
        (Inl e, db') \<Rightarrow> (change_settings user s1 (s1\<lparr>isSaving := False\<rparr>), db')
      | (Inr _, db') \<Rightarrow> (change_settings user s1 (s1\<lparr>saved := True, isSaving := False\<rparr>), db'))"

datatype settings_event =
    SectionChosen string
  | NameTyped string
  | TimezoneChosen string
  | UptimeTyped string
  | PriceTyped string
  | RegionChosen string
  | AutoToggled
  | PrefToggled string
  | DeleteShown bool
  | PrefsLoaded
  | PrefsFailed
  | SettingsSaved
  | SavedExpired

definition change_provider :: "(node_provider_prefs \<Rightarrow> node_provider_prefs) \<Rightarrow> settings_page \<Rightarrow> settings_page" where
  [handler_defs]: "change_provider f s = s\<lparr>providerPrefs := f (providerPrefs s)\<rparr>"

fun settings_step ::
  "(jsval \<Rightarrow> string) \<Rightarrow> 'db exec \<Rightarrow> string option \<Rightarrow> local_user option \<Rightarrow> settings_event \<Rightarrow>
     settings_page \<times> 'db \<Rightarrow> settings_page \<times> 'db"
where
  "settings_step js exec me user (SectionChosen i) (s, db) = (change_settings user s (s\<lparr>activeSection := i\<rparr>), db)"
| "settings_step js exec me user (NameTyped n) (s, db) = (change_settings user s (s\<lparr>displayName := n\<rparr>), db)"
| "settings_step js exec me user (TimezoneChosen z) (s, db) = (change_settings user s (s\<lparr>timezone := z\<rparr>), db)"
| "settings_step js exec me user (UptimeTyped t) (s, db) =
     (change_settings user s (change_provider (\<lambda>p. p\<lparr>uptimeSLA := t\<rparr>) s), db)"
| "settings_step js exec me user (PriceTyped t) (s, db) =
     (change_settings user s (change_provider (\<lambda>p. p\<lparr>minJobPrice := t\<rparr>) s), db)"
| "settings_step js exec me user (RegionChosen r) (s, db) =
     (change_settings user s (change_provider (\<lambda>p. p\<lparr>pref_region := Str r\<rparr>) s), db)"
| "settings_step js exec me user AutoToggled (s, db) =
     (change_settings user s (change_provider (\<lambda>p. p\<lparr>autoAccept := Bool (\<not> val_truthy (autoAccept p))\<rparr>) s), db)"
| "settings_step js exec me user (PrefToggled k) (s, db) =
     (settings_rendered user (s\<lparr>notifPrefs := set_pref k (\<not> pref_of (notifPrefs s) k) (notifPrefs s)\<rparr>), db)"
| "settings_step js exec me user (DeleteShown b) (s, db) = (change_settings user s (s\<lparr>deleteOpen := b\<rparr>), db)"
| "settings_step js exec me user PrefsLoaded (s, db) =
     (case loadPrefs js exec me db of ((notif, prov), db') \<Rightarrow>
        (settings_rendered user
           (s\<lparr>loads := loads s - 1, notifPrefs := notif, providerPrefs := prov, prefsLoading := False\<rparr>), db'))"
| "settings_step js exec me user PrefsFailed (s, db) =
     (let s1 = s\<lparr>loads := loads s - 1\<rparr> in (change_settings user s1 (s1\<lparr>prefsLoading := False\<rparr>), db))"
| "settings_step js exec me user SettingsSaved (s, db) = settings_handleSave exec me user s db"
| "settings_step js exec me user SavedExpired (s, db) = (change_settings user s (s\<lparr>saved := False\<rparr>), db)"

text \<open>A fetch answers only if one is under way.\<close>

fun settings_ok :: "settings_event \<Rightarrow> settings_page \<times> 'db \<Rightarrow> bool" where
  "settings_ok PrefsLoaded (s, db) \<longleftrightarrow> 0 < loads s"
| "settings_ok PrefsFailed (s, db) \<longleftrightarrow> 0 < loads s"
| "settings_ok _ _ \<longleftrightarrow> True"

section \<open>Deleting the account\<close>

record delete_modal =
  confirmText :: string
  isDeleting :: bool
  del_done :: bool

datatype delete_effect = DeleteRequest | SignOutUser | HomeAfter int

text \<open>\<open>answer\<close> is the status the request is answered with, if it is answered; the code does not look at it.\<close>

definition handleDelete ::
  "local_user option \<Rightarrow> int option \<Rightarrow> bool \<Rightarrow> delete_modal \<Rightarrow> delete_modal \<times> delete_effect list"
where
  "handleDelete user answer signout_ok s =
     (if Some (confirmText s) \<noteq> map_option email user then (s, [])
      else let s1 = s\<lparr>isDeleting := True\<rparr> in
        (case answer of
           None \<Rightarrow> (s1\<lparr>isDeleting := False\<rparr>, [DeleteRequest])
         | Some status \<Rightarrow>
             if signout_ok then (s1\<lparr>del_done := True\<rparr>, [DeleteRequest, SignOutUser, HomeAfter 1500])
             else (s1\<lparr>isDeleting := False\<rparr>, [DeleteRequest, SignOutUser])))"

definition delete_disabled :: "local_user option \<Rightarrow> delete_modal \<Rightarrow> bool" where
  "delete_disabled user s \<longleftrightarrow> Some (confirmText s) \<noteq> map_option email user \<or> isDeleting s"

section \<open>API keys\<close>

text \<open>The choice of permissions and of events: an entry is taken out of the list or put at its end.\<close>

definition toggle_entry :: "string \<Rightarrow> string list \<Rightarrow> string list" where
  "toggle_entry x xs = (if x \<in> set xs then filter (\<lambda>y. y \<noteq> x) xs else xs @ [x])"

record api_key =
  key_id :: string
  key_name :: string
  key_secret :: string
  key_createdAt :: int
  key_lastUsed :: "int option"
  key_permissions :: "string list"

record keys_page =
  apiKeys :: "api_key list"
  showNewKey :: bool
  newKeyName :: string
  revealedKeys :: "string set"
  selectedPermissions :: "string list"

definition allPermissions :: "string list" where
  "allPermissions = [''jobs:read'', ''jobs:write'', ''nodes:read'', ''nodes:write'']"

definition generateMockApiKeys :: "int \<Rightarrow> api_key list" where
  "generateMockApiKeys now =
     [\<lparr>key_id = ''key_001'', key_name = ''Production API Key'', key_secret = ''tentrist_prod_a1b2c3d4e5f6g7h8i9j0'',
       key_createdAt = now - 90 * 24 * 60 * 60 * 1000, key_lastUsed = Some (now - 2 * 60 * 60 * 1000),
       key_permissions = [''jobs:read'', ''jobs:write'', ''nodes:read'']\<rparr>,
      \<lparr>key_id = ''key_002'', key_name = ''Development Key'', key_secret = ''tentrist_dev_x1y2z3a4b5c6d7e8f9g0'',
       key_createdAt = now - 30 * 24 * 60 * 60 * 1000, key_lastUsed = None,
       key_permissions = [''jobs:read'', ''nodes:read'']\<rparr>]"

definition keys_init :: "int \<Rightarrow> keys_page" where
  "keys_init now = \<lparr>apiKeys = generateMockApiKeys now, showNewKey = False, newKeyName = '''', revealedKeys = {},
     selectedPermissions = [''jobs:read'']\<rparr>"

definition togglePermission :: "string \<Rightarrow> keys_page \<Rightarrow> keys_page" where
  [handler_defs]: "togglePermission p s = s\<lparr>selectedPermissions := toggle_entry p (selectedPermissions s)\<rparr>"

definition toggleReveal :: "string \<Rightarrow> keys_page \<Rightarrow> keys_page" where
  [handler_defs]: "toggleReveal k s =
     s\<lparr>revealedKeys := (if k \<in> revealedKeys s then revealedKeys s - {k} else insert k (revealedKeys s))\<rparr>"

definition deleteKey :: "string \<Rightarrow> keys_page \<Rightarrow> keys_page" where
  [handler_defs]: "deleteKey k s = s\<lparr>apiKeys := filter (\<lambda>a. key_id a \<noteq> k) (apiKeys s)\<rparr>"

text \<open>\<open>rid\<close> and \<open>rsecret\<close> are the random parts of the identifier and of the key.\<close>

definition createKey :: "int \<Rightarrow> string \<Rightarrow> string \<Rightarrow> keys_page \<Rightarrow> keys_page" where
  [handler_defs]: "createKey now rid rsecret s =
     (if str_trim (newKeyName s) = '''' then s
      else s\<lparr>apiKeys := \<lparr>key_id = ''key_'' @ rid, key_name = newKeyName s, key_secret = ''tentrist_new_'' @ rsecret,
               key_createdAt = now, key_lastUsed = None, key_permissions = selectedPermissions s\<rparr> # apiKeys s,
             newKeyName := '''', selectedPermissions := [''jobs:read''], showNewKey := False\<rparr>)"

definition shown_key :: "keys_page \<Rightarrow> api_key \<Rightarrow> string" where
  "shown_key s a = (if key_id a \<in> revealedKeys s then key_secret a else slice_first 20 (key_secret a) @ ''...'')"

definition key_relative_time :: "int \<Rightarrow> int option \<Rightarrow> string" where
  "key_relative_time now t =
     (case t of None \<Rightarrow> ''Never'' | Some ts \<Rightarrow>
        if ts = 0 then ''Never''
        else let diff = now - ts in
          if diff < 60000 then ''Just now''
          else if diff < 3600000 then show_int (diff div 60000) @ ''m ago''
          else if diff < 86400000 then show_int (diff div 3600000) @ ''h ago''
          else show_int (diff div 86400000) @ ''d ago'')"

datatype keys_event =
    PermissionClicked string
  | RevealClicked string
  | DeleteClicked string
  | NewKeyShown bool
  | NewKeyName string
  | CreateClicked int string string

fun keys_step :: "keys_event \<Rightarrow> keys_page \<Rightarrow> keys_page" where
  "keys_step (PermissionClicked p) s = togglePermission p s"
| "keys_step (RevealClicked k) s = toggleReveal k s"
| "keys_step (DeleteClicked k) s = deleteKey k s"
| "keys_step (NewKeyShown b) s = s\<lparr>showNewKey := b\<rparr>"
| "keys_step (NewKeyName n) s = s\<lparr>newKeyName := n\<rparr>"
| "keys_step (CreateClicked now rid rsecret) s = createKey now rid rsecret s"

text \<open>Permissions are those offered, and random identifiers do not repeat.\<close>

fun keys_ok :: "keys_event \<Rightarrow> keys_page \<Rightarrow> bool" where
  "keys_ok (PermissionClicked p) s \<longleftrightarrow> p \<in> set allPermissions"
| "keys_ok (CreateClicked now rid rsecret) s \<longleftrightarrow> ''key_'' @ rid \<notin> key_id ` set (apiKeys s)"
| "keys_ok _ s \<longleftrightarrow> True"

text \<open>The form for a new key, which is stored in the database.\<close>

record new_key =
  nk_name :: string
  nk_selected :: "string list"
  isCreating :: bool
  createdKey :: "string option"

definition toggle_new :: "string \<Rightarrow> new_key \<Rightarrow> new_key" where
  [handler_defs]: "toggle_new p s = s\<lparr>nk_selected := toggle_entry p (nk_selected s)\<rparr>"

definition handleCreateKey ::
  "(jsval \<Rightarrow> string) \<Rightarrow> 'db exec \<Rightarrow> local_user option \<Rightarrow> new_key \<Rightarrow> 'db \<Rightarrow> new_key \<times> 'db"
where
  "handleCreateKey js exec user s db =
     (if str_trim (nk_name s) = '''' \<or> user = None then (s, db)
      else case apiKeys_create exec (Some (nk_name s)) db of
        (Inl e, db') \<Rightarrow> (s\<lparr>isCreating := False\<rparr>, db')
      | (Inr result, db') \<Rightarrow>
          (if nullish result then s\<lparr>isCreating := False\<rparr>
           else s\<lparr>isCreating := True, createdKey := Some
              (if nullish (field ''key'' result) then js (field ''key_prefix'' result) @ ''_...''
               else js (field ''key'' result))\<rparr>, db'))"

text \<open>The page of a key: revoking it leads back to the list, or stays when that fails.\<close>

definition handleRevoke :: "'db exec \<Rightarrow> string \<Rightarrow> 'db \<Rightarrow> (string option \<times> bool) \<times> 'db" where
  "handleRevoke exec k db =
     (case apiKeys_revoke exec k db of
        (Inl e, db') \<Rightarrow> ((None, False), db')
      | (Inr _, db') \<Rightarrow> ((Some ''/settings/api-keys'', True), db'))"

section \<open>The team\<close>

record team_member =
  tm_id :: string
  tm_name :: string
  tm_email :: string
  tm_role :: string
  tm_status :: string
  tm_joinedAt :: int

record team_page =
  team :: "team_member list"
  showInvite :: bool
  inviteEmail :: string
  inviteRole :: string

definition generateMockTeam :: "int \<Rightarrow> team_member list" where
  "generateMockTeam now =
     [\<lparr>tm_id = ''user_001'', tm_name = ''Alex Chen'', tm_email = ''alex@nexus-ai.com'', tm_role = ''admin'', tm_status = ''active'',
       tm_joinedAt = now - 180 * 24 * 60 * 60 * 1000\<rparr>,
      \<lparr>tm_id = ''user_002'', tm_name = ''Sarah Miller'', tm_email = ''sarah@nexus-ai.com'', tm_role = ''admin'', tm_status = ''active'',
       tm_joinedAt = now - 120 * 24 * 60 * 60 * 1000\<rparr>,
      \<lparr>tm_id = ''user_003'', tm_name = ''James Wilson'', tm_email = ''james@nexus-ai.com'', tm_role = ''member'', tm_status = ''active'',
       tm_joinedAt = now - 60 * 24 * 60 * 60 * 1000\<rparr>,
      \<lparr>tm_id = ''user_004'', tm_name = ''Emily Davis'', tm_email = ''emily@nexus-ai.com'', tm_role = ''billing'', tm_status = ''active'',
       tm_joinedAt = now - 30 * 24 * 60 * 60 * 1000\<rparr>,
      \<lparr>tm_id = ''user_005'', tm_name = ''Michael Brown'', tm_email = ''michael@nexus-ai.com'', tm_role = ''member'', tm_status = ''pending'',
       tm_joinedAt = now - 5 * 24 * 60 * 60 * 1000\<rparr>]"

definition team_init :: "int \<Rightarrow> team_page" where
  "team_init now = \<lparr>team = generateMockTeam now, showInvite = False, inviteEmail = '''', inviteRole = ''member''\<rparr>"

definition removeMember :: "string \<Rightarrow> team_page \<Rightarrow> team_page" where
  [handler_defs]: "removeMember k s = s\<lparr>team := filter (\<lambda>m. tm_id m \<noteq> k) (team s)\<rparr>"

definition inviteMember :: "int \<Rightarrow> string \<Rightarrow> team_page \<Rightarrow> team_page" where
  [handler_defs]: "inviteMember now rid s =
     (if str_trim (inviteEmail s) = '''' then s
      else s\<lparr>team := team s @ [\<lparr>tm_id = ''user_'' @ rid, tm_name = hd (split_on (CHR ''@'') (inviteEmail s)),
               tm_email = inviteEmail s, tm_role = inviteRole s, tm_status = ''pending'', tm_joinedAt = now\<rparr>],
             inviteEmail := '''', inviteRole := ''member'', showInvite := False\<rparr>)"

definition activeMembers :: "team_page \<Rightarrow> team_member list" where
  [view_defs]: "activeMembers s = filter (\<lambda>m. tm_status m = ''active'') (team s)"

definition pendingMembers :: "team_page \<Rightarrow> team_member list" where
  [view_defs]: "pendingMembers s = filter (\<lambda>m. tm_status m = ''pending'') (team s)"

datatype team_event = MemberRemoved string | InviteShown bool | InviteEmail string | InviteRole string | Invited int string

fun team_step :: "team_event \<Rightarrow> team_page \<Rightarrow> team_page" where
  "team_step (MemberRemoved k) s = removeMember k s"
| "team_step (InviteShown b) s = s\<lparr>showInvite := b\<rparr>"
| "team_step (InviteEmail e) s = s\<lparr>inviteEmail := e\<rparr>"
| "team_step (InviteRole r) s = s\<lparr>inviteRole := r\<rparr>"
| "team_step (Invited now rid) s = inviteMember now rid s"

section \<open>Notifications and webhooks\<close>

text \<open>The page of the notifications keeps its own settings; saving waits a second and stores nothing.\<close>

record notif_page =
  settings :: prefs
  np_saving :: bool
  np_saved :: bool

definition notif_page_init :: notif_page where
  "notif_page_init = \<lparr>settings = [(''email'', True), (''browser'', True), (''jobCompleted'', True), (''jobFailed'', True),
     (''slaBreached'', True), (''nodeOffline'', True), (''slashEvent'', True), (''weeklyReport'', False)],
     np_saving = False, np_saved = False\<rparr>"

definition toggleSetting :: "string \<Rightarrow> notif_page \<Rightarrow> notif_page" where
  [handler_defs]: "toggleSetting k s =
     s\<lparr>settings := AList.update k (\<not> pref_of (settings s) k) (settings s), np_saved := False\<rparr>"

datatype notif_event = SettingToggled string | NotifSave | NotifSaved | NotifSavedExpired

fun notif_step :: "notif_event \<Rightarrow> notif_page \<Rightarrow> notif_page" where
  "notif_step (SettingToggled k) s = toggleSetting k s"
| "notif_step NotifSave s = s\<lparr>np_saving := True\<rparr>"
| "notif_step NotifSaved s = s\<lparr>np_saving := False, np_saved := True\<rparr>"
| "notif_step NotifSavedExpired s = s\<lparr>np_saved := False\<rparr>"

record webhook_form =
  wh_url :: string
  selectedEvents :: "string list"
  wh_creating :: bool

definition toggleEvent :: "string \<Rightarrow> webhook_form \<Rightarrow> webhook_form" where
  [handler_defs]: "toggleEvent e s = s\<lparr>selectedEvents := toggle_entry e (selectedEvents s)\<rparr>"

text \<open>Creating a webhook waits and then leads to the list; the endpoint is sent nowhere.\<close>

definition webhook_handleCreate :: "webhook_form \<Rightarrow> webhook_form \<times> string option" where
  "webhook_handleCreate s =
     (if str_trim (wh_url s) = '''' \<or> selectedEvents s = [] then (s, None)
      else (s\<lparr>wh_creating := True\<rparr>, Some ''/settings/webhooks''))"

record webhook =
  hook_id :: string
  hook_url :: string
  hook_events :: "string list"
  hook_active :: bool
  hook_last :: "int option"
  hook_rate :: jsnum

definition mockWebhooks :: "int \<Rightarrow> webhook list" where
  "mockWebhooks now =
     [\<lparr>hook_id = ''wh_001'', hook_url = ''https://api.myapp.com/tentrist/events'',
       hook_events = [''job.completed'', ''job.failed'', ''sla.breached''], hook_active = True,
       hook_last = Some (now - 3600000), hook_rate = Fin 98.5\<rparr>,
      \<lparr>hook_id = ''wh_002'', hook_url = ''https://hooks.myapp.com/tentrist'', hook_events = [''job.completed''],
       hook_active = False, hook_last = Some (now - 86400000 * 3), hook_rate = Fin 72.1\<rparr>]"

definition deleteWebhook :: "string \<Rightarrow> webhook list \<Rightarrow> webhook list" where
  [handler_defs]: "deleteWebhook k hooks = filter (\<lambda>w. hook_id w \<noteq> k) hooks"

definition EVENT_LABELS :: "(string \<times> string) list" where
  "EVENT_LABELS = [(''job.completed'', ''Job Completed''), (''job.failed'', ''Job Failed''), (''job.started'', ''Job Started''),
     (''sla.breached'', ''SLA Breached''), (''credit.issued'', ''Credit Issued''), (''node.online'', ''Node Online''),
     (''node.slashed'', ''Node Slashed'')]"

definition hook_relative :: "int \<Rightarrow> int option \<Rightarrow> string" where
  "hook_relative now t =
     (case t of None \<Rightarrow> ''Never'' | Some ts \<Rightarrow>
        if ts = 0 then ''Never''
        else let diff = now - ts in
          if diff < 3600000 then show_int (diff div 60000) @ ''m ago''
          else if diff < 86400000 then show_int (diff div 3600000) @ ''h ago''
          else show_int (diff div 86400000) @ ''d ago'')"

text \<open>A row of the list: the address, the state, the names of the events, the last delivery, the rate and
  whether the rate is good.\<close>

definition webhook_row :: "int \<Rightarrow> webhook \<Rightarrow> string \<times> string \<times> string list \<times> string \<times> string \<times> bool" where
  "webhook_row now w =
     (hook_url w, (if hook_active w then ''Active'' else ''Disabled''),
      map (\<lambda>e. or_else (map_of EVENT_LABELS e) e) (hook_events w),
      hook_relative now (hook_last w), toFixed 1 (hook_rate w) @ ''% delivery'', js_le (Fin 90) (hook_rate w))"

section \<open>Lemmas on the main page\<close>

lemma rendered_name: "displayName (settings_rendered (Some u) s) = default_name u"
  by (simp add: settings_rendered_def)

lemma rendered_loads: "loads s < loads (settings_rendered (Some u) s)"
  by (simp add: settings_rendered_def)

lemma rendered_fields [simp]:
  "notifPrefs (settings_rendered user s) = notifPrefs s" "providerPrefs (settings_rendered user s) = providerPrefs s"
  "saved (settings_rendered user s) = saved s" "isSaving (settings_rendered user s) = isSaving s"
  by (simp_all add: settings_rendered_def split: option.splits)

text \<open>Once rendered for a user, the page shows the name of the account and a fetch is under way.\<close>

definition settings_inv :: "local_user \<Rightarrow> settings_page \<times> 'db \<Rightarrow> bool" where
  "settings_inv u = (\<lambda>(s, db). displayName s = default_name u \<and> 0 < loads s)"

lemma rendered_inv: "settings_inv u (settings_rendered (Some u) s, db)"
  using rendered_loads[of s u] by (simp add: settings_inv_def rendered_name)

lemma change_inv: "settings_inv u (s, db) \<Longrightarrow> settings_inv u (change_settings (Some u) s s', db')"
  using rendered_loads[of s' u] by (auto simp: settings_inv_def change_settings_def rendered_name)

lemma save_inv:
  "settings_inv u (s, db) \<Longrightarrow> settings_inv u (settings_handleSave exec me (Some u) s db)"
  using change_inv[OF change_inv] by (auto simp: settings_handleSave_def Let_def split: prod.splits sum.splits)

fun no_failure :: "settings_event \<Rightarrow> settings_page \<times> 'db \<Rightarrow> bool" where
  "no_failure PrefsFailed s = False"
| "no_failure e s = settings_ok e s"

interpretation settings: guarded_machine "settings_step js exec me (Some u)" no_failure "settings_inv u"
  "(settings_mount (Some u), db0)"
proof unfold_locales
  show "settings_inv u (settings_mount (Some u), db0)"
    by (simp add: settings_mount_def rendered_inv)
  fix p :: "settings_page \<times> 'a" and e
  assume inv: "settings_inv u p" and ok: "no_failure e p"
  then show "settings_inv u (settings_step js exec me (Some u) e p)"
    by (cases p; cases e) (auto simp: change_inv rendered_inv save_inv split: prod.splits)
qed

section \<open>Lemmas on saving and loading\<close>

text \<open>
  What the database is documented to do with the preferences of the signed-in user: \<open>notif\<close> are the
  stored rows of the notification preferences, of which an upsert replaces or adds the one of its key,
  and which a select answers; other tables do not touch them. Updates of the profile and upserts of the
  provider's preferences may fail.
\<close>

definition prefs_store :: "'db exec \<Rightarrow> string \<Rightarrow> ('db \<Rightarrow> (string \<times> string) list) \<Rightarrow> bool" where
  "prefs_store exec u notif \<longleftrightarrow>
     (\<forall>q db. q_table q \<noteq> ''user_notification_prefs'' \<longrightarrow> notif (snd (exec q db)) = notif db) \<and>
     (\<forall>k v db. r_error (fst (exec (from_table UserClient ''user_notification_prefs''
          (QUpsert [(''user_id'', Str u), (''key'', Str k), (''value'', Str v)] ''user_id,key'')) db)) = None \<and>
        notif (snd (exec (from_table UserClient ''user_notification_prefs''
          (QUpsert [(''user_id'', Str u), (''key'', Str k), (''value'', Str v)] ''user_id,key'')) db)) =
          AList.update k v (notif db)) \<and>
     (\<forall>db. fst (exec (from_table UserClient ''user_notification_prefs'' (QSelect ''key, value'')) db) =
        \<lparr>r_data = Arr (pref_rows (notif db)), r_error = None\<rparr>) \<and>
     (\<forall>db. distinct (map fst (notif db)))"

lemma map_of_rev_distinct: "distinct (map fst xs) \<Longrightarrow> map_of (rev xs) = map_of xs"
  by (rule map_of_inject_set[THEN iffD2]) (simp_all add: rev_map[symmetric])

lemma throwing_void_eq:
  "throwing_void exec q db =
     (case r_error (fst (exec q db)) of Some e \<Rightarrow> Inl e | None \<Rightarrow> Inr Undefined, snd (exec q db))"
  by (simp add: throwing_void_def split: prod.splits)

lemma save_pref:
  "prefs_store exec u notif \<Longrightarrow> \<exists>db'. setNotificationPref exec (Some u) k b db = (Inr Undefined, db') \<and>
    notif db' = AList.update k (bool_str b) (notif db)"
  by (simp add: setNotificationPref_def throwing_void_eq prefs_store_def)

lemma save_all_prefs:
  assumes "prefs_store exec u notif"
  shows "\<exists>db'. promise_all (map (\<lambda>k. setNotificationPref exec (Some u) k (f k)) ks) db = (Inr Undefined, db') \<and>
    map_of (notif db') = (\<lambda>k. if k \<in> set ks then Some (bool_str (f k)) else map_of (notif db) k)"
proof (induction ks arbitrary: db)
  case (Cons k ks)
  obtain db1 where 1: "setNotificationPref exec (Some u) k (f k) db = (Inr Undefined, db1)"
    "notif db1 = AList.update k (bool_str (f k)) (notif db)"
    using save_pref[OF assms] by blast
  obtain db2 where "promise_all (map (\<lambda>k. setNotificationPref exec (Some u) k (f k)) ks) db1 = (Inr Undefined, db2)"
    "map_of (notif db2) = (\<lambda>k. if k \<in> set ks then Some (bool_str (f k)) else map_of (notif db1) k)"
    using Cons.IH by blast
  then show ?case using 1 by (auto simp: update_conv' intro!: ext)
qed (auto intro!: ext)

lemma other_queries:
  "prefs_store exec u notif \<Longrightarrow> q_table q \<noteq> ''user_notification_prefs'' \<Longrightarrow> notif (snd (exec q db)) = notif db"
  by (simp add: prefs_store_def)

lemma other_table:
  assumes "prefs_store exec u notif"
  shows "notif (snd (profile_update exec r db)) = notif db"
    and "notif (snd (saveNodeProviderPrefs exec me p db)) = notif db"
proof -
  note other = other_queries[OF assms]
  show "notif (snd (profile_update exec r db)) = notif db"
    by (simp add: profile_update_def throwing_state other query_builders)
  show "notif (snd (saveNodeProviderPrefs exec me p db)) = notif db"
    by (cases me) (simp_all add: saveNodeProviderPrefs_def throwing_void_eq other query_builders)
qed

lemma saved_prefs:
  assumes "prefs_store exec u notif" and "save_writes exec (Some u) s db = (r, db')"
    and "fst (profile_update exec [(''display_name'', Str (displayName s))] db) = Inr v"
  shows "\<forall>k \<in> set pref_keys. map_of (notif db') k = Some (bool_str (pref_of (notifPrefs s) k))"
proof -
  obtain db1 where 1: "profile_update exec [(''display_name'', Str (displayName s))] db = (Inr v, db1)"
    using assms(3) by (metis prod.collapse)
  obtain db2 where 2: "promise_all (map (\<lambda>k. setNotificationPref exec (Some u) k (pref_of (notifPrefs s) k)) pref_keys) db1 =
      (Inr Undefined, db2)"
    "map_of (notif db2) =
      (\<lambda>k. if k \<in> set pref_keys then Some (bool_str (pref_of (notifPrefs s) k)) else map_of (notif db1) k)"
    using save_all_prefs[OF assms(1)] by blast
  have "db' = snd (saveNodeProviderPrefs exec (Some u) (providerPrefs s) db2)"
    using assms(2) 1 2(1) by (simp add: save_writes_def and_then_def)
  then have "notif db' = notif db2" using other_table(2)[OF assms(1)] by simp
  then show ?thesis using 2(2) by simp
qed

lemma loaded_prefs:
  assumes "prefs_store exec u notif" and "k \<in> fst ` set notif_pref_defaults"
  shows "map_of (fst (fst (loadPrefs js exec me db))) k =
    (case map_of (notif db) k of Some v \<Rightarrow> Some (v = ''true'') | None \<Rightarrow> map_of notif_pref_defaults k)"
proof -
  have "fst (exec (from_table UserClient ''user_notification_prefs'' (QSelect ''key, value'')) db) =
      \<lparr>r_data = Arr (pref_rows (notif db)), r_error = None\<rparr>" "distinct (map fst (notif db))"
    using assms(1) by (simp_all add: prefs_store_def)
  then show ?thesis
    using fold_pref_rows[OF assms(2), of "notif db"]
    by (auto simp: loadPrefs_def getNotificationPrefs_def map_of_rev_distinct split: prod.splits)
qed

section \<open>Lemmas on keys and the team\<close>

interpretation keys: keyed_collection key_id apiKeys deleteKey
  by unfold_locales (simp add: handler_defs)

interpretation members: keyed_collection tm_id team removeMember
  by unfold_locales (simp add: handler_defs)

interpretation hooks: keyed_collection hook_id "\<lambda>h. h" deleteWebhook
  by unfold_locales (simp add: handler_defs)

lemma toggle_entry_mem: "y \<in> set (toggle_entry x xs) \<longleftrightarrow> (y \<in> set xs) \<noteq> (y = x)"
  by (auto simp: toggle_entry_def)

lemma toggle_entry_distinct: "distinct xs \<Longrightarrow> distinct (toggle_entry x xs)"
  by (simp add: toggle_entry_def)

definition permissions_ok :: "string list \<Rightarrow> bool" where
  "permissions_ok ps \<longleftrightarrow> distinct ps \<and> set ps \<subseteq> set allPermissions"

lemma permissions_toggle: "permissions_ok ps \<Longrightarrow> p \<in> set allPermissions \<Longrightarrow> permissions_ok (toggle_entry p ps)"
  by (auto simp: permissions_ok_def toggle_entry_distinct toggle_entry_mem)

definition keys_inv :: "keys_page \<Rightarrow> bool" where
  "keys_inv s \<longleftrightarrow> distinct (map key_id (apiKeys s)) \<and> permissions_ok (selectedPermissions s) \<and>
     (\<forall>a \<in> set (apiKeys s). permissions_ok (key_permissions a))"

interpretation keys_machine: guarded_machine keys_step keys_ok keys_inv "keys_init now"
proof unfold_locales
  show "keys_inv (keys_init now)"
    by (simp add: keys_inv_def keys_init_def generateMockApiKeys_def permissions_ok_def allPermissions_def)
  have read: "permissions_ok [''jobs:read'']" by (simp add: permissions_ok_def allPermissions_def)
  fix s e
  assume inv: "keys_inv s" and ok: "keys_ok e s"
  show "keys_inv (keys_step e s)"
  proof (cases e)
    case (PermissionClicked p)
    then show ?thesis using inv ok by (auto simp: keys_inv_def togglePermission_def permissions_toggle)
  next
    case (DeleteClicked k)
    then show ?thesis
      using inv keys.distinct_remove[of s k] by (simp add: keys_inv_def) (simp add: deleteKey_def)
  qed (use inv ok in \<open>auto simp: keys_inv_def toggleReveal_def createKey_def read\<close>)
qed

definition team_inv :: "team_member list \<Rightarrow> team_page \<Rightarrow> bool" where
  "team_inv members s \<longleftrightarrow> (\<forall>m \<in> set (team s). tm_status m = ''pending'' \<or> m \<in> set members \<and> tm_status m = ''active'')"

interpretation team_machine: state_machine team_step "team_inv (generateMockTeam now)" "team_init now"
proof unfold_locales
  fix s e
  assume "team_inv (generateMockTeam now) s"
  then show "team_inv (generateMockTeam now) (team_step e s)"
    by (cases e) (auto simp: team_inv_def handler_defs)
qed (auto simp: team_inv_def team_init_def generateMockTeam_def)

section \<open>Properties\<close>

text \<open>C23: whatever the user does on the settings page, the name shown and saved is the one of the account, a
  fetch of the preferences is always under way, and its answer replaces what was edited meanwhile by
  what is stored and starts the next one.\<close>

theorem settings_edits_lost:
  assumes "legal_run (settings_step js exec me (Some u)) no_failure es (settings_mount (Some u), db)"
    and "fold (settings_step js exec me (Some u)) es (settings_mount (Some u), db) = (s, db')"
    and "settings_step js exec me (Some u) PrefsLoaded (s, db') = (t, db'')"
  shows "displayName s = default_name u \<and> 0 < loads s \<and>
    (\<exists>rest. save_writes exec me s = and_then (profile_update exec [(''display_name'', Str (default_name u))]) rest) \<and>
    (notifPrefs t, providerPrefs t) = fst (loadPrefs js exec me db') \<and> 0 < loads t"
proof -
  have inv: "settings_inv u (s, db')" using settings.inv_legal_init[OF assms(1)] assms(2) by simp
  then have name: "displayName s = default_name u" and "0 < loads s" by (simp_all add: settings_inv_def)
  moreover from name have
    "\<exists>rest. save_writes exec me s = and_then (profile_update exec [(''display_name'', Str (default_name u))]) rest"
    by (auto simp: save_writes_def)
  moreover have "0 < loads t"
    using assms(3) rendered_loads[of _ u] by (auto simp: settings_rendered_def split: prod.splits if_splits)
  moreover have "(notifPrefs t, providerPrefs t) = fst (loadPrefs js exec me db')"
    using assms(3) by (auto split: prod.splits)
  ultimately show ?thesis by simp
qed

definition sample_account :: local_user where
  "sample_account = mapSbUser \<lparr>sb_id = ''u'', sb_email = Some ''ann@x.org'', user_metadata =
     \<lparr>display_name = None, full_name = None, avatar_url = None, meta_role = None, meta_user_type = None\<rparr>\<rparr>"

lemma settings_edits_lost_witness:
  "displayName (fst (fold (settings_step (\<lambda>_. '''') (\<lambda>q db. (\<lparr>r_data = Null, r_error = None\<rparr>, db)) None (Some sample_account))
      [NameTyped ''Annabel''] (settings_mount (Some sample_account), ()))) = default_name sample_account"
proof -
  let ?step = "settings_step (\<lambda>_. '''') (\<lambda>q db. (\<lparr>r_data = Null, r_error = None\<rparr>, db)) None (Some sample_account)"
  have run: "legal_run ?step no_failure [NameTyped ''Annabel''] (settings_mount (Some sample_account), ())" by simp
  obtain s db where s: "fold ?step [NameTyped ''Annabel''] (settings_mount (Some sample_account), ()) = (s, db)"
    by (metis surj_pair)
  obtain t db' where t: "?step PrefsLoaded (s, db) = (t, db')" by (metis surj_pair)
  from settings_edits_lost[OF run s t] s show ?thesis by simp
qed

text \<open>Also: notification preferences that were saved are the ones loaded afterwards, given that the profile could
  be stored. A user who saves before the first answer has come loses all stored preferences to the
  defaults.\<close>

theorem settings_saved_and_loaded:
  fixes js :: "jsval \<Rightarrow> string"
  assumes "prefs_store exec me notif" and "settings_handleSave exec (Some me) (Some u) s db = (s', db')"
    and "fst (profile_update exec [(''display_name'', Str (displayName s))] db) = Inr v"
  defines "loaded \<equiv> map_of (fst (fst (loadPrefs js exec (Some me) db')))"
  shows "(\<forall>k \<in> set pref_keys. loaded k = Some (pref_of (notifPrefs s) k)) \<and>
    (s = settings_mount (Some u) \<longrightarrow> (\<forall>k \<in> set pref_keys. loaded k = map_of notif_pref_defaults k))"
proof -
  obtain r where "save_writes exec (Some me) s db = (r, db')"
    using assms(2) by (auto simp: settings_handleSave_def Let_def split: prod.splits sum.splits)
  note stored = saved_prefs[OF assms(1) this assms(3)]
  have keys: "k \<in> fst ` set notif_pref_defaults" if "k \<in> set pref_keys" for k
    using that by (auto simp: pref_keys_def notif_pref_defaults_def)
  have A: "loaded k = Some (pref_of (notifPrefs s) k)" if "k \<in> set pref_keys" for k
    using loaded_prefs[OF assms(1) keys[OF that], of js "Some me" db'] stored that
    by (simp add: loaded_def bool_str_def split: if_splits)
  have B: "map_of notif_pref_defaults k = Some (pref_of notif_pref_defaults k)" if "k \<in> set pref_keys" for k
    using that by (auto simp: pref_keys_def notif_pref_defaults_def pref_of_def)
  have C: "notifPrefs (settings_mount (Some u)) = notif_pref_defaults"
    by (simp add: settings_mount_def settings_init_def)
  from A show ?thesis by (simp add: B C)
qed

definition sample_prefs_exec :: "(string \<times> string) list exec" where
  "sample_prefs_exec q db =
     (if q_table q \<noteq> ''user_notification_prefs'' then (\<lparr>r_data = Null, r_error = None\<rparr>, db)
      else case q_op q of
        QUpsert r _ \<Rightarrow> (\<lparr>r_data = Null, r_error = None\<rparr>,
          case (map_of r ''key'', map_of r ''value'') of (Some (Str k), Some (Str v)) \<Rightarrow> AList.update k v db | _ \<Rightarrow> db)
      | _ \<Rightarrow> (\<lparr>r_data = Arr (pref_rows (AList.clearjunk db)), r_error = None\<rparr>, db))"

lemma sample_prefs_store: "prefs_store sample_prefs_exec u AList.clearjunk"
  by (simp add: prefs_store_def sample_prefs_exec_def query_builders clearjunk_update distinct_clearjunk)

lemma settings_saved_and_loaded_witness:
  "let s = settings_init\<lparr>notifPrefs := [(''jobFailed'', False)]\<rparr> in
     map_of (fst (fst (loadPrefs (\<lambda>_. '''') sample_prefs_exec (Some ''u'')
       (snd (settings_handleSave sample_prefs_exec (Some ''u'') (Some sample_account) s [(''jobFailed'', ''true'')])))))
       ''jobFailed'' = Some False"
proof -
  let ?s = "settings_init\<lparr>notifPrefs := [(''jobFailed'', False)]\<rparr>"
  obtain t db where save: "settings_handleSave sample_prefs_exec (Some ''u'') (Some sample_account) ?s [(''jobFailed'', ''true'')] = (t, db)"
    by (metis surj_pair)
  have "fst (profile_update sample_prefs_exec [(''display_name'', Str (displayName ?s))] [(''jobFailed'', ''true'')]) = Inr Null"
    by (simp add: profile_update_def throwing_def sample_prefs_exec_def query_builders)
  from settings_saved_and_loaded[OF sample_prefs_store save this, of "\<lambda>_. ''''"] save
  show ?thesis by (simp add: pref_keys_def pref_of_def)
qed

text \<open>Also: the request to delete the account is sent, once, exactly when the text typed is the user's address;
  and however the server answers it, with an error as well, the user is signed out and told that the
  account is deleted.\<close>

theorem account_deletion:
  "count_list (snd (handleDelete user answer signout_ok s)) DeleteRequest =
     (if user \<noteq> None \<and> confirmText s = email (the user) then 1 else 0) \<and>
   (snd (handleDelete user answer signout_ok s) \<noteq> [] \<longleftrightarrow> user \<noteq> None \<and> confirmText s = email (the user)) \<and>
   (user = Some u \<and> confirmText s = email u \<longrightarrow>
      del_done (fst (handleDelete user (Some status) True s)) \<and>
      SignOutUser \<in> set (snd (handleDelete user (Some status) True s)))"
  by (cases user) (auto simp: handleDelete_def Let_def split: option.splits)

lemma account_deletion_witness:
  "del_done (fst (handleDelete (Some sample_account) (Some 404) True
     \<lparr>confirmText = email sample_account, isDeleting = False, del_done = False\<rparr>))"
  using account_deletion[of "Some sample_account" None True
      "\<lparr>confirmText = email sample_account, isDeleting = False, del_done = False\<rparr>" sample_account 404]
  by simp

text \<open>Also: the form for a new key stores the name alone, so the permissions chosen make no difference to the
  database or to the key; and a database that demands the hash of the key, as the migrations do,
  refuses it, after which the form shows neither a key nor an error.\<close>

theorem new_key_permissions_dropped:
  assumes "\<And>q r d. q_table q = ''api_keys'' \<Longrightarrow> q_op q = QInsert r \<Longrightarrow> map_of r ''key_hash'' = None \<Longrightarrow>
      r_error (fst (exec q d)) \<noteq> None"
  shows "snd (handleCreateKey js ex user (s\<lparr>nk_selected := ps\<rparr>) d) = snd (handleCreateKey js ex user s d) \<and>
    fst (handleCreateKey js ex user (s\<lparr>nk_selected := ps\<rparr>) d) = (fst (handleCreateKey js ex user s d))\<lparr>nk_selected := ps\<rparr> \<and>
    createdKey (fst (handleCreateKey js exec user s db)) = createdKey s \<and>
    (str_trim (nk_name s) \<noteq> '''' \<and> user \<noteq> None \<longrightarrow> \<not> isCreating (fst (handleCreateKey js exec user s db)))"
proof -
  let ?q = "single_row (from_table UserClient ''api_keys'' (QInsert [(''name'', Str (nk_name s))]))"
  have "r_error (fst (exec ?q db)) \<noteq> None"
    by (rule assms[of _ "[(''name'', Str (nk_name s))]"]) (simp_all add: query_builders)
  then obtain e where "r_error (fst (exec ?q db)) = Some e" by auto
  then have "apiKeys_create exec (Some (nk_name s)) db = (Inl e, snd (exec ?q db))"
    by (simp add: apiKeys_create_def throwing_def case_prod_unfold)
  then show ?thesis
    by (auto simp: handleCreateKey_def split: prod.splits sum.splits)
qed

lemma new_key_permissions_dropped_witness:
  "createdKey (fst (handleCreateKey (\<lambda>_. '''') (\<lambda>q db. (\<lparr>r_data = Null, r_error = Some ''null value in column''\<rparr>, db))
     (Some sample_account) \<lparr>nk_name = ''CI'', nk_selected = [''jobs:read''], isCreating = False, createdKey = None\<rparr> ())) = None"
  by (subst new_key_permissions_dropped[THEN conjunct2, THEN conjunct2, THEN conjunct1]) simp_all

text \<open>Also: on the page of the keys, identifiers stay unique and every key has permissions from those offered,
  each once; deleting a key takes away exactly that one; a key that is created comes first, with the
  permissions selected, and is shown in full only when its button was pressed.\<close>

theorem keys_page_sound:
  assumes "legal_run keys_step keys_ok es (keys_init now)"
  defines "s \<equiv> fold keys_step es (keys_init now)"
  shows "distinct (map key_id (apiKeys s)) \<and>
    (\<forall>a \<in> set (apiKeys s). distinct (key_permissions a) \<and> set (key_permissions a) \<subseteq> set allPermissions) \<and>
    key_id ` set (apiKeys (deleteKey k s)) = key_id ` set (apiKeys s) - {k} \<and>
    (str_trim (newKeyName s) \<noteq> '''' \<longrightarrow>
       (\<exists>a. apiKeys (createKey t rid sec s) = a # apiKeys s \<and> key_permissions a = selectedPermissions s \<and>
          key_name a = newKeyName s \<and>
          (''key_'' @ rid \<notin> revealedKeys s \<longrightarrow>
             shown_key (createKey t rid sec s) a = take 20 (''tentrist_new_'' @ sec) @ ''...'')))"
  using keys_machine.inv_legal_init[OF assms(1)] keys.keys_remove[of k s] unfolding s_def
  by (auto simp: keys_inv_def permissions_ok_def createKey_def shown_key_def slice_first_def)

lemma keys_page_sound_witness:
  "distinct (map key_id (apiKeys (fold keys_step [NewKeyName ''CI'', PermissionClicked ''jobs:write'', CreateClicked 7 ''abc'' ''xyz'']
     (keys_init 0))))"
  by (rule keys_page_sound[THEN conjunct1])
    (simp add: keys_init_def generateMockApiKeys_def allPermissions_def handler_defs)

text \<open>Also: however members are invited and removed, the page shows every one of the team as either active or
  pending, and the active ones are those it started with: an invitation never becomes a membership.\<close>

theorem team_partition:
  fixes es :: "team_event list" and now :: int
  defines "s \<equiv> fold team_step es (team_init now)"
  shows "length (activeMembers s) + length (pendingMembers s) = length (team s) \<and>
    set (activeMembers s) \<subseteq> set (generateMockTeam now)"
proof -
  have inv: "team_inv (generateMockTeam now) s" unfolding s_def by (rule team_machine.inv_reachable)
  have "length (filter (\<lambda>m. tm_status m = ''active'') ms) + length (filter (\<lambda>m. tm_status m = ''pending'') ms) = length ms"
    if "\<forall>m \<in> set ms. tm_status m = ''pending'' \<or> tm_status m = ''active''" for ms :: "team_member list"
    using that by (induction ms) auto
  with inv show ?thesis by (auto simp: team_inv_def view_defs)
qed

end
