(* ===== verification/JobOutcome.thy ===== *)
theory JobOutcome
  imports JobsData
begin

text \<open>
  How a job is said to have ended, on the pages below \<open>app/(dashboard)/jobs/[id]\<close>: the record of its
  service level, its receipt, its nodes, events and checkpoints. All read the job through \<open>useJob\<close>,
  whose rows are the ones of theory JobsData. A dash that stands for a missing value is the ASCII one;
  \<open>num\<close> prints a number as a template string does.
\<close>

section \<open>The record of the service level\<close>

datatype 'a job_page = PageLoading | JobNotFound | JobPage 'a

definition opt_fixed :: "nat \<Rightarrow> jsnum option \<Rightarrow> string" where
  "opt_fixed d x = (case x of None \<Rightarrow> ''undefined'' | Some n \<Rightarrow> toFixed d n)"

definition opt_fixed_or :: "nat \<Rightarrow> jsnum option \<Rightarrow> string" where
  "opt_fixed_or d x = (case x of None \<Rightarrow> ''-'' | Some n \<Rightarrow> toFixed d n)"

definition uptimeCompliant :: "job \<Rightarrow> bool" where
  [view_defs]: "uptimeCompliant j \<longleftrightarrow> js_le (requiredUptime (sla j)) (or_else (actualUptime j) (Fin 0))"

definition throughputCompliant :: "job \<Rightarrow> bool" where
  [view_defs]: "throughputCompliant j \<longleftrightarrow> js_le (requiredThroughput (sla j)) (or_else (actualThroughput j) (Fin 0))"

definition sla_isComplete :: "job \<Rightarrow> bool" where
  [view_defs]: "sla_isComplete j \<longleftrightarrow> job_status j = ''completed'' \<or> job_status j = ''failed''"

text \<open>The width of a bar in per cent; \<open>undefined\<close> divided by a number is not a number.\<close>

definition bar_width :: "bool \<Rightarrow> jsnum option \<Rightarrow> jsnum \<Rightarrow> jsnum" where
  "bar_width ended actual required =
     (if ended then js_min (js_mul (js_div (or_else actual NaN) required) (Fin 100)) (Fin 100) else Fin 30)"

definition uptime_line :: "(jsnum \<Rightarrow> string) \<Rightarrow> job \<Rightarrow> string" where
  "uptime_line num j =
     (if sla_isComplete j
      then (if uptimeCompliant j then ''Fulfilled - '' else ''Breached - '') @ opt_fixed 2 (actualUptime j) @ ''% actual''
      else ''Target: '' @ num (requiredUptime (sla j)) @ ''%'')"

definition throughput_line :: "(jsnum \<Rightarrow> string) \<Rightarrow> job \<Rightarrow> string" where
  "throughput_line num j =
     (if sla_isComplete j
      then (if throughputCompliant j then ''Fulfilled - '' else ''Breached - '') @ opt_fixed 0 (actualThroughput j) @ '' ops/s actual''
      else ''Target: '' @ num (requiredThroughput (sla j)) @ '' ops/s'')"

definition deadline_state :: "int \<Rightarrow> job \<Rightarrow> string" where
  "deadline_state now j =
     (if js_lt (js_int now) (sla_deadline (sla j)) then ''Pending''
      else if job_status j = ''completed'' then ''Met'' else ''Missed'')"

definition sla_status :: "job \<Rightarrow> string" where
  "sla_status j =
     (if sla_isComplete j then if uptimeCompliant j \<and> throughputCompliant j then ''Fulfilled'' else ''Breached''
      else ''In Progress'')"

definition slash_percentage :: "job \<Rightarrow> string" where
  "slash_percentage j =
     (if sla_isComplete j \<and> \<not> uptimeCompliant j then ''10% of deposit''
      else if sla_isComplete j \<and> \<not> throughputCompliant j then ''10% of deposit'' else ''-'')"

definition credit_issued :: "job \<Rightarrow> string" where
  "credit_issued j =
     (if sla_isComplete j \<and> \<not> uptimeCompliant j then toFixed 4 (js_mul (cost j) (Fin 0.07)) @ '' ETH''
      else if sla_isComplete j \<and> \<not> throughputCompliant j then toFixed 4 (js_mul (cost j) (Fin 0.07)) @ '' ETH''
      else ''-'')"

record sla_record =
  sr_uptime :: string
  sr_uptime_width :: jsnum
  sr_throughput :: string
  sr_throughput_width :: jsnum
  sr_deadline :: string
  sr_summary :: "(string \<times> string) list"

definition JobSLAPage :: "(jsnum \<Rightarrow> string) \<Rightarrow> int \<Rightarrow> bool \<Rightarrow> job option \<Rightarrow> sla_record job_page" where
  "JobSLAPage num now isLoading data =
     (if isLoading then PageLoading
      else case data of None \<Rightarrow> JobNotFound
      | Some j \<Rightarrow> JobPage
          \<lparr>sr_uptime = uptime_line num j,
           sr_uptime_width = bar_width (sla_isComplete j) (actualUptime j) (requiredUptime (sla j)),
           sr_throughput = throughput_line num j,
           sr_throughput_width = bar_width (sla_isComplete j) (actualThroughput j) (requiredThroughput (sla j)),
           sr_deadline = deadline_state now j,
           sr_summary = [(''SLA Status'', sla_status j),
             (''Uptime Achieved'', opt_fixed_or 2 (actualUptime j) @ ''%''),
             (''Throughput Achieved'', opt_fixed_or 0 (actualThroughput j) @ '' ops/s''),
             (''Slash Percentage'', slash_percentage j), (''SLA Credit Issued'', credit_issued j)]\<rparr>)"

section \<open>The receipt\<close>

definition receipt_breach :: "job \<Rightarrow> bool" where
  "receipt_breach j \<longleftrightarrow> (case actualUptime j of None \<Rightarrow> False | Some u \<Rightarrow> js_lt u (requiredUptime (sla j)))"

definition slashAmount :: "job \<Rightarrow> jsnum" where
  "slashAmount j = js_mul (cost j) (Fin 0.1)"

definition creditAmount :: "job \<Rightarrow> jsnum" where
  "creditAmount j = js_mul (cost j) (Fin 0.07)"

definition receipt_netCost :: "job \<Rightarrow> jsnum" where
  "receipt_netCost j =
     (if job_status j = ''completed'' \<or> \<not> receipt_breach j then cost j
      else js_add (js_sub (cost j) (slashAmount j)) (creditAmount j))"

definition receipt_banner :: "job \<Rightarrow> string option" where
  "receipt_banner j =
     (if job_status j = ''completed'' \<and> \<not> receipt_breach j then Some ''Job Completed - SLA Fulfilled''
      else if receipt_breach j then Some ''SLA Breach - Partial Credit Issued''
      else if job_status j = ''cancelled'' then Some ''Job Cancelled''
      else if job_status j = ''failed'' then Some ''Job Failed''
      else None)"

text \<open>A row of the benchmark results: what was required, what was measured, and whether that is enough.\<close>

definition receipt_results :: "(jsnum \<Rightarrow> string) \<Rightarrow> job \<Rightarrow> (string \<times> string \<times> bool) list" where
  "receipt_results num j =
     [(toFixed 1 (requiredUptime (sla j)) @ ''%'', opt_fixed_or 2 (actualUptime j) @ ''%'',
       case actualUptime j of None \<Rightarrow> False | Some u \<Rightarrow> js_le (requiredUptime (sla j)) u),
      (num (requiredThroughput (sla j)) @ '' ops/s'', opt_fixed_or 0 (actualThroughput j) @ '' ops/s'',
       case actualThroughput j of None \<Rightarrow> False | Some t \<Rightarrow> js_le (requiredThroughput (sla j)) t)]"

definition receipt_costs :: "job \<Rightarrow> (string \<times> string) list" where
  "receipt_costs j =
     (''Total Job Cost'', ''$'' @ toFixed 4 (cost j) @ '' ETH'') #
     (if receipt_breach j
      then [(''Slash Amount (10%)'', ''-$'' @ toFixed 4 (slashAmount j) @ '' ETH''),
            (''SLA Credit (70%)'', ''+$'' @ toFixed 4 (creditAmount j) @ '' ETH'')]
      else [])"

record receipt =
  rc_banner :: "string option"
  rc_results :: "(string \<times> string \<times> bool) list"
  rc_costs :: "(string \<times> string) list"
  rc_net :: string

definition JobReceiptPage :: "(jsnum \<Rightarrow> string) \<Rightarrow> job option \<Rightarrow> receipt job_page" where
  "JobReceiptPage num data =
     (case data of None \<Rightarrow> JobNotFound
      | Some j \<Rightarrow> JobPage
          \<lparr>rc_banner = receipt_banner j, rc_results = receipt_results num j, rc_costs = receipt_costs j,
           rc_net = ''$'' @ toFixed 4 (receipt_netCost j) @ '' ETH''\<rparr>)"

section \<open>Nodes, events and checkpoints\<close>

definition relative_heartbeat :: "int \<Rightarrow> int \<Rightarrow> string" where
  "relative_heartbeat now ts =
     (let diff = now - ts in
      if diff < 60000 then show_int (diff div 1000) @ ''s ago''
      else if diff < 3600000 then show_int (diff div 60000) @ ''m ago''
      else show_int (diff div 3600000) @ ''h ago'')"

definition vramPct :: "node_assignment \<Rightarrow> jsnum" where
  "vramPct n = js_mul (js_div (na_vramUsed n) (na_vramTotal n)) (Fin 100)"

datatype load_color = VramFull | VramHigh | VramFine

record node_card =
  nc_connected :: bool
  nc_badge :: string
  nc_vram :: jsnum
  nc_color :: load_color

definition assignment_card :: "node_assignment \<Rightarrow> node_card" where
  "assignment_card n =
     \<lparr>nc_connected = (na_status n = ''processing''),
      nc_badge = (if na_status n = ''completed'' then ''completed'' else if na_status n = ''failed'' then ''failed''
                  else if na_status n = ''processing'' then ''running'' else ''pending''),
      nc_vram = vramPct n,
      nc_color = (if js_lt (Fin 90) (vramPct n) then VramFull
                  else if js_lt (Fin 75) (vramPct n) then VramHigh else VramFine)\<rparr>"

datatype 'a list_page = ListLoading | ListEmpty | ListShown "'a list"

definition JobNodesPage :: "bool \<Rightarrow> node_assignment list option \<Rightarrow> node_card list_page" where
  "JobNodesPage isLoading data =
     (if isLoading then ListLoading
      else case data of Some (x # xs) \<Rightarrow> ListShown (map assignment_card (x # xs)) | _ \<Rightarrow> ListEmpty)"

text \<open>An event: its level, its message and its node, if it names one.\<close>

definition event_line :: "job_log \<Rightarrow> string \<times> string \<times> string option" where
  "event_line l = (level_str (level l), log_message l,
     if truthy_str (log_nodeId l) then Some (''node: '' @ the (log_nodeId l)) else None)"

definition JobEventsPage :: "bool \<Rightarrow> job_log list option \<Rightarrow> nat \<times> (string \<times> string \<times> string option) list_page" where
  "JobEventsPage isLoading data =
     (case data of None \<Rightarrow> 0 | Some ls \<Rightarrow> length ls,
      if isLoading then ListLoading
      else case data of Some (x # xs) \<Rightarrow> ListShown (map event_line (x # xs)) | _ \<Rightarrow> ListEmpty)"

section \<open>Lemmas\<close>

lemma mapJob_measures [simp]:
  "actualUptime (mapJob pd now j) = None" "actualThroughput (mapJob pd now j) = None"
  "job_status (mapJob pd now j) = dj_status j"
  by (simp_all add: mapJob_def)

lemma mapJob_required: "requiredUptime (sla (mapJob pd now j)) = or_else (sla_uptime_required j) (Fin 95)"
  by (simp add: mapJob_def)

lemma no_breach_without_measure: "actualUptime j = None \<Longrightarrow> \<not> receipt_breach j"
  by (simp add: receipt_breach_def)

section \<open>Properties\<close>

text \<open>C24: since no column holds what was measured, the two pages of a completed job contradict each other:
  the record says that the service level was breached, that a tenth of the deposit is slashed and a
  credit was issued, while the receipt says that it was fulfilled and charges the full cost, above
  two results that are both marked as failed.\<close>

theorem sla_pages_contradict:
  fixes pd :: "string \<Rightarrow> jsnum" and now :: int
  assumes "dj_status dj = ''completed''"
    and "js_lt (Fin 0) (or_else (sla_uptime_required dj) (Fin 95))"
  defines "j \<equiv> mapJob pd now dj"
  shows "\<exists>r c. JobSLAPage num now False (Some j) = JobPage r \<and> JobReceiptPage num (Some j) = JobPage c \<and>
    map_of (sr_summary r) ''SLA Status'' = Some ''Breached'' \<and>
    map_of (sr_summary r) ''Slash Percentage'' = Some ''10% of deposit'' \<and>
    map_of (sr_summary r) ''SLA Credit Issued'' = Some (toFixed 4 (js_mul (cost j) (Fin 0.07)) @ '' ETH'') \<and>
    sr_uptime r = ''Breached - undefined% actual'' \<and>
    rc_banner c = Some ''Job Completed - SLA Fulfilled'' \<and> rc_net c = ''$'' @ toFixed 4 (cost j) @ '' ETH'' \<and>
    length (rc_costs c) = 1 \<and> (\<forall>x \<in> set (rc_results c). \<not> snd (snd x))"
proof -
  have "\<not> js_le (requiredUptime (sla j)) (Fin 0)"
    using assms(2) by (cases "or_else (sla_uptime_required dj) (Fin 95)") (auto simp: j_def mapJob_required js_le_def)
  then have breached: "\<not> uptimeCompliant j" by (simp add: uptimeCompliant_def j_def or_else_def)
  have ended: "sla_isComplete j" "job_status j = ''completed''" "\<not> receipt_breach j"
    using assms(1) by (simp_all add: j_def sla_isComplete_def no_breach_without_measure)
  show ?thesis
    by (simp add: JobSLAPage_def JobReceiptPage_def sla_status_def slash_percentage_def credit_issued_def uptime_line_def
        opt_fixed_def receipt_banner_def receipt_netCost_def receipt_costs_def receipt_results_def breached ended)
      (simp add: j_def)
qed

definition sample_completed :: db_job where
  "sample_completed = \<lparr>dj_id = ''1'', job_id_256 = ''j'', dj_user_id = ''u'', dj_node_id = None, dj_status = ''completed'',
     checkpoint_url = None, sla_uptime_required = Some (Fin 99), sla_throughput_required = None, dj_deadline = None,
     budget_usd = Some (Fin 2), price_charged_usd = None, dj_created_at = ''now''\<rparr>"

lemma sla_pages_contradict_witness:
  "\<exists>r c. JobSLAPage (\<lambda>_. '''') 0 False (Some (mapJob (\<lambda>_. Fin 0) 0 sample_completed)) = JobPage r \<and>
     JobReceiptPage (\<lambda>_. '''') (Some (mapJob (\<lambda>_. Fin 0) 0 sample_completed)) = JobPage c \<and>
     map_of (sr_summary r) ''SLA Status'' = Some ''Breached'' \<and> rc_banner c = Some ''Job Completed - SLA Fulfilled''"
  using sla_pages_contradict[of sample_completed "\<lambda>_. ''''" 0 "\<lambda>_. Fin 0"]
  by (auto simp: sample_completed_def or_else_def)

text \<open>Also: the net amount of a receipt is the cost, less three per cent of it when a job that is not completed
  broke its required uptime; for a completed job that broke it, the receipt lists the slash and the
  credit but charges the full cost, so its lines do not add up to its total.\<close>

theorem receipt_arithmetic:
  assumes "cost j = Fin q"
  shows "(receipt_netCost j = Fin (if receipt_breach j \<and> job_status j \<noteq> ''completed'' then q * 97 / 100 else q)) \<and>
    (length (receipt_costs j) = 3 \<longleftrightarrow> receipt_breach j) \<and>
    (receipt_netCost j = js_add (js_sub (cost j) (if receipt_breach j then slashAmount j else Fin 0))
        (if receipt_breach j then creditAmount j else Fin 0) \<longleftrightarrow>
      \<not> receipt_breach j \<or> job_status j \<noteq> ''completed'' \<or> q = 0)"
  using assms by (auto simp: receipt_netCost_def receipt_costs_def slashAmount_def creditAmount_def)

lemma receipt_arithmetic_witness:
  "receipt_netCost (mapJob (\<lambda>_. Fin 0) 0 sample_completed) = Fin 2"
  using receipt_arithmetic[of "mapJob (\<lambda>_. Fin 0) 0 sample_completed" 2]
  by (simp add: mapJob_def sample_completed_def or_else_def receipt_breach_def)

text \<open>Also: on the page of its nodes, a job's nodes are never shown as connected, and a running assignment is
  shown as pending, since the status the page looks for is not one the database stores.\<close>

theorem assigned_nodes_disconnected:
  assumes "\<forall>a \<in> set as. da_status a \<in> set stored_assignment_status"
    and "fetchNodeAssignments pd now (Inr (Some as)) = Inr ns"
    and "JobNodesPage False (Some ns) = ListShown cards"
  shows "length cards = length as \<and>
    (\<forall>i < length as. \<not> nc_connected (cards ! i) \<and>
       nc_badge (cards ! i) = (if da_status (as ! i) \<in> {''completed'', ''failed''} then da_status (as ! i) else ''pending''))"
proof -
  have ns: "ns = map (mapAssignment pd now) as" using assms(2) by (simp add: fetchNodeAssignments_def or_else_def)
  then have cards: "cards = map (assignment_card \<circ> mapAssignment pd now) as"
    using assms(3) by (cases as) (auto simp: JobNodesPage_def)
  have "da_status (as ! i) \<noteq> ''processing''" if "i < length as" for i
    using assms(1) nth_mem[OF that] by (auto simp: stored_assignment_status_def)
  then show ?thesis by (auto simp: cards assignment_card_def mapAssignment_def)
qed

lemma assigned_nodes_disconnected_witness:
  "\<forall>cards. JobNodesPage False (Some (map (mapAssignment (\<lambda>_. Fin 0) 0) [sample_assignment])) = ListShown cards \<longrightarrow>
     length cards = 1"
  using assigned_nodes_disconnected[of "[sample_assignment]" "\<lambda>_. Fin 0" 0]
  by (auto simp: sample_assignment_def stored_assignment_status_def fetchNodeAssignments_def or_else_def)

end
