(* ===== verification/NotificationStore.thy ===== *)
theory NotificationStore
  imports Domain
begin

text \<open>
  \<open>apps/web/src/stores/notification-store.ts\<close>: the notification list and its unread counter, the
  six actions, the categories, and the creators of typed notifications. Time and the random part
  of an identifier are arguments. The callback of an action is represented by its label.
\<close>

datatype notification_type = NInfo | NSuccess | NWarning | NError

datatype notification_category = CatAll | CatJobs | CatNodes | CatWallet | CatSystem

record link =
  href :: string
  link_label :: string

text \<open>What a caller passes to \<open>addNotification\<close>.\<close>

record notification_input =
  ntype :: notification_type
  title :: string
  message :: "string option"
  action_label :: "string option"
  link :: "link option"

record notification = notification_input +
  nid :: string
  timestamp :: int
  nread :: bool

record notification_state =
  notifications :: "notification list"
  unreadCount :: int

definition notification_init :: notification_state where
  "notification_init = \<lparr>notifications = [], unreadCount = 0\<rparr>"

definition generateId :: "int \<Rightarrow> string \<Rightarrow> string" where
  "generateId now rnd = ''notif_'' @ show_int now @ ''_'' @ rnd"

definition new_notification :: "int \<Rightarrow> string \<Rightarrow> notification_input \<Rightarrow> notification" where
  "new_notification now rnd i =
     notification_input.extend i \<lparr>nid = generateId now rnd, timestamp = now, nread = False\<rparr>"

definition addNotification ::
  "int \<Rightarrow> string \<Rightarrow> notification_input \<Rightarrow> notification_state \<Rightarrow> notification_state" where
  [handler_defs]: "addNotification now rnd i s =
     s\<lparr>notifications := new_notification now rnd i # notifications s,
       unreadCount := unreadCount s + 1\<rparr>"

definition removeNotification :: "string \<Rightarrow> notification_state \<Rightarrow> notification_state" where
  [handler_defs]: "removeNotification k s =
     (let found = find (\<lambda>n. nid n = k) (notifications s) in
      s\<lparr>notifications := filter (\<lambda>n. nid n \<noteq> k) (notifications s),
        unreadCount := (case found of
            Some n \<Rightarrow> if \<not> nread n then unreadCount s - 1 else unreadCount s
          | None \<Rightarrow> unreadCount s)\<rparr>)"

definition markAsRead :: "string \<Rightarrow> notification_state \<Rightarrow> notification_state" where
  [handler_defs]: "markAsRead k s =
     (case find (\<lambda>n. nid n = k) (notifications s) of
        None \<Rightarrow> s
      | Some n \<Rightarrow>
          if nread n then s
          else s\<lparr>notifications :=
                   map (\<lambda>n. if nid n = k then n\<lparr>nread := True\<rparr> else n) (notifications s),
                 unreadCount := max 0 (unreadCount s - 1)\<rparr>)"

definition markAllAsRead :: "notification_state \<Rightarrow> notification_state" where
  [handler_defs]: "markAllAsRead s =
     s\<lparr>notifications := map (\<lambda>n. n\<lparr>nread := True\<rparr>) (notifications s), unreadCount := 0\<rparr>"

definition clearAll :: "notification_state \<Rightarrow> notification_state" where
  [handler_defs]: "clearAll s = s\<lparr>notifications := [], unreadCount := 0\<rparr>"

section \<open>Categories\<close>

definition in_category :: "notification_category \<Rightarrow> notification \<Rightarrow> bool" where
  "in_category c n =
     (let t = to_lower (title n);
          m = to_lower (case message n of Some s \<Rightarrow> s | None \<Rightarrow> '''') in
      case c of
        CatAll \<Rightarrow> True
      | CatJobs \<Rightarrow> str_includes t ''job'' \<or> str_includes m ''job'' \<or>
          str_includes t ''workload'' \<or> str_includes m ''workload''
      | CatNodes \<Rightarrow> str_includes t ''node'' \<or> str_includes m ''node'' \<or>
          str_includes t ''gpu'' \<or> str_includes m ''gpu''
      | CatWallet \<Rightarrow> str_includes t ''wallet'' \<or> str_includes m ''wallet'' \<or>
          str_includes t ''stake'' \<or> str_includes m ''stake'' \<or>
          str_includes t ''slash'' \<or> str_includes m ''slash''
      | CatSystem \<Rightarrow> str_includes t ''system'' \<or> str_includes m ''system'' \<or>
          str_includes t ''sla'' \<or> str_includes m ''sla'' \<or> str_includes t ''heartbeat'')"

definition getNotificationsByCategory ::
  "notification_category \<Rightarrow> notification_state \<Rightarrow> notification list" where
  "getNotificationsByCategory c s =
     (if c = CatAll then notifications s else filter (in_category c) (notifications s))"

section \<open>Creators\<close>

definition creator :: "notification_type \<Rightarrow> string \<Rightarrow> string \<Rightarrow> link option \<Rightarrow> notification_input" where
  "creator ty t m l = \<lparr>ntype = ty, title = t, message = Some m, action_label = None, link = l\<rparr>"

definition to_page :: "string \<Rightarrow> string \<Rightarrow> link option" where
  "to_page h l = Some \<lparr>href = h, link_label = l\<rparr>"

definition jobCompleted :: "string \<Rightarrow> notification_input" where
  "jobCompleted j = creator NSuccess ''Job Completed''
     (''Job '' @ slice_first 12 j @ ''... has completed successfully.'')
     (to_page (''/dashboard/jobs/'' @ j) ''View Job'')"

definition jobFailed :: "string \<Rightarrow> string option \<Rightarrow> notification_input" where
  "jobFailed j reason = creator NError ''Job Failed''
     (''Job '' @ slice_first 12 j @ ''... has failed'' @
        (case reason of Some r \<Rightarrow> (if r = '''' then ''.'' else '': '' @ r) | None \<Rightarrow> ''.''))
     (to_page (''/dashboard/jobs/'' @ j) ''View Job'')"

definition jobRequeued :: "string \<Rightarrow> notification_input" where
  "jobRequeued j = creator NWarning ''Job Requeued''
     (''Job '' @ slice_first 12 j @ ''... has been requeued due to node failure.'')
     (to_page (''/dashboard/jobs/'' @ j) ''View Job'')"

definition nodeOnline :: "string \<Rightarrow> notification_input" where
  "nodeOnline n = creator NInfo ''Node Online''
     (''Node '' @ slice_first 12 n @ ''... is now online and receiving heartbeats.'')
     (to_page (''/dashboard/nodes/'' @ n) ''View Node'')"

definition nodeOffline :: "string \<Rightarrow> notification_input" where
  "nodeOffline n = creator NError ''Node Offline''
     (''Node '' @ slice_first 12 n @ ''... has gone offline.'')
     (to_page (''/dashboard/nodes/'' @ n) ''View Node'')"

definition nodeSlashed :: "string \<Rightarrow> string \<Rightarrow> notification_input" where
  "nodeSlashed n amount = creator NError ''Node Slashed''
     (''Node '' @ slice_first 12 n @ ''... was slashed for '' @ amount @ ''.'')
     (to_page ''/dashboard/admin/slashing'' ''Review'')"

definition slaBreach :: "string \<Rightarrow> notification_input" where
  "slaBreach j = creator NWarning ''SLA Breach Warning''
     (''Job '' @ slice_first 12 j @ ''... is at risk of missing its SLA deadline.'')
     (to_page (''/dashboard/jobs/'' @ j) ''View Job'')"

definition walletConnected :: "string \<Rightarrow> notification_input" where
  "walletConnected a = creator NSuccess ''Wallet Connected''
     (''Connected to wallet '' @ slice_first 6 a @ ''...'' @ slice_last 4 a @ ''.'') None"

definition stakeSuccess :: "string \<Rightarrow> notification_input" where
  "stakeSuccess amount = creator NSuccess ''Stake Successful''
     (''Successfully staked '' @ amount @ '' ETH.'') (to_page ''/dashboard/wallet'' ''View Wallet'')"

definition unstakeInitiated :: "string \<Rightarrow> int \<Rightarrow> notification_input" where
  "unstakeInitiated amount days = creator NInfo ''Unstake Initiated''
     (''Unstake of '' @ amount @ '' ETH initiated. Available in '' @ show_int days @ '' days.'')
     (to_page ''/dashboard/wallet'' ''View Wallet'')"

section \<open>The store as a state machine\<close>

datatype notification_event =
    Add int string notification_input
  | Remove string
  | MarkRead string
  | MarkAllRead
  | Clear

fun notification_step :: "notification_event \<Rightarrow> notification_state \<Rightarrow> notification_state" where
  "notification_step (Add now rnd i) s = addNotification now rnd i s"
| "notification_step (Remove k) s = removeNotification k s"
| "notification_step (MarkRead k) s = markAsRead k s"
| "notification_step MarkAllRead s = markAllAsRead s"
| "notification_step Clear s = clearAll s"

text \<open>Identifiers are random: a new one is not in use.\<close>

fun notification_fresh :: "notification_event \<Rightarrow> notification_state \<Rightarrow> bool" where
  "notification_fresh (Add now rnd i) s = (generateId now rnd \<notin> nid ` set (notifications s))"
| "notification_fresh _ s = True"

definition unread :: "notification list \<Rightarrow> int" where
  "unread ns = int (length (filter (\<lambda>n. \<not> nread n) ns))"

definition notification_inv :: "notification_state \<Rightarrow> bool" where
  "notification_inv s \<longleftrightarrow>
     distinct (map nid (notifications s)) \<and> unreadCount s = unread (notifications s)"

lemma new_notification_simps [simp]:
  "nid (new_notification now rnd i) = generateId now rnd"
  "nread (new_notification now rnd i) = False"
  "timestamp (new_notification now rnd i) = now"
  "title (new_notification now rnd i) = title i"
  "message (new_notification now rnd i) = message i"
  by (simp_all add: new_notification_def notification_input.defs)

lemma unread_Cons [simp]: "unread (n # ns) = (if nread n then unread ns else unread ns + 1)"
  by (simp add: unread_def)

lemma unread_Nil [simp]: "unread [] = 0"
  by (simp add: unread_def)

lemma unread_nonneg [simp]: "0 \<le> unread ns"
  by (simp add: unread_def)

lemma unread_all_read [simp]: "unread (map (\<lambda>n. n\<lparr>nread := True\<rparr>) ns) = 0"
  by (simp add: unread_def)

lemma nid_mark_read [simp]: "map nid (map (\<lambda>n. if nid n = k then n\<lparr>nread := True\<rparr> else n) ns) = map nid ns"
  by simp

lemma unread_pos: "n \<in> set ns \<Longrightarrow> \<not> nread n \<Longrightarrow> 0 < unread ns"
  by (induction ns) (auto simp: add_nonneg_pos)

lemma unread_absent:
  assumes "k \<notin> nid ` set ns"
  shows "unread (filter (\<lambda>n. nid n \<noteq> k) ns) = unread ns"
    and "unread (map (\<lambda>n. if nid n = k then n\<lparr>nread := True\<rparr> else n) ns) = unread ns"
proof -
  have "filter (\<lambda>n. nid n \<noteq> k) ns = ns"
    using assms by (auto simp: filter_id_conv)
  then show "unread (filter (\<lambda>n. nid n \<noteq> k) ns) = unread ns" by simp
  have "map (\<lambda>n. if nid n = k then n\<lparr>nread := True\<rparr> else n) ns = ns"
    using assms by (auto intro!: map_idI)
  then show "unread (map (\<lambda>n. if nid n = k then n\<lparr>nread := True\<rparr> else n) ns) = unread ns" by simp
qed

text \<open>With distinct identifiers, one record is the only one the actions touch.\<close>

lemma unread_one:
  assumes "distinct (map nid ns)" "find (\<lambda>n. nid n = k) ns = Some m"
  shows "unread (filter (\<lambda>n. nid n \<noteq> k) ns) = unread ns - (if nread m then 0 else 1)"
    and "unread (map (\<lambda>n. if nid n = k then n\<lparr>nread := True\<rparr> else n) ns) =
      unread ns - (if nread m then 0 else 1)"
  using assms by (induction ns) (auto simp: unread_absent split: if_splits)

lemma notification_inv_step:
  assumes "notification_inv s" "notification_fresh e s"
  shows "notification_inv (notification_step e s)"
proof (cases e)
  case (Remove k)
  show ?thesis
  proof (cases "find (\<lambda>n. nid n = k) (notifications s)")
    case None
    then have "k \<notin> nid ` set (notifications s)"
      by (auto simp: find_None_iff)
    with assms(1) Remove None show ?thesis
      by (simp add: notification_inv_def handler_defs unread_absent distinct_map_filter)
  next
    case (Some m)
    with assms(1) Remove show ?thesis
      by (simp add: notification_inv_def handler_defs unread_one distinct_map_filter)
  qed
next
  case (MarkRead k)
  show ?thesis
  proof (cases "find (\<lambda>n. nid n = k) (notifications s)")
    case (Some m)
    then have "m \<in> set (notifications s)"
      by (auto simp: find_Some_iff)
    with unread_pos[of m "notifications s"] assms(1) MarkRead Some show ?thesis
      by (auto simp: notification_inv_def handler_defs unread_one simp del: map_map)
  qed (use assms(1) MarkRead in \<open>simp add: handler_defs\<close>)
qed (use assms in \<open>auto simp: notification_inv_def handler_defs comp_def\<close>)

interpretation notif: guarded_machine notification_step notification_fresh notification_inv
  notification_init
  by unfold_locales
    (auto simp: notification_inv_step, simp add: notification_inv_def notification_init_def)

interpretation notif_list: keyed_store nid notifications removeNotification
  "\<lambda>n s. s\<lparr>notifications := n # notifications s, unreadCount := unreadCount s + 1\<rparr>"
  by unfold_locales (simp_all add: handler_defs)

section \<open>Properties\<close>

text \<open>C5: in every state the notification store reaches, with fresh identifiers for new notifications, the
  unread counter is the number of unread notifications, identifiers are unique, and so the badge
  never goes below zero or above the number of notifications.\<close>

theorem notifications_counted:
  assumes "legal_run notification_step notification_fresh es notification_init"
  defines "s \<equiv> fold notification_step es notification_init"
  shows "unreadCount s = unread (notifications s) \<and> distinct (map nid (notifications s)) \<and>
    0 \<le> unreadCount s \<and> unreadCount s \<le> int (length (notifications s))"
proof -
  have "notification_inv s" unfolding s_def by (rule notif.inv_legal_init[OF assms(1)])
  moreover have "unread (notifications s) \<le> int (length (notifications s))"
    by (simp add: unread_def)
  ultimately show ?thesis by (simp add: notification_inv_def)
qed

theorem notifications_counted_witness:
  "unreadCount (fold notification_step [Add 1 ''a'' (jobCompleted ''j1''), Add 2 ''b'' (jobFailed ''j2'' None),
     MarkAllRead, Add 3 ''c'' (nodeOffline ''n'')] notification_init) = 1"
proof -
  have "legal_run notification_step notification_fresh [Add 1 ''a'' (jobCompleted ''j1''),
      Add 2 ''b'' (jobFailed ''j2'' None), MarkAllRead, Add 3 ''c'' (nodeOffline ''n'')] notification_init"
    by (simp add: handler_defs notification_init_def generateId_def show_int_def show_nat.simps digit_char_def)
  from notifications_counted[OF this] show ?thesis
    by (simp add: handler_defs notification_init_def)
qed

lemma includes_left: "str_includes s p \<Longrightarrow> str_includes (s @ t) p"
  unfolding str_includes_iff by (metis append.assoc)

lemma category_of_text:
  "str_includes (to_lower (title i)) ''job'' \<Longrightarrow> in_category CatJobs (new_notification now rnd i)"
  "message i = Some m \<Longrightarrow> str_includes (to_lower m) ''job'' \<Longrightarrow> in_category CatJobs (new_notification now rnd i)"
  "str_includes (to_lower (title i)) ''node'' \<Longrightarrow> in_category CatNodes (new_notification now rnd i)"
  "str_includes (to_lower (title i)) ''wallet'' \<Longrightarrow> in_category CatWallet (new_notification now rnd i)"
  "str_includes (to_lower (title i)) ''stake'' \<Longrightarrow> in_category CatWallet (new_notification now rnd i)"
  "str_includes (to_lower (title i)) ''slash'' \<Longrightarrow> in_category CatWallet (new_notification now rnd i)"
  "str_includes (to_lower (title i)) ''sla'' \<Longrightarrow> in_category CatSystem (new_notification now rnd i)"
  by (simp_all add: in_category_def Let_def)

lemma creator_fields:
  "title (jobCompleted j) = ''Job Completed''" "title (jobFailed j why) = ''Job Failed''"
  "title (jobRequeued j) = ''Job Requeued''" "title (slaBreach j) = ''SLA Breach Warning''"
  "title (nodeOnline n) = ''Node Online''" "title (nodeOffline n) = ''Node Offline''"
  "title (nodeSlashed n a) = ''Node Slashed''" "title (walletConnected w) = ''Wallet Connected''"
  "title (stakeSuccess a) = ''Stake Successful''" "title (unstakeInitiated a d) = ''Unstake Initiated''"
  "message (slaBreach j) = Some (''Job '' @ slice_first 12 j @ ''... is at risk of missing its SLA deadline.'')"
  by (simp_all only: creator_def jobCompleted_def jobFailed_def jobRequeued_def slaBreach_def nodeOnline_def
      nodeOffline_def nodeSlashed_def walletConnected_def stakeSuccess_def unstakeInitiated_def
      notification_input.select_convs)

lemma title_words:
  "str_includes (to_lower ''Job Completed'') ''job''" "str_includes (to_lower ''Job Failed'') ''job''"
  "str_includes (to_lower ''Job Requeued'') ''job''" "str_includes (to_lower ''SLA Breach Warning'') ''sla''"
  "str_includes (to_lower ''Node Online'') ''node''" "str_includes (to_lower ''Node Offline'') ''node''"
  "str_includes (to_lower ''Node Slashed'') ''node''" "str_includes (to_lower ''Node Slashed'') ''slash''"
  "str_includes (to_lower ''Node Slashed'') ''sla''" "str_includes (to_lower ''Wallet Connected'') ''wallet''"
  "str_includes (to_lower ''Stake Successful'') ''stake''" "str_includes (to_lower ''Unstake Initiated'') ''stake''"
  "str_includes (to_lower ''Job '') ''job''"
  by code_simp+

lemma slaBreach_mentions_job:
  "str_includes (to_lower (''Job '' @ slice_first 12 j @ ''... is at risk of missing its SLA deadline.'')) ''job''"
proof -
  have "to_lower (''Job '' @ t) = to_lower ''Job '' @ to_lower t" for t
    by (simp only: to_lower_def map_append)
  then show ?thesis using includes_left[OF title_words(13)] by metis
qed

text \<open>Also: the categories route the typed notifications as intended: job and SLA notifications appear under
  jobs, node notifications under nodes, stake, wallet and slashing notifications under wallet,
  whatever the identifiers and amounts in them. But every slashing notification also appears under
  system, because \<open>slashed\<close> contains the letters of \<open>sla\<close>.\<close>

theorem categories_route_creators:
  "list_all (\<lambda>i. in_category CatJobs (new_notification now rnd i)) [jobCompleted j, jobFailed j why, jobRequeued j, slaBreach j] \<and>
   list_all (\<lambda>i. in_category CatNodes (new_notification now rnd i)) [nodeOnline n, nodeOffline n, nodeSlashed n a] \<and>
   list_all (\<lambda>i. in_category CatWallet (new_notification now rnd i))
     [walletConnected w, stakeSuccess a, unstakeInitiated a d, nodeSlashed n a] \<and>
   in_category CatSystem (new_notification now rnd (slaBreach j)) \<and>
   in_category CatSystem (new_notification now rnd (nodeSlashed n a))"
proof -
  have jobs: "in_category CatJobs (new_notification now rnd (slaBreach j))"
    by (rule category_of_text(2)[OF creator_fields(11) slaBreach_mentions_job])
  have job_titles: "in_category CatJobs (new_notification now rnd (jobCompleted j))"
    "in_category CatJobs (new_notification now rnd (jobFailed j why))"
    "in_category CatJobs (new_notification now rnd (jobRequeued j))"
    by (rule category_of_text(1); simp only: creator_fields title_words)+
  have nodes: "in_category CatNodes (new_notification now rnd (nodeOnline n))"
    "in_category CatNodes (new_notification now rnd (nodeOffline n))"
    "in_category CatNodes (new_notification now rnd (nodeSlashed n a))"
    by (rule category_of_text(3); simp only: creator_fields title_words)+
  have stakes: "in_category CatWallet (new_notification now rnd (stakeSuccess a))"
    "in_category CatWallet (new_notification now rnd (unstakeInitiated a d))"
    by (rule category_of_text(5); simp only: creator_fields title_words)+
  have wallet: "in_category CatWallet (new_notification now rnd (walletConnected w))"
    by (rule category_of_text(4); simp only: creator_fields title_words)
  have slash: "in_category CatWallet (new_notification now rnd (nodeSlashed n a))"
    by (rule category_of_text(6); simp only: creator_fields title_words)
  have system: "in_category CatSystem (new_notification now rnd (slaBreach j))"
    "in_category CatSystem (new_notification now rnd (nodeSlashed n a))"
    by (rule category_of_text(7); simp only: creator_fields title_words)+
  show ?thesis
    by (simp only: list.pred_inject simp_thms jobs job_titles nodes stakes wallet slash system)
qed

text \<open>Also: a category shows notifications of the store in their order, and adding a notification puts it
  first in the list and in the categories it belongs to, counted as unread.\<close>

theorem new_notification_first:
  "getNotificationsByCategory c (addNotification now rnd i s) =
     (if in_category c (new_notification now rnd i) then [new_notification now rnd i] else []) @
     getNotificationsByCategory c s \<and>
   unreadCount (addNotification now rnd i s) = unreadCount s + 1"
  by (simp add: getNotificationsByCategory_def addNotification_def in_category_def)

end
