(* ===== verification/UIStore.thy ===== *)
theory UIStore
  imports Domain
begin

text \<open>
  \<open>apps/web/src/stores/ui-store.ts\<close>: theme, sidebar, table and filter preferences, modal and mobile
  menu state, with the part that is persisted to local storage; the effective theme of
  \<open>components/providers/theme-provider.tsx\<close>. Zustand's \<open>persist\<close> merges the stored object over the
  initial state, which is \<open>ui_rehydrate\<close>.
\<close>

datatype theme = Dark | Light | System

datatype sidebar_view = Expanded | Collapsed | HiddenSidebar

datatype view_mode = TableMode | CardsMode

record ui_state =
  theme :: theme
  sidebarView :: sidebar_view
  sidebarCollapsed :: bool
  jobsViewMode :: view_mode
  nodesViewMode :: view_mode
  jobsPerPage :: int
  nodesPerPage :: int
  jobStatusFilter :: "string list"
  nodeStatusFilter :: "string list"
  activeModal :: "string option"
  mobileMenuOpen :: bool

definition ui_init :: ui_state where
  "ui_init = \<lparr>theme = Dark, sidebarView = Expanded, sidebarCollapsed = False,
     jobsViewMode = TableMode, nodesViewMode = TableMode, jobsPerPage = 25, nodesPerPage = 25,
     jobStatusFilter = [], nodeStatusFilter = [], activeModal = None, mobileMenuOpen = False\<rparr>"

datatype ui_event =
    SetTheme theme
  | SetSidebarView sidebar_view
  | ToggleSidebar
  | SetSidebarCollapsed bool
  | SetJobsViewMode view_mode
  | SetNodesViewMode view_mode
  | SetJobsPerPage int
  | SetNodesPerPage int
  | SetJobStatusFilter "string list"
  | SetNodeStatusFilter "string list"
  | OpenModal string
  | CloseUIModal
  | SetMobileMenuOpen bool
  | ToggleMobileMenu

definition toggleSidebar :: "ui_state \<Rightarrow> ui_state" where
  [handler_defs]: "toggleSidebar s =
     (if sidebarView s = Expanded then s\<lparr>sidebarView := Collapsed, sidebarCollapsed := True\<rparr>
      else if sidebarView s = Collapsed then s\<lparr>sidebarView := Expanded, sidebarCollapsed := False\<rparr>
      else s)"

fun ui_step :: "ui_event \<Rightarrow> ui_state \<Rightarrow> ui_state" where
  "ui_step (SetTheme t) s = s\<lparr>theme := t\<rparr>"
| "ui_step (SetSidebarView v) s = s\<lparr>sidebarView := v, sidebarCollapsed := (v = Collapsed)\<rparr>"
| "ui_step ToggleSidebar s = toggleSidebar s"
| "ui_step (SetSidebarCollapsed c) s =
     s\<lparr>sidebarCollapsed := c, sidebarView := (if c then Collapsed else Expanded)\<rparr>"
| "ui_step (SetJobsViewMode m) s = s\<lparr>jobsViewMode := m\<rparr>"
| "ui_step (SetNodesViewMode m) s = s\<lparr>nodesViewMode := m\<rparr>"
| "ui_step (SetJobsPerPage n) s = s\<lparr>jobsPerPage := n\<rparr>"
| "ui_step (SetNodesPerPage n) s = s\<lparr>nodesPerPage := n\<rparr>"
| "ui_step (SetJobStatusFilter f) s = s\<lparr>jobStatusFilter := f\<rparr>"
| "ui_step (SetNodeStatusFilter f) s = s\<lparr>nodeStatusFilter := f\<rparr>"
| "ui_step (OpenModal m) s = s\<lparr>activeModal := Some m\<rparr>"
| "ui_step CloseUIModal s = s\<lparr>activeModal := None\<rparr>"
| "ui_step (SetMobileMenuOpen b) s = s\<lparr>mobileMenuOpen := b\<rparr>"
| "ui_step ToggleMobileMenu s = s\<lparr>mobileMenuOpen := \<not> mobileMenuOpen s\<rparr>"

section \<open>Persistence\<close>

record ui_persisted =
  p_theme :: theme
  p_sidebarView :: sidebar_view
  p_jobsViewMode :: view_mode
  p_nodesViewMode :: view_mode
  p_jobsPerPage :: int
  p_nodesPerPage :: int

definition ui_partialize :: "ui_state \<Rightarrow> ui_persisted" where
  "ui_partialize s = \<lparr>p_theme = theme s, p_sidebarView = sidebarView s,
     p_jobsViewMode = jobsViewMode s, p_nodesViewMode = nodesViewMode s,
     p_jobsPerPage = jobsPerPage s, p_nodesPerPage = nodesPerPage s\<rparr>"

definition ui_rehydrate :: "ui_persisted \<Rightarrow> ui_state" where
  "ui_rehydrate p = ui_init\<lparr>theme := p_theme p, sidebarView := p_sidebarView p,
     jobsViewMode := p_jobsViewMode p, nodesViewMode := p_nodesViewMode p,
     jobsPerPage := p_jobsPerPage p, nodesPerPage := p_nodesPerPage p\<rparr>"

section \<open>The sidebar flag follows the sidebar view\<close>

definition sidebar_inv :: "ui_state \<Rightarrow> bool" where
  "sidebar_inv s \<longleftrightarrow> (sidebarCollapsed s \<longleftrightarrow> sidebarView s = Collapsed)"

interpretation ui: state_machine ui_step sidebar_inv ui_init
proof
  show "sidebar_inv ui_init" by (simp add: sidebar_inv_def ui_init_def)
  show "sidebar_inv (ui_step e s)" if "sidebar_inv s" for s e
    using that by (cases e) (auto simp: sidebar_inv_def handler_defs)
qed

lemma toggle_twice:
  "sidebar_inv s \<Longrightarrow> ui_step ToggleSidebar (ui_step ToggleSidebar s) = s"
  by (cases "sidebarView s") (auto simp: handler_defs sidebar_inv_def)

lemma rehydrate_partialize: "ui_partialize (ui_rehydrate p) = p"
  by (simp add: ui_partialize_def ui_rehydrate_def)

lemma rehydrate_sidebar_inv: "sidebar_inv (ui_rehydrate p) \<longleftrightarrow> p_sidebarView p \<noteq> Collapsed"
  by (simp add: sidebar_inv_def ui_rehydrate_def ui_init_def)

section \<open>The theme on the document\<close>

definition effectiveTheme :: "bool \<Rightarrow> theme \<Rightarrow> theme" where
  "effectiveTheme prefersDark t = (if t = System then (if prefersDark then Dark else Light) else t)"

text \<open>
  The theme provider as a machine: the attribute is written when the chosen theme changes and,
  while the choice is \<open>System\<close>, when the system preference changes.
\<close>

record theme_doc =
  chosen :: theme
  prefers_dark :: bool
  data_theme :: theme

datatype theme_event = Choose theme | PreferenceChange bool

fun theme_step :: "theme_event \<Rightarrow> theme_doc \<Rightarrow> theme_doc" where
  "theme_step (Choose t) d =
     (if t = chosen d then d
      else d\<lparr>chosen := t, data_theme := effectiveTheme (prefers_dark d) t\<rparr>)"
| "theme_step (PreferenceChange b) d =
     (if chosen d = System then d\<lparr>prefers_dark := b, data_theme := (if b then Dark else Light)\<rparr>
      else d\<lparr>prefers_dark := b\<rparr>)"

definition theme_mount :: "theme \<Rightarrow> bool \<Rightarrow> theme_doc" where
  "theme_mount t b = \<lparr>chosen = t, prefers_dark = b, data_theme = effectiveTheme b t\<rparr>"

definition theme_inv :: "theme_doc \<Rightarrow> bool" where
  "theme_inv d \<longleftrightarrow> data_theme d = effectiveTheme (prefers_dark d) (chosen d)"

interpretation theme_provider: state_machine theme_step theme_inv "theme_mount t b"
proof
  show "theme_inv (theme_mount t b)" by (simp add: theme_inv_def theme_mount_def)
  show "theme_inv (theme_step e s)" if "theme_inv s" for s e
    using that by (cases e) (auto simp: theme_inv_def effectiveTheme_def)
qed

lemma effectiveTheme_not_System: "effectiveTheme b t \<noteq> System"
  by (simp add: effectiveTheme_def)

section \<open>Properties\<close>

text \<open>Also: while the application runs, the collapsed flag the layout reads and the sidebar view never
  disagree, whatever sequence of actions is taken; after a reload they disagree exactly when the
  sidebar was left collapsed, because only the view is stored.\<close>

theorem sidebar_flag_and_reload:
  "let s = fold ui_step es ui_init in
     (sidebarCollapsed s \<longleftrightarrow> sidebarView s = Collapsed) \<and>
     (sidebar_inv (ui_rehydrate (ui_partialize s)) \<longleftrightarrow> sidebarView s \<noteq> Collapsed) \<and>
     ui_partialize (ui_rehydrate (ui_partialize s)) = ui_partialize s"
  using ui.inv_reachable[of es]
  by (simp add: Let_def sidebar_inv_def[of "fold ui_step es ui_init"] rehydrate_sidebar_inv rehydrate_partialize)
    (simp add: ui_partialize_def)

text \<open>Also: the theme attribute of the document always is the effective theme of the chosen theme and the
  system's preference, through any sequence of choices and preference changes, and is never the
  undefined value \<open>system\<close>.\<close>

theorem document_theme_effective:
  "let d = fold theme_step es (theme_mount t b) in
     data_theme d = effectiveTheme (prefers_dark d) (chosen d) \<and> data_theme d \<noteq> System"
  using theme_provider.inv_reachable[of es t b] effectiveTheme_not_System
  by (simp add: theme_inv_def Let_def)

end
