(* ===== verification/Connection.thy ===== *)
theory Connection
  imports Domain
begin

text \<open>
  The connection managers: \<open>lib/websocket.ts\<close> (\<open>WebSocketManager\<close>, the singleton
  \<open>getWebSocket\<close>, \<open>SSEManager\<close>) and \<open>hooks/use-sse.ts\<close> (\<open>useSSE\<close>). Sockets, event sources and
  timers belong to the browser; they are identified by numbers in the order of their creation, and
  their callbacks are events of the machines. Whether a constructor throws is part of the event.
\<close>

section \<open>Handler registry\<close>

text \<open>A \<open>Map\<close> of \<open>Set\<close>s of handlers: insertion ordered, without repetition. A handler is a number.\<close>

type_synonym registry = "(string \<times> nat list) list"

definition handlers_of :: "string \<Rightarrow> registry \<Rightarrow> nat list" where
  "handlers_of t r = (case map_of r t of Some hs \<Rightarrow> hs | None \<Rightarrow> [])"

definition subscribe :: "string \<Rightarrow> nat \<Rightarrow> registry \<Rightarrow> registry" where
  [handler_defs]: "subscribe t h r =
     (let r1 = (if t \<in> fst ` set r then r else r @ [(t, [])])
      in map (\<lambda>(u, hs). if u = t \<and> h \<notin> set hs then (u, hs @ [h]) else (u, hs)) r1)"

definition unsubscribe :: "string \<Rightarrow> nat \<Rightarrow> registry \<Rightarrow> registry" where
  [handler_defs]: "unsubscribe t h r =
     map (\<lambda>(u, hs). if u = t then (u, filter (\<lambda>g. g \<noteq> h) hs) else (u, hs)) r"

text \<open>
  \<open>onmessage\<close>: the handlers of the type get the payload, then the wildcard handlers get the whole
  message; one that throws ends the delivery, since the whole body is in one \<open>try\<close>. \<open>None\<close> is data
  that is not valid JSON. The result lists the handlers called, and whether with the payload.
\<close>

fun upto_thrower :: "(nat \<Rightarrow> bool) \<Rightarrow> (nat \<times> bool) list \<Rightarrow> (nat \<times> bool) list" where
  "upto_thrower throws [] = []"
| "upto_thrower throws (c # cs) = c # (if throws (fst c) then [] else upto_thrower throws cs)"

definition dispatch :: "(nat \<Rightarrow> bool) \<Rightarrow> registry \<Rightarrow> string option \<Rightarrow> (nat \<times> bool) list" where
  "dispatch throws r msg_type =
     (case msg_type of None \<Rightarrow> []
      | Some t \<Rightarrow> upto_thrower throws
          (map (\<lambda>h. (h, True)) (handlers_of t r) @ map (\<lambda>h. (h, False)) (handlers_of ''*'' r)))"

section \<open>\<open>WebSocketManager\<close>\<close>

datatype ready_state = CONNECTING | OPEN | CLOSING | CLOSED

record ws_manager =
  ws :: "nat option"
  ws_handlers :: registry
  reconnectAttempts :: nat
  reconnectTimeout :: "nat option"
  isIntentionallyClosed :: bool
  sockets :: "ready_state list"
  ws_timers :: "(nat \<times> int) list"
  next_timer :: nat

definition maxReconnectAttempts :: nat where "maxReconnectAttempts = 10"

definition reconnectDelay :: int where "reconnectDelay = 5000"

definition ws_new :: ws_manager where
  "ws_new = \<lparr>ws = None, ws_handlers = [], reconnectAttempts = 0, reconnectTimeout = None,
     isIntentionallyClosed = False, sockets = [], ws_timers = [], next_timer = 0\<rparr>"

definition ready :: "ws_manager \<Rightarrow> nat option \<Rightarrow> ready_state option" where
  "ready s w = (case w of None \<Rightarrow> None
     | Some k \<Rightarrow> if k < length (sockets s) then Some (sockets s ! k) else None)"

definition isConnected :: "ws_manager \<Rightarrow> bool" where
  "isConnected s \<longleftrightarrow> ready s (ws s) = Some OPEN"

definition clear_timeout :: "nat option \<Rightarrow> (nat \<times> int) list \<Rightarrow> (nat \<times> int) list" where
  "clear_timeout t ts = (case t of None \<Rightarrow> ts | Some k \<Rightarrow> filter (\<lambda>x. fst x \<noteq> k) ts)"

definition reconnect_delay :: "nat \<Rightarrow> int" where
  "reconnect_delay attempts = reconnectDelay * int (min attempts 5)"

definition scheduleReconnect :: "ws_manager \<Rightarrow> ws_manager" where
  [handler_defs]: "scheduleReconnect s =
     (if maxReconnectAttempts \<le> reconnectAttempts s then s
      else let n = reconnectAttempts s + 1 in
        s\<lparr>reconnectAttempts := n,
          ws_timers := clear_timeout (reconnectTimeout s) (ws_timers s) @ [(next_timer s, reconnect_delay n)],
          reconnectTimeout := Some (next_timer s),
          next_timer := next_timer s + 1\<rparr>)"

definition ws_connect :: "bool \<Rightarrow> ws_manager \<Rightarrow> ws_manager" where
  [handler_defs]: "ws_connect constructed s =
     (if isConnected s then s
      else let s1 = s\<lparr>isIntentionallyClosed := False\<rparr> in
        if constructed then s1\<lparr>ws := Some (length (sockets s)), sockets := sockets s @ [CONNECTING]\<rparr>
        else scheduleReconnect s1)"

definition ws_onclose :: "ws_manager \<Rightarrow> ws_manager" where
  [handler_defs]: "ws_onclose s = (if isIntentionallyClosed s then s else scheduleReconnect s)"

definition ws_disconnect :: "ws_manager \<Rightarrow> ws_manager" where
  [handler_defs]: "ws_disconnect s =
     (let s1 = s\<lparr>isIntentionallyClosed := True\<rparr>;
          s2 = (if reconnectTimeout s1 \<noteq> None
                then s1\<lparr>ws_timers := clear_timeout (reconnectTimeout s1) (ws_timers s1),
                        reconnectTimeout := None\<rparr>
                else s1)
      in case ws s2 of None \<Rightarrow> s2
         | Some k \<Rightarrow> s2\<lparr>sockets := (if k < length (sockets s2) \<and> sockets s2 ! k \<noteq> CLOSED
                                    then (sockets s2)[k := CLOSING] else sockets s2),
                        ws := None\<rparr>)"

text \<open>\<open>sent\<close> says whether \<open>ws.send\<close> succeeds; \<open>send\<close> answers whether the message went out.\<close>

definition ws_send :: "bool \<Rightarrow> ws_manager \<Rightarrow> bool" where
  "ws_send sent s \<longleftrightarrow> isConnected s \<and> sent"

datatype ws_event =
    WsConnect bool
  | WsDisconnect
  | WsSubscribe string nat
  | WsUnsubscribe string nat
  | SocketOpen nat
  | SocketClose nat
  | TimerFires nat bool

definition set_socket :: "nat \<Rightarrow> ready_state \<Rightarrow> ws_manager \<Rightarrow> ws_manager" where
  "set_socket k r s = s\<lparr>sockets := (sockets s)[k := r]\<rparr>"

fun ws_step :: "ws_event \<Rightarrow> ws_manager \<Rightarrow> ws_manager" where
  "ws_step (WsConnect c) s = ws_connect c s"
| "ws_step WsDisconnect s = ws_disconnect s"
| "ws_step (WsSubscribe t h) s = s\<lparr>ws_handlers := subscribe t h (ws_handlers s)\<rparr>"
| "ws_step (WsUnsubscribe t h) s = s\<lparr>ws_handlers := unsubscribe t h (ws_handlers s)\<rparr>"
| "ws_step (SocketOpen k) s = set_socket k OPEN s\<lparr>reconnectAttempts := 0\<rparr>"
| "ws_step (SocketClose k) s = ws_onclose (set_socket k CLOSED s)"
| "ws_step (TimerFires k c) s =
     ws_connect c (s\<lparr>ws_timers := filter (\<lambda>x. fst x \<noteq> k) (ws_timers s)\<rparr>)"

text \<open>What the browser does: sockets open once and close once, and only pending timers fire.\<close>

fun ws_ok :: "ws_event \<Rightarrow> ws_manager \<Rightarrow> bool" where
  "ws_ok (SocketOpen k) s = (k < length (sockets s) \<and> sockets s ! k = CONNECTING)"
| "ws_ok (SocketClose k) s = (k < length (sockets s) \<and> sockets s ! k \<noteq> CLOSED)"
| "ws_ok (TimerFires k c) s = (k \<in> fst ` set (ws_timers s))"
| "ws_ok _ s = True"

text \<open>\<open>getWebSocket\<close>: the first URL asked for is the one every later call gets.\<close>

definition getWebSocket :: "string \<Rightarrow> string option \<Rightarrow> string \<times> string option" where
  "getWebSocket url inst = (case inst of None \<Rightarrow> (url, Some url) | Some u \<Rightarrow> (u, Some u))"

section \<open>The manager's invariant\<close>

definition registry_ok :: "registry \<Rightarrow> bool" where
  "registry_ok r \<longleftrightarrow> distinct (map fst r) \<and> (\<forall>(t, hs) \<in> set r. distinct hs)"

definition ws_inv :: "ws_manager \<Rightarrow> bool" where
  "ws_inv s \<longleftrightarrow>
     reconnectAttempts s \<le> maxReconnectAttempts \<and>
     length (ws_timers s) \<le> 1 \<and>
     (\<forall>(k, d) \<in> set (ws_timers s). reconnectTimeout s = Some k \<and> 5000 \<le> d \<and> d \<le> 25000) \<and>
     (isIntentionallyClosed s \<longrightarrow> ws_timers s = [] \<and> ws s = None) \<and>
     registry_ok (ws_handlers s)"

lemma reconnect_delay_bounds: "0 < n \<Longrightarrow> 5000 \<le> reconnect_delay n \<and> reconnect_delay n \<le> 25000"
  by (auto simp: reconnect_delay_def reconnectDelay_def min_def)

lemma clear_own_timer:
  "\<forall>(k, d) \<in> set ts. t = Some k \<and> P d \<Longrightarrow> clear_timeout t ts = []"
  by (cases ts; cases t) (auto simp: clear_timeout_def filter_empty_conv)

lemma clear_timeout_Nil [simp]: "clear_timeout t [] = []"
  by (simp add: clear_timeout_def split: option.splits)

lemma map_fst_keep: "map fst (map (\<lambda>(u, hs). if P u hs then (u, f hs) else (u, hs)) r) = map fst r"
  by (induction r) auto

lemma registry_subscribe: "registry_ok r \<Longrightarrow> registry_ok (subscribe t h r)"
proof -
  assume r: "registry_ok r"
  let ?r1 = "if t \<in> fst ` set r then r else r @ [(t, [])]"
  have "registry_ok ?r1"
    using r by (auto simp: registry_ok_def)
  then have "registry_ok (map (\<lambda>(u, hs). if u = t \<and> h \<notin> set hs then (u, hs @ [h]) else (u, hs)) ?r1)"
    unfolding registry_ok_def map_fst_keep[where f = "\<lambda>hs. hs @ [h]"] by (auto split: if_splits)
  then show ?thesis by (simp add: subscribe_def Let_def)
qed

lemma registry_unsubscribe: "registry_ok r \<Longrightarrow> registry_ok (unsubscribe t h r)"
  unfolding registry_ok_def unsubscribe_def
    map_fst_keep[where P = "\<lambda>u _. u = t" and f = "\<lambda>hs. filter (\<lambda>g. g \<noteq> h) hs"]
  by (auto split: if_splits)

lemma scheduleReconnect_inv:
  "ws_inv s \<Longrightarrow> \<not> isIntentionallyClosed s \<Longrightarrow> ws_inv (scheduleReconnect s)"
proof -
  assume s: "ws_inv s" "\<not> isIntentionallyClosed s"
  have "clear_timeout (reconnectTimeout s) (ws_timers s) = []"
    by (rule clear_own_timer[where P = "\<lambda>d. 5000 \<le> d \<and> d \<le> 25000"]) (use s in \<open>simp add: ws_inv_def\<close>)
  then show ?thesis
    using s reconnect_delay_bounds[of "reconnectAttempts s + 1"]
    by (simp add: ws_inv_def scheduleReconnect_def Let_def)
qed

lemma ws_connect_inv: "ws_inv s \<Longrightarrow> ws_inv (ws_connect c s)"
  using scheduleReconnect_inv[of "s\<lparr>isIntentionallyClosed := False\<rparr>"]
  by (simp add: ws_connect_def Let_def ws_inv_def)

lemma ws_disconnect_inv: "ws_inv s \<Longrightarrow> ws_inv (ws_disconnect s)"
proof -
  assume s: "ws_inv s"
  have "clear_timeout (reconnectTimeout s) (ws_timers s) = []"
    by (rule clear_own_timer[where P = "\<lambda>d. 5000 \<le> d \<and> d \<le> 25000"]) (use s in \<open>simp add: ws_inv_def\<close>)
  moreover have "reconnectTimeout s = None \<Longrightarrow> ws_timers s = []"
    using s by (cases "ws_timers s") (auto simp: ws_inv_def)
  ultimately show ?thesis
    using s by (auto simp: ws_inv_def ws_disconnect_def Let_def split: option.splits)
qed

lemma ws_timer_fires_inv: "ws_inv s \<Longrightarrow> ws_inv (s\<lparr>ws_timers := filter P (ws_timers s)\<rparr>)"
  by (auto simp: ws_inv_def intro: le_trans[OF length_filter_le])

lemma ws_inv_step: "ws_inv s \<Longrightarrow> ws_inv (ws_step e s)"
proof (induction e)
  case (SocketClose k)
  then have "ws_inv (set_socket k CLOSED s)"
    by (simp add: set_socket_def ws_inv_def)
  then show ?case
    using scheduleReconnect_inv by (simp add: ws_onclose_def)
next
  case (SocketOpen k)
  then show ?case by (simp add: ws_inv_def set_socket_def)
next
  case (WsSubscribe t h)
  then show ?case by (simp add: ws_inv_def registry_subscribe)
next
  case (WsUnsubscribe t h)
  then show ?case by (simp add: ws_inv_def registry_unsubscribe)
qed (simp_all add: ws_connect_inv ws_disconnect_inv ws_timer_fires_inv)

interpretation ws: state_machine ws_step ws_inv ws_new
  by unfold_locales (auto simp: ws_inv_step, simp add: ws_inv_def ws_new_def registry_ok_def)

text \<open>Closed for good: no socket, no timer, and the close was intended.\<close>

definition ws_shut :: "nat \<Rightarrow> ws_manager \<Rightarrow> bool" where
  "ws_shut n s \<longleftrightarrow> isIntentionallyClosed s \<and> ws s = None \<and> ws_timers s = [] \<and> length (sockets s) = n"

lemma disconnect_shuts: "ws_inv s \<Longrightarrow> ws_shut (length (sockets s)) (ws_disconnect s)"
proof -
  assume "ws_inv s"
  then have "ws_inv (ws_disconnect s)" by (rule ws_disconnect_inv)
  moreover have "isIntentionallyClosed (ws_disconnect s)"
    "length (sockets (ws_disconnect s)) = length (sockets s)"
    by (auto simp: ws_disconnect_def Let_def split: option.splits)
  ultimately show ?thesis by (simp add: ws_shut_def ws_inv_def)
qed

fun is_connect :: "ws_event \<Rightarrow> bool" where
  "is_connect (WsConnect c) = True"
| "is_connect _ = False"

lemma shut_step: "ws_shut n s \<Longrightarrow> ws_ok e s \<Longrightarrow> \<not> is_connect e \<Longrightarrow> ws_shut n (ws_step e s)"
  by (cases e) (auto simp: ws_shut_def ws_disconnect_def ws_onclose_def set_socket_def Let_def)

lemma shut_run:
  "ws_shut n s \<Longrightarrow> legal_run ws_step ws_ok es s \<Longrightarrow> list_all (\<lambda>e. \<not> is_connect e) es \<Longrightarrow>
   ws_shut n (fold ws_step es s)"
  by (induction es arbitrary: s) (auto simp: shut_step)

text \<open>Between two successful openings, every scheduled reconnect counts as an attempt.\<close>

fun is_open_event :: "ws_event \<Rightarrow> bool" where
  "is_open_event (SocketOpen k) = True"
| "is_open_event _ = False"

lemma schedule_counts:
  "next_timer (scheduleReconnect s) + reconnectAttempts s =
   next_timer s + reconnectAttempts (scheduleReconnect s)"
  by (simp add: scheduleReconnect_def Let_def)

lemma connect_counts:
  "next_timer (ws_connect c s) + reconnectAttempts s = next_timer s + reconnectAttempts (ws_connect c s)"
  using schedule_counts[of "s\<lparr>isIntentionallyClosed := False\<rparr>"]
  by (simp add: ws_connect_def Let_def)

lemma step_counts:
  "\<not> is_open_event e \<Longrightarrow>
   next_timer (ws_step e s) + reconnectAttempts s = next_timer s + reconnectAttempts (ws_step e s)"
proof (induction e)
  case (SocketClose k)
  then show ?case
    using schedule_counts[of "set_socket k CLOSED s"] by (simp add: ws_onclose_def set_socket_def)
next
  case (TimerFires k c)
  then show ?case
    using connect_counts[of c "s\<lparr>ws_timers := filter (\<lambda>x. fst x \<noteq> k) (ws_timers s)\<rparr>"] by simp
next
  case WsDisconnect
  then show ?case by (auto simp: ws_disconnect_def Let_def split: option.splits)
qed (simp_all add: connect_counts)

lemma run_counts:
  "list_all (\<lambda>e. \<not> is_open_event e) es \<Longrightarrow>
   next_timer (fold ws_step es s) + reconnectAttempts s =
   next_timer s + reconnectAttempts (fold ws_step es s)"
proof (induction es arbitrary: s)
  case (Cons e es)
  from Cons.prems have "\<not> is_open_event e" "list_all (\<lambda>e. \<not> is_open_event e) es" by simp_all
  from step_counts[OF this(1), of s] Cons.IH[OF this(2), of "ws_step e s"] show ?case
    by simp
qed simp

section \<open>Delivery\<close>

lemma upto_thrower_all: "list_all (\<lambda>c. \<not> throws (fst c)) cs \<Longrightarrow> upto_thrower throws cs = cs"
  by (induction cs) auto

lemma handlers_subscribe:
  "set (handlers_of u (subscribe t h r)) = (if u = t then insert h (set (handlers_of t r)) else set (handlers_of u r))"
proof -
  let ?f = "\<lambda>(u, hs). if u = t \<and> h \<notin> set hs then (u, hs @ [h]) else (u, hs)"
  have upd: "map_of (map ?f q) t = map_option (\<lambda>hs. if h \<in> set hs then hs else hs @ [h]) (map_of q t)"
    for q :: registry by (induction q) auto
  have frame: "map_of (map ?f q) v = map_of q v" if "v \<noteq> t" for q :: registry and v
    using that by (induction q) auto
  let ?r1 = "if t \<in> fst ` set r then r else r @ [(t, [])]"
  have same: "handlers_of v ?r1 = handlers_of v r" for v
    by (simp add: handlers_of_def map_add_def split: option.splits)
  obtain hs where hs: "map_of ?r1 t = Some hs"
    by (cases "map_of ?r1 t") (auto simp: map_of_eq_None_iff split: if_splits)
  then have "handlers_of t r = hs"
    using same[of t] by (simp add: handlers_of_def)
  then show ?thesis
    using hs same[of u]
    by (cases "u = t") (auto simp: subscribe_def Let_def handlers_of_def upd frame)
qed

lemma handlers_unsubscribe:
  "handlers_of u (unsubscribe t h r) =
   (if u = t then filter (\<lambda>g. g \<noteq> h) (handlers_of t r) else handlers_of u r)"
proof -
  have "map_of (unsubscribe t h r) u =
      (if u = t then map_option (filter (\<lambda>g. g \<noteq> h)) (map_of r t) else map_of r u)"
    unfolding unsubscribe_def by (induction r) auto
  then show ?thesis by (auto simp: handlers_of_def split: option.splits)
qed

lemma handlers_distinct: "registry_ok r \<Longrightarrow> distinct (handlers_of t r)"
  by (auto simp: registry_ok_def handlers_of_def dest: map_of_SomeD split: option.splits)

section \<open>\<open>SSEManager\<close>\<close>

text \<open>
  Event sources are numbered; a closed one delivers nothing. A subscription is entered in the
  registry and, when a source exists, also attached to that source as an event listener; the
  function \<open>subscribe\<close> returns only undoes the first.
\<close>

record sse_manager =
  em_source :: "nat option"
  em_next :: nat
  em_handlers :: registry
  em_listeners :: "(nat \<times> string \<times> nat) list"

definition sse_new :: sse_manager where
  "sse_new = \<lparr>em_source = None, em_next = 0, em_handlers = [], em_listeners = []\<rparr>"

definition sse_connect :: "sse_manager \<Rightarrow> sse_manager" where
  [handler_defs]: "sse_connect s = s\<lparr>em_source := Some (em_next s), em_next := em_next s + 1\<rparr>"

definition sse_disconnect :: "sse_manager \<Rightarrow> sse_manager" where
  [handler_defs]: "sse_disconnect s = s\<lparr>em_source := None\<rparr>"

definition sse_subscribe :: "string \<Rightarrow> nat \<Rightarrow> sse_manager \<Rightarrow> sse_manager" where
  [handler_defs]: "sse_subscribe e h s =
     (let s1 = s\<lparr>em_handlers := subscribe e h (em_handlers s)\<rparr> in
      case em_source s1 of None \<Rightarrow> s1
      | Some k \<Rightarrow> s1\<lparr>em_listeners := em_listeners s1 @ [(k, e, h)]\<rparr>)"

definition sse_unsubscribe :: "string \<Rightarrow> nat \<Rightarrow> sse_manager \<Rightarrow> sse_manager" where
  [handler_defs]: "sse_unsubscribe e h s = s\<lparr>em_handlers := unsubscribe e h (em_handlers s)\<rparr>"

text \<open>The handlers that get the data of an event of source \<open>k\<close>; \<open>valid\<close>: the data is JSON.\<close>

definition sse_deliver :: "(nat \<Rightarrow> bool) \<Rightarrow> nat \<Rightarrow> string \<Rightarrow> bool \<Rightarrow> sse_manager \<Rightarrow> nat list" where
  "sse_deliver throws k e valid s =
     (if em_source s \<noteq> Some k \<or> \<not> valid then []
      else (if e = ''message''
            then map fst (upto_thrower throws (map (\<lambda>h. (h, True)) (handlers_of ''message'' (em_handlers s))))
            else []) @
           map (snd \<circ> snd) (filter (\<lambda>l. fst l = k \<and> fst (snd l) = e) (em_listeners s)))"

section \<open>\<open>useSSE\<close>\<close>

text \<open>
  Every run of the effect has its own \<open>mounted\<close> flag, so runs are numbered and \<open>run\<close> is the one
  that is mounted. \<open>live\<close> are the open event sources with the run that made them; a timer carries
  its run and its delay. The attempt counter is a ref and survives a new run of the effect.
\<close>

record sse_hook =
  run :: "nat option"
  next_run :: nat
  attempts :: nat
  eventSourceRef :: "nat option"
  next_source :: nat
  live :: "(nat \<times> nat) list"
  reconnectTimeoutRef :: "nat option"
  next_sse_timer :: nat
  sse_timers :: "(nat \<times> nat \<times> int) list"

definition sse_hook_init :: sse_hook where
  "sse_hook_init = \<lparr>run = None, next_run = 0, attempts = 0, eventSourceRef = None, next_source = 0,
     live = [], reconnectTimeoutRef = None, next_sse_timer = 0, sse_timers = []\<rparr>"

definition sse_maxReconnectAttempts :: nat where "sse_maxReconnectAttempts = 5"

definition sse_delay :: "nat \<Rightarrow> int" where
  "sse_delay n = min (1000 * 2 ^ n) 30000"

definition close_ref :: "sse_hook \<Rightarrow> sse_hook" where
  [handler_defs]: "close_ref s = (case eventSourceRef s of None \<Rightarrow> s
     | Some k \<Rightarrow> s\<lparr>live := filter (\<lambda>x. fst x \<noteq> k) (live s), eventSourceRef := None\<rparr>)"

definition hook_connect :: "nat \<Rightarrow> bool \<Rightarrow> sse_hook \<Rightarrow> sse_hook" where
  [handler_defs]: "hook_connect r constructed s =
     (if run s \<noteq> Some r \<or> \<not> constructed then s
      else s\<lparr>live := live s @ [(next_source s, r)], eventSourceRef := Some (next_source s),
             next_source := next_source s + 1\<rparr>)"

datatype sse_event =
    Effect bool bool
  | Cleanup
  | SourceOpen nat
  | SourceError nat
  | SseTimer nat bool

text \<open>An error of source \<open>k\<close>, which run \<open>r\<close> made.\<close>

definition hook_error :: "nat \<Rightarrow> nat \<Rightarrow> sse_hook \<Rightarrow> sse_hook" where
  [handler_defs]: "hook_error k r s =
     (if run s \<noteq> Some r then s
      else let s1 = s\<lparr>live := filter (\<lambda>x. fst x \<noteq> k) (live s)\<rparr> in
        if attempts s1 < sse_maxReconnectAttempts
        then s1\<lparr>attempts := attempts s1 + 1,
                sse_timers := sse_timers s1 @ [(next_sse_timer s1, r, sse_delay (attempts s1))],
                reconnectTimeoutRef := Some (next_sse_timer s1),
                next_sse_timer := next_sse_timer s1 + 1\<rparr>
        else s1)"

definition hook_cleanup :: "sse_hook \<Rightarrow> sse_hook" where
  [handler_defs]: "hook_cleanup s =
     close_ref (s\<lparr>run := None,
       sse_timers := (case reconnectTimeoutRef s of None \<Rightarrow> sse_timers s
                      | Some k \<Rightarrow> filter (\<lambda>x. fst x \<noteq> k) (sse_timers s))\<rparr>)"

fun sse_step :: "sse_event \<Rightarrow> sse_hook \<Rightarrow> sse_hook" where
  "sse_step (Effect enabled constructed) s =
     (if \<not> enabled then close_ref s
      else hook_connect (next_run s) constructed (s\<lparr>run := Some (next_run s), next_run := next_run s + 1\<rparr>))"
| "sse_step Cleanup s = hook_cleanup s"
| "sse_step (SourceOpen k) s =
     (case map_of (live s) k of
        Some r \<Rightarrow> if run s = Some r then s\<lparr>attempts := 0\<rparr> else s
      | None \<Rightarrow> s)"
| "sse_step (SourceError k) s =
     (case map_of (live s) k of Some r \<Rightarrow> hook_error k r s | None \<Rightarrow> s)"
| "sse_step (SseTimer k constructed) s =
     (case map_of (sse_timers s) k of
        Some (r, d) \<Rightarrow>
          (let s1 = s\<lparr>sse_timers := filter (\<lambda>x. fst x \<noteq> k) (sse_timers s)\<rparr> in
           if run s1 = Some r then hook_connect r constructed s1 else s1)
      | None \<Rightarrow> s)"

text \<open>React cleans a run up before the effect runs again.\<close>

fun sse_ok :: "sse_event \<Rightarrow> sse_hook \<Rightarrow> bool" where
  "sse_ok (Effect enabled constructed) s = (run s = None)"
| "sse_ok _ s = True"

definition sse_inv :: "sse_hook \<Rightarrow> bool" where
  "sse_inv s \<longleftrightarrow>
     attempts s \<le> sse_maxReconnectAttempts \<and>
     length (live s) + length (sse_timers s) \<le> 1 \<and>
     (\<forall>(k, r) \<in> set (live s). run s = Some r \<and> eventSourceRef s = Some k) \<and>
     (\<forall>(k, r, d) \<in> set (sse_timers s).
        run s = Some r \<and> reconnectTimeoutRef s = Some k \<and> 1000 \<le> d \<and> d \<le> 16000)"

lemma sse_delay_bounds: "n < 5 \<Longrightarrow> sse_delay n = 1000 * 2 ^ n \<and> 1000 \<le> sse_delay n \<and> sse_delay n \<le> 16000"
proof -
  assume "n < 5"
  then have "n = 0 \<or> n = 1 \<or> n = 2 \<or> n = 3 \<or> n = 4" by auto
  then show ?thesis by (auto simp: sse_delay_def)
qed

lemma sse_inv_run_None: "sse_inv s \<Longrightarrow> run s = None \<Longrightarrow> live s = [] \<and> sse_timers s = []"
  by (cases "live s"; cases "sse_timers s") (auto simp: sse_inv_def)

lemma sse_inv_cases:
  assumes "sse_inv s"
  obtains "live s = []" "sse_timers s = []"
  | k r where "live s = [(k, r)]" "sse_timers s = []" "run s = Some r" "eventSourceRef s = Some k"
  | k r d where "live s = []" "sse_timers s = [(k, r, d)]" "run s = Some r" "reconnectTimeoutRef s = Some k"
proof (cases "live s")
  case Nil
  show ?thesis
  proof (cases "sse_timers s")
    case (Cons t ts)
    with Nil assms have "ts = []" by (simp add: sse_inv_def)
    obtain k r d where "t = (k, r, d)" by (cases t)
    with Nil Cons \<open>ts = []\<close> assms show ?thesis by (intro that(3)) (auto simp: sse_inv_def)
  qed (use Nil that(1) in blast)
next
  case (Cons l ls)
  obtain k r where "l = (k, r)" by (cases l)
  with Cons assms show ?thesis by (intro that(2)) (auto simp: sse_inv_def)
qed

lemma sse_inv_step: "sse_inv s \<Longrightarrow> sse_ok e s \<Longrightarrow> sse_inv (sse_step e s)"
proof (induction e)
  case (Effect en c)
  with sse_inv_run_None[of s] show ?case
    by (simp add: close_ref_def hook_connect_def sse_inv_def split: option.splits)
next
  case Cleanup
  from Cleanup(1) show ?case
    by (cases rule: sse_inv_cases)
      (use Cleanup(1) in \<open>auto simp: hook_cleanup_def close_ref_def sse_inv_def split: option.splits\<close>)
next
  case (SourceOpen k)
  then show ?case by (auto simp: sse_inv_def split: option.splits)
next
  case (SourceError k)
  from SourceError(1) show ?case
    by (cases rule: sse_inv_cases)
      (use SourceError(1) sse_delay_bounds[of "attempts s"] in
        \<open>auto simp: hook_error_def sse_inv_def sse_maxReconnectAttempts_def Let_def\<close>)
next
  case (SseTimer k c)
  from SseTimer(1) show ?case
    by (cases rule: sse_inv_cases)
      (use SseTimer(1) in \<open>auto simp: hook_connect_def sse_inv_def Let_def\<close>)
qed

interpretation sse: guarded_machine sse_step sse_ok sse_inv sse_hook_init
  by unfold_locales
    (auto simp: sse_inv_step, simp add: sse_inv_def sse_hook_init_def)

section \<open>Giving up\<close>

text \<open>The events of a server that is gone: the open source fails, or a pending reconnect fires.\<close>

fun connection_lost :: "sse_event \<Rightarrow> sse_hook \<Rightarrow> bool" where
  "connection_lost (SourceError k) s \<longleftrightarrow> k \<in> fst ` set (live s)"
| "connection_lost (SseTimer k constructed) s \<longleftrightarrow> k \<in> fst ` set (sse_timers s)"
| "connection_lost _ s \<longleftrightarrow> False"

definition sse_fuel :: "sse_hook \<Rightarrow> nat" where
  "sse_fuel s = 2 * (sse_maxReconnectAttempts - attempts s) + length (live s) + 2 * length (sse_timers s)"

lemma connection_lost_decreases:
  "sse_inv s \<Longrightarrow> connection_lost e s \<Longrightarrow> sse_fuel (sse_step e s) < sse_fuel s"
proof (induction e)
  case (SourceError k)
  from SourceError(1) show ?case
    by (cases rule: sse_inv_cases)
      (use SourceError(2) in \<open>auto simp: hook_error_def sse_fuel_def Let_def\<close>)
next
  case (SseTimer k c)
  from SseTimer(1) show ?case
    by (cases rule: sse_inv_cases)
      (use SseTimer(2) in \<open>auto simp: hook_connect_def sse_fuel_def Let_def\<close>)
qed simp_all

lemma connection_lost_ok: "connection_lost e s \<Longrightarrow> sse_ok e s"
  by (cases e) simp_all

lemma lost_run_fuel:
  "sse_inv s \<Longrightarrow> legal_run sse_step connection_lost es s \<Longrightarrow>
   length es + sse_fuel (fold sse_step es s) \<le> sse_fuel s \<and> sse_inv (fold sse_step es s)"
proof (induction es arbitrary: s)
  case (Cons e es)
  then have "connection_lost e s" by simp
  with Cons show ?case
    using connection_lost_decreases[of s e] Cons.IH[of "sse_step e s"] sse_inv_step[of s e] connection_lost_ok
    by fastforce
qed simp

lemma sse_fuel_bound: "sse_inv s \<Longrightarrow> sse_fuel s \<le> 12"
proof -
  assume "sse_inv s"
  then have "length (live s) + length (sse_timers s) \<le> 1" by (simp add: sse_inv_def)
  moreover have "sse_maxReconnectAttempts - attempts s \<le> 5" by (simp add: sse_maxReconnectAttempts_def)
  ultimately show ?thesis unfolding sse_fuel_def by linarith
qed

lemma nothing_lost_idle:
  assumes "\<And>e. \<not> connection_lost e s"
  shows "live s = [] \<and> sse_timers s = []"
  using assms[of "SourceError (fst (hd (live s)))"] assms[of "SseTimer (fst (hd (sse_timers s))) True"]
  by (cases "live s"; cases "sse_timers s") auto

section \<open>Properties\<close>

text \<open>C4: the WebSocket manager reconnects a bounded number of times: in any sequence of events
  without a successful opening it schedules at most ten reconnects, never more than one is pending,
  and each waits between 5 and 25 seconds.\<close>

theorem ws_reconnects_bounded:
  assumes "list_all (\<lambda>e. \<not> is_open_event e) es"
  defines "s \<equiv> fold ws_step es ws_new"
  shows "next_timer s \<le> 10 \<and> length (ws_timers s) \<le> 1 \<and>
    (\<forall>(k, d) \<in> set (ws_timers s). 5000 \<le> d \<and> d \<le> 25000)"
proof -
  have "ws_inv s" unfolding s_def by (rule ws.inv_reachable)
  moreover have "next_timer s = reconnectAttempts s"
    using run_counts[OF assms(1), of ws_new] by (simp add: s_def ws_new_def)
  ultimately show ?thesis
    by (auto simp: ws_inv_def maxReconnectAttempts_def)
qed

theorem ws_reconnects_bounded_witness:
  "next_timer (fold ws_step [WsConnect True, SocketClose 0, TimerFires 0 False] ws_new) \<le> 10"
  using ws_reconnects_bounded[of "[WsConnect True, SocketClose 0, TimerFires 0 False]"] by simp

text \<open>Also: \<open>disconnect\<close> is final: from any reachable state of the manager, after \<open>disconnect\<close> the
  browser's events (late closes, timers) and further subscriptions neither open a socket nor leave
  a timer pending, until \<open>connect\<close> is called again.\<close>

theorem ws_disconnect_final:
  assumes "s = fold ws_step before ws_new"
    and "legal_run ws_step ws_ok es (ws_disconnect s)"
    and "list_all (\<lambda>e. \<not> is_connect e) es"
  shows "length (sockets (fold ws_step es (ws_disconnect s))) = length (sockets s) \<and>
    ws_timers (fold ws_step es (ws_disconnect s)) = [] \<and>
    \<not> isConnected (fold ws_step es (ws_disconnect s))"
proof -
  have "ws_inv s" unfolding assms(1) by (rule ws.inv_reachable)
  then have "ws_shut (length (sockets s)) (fold ws_step es (ws_disconnect s))"
    by (intro shut_run disconnect_shuts assms(2,3))
  then show ?thesis by (simp add: ws_shut_def isConnected_def ready_def)
qed

theorem ws_disconnect_final_witness:
  "ws_timers (fold ws_step [SocketClose 0]
     (ws_disconnect (fold ws_step [WsConnect True, SocketOpen 0] ws_new))) = []"
proof -
  have "legal_run ws_step ws_ok [SocketClose 0]
      (ws_disconnect (fold ws_step [WsConnect True, SocketOpen 0] ws_new))"
    by (simp add: ws_disconnect_def ws_connect_def ws_new_def isConnected_def ready_def set_socket_def)
  from ws_disconnect_final[OF refl this] show ?thesis by simp
qed



text \<open>C19: \<open>useSSE\<close> gives up on a server that is gone: from every state the hook can reach, the failures of
  sources and the reconnects they cause form a terminating process, of at most twelve events, and
  when no such event is left the hook holds neither a source nor a timer, so it stays silent.\<close>

theorem sse_gives_up:
  assumes "legal_run sse_step sse_ok before sse_hook_init"
  defines "s \<equiv> fold sse_step before sse_hook_init"
  shows "wf {(sse_step e t, t) |e t. sse_inv t \<and> connection_lost e t} \<and>
    (\<forall>es. legal_run sse_step connection_lost es s \<longrightarrow> length es \<le> 12 \<and>
       ((\<forall>e. \<not> connection_lost e (fold sse_step es s)) \<longrightarrow>
          live (fold sse_step es s) = [] \<and> sse_timers (fold sse_step es s) = []))"
proof -
  have inv: "sse_inv s" unfolding s_def by (rule sse.inv_legal_init) (rule assms(1))
  have "wf {(sse_step e t, t) |e t. sse_inv t \<and> connection_lost e t}"
    by (rule wf_subset[OF wf_measure[of sse_fuel]]) (auto simp: connection_lost_decreases)
  moreover have "length es \<le> 12" if "legal_run sse_step connection_lost es s" for es
    using lost_run_fuel[OF inv that] sse_fuel_bound[OF inv] by simp
  ultimately show ?thesis using nothing_lost_idle by blast
qed

theorem sse_gives_up_witness:
  "let s = fold sse_step [Effect True True] sse_hook_init in
     connection_lost (SourceError 0) s \<and>
     (\<forall>es. legal_run sse_step connection_lost es s \<longrightarrow> length es \<le> 12)"
proof -
  have ok: "legal_run sse_step sse_ok [Effect True True] sse_hook_init"
    by (simp add: sse_hook_init_def)
  have "connection_lost (SourceError 0) (fold sse_step [Effect True True] sse_hook_init)"
    by (simp add: sse_hook_init_def hook_connect_def)
  with sse_gives_up[OF ok] show ?thesis by (simp add: Let_def)
qed

text \<open>Also: in the WebSocket manager's registry, after subscribing a handler to a type it is called
  exactly once for a message of that type (when no handler throws), however often it was subscribed,
  and after unsubscribing it is no longer called.\<close>

theorem ws_delivers_once:
  assumes "registry_ok r" "t \<noteq> ''*''"
  shows "count_list (dispatch (\<lambda>_. False) (subscribe t h r) (Some t)) (h, True) = 1 \<and>
    count_list (dispatch (\<lambda>_. False) (unsubscribe t h r) (Some t)) (h, True) = 0"
proof -
  have all: "dispatch (\<lambda>_. False) q (Some t) =
      map (\<lambda>g. (g, True)) (handlers_of t q) @ map (\<lambda>g. (g, False)) (handlers_of ''*'' q)" for q
    by (simp add: dispatch_def upto_thrower_all list_all_iff)
  have none: "count_list (map (\<lambda>g. (g, False)) gs) (h, True) = 0" for gs
    by (induction gs) auto
  have payload: "count_list (map (\<lambda>g. (g, True)) gs) (h, True) = count_list gs h" for gs
    by (induction gs) auto
  have "h \<in> set (handlers_of t (subscribe t h r))" "distinct (handlers_of t (subscribe t h r))"
    by (simp_all add: handlers_subscribe handlers_distinct registry_subscribe assms(1))
  then have "count_list (handlers_of t (subscribe t h r)) h = 1"
    by (simp add: count_list_distinct)
  moreover have "count_list (handlers_of t (unsubscribe t h r)) h = 0"
    by (simp add: handlers_unsubscribe count_list_0_iff)
  ultimately show ?thesis by (simp add: all none payload)
qed

theorem ws_delivers_once_witness:
  "count_list (dispatch (\<lambda>_. False) (subscribe ''job'' 3 [(''job'', [3])]) (Some ''job'')) (3, True) = 1"
  using ws_delivers_once[of "[(''job'', [3])]" "''job''" 3] by (simp add: registry_ok_def)

text \<open>Also: the SSE manager does not undo a subscription made while it is connected: after
  unsubscribing, the handler still gets the events of its type, and a subscriber of \<open>message\<close> gets
  each message twice.\<close>

theorem sse_manager_leaks:
  assumes "em_source s = Some k"
  shows "h \<in> set (sse_deliver throws k e True (sse_unsubscribe e h (sse_subscribe e h s))) \<and>
    2 \<le> count_list (sse_deliver (\<lambda>_. False) k ''message'' True (sse_subscribe ''message'' h s)) h"
proof
  show "h \<in> set (sse_deliver throws k e True (sse_unsubscribe e h (sse_subscribe e h s)))"
    using assms by (simp add: sse_deliver_def sse_unsubscribe_def sse_subscribe_def Let_def)
  have "h \<in> set (handlers_of ''message'' (subscribe ''message'' h (em_handlers s)))"
    by (simp add: handlers_subscribe)
  then have "0 < count_list (handlers_of ''message'' (subscribe ''message'' h (em_handlers s))) h"
    by (simp add: count_list_0_iff neq0_conv[symmetric] del: neq0_conv)
  then show "2 \<le> count_list (sse_deliver (\<lambda>_. False) k ''message'' True (sse_subscribe ''message'' h s)) h"
    using assms
    by (simp add: sse_deliver_def sse_subscribe_def Let_def upto_thrower_all list_all_iff comp_def)
qed

theorem sse_manager_leaks_witness:
  "3 \<in> set (sse_deliver (\<lambda>_. False) 0 ''job'' True
     (sse_unsubscribe ''job'' 3 (sse_subscribe ''job'' 3 (sse_connect sse_new))))"
  using sse_manager_leaks[of "sse_connect sse_new" 0 3 "\<lambda>_. False" "''job''"]
  by (simp add: sse_connect_def sse_new_def)

end
