(* ===== verification/Spec2Isabelle.thy ===== *)
theory Spec2Isabelle
  imports SlaContract SlashContract RegistryContract ReputationContract SlashingViews ModalViews WizardViews AuthPages StakeFlow EscrowContract AnalyticsViews JobViews NodeViews ListPages Billing AdminDetails NodeApp WalletData Navigation Widgets Settings JobOutcome Dashboard NotificationStore UIStore Connection JobSubmission AdminSlashing Analytics AccountActions NodePages
begin

text \<open>
  Tentrist: a market for GPU compute. Clients submit jobs with service-level targets, operators stake
  collateral for their nodes and earn or are slashed. The repository holds the web application
  (\<open>apps/web\<close>), an application for node operators (\<open>apps/nodes\<close>), a marketing site, the Go backend, a
  telemetry agent, Solidity contracts and the database migrations. This development models the logic
  of the two TypeScript applications and the parts of the backend, the contracts and the migrations they
  talk to directly.

  \<^bold>\<open>How the program fits together.\<close> Pages are React components. Their data comes from hooks
  (\<open>apps/web/src/hooks\<close>), which query the database through \<open>lib/supabase.ts\<close>, map its rows and listen to
  realtime channels; what users do goes back through the same module, to the backend's REST interface, or
  as a contract call through \<open>lib/contracts.ts\<close>. Client state that several pages share is in stores
  (\<open>stores/\<close>, \<open>hooks/use-toast.ts\<close>).

  \<^bold>\<open>Theories, from the bottom.\<close>
  \<^item> \<open>Prelude\<close>: strings, numerals and the interfaces (locales) that several components implement: machines
    with an invariant (\<open>state_machine\<close>, \<open>guarded_machine\<close>), collections of records with a key
    (\<open>keyed_collection\<close>, \<open>keyed_store\<close>), bounded feeds, guarded forms, gradings. Every component interprets
    the ones it implements and its properties rest on the facts of the interpretation.
    \<open>JsValue\<close>: the numbers and values of JavaScript. \<open>Domain\<close>: statuses, tiers, constants
    (\<open>types/index.ts\<close>, \<open>lib/constants.ts\<close>, \<open>packages/shared-types\<close>).
  \<^item> \<open>Contracts\<close>, \<open>WalletModals\<close>, \<open>ModalViews\<close>: the contract interface (\<open>lib/contracts.ts\<close>, the ABI of
    \<open>Escrow.sol\<close>) and the stake and unstake forms, which are shown to send only calls that fit it.
  \<^item> \<open>EscrowContract\<close>: \<open>contracts/contracts/Escrow.sol\<close>, every external function with its modifiers, as
    transactions in which a paid address may call back into the contract; the invariants are interpretations of one
    locale (\<open>escrow_invariant\<close>). \<open>StakeFlow\<close>: the forms of the wallet page and the contract together.
    \<open>ReputationContract\<close>, \<open>RegistryContract\<close>, \<open>SlaContract\<close>: \<open>ReputationLedger.sol\<close>, \<open>NodeRegistry.sol\<close> and
    \<open>SLAContract.sol\<close>. \<open>SlashContract\<close>:
    \<open>SlashManager.sol\<close> and the escrow it slashes, in one world, with every payment as a point where the paid address may
    call either contract; the invariants are interpretations of \<open>manager_invariant\<close>.
  \<^item> \<open>Validation\<close>: the schemas of \<open>lib/validations.ts\<close> as data, with an interpreter of zod's checks.
  \<^item> \<open>NotificationStore\<close>, \<open>UIStore\<close>, \<open>ToastStore\<close>: the stores, as machines with their invariants.
  \<^item> \<open>Realtime\<close>, \<open>Connection\<close>: the realtime feeds, \<open>WebSocketManager\<close>, \<open>SSEManager\<close> and \<open>useSSE\<close>: bounds of
    feeds and reconnects, and that reconnecting ends.
  \<^item> \<open>Auth\<close>, \<open>AccountActions\<close>, \<open>WalletLink\<close>: route protection, sessions, signing in, onboarding, and
    linking a wallet, with the server's handlers (\<open>backend/internal/api/handlers/wallet_link.go\<close>); the
    service refines an abstract protocol of challenges. \<open>AuthPages\<close>: the pages for signing in and up and the card
    for linking a wallet.
  \<^item> \<open>Supabase\<close>: every function of \<open>lib/supabase.ts\<close> and \<open>lib/supabase-admin.ts\<close> as the query it builds and
    what it makes of the answer.
  \<^item> \<open>NodesData\<close>, \<open>JobsData\<close>, \<open>WalletData\<close>, \<open>Analytics\<close>: the data hooks and the lists, filters, counts and
    series computed from them.
  \<^item> \<open>JobSubmission\<close>, \<open>JobOutcome\<close>, \<open>NodePages\<close>, \<open>Dashboard\<close>, \<open>Settings\<close>, \<open>Billing\<close>, \<open>AdminTables\<close>,
    \<open>AdminDetails\<close>, \<open>AdminSlashing\<close>: the pages, as machines of their handlers and as functions from data to what is
    shown. \<open>ListPages\<close>, \<open>NodeViews\<close>, \<open>JobViews\<close>, \<open>WizardViews\<close>, \<open>AnalyticsViews\<close>, \<open>SlashingViews\<close>: what the larger of
    them show, and where rendering throws; \<open>WizardViews\<close> also has the base 64 by which the job wizard hands its form
    to the next page.
  \<^item> \<open>Navigation\<close>, \<open>Widgets\<close>: breadcrumbs, menus and the interface components with state.
  \<^item> \<open>NodeApp\<close>: the application for node operators.

  \<^bold>\<open>Conventions.\<close> A component's state is a record, each handler a function on it, and a run of the
  component folds its step function over a list of events, so a property about all runs quantifies over
  the list; \<open>legal_run\<close> restricts runs to what the browser allows (a disabled button is not clicked, a
  timer fires only when it was set). A handler that waits is cut at each \<open>await\<close> where something else may
  happen in between, and is one function of the answers otherwise. A handler that can throw returns a sum
  or option; what is sent outside is a list of effects. Groups of facts are collected in
  \<open>handler_defs\<close>, \<open>view_defs\<close> and \<open>string_defs\<close>. Properties are the theorems whose text has a number; the
  theorems after \<open>Also\<close> are of the same sort and support findings.

  \<^bold>\<open>Bounds.\<close> All functions are total; there is no fuel. The loops that could go on for ever (reconnecting)
  are steps of machines, and that they stop is a theorem (\<open>sse_gives_up\<close>). Numbers of JavaScript are
  rationals with NaN and infinities, so rounding of binary64 is not modelled; \<open>toFixed\<close> and \<open>Math.round\<close>
  are exact on rationals. Contract amounts are naturals in wei with the bounds of their ABI type; the depth of
  reentrant calls is that of the finite tree of calls a transaction is given.

  \<^bold>\<open>What the lemmas show.\<close> Invariants of every store and connection over all runs; that forms send only
  admissible requests; that the contracts hold what they owe, what locks and pauses do, and who can take what; that lists shown are exactly the matching rows in the chosen order; that counters
  partition the rows they count; round trips (login and return, breadcrumbs, the job's form in the URL); and, where the
  code contradicts itself, a theorem that states what it does.

  \<^bold>\<open>Outside the model\<close>, as arguments of the definitions: the database, the authentication service, random
  numbers, hashes and signature recovery, dates (parsing and formatting), the browser's layout.

  \<^bold>\<open>Not modelled.\<close> Markup and styling; charts drawn by libraries; the marketing and documentation pages,
  whose content is text; pages that only show constants of their source; the Go backend except wallet
  linking, the telemetry agent, the extension of the slash manager, and the migrations, which are written in other
  languages and are reached only through the interfaces modelled here.
\<close>

end
